(* ===== verification/Prelude.thy ===== *)
theory Prelude
  imports Main
begin

text \<open>
  Shared vocabulary of the development: identifiers, instants and money; the error values
  every refusal of the code becomes; a table of the database as a list of rows with the
  three statements the repositories use on it (select, update, insert); and the lemmas on
  tables that the component proofs share.

  A \<^verbatim>\<open>DomainException\<close> of \<^verbatim>\<open>src/src/common/errors/domain.exception.ts\<close> is a value of
  \<open>error\<close>: its constructor is the factory that built it (\<open>Validation\<close>, \<open>Conflict\<close>,
  \<open>NotFound\<close>, \<open>Forbidden\<close>, \<open>Unauthorized\<close>, \<open>InvalidField\<close>), its first argument the sentence shown (ASCII only, a hyphen for
  each dash, THB for the baht sign, a pair of braces where a value is interpolated) and its
  list the values interpolated.
  A constraint of the schema that refuses a statement is \<open>DbViolation\<close>; an exception
  nothing in the code raises on purpose (a property read of \<^verbatim>\<open>undefined\<close>, an INSERT without
  rows) is \<open>Uncaught\<close>.
\<close>

named_theorems table_simps \<open>facts on selects and updates of tables\<close>
named_theorems result_simps \<open>facts on error-or-value results\<close>

type_synonym ident = nat
type_synonym instant = int   \<comment> \<open>milliseconds, as \<^verbatim>\<open>Date.getTime()\<close>\<close>
type_synonym satang = int

section \<open>Errors\<close>

datatype arg = Num int | Txt string | Ids "nat list"

datatype db_constraint =
    uq_orders_org_reference | uq_orders_org_idem | ck_orders_seats | ck_orders_money
  | ck_order_items_qty | ck_ticket_types_sold | uq_seat_active | uq_seat_hold_active
  | ck_seat_holds_qty | uq_tickets_qr_token | uq_invoices_org_number | uq_invoices_live_order
  | ck_ticket_types_price | ck_ticket_types_free_price | uq_discount_codes_org_event_code
  | ck_discount_codes | uq_payouts_org_reference | uq_tax_periods_org_period
  | uq_events_org_slug | uq_seat_maps_event | uq_seats_position
  | fk_order_items_ticket_type | fk_tickets_ticket_type | fk_seat_assignments_seat
  | fk_orders_event | fk_tickets_event | fk_payments_event | fk_invoices_event | fk_check_ins_event
  | fk_scan_attempts_event | fk_discount_redemptions_code
  | uq_roles_org_name | uq_users_org_email_persona | fk_role_permissions_key | uq_organizations_slug | uq_organizations_name
  | uq_social_identities_subject | uq_recovery_codes | uq_speakers_event_email | uq_categories_org_name | ck_survey_answers_score | ck_sessions_time | uq_session_speakers | ck_meetings_times | uq_survey_responses_person | uq_survey_answers_question

text \<open>The SQLSTATE 23503: a statement that would leave rows pointing at nothing.\<close>

definition foreign_key_violation :: "db_constraint \<Rightarrow> bool" where
  "foreign_key_violation c = (c \<in> {fk_order_items_ticket_type, fk_tickets_ticket_type, fk_seat_assignments_seat,
     fk_orders_event, fk_tickets_event, fk_payments_event, fk_invoices_event, fk_check_ins_event,
     fk_scan_attempts_event, fk_discount_redemptions_code})"

datatype error =
    Validation string "arg list" | Conflict string "arg list" | NotFound string
  | Forbidden string | Unauthorized string | BadGateway string
  | InvalidField string string
  | EmailNotConfirmed string | AccountSuspended string | TooManyRequests string | ClaimLinkInvalid string
  | InternalError string
  | DbViolation db_constraint
  | RefundNoLongerPending
  | Uncaught

section \<open>Results\<close>

text \<open>
  A fallible call is \<open>error + 'a\<close>. \<open>bindE\<close> is the sequence of two calls: the first error
  ends it, as a thrown exception leaves a function.
\<close>

fun bindE :: "'e + 'a \<Rightarrow> ('a \<Rightarrow> 'e + 'b) \<Rightarrow> 'e + 'b" where
  "bindE (Inl e) f = Inl e"
| "bindE (Inr x) f = f x"

definition check :: "bool \<Rightarrow> 'e \<Rightarrow> 'e + unit" where
  "check b e = (if b then Inr () else Inl e)"

lemma bindE_Inr_iff [result_simps]: "bindE m f = Inr y \<longleftrightarrow> (\<exists>x. m = Inr x \<and> f x = Inr y)"
  by (cases m) auto

lemma bindE_Inl_iff: "bindE m f = Inl e \<longleftrightarrow> m = Inl e \<or> (\<exists>x. m = Inr x \<and> f x = Inl e)"
  by (cases m) auto

lemma check_Inr_iff [result_simps]: "check b e = Inr u \<longleftrightarrow> b"
  by (simp add: check_def)

lemma check_True [simp]: "check True e = Inr ()"
  and check_False [simp]: "check False e = Inl e"
  by (simp_all add: check_def)

text \<open>A loop that calls \<open>f\<close> on each element in turn, and \<^verbatim>\<open>xs.map(f)\<close> with an \<open>f\<close> that may throw.\<close>

fun forE :: "('a \<Rightarrow> 'e + unit) \<Rightarrow> 'a list \<Rightarrow> 'e + unit" where
  "forE f [] = Inr ()"
| "forE f (x # xs) = bindE (f x) (\<lambda>_. forE f xs)"

fun mapE :: "('a \<Rightarrow> 'e + 'b) \<Rightarrow> 'a list \<Rightarrow> 'e + 'b list" where
  "mapE f [] = Inr []"
| "mapE f (x # xs) = bindE (f x) (\<lambda>y. bindE (mapE f xs) (\<lambda>ys. Inr (y # ys)))"

lemma forE_Inr_iff [result_simps]: "forE f xs = Inr u \<longleftrightarrow> (\<forall>x\<in>set xs. f x = Inr ())"
  by (induction xs) (auto simp: bindE_Inr_iff)

lemma mapE_Inr_iff [result_simps]: "mapE f xs = Inr ys \<longleftrightarrow> list_all2 (\<lambda>x y. f x = Inr y) xs ys"
  by (induction xs arbitrary: ys) (auto simp: bindE_Inr_iff list_all2_Cons1)

text \<open>What a caller sees of a transaction that may fail: on an error nothing is committed.\<close>

definition committed :: "'d \<Rightarrow> 'e + ('r \<times> 'd) \<Rightarrow> 'd" where
  "committed d r = (case r of Inl _ \<Rightarrow> d | Inr (_, d') \<Rightarrow> d')"

lemma committed_Inl [simp]: "committed d (Inl e) = d"
  and committed_Inr [simp]: "committed d (Inr (x, d')) = d'"
  by (simp_all add: committed_def)

section \<open>Tables\<close>

text \<open>
  A table is the list of its rows, in insertion order. \<open>filter P\<close> is
  \<^verbatim>\<open>SELECT ... WHERE P\<close>, \<open>find P\<close> the same with \<^verbatim>\<open>LIMIT 1\<close>, \<open>upd P f\<close> is
  \<^verbatim>\<open>UPDATE ... SET f WHERE P\<close>, and appending is \<^verbatim>\<open>INSERT\<close>.
\<close>

definition upd :: "('r \<Rightarrow> bool) \<Rightarrow> ('r \<Rightarrow> 'r) \<Rightarrow> 'r list \<Rightarrow> 'r list" where
  "upd P f xs = map (\<lambda>r. if P r then f r else r) xs"

text \<open>
  A partial unique index: no two rows of the table that satisfy \<open>A\<close> share the key \<open>k\<close>.
\<close>

definition uniq :: "('r \<Rightarrow> bool) \<Rightarrow> ('r \<Rightarrow> 'k) \<Rightarrow> 'r list \<Rightarrow> bool" where
  "uniq A k xs = distinct (map k (filter A xs))"

lemma upd_Nil [simp]: "upd P f [] = []"
  and upd_Cons [simp]: "upd P f (x # xs) = (if P x then f x else x) # upd P f xs"
  and upd_append [simp]: "upd P f (xs @ ys) = upd P f xs @ upd P f ys"
  by (simp_all add: upd_def)

lemma length_upd [simp]: "length (upd P f xs) = length xs"
  by (simp add: upd_def)

lemma in_set_upd: "y \<in> set (upd P f xs) \<longleftrightarrow> (\<exists>x\<in>set xs. y = (if P x then f x else x))"
  by (auto simp: upd_def)

lemma upd_id: "(\<And>x. x \<in> set xs \<Longrightarrow> \<not> P x) \<Longrightarrow> upd P f xs = xs"
  by (induction xs) auto

lemma map_upd_key: "(\<And>x. x \<in> set xs \<Longrightarrow> P x \<Longrightarrow> k (f x) = k x) \<Longrightarrow> map k (upd P f xs) = map k xs"
  by (induction xs) auto

lemma filter_upd_outside:
  "(\<And>x. x \<in> set xs \<Longrightarrow> P x \<Longrightarrow> \<not> A x \<and> \<not> A (f x)) \<Longrightarrow> filter A (upd P f xs) = filter A xs"
  by (induction xs) auto

lemma uniq_Cons: "uniq A k (x # xs) \<longleftrightarrow> (A x \<longrightarrow> k x \<notin> k ` {y \<in> set xs. A y}) \<and> uniq A k xs"
  by (auto simp: uniq_def)

lemma uniq_Nil [simp]: "uniq A k []"
  by (simp add: uniq_def)

lemma uniq_upd:
  assumes "\<And>x. x \<in> set xs \<Longrightarrow> P x \<Longrightarrow> A (f x) \<Longrightarrow> A x \<and> k (f x) = k x" and "uniq A k xs"
  shows "uniq A k (upd P f xs)"
  using assms
proof (induction xs)
  case Nil
  then show ?case by simp
next
  case (Cons x xs)
  let ?g = "\<lambda>z. if P z then f z else z"
  have keep: "A z \<and> k (?g z) = k z" if "z \<in> set (x # xs)" "A (?g z)" for z
    using Cons.prems(1) [of z] that by (simp split: if_splits)
  have notin: "k (?g x) \<notin> k ` {y \<in> set (upd P f xs). A y}" if "A (?g x)"
  proof
    assume "k (?g x) \<in> k ` {y \<in> set (upd P f xs). A y}"
    then obtain z where z: "z \<in> set xs" "A (?g z)" "k (?g x) = k (?g z)"
      unfolding in_set_upd by blast
    then have "A z" "k x = k z" "A x" using keep [of z] keep [of x] that by auto
    with z(1) Cons.prems(2) show False by (auto simp: uniq_Cons)
  qed
  have "uniq A k (upd P f xs)"
    using Cons.IH Cons.prems by (simp add: uniq_Cons)
  with notin show ?case by (simp add: uniq_Cons)
qed

lemma uniq_append_iff:
  "uniq A k (xs @ ys) \<longleftrightarrow> uniq A k xs \<and> uniq A k ys \<and>
     k ` (set xs \<inter> Collect A) \<inter> k ` (set ys \<inter> Collect A) = {}"
  by (auto simp: uniq_def)

lemma uniqD:
  "uniq A k xs \<Longrightarrow> x \<in> set xs \<Longrightarrow> y \<in> set xs \<Longrightarrow> A x \<Longrightarrow> A y \<Longrightarrow> k x = k y \<Longrightarrow> x = y"
  by (auto simp: uniq_def distinct_map inj_on_def)

lemma find_SomeD: "find P xs = Some x \<Longrightarrow> x \<in> set xs \<and> P x"
  by (auto simp: find_Some_iff)

lemma find_NoneD: "find P xs = None \<Longrightarrow> x \<in> set xs \<Longrightarrow> \<not> P x"
  by (auto simp: find_None_iff)

lemma find_uniq:
  assumes "distinct (map k xs)" and "x \<in> set xs" and "P x"
    and "\<And>y. y \<in> set xs \<Longrightarrow> P y \<Longrightarrow> k y = k x"
  shows "find P xs = Some x"
proof -
  from assms(2,3) obtain y where y: "find P xs = Some y"
    by (metis find_None_iff not_Some_eq)
  then have "y \<in> set xs" "P y" by (auto dest: find_SomeD)
  with assms have "y = x" by (metis distinct_map inj_onD)
  with y show ?thesis by simp
qed

lemma find_append: "find P (xs @ ys) = (case find P xs of None \<Rightarrow> find P ys | Some x \<Rightarrow> Some x)"
  by (induction xs) auto

lemma find_upd:
  assumes "\<And>x. Q x \<Longrightarrow> P (f x) = P x"
  shows "find P (upd Q f xs) = map_option (\<lambda>x. if Q x then f x else x) (find P xs)"
  using assms by (induction xs) auto

text \<open>\<^verbatim>\<open>[...new Set(xs)]\<close>: the first occurrence of each element, in order.\<close>

definition dedupe :: "'a list \<Rightarrow> 'a list" where
  "dedupe xs = rev (remdups (rev xs))"

lemma set_dedupe [simp]: "set (dedupe xs) = set xs"
  and distinct_dedupe [simp]: "distinct (dedupe xs)"
  by (simp_all add: dedupe_def)

lemma dedupe_distinct [simp]: "distinct xs \<Longrightarrow> dedupe xs = xs"
  by (simp add: dedupe_def distinct_remdups_id)

lemma dedupe_Nil_iff [simp]: "dedupe xs = [] \<longleftrightarrow> xs = []"
  by (simp add: dedupe_def)

section \<open>Sums over tables\<close>

definition sum_of :: "('r \<Rightarrow> int) \<Rightarrow> 'r list \<Rightarrow> int" where
  "sum_of g xs = sum_list (map g xs)"

lemma sum_of_simps [simp]:
  "sum_of g [] = 0" "sum_of g (x # xs) = g x + sum_of g xs"
  "sum_of g (xs @ ys) = sum_of g xs + sum_of g ys"
  by (simp_all add: sum_of_def)

lemma sum_of_cong: "(\<And>x. x \<in> set xs \<Longrightarrow> g x = h x) \<Longrightarrow> sum_of g xs = sum_of h xs"
  unfolding sum_of_def by (metis map_cong)

lemma sum_of_nonneg: "(\<And>x. x \<in> set xs \<Longrightarrow> 0 \<le> g x) \<Longrightarrow> 0 \<le> sum_of g xs"
  by (induction xs) auto

lemma sum_of_mono: "(\<And>x. x \<in> set xs \<Longrightarrow> g x \<le> h x) \<Longrightarrow> sum_of g xs \<le> sum_of h xs"
  by (induction xs) (auto intro: add_mono)

lemma sum_of_zero: "(\<And>x. x \<in> set xs \<Longrightarrow> g x = 0) \<Longrightarrow> sum_of g xs = 0"
  by (induction xs) auto

lemma sum_of_upd: "sum_of g (upd P f xs) = sum_of (\<lambda>x. if P x then g (f x) else g x) xs"
  by (induction xs) auto

lemma sum_of_diff: "sum_of g xs - sum_of h xs = sum_of (\<lambda>x. g x - h x) xs"
  by (induction xs) auto

lemma sum_of_add: "sum_of g xs + sum_of h xs = sum_of (\<lambda>x. g x + h x) xs"
  by (induction xs) auto

lemma sum_of_filter: "sum_of g (filter P xs) = sum_of (\<lambda>x. if P x then g x else 0) xs"
  by (induction xs) auto

lemma sum_of_single:
  assumes "distinct (map k xs)" and "x \<in> set xs"
  shows "sum_of (\<lambda>y. if k y = k x then g y else 0) xs = g x"
  using assms
proof (induction xs)
  case (Cons z zs)
  show ?case
  proof (cases "x = z")
    case True
    with Cons.prems have "sum_of (\<lambda>y. if k y = k x then g y else 0) zs = 0"
      by (intro sum_of_zero) (force simp: image_iff)
    with True show ?thesis by simp
  next
    case False
    with Cons show ?thesis by (auto simp: image_iff)
  qed
qed simp

lemma length_filter_sum_of: "int (length (filter P xs)) = sum_of (\<lambda>x. if P x then 1 else 0) xs"
  by (induction xs) auto

section \<open>Numbers as text\<close>

text \<open>A number interpolated into a text, and the text read back (\<^verbatim>\<open>::int\<close>, \<^verbatim>\<open>Number(...)\<close>).\<close>

definition digit :: "nat \<Rightarrow> char" where
  "digit n = ''0123456789'' ! n"

fun digits :: "nat \<Rightarrow> string" where
  "digits n = (if n < 10 then [digit n] else digits (n div 10) @ [digit (n mod 10)])"

declare digits.simps [simp del]

definition digit_value :: "char \<Rightarrow> nat option" where
  "digit_value c = (let v = (of_char c :: nat) in if 48 \<le> v \<and> v \<le> 57 then Some (v - 48) else None)"

fun read_digits :: "nat \<Rightarrow> string \<Rightarrow> nat option" where
  "read_digits acc [] = Some acc"
| "read_digits acc (c # cs) =
     (case digit_value c of None \<Rightarrow> None | Some v \<Rightarrow> read_digits (acc * 10 + v) cs)"

definition read_nat :: "string \<Rightarrow> nat option" where
  "read_nat cs = (if cs = [] then None else read_digits 0 cs)"

lemma digit_value_digit [simp]: "n < 10 \<Longrightarrow> digit_value (digit n) = Some n"
  by (auto simp: digit_value_def digit_def Let_def less_Suc_eq numeral_eq_Suc)

lemma read_digits_append:
  "read_digits acc (xs @ ys) = (case read_digits acc xs of None \<Rightarrow> None | Some a \<Rightarrow> read_digits a ys)"
  by (induction xs arbitrary: acc) (auto split: option.splits)

lemma read_digits_digits: "read_digits 0 (digits n) = Some n"
proof (induction n rule: digits.induct)
  case (1 n)
  show ?case
  proof (cases "n < 10")
    case True
    then show ?thesis by (subst digits.simps) simp
  next
    case False
    then have "read_digits 0 (digits (n div 10)) = Some (n div 10)" using 1 by simp
    then show ?thesis using False
      by (subst digits.simps) (simp add: read_digits_append)
  qed
qed

lemma digits_not_Nil [simp]: "digits n \<noteq> []"
  by (subst digits.simps) simp

lemma read_digits_zeros [simp]: "read_digits 0 (replicate k CHR ''0'' @ cs) = read_digits 0 cs"
proof -
  have "read_digits 0 (replicate k CHR ''0'') = Some 0"
    by (induction k) (simp_all add: digit_value_def)
  then show ?thesis by (simp add: read_digits_append)
qed

lemma read_nat_digits [simp]: "read_nat (digits n) = Some n"
  by (simp add: read_nat_def read_digits_digits)

lemma digits_inject [simp]: "digits m = digits n \<longleftrightarrow> m = n"
  by (metis option.inject read_nat_digits)

lemma digits_are_digits: "c \<in> set (digits n) \<Longrightarrow> digit_value c \<noteq> None"
proof (induction n rule: digits.induct)
  case (1 n)
  then show ?case by (subst (asm) (2) digits.simps) (auto split: if_splits)
qed

end
