(* ===== verification/Schema.thy ===== *)
theory Schema
  imports Prelude
begin

text \<open>
  The database the services share: the enums of \<^verbatim>\<open>src/src/db/schema/enums.ts\<close> and the
  rows of \<^verbatim>\<open>registration.ts\<close>, \<^verbatim>\<open>events.ts\<close>, \<^verbatim>\<open>ticketing.ts\<close>, \<^verbatim>\<open>seating.ts\<close>, \<^verbatim>\<open>promotions.ts\<close>,
  \<^verbatim>\<open>payments.ts\<close>, \<^verbatim>\<open>finance.ts\<close>, \<^verbatim>\<open>checkin.ts\<close> and \<^verbatim>\<open>platform.ts\<close>, each a record with the columns the modelled code
  reads or writes, prefixed by the table. The database is one record of tables, so a
  transaction is a function on it. A serial or random primary key is \<open>d_next\<close>, a counter
  no row has used; \<open>d_clock\<close> is the clock of the database, which \<^verbatim>\<open>defaultNow()\<close> reads.
  \<^verbatim>\<open>updatedAt\<close>, \<^verbatim>\<open>createdAt\<close> and \<^verbatim>\<open>currency\<close> are left out: nothing modelled reads them.
\<close>

text \<open>A value of a \<^verbatim>\<open>date\<close> column is the number of the day, counted from 1970-01-01.\<close>

type_synonym date = int

section \<open>Enums\<close>

datatype order_status =
  OConfirmed | OPending | OWaitlisted | OCancelled | ORejected | OExpired
datatype payment_status = PPaid | PPending | PRefunded | PFailed
datatype issued_ticket_status = TIssued | TCheckedIn | TVoid | TRefunded | TTransferred
datatype hold_status = HActive | HConverted | HExpired | HReleased
datatype seat_status = SAvailable | SHeld | SReserved | SSold | SBlocked
datatype ticket_status = Onsale | Scheduled | Paused | Soldout
datatype admission_type = GeneralAdmission | ReservedSeat
datatype seating_mode = Reserved | Ga
datatype discount_type = Percent | Fixed
datatype discount_status = DActive | DScheduled | DExpired | DDisabled
datatype refund_status = RPending | RSucceeded | RFailed
datatype webhook_status = WReceived | WProcessed | WFailed
datatype scan_outcome = Admitted | AlreadyCheckedIn | WrongEvent | CancelledTicket | InvalidTicket
datatype invoice_status = IIssued | IPaid | IOverdue | IVoid
datatype event_type = Conference | Networking | Workshop | CharityGala | SportsWellness
  | ConcertFestival | Exhibition | Seminar
datatype event_bucket = BActive | BCompleted
datatype visibility = Private | Unlisted | Public
datatype template_id = Aurora | Noir | Minimal | Atlas
datatype event_status = Draft | Planned | Upcoming | Live | Completed | Cancelled

section \<open>Rows\<close>

record attendee_row =
  at_id :: ident
  at_org :: ident
  at_name :: string
  at_email :: string
  at_phone :: "string option"

record order_row =
  o_id :: ident
  o_org :: ident
  o_reference :: string
  o_event :: ident
  o_attendee :: "ident option"
  o_buyerName :: string
  o_buyerEmail :: string
  o_buyerPhone :: "string option"
  o_status :: order_status
  o_paymentStatus :: payment_status
  o_idempotencyKey :: "string option"
  o_seats :: int
  o_subtotal :: satang
  o_discountCode :: "ident option"
  o_discountAmount :: satang
  o_vatAmount :: satang
  o_total :: satang
  o_registeredAt :: instant
  o_confirmedAt :: "instant option"
  o_approvedAt :: "instant option"
  o_rejectedAt :: "instant option"
  o_decidedBy :: "ident option"
  o_rejectionReason :: "string option"
  o_offeredAt :: "instant option"
  o_offeredBy :: "ident option"
  o_offerExpiresAt :: "instant option"
  o_offerSkipped :: "int option"
  o_requiresApproval :: bool
  o_approvalRequestedAt :: "instant option"
  o_cancelledAt :: "instant option"
  o_createdBy :: "ident option"
  o_version :: nat

record item_row =
  oi_id :: ident
  oi_org :: ident
  oi_order :: ident
  oi_type :: ident
  oi_quantity :: int
  oi_unitPrice :: satang
  oi_lineSubtotal :: satang

record ticket_row =
  t_id :: ident
  t_org :: ident
  t_order :: ident
  t_item :: ident
  t_event :: ident
  t_type :: ident
  t_attendee :: "ident option"
  t_qrToken :: string
  t_holderName :: "string option"
  t_label :: "string option"
  t_status :: issued_ticket_status
  t_checkedInAt :: "instant option"

record assignment_row =
  sa_id :: ident
  sa_org :: ident
  sa_seat :: ident
  sa_ticket :: ident
  sa_releasedAt :: "instant option"

record hold_row =
  h_id :: ident
  h_org :: ident
  h_event :: ident
  h_order :: "ident option"
  h_type :: "ident option"
  h_seat :: "ident option"
  h_quantity :: int
  h_status :: hold_status
  h_expiresAt :: instant

record tier_row =
  tt_id :: ident
  tt_org :: ident
  tt_event :: ident
  tt_name :: string
  tt_isFree :: bool
  tt_price :: satang
  tt_status :: ticket_status
  tt_sold :: int
  tt_total :: int
  tt_salesStartAt :: "instant option"
  tt_salesEndAt :: "instant option"
  tt_minPerOrder :: int
  tt_maxPerOrder :: int
  tt_admission :: admission_type
  tt_iconClass :: "string option"
  tt_includes :: "string list option"
  tt_isRecommended :: bool
  tt_badge :: "string option"
  tt_deletedAt :: "instant option"
  tt_version :: nat

record event_row =
  evt_id :: ident
  evt_org :: ident
  evt_slug :: string
  evt_name :: string
  evt_description :: "string option"
  evt_type :: event_type
  evt_status :: event_status
  evt_requiresApproval :: bool
  evt_waitlistEnabled :: bool
  evt_bucket :: event_bucket
  evt_visibility :: visibility
  evt_category :: "ident option"
  evt_startAt :: instant
  evt_endAt :: "instant option"
  evt_timezone :: string
  evt_venueName :: "string option"
  evt_venueAddress :: "string option"
  evt_city :: "string option"
  evt_isOnline :: bool
  evt_onlineNote :: "string option"
  evt_seatingMode :: seating_mode
  evt_capacity :: "int option"
  evt_coverImage :: "string option"
  evt_accentColor :: "string option"
  evt_organizerName :: string
  evt_contactEmail :: "string option"
  evt_landing :: "template_id option"
  evt_publishedAt :: "instant option"
  evt_cancelledAt :: "instant option"
  evt_deletedAt :: "instant option"
  evt_createdBy :: "ident option"
  evt_version :: nat

record category_row =
  ct_id :: ident
  ct_org :: ident
  ct_name :: string
  ct_deletedAt :: "instant option"

record seat_map_row =
  sm_id :: ident
  sm_org :: ident
  sm_event :: ident
  sm_name :: string
  sm_layout :: "(int \<times> int) option"   \<comment> \<open>rows and seats per row\<close>
  sm_totalSeats :: int
  sm_deletedAt :: "instant option"

record seat_row =
  s_id :: ident
  s_org :: ident
  s_map :: ident
  s_section :: "string option"
  s_rowLabel :: "string option"
  s_seatNumber :: string
  s_type :: "ident option"
  s_status :: seat_status

record code_row =
  dc_id :: ident
  dc_org :: ident
  dc_event :: "ident option"
  dc_code :: string
  dc_type :: discount_type
  dc_value :: int
  dc_status :: discount_status
  dc_used :: int
  dc_redemptionLimit :: int
  dc_perPersonLimit :: int
  dc_minOrder :: satang
  dc_validFrom :: "instant option"
  dc_validUntil :: "instant option"
  dc_deletedAt :: "instant option"
  dc_version :: nat

record redemption_row =
  rd_org :: ident
  rd_code :: ident
  rd_order :: ident
  rd_buyerEmail :: string
  rd_amount :: satang

record payment_row =
  p_id :: ident
  p_org :: ident
  p_txn :: string
  p_payerName :: string
  p_order :: ident
  p_event :: ident
  p_method :: string
  p_amount :: satang
  p_status :: payment_status
  p_paidAt :: "instant option"
  p_gatewayRef :: "string option"
  p_gatewayAccount :: "string option"
  p_idempotencyKey :: string

record refund_row =
  r_id :: ident
  r_org :: ident
  r_payment :: ident
  r_order :: ident
  r_amount :: satang
  r_reason :: "string option"
  r_status :: refund_status
  r_issuedBy :: ident
  r_issuedAt :: instant
  r_settledAt :: "instant option"
  r_gatewayRef :: "string option"
  r_idempotencyKey :: string

record invoice_row =
  iv_id :: ident
  iv_org :: ident
  iv_number :: string
  iv_order :: ident
  iv_event :: ident
  iv_buyerName :: string
  iv_buyerEmail :: string
  iv_issuedAt :: date
  iv_dueAt :: date
  iv_subtotal :: satang
  iv_vatAmount :: satang
  iv_amount :: satang
  iv_status :: invoice_status
  iv_paidVia :: "string option"
  iv_paidOn :: "date option"
  iv_voidedAt :: "instant option"
  iv_voidReason :: "string option"
  iv_voidedBy :: "ident option"

record webhook_row =
  w_provider :: string
  w_eventId :: string
  w_status :: webhook_status
  w_org :: "ident option"

record check_in_row =
  ci_org :: ident
  ci_event :: ident
  ci_ticket :: ident
  ci_attendee :: "ident option"
  ci_checkedInAt :: instant
  ci_method :: string
  ci_checkedInBy :: ident
  ci_station :: "string option"

record scan_row =
  sc_org :: ident
  sc_event :: ident
  sc_outcome :: scan_outcome
  sc_method :: string
  sc_ticket :: "ident option"
  sc_ticketEvent :: "ident option"
  sc_tokenFingerprint :: "string option"
  sc_station :: "string option"
  sc_scannedBy :: ident
  sc_scannedAt :: instant

record audit_row =
  au_org :: ident
  au_type :: string
  au_title :: string
  au_meta :: "string option"
  au_actor :: ident

text \<open>
  The messages written to the transactional outbox, by routing key, with the parts of the
  payload that the modelled code computes.
\<close>

datatype outbox_event =
    RegistrationConfirmed (ev_org: ident) (ev_order: ident) (ev_ticketCount: int)
      (ev_total: satang) (ev_paid: bool)
  | PaymentRefundRequired (ev_org: ident) (ev_order: ident) (ev_amount: satang)
      (ev_reason: string)
  | RegistrationRejected (ev_org: ident) (ev_order: ident) (ev_rejection: "string option")
  | WaitlistOffered (ev_org: ident) (ev_order: ident) (ev_expires: instant)
  | EventPublished (ev_org: ident) (ev_event: ident) (ev_slug: string) (ev_name: string) (ev_by: ident) (ev_at: instant)
  | EventCancelled (ev_org: ident) (ev_event: ident) (ev_slug: string) (ev_name: string) (ev_reason: string)
      (ev_by: ident) (ev_at: instant)

record db =
  d_clock :: instant
  d_next :: ident
  d_attendees :: "attendee_row list"
  d_orders :: "order_row list"
  d_items :: "item_row list"
  d_tickets :: "ticket_row list"
  d_assignments :: "assignment_row list"
  d_holds :: "hold_row list"
  d_tiers :: "tier_row list"
  d_events :: "event_row list"
  d_categories :: "category_row list"
  d_maps :: "seat_map_row list"
  d_seats :: "seat_row list"
  d_codes :: "code_row list"
  d_redemptions :: "redemption_row list"
  d_payments :: "payment_row list"
  d_refunds :: "refund_row list"
  d_webhooks :: "webhook_row list"
  d_invoices :: "invoice_row list"
  d_checkIns :: "check_in_row list"
  d_scans :: "scan_row list"
  d_audits :: "audit_row list"
  d_outbox :: "outbox_event list"

type_synonym 'r tx = "error + ('r \<times> db)"

text \<open>
  A service call runs several transactions one after another. Its result is the value or
  the error it throws, and the database as it then is: what an earlier transaction
  committed stays, also when a later step throws.
\<close>

type_synonym 'r svc = "(error + 'r) \<times> db"

definition in_tx :: "(db \<Rightarrow> 'r tx) \<Rightarrow> db \<Rightarrow> 'r svc" where
  "in_tx t d = (case t d of Inl e \<Rightarrow> (Inl e, d) | Inr (r, d') \<Rightarrow> (Inr r, d'))"

fun bindS :: "'r svc \<Rightarrow> ('r \<Rightarrow> db \<Rightarrow> 's svc) \<Rightarrow> 's svc" where
  "bindS (Inl e, d) f = (Inl e, d)"
| "bindS (Inr x, d) f = f x d"

lemma in_tx_Inr_iff [result_simps]: "in_tx t d = (Inr r, d') \<longleftrightarrow> t d = Inr (r, d')"
  by (auto simp: in_tx_def split: sum.splits)

lemma in_tx_Inl_iff: "in_tx t d = (Inl e, d') \<longleftrightarrow> t d = Inl e \<and> d' = d"
  by (auto simp: in_tx_def split: sum.splits)

lemma bindS_Inr_iff [result_simps]:
  "bindS m f = (Inr y, d') \<longleftrightarrow> (\<exists>x d1. m = (Inr x, d1) \<and> f x d1 = (Inr y, d'))"
  by (cases "(m, f)" rule: bindS.cases) auto

definition empty_db :: db where
  "empty_db = \<lparr>d_clock = 0, d_next = 1, d_attendees = [], d_orders = [], d_items = [],
     d_tickets = [], d_assignments = [], d_holds = [], d_tiers = [], d_events = [], d_categories = [], d_maps = [], d_seats = [],
     d_codes = [], d_redemptions = [], d_payments = [], d_refunds = [], d_webhooks = [], d_invoices = [],
     d_checkIns = [], d_scans = [], d_audits = [], d_outbox = []\<rparr>"

text \<open>
  A \<^verbatim>\<open>citext\<close> column compares without regard to case. Only the ASCII letters are folded
  here; a \<open>char\<close> of the model is a byte.
\<close>

definition lower :: "char \<Rightarrow> char" where
  "lower c = (if 65 \<le> (of_char c :: nat) \<and> (of_char c :: nat) \<le> 90
     then char_of ((of_char c :: nat) + 32) else c)"

definition ci_eq :: "string \<Rightarrow> string \<Rightarrow> bool" where
  "ci_eq a b = (map lower a = map lower b)"

lemma ci_eq_refl [simp]: "ci_eq a a"
  and ci_eq_sym: "ci_eq a b \<Longrightarrow> ci_eq b a"
  and ci_eq_trans: "ci_eq a b \<Longrightarrow> ci_eq b c \<Longrightarrow> ci_eq a c"
  by (simp_all add: ci_eq_def)

section \<open>Tables a component may change\<close>

text \<open>
  The part of the database the checkout's inventory rules speak of. Code that runs inside
  another component's transaction (a ledger write, a redemption) leaves it alone.
\<close>

definition inventory ::
  "db \<Rightarrow> order_row list \<times> item_row list \<times> ticket_row list \<times> assignment_row list \<times> hold_row list
    \<times> tier_row list \<times> seat_map_row list \<times> seat_row list \<times> ident" where
  "inventory d = (d_orders d, d_items d, d_tickets d, d_assignments d, d_holds d, d_tiers d,
     d_maps d, d_seats d, d_next d)"

lemma inventory_eqD:
  assumes "inventory d = inventory d'"
  shows "d_orders d = d_orders d'" "d_items d = d_items d'" "d_tickets d = d_tickets d'"
    "d_assignments d = d_assignments d'" "d_holds d = d_holds d'" "d_tiers d = d_tiers d'"
    "d_maps d = d_maps d'" "d_seats d = d_seats d'" "d_next d = d_next d'"
  using assms by (simp_all add: inventory_def)

text \<open>
  The interface of such code: \<open>hook\<close> runs inside a transaction and may fail, which rolls
  the transaction back; when it does not, the inventory is as it found it.
\<close>

locale tx_hook =
  fixes hook :: "db \<Rightarrow> error + db"
  assumes hook_frame: "hook d = Inr d' \<Longrightarrow> inventory d' = inventory d"
begin

lemma hook_orders: "hook d = Inr d' \<Longrightarrow> d_orders d' = d_orders d"
  and hook_tickets: "hook d = Inr d' \<Longrightarrow> d_tickets d' = d_tickets d"
  and hook_tiers: "hook d = Inr d' \<Longrightarrow> d_tiers d' = d_tiers d"
  and hook_holds: "hook d = Inr d' \<Longrightarrow> d_holds d' = d_holds d"
  by (auto dest: hook_frame inventory_eqD)

end

text \<open>The ledger hook of an approval, which moves no money, is the trivial instance.\<close>

definition no_payment :: "db \<Rightarrow> error + db" where
  "no_payment d = Inr d"

interpretation approval_hook: tx_hook no_payment
  by unfold_locales (simp add: no_payment_def)

end
