(* ===== verification/SeatHolds.thy ===== *)
theory SeatHolds
  imports Schema
begin

text \<open>
  The seat-hold engine: \<^verbatim>\<open>registration/seat-hold.repository.ts\<close>, the reservation
  transactions over seats, tiers and holds; \<^verbatim>\<open>ticket-eligibility.policy.ts\<close>, what may be
  sold now; and \<^verbatim>\<open>seat-hold.service.ts\<close>, which composes the two. Each transaction takes
  the row locks it needs before it reads, so it is a function on the database; the two
  partial unique indexes it relies on are checked where it inserts.
\<close>

section \<open>Rows and conditions\<close>

definition ACTIVE :: hold_status where "ACTIVE = HActive"

definition MAX_SEATS_PER_BOOKING :: int where "MAX_SEATS_PER_BOOKING = 8"

definition MS_PER_SECOND :: int where "MS_PER_SECOND = 1000"

definition holds_seat :: "hold_row \<Rightarrow> ident list \<Rightarrow> bool" where
  "holds_seat h ids = (case h_seat h of None \<Rightarrow> False | Some s \<Rightarrow> s \<in> set ids)"

definition active_seat_hold :: "hold_row \<Rightarrow> bool" where
  "active_seat_hold h = (h_status h = HActive \<and> h_seat h \<noteq> None)"

definition live_assignment :: "assignment_row \<Rightarrow> bool" where
  "live_assignment a = (sa_releasedAt a = None)"

text \<open>
  The partial unique indexes \<^verbatim>\<open>uq_seat_hold_active\<close> (one active hold for a seat) and
  \<^verbatim>\<open>uq_seat_active\<close> (one live assignment for a seat).
\<close>

definition seat_hold_index :: "hold_row list \<Rightarrow> bool" where
  "seat_hold_index hs = uniq active_seat_hold h_seat hs"

definition seat_active_index :: "assignment_row list \<Rightarrow> bool" where
  "seat_active_index as = uniq live_assignment sa_seat as"

text \<open>
  An INSERT under such an index refuses the whole statement when a row would break it, and
  an UPDATE that cannot make a row match the index keeps it. The interface an index gives
  its table:
\<close>

locale unique_index =
  fixes matches :: "'r \<Rightarrow> bool" and key :: "'r \<Rightarrow> 'k" and index_ok :: "'r list \<Rightarrow> bool"
  assumes index_def: "index_ok xs = uniq matches key xs"
begin

lemma index_update:
  assumes "\<And>x. x \<in> set xs \<Longrightarrow> P x \<Longrightarrow> matches (f x) \<Longrightarrow> matches x \<and> key (f x) = key x"
    and "index_ok xs"
  shows "index_ok (upd P f xs)"
  using uniq_upd [of xs P matches f key] assms unfolding index_def by blast

lemma index_one:
  "index_ok xs \<Longrightarrow> x \<in> set xs \<Longrightarrow> y \<in> set xs \<Longrightarrow> matches x \<Longrightarrow> matches y \<Longrightarrow> key x = key y \<Longrightarrow> x = y"
  unfolding index_def by (rule uniqD)

lemma index_insert:
  "index_ok (xs @ ys) \<longleftrightarrow> index_ok xs \<and> index_ok ys \<and>
     key ` (set xs \<inter> Collect matches) \<inter> key ` (set ys \<inter> Collect matches) = {}"
  unfolding index_def by (rule uniq_append_iff)

end

interpretation hold_index: unique_index active_seat_hold h_seat seat_hold_index
  by unfold_locales (simp add: seat_hold_index_def)

interpretation assign_index: unique_index live_assignment sa_seat seat_active_index
  by unfold_locales (simp add: seat_active_index_def)

section \<open>The queries and updates of the repository\<close>

datatype hold_seats_result = HeldSeats "hold_row list" | UnavailableSeats "ident list"
datatype hold_quantity_result = HeldQuantity hold_row | OnlyAvailable int

definition eventByMap :: "db \<Rightarrow> ident \<Rightarrow> ident list \<Rightarrow> ident \<Rightarrow> ident option" where
  "eventByMap d org mapIds m =
     map_option sm_event (find (\<lambda>r. sm_org r = org \<and> sm_id r \<in> set (dedupe mapIds) \<and> sm_id r = m)
       (d_maps d))"

definition expireLapsedForSeats :: "ident \<Rightarrow> ident list \<Rightarrow> instant \<Rightarrow> db \<Rightarrow> db" where
  "expireLapsedForSeats org ids now d = d\<lparr>d_holds :=
     upd (\<lambda>h. h_org h = org \<and> holds_seat h ids \<and> h_status h = ACTIVE \<and> h_expiresAt h \<le> now)
       (\<lambda>h. h\<lparr>h_status := HExpired\<rparr>) (d_holds d)\<rparr>"

definition expireLapsedForTier :: "ident \<Rightarrow> ident \<Rightarrow> instant \<Rightarrow> db \<Rightarrow> db" where
  "expireLapsedForTier org tier now d = d\<lparr>d_holds :=
     upd (\<lambda>h. h_org h = org \<and> h_type h = Some tier \<and> h_status h = ACTIVE \<and> h_expiresAt h \<le> now)
       (\<lambda>h. h\<lparr>h_status := HExpired\<rparr>) (d_holds d)\<rparr>"

definition activeHeldSeatIds :: "ident \<Rightarrow> ident list \<Rightarrow> db \<Rightarrow> ident option list" where
  "activeHeldSeatIds org ids d = map h_seat
     (filter (\<lambda>h. h_org h = org \<and> holds_seat h ids \<and> h_status h = ACTIVE) (d_holds d))"

definition assignedSeatIds :: "ident \<Rightarrow> ident list \<Rightarrow> db \<Rightarrow> ident list" where
  "assignedSeatIds org ids d = map sa_seat
     (filter (\<lambda>a. sa_org a = org \<and> sa_seat a \<in> set ids \<and> sa_releasedAt a = None)
       (d_assignments d))"

definition activeHeldQuantity :: "ident \<Rightarrow> ident \<Rightarrow> db \<Rightarrow> int" where
  "activeHeldQuantity org tier d = sum_of h_quantity
     (filter (\<lambda>h. h_org h = org \<and> h_type h = Some tier \<and> h_status h = ACTIVE) (d_holds d))"

definition new_seat_hold ::
  "ident \<Rightarrow> ident \<Rightarrow> ident \<Rightarrow> instant \<Rightarrow> ident option \<Rightarrow> nat \<times> ident \<Rightarrow> hold_row" where
  "new_seat_hold org event tier expires orderId = (\<lambda>(n, seat).
     \<lparr>h_id = n, h_org = org, h_event = event, h_order = orderId, h_type = Some tier,
      h_seat = Some seat, h_quantity = 1, h_status = ACTIVE, h_expiresAt = expires\<rparr>)"

text \<open>Why a seat cannot be held, as the filter of \<^verbatim>\<open>holdSeats\<close> decides it.\<close>

definition seat_unavailable :: "db \<Rightarrow> ident \<Rightarrow> ident \<Rightarrow> ident list \<Rightarrow> ident \<Rightarrow> bool" where
  "seat_unavailable d org event ids i =
     (let locked = filter (\<lambda>s. s_org s = org \<and> s_id s \<in> set ids) (d_seats d)
      in case find (\<lambda>s. s_id s = i) locked of
           None \<Rightarrow> True
         | Some s \<Rightarrow> eventByMap d org (map s_map locked) (s_map s) \<noteq> Some event
             \<or> s_status s \<noteq> SAvailable
             \<or> Some i \<in> set (activeHeldSeatIds org ids d)
             \<or> i \<in> set (assignedSeatIds org ids d))"

definition holdSeats ::
  "ident \<Rightarrow> ident \<Rightarrow> ident \<Rightarrow> ident list \<Rightarrow> instant \<Rightarrow> instant \<Rightarrow> ident option \<Rightarrow> db
    \<Rightarrow> hold_seats_result tx" where
  "holdSeats org event tier seatIds expires now orderId d =
     (let ids = dedupe seatIds in
      if ids = [] then Inr (UnavailableSeats [], d)
      else
        let d1 = expireLapsedForSeats org ids now d;
            unavailable = filter (seat_unavailable d1 org event ids) ids
        in if unavailable \<noteq> [] then Inr (UnavailableSeats unavailable, d1)
           else
             let holds = map (new_seat_hold org event tier expires orderId)
                   (enumerate (d_next d1) ids);
                 d2 = d1\<lparr>d_holds := d_holds d1 @ holds, d_next := d_next d1 + length ids\<rparr>
             in if seat_hold_index (d_holds d2) then Inr (HeldSeats holds, d2)
                else Inl (DbViolation uq_seat_hold_active))"

definition holdQuantity ::
  "ident \<Rightarrow> ident \<Rightarrow> ident \<Rightarrow> int \<Rightarrow> instant \<Rightarrow> instant \<Rightarrow> ident option \<Rightarrow> db
    \<Rightarrow> hold_quantity_result tx" where
  "holdQuantity org event tier quantity expires now orderId d =
     (if quantity < 1 then Inr (OnlyAvailable 0, d)
      else case find (\<lambda>t. tt_id t = tier \<and> tt_org t = org \<and> tt_event t = event
                       \<and> tt_deletedAt t = None) (d_tiers d) of
        None \<Rightarrow> Inr (OnlyAvailable 0, d)
      | Some t \<Rightarrow>
          let d1 = expireLapsedForTier org tier now d;
              held = activeHeldQuantity org tier d1;
              available = max 0 (tt_total t - tt_sold t - held)
          in if quantity > available then Inr (OnlyAvailable available, d1)
             else
               let hold = \<lparr>h_id = d_next d1, h_org = org, h_event = event, h_order = orderId,
                     h_type = Some tier, h_seat = None, h_quantity = quantity,
                     h_status = ACTIVE, h_expiresAt = expires\<rparr>
               in Inr (HeldQuantity hold,
                    d1\<lparr>d_holds := d_holds d1 @ [hold], d_next := d_next d1 + 1\<rparr>))"

text \<open>
  The seat map as the buyer sees it. The two left joins find at most one row each, by the
  indexes above. The \<^verbatim>\<open>ORDER BY\<close> only arranges the rows for display; the model returns
  them in table order.
\<close>

record checkout_seat =
  cs_id :: ident
  cs_section :: "string option"
  cs_rowLabel :: "string option"
  cs_seatNumber :: string
  cs_ticketTypeId :: "ident option"
  cs_available :: bool

definition seatsForEvent :: "ident \<Rightarrow> ident \<Rightarrow> instant \<Rightarrow> ident list \<Rightarrow> db \<Rightarrow> checkout_seat list" where
  "seatsForEvent org event now ownHoldIds d =
     map (\<lambda>s. \<lparr>cs_id = s_id s, cs_section = s_section s, cs_rowLabel = s_rowLabel s,
            cs_seatNumber = s_seatNumber s, cs_ticketTypeId = s_type s,
            cs_available = (s_status s = SAvailable
              \<and> \<not> list_ex (\<lambda>h. h_seat h = Some (s_id s) \<and> h_status h = ACTIVE
                     \<and> h_expiresAt h > now \<and> h_id h \<notin> set ownHoldIds) (d_holds d)
              \<and> \<not> list_ex (\<lambda>a. sa_seat a = s_id s \<and> sa_releasedAt a = None) (d_assignments d))\<rparr>)
       (filter (\<lambda>s. s_org s = org \<and> list_ex (\<lambda>m. sm_id m = s_map s \<and> sm_event m = event) (d_maps d))
         (d_seats d))"

definition ticketTypeIdsForSeats :: "ident \<Rightarrow> ident \<Rightarrow> ident list \<Rightarrow> db \<Rightarrow> ident list" where
  "ticketTypeIdsForSeats org event seatIds d =
     dedupe (List.map_filter s_type
       (filter (\<lambda>s. s_org s = org \<and> s_id s \<in> set (dedupe seatIds)
          \<and> list_ex (\<lambda>m. sm_id m = s_map s \<and> sm_event m = event) (d_maps d)) (d_seats d)))"

definition on_live_map :: "db \<Rightarrow> ident \<Rightarrow> seat_row \<Rightarrow> bool" where
  "on_live_map d event s =
     list_ex (\<lambda>m. sm_id m = s_map s \<and> sm_event m = event \<and> sm_deletedAt m = None) (d_maps d)"

definition seatsByTicketType :: "ident \<Rightarrow> ident \<Rightarrow> db \<Rightarrow> ident \<Rightarrow> nat option" where
  "seatsByTicketType org event d tier =
     (let n = length (filter (\<lambda>s. s_org s = org \<and> on_live_map d event s \<and> s_type s = Some tier)
                (d_seats d))
      in if n = 0 then None else Some n)"

definition seatsOfTicketTypeIn :: "ident \<Rightarrow> ident \<Rightarrow> db \<Rightarrow> nat" where
  "seatsOfTicketTypeIn org tier d =
     length (filter (\<lambda>s. s_org s = org \<and> s_type s = Some tier
       \<and> list_ex (\<lambda>m. sm_id m = s_map s \<and> sm_deletedAt m = None) (d_maps d)) (d_seats d))"

definition eventsWithTypedSeats :: "ident \<Rightarrow> ident list \<Rightarrow> db \<Rightarrow> ident set" where
  "eventsWithTypedSeats org eventIds d =
     set (filter (\<lambda>e. list_ex (\<lambda>s. s_org s = org \<and> on_live_map d e s \<and> s_type s \<noteq> None) (d_seats d))
       eventIds)"

definition hasActiveHolds :: "ident \<Rightarrow> ident \<Rightarrow> instant \<Rightarrow> db \<Rightarrow> bool" where
  "hasActiveHolds org tier now d =
     list_ex (\<lambda>h. h_org h = org \<and> h_type h = Some tier \<and> h_status h = HActive \<and> h_expiresAt h > now)
       (d_holds d)"

definition occupiedSeatIdsIn :: "ident \<Rightarrow> ident list \<Rightarrow> instant \<Rightarrow> db \<Rightarrow> ident set" where
  "occupiedSeatIdsIn org ids now d =
     (if ids = [] then {}
      else set (List.map_filter h_seat
             (filter (\<lambda>h. h_org h = org \<and> holds_seat h ids \<and> h_status h = ACTIVE
                \<and> h_expiresAt h > now) (d_holds d)))
           \<union> set (assignedSeatIds org ids d))"

definition release :: "ident \<Rightarrow> ident list \<Rightarrow> db \<Rightarrow> db" where
  "release org holdIds d =
     (if holdIds = [] then d
      else d\<lparr>d_holds := upd (\<lambda>h. h_org h = org \<and> h_id h \<in> set holdIds \<and> h_status h = ACTIVE)
        (\<lambda>h. h\<lparr>h_status := HReleased\<rparr>) (d_holds d)\<rparr>)"

definition releaseUnattached :: "ident \<Rightarrow> ident list \<Rightarrow> db \<Rightarrow> db" where
  "releaseUnattached org holdIds d =
     (if holdIds = [] then d
      else d\<lparr>d_holds := upd (\<lambda>h. h_org h = org \<and> h_id h \<in> set holdIds \<and> h_status h = ACTIVE
              \<and> h_order h = None)
        (\<lambda>h. h\<lparr>h_status := HReleased\<rparr>) (d_holds d)\<rparr>)"

definition expireStale :: "ident \<Rightarrow> instant \<Rightarrow> db \<Rightarrow> nat \<times> db" where
  "expireStale org now d =
     (let P = (\<lambda>h. h_org h = org \<and> h_status h = ACTIVE \<and> h_expiresAt h \<le> now)
      in (length (filter P (d_holds d)),
          d\<lparr>d_holds := upd P (\<lambda>h. h\<lparr>h_status := HExpired\<rparr>) (d_holds d)\<rparr>))"

section \<open>Frames\<close>

named_theorems hold_defs \<open>definitions of the hold queries and updates\<close>

lemmas [hold_defs] = expireLapsedForSeats_def expireLapsedForTier_def release_def
  releaseUnattached_def expireStale_def

lemma expire_index:
  "seat_hold_index (d_holds d) \<Longrightarrow> seat_hold_index (d_holds (expireLapsedForSeats org ids now d))"
  "seat_hold_index (d_holds d) \<Longrightarrow> seat_hold_index (d_holds (expireLapsedForTier org tier now d))"
  "seat_hold_index (d_holds d) \<Longrightarrow> seat_hold_index (d_holds (release org hs d))"
  "seat_hold_index (d_holds d) \<Longrightarrow> seat_hold_index (d_holds (releaseUnattached org hs d))"
  "seat_hold_index (d_holds d) \<Longrightarrow> seat_hold_index (d_holds (snd (expireStale org now d)))"
  by (auto simp: hold_defs Let_def active_seat_hold_def intro!: hold_index.index_update)

lemma holdQuantity_cases:
  assumes "holdQuantity org event tier quantity expires now orderId d = Inr (HeldQuantity h, d')"
  obtains t where "t \<in> set (d_tiers d)" "tt_id t = tier" "tt_org t = org" "tt_event t = event"
    "tt_deletedAt t = None" "1 \<le> quantity"
    "quantity \<le> tt_total t - tt_sold t - activeHeldQuantity org tier (expireLapsedForTier org tier now d)"
    "h = \<lparr>h_id = d_next d, h_org = org, h_event = event, h_order = orderId, h_type = Some tier,
       h_seat = None, h_quantity = quantity, h_status = HActive, h_expiresAt = expires\<rparr>"
    "d' = (expireLapsedForTier org tier now d)
       \<lparr>d_holds := d_holds (expireLapsedForTier org tier now d) @ [h], d_next := d_next d + 1\<rparr>"
  using assms
  by (auto simp: holdQuantity_def Let_def ACTIVE_def expireLapsedForTier_def
      split: if_splits option.splits dest!: find_SomeD)

lemma holdSeats_HeldD:
  assumes "holdSeats org event tier seatIds expires now orderId d = Inr (HeldSeats hs, d')"
  shows "d' = (expireLapsedForSeats org (dedupe seatIds) now d)
      \<lparr>d_holds := d_holds (expireLapsedForSeats org (dedupe seatIds) now d) @ hs,
       d_next := d_next d + length (dedupe seatIds)\<rparr>"
    and "hs = map (new_seat_hold org event tier expires orderId) (enumerate (d_next d) (dedupe seatIds))"
    and "\<forall>i\<in>set seatIds. \<not> seat_unavailable (expireLapsedForSeats org (dedupe seatIds) now d)
           org event (dedupe seatIds) i"
    and "seat_hold_index (d_holds d')" and "seatIds \<noteq> []"
  using assms
  by (auto simp: holdSeats_def Let_def filter_empty_conv expireLapsedForSeats_def split: if_splits)

lemma holdSeats_UnavailableD:
  assumes "holdSeats org event tier seatIds expires now orderId d = Inr (UnavailableSeats u, d')"
  shows "set u \<subseteq> set seatIds" and "u = [] \<longrightarrow> seatIds = []"
    and "d' = d \<or> d' = expireLapsedForSeats org (dedupe seatIds) now d"
  using assms by (auto simp: holdSeats_def Let_def split: if_splits)

lemma new_seat_hold_fields [simp]:
  "map h_seat (map (new_seat_hold org event tier expires orderId) (enumerate n ids)) = map Some ids"
  "map h_id (map (new_seat_hold org event tier expires orderId) (enumerate n ids)) = [n ..< n + length ids]"
  by (induction ids arbitrary: n) (auto simp: new_seat_hold_def upt_rec)

lemma new_seat_hold_in:
  "h \<in> set (map (new_seat_hold org event tier expires orderId) (enumerate n ids)) \<Longrightarrow>
     h_org h = org \<and> h_event h = event \<and> h_order h = orderId \<and> h_type h = Some tier
   \<and> h_quantity h = 1 \<and> h_status h = HActive \<and> h_expiresAt h = expires
   \<and> (\<exists>i\<in>set ids. h_seat h = Some i)"
  by (auto simp: new_seat_hold_def ACTIVE_def enumerate_eq_zip dest: set_zip_rightD)

text \<open>A seat of the workspace that is for sale and that no live assignment has taken.\<close>

definition seat_free :: "db \<Rightarrow> ident \<Rightarrow> ident \<Rightarrow> bool" where
  "seat_free d org i =
     ((\<exists>s\<in>set (d_seats d). s_id s = i \<and> s_org s = org \<and> s_status s = SAvailable)
      \<and> \<not> (\<exists>a\<in>set (d_assignments d). sa_org a = org \<and> sa_seat a = i \<and> sa_releasedAt a = None))"

lemma not_unavailableD:
  assumes "\<not> seat_unavailable d org event ids i" and "i \<in> set ids"
  shows "seat_free d org i"
proof -
  let ?locked = "filter (\<lambda>s. s_org s = org \<and> s_id s \<in> set ids) (d_seats d)"
  from assms obtain s where "find (\<lambda>s. s_id s = i) ?locked = Some s" "s_status s = SAvailable"
    "i \<notin> set (assignedSeatIds org ids d)"
    unfolding seat_unavailable_def Let_def by (auto split: option.splits)
  then have "s \<in> set (d_seats d) \<and> s_id s = i \<and> s_org s = org \<and> s_status s = SAvailable"
    and free: "i \<notin> set (assignedSeatIds org ids d)"
    by (auto dest!: find_SomeD)
  moreover have "sa_seat a \<noteq> i"
    if "a \<in> set (d_assignments d)" "sa_org a = org" "sa_releasedAt a = None" for a
    using free that assms(2) unfolding assignedSeatIds_def by force
  ultimately show ?thesis unfolding seat_free_def by blast
qed

section \<open>Correctness of the engine\<close>

text \<open>
  C30. A quantity is held only where it fits: after a successful hold the tier's sold places
  and all its active holds, the new one included, are within its allocation; no ticket of
  the tier was sold by it; and the hold is the buyer's, of exactly the quantity asked.
\<close>

theorem hold_quantity_never_oversells:
  assumes "holdQuantity org event tier quantity expires now orderId d = Inr (HeldQuantity h, d')"
  shows "(\<exists>t\<in>set (d_tiers d'). tt_id t = tier \<and> tt_org t = org
            \<and> tt_sold t + activeHeldQuantity org tier d' \<le> tt_total t)
    \<and> h \<in> set (d_holds d') \<and> h_quantity h = quantity \<and> 1 \<le> quantity \<and> h_order h = orderId
    \<and> d_tiers d' = d_tiers d \<and> d_tickets d' = d_tickets d"
  using assms
proof (rule holdQuantity_cases)
  fix t
  let ?e = "expireLapsedForTier org tier now d"
  assume t: "t \<in> set (d_tiers d)" "tt_id t = tier" "tt_org t = org"
    and q: "1 \<le> quantity" "quantity \<le> tt_total t - tt_sold t - activeHeldQuantity org tier ?e"
    and h: "h = \<lparr>h_id = d_next d, h_org = org, h_event = event, h_order = orderId,
       h_type = Some tier, h_seat = None, h_quantity = quantity, h_status = HActive,
       h_expiresAt = expires\<rparr>"
    and d': "d' = ?e\<lparr>d_holds := d_holds ?e @ [h], d_next := d_next d + 1\<rparr>"
  have "activeHeldQuantity org tier d' = activeHeldQuantity org tier ?e + quantity"
    by (simp add: d' h activeHeldQuantity_def ACTIVE_def)
  with q(2) have "tt_sold t + activeHeldQuantity org tier d' \<le> tt_total t" by simp
  moreover have "d_tiers d' = d_tiers d" "d_tickets d' = d_tickets d"
    by (simp_all add: d' expireLapsedForTier_def)
  ultimately show ?thesis using t q h d' by auto
qed

text \<open>
  Reserving seats is all or nothing. Held: one active hold for each seat asked, each of
  them a free, unassigned seat of this event until that moment, and the index that forbids
  a second active hold of a seat still stands. Refused: the seats that blocked the request
  are named, no hold becomes active and nothing else changes.
\<close>

theorem hold_seats_all_or_nothing:
  assumes "holdSeats org event tier seatIds expires now orderId d = Inr (r, d')"
  shows "case r of
      HeldSeats hs \<Rightarrow> map h_seat hs = map Some (dedupe seatIds)
        \<and> set (d_holds d') \<supseteq> set hs \<and> seat_hold_index (d_holds d')
        \<and> (\<forall>h\<in>set hs. h_status h = HActive \<and> h_type h = Some tier \<and> h_expiresAt h = expires)
        \<and> (\<forall>i\<in>set seatIds. seat_free d org i)
    | UnavailableSeats u \<Rightarrow> set u \<subseteq> set seatIds \<and> (u = [] \<longrightarrow> seatIds = [])
        \<and> (\<forall>h\<in>set (d_holds d'). h_status h = HActive \<longrightarrow> h \<in> set (d_holds d))
        \<and> d\<lparr>d_holds := d_holds d'\<rparr> = d'"
proof (cases r)
  case (HeldSeats hs)
  let ?e = "expireLapsedForSeats org (dedupe seatIds) now d"
  note held = holdSeats_HeldD [OF assms [unfolded HeldSeats]]
  have "map h_seat hs = map Some (dedupe seatIds)"
    unfolding held(2) by (rule new_seat_hold_fields)
  moreover have "\<forall>h\<in>set hs. h_status h = HActive \<and> h_type h = Some tier \<and> h_expiresAt h = expires"
    unfolding held(2) using new_seat_hold_in by blast
  moreover have "\<forall>i\<in>set seatIds. seat_free d org i"
    using held(3) not_unavailableD [of ?e org event "dedupe seatIds"]
    by (simp add: seat_free_def expireLapsedForSeats_def assignedSeatIds_def)
  moreover have "set hs \<subseteq> set (d_holds d')" by (subst held(1)) auto
  ultimately show ?thesis using HeldSeats held(4) by simp
next
  case (UnavailableSeats u)
  note refused = holdSeats_UnavailableD [OF assms [unfolded UnavailableSeats]]
  then show ?thesis
    using UnavailableSeats by (auto simp: in_set_upd expireLapsedForSeats_def)
qed

text \<open>
  A buyer who abandons the checkout frees only holds no order has taken over, by
  whichever ids they name: every hold attached to an order is untouched.
\<close>

theorem release_unattached_spares_orders:
  "filter (\<lambda>h. h_order h \<noteq> None) (d_holds (releaseUnattached org holdIds d))
     = filter (\<lambda>h. h_order h \<noteq> None) (d_holds d)
   \<and> d\<lparr>d_holds := d_holds (releaseUnattached org holdIds d)\<rparr> = releaseUnattached org holdIds d"
  by (auto simp: releaseUnattached_def intro!: filter_upd_outside)

end
