(* ===== verification/JsNumber.thy ===== *)
theory JsNumber
  imports Complex_Main Prelude
begin

text \<open>
  The arithmetic of a JavaScript number where the code leaves the integers: a product or a
  quotient is the exact rational rounded to a 53 bit significand, ties to even, as IEEE 754
  double precision has it. Overflow and subnormals are not modelled: the code multiplies
  satang amounts by rates. Integers below \<open>2 ^ 53\<close> are exact, which the lemmas use.
\<close>

fun bits :: "nat \<Rightarrow> nat" where
  "bits n = (if n = 0 then 0 else Suc (bits (n div 2)))"

declare bits.simps [simp del]

definition pow2 :: "int \<Rightarrow> rat" where
  "pow2 e = (if 0 \<le> e then 2 ^ nat e else 1 / 2 ^ nat (- e))"

text \<open>The binary exponent of a positive number: \<open>2 ^ ilog2 x\<close> is at most \<open>x\<close>.\<close>

definition ilog2 :: "rat \<Rightarrow> int" where
  "ilog2 x = (if 1 \<le> x then int (bits (nat \<lfloor>x\<rfloor>)) - 1 else - int (bits (nat (\<lceil>1 / x\<rceil> - 1))))"

definition round_even :: "rat \<Rightarrow> int" where
  "round_even x = (let f = \<lfloor>x\<rfloor>; r = x - of_int f in
     if r < 1 / 2 then f else if 1 / 2 < r then f + 1 else if even f then f else f + 1)"

definition fl_pos :: "rat \<Rightarrow> rat" where
  "fl_pos x = (if x = 0 then 0
     else let e = ilog2 x - 52 in of_int (round_even (x * pow2 (- e))) * pow2 e)"

definition fl :: "rat \<Rightarrow> rat" where
  "fl x = (if x < 0 then - fl_pos (- x) else fl_pos x)"

definition js_mul :: "rat \<Rightarrow> rat \<Rightarrow> rat" where "js_mul x y = fl (x * y)"
definition js_div :: "rat \<Rightarrow> rat \<Rightarrow> rat" where "js_div x y = fl (x / y)"
definition js_add :: "rat \<Rightarrow> rat \<Rightarrow> rat" where "js_add x y = fl (x + y)"
definition math_floor :: "rat \<Rightarrow> int" where "math_floor x = \<lfloor>x\<rfloor>"
definition math_round :: "rat \<Rightarrow> int" where "math_round x = \<lfloor>x + 1 / 2\<rfloor>"

lemma bits_upper: "n < 2 ^ bits n"
proof (induction n rule: bits.induct)
  case (1 n)
  show ?case
  proof (cases "n = 0")
    case False
    with "1" have "n div 2 < 2 ^ bits (n div 2)" by simp
    then have "n < 2 * 2 ^ bits (n div 2)" by linarith
    with False show ?thesis by (subst bits.simps) simp
  qed (simp add: bits.simps)
qed

lemma bits_lower: "0 < n \<Longrightarrow> 2 ^ (bits n - 1) \<le> n"
proof (induction n rule: bits.induct)
  case (1 n)
  show ?case
  proof (cases "n div 2 = 0")
    case True
    with "1.prems" have "n = 1" by (simp add: div_eq_0_iff)
    then show ?thesis by (simp add: bits.simps)
  next
    case False
    then have pos: "0 < bits (n div 2)" by (subst bits.simps) simp
    from False "1" have "2 ^ (bits (n div 2) - 1) \<le> n div 2" by simp
    then have "2 * 2 ^ (bits (n div 2) - 1) \<le> n" by linarith
    with pos "1.prems" show ?thesis
      by (subst bits.simps) (simp flip: power_Suc)
  qed
qed

lemma bits_le: "n < 2 ^ k \<Longrightarrow> bits n \<le> k"
proof (cases "n = 0")
  case False
  assume "n < 2 ^ k"
  with bits_lower [of n] False have "(2::nat) ^ (bits n - 1) < 2 ^ k" by linarith
  then show ?thesis by simp
qed (simp add: bits.simps)

lemma pow2_pos [simp]: "0 < pow2 e"
  by (simp add: pow2_def)

lemma pow2_uminus: "pow2 (- int k) = 1 / 2 ^ k"
  by (cases "k = 0") (auto simp: pow2_def)

lemma pow2_neg: "pow2 e * pow2 (- e) = 1"
  by (simp add: pow2_def)

lemma pow2_minus: "pow2 (e - int k) = pow2 e / 2 ^ k"
proof (cases "0 \<le> e - int k")
  case True
  then have "nat e = nat (e - int k) + k" by simp
  with True show ?thesis by (simp add: pow2_def power_add)
next
  case False
  show ?thesis
  proof (cases "0 \<le> e")
    case True
    with False have "k = nat e + nat (int k - e)" by simp
    then have "(2::rat) ^ k = 2 ^ nat e * 2 ^ nat (int k - e)"
      by (metis power_add)
    with True False show ?thesis by (simp add: pow2_def)
  next
    case neg: False
    with False have "nat (int k - e) = k + nat (- e)" by simp
    with neg False show ?thesis by (simp add: pow2_def power_add)
  qed
qed

lemma ilog2_lower: "0 < x \<Longrightarrow> pow2 (ilog2 x) \<le> x"
proof (cases "1 \<le> x")
  case True
  let ?n = "nat \<lfloor>x\<rfloor>"
  from True have n: "0 < ?n" by simp
  then have "0 < bits ?n" by (subst bits.simps) simp
  moreover have "(2::rat) ^ (bits ?n - 1) \<le> of_nat ?n"
    using bits_lower [OF n] by (metis of_nat_le_iff of_nat_numeral of_nat_power)
  moreover have "of_nat ?n \<le> x" using True by simp
  ultimately have "(2::rat) ^ (bits ?n - 1) \<le> x" by linarith
  moreover have "ilog2 x = int (bits ?n - 1)"
    using True \<open>0 < bits ?n\<close> by (simp add: ilog2_def)
  ultimately show ?thesis by (simp add: pow2_def)
next
  case False
  assume "0 < x"
  let ?n = "nat (\<lceil>1 / x\<rceil> - 1)"
  have "(of_nat ?n :: rat) + 1 \<le> 2 ^ bits ?n"
    using bits_upper [of ?n] by (metis Suc_leI of_nat_Suc of_nat_le_iff of_nat_numeral of_nat_power add.commute)
  moreover have "1 / x \<le> of_nat ?n + 1"
    using \<open>0 < x\<close> False by (simp add: of_nat_nat le_of_int_ceiling)
  ultimately have "1 / x \<le> 2 ^ bits ?n" by linarith
  then have "1 / 2 ^ bits ?n \<le> x"
    using \<open>0 < x\<close> by (simp add: field_simps)
  with False show ?thesis by (simp add: ilog2_def pow2_uminus)
qed

lemma ilog2_le: "x < 2 ^ k \<Longrightarrow> 0 < k \<Longrightarrow> ilog2 x \<le> int k - 1"
proof (cases "1 \<le> x")
  case True
  assume "x < 2 ^ k"
  then have "\<lfloor>x\<rfloor> < 2 ^ k" by (simp add: floor_less_iff)
  with True have "nat \<lfloor>x\<rfloor> < 2 ^ k" by (simp add: nat_less_iff)
  then have "bits (nat \<lfloor>x\<rfloor>) \<le> k" by (rule bits_le)
  with True show ?thesis by (simp add: ilog2_def)
qed (simp add: ilog2_def)

lemma round_even_ge: "of_int m \<le> x \<Longrightarrow> m \<le> round_even x"
  by (auto simp: round_even_def Let_def dest: le_floor_iff [THEN iffD2])

lemma round_even_le: "x \<le> of_int m \<Longrightarrow> round_even x \<le> m"
proof -
  assume "x \<le> of_int m"
  then have f: "\<lfloor>x\<rfloor> \<le> m" by (simp add: floor_le_iff)
  show ?thesis
  proof (cases "\<lfloor>x\<rfloor> = m")
    case True
    with \<open>x \<le> of_int m\<close> have "x = of_int m" by (metis of_int_floor_le order_antisym)
    then show ?thesis by (simp add: round_even_def)
  next
    case False
    with f show ?thesis by (simp add: round_even_def Let_def)
  qed
qed

lemma round_even_err: "\<bar>of_int (round_even x) - x\<bar> \<le> 1 / 2"
proof -
  have "of_int \<lfloor>x\<rfloor> \<le> x" "x < of_int \<lfloor>x\<rfloor> + 1" using floor_correct [of x] by simp_all
  then show ?thesis unfolding round_even_def Let_def by (auto simp: abs_if) linarith+
qed

section \<open>What rounding cannot change\<close>

lemma fl_0 [simp]: "fl 0 = 0"
  by (simp add: fl_def fl_pos_def)

lemma fl_pos_eq:
  assumes "0 < x"
  shows "fl x = of_int (round_even (x * pow2 (52 - ilog2 x))) * pow2 (ilog2 x - 52)"
  using assms by (simp add: fl_def fl_pos_def Let_def)

text \<open>Below \<open>2 ^ 53\<close> the spacing is a fraction of one, so rounding respects integer bounds.\<close>

lemma fl_int_bounds:
  assumes "0 \<le> x" "x < 2 ^ 53"
  shows fl_ge_int: "of_int n \<le> x \<Longrightarrow> of_int n \<le> fl x"
    and fl_le_int: "x \<le> of_int n \<Longrightarrow> fl x \<le> of_int n"
proof -
  have "(of_int n \<le> x \<longrightarrow> of_int n \<le> fl x) \<and> (x \<le> of_int n \<longrightarrow> fl x \<le> of_int n)"
  proof (cases "x = 0")
    case False
    with assms have "0 < x" by simp
    let ?k = "nat (52 - ilog2 x)"
    have le: "ilog2 x \<le> 52" using ilog2_le [OF assms(2)] by simp
    then have p: "pow2 (52 - ilog2 x) = of_int (2 ^ ?k)" "pow2 (ilog2 x - 52) = 1 / of_int (2 ^ ?k)"
      by (auto simp: pow2_def)
    have fl: "fl x = of_int (round_even (x * of_int (2 ^ ?k))) / of_int (2 ^ ?k)"
      using fl_pos_eq [OF \<open>0 < x\<close>] p by simp
    have "of_int (n * 2 ^ ?k) \<le> x * of_int (2 ^ ?k)" if "of_int n \<le> x"
      using that by (simp add: mult_right_mono)
    moreover have "x * of_int (2 ^ ?k) \<le> of_int (n * 2 ^ ?k)" if "x \<le> of_int n"
      using that by (simp add: mult_right_mono)
    ultimately have "(of_int n \<le> x \<longrightarrow> n * 2 ^ ?k \<le> round_even (x * of_int (2 ^ ?k)))
        \<and> (x \<le> of_int n \<longrightarrow> round_even (x * of_int (2 ^ ?k)) \<le> n * 2 ^ ?k)"
      using round_even_ge round_even_le by blast
    moreover have "of_int n \<le> fl x" if "n * 2 ^ ?k \<le> round_even (x * of_int (2 ^ ?k))"
    proof -
      from that have "(of_int (n * 2 ^ ?k) :: rat) \<le> of_int (round_even (x * of_int (2 ^ ?k)))"
        by (simp only: of_int_le_iff)
      then show ?thesis unfolding fl by (subst pos_le_divide_eq) simp_all
    qed
    moreover have "fl x \<le> of_int n" if "round_even (x * of_int (2 ^ ?k)) \<le> n * 2 ^ ?k"
    proof -
      from that have "(of_int (round_even (x * of_int (2 ^ ?k))) :: rat) \<le> of_int (n * 2 ^ ?k)"
        by (simp only: of_int_le_iff)
      then show ?thesis unfolding fl by (subst pos_divide_le_eq) simp_all
    qed
    ultimately show ?thesis by blast
  qed simp
  then show "of_int n \<le> x \<Longrightarrow> of_int n \<le> fl x" and "x \<le> of_int n \<Longrightarrow> fl x \<le> of_int n"
    by blast+
qed

lemma fl_nonneg: "0 \<le> x \<Longrightarrow> x < 2 ^ 53 \<Longrightarrow> 0 \<le> fl x"
  using fl_ge_int [of x 0] by simp

lemma fl_error:
  assumes "0 \<le> x"
  shows "\<bar>fl x - x\<bar> \<le> x / 2 ^ 53"
proof (cases "x = 0")
  case False
  with assms have "0 < x" by simp
  let ?p = "pow2 (ilog2 x - 52)" and ?q = "pow2 (52 - ilog2 x)"
  have pq: "?q * ?p = 1" using pow2_neg [of "52 - ilog2 x"] by simp
  have "fl x - x = (of_int (round_even (x * ?q)) - x * ?q) * ?p"
    using fl_pos_eq [OF \<open>0 < x\<close>] pq by (simp add: algebra_simps)
  then have "\<bar>fl x - x\<bar> = \<bar>of_int (round_even (x * ?q)) - x * ?q\<bar> * ?p"
    by (simp add: abs_mult less_imp_le)
  also have "\<dots> \<le> 1 / 2 * ?p"
    by (intro mult_right_mono round_even_err) (simp add: less_imp_le)
  also have "\<dots> = pow2 (ilog2 x) / 2 ^ 53"
    using pow2_minus [of "ilog2 x" 52] by simp
  also have "\<dots> \<le> x / 2 ^ 53"
    using ilog2_lower [OF \<open>0 < x\<close>] by (intro divide_right_mono) simp_all
  finally show ?thesis .
qed simp

text \<open>
  A quotient of integers whose fraction stays a known distance below the next integer keeps
  its integer part.
\<close>

lemma floor_fl:
  assumes "0 \<le> x" "x < 2 ^ 53" "of_int k \<le> x" "x + x / 2 ^ 53 < of_int k + 1"
  shows "math_floor (fl x) = k"
proof -
  have "of_int k \<le> fl x" using fl_ge_int assms by blast
  moreover have "fl x \<le> x + x / 2 ^ 53"
    using fl_error [OF assms(1)] by linarith
  ultimately show ?thesis
    using assms(4) by (simp add: math_floor_def floor_eq_iff)
qed

end
