(* ===== verification/Pricing.thy ===== *)
theory Pricing
  imports JsNumber Schema
begin

text \<open>
  Money: the VAT split of \<^verbatim>\<open>common/money/vat.ts\<close>, the order summary of
  \<^verbatim>\<open>checkout/checkout-pricing.ts\<close> and the worth of a discount code of
  \<^verbatim>\<open>discounts/discount-quote.ts\<close>. Amounts are integers (satang); the rates are JavaScript
  numbers, so the two products and the quotient are rounded as in \<^theory_text>\<open>JsNumber\<close>.
\<close>

definition PERCENT_DIVISOR :: int where "PERCENT_DIVISOR = 100"

text \<open>The fallback rates, \<^verbatim>\<open>0.07\<close> and \<^verbatim>\<open>0.05\<close> as the doubles those literals denote.\<close>

definition DEFAULT_VAT_RATE :: rat where "DEFAULT_VAT_RATE = fl (7 / 100)"
definition DEFAULT_SERVICE_FEE_RATE :: rat where "DEFAULT_SERVICE_FEE_RATE = fl (5 / 100)"

record vat_breakdown =
  grossSatang :: satang
  vb_net :: satang
  vb_vat :: satang

definition vatInclusiveBreakdown :: "satang \<Rightarrow> rat \<Rightarrow> vat_breakdown" where
  "vatInclusiveBreakdown gross rate =
     (let vat = math_round (js_div (js_mul (of_int gross) rate) (js_add 1 rate))
      in \<lparr>grossSatang = gross, vb_net = gross - vat, vb_vat = vat\<rparr>)"

record pricing_input =
  pi_subtotal :: satang
  pi_discount :: satang
  pi_serviceFeeRate :: rat
  pi_vatRate :: rat

record order_totals =
  subtotalSatang :: satang
  discountSatang :: satang
  serviceFeeSatang :: satang
  totalSatang :: satang
  netSatang :: satang
  vatSatang :: satang

definition clamp :: "int \<Rightarrow> int \<Rightarrow> int" where
  "clamp value ceil = max 0 (min value ceil)"

definition priceOrder :: "pricing_input \<Rightarrow> order_totals" where
  "priceOrder i =
     (let subtotal = max 0 (pi_subtotal i);
          discount = clamp (pi_discount i) subtotal;
          discounted = subtotal - discount;
          fee = math_floor (js_mul (of_int discounted) (pi_serviceFeeRate i));
          total = discounted + fee;
          b = vatInclusiveBreakdown total (pi_vatRate i)
      in \<lparr>subtotalSatang = subtotal, discountSatang = discount, serviceFeeSatang = fee,
          totalSatang = total, netSatang = vb_net b, vatSatang = vb_vat b\<rparr>)"

record discount_quote =
  dq_discount :: satang
  dq_total :: satang
  dq_net :: satang
  dq_vat :: satang

text \<open>Only the type and the value of the code matter to its worth.\<close>

definition quoteDiscount :: "discount_type \<Rightarrow> int \<Rightarrow> satang \<Rightarrow> rat \<Rightarrow> discount_quote" where
  "quoteDiscount type value subtotal vatRate =
     (let raw = (case type of
            Percent \<Rightarrow> math_floor (js_div (of_int (subtotal * value)) (of_int PERCENT_DIVISOR))
          | Fixed \<Rightarrow> value);
          discount = max 0 (min raw subtotal);
          total = subtotal - discount;
          b = vatInclusiveBreakdown total vatRate
      in \<lparr>dq_discount = discount, dq_total = total, dq_net = vb_net b, dq_vat = vb_vat b\<rparr>)"

section \<open>Bounds of the parts\<close>

lemma clamp_bounds: "0 \<le> c \<Longrightarrow> 0 \<le> clamp v c \<and> clamp v c \<le> c"
  by (auto simp: clamp_def)

lemma js_floor_mul_bounds:
  assumes "0 \<le> n" "n < 2 ^ 53" "0 \<le> r" "r \<le> 1"
  shows "0 \<le> math_floor (js_mul (of_int n) r)" "math_floor (js_mul (of_int n) r) \<le> n"
proof -
  let ?x = "of_int n * r"
  have x: "0 \<le> ?x" "?x \<le> of_int n" using assms by (simp_all add: mult_left_le)
  moreover have "(of_int n :: rat) < of_int (2 ^ 53)" using assms(2) by (simp only: of_int_less_iff)
  ultimately have "?x < 2 ^ 53" by simp
  with x show "0 \<le> math_floor (js_mul (of_int n) r)" "math_floor (js_mul (of_int n) r) \<le> n"
    using fl_nonneg [of ?x] fl_le_int [of ?x n]
    by (simp_all add: math_floor_def js_mul_def floor_le_iff)
qed

lemma vat_bounds:
  assumes "0 \<le> g" "g < 2 ^ 53" "0 \<le> r" "r \<le> 1"
  shows "0 \<le> vb_vat (vatInclusiveBreakdown g r)" "vb_vat (vatInclusiveBreakdown g r) \<le> g"
proof -
  let ?m = "js_mul (of_int g) r" and ?a = "js_add 1 r"
  have g: "(of_int g :: rat) < 2 ^ 53"
    using assms(2) by (metis of_int_less_iff of_int_numeral of_int_power)
  have gr: "0 \<le> of_int g * r" "of_int g * r \<le> of_int g" "of_int g * r < 2 ^ 53"
    using assms g mult_left_le [of r "of_int g"] by (simp_all add: order_le_less_trans)
  have m: "0 \<le> ?m" "?m \<le> of_int g"
    using gr fl_nonneg [of "of_int g * r"] fl_le_int [of "of_int g * r" g] by (simp_all add: js_mul_def)
  have a: "1 \<le> ?a" using fl_ge_int [of "1 + r" 1] assms(3,4) by (simp add: js_add_def)
  have q: "0 \<le> ?m / ?a" "?m / ?a \<le> of_int g"
  proof -
    have "of_int g \<le> of_int g * ?a" using a assms(1) by (simp add: mult_le_cancel_left1)
    with m have "?m \<le> of_int g * ?a" by linarith
    with a show "?m / ?a \<le> of_int g" by (simp add: divide_le_eq)
    from m a show "0 \<le> ?m / ?a" by simp
  qed
  have "0 \<le> js_div ?m ?a" "js_div ?m ?a \<le> of_int g"
    using q g fl_nonneg [of "?m / ?a"] fl_le_int [of "?m / ?a" g] by (auto simp: js_div_def)
  then show "0 \<le> vb_vat (vatInclusiveBreakdown g r)" "vb_vat (vatInclusiveBreakdown g r) \<le> g"
    by (auto simp: vatInclusiveBreakdown_def Let_def math_round_def le_floor_iff floor_le_iff)
qed

lemma vat_net_sum: "vb_net (vatInclusiveBreakdown g r) + vb_vat (vatInclusiveBreakdown g r) = g"
  by (simp add: vatInclusiveBreakdown_def Let_def)

lemma vat_of_zero [simp]: "vb_vat (vatInclusiveBreakdown 0 r) = 0"
  by (simp add: vatInclusiveBreakdown_def js_mul_def js_div_def math_round_def Let_def floor_eq_iff)

lemma percent_exact:
  assumes "0 \<le> n" "n < 2 ^ 52"
  shows "math_floor (js_div (of_int n) 100) = n div 100"
proof -
  have n: "(of_int n :: rat) < 2 ^ 52"
    using assms(2) by (metis of_int_less_iff of_int_numeral of_int_power)
  have "n = 100 * (n div 100) + n mod 100" by simp
  then have e: "(of_int n :: rat) = 100 * of_int (n div 100) + of_int (n mod 100)"
    by (metis of_int_add of_int_mult of_int_numeral)
  have "n mod 100 \<le> 99" "0 \<le> n mod 100"
    using pos_mod_bound [of 100 n] by simp_all
  then have "(of_int (n mod 100) :: rat) \<le> of_int 99" "(0::rat) \<le> of_int (n mod 100)"
    by (simp_all only: of_int_le_iff of_int_0_le_iff)
  with e n assms(1) show ?thesis
    unfolding js_div_def by (intro floor_fl) simp_all
qed

section \<open>The order summary\<close>

text \<open>
  The summary adds up for every input, refunds of precision included: what is charged is
  the subtotal less the discount plus the fee, VAT is a part of what is charged, and the
  discount is never more than the order.
\<close>

theorem price_order_adds_up:
  "let t = priceOrder i in
     subtotalSatang t - discountSatang t + serviceFeeSatang t = totalSatang t
   \<and> netSatang t + vatSatang t = totalSatang t
   \<and> 0 \<le> discountSatang t \<and> discountSatang t \<le> subtotalSatang t"
  using clamp_bounds [of "max 0 (pi_subtotal i)" "pi_discount i"]
  by (simp add: priceOrder_def Let_def vat_net_sum)

text \<open>
  C34. With rates between 0 and 1 and a subtotal below \<open>2 ^ 52\<close> satang, rounding in double
  precision never takes the fee out of \<open>[0, discounted]\<close> nor the VAT out of \<open>[0, total]\<close>.
\<close>

theorem price_order_bounds:
  assumes "pi_subtotal i < 2 ^ 52" "0 \<le> pi_serviceFeeRate i" "pi_serviceFeeRate i \<le> 1"
    and "0 \<le> pi_vatRate i" "pi_vatRate i \<le> 1"
  shows "let t = priceOrder i in
     0 \<le> serviceFeeSatang t \<and> serviceFeeSatang t \<le> subtotalSatang t - discountSatang t
   \<and> 0 \<le> vatSatang t \<and> vatSatang t \<le> totalSatang t \<and> 0 \<le> netSatang t"
proof -
  let ?s = "max 0 (pi_subtotal i)"
  let ?d = "?s - clamp (pi_discount i) ?s"
  let ?f = "math_floor (js_mul (of_int ?d) (pi_serviceFeeRate i))"
  have d: "0 \<le> ?d" "?d < 2 ^ 52"
    using clamp_bounds [of ?s "pi_discount i"] assms(1) by auto
  then have f: "0 \<le> ?f" "?f \<le> ?d"
    using js_floor_mul_bounds [of ?d "pi_serviceFeeRate i"] assms(2,3) by auto
  with d have "0 \<le> ?d + ?f" "?d + ?f < 2 ^ 53" by auto
  then have "0 \<le> vb_vat (vatInclusiveBreakdown (?d + ?f) (pi_vatRate i))"
    "vb_vat (vatInclusiveBreakdown (?d + ?f) (pi_vatRate i)) \<le> ?d + ?f"
    using vat_bounds assms(4,5) by blast+
  with f vat_net_sum [of "?d + ?f" "pi_vatRate i"] show ?thesis
    by (simp add: priceOrder_def Let_def)
qed

theorem price_order_bounds_witness:
  "let t = priceOrder \<lparr>pi_subtotal = 120000, pi_discount = 20000,
       pi_serviceFeeRate = 1 / 16, pi_vatRate = 1 / 16\<rparr> in
     0 \<le> serviceFeeSatang t \<and> serviceFeeSatang t \<le> subtotalSatang t - discountSatang t
   \<and> 0 \<le> vatSatang t \<and> vatSatang t \<le> totalSatang t \<and> 0 \<le> netSatang t"
  by (rule price_order_bounds) simp_all

text \<open>
  A free order stays free: when the discount covers the subtotal nothing is charged, no
  fee is added and there is no VAT, whatever the rates.
\<close>

theorem free_order_stays_free:
  assumes "pi_subtotal i \<le> pi_discount i \<or> pi_subtotal i \<le> 0"
  shows "totalSatang (priceOrder i) = 0 \<and> serviceFeeSatang (priceOrder i) = 0
    \<and> vatSatang (priceOrder i) = 0 \<and> netSatang (priceOrder i) = 0"
proof -
  have "max 0 (pi_subtotal i) - clamp (pi_discount i) (max 0 (pi_subtotal i)) = 0"
    using assms by (auto simp: clamp_def)
  then show ?thesis
    using vat_net_sum [of 0 "pi_vatRate i"]
    by (simp add: priceOrder_def Let_def js_mul_def math_floor_def)
qed

theorem free_order_stays_free_witness:
  "totalSatang (priceOrder \<lparr>pi_subtotal = 5000, pi_discount = 9000,
      pi_serviceFeeRate = DEFAULT_SERVICE_FEE_RATE, pi_vatRate = DEFAULT_VAT_RATE\<rparr>) = 0"
  using free_order_stays_free [of "\<lparr>pi_subtotal = 5000, pi_discount = 9000,
      pi_serviceFeeRate = DEFAULT_SERVICE_FEE_RATE, pi_vatRate = DEFAULT_VAT_RATE\<rparr>"] by simp

lemma default_fee_error: "\<bar>DEFAULT_SERVICE_FEE_RATE - 1 / 20\<bar> \<le> 1 / 2 ^ 57"
  using fl_error [of "1 / 20"] by (simp add: DEFAULT_SERVICE_FEE_RATE_def)

lemma default_fee_above: "1 / 20 \<le> DEFAULT_SERVICE_FEE_RATE"
proof -
  have "ilog2 (1 / 20) = -5"
    by (simp add: ilog2_def bits.simps)
  then have "DEFAULT_SERVICE_FEE_RATE = of_int (round_even (1 / 20 * 2 ^ 57)) / 2 ^ 57"
    by (simp add: DEFAULT_SERVICE_FEE_RATE_def fl_pos_eq pow2_def)
  also have "round_even (1 / 20 * 2 ^ 57) = 7205759403792794"
  proof -
    have "\<lfloor>36028797018963968 / (5::rat)\<rfloor> = 7205759403792793" by (simp add: floor_eq_iff)
    then show ?thesis by (simp add: round_even_def Let_def)
  qed
  finally show ?thesis by simp
qed

lemma fee_arith:
  assumes "y / 20 \<le> x" "x \<le> y / 20 + y / 2 ^ 57" "y / 20 = k + m / 20" "0 \<le> y" "y < 2 ^ 44"
    and "0 \<le> m" "m \<le> (19::rat)"
  shows "0 \<le> x \<and> x < 2 ^ 53 \<and> k \<le> x \<and> x + x / 2 ^ 53 < k + 1"
proof -
  have small: "y / 2 ^ 57 \<le> 1 / 8192" using assms(5) by simp
  have "y / 2 ^ 57 \<le> y / 20" "y / 20 \<le> y / 2" using assms(4) by simp_all
  then have "x \<le> y" using assms(2,4) by linarith
  then have "x / 2 ^ 53 \<le> 1 / 512" "x < 2 ^ 53" using assms(5) by simp_all
  moreover have "0 \<le> x" "k \<le> x" using assms(1,3,4,6) by linarith+
  ultimately show ?thesis using assms(2,3,7) small by linarith
qed

text \<open>
  At the default rate, whose double is not one twentieth, the fee is still exactly the
  twentieth part rounded down, for every discounted amount below \<open>2 ^ 44\<close> satang.
\<close>

theorem default_service_fee_exact:
  assumes "pi_serviceFeeRate i = DEFAULT_SERVICE_FEE_RATE" "pi_subtotal i < 2 ^ 44"
  shows "serviceFeeSatang (priceOrder i)
    = (subtotalSatang (priceOrder i) - discountSatang (priceOrder i)) div 20"
proof -
  let ?s = "max 0 (pi_subtotal i)"
  define n where "n = ?s - clamp (pi_discount i) ?s"
  let ?r = DEFAULT_SERVICE_FEE_RATE
  have n: "0 \<le> n" "n < 2 ^ 44"
    using clamp_bounds [of ?s "pi_discount i"] assms(2) by (auto simp: n_def)
  have nr: "(of_int n :: rat) < 2 ^ 44" "(0::rat) \<le> of_int n"
    using n by (metis of_int_less_iff of_int_numeral of_int_power, simp)
  have "n = 20 * (n div 20) + n mod 20" by simp
  then have e: "(of_int n :: rat) = 20 * of_int (n div 20) + of_int (n mod 20)"
    by (metis of_int_add of_int_mult of_int_numeral)
  have "n mod 20 \<le> 19" "0 \<le> n mod 20" using pos_mod_bound [of 20 n] by simp_all
  then have m: "(of_int (n mod 20) :: rat) \<le> of_int 19" "(0::rat) \<le> of_int (n mod 20)"
    by (simp_all only: of_int_le_iff of_int_0_le_iff)
  have up: "?r \<le> 1 / 20 + 1 / 2 ^ 57" using default_fee_error by linarith
  have lo: "of_int n * (1 / 20) \<le> of_int n * ?r"
    using default_fee_above nr by (intro mult_left_mono)
  have hi: "of_int n * ?r \<le> of_int n * (1 / 20 + 1 / 2 ^ 57)"
    using up nr by (intro mult_left_mono)
  define x where "x = (of_int n :: rat) * ?r"
  define y where "y = (of_int n :: rat)"
  have "y / 20 \<le> x" "x \<le> y / 20 + y / 2 ^ 57"
    using lo hi by (simp_all add: x_def y_def distrib_left)
  moreover have "y / 20 = of_int (n div 20) + of_int (n mod 20) / 20"
    using e by (simp add: y_def)
  moreover have "0 \<le> y" "y < 2 ^ 44" using nr by (simp_all add: y_def)
  moreover have "(0::rat) \<le> of_int (n mod 20)" "(of_int (n mod 20) :: rat) \<le> 19"
    using m by (simp_all only: of_int_numeral)
  ultimately have "0 \<le> x" "x < 2 ^ 53" "of_int (n div 20) \<le> x"
    "x + x / 2 ^ 53 < of_int (n div 20) + 1"
    using fee_arith [of y x "of_int (n div 20)" "of_int (n mod 20)"] by blast+
  then have "math_floor (fl (of_int n * ?r)) = n div 20"
    unfolding x_def by (rule floor_fl)
  then show ?thesis
    using assms(1) by (simp add: priceOrder_def Let_def js_mul_def n_def)
qed

theorem default_service_fee_exact_witness:
  "serviceFeeSatang (priceOrder \<lparr>pi_subtotal = 89000, pi_discount = 0,
      pi_serviceFeeRate = DEFAULT_SERVICE_FEE_RATE, pi_vatRate = DEFAULT_VAT_RATE\<rparr>) = 4450"
  using default_service_fee_exact [of "\<lparr>pi_subtotal = 89000, pi_discount = 0,
      pi_serviceFeeRate = DEFAULT_SERVICE_FEE_RATE, pi_vatRate = DEFAULT_VAT_RATE\<rparr>"]
  by (simp add: priceOrder_def Let_def clamp_def)

section \<open>What a code is worth\<close>

text \<open>
  A quote reconciles for every code and order: discount and total make up the subtotal,
  net and VAT make up the total, the discount lies between nothing and the whole order, and
  the quoted discount is the one the order summary charges, unclamped.
\<close>

theorem quote_reconciles:
  assumes "0 \<le> s"
  shows "let q = quoteDiscount ty v s r in
     dq_discount q + dq_total q = s \<and> dq_net q + dq_vat q = dq_total q
   \<and> 0 \<le> dq_discount q \<and> dq_discount q \<le> s
   \<and> discountSatang (priceOrder \<lparr>pi_subtotal = s, pi_discount = dq_discount q,
        pi_serviceFeeRate = f, pi_vatRate = r\<rparr>) = dq_discount q"
  using assms by (simp add: quoteDiscount_def priceOrder_def Let_def vat_net_sum clamp_def)

theorem quote_reconciles_witness:
  "dq_discount (quoteDiscount Fixed 30000 25000 0) + dq_total (quoteDiscount Fixed 30000 25000 0)
     = 25000"
  using quote_reconciles [of 25000 Fixed 30000 0] by (simp add: Let_def)

text \<open>
  C33. A percentage rounds down and double precision never moves it: for a valid percentage
  and a product below \<open>2 ^ 52\<close> the discount is exactly the hundredth part rounded down.
\<close>

theorem percentage_exact:
  assumes "0 \<le> s" "1 \<le> v" "v \<le> 100" "s * v < 2 ^ 52"
  shows "dq_discount (quoteDiscount Percent v s r) = s * v div 100"
proof -
  have "s * v div 100 \<le> s * 100 div 100"
    using assms by (intro zdiv_mono1 mult_left_mono) simp_all
  then have "s * v div 100 \<le> s" by simp
  moreover have "0 \<le> s * v div 100" using assms by (simp add: pos_imp_zdiv_nonneg_iff)
  ultimately show ?thesis
    using percent_exact [of "s * v"] assms
    by (simp add: quoteDiscount_def Let_def PERCENT_DIVISOR_def)
qed

theorem percentage_exact_witness:
  "dq_discount (quoteDiscount Percent 15 99999 0) = 14999"
  using percentage_exact [of 99999 15 0] by simp

end
