(* ===== verification/CheckoutRules.thy ===== *)
theory CheckoutRules
  imports SeatHolds Pricing
begin

text \<open>
  The checkout's pure rules: \<^verbatim>\<open>checkout/approval-rules.ts\<close>,
  \<^verbatim>\<open>checkout/waitlist-rules.ts\<close>, \<^verbatim>\<open>checkout/held-seat-rules.ts\<close>,
  \<^verbatim>\<open>checkout/allocation-rules.ts\<close>, \<^verbatim>\<open>checkout/checkout.policy.ts\<close> and
  \<^verbatim>\<open>registrations/registration-decision.ts\<close>.
\<close>

section \<open>Approval\<close>

record placement_input =
  pl_requiresApproval :: bool
  pl_paymentRequired :: bool
  pl_organizerEntry :: bool

record placement =
  pm_issueTickets :: bool
  pm_requiresApproval :: bool
  pm_awaitsDecision :: bool

definition placementFor :: "placement_input \<Rightarrow> placement" where
  "placementFor input =
     (let requiresApproval = pl_requiresApproval input \<and> \<not> pl_organizerEntry input
      in \<lparr>pm_issueTickets = (\<not> pl_paymentRequired input \<and> \<not> requiresApproval),
          pm_requiresApproval = requiresApproval,
          pm_awaitsDecision = (requiresApproval \<and> \<not> pl_paymentRequired input)\<rparr>)"

definition isAwaitingApproval :: "order_row \<Rightarrow> bool" where
  "isAwaitingApproval order = (o_status order = OPending \<and> o_approvalRequestedAt order \<noteq> None)"

definition isOnCheckoutClock :: "order_row \<Rightarrow> bool" where
  "isOnCheckoutClock order = (o_status order = OPending \<and> o_paymentStatus order \<noteq> PPaid
     \<and> o_approvalRequestedAt order = None)"

definition statusAfterRefund :: "order_status \<Rightarrow> order_status" where
  "statusAfterRefund status = (if status = ORejected then ORejected else OCancelled)"

section \<open>Waitlist\<close>

definition WAITLIST_CLOSED :: string where
  "WAITLIST_CLOSED = ''This event does not have a waitlist.''"
definition WAITLIST_RESERVED_SEATING :: string where
  "WAITLIST_RESERVED_SEATING =
     ''The waitlist is for general-admission tickets; this event seats people by seat.''"
definition WAITLIST_TICKETS_LEFT :: string where
  "WAITLIST_TICKETS_LEFT =
     ''Tickets are still available - book one instead of joining the waitlist.''"

definition waitlistRefusal :: "bool \<Rightarrow> seating_mode \<Rightarrow> ticket_status \<Rightarrow> string option" where
  "waitlistRefusal waitlistEnabled seatingMode tierStatus =
     (if \<not> waitlistEnabled then Some WAITLIST_CLOSED
      else if seatingMode \<noteq> Ga then Some WAITLIST_RESERVED_SEATING
      else if tierStatus \<noteq> Soldout then Some WAITLIST_TICKETS_LEFT
      else None)"

definition canJoinWaitlist :: "bool \<Rightarrow> seating_mode \<Rightarrow> ticket_status \<Rightarrow> bool" where
  "canJoinWaitlist waitlistEnabled seatingMode tierStatus =
     (waitlistRefusal waitlistEnabled seatingMode tierStatus = None)"

definition hasOpenWaitlist :: "bool \<Rightarrow> seating_mode \<Rightarrow> bool" where
  "hasOpenWaitlist waitlistEnabled seatingMode = (waitlistEnabled \<and> seatingMode = Ga)"

definition autoOffersWaitlist :: "bool \<Rightarrow> seating_mode \<Rightarrow> bool \<Rightarrow> bool" where
  "autoOffersWaitlist waitlistEnabled seatingMode requiresApproval =
     (hasOpenWaitlist waitlistEnabled seatingMode \<and> \<not> requiresApproval)"

definition confirmsOnOffer :: "order_row \<Rightarrow> bool" where
  "confirmsOnOffer order = (o_total order = 0)"

section \<open>Allocation and seats\<close>

definition exceedsAllocation :: "int \<Rightarrow> int \<Rightarrow> int \<Rightarrow> bool" where
  "exceedsAllocation sold tierTotal quantity = (sold + quantity > tierTotal)"

record held_seats_check =
  hc_pricedSeatIds :: "ident list"
  hc_heldSeatIds :: "ident list"
  hc_seatTypes :: "ident \<Rightarrow> ident option option"
  hc_ticketTypeId :: ident
  hc_mapTyped :: bool

definition seatSellsUnder :: "ident option \<Rightarrow> ident \<Rightarrow> bool \<Rightarrow> bool" where
  "seatSellsUnder seatType ticketTypeId mapTyped =
     (case seatType of None \<Rightarrow> \<not> mapTyped | Some t \<Rightarrow> t = ticketTypeId)"

definition pricedSeatSells :: "held_seats_check \<Rightarrow> ident \<Rightarrow> bool" where
  "pricedSeatSells c seatId =
     (case hc_seatTypes c seatId of
        None \<Rightarrow> False
      | Some type \<Rightarrow> seatSellsUnder type (hc_ticketTypeId c) (hc_mapTyped c))"

definition heldSeatsMatch :: "held_seats_check \<Rightarrow> bool" where
  "heldSeatsMatch c =
     (let priced = dedupe (hc_pricedSeatIds c);
          held = dedupe (hc_heldSeatIds c);
          sameSeats = (length priced = length held \<and> list_all (\<lambda>i. i \<in> set priced) held)
      in sameSeats \<and> list_all (pricedSeatSells c) priced)"

lemma heldSeatsMatch_iff [result_simps]:
  "heldSeatsMatch c \<longleftrightarrow> set (hc_heldSeatIds c) = set (hc_pricedSeatIds c)
     \<and> (\<forall>i\<in>set (hc_pricedSeatIds c). pricedSeatSells c i)"
proof -
  have card: "length (dedupe xs) = card (set xs)" for xs :: "ident list"
    by (metis distinct_card distinct_dedupe set_dedupe)
  have "card (set (hc_pricedSeatIds c)) = card (set (hc_heldSeatIds c))
      \<and> set (hc_heldSeatIds c) \<subseteq> set (hc_pricedSeatIds c)
    \<longleftrightarrow> set (hc_heldSeatIds c) = set (hc_pricedSeatIds c)"
    by (metis card_subset_eq finite_set order_refl)
  then show ?thesis
    by (auto simp: heldSeatsMatch_def Let_def card list_all_iff)
qed

section \<open>The selection\<close>

datatype checkout_selection =
    ReservedSelection (sel_type: ident) (sel_seats: "ident list")
  | GaSelection (sel_type: ident) (sel_quantity: int)

record selection_input =
  si_ticketTypeId :: ident
  si_quantity :: "int option"
  si_seatIds :: "ident list option"

fun selectionSize :: "checkout_selection \<Rightarrow> int" where
  "selectionSize (ReservedSelection _ seatIds) = int (length seatIds)"
| "selectionSize (GaSelection _ quantity) = quantity"

definition policy_assertBookingSize :: "int \<Rightarrow> error + unit" where
  "policy_assertBookingSize count =
     (if count \<ge> 1 \<and> count \<le> MAX_SEATS_PER_BOOKING then Inr ()
      else Inl (Validation ''Choose between 1 and {} tickets per booking.'' [Num MAX_SEATS_PER_BOOKING]))"

definition resolveReserved :: "selection_input \<Rightarrow> error + checkout_selection" where
  "resolveReserved input =
     (let seatIds = (case si_seatIds input of None \<Rightarrow> [] | Some s \<Rightarrow> s) in
      if seatIds = []
      then Inl (Validation ''This event has reserved seating - please pick your seats.'' [])
      else if length (dedupe seatIds) \<noteq> length seatIds
      then Inl (Validation ''The same seat was picked twice. Please choose again.'' [])
      else bindE (policy_assertBookingSize (int (length seatIds)))
             (\<lambda>_. Inr (ReservedSelection (si_ticketTypeId input) seatIds)))"

definition resolveGeneralAdmission :: "selection_input \<Rightarrow> error + checkout_selection" where
  "resolveGeneralAdmission input =
     (if (case si_seatIds input of None \<Rightarrow> False | Some s \<Rightarrow> length s > 0)
      then Inl (Validation ''This event is general admission - choose a quantity instead of seats.'' [])
      else
        let quantity = (case si_quantity input of None \<Rightarrow> 0 | Some q \<Rightarrow> q)
        in bindE (policy_assertBookingSize quantity)
             (\<lambda>_. Inr (GaSelection (si_ticketTypeId input) quantity)))"

definition resolveSelection :: "seating_mode \<Rightarrow> selection_input \<Rightarrow> error + checkout_selection" where
  "resolveSelection seatingMode input =
     (if seatingMode = Reserved then resolveReserved input else resolveGeneralAdmission input)"

definition assertWithinTierBounds :: "int \<Rightarrow> int \<Rightarrow> int \<Rightarrow> error + unit" where
  "assertWithinTierBounds minPerOrder maxPerOrder count =
     (if count < minPerOrder
      then Inl (Validation ''You must buy at least {} of this ticket type per order.'' [Num minPerOrder])
      else if count > maxPerOrder
      then Inl (Validation ''You can buy at most {} of this ticket type per order.'' [Num maxPerOrder])
      else Inr ())"

definition assertRegistrationOpen :: "instant \<Rightarrow> instant \<Rightarrow> error + unit" where
  "assertRegistrationOpen startAt now =
     check (startAt > now) (Conflict ''Registration is closed for this event.'' [])"

definition NOT_ON_SALE :: string where
  "NOT_ON_SALE = ''Those seats aren't on sale. Please choose different seats.''"
definition OTHER_TICKET_TYPE :: string where
  "OTHER_TICKET_TYPE = ''Those seats belong to a different ticket type. Please choose again.''"

definition resolveSeat ::
  "(ident \<Rightarrow> checkout_seat option) \<Rightarrow> bool \<Rightarrow> ident \<Rightarrow> ident \<Rightarrow> error + checkout_seat" where
  "resolveSeat byId mapTyped ticketTypeId i =
     (case byId i of
        None \<Rightarrow> Inl (Conflict ''One of those seats is no longer available. Please choose again.'' [])
      | Some seat \<Rightarrow>
          if \<not> seatSellsUnder (cs_ticketTypeId seat) ticketTypeId mapTyped
          then Inl (Validation (if cs_ticketTypeId seat = None then NOT_ON_SALE else OTHER_TICKET_TYPE) [])
          else if \<not> cs_available seat
          then Inl (Conflict ''Some of those seats were just taken. Please choose different seats.'' [])
          else Inr seat)"

definition resolveSeats ::
  "checkout_seat list \<Rightarrow> ident list \<Rightarrow> ident \<Rightarrow> error + checkout_seat list" where
  "resolveSeats seats seatIds ticketTypeId =
     (let byId = map_of (rev (map (\<lambda>s. (cs_id s, s)) seats));
          mapTyped = list_ex (\<lambda>s. cs_ticketTypeId s \<noteq> None) seats
      in mapE (resolveSeat byId mapTyped ticketTypeId) seatIds)"

section \<open>An organizer's decision\<close>

datatype verdict = Allowed | Refused string

definition ALREADY_REJECTED :: string where
  "ALREADY_REJECTED = ''This registration was rejected, and a rejection cannot be undone.''"
definition NOT_AWAITING :: string where
  "NOT_AWAITING = ''Only a pending or waitlisted registration can be decided.''"
definition APPROVE_BLOCKED_UNPAID :: string where
  "APPROVE_BLOCKED_UNPAID = ''Payment isn't complete yet, so this registration can't be approved.''"
definition REJECT_BLOCKED_PAID :: string where
  "REJECT_BLOCKED_PAID = ''Money has been captured for this registration - cancel and refund it instead of rejecting.''"
definition REJECT_NEEDS_REFUND_PERMISSION :: string where
  "REJECT_NEEDS_REFUND_PERMISSION = ''Rejecting this registration refunds its payment, and refunds need the refund permission - ask an Admin.''"
definition OFFER_NOT_WAITLISTED :: string where
  "OFFER_NOT_WAITLISTED = ''Only someone on the waitlist can be offered a seat.''"

definition AWAITING_DECISION :: "order_status list" where
  "AWAITING_DECISION = [OPending, OWaitlisted]"

definition terminalReason :: "order_status \<Rightarrow> string option" where
  "terminalReason status =
     (if status = ORejected then Some ALREADY_REJECTED
      else if status \<notin> set AWAITING_DECISION then Some NOT_AWAITING
      else None)"

definition rejectionRefunds :: "order_row \<Rightarrow> bool" where
  "rejectionRefunds r = (o_paymentStatus r = PPaid \<and> o_approvalRequestedAt r \<noteq> None)"

definition canApprove :: "order_row \<Rightarrow> verdict" where
  "canApprove r =
     (case terminalReason (o_status r) of
        Some reason \<Rightarrow> Refused reason
      | None \<Rightarrow>
          if o_total r > 0 \<and> o_paymentStatus r \<noteq> PPaid then Refused APPROVE_BLOCKED_UNPAID
          else Allowed)"

definition canReject :: "order_row \<Rightarrow> bool \<Rightarrow> verdict" where
  "canReject r mayRefund =
     (case terminalReason (o_status r) of
        Some reason \<Rightarrow> Refused reason
      | None \<Rightarrow>
          if rejectionRefunds r
          then if mayRefund then Allowed else Refused REJECT_NEEDS_REFUND_PERMISSION
          else if o_paymentStatus r = PPaid then Refused REJECT_BLOCKED_PAID
          else Allowed)"

definition canOffer :: "order_row \<Rightarrow> verdict" where
  "canOffer r =
     (if o_status r = ORejected then Refused ALREADY_REJECTED
      else if o_status r \<noteq> OWaitlisted then Refused OFFER_NOT_WAITLISTED
      else Allowed)"

section \<open>Properties\<close>

lemma map_of_rev_eqD: "map_of (rev (map (\<lambda>s. (k s, s)) xs)) i = Some s \<Longrightarrow> s \<in> set xs \<and> k s = i"
  by (drule map_of_SomeD) auto

lemma resolveSeat_InrD:
  assumes "resolveSeat (map_of (rev (map (\<lambda>s. (cs_id s, s)) seats)))
      (list_ex (\<lambda>s. cs_ticketTypeId s \<noteq> None) seats) ticketTypeId i = Inr s"
  shows "cs_id s = i \<and> s \<in> set seats \<and> cs_available s
      \<and> (cs_ticketTypeId s = Some ticketTypeId
         \<or> cs_ticketTypeId s = None \<and> (\<forall>x\<in>set seats. cs_ticketTypeId x = None))"
  using assms
  by (auto simp: resolveSeat_def seatSellsUnder_def list_ex_iff
      split: option.split_asm if_split_asm dest!: map_of_rev_eqD)

text \<open>
  A seat selection is accepted only for seats that the map offers, in the order asked,
  each free now and each sold under the ticket type being bought: a typed seat only as its
  own type, an untyped one only while no seat of the map has a type.
\<close>

theorem resolved_seats_sell_under_tier:
  assumes "resolveSeats seats seatIds ticketTypeId = Inr chosen"
  shows "map cs_id chosen = seatIds
    \<and> (\<forall>s\<in>set chosen. s \<in> set seats \<and> cs_available s
         \<and> (cs_ticketTypeId s = Some ticketTypeId
            \<or> cs_ticketTypeId s = None \<and> (\<forall>x\<in>set seats. cs_ticketTypeId x = None)))"
proof -
  let ?byId = "map_of (rev (map (\<lambda>s. (cs_id s, s)) seats))"
  let ?typed = "list_ex (\<lambda>s. cs_ticketTypeId s \<noteq> None) seats"
  have "list_all2 (\<lambda>i s. resolveSeat ?byId ?typed ticketTypeId i = Inr s) seatIds chosen"
    using assms unfolding resolveSeats_def Let_def mapE_Inr_iff .
  then have "list_all2 (\<lambda>i s. cs_id s = i \<and> s \<in> set seats \<and> cs_available s
      \<and> (cs_ticketTypeId s = Some ticketTypeId
         \<or> cs_ticketTypeId s = None \<and> (\<forall>x\<in>set seats. cs_ticketTypeId x = None))) seatIds chosen"
    by (rule list_all2_mono) (rule resolveSeat_InrD)
  then show ?thesis
    by (induction seatIds chosen rule: list_all2_induct) auto
qed

text \<open>
  The three ways an order can start exclude each other and leave nothing out: ticketed at
  once exactly when nothing is owed and nobody has to decide, waiting for the organizer
  exactly when free and decided by them, else waiting for the money; an organizer's own
  entry never waits for approval.
\<close>

theorem placement_trichotomy:
  "let p = placementFor i in
     (pm_issueTickets p \<longleftrightarrow> \<not> pl_paymentRequired i \<and> (pl_requiresApproval i \<longrightarrow> pl_organizerEntry i))
   \<and> (pm_awaitsDecision p \<longleftrightarrow> \<not> pl_paymentRequired i \<and> \<not> pm_issueTickets p)
   \<and> (pl_paymentRequired i \<longleftrightarrow> \<not> pm_issueTickets p \<and> \<not> pm_awaitsDecision p)
   \<and> (pl_organizerEntry i \<longrightarrow> \<not> pm_requiresApproval p)"
  by (auto simp: placementFor_def Let_def)

end
