(* ===== verification/Redemptions.thy ===== *)
theory Redemptions
  imports Schema
begin

text \<open>
  \<^verbatim>\<open>discounts/redemption-ledger.adapter.ts\<close>: one use of a discount code, recorded and
  counted inside the transaction of the order that uses it.
\<close>

definition UNLIMITED_REDEMPTIONS :: int where "UNLIMITED_REDEMPTIONS = 0"

definition REDEMPTION_LIMIT_REACHED :: error where
  "REDEMPTION_LIMIT_REACHED = Validation ''This code has reached its redemption limit.'' []"

text \<open>The condition of the UPDATE in \<^verbatim>\<open>count\<close>, and what it sets.\<close>

definition countable :: "ident \<Rightarrow> ident \<Rightarrow> code_row \<Rightarrow> bool" where
  "countable org code c = (dc_id c = code \<and> dc_org c = org
     \<and> (dc_redemptionLimit c = UNLIMITED_REDEMPTIONS \<or> dc_used c < dc_redemptionLimit c))"

definition counted :: "code_row \<Rightarrow> code_row" where
  "counted c = c\<lparr>dc_used := dc_used c + 1,
     dc_status := (if dc_status c \<noteq> DDisabled \<and> dc_redemptionLimit c \<noteq> UNLIMITED_REDEMPTIONS
                      \<and> dc_used c + 1 \<ge> dc_redemptionLimit c
                   then DExpired else dc_status c)\<rparr>"

definition count_use :: "ident \<Rightarrow> ident \<Rightarrow> db \<Rightarrow> error + db" where
  "count_use org code d =
     (if filter (countable org code) (d_codes d) = [] then Inl REDEMPTION_LIMIT_REACHED
      else Inr (d\<lparr>d_codes := upd (countable org code) counted (d_codes d)\<rparr>))"

definition redeemIn :: "redemption_row \<Rightarrow> db \<Rightarrow> error + db" where
  "redeemIn r d =
     (if list_ex (\<lambda>x. rd_code x = rd_code r \<and> rd_order x = rd_order r) (d_redemptions d)
      then Inr d
      else count_use (rd_org r) (rd_code r) (d\<lparr>d_redemptions := d_redemptions d @ [r]\<rparr>))"

lemma redeemIn_frame:
  assumes "redeemIn r d = Inr d'"
  shows "d' = d\<lparr>d_redemptions := d_redemptions d', d_codes := d_codes d'\<rparr>"
  using assms by (auto simp: redeemIn_def count_use_def split: if_splits)

interpretation redemption_hook: tx_hook "redeemIn r" for r
proof
  fix d d' assume "redeemIn r d = Inr d'"
  from redeemIn_frame [OF this] show "inventory d' = inventory d"
    by (cases d; cases d') (simp add: inventory_def)
qed

text \<open>
  The ledger agrees with the counter when every code's \<^verbatim>\<open>used\<close> is the number of its
  redemptions, no code is used beyond its limit, and a code that reached it is closed.
\<close>

definition uses_of :: "redemption_row list \<Rightarrow> ident \<Rightarrow> ident \<Rightarrow> int" where
  "uses_of rs org code = int (length (filter (\<lambda>r. rd_org r = org \<and> rd_code r = code) rs))"

definition within_limit :: "code_row \<Rightarrow> bool" where
  "within_limit c = (dc_redemptionLimit c = UNLIMITED_REDEMPTIONS \<or> dc_used c \<le> dc_redemptionLimit c)"

definition ledger_agrees :: "db \<Rightarrow> bool" where
  "ledger_agrees d = (distinct (map dc_id (d_codes d))
     \<and> (\<forall>c\<in>set (d_codes d). dc_used c = uses_of (d_redemptions d) (dc_org c) (dc_id c) \<and> within_limit c))"

lemma counted_fields [simp]:
  "dc_id (counted c) = dc_id c" "dc_org (counted c) = dc_org c" "dc_used (counted c) = dc_used c + 1"
  "dc_redemptionLimit (counted c) = dc_redemptionLimit c"
  by (simp_all add: counted_def)

lemma uses_of_snoc:
  "uses_of (rs @ [r]) org code =
     uses_of rs org code + (if rd_org r = org \<and> rd_code r = code then 1 else 0)"
  by (simp add: uses_of_def)

section \<open>Properties\<close>

text \<open>
  Redeeming keeps the redemption ledger and the code's counter in agreement and no limit
  is ever exceeded, however many orders use the code: the order that would be one too many
  is refused, and as the refusal rolls its transaction back nothing of it remains.
\<close>

theorem redeem_keeps_ledger:
  assumes "ledger_agrees d" and "redeemIn r d = Inr d'"
  shows "ledger_agrees d'"
proof (cases "d' = d")
  case True
  with assms show ?thesis by simp
next
  case False
  let ?P = "countable (rd_org r) (rd_code r)"
  from False assms(2) have codes: "d_codes d' = upd ?P counted (d_codes d)"
    and reds: "d_redemptions d' = d_redemptions d @ [r]" and some: "\<exists>c\<in>set (d_codes d). ?P c"
    by (auto simp: redeemIn_def count_use_def filter_empty_conv split: if_splits)
  have ids: "map dc_id (d_codes d') = map dc_id (d_codes d)"
    unfolding codes by (rule map_upd_key) simp
  have dist: "distinct (map dc_id (d_codes d))" using assms(1) by (simp add: ledger_agrees_def)
  have "dc_used c' = uses_of (d_redemptions d') (dc_org c') (dc_id c') \<and> within_limit c'"
    if c': "c' \<in> set (d_codes d')" for c'
  proof -
    from c' obtain c where c: "c \<in> set (d_codes d)" "c' = (if ?P c then counted c else c)"
      unfolding codes in_set_upd by blast
    from c(1) assms(1) have old: "dc_used c = uses_of (d_redemptions d) (dc_org c) (dc_id c)" "within_limit c"
      by (auto simp: ledger_agrees_def)
    from some obtain x where x: "x \<in> set (d_codes d)" "?P x" by blast
    have "x = c" if "dc_id c = rd_code r"
      using x c(1) dist that by (metis countable_def distinct_map inj_onD)
    then have "?P c" if "rd_org r = dc_org c" "rd_code r = dc_id c" using x that by metis
    then show ?thesis using c(2) old
      by (auto simp: reds uses_of_snoc within_limit_def countable_def)
  qed
  with ids dist show ?thesis by (simp add: ledger_agrees_def)
qed

text \<open>
  Submitting the same code for the same order again counts nothing; a first use raises
  exactly that code's counter by one, closes the code when the last use is spent unless the
  organizer disabled it, and fails with the limit error exactly when no use is left.
\<close>

theorem redeem_once_per_order:
  "(list_ex (\<lambda>x. rd_code x = rd_code r \<and> rd_order x = rd_order r) (d_redemptions d)
      \<longrightarrow> redeemIn r d = Inr d)
   \<and> (redeemIn r d = Inr d' \<longrightarrow> redeemIn r d' = Inr d')
   \<and> (\<forall>e. redeemIn r d = Inl e \<longrightarrow> e = REDEMPTION_LIMIT_REACHED
        \<and> (\<forall>c\<in>set (d_codes d). dc_id c = rd_code r \<and> dc_org c = rd_org r
              \<longrightarrow> dc_redemptionLimit c \<noteq> 0 \<and> dc_redemptionLimit c \<le> dc_used c))"
  by (auto simp: redeemIn_def count_use_def countable_def filter_empty_conv UNLIMITED_REDEMPTIONS_def
      split: if_splits)

end
