(* ===== verification/CheckoutRepo.thy ===== *)
theory CheckoutRepo
  imports CheckoutRules Redemptions
begin

text \<open>
  \<^verbatim>\<open>checkout/checkout.repository.ts\<close>, the money-path transactions: placing an order,
  joining the waitlist, recording an offer, settling an order when its payment lands or an
  organizer approves it, rejecting it, giving its holds back, refunding it. Every
  transaction locks the rows it decides on before it reads them, so each is one function
  on the database, that an error rolls back as a whole.
\<close>

section \<open>Inputs\<close>

record buyer =
  b_name :: string
  b_email :: string
  b_phone :: "string option"

record place_order_input =
  po_org :: ident
  po_event :: ident
  po_reference :: string
  po_idempotencyKey :: string
  po_buyer :: buyer
  po_type :: ident
  po_typeName :: string
  po_quantity :: int
  po_seatIds :: "ident list option"
  po_holdIds :: "ident list"
  po_unitPrice :: satang
  po_totals :: order_totals
  po_discountCode :: "ident option"
  po_createdBy :: "ident option"
  po_issueTickets :: bool
  po_requiresApproval :: bool
  po_awaitsDecision :: bool
  po_qrTokens :: "string list"
  po_buildEvent :: "order_row \<Rightarrow> ticket_row list \<Rightarrow> outbox_event option"
  po_now :: instant

record join_waitlist_input =
  jw_org :: ident
  jw_event :: ident
  jw_reference :: string
  jw_idempotencyKey :: string
  jw_buyer :: buyer
  jw_type :: ident
  jw_quantity :: int
  jw_unitPrice :: satang
  jw_totals :: order_totals
  jw_now :: instant

record order_insert =
  ins_org :: ident
  ins_reference :: string
  ins_idempotencyKey :: string
  ins_event :: ident
  ins_buyer :: buyer
  ins_quantity :: int
  ins_totals :: order_totals
  ins_discountCode :: "ident option"
  ins_createdBy :: "ident option"
  ins_requiresApproval :: bool

record order_state =
  os_status :: order_status
  os_paymentStatus :: payment_status
  os_approvalRequestedAt :: "instant option"

definition WAITLISTED :: order_state where
  "WAITLISTED = \<lparr>os_status = OWaitlisted, os_paymentStatus = PPending,
     os_approvalRequestedAt = None\<rparr>"

definition DECISION_HOLD_EXPIRY :: instant where
  "DECISION_HOLD_EXPIRY = 253402300799000"

definition LIVE_TICKET_STATUSES :: "issued_ticket_status list" where
  "LIVE_TICKET_STATUSES = [TIssued, TCheckedIn]"

definition DECIDED_ELSEWHERE :: error where
  "DECIDED_ELSEWHERE = Conflict
     ''This registration was decided by someone else - refresh to see where it stands.'' []"

definition PAID_WHILE_DECIDING :: error where
  "PAID_WHILE_DECIDING = Conflict
     ''This registration was paid for while you were deciding - refresh to see where it stands.'' []"

section \<open>Statements the transactions share\<close>

definition enqueueIn :: "outbox_event \<Rightarrow> db \<Rightarrow> db" where
  "enqueueIn ev d = d\<lparr>d_outbox := d_outbox d @ [ev]\<rparr>"

text \<open>An UPDATE of \<^verbatim>\<open>ticket_types\<close>, refused by \<^verbatim>\<open>ck_ticket_types_sold\<close> when a row would break it.\<close>

definition sold_within_total :: "tier_row \<Rightarrow> bool" where
  "sold_within_total t = (0 \<le> tt_sold t \<and> tt_sold t \<le> tt_total t)"

definition updateTiers :: "(tier_row \<Rightarrow> bool) \<Rightarrow> (tier_row \<Rightarrow> tier_row) \<Rightarrow> db \<Rightarrow> error + db" where
  "updateTiers P f d =
     (if list_all (\<lambda>t. sold_within_total (f t)) (filter P (d_tiers d))
      then Inr (d\<lparr>d_tiers := upd P f (d_tiers d)\<rparr>)
      else Inl (DbViolation ck_ticket_types_sold))"

definition updateHolds :: "(hold_row \<Rightarrow> bool) \<Rightarrow> (hold_row \<Rightarrow> hold_row) \<Rightarrow> db \<Rightarrow> db" where
  "updateHolds P f d = d\<lparr>d_holds := upd P f (d_holds d)\<rparr>"

definition updateOrder :: "ident \<Rightarrow> (order_row \<Rightarrow> order_row) \<Rightarrow> db \<Rightarrow> db" where
  "updateOrder i f d = d\<lparr>d_orders := upd (\<lambda>o'. o_id o' = i) f (d_orders d)\<rparr>"

text \<open>An INSERT gives each row its own new id.\<close>

definition with_ids :: "ident \<Rightarrow> (ident \<Rightarrow> 'r) list \<Rightarrow> 'r list" where
  "with_ids n mk = map (\<lambda>(i, f). f i) (enumerate n mk)"

definition insertTickets :: "(ident \<Rightarrow> ticket_row) list \<Rightarrow> db \<Rightarrow> ticket_row list tx" where
  "insertTickets mk d =
     (let rows = with_ids (d_next d) mk in
      if rows = [] then Inl Uncaught
      else if \<not> distinct (map t_qrToken (d_tickets d @ rows)) then Inl (DbViolation uq_tickets_qr_token)
      else Inr (rows, d\<lparr>d_tickets := d_tickets d @ rows, d_next := d_next d + length rows\<rparr>))"

text \<open>
  One assignment for each seat, of the ticket with the same index; reading a ticket past the
  end of the list throws.
\<close>

definition insertAssignments :: "ident \<Rightarrow> ident list \<Rightarrow> ticket_row list \<Rightarrow> db \<Rightarrow> error + db" where
  "insertAssignments org seatIds issued d =
     (if length seatIds > length issued then Inl Uncaught
      else
        let rows = with_ids (d_next d) (map (\<lambda>(s, t) i. \<lparr>sa_id = i, sa_org = org, sa_seat = s,
                     sa_ticket = t_id t, sa_releasedAt = None\<rparr>) (zip seatIds issued))
        in if seat_active_index (d_assignments d @ rows)
           then Inr (d\<lparr>d_assignments := d_assignments d @ rows, d_next := d_next d + length rows\<rparr>)
           else Inl (DbViolation uq_seat_active))"

section \<open>Placing an order\<close>

definition findByIdempotencyKey ::
  "ident \<Rightarrow> string \<Rightarrow> db \<Rightarrow> (order_row \<times> ticket_row list) option" where
  "findByIdempotencyKey org key d =
     map_option (\<lambda>ord. (ord, sort_key t_id (filter (\<lambda>t. t_order t = o_id ord) (d_tickets d))))
       (find (\<lambda>ord. o_org ord = org \<and> o_idempotencyKey ord = Some key) (d_orders d))"

definition assertHoldsStillActive :: "place_order_input \<Rightarrow> db \<Rightarrow> error + unit" where
  "assertHoldsStillActive inp d =
     (let live = filter (\<lambda>h. h_org h = po_org inp \<and> h_id h \<in> set (po_holdIds inp)
                   \<and> h_status h = HActive \<and> h_expiresAt h > po_now inp) (d_holds d)
      in check (length live = length (po_holdIds inp))
           (Conflict ''Your seats were released while you were checking out. Please choose again.'' []))"

definition mapHasTypedSeats :: "ident \<Rightarrow> ident \<Rightarrow> db \<Rightarrow> bool" where
  "mapHasTypedSeats org event d =
     list_ex (\<lambda>s. s_org s = org \<and> s_type s \<noteq> None
       \<and> list_ex (\<lambda>m. sm_id m = s_map s \<and> sm_event m = event \<and> sm_deletedAt m = None) (d_maps d))
       (d_seats d)"

definition assertHeldSeatsMatch :: "place_order_input \<Rightarrow> db \<Rightarrow> error + unit" where
  "assertHeldSeatsMatch inp d =
     (case po_seatIds inp of
        None \<Rightarrow> Inr ()
      | Some seatIds \<Rightarrow>
          if seatIds = [] then Inr ()
          else
            let held = List.map_filter h_seat (filter (\<lambda>h. h_org h = po_org inp
                         \<and> h_id h \<in> set (po_holdIds inp) \<and> h_seat h \<noteq> None) (d_holds d));
                priced = filter (\<lambda>s. s_org s = po_org inp \<and> s_id s \<in> set seatIds) (d_seats d)
            in check (heldSeatsMatch \<lparr>hc_pricedSeatIds = seatIds, hc_heldSeatIds = held,
                        hc_seatTypes = map_of (rev (map (\<lambda>s. (s_id s, s_type s)) priced)),
                        hc_ticketTypeId = po_type inp,
                        hc_mapTyped = mapHasTypedSeats (po_org inp) (po_event inp) d\<rparr>)
                 (Conflict ''Your seats changed. Please choose again.'' []))"

definition upsertAttendee :: "ident \<Rightarrow> buyer \<Rightarrow> db \<Rightarrow> ident \<times> db" where
  "upsertAttendee org b d =
     (let P = (\<lambda>a. at_org a = org \<and> ci_eq (at_email a) (b_email b)) in
      case find P (d_attendees d) of
        Some a \<Rightarrow> (at_id a, d\<lparr>d_attendees := upd P (\<lambda>a. a\<lparr>at_name := b_name b\<rparr>) (d_attendees d)\<rparr>)
      | None \<Rightarrow> (d_next d,
          d\<lparr>d_attendees := d_attendees d @ [\<lparr>at_id = d_next d, at_org = org, at_name = b_name b,
              at_email = b_email b, at_phone = b_phone b\<rparr>],
            d_next := d_next d + 1\<rparr>))"

definition new_order_row :: "order_insert \<Rightarrow> ident \<Rightarrow> order_state \<Rightarrow> db \<Rightarrow> order_row" where
  "new_order_row inp attendeeId state d =
     \<lparr>o_id = d_next d, o_org = ins_org inp, o_reference = ins_reference inp,
      o_event = ins_event inp, o_attendee = Some attendeeId,
      o_buyerName = b_name (ins_buyer inp), o_buyerEmail = b_email (ins_buyer inp),
      o_buyerPhone = b_phone (ins_buyer inp),
      o_status = os_status state, o_paymentStatus = os_paymentStatus state,
      o_idempotencyKey = Some (ins_idempotencyKey inp), o_seats = ins_quantity inp,
      o_subtotal = subtotalSatang (ins_totals inp), o_discountCode = ins_discountCode inp,
      o_discountAmount = discountSatang (ins_totals inp), o_vatAmount = vatSatang (ins_totals inp),
      o_total = totalSatang (ins_totals inp), o_registeredAt = d_clock d, o_confirmedAt = None,
      o_approvedAt = None, o_rejectedAt = None, o_decidedBy = None, o_rejectionReason = None,
      o_offeredAt = None, o_offeredBy = None, o_offerExpiresAt = None, o_offerSkipped = None,
      o_requiresApproval = ins_requiresApproval inp,
      o_approvalRequestedAt = os_approvalRequestedAt state, o_cancelledAt = None,
      o_createdBy = ins_createdBy inp, o_version = 1\<rparr>"

definition insertOrder :: "order_insert \<Rightarrow> ident \<Rightarrow> order_state \<Rightarrow> db \<Rightarrow> order_row tx" where
  "insertOrder inp attendeeId state d =
     (let row = new_order_row inp attendeeId state d in
      if \<not> (1 \<le> o_seats row \<and> o_seats row \<le> 8) then Inl (DbViolation ck_orders_seats)
      else if \<not> (0 \<le> o_subtotal row \<and> 0 \<le> o_discountAmount row \<and> 0 \<le> o_vatAmount row
                  \<and> 0 \<le> o_total row) then Inl (DbViolation ck_orders_money)
      else if list_ex (\<lambda>x. o_org x = o_org row \<and> o_reference x = o_reference row) (d_orders d)
      then Inl (DbViolation uq_orders_org_reference)
      else if list_ex (\<lambda>x. o_org x = o_org row \<and> o_idempotencyKey x = o_idempotencyKey row) (d_orders d)
      then Inl (DbViolation uq_orders_org_idem)
      else Inr (row, d\<lparr>d_orders := d_orders d @ [row], d_next := d_next d + 1\<rparr>))"

definition insertOrderItem ::
  "ident \<Rightarrow> ident \<Rightarrow> int \<Rightarrow> satang \<Rightarrow> order_totals \<Rightarrow> ident \<Rightarrow> db \<Rightarrow> ident tx" where
  "insertOrderItem org type quantity unitPrice totals orderId d =
     (if quantity < 1 then Inl (DbViolation ck_order_items_qty)
      else Inr (d_next d, d\<lparr>d_items := d_items d @ [\<lparr>oi_id = d_next d, oi_org = org,
             oi_order = orderId, oi_type = type, oi_quantity = quantity, oi_unitPrice = unitPrice,
             oi_lineSubtotal = subtotalSatang totals\<rparr>],
             d_next := d_next d + 1\<rparr>))"

definition reserveAllocation :: "place_order_input \<Rightarrow> db \<Rightarrow> error + db" where
  "reserveAllocation inp d =
     (case find (\<lambda>t. tt_id t = po_type inp \<and> tt_org t = po_org inp) (d_tiers d) of
        None \<Rightarrow> Inl (Conflict ''That ticket type is no longer on sale.'' [])
      | Some tier \<Rightarrow>
          if exceedsAllocation (tt_sold tier) (tt_total tier) (po_quantity inp)
          then Inl (Conflict
            ''Those tickets sold out while you were checking out. Please choose again.'' [])
          else updateTiers (\<lambda>t. tt_id t = po_type inp)
                 (\<lambda>t. t\<lparr>tt_sold := tt_sold tier + po_quantity inp\<rparr>) d)"

definition assignSeats :: "place_order_input \<Rightarrow> ticket_row list \<Rightarrow> db \<Rightarrow> error + db" where
  "assignSeats inp issued d =
     (case po_seatIds inp of
        None \<Rightarrow> Inr d
      | Some seatIds \<Rightarrow> if seatIds = [] then Inr d else insertAssignments (po_org inp) seatIds issued d)"

definition place_ticket ::
  "place_order_input \<Rightarrow> ident \<Rightarrow> ident \<Rightarrow> ident \<Rightarrow> string \<Rightarrow> nat \<Rightarrow> ticket_row" where
  "place_ticket inp orderId itemId attendeeId qrToken i =
     \<lparr>t_id = i, t_org = po_org inp, t_order = orderId, t_item = itemId, t_event = po_event inp,
      t_type = po_type inp, t_attendee = Some attendeeId, t_qrToken = qrToken,
      t_holderName = Some (b_name (po_buyer inp)), t_label = Some (po_typeName inp),
      t_status = TIssued, t_checkedInAt = None\<rparr>"

definition issueTickets ::
  "place_order_input \<Rightarrow> order_row \<Rightarrow> ident \<Rightarrow> ident \<Rightarrow> db \<Rightarrow> ticket_row list tx" where
  "issueTickets inp order orderItemId attendeeId d =
     bindE (reserveAllocation inp d) (\<lambda>d.
     bindE (insertTickets (map (place_ticket inp (o_id order) orderItemId attendeeId) (po_qrTokens inp)) d)
       (\<lambda>(issued, d).
     bindE (assignSeats inp issued d) (\<lambda>d. Inr (issued, d))))"

definition convertHolds :: "place_order_input \<Rightarrow> db \<Rightarrow> db" where
  "convertHolds inp d =
     (if po_holdIds inp = [] then d
      else updateHolds (\<lambda>h. h_org h = po_org inp \<and> h_id h \<in> set (po_holdIds inp))
             (\<lambda>h. h\<lparr>h_status := HConverted, h_order := None\<rparr>) d)"

definition attachHolds :: "place_order_input \<Rightarrow> ident \<Rightarrow> instant option \<Rightarrow> db \<Rightarrow> db" where
  "attachHolds inp orderId expiresAt d =
     (if po_holdIds inp = [] then d
      else updateHolds (\<lambda>h. h_org h = po_org inp \<and> h_id h \<in> set (po_holdIds inp))
             (\<lambda>h. h\<lparr>h_order := Some orderId,
                h_expiresAt := (case expiresAt of None \<Rightarrow> h_expiresAt h | Some e \<Rightarrow> e)\<rparr>) d)"

definition reserveForDecision :: "place_order_input \<Rightarrow> ident \<Rightarrow> db \<Rightarrow> error + db" where
  "reserveForDecision inp orderId d =
     bindE (reserveAllocation inp d) (\<lambda>d.
       if (case po_seatIds inp of None \<Rightarrow> False | Some s \<Rightarrow> s \<noteq> [])
       then Inr (attachHolds inp orderId (Some DECISION_HOLD_EXPIRY) d)
       else Inr (convertHolds inp d))"

definition settleHolds :: "place_order_input \<Rightarrow> ident \<Rightarrow> db \<Rightarrow> error + db" where
  "settleHolds inp orderId d =
     (if po_issueTickets inp then Inr (convertHolds inp d)
      else if po_awaitsDecision inp then reserveForDecision inp orderId d
      else Inr (attachHolds inp orderId None d))"

definition recordRedemption :: "place_order_input \<Rightarrow> ident \<Rightarrow> db \<Rightarrow> error + db" where
  "recordRedemption inp orderId d =
     (case po_discountCode inp of
        None \<Rightarrow> Inr d
      | Some code \<Rightarrow>
          if discountSatang (po_totals inp) = 0 then Inr d
          else redeemIn \<lparr>rd_org = po_org inp, rd_code = code, rd_order = orderId,
                 rd_buyerEmail = b_email (po_buyer inp), rd_amount = discountSatang (po_totals inp)\<rparr> d)"

definition initialState :: "place_order_input \<Rightarrow> order_state" where
  "initialState inp =
     (if po_issueTickets inp
      then \<lparr>os_status = OConfirmed, os_paymentStatus = PPaid, os_approvalRequestedAt = None\<rparr>
      else \<lparr>os_status = OPending, os_paymentStatus = PPending,
            os_approvalRequestedAt = (if po_awaitsDecision inp then Some (po_now inp) else None)\<rparr>)"

definition place_insert :: "place_order_input \<Rightarrow> order_insert" where
  "place_insert inp = \<lparr>ins_org = po_org inp, ins_reference = po_reference inp,
     ins_idempotencyKey = po_idempotencyKey inp, ins_event = po_event inp, ins_buyer = po_buyer inp,
     ins_quantity = po_quantity inp, ins_totals = po_totals inp,
     ins_discountCode = po_discountCode inp, ins_createdBy = po_createdBy inp,
     ins_requiresApproval = po_requiresApproval inp\<rparr>"

record placed_order =
  pr_order :: order_row
  pr_tickets :: "ticket_row list"
  pr_replayed :: bool

definition placeOrder :: "place_order_input \<Rightarrow> db \<Rightarrow> placed_order tx" where
  "placeOrder inp d =
     (case findByIdempotencyKey (po_org inp) (po_idempotencyKey inp) d of
        Some (ord, ts) \<Rightarrow> Inr (\<lparr>pr_order = ord, pr_tickets = ts, pr_replayed = True\<rparr>, d)
      | None \<Rightarrow>
          bindE (assertHoldsStillActive inp d) (\<lambda>_.
          bindE (assertHeldSeatsMatch inp d) (\<lambda>_.
          let (attendeeId, d) = upsertAttendee (po_org inp) (po_buyer inp) d in
          bindE (insertOrder (place_insert inp) attendeeId (initialState inp) d) (\<lambda>(order, d).
          bindE (insertOrderItem (po_org inp) (po_type inp) (po_quantity inp) (po_unitPrice inp)
                   (po_totals inp) (o_id order) d) (\<lambda>(item, d).
          bindE (if po_issueTickets inp then issueTickets inp order item attendeeId d else Inr ([], d))
            (\<lambda>(issued, d).
          bindE (settleHolds inp (o_id order) d) (\<lambda>d.
          bindE (recordRedemption inp (o_id order) d) (\<lambda>d.
          Inr (\<lparr>pr_order = order, pr_tickets = sort_key t_id issued, pr_replayed = False\<rparr>,
            case po_buildEvent inp order issued of None \<Rightarrow> d | Some ev \<Rightarrow> enqueueIn ev d)))))))))"

section \<open>The waitlist\<close>

text \<open>\<^verbatim>\<open>orders INNER JOIN order_items\<close>, and with the ticket type joined too.\<close>

definition order_lines :: "db \<Rightarrow> (order_row \<times> item_row) list" where
  "order_lines d = [(ord, i). ord \<leftarrow> d_orders d, i \<leftarrow> d_items d, oi_order i = o_id ord]"

record waitlist_entry =
  we_order :: order_row
  we_type :: ident
  we_typeName :: string
  we_quantity :: int

definition waitlist_rows :: "db \<Rightarrow> waitlist_entry list" where
  "waitlist_rows d = [\<lparr>we_order = ord, we_type = oi_type i, we_typeName = tt_name t,
       we_quantity = oi_quantity i\<rparr>. (ord, i) \<leftarrow> order_lines d, t \<leftarrow> d_tiers d, tt_id t = oi_type i]"

definition waitlistEntry :: "ident \<Rightarrow> ident \<Rightarrow> db \<Rightarrow> waitlist_entry option" where
  "waitlistEntry org orderId d =
     find (\<lambda>e. o_id (we_order e) = orderId \<and> o_org (we_order e) = org) (waitlist_rows d)"

definition in_line_before :: "order_row \<Rightarrow> order_row \<Rightarrow> bool" where
  "in_line_before a b = (o_registeredAt a < o_registeredAt b
     \<or> o_registeredAt a = o_registeredAt b \<and> o_id a < o_id b)"

definition frontOfLine :: "ident \<Rightarrow> ident \<Rightarrow> db \<Rightarrow> waitlist_entry option" where
  "frontOfLine org type d =
     (case sort_key (\<lambda>e. o_registeredAt (we_order e))
             (sort_key (\<lambda>e. o_id (we_order e))
               (filter (\<lambda>e. o_org (we_order e) = org \<and> o_status (we_order e) = os_status WAITLISTED
                  \<and> we_type e = type) (waitlist_rows d))) of
        [] \<Rightarrow> None
      | e # _ \<Rightarrow> Some e)"

definition alreadyWaiting :: "join_waitlist_input \<Rightarrow> db \<Rightarrow> order_row option" where
  "alreadyWaiting inp d =
     map_option fst (find (\<lambda>(ord, i). o_org ord = jw_org inp \<and> o_event ord = jw_event inp
       \<and> ci_eq (o_buyerEmail ord) (b_email (jw_buyer inp)) \<and> o_status ord = os_status WAITLISTED
       \<and> oi_type i = jw_type inp) (order_lines d))"

definition waitlist_insert :: "join_waitlist_input \<Rightarrow> order_insert" where
  "waitlist_insert inp = \<lparr>ins_org = jw_org inp, ins_reference = jw_reference inp,
     ins_idempotencyKey = jw_idempotencyKey inp, ins_event = jw_event inp, ins_buyer = jw_buyer inp,
     ins_quantity = jw_quantity inp, ins_totals = jw_totals inp, ins_discountCode = None,
     ins_createdBy = None, ins_requiresApproval = False\<rparr>"

definition insertWaitlistEntry :: "join_waitlist_input \<Rightarrow> db \<Rightarrow> order_row tx" where
  "insertWaitlistEntry inp d =
     (let (attendeeId, d) = upsertAttendee (jw_org inp) (jw_buyer inp) d in
      bindE (insertOrder (waitlist_insert inp) attendeeId WAITLISTED d) (\<lambda>(order, d).
      bindE (insertOrderItem (jw_org inp) (jw_type inp) (jw_quantity inp) (jw_unitPrice inp)
               (jw_totals inp) (o_id order) d) (\<lambda>(_, d).
      Inr (order, d))))"

text \<open>
  The two subqueries of \<^verbatim>\<open>waitlistAhead\<close>: the ticket type the registration waits for, and
  its place in time. Where one finds no row the comparison is NULL and nobody is ahead.
\<close>

definition waitlistAhead :: "ident \<Rightarrow> ident \<Rightarrow> db \<Rightarrow> int" where
  "waitlistAhead org orderId d =
     (case (find (\<lambda>mi. oi_order mi = orderId) (d_items d), find (\<lambda>me. o_id me = orderId) (d_orders d)) of
        (Some mi, Some me) \<Rightarrow>
          int (length (filter (\<lambda>(ord, i). o_org ord = org \<and> o_status ord = os_status WAITLISTED
            \<and> o_id ord \<noteq> orderId \<and> oi_type i = oi_type mi \<and> in_line_before ord me) (order_lines d)))
      | _ \<Rightarrow> 0)"

definition joinWaitlist :: "join_waitlist_input \<Rightarrow> db \<Rightarrow> (order_row \<times> int) tx" where
  "joinWaitlist inp d =
     (let existing = (case findByIdempotencyKey (jw_org inp) (jw_idempotencyKey inp) d of
                        Some (ord, _) \<Rightarrow> Some ord
                      | None \<Rightarrow> alreadyWaiting inp d)
      in bindE (case existing of Some ord \<Rightarrow> Inr (ord, d) | None \<Rightarrow> insertWaitlistEntry inp d)
           (\<lambda>(order, d). Inr ((order, waitlistAhead (jw_org inp) (o_id order) d + 1), d)))"

definition lockOrder :: "ident \<Rightarrow> ident \<Rightarrow> db \<Rightarrow> error + order_row" where
  "lockOrder org orderId d =
     (case find (\<lambda>ord. o_id ord = orderId \<and> o_org ord = org) (d_orders d) of
        None \<Rightarrow> Inl (NotFound ''This order isn't available.'')
      | Some ord \<Rightarrow> Inr ord)"

definition offered_row :: "ident option \<Rightarrow> instant \<Rightarrow> instant \<Rightarrow> int \<Rightarrow> order_row \<Rightarrow> order_row" where
  "offered_row offeredBy offerExpiresAt now skipped ord = ord\<lparr>o_status := OPending,
     o_offeredAt := Some now, o_offeredBy := offeredBy, o_offerExpiresAt := Some offerExpiresAt,
     o_offerSkipped := Some skipped, o_version := o_version ord + 1\<rparr>"

definition markOffered ::
  "ident \<Rightarrow> ident \<Rightarrow> ident option \<Rightarrow> instant \<Rightarrow> instant \<Rightarrow> (order_row \<Rightarrow> outbox_event) \<Rightarrow> db
    \<Rightarrow> order_row tx" where
  "markOffered org orderId offeredBy offerExpiresAt now buildEvent d =
     bindE (lockOrder org orderId d) (\<lambda>order.
       if o_status order \<noteq> os_status WAITLISTED then Inl DECIDED_ELSEWHERE
       else
         let skipped = waitlistAhead org (o_id order) d;
             f = offered_row offeredBy offerExpiresAt now skipped;
             d = updateOrder (o_id order) f d
         in Inr (f order, enqueueIn (buildEvent (f order)) d))"

section \<open>Settling an order\<close>

datatype settlement_mode = PaymentMode | ApprovalMode

record settle_order_input =
  so_org :: ident
  so_order :: ident
  so_mode :: settlement_mode
  so_decidedBy :: "ident option"
  so_mintQrToken :: "nat \<Rightarrow> string"
  so_buildConfirmedEvent :: "order_row \<Rightarrow> int \<Rightarrow> outbox_event"
  so_buildRefundEvent :: "order_row \<Rightarrow> string \<Rightarrow> outbox_event"
  so_recordPayment :: "db \<Rightarrow> error + db"
  so_now :: instant

record settlement_line =
  ln_orderItemId :: ident
  ln_type :: ident
  ln_quantity :: int
  ln_tierName :: string
  ln_sold :: int
  ln_total :: int

record settlement_context =
  cx_line :: "settlement_line option"
  cx_seatIds :: "ident list"
  cx_takenSeatIds :: "ident list"
  cx_seatTypesMatch :: bool
  cx_placesCounted :: bool

datatype settlement_outcome =
  Settled | AlreadySettled | RefundRequired | AwaitingApproval | Unavailable

record settlement =
  sr_outcome :: settlement_outcome
  sr_reference :: string
  sr_ticketCount :: int
  sr_reason :: "string option"

datatype blocker = NoTier | SoldOut | SeatsTaken | SeatMismatch

fun BLOCKERS :: "settlement_mode \<Rightarrow> blocker \<Rightarrow> string" where
  "BLOCKERS PaymentMode NoTier = ''tier_removed''"
| "BLOCKERS PaymentMode SoldOut = ''soldout''"
| "BLOCKERS PaymentMode SeatsTaken = ''seats_unavailable''"
| "BLOCKERS PaymentMode SeatMismatch = ''seat_mismatch''"
| "BLOCKERS ApprovalMode NoTier = ''The ticket type on this registration no longer exists.''"
| "BLOCKERS ApprovalMode SoldOut =
     ''This ticket is now sold out - offer the attendee the waitlist instead.''"
| "BLOCKERS ApprovalMode SeatsTaken = ''The seat on this registration has been taken by someone else.''"
| "BLOCKERS ApprovalMode SeatMismatch = ''The seat reservation no longer matches the registration.''"

definition settlementBlocker :: "settlement_context \<Rightarrow> settlement_mode \<Rightarrow> string option" where
  "settlementBlocker context mode =
     (case cx_line context of
        None \<Rightarrow> Some (BLOCKERS mode NoTier)
      | Some line \<Rightarrow>
          if \<not> cx_placesCounted context \<and> exceedsAllocation (ln_sold line) (ln_total line) (ln_quantity line)
          then Some (BLOCKERS mode SoldOut)
          else if cx_takenSeatIds context \<noteq> [] then Some (BLOCKERS mode SeatsTaken)
          else if cx_seatIds context \<noteq> [] \<and> int (length (cx_seatIds context)) \<noteq> ln_quantity line
          then Some (BLOCKERS mode SeatMismatch)
          else if \<not> cx_seatTypesMatch context then Some (BLOCKERS mode SeatMismatch)
          else None)"

definition isOpenFor :: "settlement_mode \<Rightarrow> order_status \<Rightarrow> bool" where
  "isOpenFor mode status =
     (if mode = ApprovalMode then status \<in> set AWAITING_DECISION else status = OPending)"

definition lockTier :: "ident \<Rightarrow> db \<Rightarrow> tier_row option" where
  "lockTier type d = find (\<lambda>t. tt_id t = type) (d_tiers d)"

definition heldSeatIds :: "ident \<Rightarrow> ident \<Rightarrow> db \<Rightarrow> ident list" where
  "heldSeatIds org orderId d = List.map_filter h_seat
     (filter (\<lambda>h. h_org h = org \<and> h_order h = Some orderId \<and> h_seat h \<noteq> None) (d_holds d))"

definition seatsAlreadyAssigned :: "ident \<Rightarrow> ident list \<Rightarrow> db \<Rightarrow> ident list" where
  "seatsAlreadyAssigned org seatIds d =
     (if seatIds = [] then []
      else map sa_seat (filter (\<lambda>a. sa_org a = org \<and> sa_seat a \<in> set seatIds \<and> sa_releasedAt a = None)
             (d_assignments d)))"

definition seatsSellUnder :: "ident \<Rightarrow> ident \<Rightarrow> ident list \<Rightarrow> ident \<Rightarrow> db \<Rightarrow> bool" where
  "seatsSellUnder org eventId seatIds type d =
     (if seatIds = [] then True
      else
        let held = filter (\<lambda>s. s_org s = org \<and> s_id s \<in> set seatIds) (d_seats d);
            mapTyped = mapHasTypedSeats org eventId d
        in list_all (\<lambda>s. seatSellsUnder (s_type s) type mapTyped) held)"

definition loadSettlement :: "settle_order_input \<Rightarrow> order_row \<Rightarrow> db \<Rightarrow> settlement_context" where
  "loadSettlement inp order d =
     (let item = find (\<lambda>i. oi_order i = o_id order) (d_items d);
          tier = (case item of None \<Rightarrow> None | Some i \<Rightarrow> lockTier (oi_type i) d);
          seatIds = heldSeatIds (so_org inp) (o_id order) d;
          takenSeatIds = seatsAlreadyAssigned (so_org inp) seatIds d;
          seatTypesMatch = (case item of None \<Rightarrow> True
            | Some i \<Rightarrow> seatsSellUnder (so_org inp) (o_event order) seatIds (oi_type i) d)
      in \<lparr>cx_line = (case (item, tier) of
              (Some i, Some t) \<Rightarrow> Some \<lparr>ln_orderItemId = oi_id i, ln_type = oi_type i,
                 ln_quantity = oi_quantity i, ln_tierName = tt_name t, ln_sold = tt_sold t,
                 ln_total = tt_total t\<rparr>
            | _ \<Rightarrow> None),
          cx_seatIds = seatIds, cx_takenSeatIds = takenSeatIds, cx_seatTypesMatch = seatTypesMatch,
          cx_placesCounted = isAwaitingApproval order\<rparr>)"

definition countSale :: "settlement_line \<Rightarrow> db \<Rightarrow> error + db" where
  "countSale line d =
     updateTiers (\<lambda>t. tt_id t = ln_type line)
       (\<lambda>t. t\<lparr>tt_sold := ln_sold line + ln_quantity line\<rparr>) d"

definition holdForDecision :: "ident \<Rightarrow> ident \<Rightarrow> db \<Rightarrow> db" where
  "holdForDecision org orderId d =
     updateHolds (\<lambda>h. h_org h = org \<and> h_order h = Some orderId \<and> h_seat h \<noteq> None \<and> h_status h = HActive)
       (\<lambda>h. h\<lparr>h_expiresAt := DECISION_HOLD_EXPIRY\<rparr>)
       (updateHolds (\<lambda>h. h_org h = org \<and> h_order h = Some orderId \<and> h_seat h = None)
         (\<lambda>h. h\<lparr>h_status := HConverted, h_order := None\<rparr>) d)"

definition seatHoldLost :: "ident \<Rightarrow> ident \<Rightarrow> db \<Rightarrow> bool" where
  "seatHoldLost org orderId d =
     list_ex (\<lambda>h. h_org h = org \<and> h_order h = Some orderId \<and> h_seat h \<noteq> None \<and> h_status h \<noteq> HActive)
       (d_holds d)"

definition releaseActiveHolds :: "ident \<Rightarrow> ident \<Rightarrow> db \<Rightarrow> db" where
  "releaseActiveHolds org orderId d =
     updateHolds (\<lambda>h. h_org h = org \<and> h_order h = Some orderId \<and> h_status h = HActive)
       (\<lambda>h. h\<lparr>h_status := HReleased\<rparr>) d"

definition closed_row :: "instant \<Rightarrow> order_row \<Rightarrow> order_row" where
  "closed_row now ord = ord\<lparr>o_status := OCancelled, o_paymentStatus := PPaid,
     o_cancelledAt := Some now, o_version := o_version ord + 1\<rparr>"

definition refuseSettlement :: "settle_order_input \<Rightarrow> order_row \<Rightarrow> string \<Rightarrow> db \<Rightarrow> settlement tx" where
  "refuseSettlement inp order reason d =
     (let d = updateOrder (o_id order) (closed_row (so_now inp)) d;
          d = releaseActiveHolds (so_org inp) (o_id order) d
      in bindE (so_recordPayment inp d) (\<lambda>d.
         Inr (\<lparr>sr_outcome = RefundRequired, sr_reference = o_reference order, sr_ticketCount = 0,
                sr_reason = None\<rparr>,
           enqueueIn (so_buildRefundEvent inp order reason) d)))"

definition waiting_row :: "instant \<Rightarrow> order_row \<Rightarrow> order_row" where
  "waiting_row now ord = ord\<lparr>o_paymentStatus := PPaid, o_approvalRequestedAt := Some now,
     o_version := o_version ord + 1\<rparr>"

definition awaitDecision ::
  "settle_order_input \<Rightarrow> order_row \<Rightarrow> settlement_context \<Rightarrow> db \<Rightarrow> settlement tx" where
  "awaitDecision inp order context d =
     (if seatHoldLost (so_org inp) (o_id order) d
      then refuseSettlement inp order ''seats_released'' d
      else
        bindE (countSale (the (cx_line context)) d) (\<lambda>d.
        let d = holdForDecision (so_org inp) (o_id order) d;
            d = updateOrder (o_id order) (waiting_row (so_now inp)) d
        in bindE (so_recordPayment inp d) (\<lambda>d.
           Inr (\<lparr>sr_outcome = AwaitingApproval, sr_reference = o_reference order, sr_ticketCount = 0,
                  sr_reason = None\<rparr>, d))))"

definition settle_ticket ::
  "settle_order_input \<Rightarrow> order_row \<Rightarrow> settlement_line \<Rightarrow> string \<Rightarrow> nat \<Rightarrow> ticket_row" where
  "settle_ticket inp order line qrToken i =
     \<lparr>t_id = i, t_org = so_org inp, t_order = o_id order, t_item = ln_orderItemId line,
      t_event = o_event order, t_type = ln_type line, t_attendee = o_attendee order,
      t_qrToken = qrToken, t_holderName = Some (o_buyerName order),
      t_label = Some (ln_tierName line), t_status = TIssued, t_checkedInAt = None\<rparr>"

definition settled_row :: "settle_order_input \<Rightarrow> order_row \<Rightarrow> order_row" where
  "settled_row inp ord =
     (let ord' = ord\<lparr>o_status := OConfirmed, o_paymentStatus := PPaid,
            o_confirmedAt := Some (so_now inp), o_version := o_version ord + 1\<rparr>
      in if so_mode inp = ApprovalMode
         then ord'\<lparr>o_approvedAt := Some (so_now inp), o_decidedBy := so_decidedBy inp\<rparr>
         else ord')"

definition completeSettlement ::
  "settle_order_input \<Rightarrow> order_row \<Rightarrow> settlement_context \<Rightarrow> db \<Rightarrow> settlement tx" where
  "completeSettlement inp order context d =
     (let line = the (cx_line context) in
      bindE (if cx_placesCounted context then Inr d else countSale line d) (\<lambda>d.
      bindE (insertTickets (map (\<lambda>n. settle_ticket inp order line (so_mintQrToken inp n))
               [0 ..< nat (ln_quantity line)]) d) (\<lambda>(issued, d).
      bindE (if cx_seatIds context = [] then Inr d
             else insertAssignments (so_org inp) (cx_seatIds context) issued d) (\<lambda>d.
      let d = updateHolds (\<lambda>h. h_org h = so_org inp \<and> h_order h = Some (o_id order))
                (\<lambda>h. h\<lparr>h_status := HConverted, h_order := None\<rparr>) d;
          d = updateOrder (o_id order) (settled_row inp) d
      in bindE (so_recordPayment inp d) (\<lambda>d.
         Inr (\<lparr>sr_outcome = Settled, sr_reference = o_reference order,
                sr_ticketCount = int (length issued), sr_reason = None\<rparr>,
           enqueueIn (so_buildConfirmedEvent inp (settled_row inp order) (int (length issued))) d))))))"

definition settleOrder :: "settle_order_input \<Rightarrow> db \<Rightarrow> settlement tx" where
  "settleOrder inp d =
     (let mode = so_mode inp in
      bindE (lockOrder (so_org inp) (so_order inp) d) (\<lambda>order.
      if o_status order = OConfirmed
      then bindE (so_recordPayment inp d) (\<lambda>d.
             Inr (\<lparr>sr_outcome = AlreadySettled, sr_reference = o_reference order,
                    sr_ticketCount = o_seats order, sr_reason = None\<rparr>, d))
      else if mode = PaymentMode \<and> isAwaitingApproval order
      then bindE (so_recordPayment inp d) (\<lambda>d.
             Inr (\<lparr>sr_outcome = AlreadySettled, sr_reference = o_reference order,
                    sr_ticketCount = 0, sr_reason = None\<rparr>, d))
      else if \<not> isOpenFor mode (o_status order)
      then if mode = ApprovalMode then Inl DECIDED_ELSEWHERE
           else refuseSettlement inp order ''order_closed'' d
      else
        let context = loadSettlement inp order d in
        case settlementBlocker context mode of
          Some blocked \<Rightarrow>
            if mode = ApprovalMode
            then Inr (\<lparr>sr_outcome = Unavailable, sr_reference = o_reference order,
                        sr_ticketCount = 0, sr_reason = Some blocked\<rparr>, d)
            else refuseSettlement inp order blocked d
        | None \<Rightarrow>
            if mode = PaymentMode \<and> o_requiresApproval order
            then awaitDecision inp order context d
            else completeSettlement inp order context d))"

section \<open>Rejecting and refunding\<close>

text \<open>The Map that adds up counts by ticket type, iterated in id order.\<close>

definition by_type :: "(ident \<times> int) list \<Rightarrow> (ident \<times> int) list" where
  "by_type lines = map (\<lambda>ty. (ty, sum_of snd (filter (\<lambda>l. fst l = ty) lines)))
     (sort (dedupe (map fst lines)))"

fun giveBackStock :: "ident \<Rightarrow> (ident \<times> int) list \<Rightarrow> db \<Rightarrow> error + db" where
  "giveBackStock org [] d = Inr d"
| "giveBackStock org ((type, count) # rest) d =
     bindE (updateTiers (\<lambda>t. tt_id t = type \<and> tt_org t = org)
              (\<lambda>t. t\<lparr>tt_sold := max (tt_sold t - count) 0\<rparr>) d)
       (giveBackStock org rest)"

definition givePlacesBack :: "ident \<Rightarrow> ident \<Rightarrow> db \<Rightarrow> error + db" where
  "givePlacesBack org orderId d =
     giveBackStock org (by_type (map (\<lambda>i. (oi_type i, oi_quantity i))
       (filter (\<lambda>i. oi_org i = org \<and> oi_order i = orderId) (d_items d)))) d"

definition returnStock :: "ident \<Rightarrow> ticket_row list \<Rightarrow> db \<Rightarrow> error + db" where
  "returnStock org voided d = giveBackStock org (by_type (map (\<lambda>t. (t_type t, 1)) voided)) d"

definition isRejectable :: "order_row \<Rightarrow> bool" where
  "isRejectable order = (o_status order \<in> set AWAITING_DECISION
     \<and> (o_paymentStatus order \<noteq> PPaid \<or> o_approvalRequestedAt order \<noteq> None))"

definition rejected_row :: "ident \<Rightarrow> string option \<Rightarrow> instant \<Rightarrow> order_row \<Rightarrow> order_row" where
  "rejected_row decidedBy reason now ord = ord\<lparr>o_status := ORejected, o_rejectedAt := Some now,
     o_decidedBy := Some decidedBy, o_rejectionReason := reason, o_version := o_version ord + 1\<rparr>"

record reject_order_input =
  rj_org :: ident
  rj_order :: ident
  rj_decidedBy :: ident
  rj_reason :: "string option"
  rj_mayRefund :: bool
  rj_buildRejectedEvent :: "order_row \<Rightarrow> outbox_event"
  rj_now :: instant

definition rejectOrder :: "reject_order_input \<Rightarrow> db \<Rightarrow> (string \<times> bool) tx" where
  "rejectOrder inp d =
     bindE (lockOrder (rj_org inp) (rj_order inp) d) (\<lambda>order.
     let refundDue = rejectionRefunds order in
     if o_status order = ORejected then Inr ((o_reference order, refundDue), d)
     else if \<not> isRejectable order then Inl DECIDED_ELSEWHERE
     else if refundDue \<and> \<not> rj_mayRefund inp then Inl PAID_WHILE_DECIDING
     else
       bindE (if isAwaitingApproval order then givePlacesBack (rj_org inp) (o_id order) d else Inr d)
       (\<lambda>d.
       let d = updateOrder (o_id order) (rejected_row (rj_decidedBy inp) (rj_reason inp) (rj_now inp)) d;
           d = releaseActiveHolds (rj_org inp) (o_id order) d
       in Inr ((o_reference order, refundDue), enqueueIn (rj_buildRejectedEvent inp order) d)))"

definition releaseHoldsForOrder :: "ident \<Rightarrow> ident \<Rightarrow> db \<Rightarrow> db" where
  "releaseHoldsForOrder org orderId d =
     (case find (\<lambda>ord. o_id ord = orderId \<and> o_org ord = org) (d_orders d) of
        None \<Rightarrow> d
      | Some order \<Rightarrow> if \<not> isOnCheckoutClock order then d else releaseActiveHolds org orderId d)"

definition refunded_row :: "order_row \<Rightarrow> order_row \<Rightarrow> order_row" where
  "refunded_row order ord = ord\<lparr>o_status := statusAfterRefund (o_status order),
     o_paymentStatus := PRefunded\<rparr>"

definition voidable :: "ident \<Rightarrow> ident \<Rightarrow> ticket_row \<Rightarrow> bool" where
  "voidable org orderId t = (t_order t = orderId \<and> t_org t = org \<and> t_status t \<in> set LIVE_TICKET_STATUSES)"

definition refundOrder ::
  "ident \<Rightarrow> ident \<Rightarrow> (db \<Rightarrow> error + db) \<Rightarrow> instant \<Rightarrow> db \<Rightarrow> (nat \<times> nat) tx" where
  "refundOrder org orderId recordRefund now d =
     bindE (lockOrder org orderId d) (\<lambda>order.
     bindE (if isAwaitingApproval order
            then bindE (givePlacesBack org orderId d) (\<lambda>d. Inr (releaseActiveHolds org orderId d))
            else Inr d) (\<lambda>d.
     let voided = filter (voidable org orderId) (d_tickets d);
         d = d\<lparr>d_tickets := upd (voidable org orderId) (\<lambda>t. t\<lparr>t_status := TRefunded\<rparr>) (d_tickets d)\<rparr>
     in bindE (returnStock org voided d) (\<lambda>d.
     let freed = (\<lambda>a. sa_org a = org \<and> sa_ticket a \<in> t_id ` set voided \<and> sa_releasedAt a = None);
         released = filter freed (d_assignments d);
         d = d\<lparr>d_assignments := upd freed (\<lambda>a. a\<lparr>sa_releasedAt := Some now\<rparr>) (d_assignments d)\<rparr>;
         d = updateOrder orderId (refunded_row order) d
     in bindE (recordRefund d) (\<lambda>d. Inr ((length voided, length released), d)))))"

definition enqueueRefund :: "outbox_event \<Rightarrow> db \<Rightarrow> db" where
  "enqueueRefund ev d = enqueueIn ev d"

section \<open>Reads\<close>

definition findOrderAnyTenant :: "ident \<Rightarrow> db \<Rightarrow> order_row option" where
  "findOrderAnyTenant orderId d = find (\<lambda>ord. o_id ord = orderId) (d_orders d)"

definition orderById :: "ident \<Rightarrow> ident \<Rightarrow> db \<Rightarrow> order_row option" where
  "orderById org orderId d = find (\<lambda>ord. o_id ord = orderId \<and> o_org ord = org) (d_orders d)"

text \<open>\<^verbatim>\<open>max\<close> over no row is NULL.\<close>

definition holdExpiryForOrder :: "ident \<Rightarrow> db \<Rightarrow> instant option" where
  "holdExpiryForOrder orderId d =
     (let es = map h_expiresAt (filter (\<lambda>h. h_order h = Some orderId \<and> h_status h = HActive) (d_holds d))
      in if es = [] then None else Some (fold max es (hd es)))"

end
