(* ===== verification/CheckoutInv.thy ===== *)
theory CheckoutInv
  imports CheckoutRepo
begin

text \<open>
  What the checkout's transactions keep true of the inventory. Of a ticket type, \<^verbatim>\<open>sold\<close>
  counts its live tickets and the places of its orders that wait for the organizer, nothing
  else; \<open>stock_ok\<close> says so, with the shape of the tables it rests on. One section for each
  statement the transactions share, one lemma for each transaction.
\<close>

section \<open>Counting places\<close>

definition live_ticket :: "ticket_row \<Rightarrow> bool" where
  "live_ticket t = (t_status t \<in> set LIVE_TICKET_STATUSES)"

definition awaits :: "order_row list \<Rightarrow> ident \<Rightarrow> bool" where
  "awaits ords i = list_ex (\<lambda>ord. o_id ord = i \<and> isAwaitingApproval ord) ords"

definition live_places :: "ticket_row list \<Rightarrow> ident \<Rightarrow> int" where
  "live_places ts ty = sum_of (\<lambda>t. if live_ticket t \<and> t_type t = ty then 1 else 0) ts"

definition waiting_places :: "order_row list \<Rightarrow> item_row list \<Rightarrow> ident \<Rightarrow> int" where
  "waiting_places ords is ty =
     sum_of (\<lambda>i. if awaits ords (oi_order i) \<and> oi_type i = ty then oi_quantity i else 0) is"

definition order_places :: "item_row list \<Rightarrow> ident \<Rightarrow> ident \<Rightarrow> int" where
  "order_places is oid ty = sum_of (\<lambda>i. if oi_order i = oid \<and> oi_type i = ty then oi_quantity i else 0) is"

definition places :: "db \<Rightarrow> ident \<Rightarrow> int" where
  "places d ty = live_places (d_tickets d) ty + waiting_places (d_orders d) (d_items d) ty"

section \<open>The invariant\<close>

definition order_keys_ok :: "db \<Rightarrow> bool" where
  "order_keys_ok d = (distinct (map o_id (d_orders d)) \<and> (\<forall>ord\<in>set (d_orders d). o_id ord < d_next d)
     \<and> (\<forall>ord\<in>set (d_orders d). o_status ord = OWaitlisted \<longrightarrow> o_approvalRequestedAt ord = None))"

definition items_ok :: "db \<Rightarrow> bool" where
  "items_ok d = (distinct (map oi_order (d_items d)) \<and>
     (\<forall>i\<in>set (d_items d). 1 \<le> oi_quantity i
        \<and> (\<exists>ord\<in>set (d_orders d). o_id ord = oi_order i \<and> o_org ord = oi_org i)
        \<and> (\<forall>t\<in>set (d_tiers d). tt_id t = oi_type i \<longrightarrow> tt_org t = oi_org i)))"

definition tickets_ok :: "db \<Rightarrow> bool" where
  "tickets_ok d = (distinct (map t_id (d_tickets d)) \<and>
     (\<forall>k\<in>set (d_tickets d). t_id k < d_next d \<and> t_order k < d_next d
        \<and> (\<forall>t\<in>set (d_tiers d). tt_id t = t_type k \<longrightarrow> tt_org t = t_org k)))"

definition sold_ok :: "db \<Rightarrow> bool" where
  "sold_ok d = (distinct (map tt_id (d_tiers d)) \<and>
     (\<forall>t\<in>set (d_tiers d). tt_sold t = places d (tt_id t) \<and> sold_within_total t))"

definition stock_ok :: "db \<Rightarrow> bool" where
  "stock_ok d = (order_keys_ok d \<and> items_ok d \<and> tickets_ok d \<and> sold_ok d)"

lemmas stock_defs = stock_ok_def order_keys_ok_def items_ok_def tickets_ok_def sold_ok_def

section \<open>How places move\<close>

lemma live_places_append [simp]: "live_places (xs @ ys) ty = live_places xs ty + live_places ys ty"
  by (simp add: live_places_def)

lemma live_places_nonneg: "0 \<le> live_places ts ty"
  by (auto simp: live_places_def intro: sum_of_nonneg)

lemma live_places_same_type:
  "(\<And>t. t \<in> set ts \<Longrightarrow> live_ticket t \<and> t_type t = x) \<Longrightarrow>
     live_places ts ty = (if ty = x then int (length ts) else 0)"
  by (induction ts) (auto simp: live_places_def)

lemma live_places_void:
  "live_places (upd P (\<lambda>t. t\<lparr>t_status := TRefunded\<rparr>) ts) ty =
     live_places ts ty - live_places (filter P ts) ty"
  by (induction ts) (auto simp: live_places_def live_ticket_def LIVE_TICKET_STATUSES_def)

lemma order_places_nonneg:
  "(\<And>i. i \<in> set is \<Longrightarrow> 1 \<le> oi_quantity i) \<Longrightarrow> 0 \<le> order_places is oid ty"
  unfolding order_places_def by (rule sum_of_nonneg) force

lemma waiting_places_ge:
  assumes "\<And>i. i \<in> set is \<Longrightarrow> 1 \<le> oi_quantity i" and "awaits ords oid"
  shows "order_places is oid ty \<le> waiting_places ords is ty"
  unfolding order_places_def waiting_places_def
  using assms by (intro sum_of_mono) force

lemma waiting_places_nonneg:
  "(\<And>i. i \<in> set is \<Longrightarrow> 1 \<le> oi_quantity i) \<Longrightarrow> 0 \<le> waiting_places ords is ty"
  unfolding waiting_places_def by (rule sum_of_nonneg) force

lemma waiting_places_snoc:
  "waiting_places ords (is @ [i]) ty = waiting_places ords is ty
     + (if awaits ords (oi_order i) \<and> oi_type i = ty then oi_quantity i else 0)"
  by (simp add: waiting_places_def)

lemma waiting_places_cong:
  "(\<And>i. i \<in> set is \<Longrightarrow> awaits ords (oi_order i) = awaits ords' (oi_order i)) \<Longrightarrow>
     waiting_places ords is ty = waiting_places ords' is ty"
  unfolding waiting_places_def by (rule sum_of_cong) simp

lemma awaits_upd:
  assumes "\<And>x. o_id (f x) = o_id x"
  shows "j \<noteq> i \<Longrightarrow> awaits (upd (\<lambda>x. o_id x = i) f xs) j = awaits xs j"
    and "awaits (upd (\<lambda>x. o_id x = i) f xs) i = list_ex (\<lambda>x. o_id x = i \<and> isAwaitingApproval (f x)) xs"
  using assms by (induction xs) (auto simp: awaits_def)

lemma waiting_places_change:
  assumes "\<And>j. j \<noteq> i \<Longrightarrow> awaits ords' j = awaits ords j"
  shows "waiting_places ords' is ty = waiting_places ords is ty
     - (if awaits ords i then order_places is i ty else 0)
     + (if awaits ords' i then order_places is i ty else 0)"
proof (induction "is")
  case Nil
  then show ?case by (simp add: waiting_places_def order_places_def)
next
  case (Cons x xs)
  have "awaits ords' (oi_order x) = awaits ords (oi_order x)" if "oi_order x \<noteq> i"
    using assms that by blast
  with Cons show ?case by (auto simp: waiting_places_def order_places_def)
qed

lemma awaits_row:
  assumes "distinct (map o_id ords)" and "ord \<in> set ords"
  shows "awaits ords (o_id ord) = isAwaitingApproval ord"
    and "list_ex (\<lambda>x. o_id x = o_id ord \<and> isAwaitingApproval (f x)) ords = isAwaitingApproval (f ord)"
  using assms by (auto simp: awaits_def list_ex_iff distinct_map inj_on_def)

lemma order_places_item:
  assumes "distinct (map oi_order is)" and "i \<in> set is"
  shows "order_places is (oi_order i) ty = (if oi_type i = ty then oi_quantity i else 0)"
proof -
  have "order_places is (oi_order i) ty =
      sum_of (\<lambda>y. if oi_order y = oi_order i then (if oi_type y = ty then oi_quantity y else 0) else 0) is"
    unfolding order_places_def by (rule sum_of_cong) simp
  also have "\<dots> = (if oi_type i = ty then oi_quantity i else 0)"
    by (rule sum_of_single [OF assms])
  finally show ?thesis .
qed

section \<open>Giving stock back\<close>

lemma giveBackStock_tiers:
  assumes "giveBackStock org bt d = Inr d'" and "distinct (map fst bt)"
  shows "d' = d\<lparr>d_tiers := map (\<lambda>t. if tt_org t = org then
      case map_of bt (tt_id t) of None \<Rightarrow> t | Some c \<Rightarrow> t\<lparr>tt_sold := max (tt_sold t - c) 0\<rparr> else t)
      (d_tiers d)\<rparr>"
  using assms
proof (induction org bt d rule: giveBackStock.induct)
  case (1 org d)
  then show ?case by (simp cong: if_cong)
next
  case (2 org type count rest d)
  let ?P = "\<lambda>t. tt_id t = type \<and> tt_org t = org" and ?f = "\<lambda>t. t\<lparr>tt_sold := max (tt_sold t - count) 0\<rparr>"
  let ?d1 = "d\<lparr>d_tiers := upd ?P ?f (d_tiers d)\<rparr>"
  from "2.prems"(1) have u: "updateTiers ?P ?f d = Inr ?d1" and r: "giveBackStock org rest ?d1 = Inr d'"
    by (auto simp: bindE_Inr_iff updateTiers_def split: if_splits)
  let ?g = "\<lambda>bt t. if tt_org t = org then
      case map_of bt (tt_id t) of None \<Rightarrow> t | Some c \<Rightarrow> t\<lparr>tt_sold := max (tt_sold t - c) 0\<rparr> else t"
  have none: "map_of rest type = None"
    using "2.prems"(2) by (simp add: map_of_eq_None_iff)
  have "?g rest (if ?P t then ?f t else t) = ?g ((type, count) # rest) t" for t
    using none by simp
  then have "map (?g rest) (upd ?P ?f (d_tiers d)) = map (?g ((type, count) # rest)) (d_tiers d)"
    unfolding upd_def map_map comp_def by (rule map_cong [OF refl])
  with "2.IH" [OF r] "2.prems"(2) show ?case by simp
qed

lemma giveBackStock_total:
  assumes "\<And>t. t \<in> set (d_tiers d) \<Longrightarrow> sold_within_total t" and "\<And>c. c \<in> snd ` set bt \<Longrightarrow> 0 \<le> c"
  shows "\<exists>d'. giveBackStock org bt d = Inr d'"
  using assms
proof (induction org bt d rule: giveBackStock.induct)
  case (1 org d)
  then show ?case by simp
next
  case (2 org type count rest d)
  let ?P = "\<lambda>t. tt_id t = type \<and> tt_org t = org" and ?f = "\<lambda>t. t\<lparr>tt_sold := max (tt_sold t - count) 0\<rparr>"
  let ?d1 = "d\<lparr>d_tiers := upd ?P ?f (d_tiers d)\<rparr>"
  have ok: "sold_within_total (?f t)" if "t \<in> set (d_tiers d)" for t
    using "2.prems" that by (fastforce simp: sold_within_total_def)
  then have u: "updateTiers ?P ?f d = Inr ?d1" by (auto simp: updateTiers_def list_all_iff)
  have "\<exists>d'. giveBackStock org rest ?d1 = Inr d'"
    by (rule "2.IH") (use ok "2.prems" in \<open>auto simp: in_set_upd\<close>)
  with u show ?case by simp
qed

lemma map_of_by_type:
  fixes ls :: "(ident \<times> int) list"
  shows "map_of (by_type ls) ty = (if ty \<in> fst ` set ls then Some (sum_of snd (filter (\<lambda>l. fst l = ty) ls)) else None)"
proof -
  have "map_of (map (\<lambda>x. (x, g x)) xs) ty = (if ty \<in> set xs then Some (g ty) else None)"
    for g :: "ident \<Rightarrow> int" and xs
    by (induction xs) auto
  then show ?thesis by (simp add: by_type_def)
qed

lemma distinct_by_type: "distinct (map fst (by_type ls))"
  by (simp add: by_type_def comp_def distinct_sort)

text \<open>Stock goes back by exactly the amounts given, where each is covered by what was sold.\<close>

lemma giveBackStock_by_type:
  assumes "giveBackStock org (by_type ls) d = Inr d'"
    and "\<And>t. t \<in> set (d_tiers d) \<Longrightarrow> tt_id t \<in> fst ` set ls \<Longrightarrow> tt_org t = org"
    and "\<And>t. t \<in> set (d_tiers d) \<Longrightarrow> sum_of snd (filter (\<lambda>l. fst l = tt_id t) ls) \<le> tt_sold t"
    and "\<And>t. t \<in> set (d_tiers d) \<Longrightarrow> 0 \<le> tt_sold t"
  shows "d' = d\<lparr>d_tiers := map (\<lambda>t. t\<lparr>tt_sold := tt_sold t - sum_of snd (filter (\<lambda>l. fst l = tt_id t) ls)\<rparr>)
      (d_tiers d)\<rparr>"
proof -
  have none: "filter (\<lambda>l. fst l = x) ls = []" if "x \<notin> fst ` set ls" for x
    using that by (force simp: filter_empty_conv)
  have "(if tt_org t = org then case map_of (by_type ls) (tt_id t) of None \<Rightarrow> t
           | Some c \<Rightarrow> t\<lparr>tt_sold := max (tt_sold t - c) 0\<rparr> else t)
      = t\<lparr>tt_sold := tt_sold t - sum_of snd (filter (\<lambda>l. fst l = tt_id t) ls)\<rparr>"
    if "t \<in> set (d_tiers d)" for t
    using assms(2-4) [OF that] none [of "tt_id t"] by (auto simp: map_of_by_type max_def)
  then show ?thesis
    using giveBackStock_tiers [OF assms(1) distinct_by_type] by (simp cong: map_cong)
qed

section \<open>The counter moves with the places\<close>

definition sold_moved :: "tier_row list \<Rightarrow> tier_row list \<Rightarrow> (ident \<Rightarrow> int) \<Rightarrow> bool" where
  "sold_moved ts ts' \<delta> = (ts' = map (\<lambda>t. t\<lparr>tt_sold := tt_sold t + \<delta> (tt_id t)\<rparr>) ts)"

lemma sold_moved_refl: "(\<And>t. t \<in> set ts \<Longrightarrow> \<delta> (tt_id t) = 0) \<Longrightarrow> sold_moved ts ts \<delta>"
  unfolding sold_moved_def by (induction ts) auto

lemma sold_moved_same_tiers:
  assumes "sold_moved ts ts' \<delta>"
  shows "map tt_id ts' = map tt_id ts"
    and "(\<forall>t\<in>set ts'. tt_id t = x \<longrightarrow> tt_org t = y) = (\<forall>t\<in>set ts. tt_id t = x \<longrightarrow> tt_org t = y)"
  using assms by (auto simp: sold_moved_def comp_def)

lemma sold_ok_moved:
  assumes "sold_ok d" and "sold_moved (d_tiers d) (d_tiers d') \<delta>"
    and "\<And>ty. places d' ty = places d ty + \<delta> ty"
    and "\<And>t. t \<in> set (d_tiers d') \<Longrightarrow> sold_within_total t"
  shows "sold_ok d'"
  unfolding sold_ok_def
proof
  show "distinct (map tt_id (d_tiers d'))"
    using assms(1) sold_moved_same_tiers(1) [OF assms(2)] by (simp add: sold_ok_def)
  show "\<forall>t\<in>set (d_tiers d'). tt_sold t = places d' (tt_id t) \<and> sold_within_total t"
  proof
    fix t' assume t': "t' \<in> set (d_tiers d')"
    then obtain t where "t \<in> set (d_tiers d)" "t' = t\<lparr>tt_sold := tt_sold t + \<delta> (tt_id t)\<rparr>"
      using assms(2) by (auto simp: sold_moved_def)
    with assms(1,3) assms(4) [OF t'] show "tt_sold t' = places d' (tt_id t') \<and> sold_within_total t'"
      by (simp add: sold_ok_def)
  qed
qed

lemma sold_moved_trans:
  assumes "sold_moved ts ts' \<delta>" and "sold_moved ts' ts'' \<epsilon>"
  shows "sold_moved ts ts'' (\<lambda>ty. \<delta> ty + \<epsilon> ty)"
  using assms unfolding sold_moved_def by (simp add: comp_def add.assoc)

lemma set_sold_moved:
  assumes "distinct (map tt_id ts)" and "t0 \<in> set ts" and "tt_id t0 = ty"
  shows "sold_moved ts (upd (\<lambda>t. tt_id t = ty) (\<lambda>t. t\<lparr>tt_sold := tt_sold t0 + q\<rparr>) ts)
    (\<lambda>x. if x = ty then q else 0)"
proof -
  have "t = t0" if "t \<in> set ts" "tt_id t = ty" for t
    using assms that by (metis distinct_map inj_onD)
  then show ?thesis unfolding sold_moved_def upd_def by (auto intro!: map_cong)
qed

lemma updateTiers_D:
  assumes "updateTiers P f d = Inr d'"
  shows "d' = d\<lparr>d_tiers := upd P f (d_tiers d)\<rparr>"
    and "(\<And>t. t \<in> set (d_tiers d) \<Longrightarrow> sold_within_total t) \<Longrightarrow> t \<in> set (d_tiers d') \<Longrightarrow> sold_within_total t"
  using assms by (auto simp: updateTiers_def list_all_iff in_set_upd split: if_splits)

text \<open>Selling: \<^verbatim>\<open>sold\<close> of one tier rises, under its lock.\<close>

lemma sell_moves:
  assumes "sold_ok d" and "t0 \<in> set (d_tiers d)" and "tt_id t0 = ty"
    and "updateTiers (\<lambda>t. tt_id t = ty) (\<lambda>t. t\<lparr>tt_sold := tt_sold t0 + q\<rparr>) d = Inr d'"
  shows "d' = d\<lparr>d_tiers := d_tiers d'\<rparr>"
    and "sold_moved (d_tiers d) (d_tiers d') (\<lambda>x. if x = ty then q else 0)"
    and "\<And>t. t \<in> set (d_tiers d') \<Longrightarrow> sold_within_total t"
  using updateTiers_D [OF assms(4)] set_sold_moved [OF _ assms(2,3), of q] assms(1)
  by (auto simp: sold_ok_def)

text \<open>Giving back: \<^verbatim>\<open>sold\<close> falls by what was counted, never below zero.\<close>

lemma give_back_moves:
  assumes "\<And>t. t \<in> set (d_tiers d) \<Longrightarrow> sold_within_total t" and "giveBackStock org (by_type ls) d = Inr d'"
    and "\<And>t. t \<in> set (d_tiers d) \<Longrightarrow> tt_id t \<in> fst ` set ls \<Longrightarrow> tt_org t = org"
    and "\<And>t. t \<in> set (d_tiers d) \<Longrightarrow> sum_of snd (filter (\<lambda>l. fst l = tt_id t) ls) \<le> tt_sold t"
    and "\<And>l. l \<in> set ls \<Longrightarrow> 0 \<le> snd l"
  shows "d' = d\<lparr>d_tiers := d_tiers d'\<rparr>"
    and "sold_moved (d_tiers d) (d_tiers d') (\<lambda>ty. - sum_of snd (filter (\<lambda>l. fst l = ty) ls))"
    and "\<And>t. t \<in> set (d_tiers d') \<Longrightarrow> sold_within_total t"
proof -
  have nonneg: "0 \<le> sum_of snd (filter (\<lambda>l. fst l = ty) ls)" for ty
    using assms(5) by (auto intro: sum_of_nonneg)
  have shape: "d' = d\<lparr>d_tiers := map (\<lambda>t. t\<lparr>tt_sold := tt_sold t - sum_of snd (filter (\<lambda>l. fst l = tt_id t) ls)\<rparr>)
      (d_tiers d)\<rparr>"
    by (rule giveBackStock_by_type [OF assms(2) assms(3)])
      (use assms(1,4) in \<open>auto simp: sold_within_total_def\<close>)
  then show "d' = d\<lparr>d_tiers := d_tiers d'\<rparr>" by simp
  from shape show "sold_moved (d_tiers d) (d_tiers d') (\<lambda>ty. - sum_of snd (filter (\<lambda>l. fst l = ty) ls))"
    by (simp add: sold_moved_def)
  fix t assume "t \<in> set (d_tiers d')"
  then obtain u where u: "u \<in> set (d_tiers d)"
    "t = u\<lparr>tt_sold := tt_sold u - sum_of snd (filter (\<lambda>l. fst l = tt_id u) ls)\<rparr>"
    using shape by auto
  with assms(1) [of u] nonneg [of "tt_id u"] assms(4) [of u] show "sold_within_total t"
    by (auto simp: sold_within_total_def)
qed

section \<open>Frames\<close>

lemma stock_ok_inventory:
  assumes "inventory d' = inventory d"
  shows "stock_ok d' = stock_ok d"
  using inventory_eqD [OF assms] by (simp add: stock_defs places_def)

lemma stock_ok_holds [simp]: "stock_ok (d\<lparr>d_holds := hs\<rparr>) = stock_ok d"
  and stock_ok_assignments [simp]: "stock_ok (d\<lparr>d_assignments := as\<rparr>) = stock_ok d"
  and stock_ok_outbox [simp]: "stock_ok (d\<lparr>d_outbox := es\<rparr>) = stock_ok d"
  and stock_ok_attendees [simp]: "stock_ok (d\<lparr>d_attendees := ats\<rparr>) = stock_ok d"
  by (simp_all add: stock_defs places_def)

lemma stock_ok_next:
  "stock_ok d \<Longrightarrow> d_next d \<le> n \<Longrightarrow> stock_ok (d\<lparr>d_next := n\<rparr>)"
  by (fastforce simp: stock_defs places_def)

lemma stock_ok_hook: "tx_hook f \<Longrightarrow> f d = Inr d' \<Longrightarrow> stock_ok d' = stock_ok d"
  using tx_hook.hook_frame stock_ok_inventory by blast

lemma stock_ok_enqueue [simp]: "stock_ok (enqueueIn ev d) = stock_ok d"
  by (simp add: enqueueIn_def)

lemma stock_ok_updateHolds [simp]: "stock_ok (updateHolds P f d) = stock_ok d"
  by (simp add: updateHolds_def)

text \<open>A change of one order that keeps its identity, and what it does to the places.\<close>

lemma stock_ok_order_change:
  assumes "stock_ok d" and ord: "ord \<in> set (d_orders d)" "o_id ord = i"
    and f: "\<And>x. o_id (f x) = o_id x" "\<And>x. o_org (f x) = o_org x" "o_status (f ord) \<noteq> OWaitlisted"
    and d': "d_orders d' = upd (\<lambda>x. o_id x = i) f (d_orders d)" "d_items d' = d_items d"
      "d_next d \<le> d_next d'"
    and ts: "tickets_ok d'"
    and moved: "sold_moved (d_tiers d) (d_tiers d') \<delta>" "\<And>t. t \<in> set (d_tiers d') \<Longrightarrow> sold_within_total t"
    and \<delta>: "\<And>ty. \<delta> ty = live_places (d_tickets d') ty - live_places (d_tickets d) ty
       - (if isAwaitingApproval ord then order_places (d_items d) i ty else 0)
       + (if isAwaitingApproval (f ord) then order_places (d_items d) i ty else 0)"
  shows "stock_ok d'"
proof -
  have dist: "distinct (map o_id (d_orders d))" using assms(1) by (simp add: stock_defs)
  have ids: "map o_id (d_orders d') = map o_id (d_orders d)"
    unfolding d'(1) by (rule map_upd_key) (use f(1) in simp)
  have only: "x = ord" if "x \<in> set (d_orders d)" "o_id x = i" for x
    using dist ord that by (metis distinct_map inj_onD)
  have old: "\<exists>y\<in>set (d_orders d). x = (if o_id y = i then f y else y)" if "x \<in> set (d_orders d')" for x
    using that unfolding d'(1) in_set_upd .
  have "o_id x < d_next d' \<and> (o_status x = OWaitlisted \<longrightarrow> o_approvalRequestedAt x = None)"
    if x: "x \<in> set (d_orders d')" for x
  proof -
    from old [OF x] obtain y where y: "y \<in> set (d_orders d)" "x = (if o_id y = i then f y else y)" ..
    have "o_id y < d_next d" "o_status y = OWaitlisted \<longrightarrow> o_approvalRequestedAt y = None"
      using assms(1) y(1) by (auto simp: stock_defs)
    with y only [of y] f(1,3) d'(3) show ?thesis by (cases "o_id y = i") auto
  qed
  then have "order_keys_ok d'"
    using ids dist by (simp add: order_keys_ok_def)
  moreover have "items_ok d'"
  proof -
    have "\<exists>x\<in>set (d_orders d'). o_id x = o_id y \<and> o_org x = o_org y" if "y \<in> set (d_orders d)" for y
    proof
      show "(if o_id y = i then f y else y) \<in> set (d_orders d')"
        using that unfolding d'(1) upd_def by force
    qed (simp add: f(1,2))
    then show ?thesis
      using assms(1) sold_moved_same_tiers(2) [OF moved(1)] unfolding stock_ok_def items_ok_def d'(2)
      by fastforce
  qed
  moreover have "sold_ok d'"
  proof (rule sold_ok_moved [OF _ moved(1) _ moved(2)])
    show "sold_ok d" using assms(1) by (simp add: stock_ok_def)
    have "awaits (d_orders d') j = awaits (d_orders d) j" if "j \<noteq> i" for j
      unfolding d'(1) by (rule awaits_upd(1)) (use f that in auto)
    then have change: "waiting_places (d_orders d') (d_items d) ty = waiting_places (d_orders d) (d_items d) ty
       - (if awaits (d_orders d) i then order_places (d_items d) i ty else 0)
       + (if awaits (d_orders d') i then order_places (d_items d) i ty else 0)" for ty
      by (rule waiting_places_change)
    moreover have "awaits (d_orders d) i = isAwaitingApproval ord"
      using awaits_row(1) [OF dist ord(1)] ord(2) by simp
    moreover have "awaits (d_orders d') i = isAwaitingApproval (f ord)"
      unfolding d'(1) awaits_upd(2) [of f, OF f(1)] using awaits_row(2) [OF dist ord(1)] ord(2) by simp
    ultimately show "places d' ty = places d ty + \<delta> ty" for ty
      using change [of ty] by (simp add: places_def d'(2) \<delta>)
  qed
  ultimately show ?thesis using ts by (simp add: stock_ok_def)
qed

section \<open>What each statement returns\<close>

lemma upsertAttendee_D:
  assumes "upsertAttendee org b d = (i, d')"
  shows "d_orders d' = d_orders d" "d_items d' = d_items d" "d_tickets d' = d_tickets d"
    "d_tiers d' = d_tiers d" "d_holds d' = d_holds d" "d_assignments d' = d_assignments d"
    "d_maps d' = d_maps d" "d_seats d' = d_seats d" "d_clock d' = d_clock d"
    "d_outbox d' = d_outbox d" "d_codes d' = d_codes d" "d_redemptions d' = d_redemptions d"
    and "d_next d \<le> d_next d'"
  using assms by (auto simp: upsertAttendee_def Let_def split: option.splits)

lemma insertOrder_D:
  assumes "insertOrder inp aid st d = Inr (row, d')"
  shows "row = new_order_row inp aid st d" and "d' = d\<lparr>d_orders := d_orders d @ [row], d_next := d_next d + 1\<rparr>"
    and "1 \<le> ins_quantity inp" and "ins_quantity inp \<le> 8"
    and "\<not> list_ex (\<lambda>x. o_org x = ins_org inp \<and> o_idempotencyKey x = Some (ins_idempotencyKey inp)) (d_orders d)"
  using assms by (auto simp: insertOrder_def Let_def new_order_row_def split: if_splits)

lemma new_order_row_simps [simp]:
  "o_id (new_order_row inp aid st d) = d_next d" "o_org (new_order_row inp aid st d) = ins_org inp"
  "o_status (new_order_row inp aid st d) = os_status st"
  "o_idempotencyKey (new_order_row inp aid st d) = Some (ins_idempotencyKey inp)"
  "o_approvalRequestedAt (new_order_row inp aid st d) = os_approvalRequestedAt st"
  by (simp_all add: new_order_row_def)

lemma insertOrderItem_D:
  assumes "insertOrderItem org ty q price totals oid d = Inr (i, d')"
  shows "i = d_next d"
    and "d' = d\<lparr>d_items := d_items d @ [\<lparr>oi_id = d_next d, oi_org = org, oi_order = oid, oi_type = ty,
        oi_quantity = q, oi_unitPrice = price, oi_lineSubtotal = subtotalSatang totals\<rparr>],
        d_next := d_next d + 1\<rparr>"
  using assms by (auto simp: insertOrderItem_def split: if_splits)

lemma reserveAllocation_D:
  assumes "reserveAllocation inp d = Inr d'"
  obtains t0 where "t0 \<in> set (d_tiers d)" "tt_id t0 = po_type inp" "tt_org t0 = po_org inp"
    "tt_sold t0 + po_quantity inp \<le> tt_total t0"
    "updateTiers (\<lambda>t. tt_id t = po_type inp) (\<lambda>t. t\<lparr>tt_sold := tt_sold t0 + po_quantity inp\<rparr>) d = Inr d'"
  using assms by (auto simp: reserveAllocation_def exceedsAllocation_def split: option.splits if_splits
      dest!: find_SomeD)

lemma with_ids_length [simp]: "length (with_ids n mk) = length mk"
  by (simp add: with_ids_def)

lemma with_ids_Nil_iff [simp]: "with_ids n mk = [] \<longleftrightarrow> mk = []"
  by (metis length_0_conv with_ids_length)

lemma with_ids_simps [simp]:
  "with_ids n [] = []" "with_ids n (f # mk) = f n # with_ids (Suc n) mk"
  by (simp_all add: with_ids_def)

lemma with_ids_map:
  "(\<And>f i. f \<in> set mk \<Longrightarrow> g (f i) = h f) \<Longrightarrow> map g (with_ids n mk) = map h mk"
  by (induction mk arbitrary: n) auto

lemma with_ids_ids:
  "(\<And>f i. f \<in> set mk \<Longrightarrow> g (f i) = i) \<Longrightarrow> map g (with_ids n mk) = [n ..< n + length mk]"
  by (induction mk arbitrary: n) (auto simp: upt_rec)

lemma in_with_ids:
  "x \<in> set (with_ids n mk) \<Longrightarrow> \<exists>f\<in>set mk. \<exists>i. n \<le> i \<and> i < n + length mk \<and> x = f i"
proof (induction mk arbitrary: n)
  case Nil
  then show ?case by simp
next
  case (Cons f mk)
  show ?case
  proof (cases "x = f n")
    case True
    then show ?thesis by (intro bexI [of _ f] exI [of _ n]) auto
  next
    case False
    with Cons.prems obtain g i where "g \<in> set mk" "Suc n \<le> i" "i < Suc n + length mk" "x = g i"
      using Cons.IH [of "Suc n"] by auto
    then show ?thesis by (intro bexI [of _ g] exI [of _ i]) auto
  qed
qed

lemma insertTickets_D:
  assumes "insertTickets mk d = Inr (ks, d')"
  shows "ks = with_ids (d_next d) mk"
    and "d' = d\<lparr>d_tickets := d_tickets d @ ks, d_next := d_next d + length mk\<rparr>"
    and "distinct (map t_qrToken (d_tickets d @ ks))" and "mk \<noteq> []"
  using assms by (auto simp: insertTickets_def Let_def split: if_splits)

lemma insertAssignments_D:
  assumes "insertAssignments org seatIds issued d = Inr d'"
  shows "d' = d\<lparr>d_assignments := d_assignments d', d_next := d_next d'\<rparr>" "d_next d \<le> d_next d'"
    and "seat_active_index (d_assignments d')"
    and "length seatIds \<le> length issued"
  using assms by (auto simp: insertAssignments_def Let_def split: if_splits)

lemma insertAssignments_rows:
  assumes "insertAssignments org seatIds issued d = Inr d'"
  obtains rows where "d_assignments d' = d_assignments d @ rows"
    "map (\<lambda>a. (sa_seat a, sa_ticket a)) rows = zip seatIds (map t_id issued)"
    "\<forall>a\<in>set rows. sa_org a = org \<and> sa_releasedAt a = None"
proof
  let ?mk = "map (\<lambda>(s, t) i. \<lparr>sa_id = i, sa_org = org, sa_seat = s, sa_ticket = t_id t,
      sa_releasedAt = None\<rparr>) (zip seatIds issued)"
  let ?rows = "with_ids (d_next d) ?mk"
  show "d_assignments d' = d_assignments d @ ?rows"
    using assms by (auto simp: insertAssignments_def Let_def split: if_splits)
  have "map (\<lambda>a. (sa_seat a, sa_ticket a)) ?rows = map (\<lambda>f. (sa_seat (f 0), sa_ticket (f 0))) ?mk"
    by (rule with_ids_map) auto
  then show "map (\<lambda>a. (sa_seat a, sa_ticket a)) ?rows = zip seatIds (map t_id issued)"
    by (simp add: comp_def split_def zip_map2)
  show "\<forall>a\<in>set ?rows. sa_org a = org \<and> sa_releasedAt a = None"
    by (auto dest!: in_with_ids)
qed

lemma assignSeats_D:
  assumes "assignSeats inp issued d = Inr d'"
  shows "d' = d\<lparr>d_assignments := d_assignments d', d_next := d_next d'\<rparr>" "d_next d \<le> d_next d'"
  using assms insertAssignments_D(1,2) unfolding assignSeats_def
  by (auto split: option.splits if_splits)

lemma updateOrder_fields [simp]:
  "d_orders (updateOrder i f d) = upd (\<lambda>x. o_id x = i) f (d_orders d)"
  "d_items (updateOrder i f d) = d_items d" "d_tickets (updateOrder i f d) = d_tickets d"
  "d_tiers (updateOrder i f d) = d_tiers d" "d_next (updateOrder i f d) = d_next d"
  "d_holds (updateOrder i f d) = d_holds d" "d_assignments (updateOrder i f d) = d_assignments d"
  "d_outbox (updateOrder i f d) = d_outbox d" "d_clock (updateOrder i f d) = d_clock d"
  "d_maps (updateOrder i f d) = d_maps d" "d_seats (updateOrder i f d) = d_seats d"
  by (simp_all add: updateOrder_def)

lemma updateHolds_fields [simp]:
  "d_holds (updateHolds P g d) = upd P g (d_holds d)"
  "d_orders (updateHolds P g d) = d_orders d"
  "d_items (updateHolds P g d) = d_items d" "d_tickets (updateHolds P g d) = d_tickets d"
  "d_tiers (updateHolds P g d) = d_tiers d" "d_next (updateHolds P g d) = d_next d"
  "d_assignments (updateHolds P g d) = d_assignments d" "d_outbox (updateHolds P g d) = d_outbox d"
  "d_clock (updateHolds P g d) = d_clock d" "d_maps (updateHolds P g d) = d_maps d"
  "d_seats (updateHolds P g d) = d_seats d"
  by (simp_all add: updateHolds_def)

lemma enqueueIn_fields [simp]:
  "d_outbox (enqueueIn ev d) = d_outbox d @ [ev]" "d_holds (enqueueIn ev d) = d_holds d"
  "d_orders (enqueueIn ev d) = d_orders d"
  "d_items (enqueueIn ev d) = d_items d" "d_tickets (enqueueIn ev d) = d_tickets d"
  "d_tiers (enqueueIn ev d) = d_tiers d" "d_next (enqueueIn ev d) = d_next d"
  "d_assignments (enqueueIn ev d) = d_assignments d"
  "d_clock (enqueueIn ev d) = d_clock d" "d_maps (enqueueIn ev d) = d_maps d"
  "d_seats (enqueueIn ev d) = d_seats d"
  by (simp_all add: enqueueIn_def)

section \<open>A new order\<close>

lemma stock_ok_new_order:
  assumes "stock_ok d"
    and d': "d_orders d' = d_orders d @ [ord]" "d_items d' = d_items d @ [it]"
      "d_tickets d' = d_tickets d @ ks"
    and ids: "o_id ord = n" "oi_order it = n" "d_next d \<le> n" "n < d_next d'"
    and it: "oi_org it = o_org ord" "1 \<le> oi_quantity it"
      "\<forall>t\<in>set (d_tiers d). tt_id t = oi_type it \<longrightarrow> tt_org t = oi_org it"
    and ord: "o_status ord = OWaitlisted \<longrightarrow> o_approvalRequestedAt ord = None"
    and ks: "distinct (map t_id ks)" "\<forall>k\<in>set ks. d_next d \<le> t_id k \<and> t_id k < d_next d' \<and> t_order k = n
       \<and> t_type k = oi_type it \<and> t_org k = o_org ord \<and> live_ticket k"
    and moved: "sold_moved (d_tiers d) (d_tiers d')
        (\<lambda>ty. if ty = oi_type it then int (length ks) + (if isAwaitingApproval ord then oi_quantity it else 0) else 0)"
      "\<And>t. t \<in> set (d_tiers d') \<Longrightarrow> sold_within_total t"
  shows "stock_ok d'"
proof -
  note same = sold_moved_same_tiers(2) [OF moved(1)]
  have old: "\<forall>x\<in>set (d_orders d). o_id x < n" "\<forall>i\<in>set (d_items d). oi_order i < n"
    "\<forall>k\<in>set (d_tickets d). t_id k < d_next d \<and> t_order k < d_next d"
    using assms(1) ids(3) by (fastforce simp: stock_defs)+
  have "order_keys_ok d'"
    using assms(1) old(1) ids ord d'(1) by (auto simp: stock_defs)
  moreover have "items_ok d'"
    using assms(1) old(2) ids it d' same by (auto simp: stock_defs)
  moreover have "tickets_ok d'"
  proof -
    have "distinct (map t_id (d_tickets d'))"
      using assms(1) ks old(3) unfolding d'(3) by (fastforce simp: stock_defs)
    moreover have "t_id k < d_next d' \<and> t_order k < d_next d'
        \<and> (\<forall>t\<in>set (d_tiers d'). tt_id t = t_type k \<longrightarrow> tt_org t = t_org k)" if "k \<in> set (d_tickets d')" for k
      using that assms(1) ks(2) ids it(1,3) unfolding d'(3) same by (fastforce simp: stock_defs)
    ultimately show ?thesis by (simp add: tickets_ok_def)
  qed
  moreover have "sold_ok d'"
  proof (rule sold_ok_moved [OF _ moved(1) _ moved(2)])
    show "sold_ok d" using assms(1) by (simp add: stock_ok_def)
    have aw: "awaits (d_orders d') j = (awaits (d_orders d) j \<or> j = n \<and> isAwaitingApproval ord)" for j
      using ids(1) unfolding d'(1) awaits_def by auto
    have "\<not> awaits (d_orders d) n" using old(1) by (auto simp: awaits_def list_ex_iff)
    moreover have "waiting_places (d_orders d') (d_items d) ty = waiting_places (d_orders d) (d_items d) ty" for ty
      by (rule waiting_places_cong) (use aw old(2) in auto)
    moreover have "live_places ks ty = (if ty = oi_type it then int (length ks) else 0)" for ty
      using live_places_same_type [of ks "oi_type it" ty] ks(2) by auto
    ultimately show "places d' ty = places d ty + (if ty = oi_type it
        then int (length ks) + (if isAwaitingApproval ord then oi_quantity it else 0) else 0)" for ty
      using aw ids(2) by (simp add: places_def d'(2,3) waiting_places_snoc)
  qed
  ultimately show ?thesis by (simp add: stock_ok_def)
qed

end
