(* ===== verification/CheckoutSteps.thy ===== *)
theory CheckoutSteps
  imports CheckoutInv
begin

text \<open>
  Each transaction of the checkout keeps the invariant of theory CheckoutInv.
\<close>

lemma reserveAllocation_fields:
  assumes "reserveAllocation inp d = Inr d'"
  shows "d' = d\<lparr>d_tiers := d_tiers d'\<rparr>"
  using assms by (auto elim!: reserveAllocation_D dest!: updateTiers_D(1))

lemma issueTickets_D:
  assumes "issueTickets inp ord it aid d = Inr (ks, d')"
  shows "ks = with_ids (d_next d) (map (place_ticket inp (o_id ord) it aid) (po_qrTokens inp))"
    and "distinct (map t_qrToken (d_tickets d @ ks))"
    and "\<exists>dy. d_tiers d' = d_tiers dy \<and> reserveAllocation inp d = Inr dy"
    and "d_orders d' = d_orders d" "d_items d' = d_items d" "d_tickets d' = d_tickets d @ ks"
    and "d_holds d' = d_holds d" "d_next d + length ks \<le> d_next d'"
    and "\<exists>dx dy. d_assignments dx = d_assignments d \<and> d_assignments d' = d_assignments dy
      \<and> assignSeats inp ks dx = Inr dy"
proof -
  from assms obtain d1 d2 where r: "reserveAllocation inp d = Inr d1"
    and k: "insertTickets (map (place_ticket inp (o_id ord) it aid) (po_qrTokens inp)) d1 = Inr (ks, d2)"
    and a: "assignSeats inp ks d2 = Inr d'"
    by (auto simp: issueTickets_def bindE_Inr_iff)
  have r1: "d_next d1 = d_next d" "d_tickets d1 = d_tickets d" "d_orders d1 = d_orders d"
    "d_items d1 = d_items d" "d_holds d1 = d_holds d"
    by (subst reserveAllocation_fields [OF r], simp)+
  note K = insertTickets_D [OF k]
  have a1: "d_tickets d' = d_tickets d2" "d_orders d' = d_orders d2" "d_items d' = d_items d2"
    "d_holds d' = d_holds d2" "d_tiers d' = d_tiers d2"
    by (subst assignSeats_D(1) [OF a], simp)+
  show "ks = with_ids (d_next d) (map (place_ticket inp (o_id ord) it aid) (po_qrTokens inp))"
    "distinct (map t_qrToken (d_tickets d @ ks))" "d_tickets d' = d_tickets d @ ks"
    "d_orders d' = d_orders d" "d_items d' = d_items d" "d_holds d' = d_holds d"
    using K r1 a1 by simp_all
  show "\<exists>dy. d_tiers d' = d_tiers dy \<and> reserveAllocation inp d = Inr dy"
    using K(2) a1 r by auto
  show "d_next d + length ks \<le> d_next d'"
    using assignSeats_D(2) [OF a] K r1 by simp
  have "d_assignments d2 = d_assignments d"
    using K(2) by simp (subst reserveAllocation_fields [OF r], simp)
  then show "\<exists>dx dy. d_assignments dx = d_assignments d \<and> d_assignments d' = d_assignments dy
      \<and> assignSeats inp ks dx = Inr dy"
    using a by blast
qed

section \<open>Placing keeps the stock\<close>

text \<open>
  What the service hands over: the tier is the workspace's own, and a ticketed order carries
  one token for each admission.
\<close>

definition placed_for :: "db \<Rightarrow> place_order_input \<Rightarrow> bool" where
  "placed_for d inp = ((\<forall>t\<in>set (d_tiers d). tt_id t = po_type inp \<longrightarrow> tt_org t = po_org inp)
     \<and> (po_issueTickets inp \<longrightarrow> int (length (po_qrTokens inp)) = po_quantity inp))"

definition place_item :: "place_order_input \<Rightarrow> ident \<Rightarrow> ident \<Rightarrow> item_row" where
  "place_item inp orderId i = \<lparr>oi_id = i, oi_org = po_org inp, oi_order = orderId, oi_type = po_type inp,
     oi_quantity = po_quantity inp, oi_unitPrice = po_unitPrice inp,
     oi_lineSubtotal = subtotalSatang (po_totals inp)\<rparr>"

text \<open>What becomes of the buyer's holds, as one map over the table.\<close>

definition placed_holds :: "place_order_input \<Rightarrow> ident \<Rightarrow> hold_row list \<Rightarrow> hold_row list" where
  "placed_holds inp oid hs =
     upd (\<lambda>h. h_org h = po_org inp \<and> h_id h \<in> set (po_holdIds inp))
       (if po_issueTickets inp \<or> po_awaitsDecision inp \<and> (po_seatIds inp = None \<or> po_seatIds inp = Some [])
        then (\<lambda>h. h\<lparr>h_status := HConverted, h_order := None\<rparr>)
        else if po_awaitsDecision inp
        then (\<lambda>h. h\<lparr>h_order := Some oid, h_expiresAt := DECISION_HOLD_EXPIRY\<rparr>)
        else (\<lambda>h. h\<lparr>h_order := Some oid\<rparr>)) hs"

lemma upd_none: "upd (\<lambda>h. False) f hs = hs"
  by (rule upd_id) simp

lemma convert_attach_holds:
  "d_holds (convertHolds inp d) = upd (\<lambda>h. h_org h = po_org inp \<and> h_id h \<in> set (po_holdIds inp))
     (\<lambda>h. h\<lparr>h_status := HConverted, h_order := None\<rparr>) (d_holds d)"
  "d_holds (attachHolds inp oid None d) = upd (\<lambda>h. h_org h = po_org inp \<and> h_id h \<in> set (po_holdIds inp))
     (\<lambda>h. h\<lparr>h_order := Some oid\<rparr>) (d_holds d)"
  "d_holds (attachHolds inp oid (Some e) d) = upd (\<lambda>h. h_org h = po_org inp \<and> h_id h \<in> set (po_holdIds inp))
     (\<lambda>h. h\<lparr>h_order := Some oid, h_expiresAt := e\<rparr>) (d_holds d)"
  by (auto simp: convertHolds_def attachHolds_def upd_none updateHolds_def)

lemma settleHolds_holds:
  assumes "settleHolds inp oid d = Inr d'"
  shows "d_holds d' = placed_holds inp oid (d_holds d)"
proof -
  have r: "d_holds d1 = d_holds d" if "reserveAllocation inp d = Inr d1" for d1
    by (subst reserveAllocation_fields [OF that]) simp
  show ?thesis
    using assms r
    by (cases "po_seatIds inp"; cases "the (po_seatIds inp) = []")
      (auto simp: settleHolds_def reserveForDecision_def bindE_Inr_iff convert_attach_holds
        placed_holds_def split: if_splits)
qed

text \<open>What a successful placement that was not a replay does to the inventory.\<close>

lemma placeOrder_shape:
  assumes "placeOrder inp d = Inr (r, d')" and "\<not> pr_replayed r"
  obtains d2 aid ord ks where
    "findByIdempotencyKey (po_org inp) (po_idempotencyKey inp) d = None"
    "d_next d \<le> d_next d2" "d_clock d2 = d_clock d"
    "ord = new_order_row (place_insert inp) aid (initialState inp) d2"
    "pr_order r = ord" "pr_tickets r = sort_key t_id ks"
    "1 \<le> po_quantity inp" "po_quantity inp \<le> 8"
    "d_orders d' = d_orders d @ [ord]"
    "d_items d' = d_items d @ [place_item inp (o_id ord) (o_id ord + 1)]"
    "d_tickets d' = d_tickets d @ ks"
    "if po_issueTickets inp then
       ks = with_ids (o_id ord + 2) (map (place_ticket inp (o_id ord) (o_id ord + 1) aid) (po_qrTokens inp))
       \<and> distinct (map t_qrToken (d_tickets d @ ks))
     else ks = []"
    "if po_issueTickets inp \<or> po_awaitsDecision inp
     then (\<exists>dx dy. d_tiers dx = d_tiers d \<and> d_tiers d' = d_tiers dy \<and> reserveAllocation inp dx = Inr dy)
     else d_tiers d' = d_tiers d"
    "if po_issueTickets inp
     then (\<exists>dx dy. d_assignments dx = d_assignments d \<and> d_assignments d' = d_assignments dy
        \<and> assignSeats inp ks dx = Inr dy)
     else d_assignments d' = d_assignments d"
    "d_holds d' = placed_holds inp (o_id ord) (d_holds d)"
    "o_id ord + 2 + length ks \<le> d_next d'" "assertHoldsStillActive inp d = Inr ()"
    "assertHeldSeatsMatch inp d = Inr ()"
proof -
  have none: "findByIdempotencyKey (po_org inp) (po_idempotencyKey inp) d = None"
    using assms by (auto simp: placeOrder_def split: option.splits)
  obtain aid d2 where up: "upsertAttendee (po_org inp) (po_buyer inp) d = (aid, d2)" by fastforce
  note u = upsertAttendee_D [OF up]
  note P = assms(1) [unfolded placeOrder_def none option.case up Let_def split]
  from P obtain ord d3 where o: "insertOrder (place_insert inp) aid (initialState inp) d2 = Inr (ord, d3)"
    and held: "assertHoldsStillActive inp d = Inr ()" "assertHeldSeatsMatch inp d = Inr ()"
    by (auto simp: bindE_Inr_iff)
  from P o obtain it d4 where i: "insertOrderItem (po_org inp) (po_type inp) (po_quantity inp)
      (po_unitPrice inp) (po_totals inp) (o_id ord) d3 = Inr (it, d4)"
    by (auto simp: bindE_Inr_iff)
  from P o i obtain ks d5 where k: "(if po_issueTickets inp then issueTickets inp ord it aid d4 else Inr ([], d4))
      = Inr (ks, d5)" by (auto simp: bindE_Inr_iff)
  from P o i k obtain d6 where s: "settleHolds inp (o_id ord) d5 = Inr d6" by (auto simp: bindE_Inr_iff)
  from P o i k s obtain d7 where rd: "recordRedemption inp (o_id ord) d6 = Inr d7"
    and r: "r = \<lparr>pr_order = ord, pr_tickets = sort_key t_id ks, pr_replayed = False\<rparr>"
    and d': "d' = (case po_buildEvent inp ord ks of None \<Rightarrow> d7 | Some ev \<Rightarrow> enqueueIn ev d7)"
    by (auto simp: bindE_Inr_iff)
  note O = insertOrder_D [OF o] and I = insertOrderItem_D [OF i]
  have id: "o_id ord = d_next d2" "it = o_id ord + 1" using O I by simp_all
  have inv7: "inventory d' = inventory d6"
  proof -
    have "inventory d7 = inventory d6"
      using rd redemption_hook.hook_frame by (auto simp: recordRedemption_def split: option.splits if_splits)
    then show ?thesis by (simp add: d' inventory_def split: option.split)
  qed
  note inv = inventory_eqD [OF inv7]
  have base: "d_orders d4 = d_orders d @ [ord]" "d_items d4 = d_items d @ [place_item inp (o_id ord) (o_id ord + 1)]"
    "d_tickets d4 = d_tickets d" "d_tiers d4 = d_tiers d" "d_next d4 = o_id ord + 2"
    using O(1,2) I(2) u by (simp_all add: place_item_def)
  have after: "d_orders d6 = d_orders d5" "d_items d6 = d_items d5" "d_tickets d6 = d_tickets d5"
    "d_next d6 = d_next d5" "d_assignments d6 = d_assignments d5"
    using s by (auto simp: settleHolds_def reserveForDecision_def bindE_Inr_iff convertHolds_def
        attachHolds_def split: if_splits elim!: reserveAllocation_D dest!: updateTiers_D(1))
  have tickets: "if po_issueTickets inp then
       ks = with_ids (o_id ord + 2) (map (place_ticket inp (o_id ord) (o_id ord + 1) aid) (po_qrTokens inp))
       \<and> distinct (map t_qrToken (d_tickets d @ ks))
       \<and> (\<exists>dy. d_tiers d5 = d_tiers dy \<and> reserveAllocation inp d4 = Inr dy)
     else ks = [] \<and> d5 = d4"
    using k issueTickets_D(1-3) [of inp ord it aid d4 ks d5] base id by (simp split: if_splits)
  have same: "d_orders d5 = d_orders d4" "d_items d5 = d_items d4" "d_tickets d5 = d_tickets d4 @ ks"
      "d_next d4 + length ks \<le> d_next d5" "d_holds d5 = d_holds d4"
    using k issueTickets_D(4-8) [of inp ord it aid d4 ks d5] by (simp_all split: if_splits)
  have tiers: "if po_issueTickets inp then d_tiers d6 = d_tiers d5
     else if po_awaitsDecision inp then \<exists>dy. d_tiers d6 = d_tiers dy \<and> reserveAllocation inp d5 = Inr dy
     else d_tiers d6 = d_tiers d5"
    using s by (auto simp: settleHolds_def reserveForDecision_def bindE_Inr_iff convertHolds_def
        attachHolds_def split: if_splits)
  have last: "o_id ord + 2 + length ks \<le> d_next d'"
    using inv(9) after(4) same(4) base(5) by simp
  have all: "d_orders d' = d_orders d @ [ord]"
    "d_items d' = d_items d @ [place_item inp (o_id ord) (o_id ord + 1)]" "d_tickets d' = d_tickets d @ ks"
    using inv after same base by simp_all
  have stock: "if po_issueTickets inp \<or> po_awaitsDecision inp
     then \<exists>dx dy. d_tiers dx = d_tiers d \<and> d_tiers d' = d_tiers dy \<and> reserveAllocation inp dx = Inr dy
     else d_tiers d' = d_tiers d"
    using tickets tiers inv(6) base(4) by (auto split: if_splits)
  have base_seats: "d_assignments d4 = d_assignments d" "d_holds d4 = d_holds d"
    using O(1,2) I(2) u by simp_all
  have seated: "if po_issueTickets inp
     then \<exists>dx dy. d_assignments dx = d_assignments d \<and> d_assignments d' = d_assignments dy
        \<and> assignSeats inp ks dx = Inr dy
     else d_assignments d' = d_assignments d"
    using k issueTickets_D(9) [of inp ord it aid d4 ks d5] tickets inv(4) after(5) base_seats(1)
    by (cases "po_issueTickets inp") simp_all
  have holds: "d_holds d' = placed_holds inp (o_id ord) (d_holds d)"
    using settleHolds_holds [OF s] inv(5) same(5) base_seats(2) by simp
  show ?thesis
    by (rule that [of d2 ord aid ks, OF none u(13) u(9) O(1) _ _ _ _ all _ stock seated holds last held])
      (use r O tickets in \<open>auto simp: place_insert_def split: if_splits\<close>)
qed

lemma live_placed: "live_ticket (place_ticket inp oid it aid q i)"
  by (simp add: live_ticket_def place_ticket_def LIVE_TICKET_STATUSES_def)

lemma placed_tickets:
  assumes "ks = with_ids n (map (place_ticket inp oid it aid) qs)"
  shows "distinct (map t_id ks)" and "length ks = length qs"
    and "k \<in> set ks \<Longrightarrow> n \<le> t_id k \<and> t_id k < n + length ks \<and> t_order k = oid
       \<and> t_type k = po_type inp \<and> t_org k = po_org inp \<and> live_ticket k"
proof -
  have "map t_id ks = [n ..< n + length (map (place_ticket inp oid it aid) qs)]"
    unfolding assms by (rule with_ids_ids) (auto simp: place_ticket_def)
  then show "distinct (map t_id ks)" by simp
  show "length ks = length qs" by (simp add: assms)
  show "n \<le> t_id k \<and> t_id k < n + length ks \<and> t_order k = oid
       \<and> t_type k = po_type inp \<and> t_org k = po_org inp \<and> live_ticket k" if "k \<in> set ks"
    using that live_placed unfolding assms by (auto dest!: in_with_ids) (auto simp: place_ticket_def)
qed

lemma reserve_moves:
  assumes "sold_ok d" and "reserveAllocation inp dx = Inr dy" and "d_tiers dx = d_tiers d"
  shows "sold_moved (d_tiers d) (d_tiers dy) (\<lambda>x. if x = po_type inp then po_quantity inp else 0)"
    and "t \<in> set (d_tiers dy) \<Longrightarrow> sold_within_total t"
proof -
  obtain t0 where t0: "t0 \<in> set (d_tiers dx)" "tt_id t0 = po_type inp"
    and u: "updateTiers (\<lambda>t. tt_id t = po_type inp) (\<lambda>t. t\<lparr>tt_sold := tt_sold t0 + po_quantity inp\<rparr>) dx = Inr dy"
    using assms(2) by (rule reserveAllocation_D) blast
  have dist: "distinct (map tt_id (d_tiers dx))" "\<And>t. t \<in> set (d_tiers dx) \<Longrightarrow> sold_within_total t"
    using assms(1,3) by (auto simp: sold_ok_def)
  show "sold_moved (d_tiers d) (d_tiers dy) (\<lambda>x. if x = po_type inp then po_quantity inp else 0)"
    using set_sold_moved [OF dist(1) t0, of "po_quantity inp"] updateTiers_D(1) [OF u] assms(3) by simp
  show "t \<in> set (d_tiers dy) \<Longrightarrow> sold_within_total t"
    by (rule updateTiers_D(2) [OF u dist(2)])
qed

lemma placeOrder_stock:
  assumes "stock_ok d" and "placed_for d inp" and "placeOrder inp d = Inr (r, d')"
  shows "stock_ok d'"
proof (cases "pr_replayed r")
  case True
  with assms(1,3) show ?thesis
    by (auto simp: placeOrder_def Let_def bindE_Inr_iff split: option.splits prod.splits)
next
  case False
  have sold: "sold_ok d" using assms(1) by (simp add: stock_ok_def)
  show ?thesis
  proof (rule placeOrder_shape [OF assms(3) False])
    fix d2 aid ord ks
    assume none: "findByIdempotencyKey (po_org inp) (po_idempotencyKey inp) d = None"
      and nxt: "d_next d \<le> d_next d2" and clock: "d_clock d2 = d_clock d"
      and ord: "ord = new_order_row (place_insert inp) aid (initialState inp) d2"
      and q: "1 \<le> po_quantity inp" "po_quantity inp \<le> 8"
      and d': "d_orders d' = d_orders d @ [ord]"
        "d_items d' = d_items d @ [place_item inp (o_id ord) (o_id ord + 1)]"
        "d_tickets d' = d_tickets d @ ks"
      and ks: "if po_issueTickets inp
           then ks = with_ids (o_id ord + 2) (map (place_ticket inp (o_id ord) (o_id ord + 1) aid) (po_qrTokens inp))
             \<and> distinct (map t_qrToken (d_tickets d @ ks))
           else ks = []"
      and tiers: "if po_issueTickets inp \<or> po_awaitsDecision inp
         then \<exists>dx dy. d_tiers dx = d_tiers d \<and> d_tiers d' = d_tiers dy \<and> reserveAllocation inp dx = Inr dy
         else d_tiers d' = d_tiers d"
      and last: "o_id ord + 2 + length ks \<le> d_next d'"
    have ordf: "o_id ord = d_next d2" "o_org ord = po_org inp" "o_status ord \<noteq> OWaitlisted"
      "isAwaitingApproval ord = (\<not> po_issueTickets inp \<and> po_awaitsDecision inp)"
      by (simp_all add: ord place_insert_def initialState_def isAwaitingApproval_def)
    have kf: "distinct (map t_id ks)" "\<forall>k\<in>set ks. d_next d \<le> t_id k \<and> t_id k < d_next d' \<and> t_order k = o_id ord
       \<and> t_type k = po_type inp \<and> t_org k = o_org ord \<and> live_ticket k"
      and kl: "int (length ks) = (if po_issueTickets inp then po_quantity inp else 0)"
    proof -
      note T = placed_tickets [of ks "o_id ord + 2" inp "o_id ord" "o_id ord + 1" aid "po_qrTokens inp"]
      show "distinct (map t_id ks)" using ks T(1) by (cases "po_issueTickets inp") auto
      show "\<forall>k\<in>set ks. d_next d \<le> t_id k \<and> t_id k < d_next d' \<and> t_order k = o_id ord
         \<and> t_type k = po_type inp \<and> t_org k = o_org ord \<and> live_ticket k"
      proof
        fix k assume k: "k \<in> set ks"
        with ks have "po_issueTickets inp"
          "ks = with_ids (o_id ord + 2) (map (place_ticket inp (o_id ord) (o_id ord + 1) aid) (po_qrTokens inp))"
          by (auto split: if_splits)
        from T(3) [OF this(2) k] last nxt ordf(1,2)
        show "d_next d \<le> t_id k \<and> t_id k < d_next d' \<and> t_order k = o_id ord
         \<and> t_type k = po_type inp \<and> t_org k = o_org ord \<and> live_ticket k" by simp
      qed
      show "int (length ks) = (if po_issueTickets inp then po_quantity inp else 0)"
        using ks T(2) assms(2) by (cases "po_issueTickets inp") (auto simp: placed_for_def)
    qed
    let ?it = "place_item inp (o_id ord) (o_id ord + 1)"
    let ?c = "int (length ks) + (if isAwaitingApproval ord then oi_quantity ?it else 0)"
    have moved: "sold_moved (d_tiers d) (d_tiers d') (\<lambda>ty. if ty = oi_type ?it then ?c else 0)"
      "\<And>t. t \<in> set (d_tiers d') \<Longrightarrow> sold_within_total t"
    proof -
      have c: "?c = (if po_issueTickets inp \<or> po_awaitsDecision inp then po_quantity inp else 0)"
        using kl ordf(4) by (auto simp: place_item_def)
      show "sold_moved (d_tiers d) (d_tiers d') (\<lambda>ty. if ty = oi_type ?it then ?c else 0)"
        unfolding c using tiers reserve_moves(1) [OF sold] sold_moved_refl
        by (auto simp: place_item_def split: if_splits)
      show "\<And>t. t \<in> set (d_tiers d') \<Longrightarrow> sold_within_total t"
        using tiers reserve_moves(2) [OF sold] sold by (auto simp: sold_ok_def split: if_splits)
    qed
    show "stock_ok d'"
      by (rule stock_ok_new_order [OF assms(1) d' refl _ _ _ _ _ _ _ kf(1) _ moved])
        (use ordf nxt last q kf(2) assms(2) in \<open>auto simp: place_item_def placed_for_def\<close>)
  qed
qed

end
