(* ===== verification/SettleSteps.thy ===== *)
theory SettleSteps
  imports CheckoutSteps
begin

text \<open>
  Joining the waitlist, offering, settling, rejecting and refunding keep the invariant of
  theory CheckoutInv.
\<close>

section \<open>The waitlist\<close>

lemma lockOrder_D:
  assumes "lockOrder org oid d = Inr ord"
  shows "ord \<in> set (d_orders d)" "o_id ord = oid" "o_org ord = org"
  using assms by (auto simp: lockOrder_def split: option.splits dest!: find_SomeD)

lemma joinWaitlist_stock:
  assumes "stock_ok d" and "\<forall>t\<in>set (d_tiers d). tt_id t = jw_type inp \<longrightarrow> tt_org t = jw_org inp"
    and "joinWaitlist inp d = Inr (r, d')"
  shows "stock_ok d'"
proof (cases "\<exists>ord. insertWaitlistEntry inp d = Inr (ord, d')")
  case False
  with assms(1,3) show ?thesis
    by (auto simp: joinWaitlist_def Let_def bindE_Inr_iff split: option.splits prod.splits)
next
  case True
  then obtain ord where ins: "insertWaitlistEntry inp d = Inr (ord, d')" ..
  obtain aid d1 where up: "upsertAttendee (jw_org inp) (jw_buyer inp) d = (aid, d1)" by fastforce
  note u = upsertAttendee_D [OF up]
  from ins obtain d2 it where o: "insertOrder (waitlist_insert inp) aid WAITLISTED d1 = Inr (ord, d2)"
    and i: "insertOrderItem (jw_org inp) (jw_type inp) (jw_quantity inp) (jw_unitPrice inp)
        (jw_totals inp) (o_id ord) d2 = Inr (it, d')"
    by (auto simp: insertWaitlistEntry_def up Let_def bindE_Inr_iff)
  note O = insertOrder_D [OF o] and I = insertOrderItem_D [OF i]
  have ordf: "o_id ord = d_next d1" "o_org ord = jw_org inp" "o_approvalRequestedAt ord = None"
    by (simp_all add: O(1) waitlist_insert_def WAITLISTED_def)
  then have aw: "\<not> isAwaitingApproval ord" by (simp add: isAwaitingApproval_def)
  have tiers: "d_tiers d' = d_tiers d" using O(2) I(2) u by simp
  show ?thesis
  proof (rule stock_ok_new_order [OF assms(1), where ks = "[]" and n = "o_id ord" and ord = ord])
    show "d_orders d' = d_orders d @ [ord]" using O(2) I(2) u by simp
    show "d_items d' = d_items d @ [\<lparr>oi_id = d_next d2, oi_org = jw_org inp, oi_order = o_id ord,
        oi_type = jw_type inp, oi_quantity = jw_quantity inp, oi_unitPrice = jw_unitPrice inp,
        oi_lineSubtotal = subtotalSatang (jw_totals inp)\<rparr>]"
      using O(2) I(2) u by simp
    show "d_next d \<le> o_id ord" "o_id ord < d_next d'" using O(2) I(2) u ordf by simp_all
    show "t \<in> set (d_tiers d') \<Longrightarrow> sold_within_total t" for t
      using assms(1) tiers by (simp add: stock_defs)
  qed (use assms(2) ordf aw tiers O(3) O(2) I(2) u in
      \<open>auto simp: waitlist_insert_def intro!: sold_moved_refl\<close>)
qed

lemma stock_ok_order_only:
  assumes "stock_ok d" and "ord \<in> set (d_orders d)" "o_id ord = i"
    and "\<And>x. o_id (f x) = o_id x" "\<And>x. o_org (f x) = o_org x" "o_status (f ord) \<noteq> OWaitlisted"
    and "isAwaitingApproval (f ord) = isAwaitingApproval ord"
  shows "stock_ok (updateOrder i f d)"
proof (rule stock_ok_order_change [OF assms(1-6)])
  show "sold_moved (d_tiers d) (d_tiers (updateOrder i f d)) (\<lambda>_. 0)"
    by (simp add: sold_moved_refl)
qed (use assms(1,7) in \<open>simp_all add: stock_defs\<close>)

lemma markOffered_stock:
  assumes "stock_ok d" and "markOffered org oid offeredBy expires now build d = Inr (r, d')"
  shows "stock_ok d'"
proof -
  from assms(2) obtain ord where l: "lockOrder org oid d = Inr ord" and w: "o_status ord = OWaitlisted"
    and d': "d' = enqueueIn (build r) (updateOrder (o_id ord)
      (offered_row offeredBy expires now (waitlistAhead org (o_id ord) d)) d)"
    by (auto simp: markOffered_def bindE_Inr_iff Let_def WAITLISTED_def split: if_splits)
  have "o_approvalRequestedAt ord = None"
    using assms(1) w lockOrder_D(1) [OF l] by (auto simp: stock_defs)
  then show ?thesis unfolding d'
    by (simp add: stock_ok_order_only [OF assms(1) lockOrder_D(1) [OF l] refl]
        offered_row_def isAwaitingApproval_def w)
qed

section \<open>Settling\<close>

lemma loadSettlement_line:
  assumes "cx_line (loadSettlement inp ord d) = Some line"
  obtains i t where "i \<in> set (d_items d)" "oi_order i = o_id ord" "t \<in> set (d_tiers d)"
    "tt_id t = oi_type i" "ln_type line = oi_type i" "ln_quantity line = oi_quantity i"
    "ln_sold line = tt_sold t" "ln_total line = tt_total t" "ln_orderItemId line = oi_id i"
  using assms
  by (auto simp: loadSettlement_def Let_def lockTier_def split: option.splits dest!: find_SomeD)

lemma loadSettlement_counted [simp]:
  "cx_placesCounted (loadSettlement inp ord d) = isAwaitingApproval ord"
  by (simp add: loadSettlement_def Let_def)

lemma settlementBlocker_None:
  assumes "settlementBlocker context mode = None"
  obtains line where "cx_line context = Some line"
    "cx_placesCounted context \<or> ln_sold line + ln_quantity line \<le> ln_total line"
    "cx_takenSeatIds context = []"
    "cx_seatIds context = [] \<or> int (length (cx_seatIds context)) = ln_quantity line"
    "cx_seatTypesMatch context"
  using assms by (auto simp: settlementBlocker_def exceedsAllocation_def split: option.splits if_splits)

lemma refuseSettlement_stock:
  assumes "stock_ok d" and "ord \<in> set (d_orders d)" and "\<not> isAwaitingApproval ord"
    and "tx_hook (so_recordPayment inp)" and "refuseSettlement inp ord reason d = Inr (r, d')"
  shows "stock_ok d'"
proof -
  have "stock_ok (updateOrder (o_id ord) (closed_row (so_now inp)) d)"
    by (rule stock_ok_order_only [OF assms(1,2)])
      (use assms(3) in \<open>auto simp: closed_row_def isAwaitingApproval_def\<close>)
  with assms(4,5) show ?thesis
    by (auto simp: refuseSettlement_def Let_def bindE_Inr_iff releaseActiveHolds_def stock_ok_hook)
qed

text \<open>The rise of \<^verbatim>\<open>sold\<close> is the order's places.\<close>

lemma countSale_moves:
  assumes "stock_ok d" and "cx_line (loadSettlement inp ord d) = Some line"
    and "countSale line d = Inr d'"
  shows "d' = d\<lparr>d_tiers := d_tiers d'\<rparr>"
    and "sold_moved (d_tiers d) (d_tiers d') (order_places (d_items d) (o_id ord))"
    and "\<And>t. t \<in> set (d_tiers d') \<Longrightarrow> sold_within_total t"
proof -
  have ok: "sold_ok d" "distinct (map oi_order (d_items d))" using assms(1) by (simp_all add: stock_defs)
  from assms(2) obtain i t where i: "i \<in> set (d_items d)" "oi_order i = o_id ord"
    and t: "t \<in> set (d_tiers d)" "tt_id t = ln_type line" "tt_sold t = ln_sold line"
    and ln: "ln_type line = oi_type i" "ln_quantity line = oi_quantity i"
    by (rule loadSettlement_line) simp
  note m = sell_moves [OF ok(1) t(1,2), of "ln_quantity line" d', unfolded t(3), OF assms(3) [unfolded countSale_def]]
  show "d' = d\<lparr>d_tiers := d_tiers d'\<rparr>" by (rule m(1))
  have "order_places (d_items d) (o_id ord) = (\<lambda>x. if x = ln_type line then ln_quantity line else 0)"
    using order_places_item [OF ok(2) i(1)] i(2) ln by auto
  with m(2) show "sold_moved (d_tiers d) (d_tiers d') (order_places (d_items d) (o_id ord))" by simp
  show "\<And>t. t \<in> set (d_tiers d') \<Longrightarrow> sold_within_total t" by (rule m(3))
qed

lemma awaitDecision_stock:
  assumes "stock_ok d" and "ord \<in> set (d_orders d)" and "\<not> isAwaitingApproval ord"
    and "o_status ord = OPending"
    and "tx_hook (so_recordPayment inp)" and "cx_line (loadSettlement inp ord d) = Some line"
    and "awaitDecision inp ord (loadSettlement inp ord d) d = Inr (r, d')"
  shows "stock_ok d'"
proof (cases "seatHoldLost (so_org inp) (o_id ord) d")
  case True
  with assms refuseSettlement_stock show ?thesis by (simp add: awaitDecision_def)
next
  case False
  let ?f = "waiting_row (so_now inp)"
  from False assms(6,7) obtain d1 where c: "countSale line d = Inr d1"
    and rec: "so_recordPayment inp (updateOrder (o_id ord) ?f (holdForDecision (so_org inp) (o_id ord) d1)) = Inr d'"
    by (auto simp: awaitDecision_def bindE_Inr_iff Let_def)
  note m = countSale_moves [OF assms(1,6) c]
  have d1: "d_orders d1 = d_orders d" "d_items d1 = d_items d" "d_tickets d1 = d_tickets d" "d_next d1 = d_next d"
    by (subst m(1), simp)+
  let ?d2 = "updateOrder (o_id ord) ?f (holdForDecision (so_org inp) (o_id ord) d1)"
  have f: "o_id (?f x) = o_id x" "o_org (?f x) = o_org x" "o_status (?f ord) \<noteq> OWaitlisted"
    "isAwaitingApproval (?f ord)" for x
    using assms(4) by (simp_all add: waiting_row_def isAwaitingApproval_def)
  have "stock_ok ?d2"
  proof (rule stock_ok_order_change [OF assms(1,2) refl f(1-3)])
    show "sold_moved (d_tiers d) (d_tiers ?d2) (order_places (d_items d) (o_id ord))"
      using m(2) by (simp add: holdForDecision_def)
    show "tickets_ok ?d2"
      using assms(1) d1 sold_moved_same_tiers(2) [OF m(2)]
      by (simp add: stock_ok_def tickets_ok_def holdForDecision_def)
  qed (use assms(3) f(4) d1 m(3) in \<open>simp_all add: holdForDecision_def\<close>)
  with stock_ok_hook [OF assms(5) rec] show ?thesis by simp
qed

lemma settled_tickets:
  assumes "ks = with_ids n (map (\<lambda>j. settle_ticket inp ord line (so_mintQrToken inp j)) [0 ..< m])"
  shows "distinct (map t_id ks)" and "length ks = m"
    and "k \<in> set ks \<Longrightarrow> n \<le> t_id k \<and> t_id k < n + m \<and> t_order k = o_id ord
       \<and> t_type k = ln_type line \<and> t_org k = so_org inp \<and> live_ticket k"
proof -
  let ?mk = "map (\<lambda>j. settle_ticket inp ord line (so_mintQrToken inp j)) [0 ..< m]"
  have "map t_id ks = [n ..< n + length ?mk]"
    unfolding assms by (rule with_ids_ids) (auto simp: settle_ticket_def)
  then show "distinct (map t_id ks)" by simp
  show "length ks = m" by (simp add: assms)
  show "n \<le> t_id k \<and> t_id k < n + m \<and> t_order k = o_id ord
       \<and> t_type k = ln_type line \<and> t_org k = so_org inp \<and> live_ticket k" if "k \<in> set ks"
    using that unfolding assms
    by (auto dest!: in_with_ids) (auto simp: settle_ticket_def live_ticket_def LIVE_TICKET_STATUSES_def)
qed

text \<open>What a settlement that issues tickets does to the inventory.\<close>

lemma completeSettlement_shape:
  assumes "completeSettlement inp ord (loadSettlement inp ord d) d = Inr (r, d')"
    and "cx_line (loadSettlement inp ord d) = Some line" and "tx_hook (so_recordPayment inp)"
  obtains d1 ks where
    "(if isAwaitingApproval ord then d1 = d else countSale line d = Inr d1)"
    "ks = with_ids (d_next d) (map (\<lambda>j. settle_ticket inp ord line (so_mintQrToken inp j)) [0 ..< nat (ln_quantity line)])"
    "distinct (map t_qrToken (d_tickets d @ ks))"
    "d_orders d' = upd (\<lambda>x. o_id x = o_id ord) (settled_row inp) (d_orders d)" "d_items d' = d_items d"
    "d_tickets d' = d_tickets d @ ks" "d_tiers d' = d_tiers d1"
    "d_next d + length ks \<le> d_next d'"
    "d_holds d' = upd (\<lambda>h. h_org h = so_org inp \<and> h_order h = Some (o_id ord))
        (\<lambda>h. h\<lparr>h_status := HConverted, h_order := None\<rparr>) (d_holds d)"
    "if cx_seatIds (loadSettlement inp ord d) = [] then d_assignments d' = d_assignments d
     else \<exists>dx dy. d_assignments dx = d_assignments d \<and> d_assignments d' = d_assignments dy
        \<and> insertAssignments (so_org inp) (cx_seatIds (loadSettlement inp ord d)) ks dx = Inr dy"
    "r = \<lparr>sr_outcome = Settled, sr_reference = o_reference ord, sr_ticketCount = int (length ks), sr_reason = None\<rparr>"
proof -
  let ?cx = "loadSettlement inp ord d"
  note P = assms(1) [unfolded completeSettlement_def Let_def assms(2) option.sel]
  from P obtain d1 where c: "(if cx_placesCounted ?cx then Inr d else countSale line d) = Inr d1"
    by (auto simp: bindE_Inr_iff)
  from P c obtain ks d2 where k: "insertTickets (map (\<lambda>n. settle_ticket inp ord line (so_mintQrToken inp n))
      [0 ..< nat (ln_quantity line)]) d1 = Inr (ks, d2)" by (auto simp: bindE_Inr_iff)
  from P c k obtain d3 where a: "(if cx_seatIds ?cx = [] then Inr d2
      else insertAssignments (so_org inp) (cx_seatIds ?cx) ks d2) = Inr d3" by (auto simp: bindE_Inr_iff)
  let ?d4 = "updateOrder (o_id ord) (settled_row inp) (updateHolds
      (\<lambda>h. h_org h = so_org inp \<and> h_order h = Some (o_id ord)) (\<lambda>h. h\<lparr>h_status := HConverted, h_order := None\<rparr>) d3)"
  from P c k a obtain d5 where rec: "so_recordPayment inp ?d4 = Inr d5"
    and r: "r = \<lparr>sr_outcome = Settled, sr_reference = o_reference ord, sr_ticketCount = int (length ks), sr_reason = None\<rparr>"
    and d': "d' = enqueueIn (so_buildConfirmedEvent inp (settled_row inp ord) (int (length ks))) d5"
    by (auto simp: bindE_Inr_iff)
  have d1: "d1 = d\<lparr>d_tiers := d_tiers d1\<rparr>"
    using c by (auto simp: countSale_def split: if_splits dest!: updateTiers_D(1))
  have d1f: "d_orders d1 = d_orders d" "d_items d1 = d_items d" "d_tickets d1 = d_tickets d"
    "d_next d1 = d_next d" "d_holds d1 = d_holds d" "d_assignments d1 = d_assignments d"
    by (subst d1, simp)+
  note K = insertTickets_D [OF k]
  have d3: "d3 = d2\<lparr>d_assignments := d_assignments d3, d_next := d_next d3\<rparr>" "d_next d2 \<le> d_next d3"
    using a insertAssignments_D(1,2) by (auto split: if_splits)
  have d3f: "d_orders d3 = d_orders d2" "d_items d3 = d_items d2" "d_tickets d3 = d_tickets d2"
    "d_holds d3 = d_holds d2" "d_tiers d3 = d_tiers d2"
    by (subst d3(1), simp)+
  note inv = inventory_eqD [OF tx_hook.hook_frame [OF assms(3) rec]]
  show ?thesis
  proof (rule that [of d1 ks])
    show "if isAwaitingApproval ord then d1 = d else countSale line d = Inr d1"
      using c by (auto split: if_splits)
    show "ks = with_ids (d_next d) (map (\<lambda>j. settle_ticket inp ord line (so_mintQrToken inp j))
        [0 ..< nat (ln_quantity line)])" using K(1) d1f by simp
    show "distinct (map t_qrToken (d_tickets d @ ks))" using K(3) d1f by simp
    show "d_orders d' = upd (\<lambda>x. o_id x = o_id ord) (settled_row inp) (d_orders d)"
      using inv(1) d3f(1) K(2) d1f(1) by (simp add: d')
    show "d_items d' = d_items d" "d_tickets d' = d_tickets d @ ks" "d_tiers d' = d_tiers d1"
      using inv d3f K(2) d1f by (simp_all add: d')
    show "d_next d + length ks \<le> d_next d'" using inv(9) d3(2) K(1,2) d1f by (simp add: d')
    show "d_holds d' = upd (\<lambda>h. h_org h = so_org inp \<and> h_order h = Some (o_id ord))
        (\<lambda>h. h\<lparr>h_status := HConverted, h_order := None\<rparr>) (d_holds d)"
      using inv(5) d3f(4) K(2) d1f(5) by (simp add: d')
    have "d_assignments d2 = d_assignments d" using K(2) d1f(6) by simp
    then show "if cx_seatIds ?cx = [] then d_assignments d' = d_assignments d
       else \<exists>dx dy. d_assignments dx = d_assignments d \<and> d_assignments d' = d_assignments dy
          \<and> insertAssignments (so_org inp) (cx_seatIds ?cx) ks dx = Inr dy"
      using a inv(4) by (auto simp: d' split: if_splits)
  qed (rule r)
qed

lemma tickets_ok_append:
  assumes "tickets_ok d" and "d_tickets d' = d_tickets d @ ks" and "d_next d \<le> d_next d'"
    and "sold_moved (d_tiers d) (d_tiers d') \<delta>" and "distinct (map t_id ks)"
    and "\<And>k. k \<in> set ks \<Longrightarrow> d_next d \<le> t_id k \<and> t_id k < d_next d' \<and> t_order k < d_next d'
       \<and> (\<forall>t\<in>set (d_tiers d). tt_id t = t_type k \<longrightarrow> tt_org t = t_org k)"
  shows "tickets_ok d'"
  unfolding tickets_ok_def
proof (intro conjI ballI)
  have old: "\<forall>k\<in>set (d_tickets d). t_id k < d_next d \<and> t_order k < d_next d"
    using assms(1) by (simp add: tickets_ok_def)
  then show "distinct (map t_id (d_tickets d'))"
    using assms(1,5,6) unfolding assms(2) by (fastforce simp: tickets_ok_def)
  fix k assume "k \<in> set (d_tickets d')"
  then have "k \<in> set (d_tickets d) \<or> k \<in> set ks" by (simp add: assms(2))
  then show "t_id k < d_next d'" "t_order k < d_next d'"
    using assms(3,6) old by force+
  from \<open>k \<in> set (d_tickets d) \<or> k \<in> set ks\<close> have "\<forall>t\<in>set (d_tiers d). tt_id t = t_type k \<longrightarrow> tt_org t = t_org k"
    using assms(1,6) by (auto simp: tickets_ok_def)
  then have *: "\<forall>t\<in>set (d_tiers d'). tt_id t = t_type k \<longrightarrow> tt_org t = t_org k"
    using sold_moved_same_tiers(2) [OF assms(4)] by simp
  show "tt_id t = t_type k \<longrightarrow> tt_org t = t_org k" if "t \<in> set (d_tiers d')" for t
    using * that by blast
qed

lemma settled_row_simps [simp]:
  "o_id (settled_row inp x) = o_id x" "o_org (settled_row inp x) = o_org x"
  "o_status (settled_row inp x) = OConfirmed" "o_paymentStatus (settled_row inp x) = PPaid"
  "isAwaitingApproval (settled_row inp x) = False" "o_reference (settled_row inp x) = o_reference x"
  "o_seats (settled_row inp x) = o_seats x"
  by (auto simp: settled_row_def Let_def isAwaitingApproval_def)

lemma completeSettlement_stock:
  assumes "stock_ok d" and "ord \<in> set (d_orders d)" and "o_org ord = so_org inp"
    and "tx_hook (so_recordPayment inp)" and "cx_line (loadSettlement inp ord d) = Some line"
    and "completeSettlement inp ord (loadSettlement inp ord d) d = Inr (r, d')"
  shows "stock_ok d'"
proof -
  have items: "distinct (map oi_order (d_items d))" using assms(1) by (simp add: stock_defs)
  have tk: "tickets_ok d" using assms(1) by (simp add: stock_ok_def)
  obtain i t where i: "i \<in> set (d_items d)" "oi_order i = o_id ord"
    and ln: "ln_type line = oi_type i" "ln_quantity line = oi_quantity i"
    using loadSettlement_line [OF assms(5)] by metis
  have q: "1 \<le> ln_quantity line" using assms(1) i(1) ln by (simp add: stock_defs)
  have ip: "oi_org i = so_org inp"
  proof -
    from assms(1) i obtain x where "x \<in> set (d_orders d)" "o_id x = o_id ord" "o_org x = oi_org i"
      by (fastforce simp: stock_defs)
    moreover have "distinct (map o_id (d_orders d))" using assms(1) by (simp add: stock_defs)
    ultimately have "x = ord" using assms(2) by (metis distinct_map inj_onD)
    with \<open>o_org x = oi_org i\<close> assms(3) show ?thesis by simp
  qed
  have orgs: "\<forall>t\<in>set (d_tiers d). tt_id t = ln_type line \<longrightarrow> tt_org t = so_org inp"
    using assms(1) i(1) ln(1) ip by (auto simp: stock_defs)
  have op: "order_places (d_items d) (o_id ord) ty = (if ty = ln_type line then ln_quantity line else 0)" for ty
    using order_places_item [OF items i(1)] i(2) ln by auto
  show ?thesis
  proof (rule completeSettlement_shape [OF assms(6,5,4)])
    fix d1 ks
    assume c: "if isAwaitingApproval ord then d1 = d else countSale line d = Inr d1"
      and ks: "ks = with_ids (d_next d) (map (\<lambda>j. settle_ticket inp ord line (so_mintQrToken inp j))
          [0 ..< nat (ln_quantity line)])"
      and d': "d_orders d' = upd (\<lambda>x. o_id x = o_id ord) (settled_row inp) (d_orders d)" "d_items d' = d_items d"
        "d_tickets d' = d_tickets d @ ks" "d_tiers d' = d_tiers d1" "d_next d + length ks \<le> d_next d'"
    note T = settled_tickets [OF ks]
    let ?\<delta> = "\<lambda>ty. if isAwaitingApproval ord then 0 else order_places (d_items d) (o_id ord) ty"
    have moved: "sold_moved (d_tiers d) (d_tiers d') ?\<delta>" "\<And>t. t \<in> set (d_tiers d') \<Longrightarrow> sold_within_total t"
      using c countSale_moves [OF assms(1,5), of d1] sold_moved_refl [of "d_tiers d" "\<lambda>_. 0"] assms(1)
      by (auto simp: d'(4) stock_defs split: if_splits)
    have oid: "o_id ord < d_next d'" using assms(1,2) d'(5) by (fastforce simp: stock_defs)
    have live: "live_places ks ty = order_places (d_items d) (o_id ord) ty" for ty
      using live_places_same_type [of ks "ln_type line" ty] T q by (auto simp: op)
    show "stock_ok d'"
    proof (rule stock_ok_order_change [OF assms(1,2) refl _ _ _ d'(1,2) _ _ moved(1)])
      show "tickets_ok d'"
      proof (rule tickets_ok_append [OF tk d'(3) _ moved(1) T(1)])
        fix k assume "k \<in> set ks"
        from T(3) [OF this] T(2) oid d'(5) orgs
        show "d_next d \<le> t_id k \<and> t_id k < d_next d' \<and> t_order k < d_next d'
          \<and> (\<forall>t\<in>set (d_tiers d). tt_id t = t_type k \<longrightarrow> tt_org t = t_org k)" by simp
      qed (use d'(5) in simp)
      show "?\<delta> ty = live_places (d_tickets d') ty - live_places (d_tickets d) ty -
          (if isAwaitingApproval ord then order_places (d_items d) (o_id ord) ty else 0) +
          (if isAwaitingApproval (settled_row inp ord) then order_places (d_items d) (o_id ord) ty else 0)" for ty
        by (simp add: d'(3) live)
    qed (use moved(2) d'(5) in auto)
  qed
qed

text \<open>Every way \<^verbatim>\<open>settleOrder\<close> can end.\<close>

lemma settleOrder_cases:
  assumes "settleOrder inp d = Inr (r, d')"
  obtains ord where "lockOrder (so_org inp) (so_order inp) d = Inr ord"
    and "(so_recordPayment inp d = Inr d' \<and> sr_outcome r = AlreadySettled
           \<and> (o_status ord = OConfirmed \<or> so_mode inp = PaymentMode \<and> isAwaitingApproval ord))
       \<or> (\<exists>reason. so_mode inp = PaymentMode \<and> \<not> isAwaitingApproval ord \<and> o_status ord \<noteq> OConfirmed
           \<and> refuseSettlement inp ord reason d = Inr (r, d'))
       \<or> (so_mode inp = ApprovalMode \<and> d' = d \<and> sr_outcome r = Unavailable \<and> sr_ticketCount r = 0)
       \<or> (o_status ord \<in> set AWAITING_DECISION
           \<and> settlementBlocker (loadSettlement inp ord d) (so_mode inp) = None
           \<and> (if so_mode inp = PaymentMode \<and> o_requiresApproval ord
              then o_status ord = OPending \<and> \<not> isAwaitingApproval ord
                 \<and> awaitDecision inp ord (loadSettlement inp ord d) d = Inr (r, d')
              else (so_mode inp = PaymentMode \<longrightarrow> o_status ord = OPending \<and> \<not> isAwaitingApproval ord)
                 \<and> completeSettlement inp ord (loadSettlement inp ord d) d = Inr (r, d')))"
proof -
  from assms obtain ord where l: "lockOrder (so_org inp) (so_order inp) d = Inr ord"
    by (auto simp: settleOrder_def Let_def bindE_Inr_iff)
  note P = assms [unfolded settleOrder_def Let_def l bindE.simps]
  consider (closed) "o_status ord = OConfirmed"
    | (dup) "o_status ord \<noteq> OConfirmed" "so_mode inp = PaymentMode" "isAwaitingApproval ord"
    | (shut) "o_status ord \<noteq> OConfirmed" "\<not> (so_mode inp = PaymentMode \<and> isAwaitingApproval ord)"
        "\<not> isOpenFor (so_mode inp) (o_status ord)"
    | (live) "o_status ord \<noteq> OConfirmed" "\<not> (so_mode inp = PaymentMode \<and> isAwaitingApproval ord)"
        "isOpenFor (so_mode inp) (o_status ord)" by blast
  then show ?thesis
  proof cases
    case closed
    with P show ?thesis by (intro that [OF l]) (auto simp: bindE_Inr_iff)
  next
    case dup
    with P show ?thesis by (intro that [OF l]) (auto simp: bindE_Inr_iff)
  next
    case shut
    with P show ?thesis
      by (intro that [OF l]) (auto split: if_splits intro: settlement_mode.exhaust [of "so_mode inp"])
  next
    case live
    show ?thesis
    proof (cases "settlementBlocker (loadSettlement inp ord d) (so_mode inp)")
      case None
      with P live show ?thesis
        by (intro that [OF l]) (auto simp: isOpenFor_def AWAITING_DECISION_def split: if_splits)
    next
      case (Some b)
      with P live show ?thesis
        by (intro that [OF l]) (auto split: if_splits intro: settlement_mode.exhaust [of "so_mode inp"])
    qed
  qed
qed

lemma settleOrder_stock:
  assumes "stock_ok d" and "tx_hook (so_recordPayment inp)" and "settleOrder inp d = Inr (r, d')"
  shows "stock_ok d'"
proof (rule settleOrder_cases [OF assms(3)], goal_cases)
  case (1 ord)
  note o = lockOrder_D [OF 1(1)]
  from 1(2) show ?case
  proof (elim disjE exE conjE, goal_cases)
    case (1) then show ?case using assms(1,2) stock_ok_hook by blast
  next
    case (2) then show ?case using assms(1,2) stock_ok_hook by blast
  next
    case (3 reason) then show ?case using refuseSettlement_stock [OF assms(1) o(1) _ assms(2)] by blast
  next
    case 4 then show ?case using assms(1) by simp
  next
    case 5
    obtain line where "cx_line (loadSettlement inp ord d) = Some line"
      using settlementBlocker_None [OF 5(2)] by metis
    with 5 show ?case
      using awaitDecision_stock [OF assms(1) o(1) _ _ assms(2)] completeSettlement_stock [OF assms(1) o(1,3) assms(2)]
      by (auto split: if_splits)
  qed
qed

end
