(* ===== verification/RefundSteps.thy ===== *)
theory RefundSteps
  imports SettleSteps
begin

text \<open>
  Rejecting, letting a payment attempt lapse and refunding keep the invariant of theory
  CheckoutInv, and neither a rejection nor a refund is ever stopped by the stock it returns.
\<close>

section \<open>Places given back\<close>

lemma order_lines_sum:
  assumes "\<And>i. i \<in> set is \<Longrightarrow> oi_order i = oid \<Longrightarrow> oi_org i = org"
  shows "sum_of snd (filter (\<lambda>l. fst l = ty) (map (\<lambda>i. (oi_type i, oi_quantity i))
     (filter (\<lambda>i. oi_org i = org \<and> oi_order i = oid) is))) = order_places is oid ty"
  using assms by (induction "is") (auto simp: order_places_def)

lemma voided_sum:
  assumes "\<And>t. P t \<Longrightarrow> live_ticket t"
  shows "sum_of snd (filter (\<lambda>l. fst l = ty) (map (\<lambda>t. (t_type t, 1)) (filter P ts))) =
     live_places (filter P ts) ty"
  using assms by (induction ts) (auto simp: live_places_def)

lemma tickets_ok_upd:
  assumes "tickets_ok d" and "d_tickets d' = upd P f (d_tickets d)" and "d_next d \<le> d_next d'"
    and "sold_moved (d_tiers d) (d_tiers d') \<delta>"
    and "\<And>t. t_id (f t) = t_id t" "\<And>t. t_order (f t) = t_order t" "\<And>t. t_type (f t) = t_type t"
      "\<And>t. t_org (f t) = t_org t"
  shows "tickets_ok d'"
  unfolding tickets_ok_def
proof (intro conjI ballI)
  show "distinct (map t_id (d_tickets d'))"
    using assms(1,2,5) by (simp add: tickets_ok_def map_upd_key)
  fix k' assume "k' \<in> set (d_tickets d')"
  then obtain k where k: "k \<in> set (d_tickets d)" "k' = (if P k then f k else k)"
    unfolding assms(2) in_set_upd by blast
  then have same: "t_id k' = t_id k" "t_order k' = t_order k" "t_type k' = t_type k" "t_org k' = t_org k"
    using assms(5-8) by auto
  show "t_id k' < d_next d'" "t_order k' < d_next d'"
    using assms(1,3) k(1) same by (force simp: tickets_ok_def)+
  have "\<forall>t\<in>set (d_tiers d'). tt_id t = t_type k' \<longrightarrow> tt_org t = t_org k'"
    using assms(1) k(1) same sold_moved_same_tiers(2) [OF assms(4)] by (simp add: tickets_ok_def)
  then show "tt_id t = t_type k' \<longrightarrow> tt_org t = t_org k'" if "t \<in> set (d_tiers d')" for t
    using that by blast
qed

lemma order_item_org:
  assumes "stock_ok d" and "ord \<in> set (d_orders d)" and "i \<in> set (d_items d)" and "oi_order i = o_id ord"
  shows "oi_org i = o_org ord"
proof -
  from assms obtain x where "x \<in> set (d_orders d)" "o_id x = o_id ord" "o_org x = oi_org i"
    by (fastforce simp: stock_defs)
  moreover have "distinct (map o_id (d_orders d))" using assms(1) by (simp add: stock_defs)
  ultimately show ?thesis using assms(2) by (metis distinct_map inj_onD)
qed

lemma givePlacesBack_moves:
  assumes "stock_ok d" and "ord \<in> set (d_orders d)" and "isAwaitingApproval ord"
    and "givePlacesBack (o_org ord) (o_id ord) d = Inr d'"
  shows "d' = d\<lparr>d_tiers := d_tiers d'\<rparr>"
    and "sold_moved (d_tiers d) (d_tiers d') (\<lambda>ty. - order_places (d_items d) (o_id ord) ty)"
    and "\<And>t. t \<in> set (d_tiers d') \<Longrightarrow> sold_within_total t"
proof -
  let ?ls = "map (\<lambda>i. (oi_type i, oi_quantity i))
     (filter (\<lambda>i. oi_org i = o_org ord \<and> oi_order i = o_id ord) (d_items d))"
  have q: "\<And>i. i \<in> set (d_items d) \<Longrightarrow> 1 \<le> oi_quantity i" using assms(1) by (simp add: stock_defs)
  have amount: "sum_of snd (filter (\<lambda>l. fst l = ty) ?ls) = order_places (d_items d) (o_id ord) ty" for ty
    by (rule order_lines_sum) (rule order_item_org [OF assms(1,2)])
  have "awaits (d_orders d) (o_id ord)"
    using assms(2,3) by (auto simp: awaits_def list_ex_iff)
  then have le: "order_places (d_items d) (o_id ord) ty \<le> places d ty" for ty
    using waiting_places_ge [OF q, of "d_items d"] live_places_nonneg [of "d_tickets d" ty]
    by (simp add: places_def add_increasing)
  note m = give_back_moves [OF _ assms(4) [unfolded givePlacesBack_def], unfolded amount]
  have 1: "sold_within_total t" if "t \<in> set (d_tiers d)" for t using assms(1) that by (simp add: stock_defs)
  have 2: "tt_org t = o_org ord" if "t \<in> set (d_tiers d)" "tt_id t \<in> fst ` set ?ls" for t
    using assms(1) that by (fastforce simp: stock_defs)
  have 3: "order_places (d_items d) (o_id ord) (tt_id t) \<le> tt_sold t" if "t \<in> set (d_tiers d)" for t
    using assms(1) that le [of "tt_id t"] by (simp add: stock_defs)
  have 4: "0 \<le> snd l" if "l \<in> set ?ls" for l using that q by force
  show "d' = d\<lparr>d_tiers := d_tiers d'\<rparr>" by (rule m(1) [OF 1 2 3 4])
  show "sold_moved (d_tiers d) (d_tiers d') (\<lambda>ty. - order_places (d_items d) (o_id ord) ty)"
    by (rule m(2) [OF 1 2 3 4])
  show "t \<in> set (d_tiers d') \<Longrightarrow> sold_within_total t" for t by (rule m(3) [OF 1 2 3 4])
qed

section \<open>Rejecting\<close>

lemma rejectOrder_shape:
  assumes "rejectOrder inp d = Inr (r, d')"
  obtains ord where "lockOrder (rj_org inp) (rj_order inp) d = Inr ord"
    "r = (o_reference ord, rejectionRefunds ord)" "o_status ord = ORejected" "d' = d"
  | ord d1 where "lockOrder (rj_org inp) (rj_order inp) d = Inr ord"
    "r = (o_reference ord, rejectionRefunds ord)" "isRejectable ord"
    "rejectionRefunds ord \<longrightarrow> rj_mayRefund inp"
    "(if isAwaitingApproval ord then givePlacesBack (rj_org inp) (o_id ord) d else Inr d) = Inr d1"
    "d' = enqueueIn (rj_buildRejectedEvent inp ord) (releaseActiveHolds (rj_org inp) (o_id ord)
       (updateOrder (o_id ord) (rejected_row (rj_decidedBy inp) (rj_reason inp) (rj_now inp)) d1))"
proof -
  from assms obtain ord where l: "lockOrder (rj_org inp) (rj_order inp) d = Inr ord"
    by (auto simp: rejectOrder_def bindE_Inr_iff)
  note P = assms [unfolded rejectOrder_def l bindE.simps Let_def]
  show ?thesis
  proof (cases "o_status ord = ORejected")
    case True
    with P show ?thesis by (intro that(1) [OF l]) auto
  next
    case False
    with P have "isRejectable ord" "rejectionRefunds ord \<longrightarrow> rj_mayRefund inp" by (auto split: if_splits)
    then have nr: "(rejectionRefunds ord \<and> \<not> rj_mayRefund inp) = False" by blast
    let ?fin = "\<lambda>d. enqueueIn (rj_buildRejectedEvent inp ord) (releaseActiveHolds (rj_org inp) (o_id ord)
       (updateOrder (o_id ord) (rejected_row (rj_decidedBy inp) (rj_reason inp) (rj_now inp)) d))"
    have "bindE (if isAwaitingApproval ord then givePlacesBack (rj_org inp) (o_id ord) d else Inr d)
        (\<lambda>d. Inr ((o_reference ord, rejectionRefunds ord), ?fin d)) = Inr (r, d')"
      using P by (simp only: False \<open>isRejectable ord\<close> nr if_False not_True_eq_False)
    then obtain d1 where
      g: "(if isAwaitingApproval ord then givePlacesBack (rj_org inp) (o_id ord) d else Inr d) = Inr d1"
      and "r = (o_reference ord, rejectionRefunds ord)" "d' = ?fin d1"
      unfolding bindE_Inr_iff by blast
    with \<open>isRejectable ord\<close> \<open>rejectionRefunds ord \<longrightarrow> rj_mayRefund inp\<close>
    show ?thesis by (intro that(2) [OF l _ _ _ g])
  qed
qed

text \<open>What a rejection moves: a row that waited gives back its places, any other row none.\<close>

lemma rejectOrder_moves:
  assumes "stock_ok d" and "rejectOrder inp d = Inr (r, d')"
  shows "stock_ok d' \<and> (\<exists>ord. lockOrder (rj_org inp) (rj_order inp) d = Inr ord
    \<and> sold_moved (d_tiers d) (d_tiers d')
        (\<lambda>ty. if isAwaitingApproval ord then - order_places (d_items d) (o_id ord) ty else 0))"
proof (cases rule: rejectOrder_shape [OF assms(2)])
  case (1 ord)
  then have "\<not> isAwaitingApproval ord" by (simp add: isAwaitingApproval_def)
  with 1 assms(1) show ?thesis by (auto intro!: sold_moved_refl)
next
  case (2 ord d1)
  note o = lockOrder_D [OF 2(1)] and g = 2(5) and d' = 2(6)
  let ?f = "rejected_row (rj_decidedBy inp) (rj_reason inp) (rj_now inp)"
  have f: "o_id (?f x) = o_id x" "o_org (?f x) = o_org x" "o_status (?f ord) \<noteq> OWaitlisted"
    "\<not> isAwaitingApproval (?f ord)" for x
    by (simp_all add: rejected_row_def isAwaitingApproval_def)
  show ?thesis
  proof -
    note m = givePlacesBack_moves [OF assms(1) o(1), unfolded o(3), of d1]
    have d1: "d1 = d\<lparr>d_tiers := d_tiers d1\<rparr>"
      using g m(1) by (cases "isAwaitingApproval ord") auto
    have d1f: "d_orders d1 = d_orders d" "d_items d1 = d_items d" "d_tickets d1 = d_tickets d" "d_next d1 = d_next d"
      by (subst d1, simp)+
    let ?\<delta> = "\<lambda>ty. if isAwaitingApproval ord then - order_places (d_items d) (o_id ord) ty else 0"
    have moved: "sold_moved (d_tiers d) (d_tiers d1) ?\<delta>" "\<And>t. t \<in> set (d_tiers d1) \<Longrightarrow> sold_within_total t"
      using g m(2,3) sold_moved_refl [of "d_tiers d" "\<lambda>_. 0"] assms(1)
      by (auto simp: stock_defs split: if_splits)
    have "stock_ok (updateOrder (o_id ord) ?f d1)"
    proof (rule stock_ok_order_change [OF assms(1) o(1) refl f(1-3)])
      show "sold_moved (d_tiers d) (d_tiers (updateOrder (o_id ord) ?f d1)) ?\<delta>" using moved(1) by simp
      show "tickets_ok (updateOrder (o_id ord) ?f d1)"
        using assms(1) d1f sold_moved_same_tiers(2) [OF moved(1)] by (simp add: stock_ok_def tickets_ok_def)
    qed (use f(4) d1f moved(2) in simp_all)
    moreover have "sold_moved (d_tiers d) (d_tiers d') ?\<delta>"
      using moved(1) by (simp add: d' releaseActiveHolds_def)
    ultimately show ?thesis using 2(1) by (auto simp: d' releaseActiveHolds_def)
  qed
qed

lemma rejectOrder_stock: "stock_ok d \<Longrightarrow> rejectOrder inp d = Inr (r, d') \<Longrightarrow> stock_ok d'"
  using rejectOrder_moves by blast

lemma releaseHoldsForOrder_stock: "stock_ok d \<Longrightarrow> stock_ok (releaseHoldsForOrder org oid d)"
  by (simp add: releaseHoldsForOrder_def releaseActiveHolds_def split: option.split)

section \<open>Refunding\<close>

lemma giveBackStock_fields:
  assumes "giveBackStock org (by_type ls) d = Inr d'"
  shows "d' = d\<lparr>d_tiers := d_tiers d'\<rparr>"
  using giveBackStock_tiers [OF assms distinct_by_type] by simp

text \<open>The database as a refund leaves it, just before the ledger is written.\<close>

definition void_tickets :: "ident \<Rightarrow> ident \<Rightarrow> db \<Rightarrow> db" where
  "void_tickets org oid d = d\<lparr>d_tickets := upd (voidable org oid) (\<lambda>t. t\<lparr>t_status := TRefunded\<rparr>) (d_tickets d)\<rparr>"

definition free_seats :: "ident \<Rightarrow> ident set \<Rightarrow> instant \<Rightarrow> db \<Rightarrow> db" where
  "free_seats org ts now d = d\<lparr>d_assignments :=
     upd (\<lambda>a. sa_org a = org \<and> sa_ticket a \<in> ts \<and> sa_releasedAt a = None)
       (\<lambda>a. a\<lparr>sa_releasedAt := Some now\<rparr>) (d_assignments d)\<rparr>"

lemma refundOrder_shape:
  assumes "refundOrder org oid rec now d = Inr (r, d')"
  obtains ord d1 d2 where "lockOrder org oid d = Inr ord"
    "(if isAwaitingApproval ord
      then bindE (givePlacesBack org oid d) (\<lambda>d. Inr (releaseActiveHolds org oid d)) else Inr d) = Inr d1"
    "returnStock org (filter (voidable org oid) (d_tickets d1)) (void_tickets org oid d1) = Inr d2"
    "rec (updateOrder oid (refunded_row ord) (free_seats org (t_id ` set (filter (voidable org oid) (d_tickets d1))) now d2)) = Inr d'"
    "fst r = length (filter (voidable org oid) (d_tickets d1))"
    "d_tickets d1 = d_tickets d"
proof -
  from assms obtain ord d1 where l: "lockOrder org oid d = Inr ord"
    and g: "(if isAwaitingApproval ord
      then bindE (givePlacesBack org oid d) (\<lambda>d. Inr (releaseActiveHolds org oid d)) else Inr d) = Inr d1"
    by (auto simp: refundOrder_def bindE_Inr_iff)
  have "d_tickets d1 = d_tickets d"
  proof (cases "isAwaitingApproval ord")
    case True
    with g obtain dg where p: "givePlacesBack org oid d = Inr dg" "d1 = releaseActiveHolds org oid dg"
      by (auto simp: bindE_Inr_iff)
    show ?thesis
      by (subst p(2), subst giveBackStock_fields [OF p(1) [unfolded givePlacesBack_def]])
        (simp add: releaseActiveHolds_def)
  qed (use g in simp)
  note P = assms [unfolded refundOrder_def l bindE.simps g Let_def]
  from P obtain d2 where ret: "returnStock org (filter (voidable org oid) (d_tickets d1)) (void_tickets org oid d1) = Inr d2"
    by (auto simp: bindE_Inr_iff void_tickets_def)
  show ?thesis
  proof (rule that [OF l g ret])
    show "rec (updateOrder oid (refunded_row ord)
        (free_seats org (t_id ` set (filter (voidable org oid) (d_tickets d1))) now d2)) = Inr d'"
      "fst r = length (filter (voidable org oid) (d_tickets d1))"
      using P unfolding ret [unfolded void_tickets_def] bindE.simps free_seats_def
      by (simp_all add: bindE_Inr_iff) auto
  qed fact
qed

lemma returned_fields:
  assumes "returnStock org ks d = Inr d'"
  shows "d' = d\<lparr>d_tiers := d_tiers d'\<rparr>"
  using giveBackStock_fields [OF assms [unfolded returnStock_def]] .

lemma voided_le_live:
  assumes "\<And>t. P t \<Longrightarrow> live_ticket t"
  shows "live_places (filter P ts) ty \<le> live_places ts ty"
  using assms unfolding live_places_def sum_of_filter by (intro sum_of_mono) auto

lemma voidable_live: "voidable org oid t \<Longrightarrow> live_ticket t"
  by (simp add: voidable_def live_ticket_def)

text \<open>The stock a refund returns is that of the tickets it voids, and it is all there.\<close>

lemma returnStock_moves:
  assumes "tickets_ok d" and "\<And>t. t \<in> set (d_tiers d1) \<Longrightarrow> sold_within_total t"
    and "sold_moved (d_tiers d) (d_tiers d1) \<delta>"
    and "\<And>t. t \<in> set (d_tiers d1) \<Longrightarrow> live_places (d_tickets d) (tt_id t) \<le> tt_sold t"
    and "returnStock org (filter (voidable org oid) (d_tickets d)) d1 = Inr d2"
  shows "sold_moved (d_tiers d1) (d_tiers d2) (\<lambda>ty. - live_places (filter (voidable org oid) (d_tickets d)) ty)"
    and "\<And>t. t \<in> set (d_tiers d2) \<Longrightarrow> sold_within_total t"
proof -
  let ?v = "filter (voidable org oid) (d_tickets d)" and ?ls = "map (\<lambda>t. (t_type t, 1::int)) (filter (voidable org oid) (d_tickets d))"
  have amount: "sum_of snd (filter (\<lambda>l. fst l = ty) ?ls) = live_places ?v ty" for ty
    by (rule voided_sum) (rule voidable_live)
  note m = give_back_moves [OF _ assms(5) [unfolded returnStock_def], unfolded amount]
  have 2: "tt_org t = org" if "t \<in> set (d_tiers d1)" "tt_id t \<in> fst ` set ?ls" for t
  proof -
    from that(2) obtain k where "k \<in> set (d_tickets d)" "t_org k = org" "t_type k = tt_id t"
      by (auto simp: voidable_def)
    with assms(1) have "\<forall>u\<in>set (d_tiers d). tt_id u = tt_id t \<longrightarrow> tt_org u = org"
      by (auto simp: tickets_ok_def)
    with sold_moved_same_tiers(2) [OF assms(3), of "tt_id t" org] that(1) show ?thesis by blast
  qed
  have 3: "live_places ?v (tt_id t) \<le> tt_sold t" if "t \<in> set (d_tiers d1)" for t
    using voided_le_live [OF voidable_live] assms(4) [OF that] by (rule order_trans)
  have 4: "0 \<le> snd l" if "l \<in> set ?ls" for l using that by force
  show "sold_moved (d_tiers d1) (d_tiers d2) (\<lambda>ty. - live_places ?v ty)"
    by (rule m(2) [OF assms(2) 2 3 4])
  show "t \<in> set (d_tiers d2) \<Longrightarrow> sold_within_total t" for t by (rule m(3) [OF assms(2) 2 3 4])
qed

text \<open>
  What a refund moves: each type gets back the tickets voided of it, and the places of an
  order that still waited.
\<close>

lemma refundOrder_moves:
  assumes "stock_ok d" and "tx_hook rec" and "refundOrder org oid rec now d = Inr (r, d')"
  shows "stock_ok d' \<and> (\<exists>ord. lockOrder org oid d = Inr ord
    \<and> d_orders d' = upd (\<lambda>x. o_id x = oid) (refunded_row ord) (d_orders d)
    \<and> d_tickets d' = upd (voidable org oid) (\<lambda>t. t\<lparr>t_status := TRefunded\<rparr>) (d_tickets d)
    \<and> fst r = length (filter (voidable org oid) (d_tickets d))
    \<and> sold_moved (d_tiers d) (d_tiers d')
        (\<lambda>ty. (if isAwaitingApproval ord then - order_places (d_items d) oid ty else 0)
              + - live_places (filter (voidable org oid) (d_tickets d)) ty))"
proof (rule refundOrder_shape [OF assms(3)])
  fix ord d1 d2
  let ?v = "filter (voidable org oid) (d_tickets d)"
  assume l: "lockOrder org oid d = Inr ord"
    and g: "(if isAwaitingApproval ord
      then bindE (givePlacesBack org oid d) (\<lambda>d. Inr (releaseActiveHolds org oid d)) else Inr d) = Inr d1"
    and ret: "returnStock org (filter (voidable org oid) (d_tickets d1)) (void_tickets org oid d1) = Inr d2"
    and rec: "rec (updateOrder oid (refunded_row ord)
        (free_seats org (t_id ` set (filter (voidable org oid) (d_tickets d1))) now d2)) = Inr d'"
    and t1: "d_tickets d1 = d_tickets d"
    and n: "fst r = length (filter (voidable org oid) (d_tickets d1))"
  note o = lockOrder_D [OF l]
  have tk: "tickets_ok d" and ok: "\<And>t. t \<in> set (d_tiers d) \<Longrightarrow> tt_sold t = places d (tt_id t) \<and> sold_within_total t"
    and q: "\<And>i. i \<in> set (d_items d) \<Longrightarrow> 1 \<le> oi_quantity i"
    using assms(1) by (auto simp: stock_defs)
  let ?\<delta> = "\<lambda>ty. if isAwaitingApproval ord then - order_places (d_items d) oid ty else 0"
  have first: "d_orders d1 = d_orders d \<and> d_items d1 = d_items d \<and> d_next d1 = d_next d
     \<and> sold_moved (d_tiers d) (d_tiers d1) ?\<delta> \<and> (\<forall>t\<in>set (d_tiers d1). sold_within_total t)"
  proof (cases "isAwaitingApproval ord")
    case True
    with g obtain dg where p: "givePlacesBack org oid d = Inr dg" "d1 = releaseActiveHolds org oid dg"
      by (auto simp: bindE_Inr_iff)
    note m = givePlacesBack_moves [OF assms(1) o(1) True, unfolded o, OF p(1)]
    have "d_orders dg = d_orders d" "d_items dg = d_items d" "d_next dg = d_next d"
      by (subst m(1), simp)+
    with True m(2,3) show ?thesis by (simp add: p(2) releaseActiveHolds_def)
  qed (use g ok sold_moved_refl [of "d_tiers d" "\<lambda>_. 0"] in auto)
  have cover: "live_places (d_tickets d) (tt_id t) \<le> tt_sold t" if "t \<in> set (d_tiers d1)" for t
  proof -
    from that first obtain u where u: "u \<in> set (d_tiers d)" "t = u\<lparr>tt_sold := tt_sold u + ?\<delta> (tt_id u)\<rparr>"
      by (auto simp: sold_moved_def)
    have "isAwaitingApproval ord \<Longrightarrow> awaits (d_orders d) oid"
      using o(1,2) by (auto simp: awaits_def list_ex_iff)
    then have "isAwaitingApproval ord \<Longrightarrow>
        order_places (d_items d) oid (tt_id u) \<le> waiting_places (d_orders d) (d_items d) (tt_id u)"
      using waiting_places_ge [OF q] by blast
    moreover have "0 \<le> waiting_places (d_orders d) (d_items d) (tt_id u)"
      by (rule waiting_places_nonneg [OF q])
    ultimately show ?thesis using u ok [OF u(1)] by (auto simp: places_def)
  qed
  have second: "sold_moved (d_tiers d1) (d_tiers d2) (\<lambda>ty. - live_places ?v ty)"
    "\<And>t. t \<in> set (d_tiers d2) \<Longrightarrow> sold_within_total t"
    using returnStock_moves [OF tk, of "void_tickets org oid d1" ?\<delta> org oid d2] first cover ret t1
    by (auto simp: void_tickets_def)
  have d2: "d_orders d2 = d_orders d" "d_items d2 = d_items d" "d_next d2 = d_next d"
    "d_tickets d2 = upd (voidable org oid) (\<lambda>t. t\<lparr>t_status := TRefunded\<rparr>) (d_tickets d)"
    using first by (subst returned_fields [OF ret], simp add: void_tickets_def t1)+
  let ?d3 = "updateOrder oid (refunded_row ord) (free_seats org (t_id ` set ?v) now d2)"
  have f: "o_id (refunded_row ord x) = o_id x" "o_org (refunded_row ord x) = o_org x"
    "o_status (refunded_row ord x) \<noteq> OWaitlisted" "\<not> isAwaitingApproval (refunded_row ord x)" for x
    by (simp_all add: refunded_row_def statusAfterRefund_def isAwaitingApproval_def)
  note moved = sold_moved_trans [OF _ second(1), of "d_tiers d" ?\<delta>]
  have "stock_ok ?d3"
  proof (rule stock_ok_order_change [OF assms(1) o(1,2) f(1-3)])
    show "sold_moved (d_tiers d) (d_tiers ?d3) (\<lambda>ty. ?\<delta> ty + - live_places ?v ty)"
      using moved first by (simp add: free_seats_def)
    show "tickets_ok ?d3"
      by (rule tickets_ok_upd [OF tk, of _ "voidable org oid" "\<lambda>t. t\<lparr>t_status := TRefunded\<rparr>" "\<lambda>ty. ?\<delta> ty + - live_places ?v ty"])
        (use moved first d2 in \<open>simp_all add: free_seats_def\<close>)
    show "?\<delta> ty + - live_places ?v ty = live_places (d_tickets ?d3) ty - live_places (d_tickets d) ty
       - (if isAwaitingApproval ord then order_places (d_items d) oid ty else 0)
       + (if isAwaitingApproval (refunded_row ord ord) then order_places (d_items d) oid ty else 0)" for ty
      using f(4) by (simp add: free_seats_def d2(4) live_places_void)
  qed (use d2 second(2) in \<open>simp_all add: free_seats_def\<close>)
  then have "stock_ok d'" using stock_ok_hook [OF assms(2) rec] t1 by simp
  moreover note inventory_eqD [OF tx_hook.hook_frame [OF assms(2) rec]]
  ultimately show ?thesis
    using l n t1 moved first d2 by (intro conjI exI [of _ ord]) (simp_all add: free_seats_def)
qed

lemma refundOrder_stock:
  "stock_ok d \<Longrightarrow> tx_hook rec \<Longrightarrow> refundOrder org oid rec now d = Inr (r, d') \<Longrightarrow> stock_ok d'"
  using refundOrder_moves by blast

end
