(* ===== verification/CheckIn.thy ===== *)
theory CheckIn
  imports Schema
begin

text \<open>
  The door: \<^verbatim>\<open>check-in/check-in-window.ts\<close>, \<^verbatim>\<open>check-in/check-in.repository.ts\<close> and
  \<^verbatim>\<open>check-in/check-in.service.ts\<close>. The digest of a scanned code
  (\<^verbatim>\<open>scan-token-fingerprint.ts\<close>, a SHA-256 of \<^verbatim>\<open>node:crypto\<close>) is a parameter. The event is
  what \<^verbatim>\<open>CheckInEventPort\<close> finds for the workspace.
\<close>

section \<open>The window\<close>

record door_event =
  de_id :: ident
  de_status :: event_status
  de_startAt :: instant
  de_endAt :: "instant option"

definition CHECKIN_OPENS_BEFORE_START_MS :: int where "CHECKIN_OPENS_BEFORE_START_MS = 2 * (60 * 60000)"
definition CHECKIN_GRACE_AFTER_END_MS :: int where "CHECKIN_GRACE_AFTER_END_MS = 1 * (60 * 60000)"
definition ADMITTING_STATUSES :: "event_status list" where
  "ADMITTING_STATUSES = [Planned, Upcoming, Live]"

definition isCheckInOpen :: "door_event \<Rightarrow> instant \<Rightarrow> bool" where
  "isCheckInOpen event now =
     (if de_status event \<notin> set ADMITTING_STATUSES then False
      else
        let opensAt = de_startAt event - CHECKIN_OPENS_BEFORE_START_MS;
            closesAt = (case de_endAt event of None \<Rightarrow> de_startAt event | Some e \<Rightarrow> e)
              + CHECKIN_GRACE_AFTER_END_MS
        in now \<ge> opensAt \<and> now \<le> closesAt)"

section \<open>The repository\<close>

definition DENIED_STATUSES :: "issued_ticket_status list" where
  "DENIED_STATUSES = [TVoid, TRefunded, TTransferred]"

definition admissionOutcome :: "bool \<Rightarrow> scan_outcome" where
  "admissionOutcome inserted = (if inserted then Admitted else AlreadyCheckedIn)"

definition appendScanAttempt :: "scan_row \<Rightarrow> db \<Rightarrow> db" where
  "appendScanAttempt r d = d\<lparr>d_scans := d_scans d @ [r]\<rparr>"

definition recordScanAttempt :: "scan_row \<Rightarrow> db \<Rightarrow> db" where
  "recordScanAttempt r d = appendScanAttempt r d"

record admit_input =
  ad_org :: ident
  ad_event :: ident
  ad_ticket :: ident
  ad_attendee :: "ident option"
  ad_checkedInBy :: ident
  ad_now :: instant
  ad_method :: string
  ad_station :: "string option"
  ad_tokenFingerprint :: "string option"

text \<open>
  The INSERT with \<^verbatim>\<open>ON CONFLICT ... DO UPDATE\<close>: the time the row now has, and whether it
  was inserted.
\<close>

definition upsertCheckIn :: "admit_input \<Rightarrow> db \<Rightarrow> (instant \<times> bool) \<times> db" where
  "upsertCheckIn inp d =
     (case find (\<lambda>c. ci_ticket c = ad_ticket inp) (d_checkIns d) of
        Some c \<Rightarrow>
          let t = min (ci_checkedInAt c) (ad_now inp)
          in ((t, False), d\<lparr>d_checkIns := upd (\<lambda>c. ci_ticket c = ad_ticket inp)
                (\<lambda>c. c\<lparr>ci_checkedInAt := min (ci_checkedInAt c) (ad_now inp)\<rparr>) (d_checkIns d)\<rparr>)
      | None \<Rightarrow>
          ((ad_now inp, True), d\<lparr>d_checkIns := d_checkIns d @
             [\<lparr>ci_org = ad_org inp, ci_event = ad_event inp, ci_ticket = ad_ticket inp,
               ci_attendee = ad_attendee inp, ci_checkedInAt = ad_now inp, ci_method = ad_method inp,
               ci_checkedInBy = ad_checkedInBy inp, ci_station = ad_station inp\<rparr>]\<rparr>))"

definition repo_admit :: "admit_input \<Rightarrow> db \<Rightarrow> (instant \<times> bool) \<times> db" where
  "repo_admit inp d =
     (let ((checkedInAt, inserted), d) = upsertCheckIn inp d;
          d = d\<lparr>d_tickets := upd (\<lambda>t. t_id t = ad_ticket inp \<and> t_org t = ad_org inp)
                (\<lambda>t. t\<lparr>t_status := TCheckedIn, t_checkedInAt := Some checkedInAt\<rparr>) (d_tickets d)\<rparr>
      in ((checkedInAt, inserted), appendScanAttempt
           \<lparr>sc_org = ad_org inp, sc_event = ad_event inp, sc_outcome = admissionOutcome inserted,
            sc_method = ad_method inp, sc_ticket = Some (ad_ticket inp), sc_ticketEvent = None,
            sc_tokenFingerprint = ad_tokenFingerprint inp, sc_station = ad_station inp,
            sc_scannedBy = ad_checkedInBy inp, sc_scannedAt = ad_now inp\<rparr> d))"

definition repo_undo :: "ident \<Rightarrow> ident \<Rightarrow> ident \<Rightarrow> ident \<Rightarrow> db \<Rightarrow> bool \<times> db" where
  "repo_undo org event ticket undoneBy d =
     (let P = (\<lambda>c. ci_org c = org \<and> ci_event c = event \<and> ci_ticket c = ticket) in
      if filter P (d_checkIns d) = [] then (False, d)
      else (True, d\<lparr>d_checkIns := filter (\<lambda>c. \<not> P c) (d_checkIns d),
             d_tickets := upd (\<lambda>t. t_id t = ticket \<and> t_org t = org)
               (\<lambda>t. t\<lparr>t_status := TIssued, t_checkedInAt := None\<rparr>) (d_tickets d),
             d_audits := d_audits d @ [\<lparr>au_org = org, au_type = ''checkin'',
               au_title = ''Undid check-in for ticket '' @ digits ticket, au_meta = None, au_actor = undoneBy\<rparr>]\<rparr>))"

definition admissible :: "ident \<Rightarrow> ident \<Rightarrow> ticket_row \<Rightarrow> bool" where
  "admissible org event t = (t_org t = org \<and> t_event t = event \<and> t_status t \<notin> set DENIED_STATUSES)"

record attendance_counts =
  ac_total :: int
  ac_checkedIn :: int
  ac_expected :: int
  ac_late :: int
  ac_onSite :: int

text \<open>A ticket joins at most one check-in, by \<^verbatim>\<open>uq_check_ins_ticket\<close>.\<close>

definition countAttendance :: "ident \<Rightarrow> door_event \<Rightarrow> db \<Rightarrow> attendance_counts" where
  "countAttendance org event d =
     (let ts = filter (admissible org (de_id event)) (d_tickets d);
          total = int (length ts);
          checkedIn = int (length (filter (\<lambda>t. list_ex (\<lambda>c. ci_ticket c = t_id t) (d_checkIns d)) ts));
          late = int (length (filter (\<lambda>t. list_ex (\<lambda>c. ci_ticket c = t_id t
                   \<and> ci_checkedInAt c > de_startAt event) (d_checkIns d)) ts))
      in \<lparr>ac_total = total, ac_checkedIn = checkedIn, ac_expected = total - checkedIn,
          ac_late = late, ac_onSite = checkedIn - late\<rparr>)"

definition findTicketByToken :: "ident \<Rightarrow> string \<Rightarrow> db \<Rightarrow> ticket_row option" where
  "findTicketByToken org qrToken d = find (\<lambda>t. t_org t = org \<and> t_qrToken t = qrToken) (d_tickets d)"

definition findTicketById :: "ident \<Rightarrow> ident \<Rightarrow> db \<Rightarrow> ticket_row option" where
  "findTicketById org ticketId d = find (\<lambda>t. t_org t = org \<and> t_id t = ticketId) (d_tickets d)"

section \<open>The service\<close>

record scan_context =
  sx_method :: string
  sx_station :: "string option"
  sx_tokenFingerprint :: "string option"

record scan_result =
  sn_outcome :: scan_outcome
  sn_ticketId :: "ident option"
  sn_holderName :: "string option"
  sn_ticketLabel :: "string option"
  sn_checkedInAt :: "instant option"

definition refused :: "scan_outcome \<Rightarrow> ticket_row option \<Rightarrow> scan_result" where
  "refused outcome ticket = \<lparr>sn_outcome = outcome, sn_ticketId = map_option t_id ticket,
     sn_holderName = Option.bind ticket t_holderName, sn_ticketLabel = Option.bind ticket t_label,
     sn_checkedInAt = None\<rparr>"

definition otherEventId :: "ident \<Rightarrow> ticket_row option \<Rightarrow> ident option" where
  "otherEventId eventId ticket =
     (case ticket of None \<Rightarrow> None | Some t \<Rightarrow> if t_event t = eventId then None else Some (t_event t))"

definition refuse ::
  "ident \<Rightarrow> ident \<Rightarrow> ident \<Rightarrow> scan_context \<Rightarrow> scan_outcome \<Rightarrow> ticket_row option \<Rightarrow> instant \<Rightarrow> db
    \<Rightarrow> scan_result \<times> db" where
  "refuse org user eventId scan outcome ticket now d =
     (refused outcome ticket, recordScanAttempt
        \<lparr>sc_org = org, sc_event = eventId, sc_outcome = outcome, sc_method = sx_method scan,
         sc_ticket = map_option t_id ticket, sc_ticketEvent = otherEventId eventId ticket,
         sc_tokenFingerprint = sx_tokenFingerprint scan, sc_station = sx_station scan,
         sc_scannedBy = user, sc_scannedAt = now\<rparr> d)"

definition admit ::
  "ident \<Rightarrow> ident \<Rightarrow> ident \<Rightarrow> ticket_row option \<Rightarrow> scan_context \<Rightarrow> instant \<Rightarrow> db \<Rightarrow> scan_result \<times> db" where
  "admit org user eventId ticket scan now d =
     (case ticket of
        None \<Rightarrow> refuse org user eventId scan InvalidTicket None now d
      | Some t \<Rightarrow>
          if t_event t \<noteq> eventId then refuse org user eventId scan WrongEvent ticket now d
          else if t_status t \<in> set DENIED_STATUSES then refuse org user eventId scan CancelledTicket ticket now d
          else
            let ((checkedInAt, inserted), d) = repo_admit
                  \<lparr>ad_org = org, ad_event = eventId, ad_ticket = t_id t, ad_attendee = t_attendee t,
                   ad_checkedInBy = user, ad_now = now, ad_method = sx_method scan,
                   ad_station = sx_station scan, ad_tokenFingerprint = sx_tokenFingerprint scan\<rparr> d
            in (\<lparr>sn_outcome = admissionOutcome inserted, sn_ticketId = Some (t_id t),
                 sn_holderName = t_holderName t, sn_ticketLabel = t_label t,
                 sn_checkedInAt = Some checkedInAt\<rparr>, d))"

definition requireOpenDoor :: "door_event option \<Rightarrow> instant \<Rightarrow> error + unit" where
  "requireOpenDoor event now =
     (case event of
        None \<Rightarrow> Inl (NotFound ''Event not found.'')
      | Some e \<Rightarrow> check (isCheckInOpen e now)
          (Conflict ''Check-in is not open for this event yet - or has already closed.'' []))"

definition scan ::
  "(string \<Rightarrow> string) \<Rightarrow> (ident \<Rightarrow> ident \<Rightarrow> door_event option) \<Rightarrow> ident \<Rightarrow> ident \<Rightarrow> ident \<Rightarrow> string
    \<Rightarrow> string option \<Rightarrow> instant \<Rightarrow> db \<Rightarrow> scan_result svc" where
  "scan fingerprint findForCheckIn org user eventId qrToken station now d =
     bindS (requireOpenDoor (findForCheckIn org eventId) now, d) (\<lambda>_ d.
     let (r, d) = admit org user eventId (findTicketByToken org qrToken d)
           \<lparr>sx_method = ''qr'', sx_station = station, sx_tokenFingerprint = Some (fingerprint qrToken)\<rparr> now d
     in (Inr r, d))"

definition admitManually ::
  "(ident \<Rightarrow> ident \<Rightarrow> door_event option) \<Rightarrow> ident \<Rightarrow> ident \<Rightarrow> ident \<Rightarrow> ident \<Rightarrow> string option
    \<Rightarrow> string option \<Rightarrow> instant \<Rightarrow> db \<Rightarrow> scan_result svc" where
  "admitManually findForCheckIn org user eventId ticketId via station now d =
     bindS (requireOpenDoor (findForCheckIn org eventId) now, d) (\<lambda>_ d.
     let (r, d) = admit org user eventId (findTicketById org ticketId d)
           \<lparr>sx_method = (case via of None \<Rightarrow> ''manual'' | Some m \<Rightarrow> m), sx_station = station,
            sx_tokenFingerprint = None\<rparr> now d
     in (Inr r, d))"

definition undo ::
  "(ident \<Rightarrow> ident \<Rightarrow> door_event option) \<Rightarrow> ident \<Rightarrow> ident \<Rightarrow> ident \<Rightarrow> ident \<Rightarrow> instant \<Rightarrow> db \<Rightarrow> unit svc" where
  "undo findForCheckIn org user eventId ticketId now d =
     bindS (requireOpenDoor (findForCheckIn org eventId) now, d) (\<lambda>_ d.
     let (undone, d) = repo_undo org eventId ticketId user d
     in if undone then (Inr (), d)
        else (Inl (NotFound ''That ticket has not been checked in.''), d))"

section \<open>Properties\<close>

lemma repo_admit_row:
  assumes "repo_admit inp d = ((t, ins), d')"
  shows "\<exists>c. find (\<lambda>c. ci_ticket c = ad_ticket inp) (d_checkIns d') = Some c \<and> ci_checkedInAt c = t"
proof (cases "find (\<lambda>c. ci_ticket c = ad_ticket inp) (d_checkIns d)")
  case None
  with assms show ?thesis
    by (auto simp: repo_admit_def upsertCheckIn_def appendScanAttempt_def Let_def find_append)
next
  case (Some c)
  with assms find_SomeD [OF Some] show ?thesis
    by (auto simp: repo_admit_def upsertCheckIn_def appendScanAttempt_def Let_def find_upd)
qed

lemma repo_admit_D:
  assumes "repo_admit inp d = ((t, ins), d')"
  shows "ins = (\<not> list_ex (\<lambda>c. ci_ticket c = ad_ticket inp) (d_checkIns d))"
    and "d_tickets d' = upd (\<lambda>k. t_id k = ad_ticket inp \<and> t_org k = ad_org inp)
       (\<lambda>k. k\<lparr>t_status := TCheckedIn, t_checkedInAt := Some t\<rparr>) (d_tickets d)"
    and "\<exists>r. d_scans d' = d_scans d @ [r] \<and> sc_outcome r = admissionOutcome ins \<and> sc_ticket r = Some (ad_ticket inp)"
    and "t \<le> ad_now inp"
    and "inventory (d'\<lparr>d_tickets := d_tickets d\<rparr>) = inventory d"
  using assms
  by (auto simp: repo_admit_def upsertCheckIn_def appendScanAttempt_def inventory_def Let_def
      list_ex_iff upd_def split: option.splits dest!: find_SomeD find_NoneD)

text \<open>
  Every scan ends in exactly one of the five outcomes and leaves exactly one line in the
  scan ledger that says the same; someone is let in only on a ticket of this event that is
  neither void, refunded nor transferred, and no other table changes on a refusal.
\<close>

theorem scan_outcomes:
  assumes "admit org user eventId ticket scn now d = (r, d')"
  shows "(\<exists>row. d_scans d' = d_scans d @ [row] \<and> sc_outcome row = sn_outcome r)
    \<and> (sn_outcome r = InvalidTicket \<longleftrightarrow> ticket = None)
    \<and> (sn_outcome r = WrongEvent \<longleftrightarrow> (\<exists>t. ticket = Some t \<and> t_event t \<noteq> eventId))
    \<and> (sn_outcome r = CancelledTicket \<longleftrightarrow> (\<exists>t. ticket = Some t \<and> t_event t = eventId \<and> t_status t \<in> set DENIED_STATUSES))
    \<and> (sn_outcome r \<in> {Admitted, AlreadyCheckedIn} \<longrightarrow> sn_checkedInAt r \<noteq> None)
    \<and> (sn_outcome r \<notin> {Admitted, AlreadyCheckedIn} \<longrightarrow> d' = d\<lparr>d_scans := d_scans d'\<rparr>)"
proof -
  consider "ticket = None" | t where "ticket = Some t" "t_event t \<noteq> eventId"
    | t where "ticket = Some t" "t_event t = eventId" "t_status t \<in> set DENIED_STATUSES"
    | t where "ticket = Some t" "t_event t = eventId" "t_status t \<notin> set DENIED_STATUSES" by (cases ticket) auto
  then show ?thesis
  proof cases
    case (4 t)
    let ?inp = "\<lparr>ad_org = org, ad_event = eventId, ad_ticket = t_id t, ad_attendee = t_attendee t,
       ad_checkedInBy = user, ad_now = now, ad_method = sx_method scn, ad_station = sx_station scn,
       ad_tokenFingerprint = sx_tokenFingerprint scn\<rparr>"
    obtain at ins where a: "repo_admit ?inp d = ((at, ins), d')"
      and r: "sn_outcome r = admissionOutcome ins" "sn_checkedInAt r = Some at"
      using assms 4 by (auto simp: admit_def Let_def split: prod.splits)
    show ?thesis using repo_admit_D(3) [OF a] r 4 by (auto simp: admissionOutcome_def)
  qed (use assms in \<open>auto simp: admit_def refuse_def refused_def recordScanAttempt_def appendScanAttempt_def\<close>)
qed


text \<open>
  The door is open from two hours before the start to one hour after the end, both
  instants included, of an event that is planned, upcoming or live, and the end of an event
  without one is its start; nobody is let in, and no admission undone, outside it.
\<close>

theorem door_window:
  "(isCheckInOpen e now \<longleftrightarrow> de_status e \<in> {Planned, Upcoming, Live}
      \<and> de_startAt e - 7200000 \<le> now
      \<and> now \<le> (case de_endAt e of None \<Rightarrow> de_startAt e | Some t \<Rightarrow> t) + 3600000)
   \<and> (find_event org i = Some e \<and> \<not> isCheckInOpen e now \<longrightarrow>
        (\<forall>q st. snd (scan fp find_event org user i q st now d) = d
              \<and> (\<exists>m. fst (scan fp find_event org user i q st now d) = Inl (Conflict m [])))
        \<and> (\<forall>k. snd (undo find_event org user i k now d) = d))"
  by (auto simp: isCheckInOpen_def ADMITTING_STATUSES_def CHECKIN_OPENS_BEFORE_START_MS_def
      CHECKIN_GRACE_AFTER_END_MS_def scan_def undo_def requireOpenDoor_def Let_def)

end
