(* ===== verification/HoldService.thy ===== *)
theory HoldService
  imports SeatHolds
begin

text \<open>
  What may be reserved now: \<^verbatim>\<open>registration/ticket-eligibility.policy.ts\<close> over the
  projection of \<^verbatim>\<open>ticketing/ticket-eligibility.adapter.ts\<close>, and
  \<^verbatim>\<open>registration/seat-hold.service.ts\<close>, which asks it before every reservation of a
  buyer and then runs the transaction of theory SeatHolds.
\<close>

section \<open>The eligibility of a tier\<close>

record eligibility =
  el_status :: ticket_status
  el_salesStartAt :: "instant option"
  el_salesEndAt :: "instant option"
  el_minPerOrder :: int
  el_maxPerOrder :: int

definition toEligibility :: "tier_row \<Rightarrow> eligibility" where
  "toEligibility row = \<lparr>el_status = tt_status row, el_salesStartAt = tt_salesStartAt row,
     el_salesEndAt = tt_salesEndAt row, el_minPerOrder = tt_minPerOrder row,
     el_maxPerOrder = tt_maxPerOrder row\<rparr>"

definition findTicket :: "ident \<Rightarrow> ident \<Rightarrow> ident \<Rightarrow> db \<Rightarrow> tier_row option" where
  "findTicket org event ticket d =
     find (\<lambda>t. tt_id t = ticket \<and> tt_event t = event \<and> tt_org t = org \<and> tt_deletedAt t = None)
       (d_tiers d)"

definition findByIds :: "ident \<Rightarrow> ident list \<Rightarrow> db \<Rightarrow> tier_row list" where
  "findByIds org ticketTypeIds d =
     (let ids = dedupe ticketTypeIds
      in if ids = [] then []
         else filter (\<lambda>t. tt_org t = org \<and> tt_id t \<in> set ids \<and> tt_deletedAt t = None) (d_tiers d))"

definition getEligibility :: "ident \<Rightarrow> ident \<Rightarrow> ident \<Rightarrow> db \<Rightarrow> eligibility option" where
  "getEligibility org event ticket d = map_option toEligibility (findTicket org event ticket d)"

definition getEligibilityByIds :: "ident \<Rightarrow> ident list \<Rightarrow> db \<Rightarrow> ident \<Rightarrow> eligibility option" where
  "getEligibilityByIds org ids d =
     map_of (rev (map (\<lambda>row. (tt_id row, toEligibility row)) (findByIds org ids d)))"

fun not_on_sale_message :: "ticket_status \<Rightarrow> string" where
  "not_on_sale_message Scheduled = ''This ticket type isn't on sale yet.''"
| "not_on_sale_message Paused = ''Sales for this ticket type are paused.''"
| "not_on_sale_message Soldout = ''This ticket type is sold out.''"
| "not_on_sale_message Onsale = ''''"

definition assertSellableStatus :: "ticket_status \<Rightarrow> error + unit" where
  "assertSellableStatus s = check (s = Onsale) (Conflict (not_on_sale_message s) [])"

definition assertWithinSalesWindow :: "eligibility \<Rightarrow> instant \<Rightarrow> error + unit" where
  "assertWithinSalesWindow info now =
     (if (case el_salesStartAt info of None \<Rightarrow> False | Some s \<Rightarrow> now < s)
      then Inl (Conflict ''Ticket sales haven't started yet.'' [])
      else if (case el_salesEndAt info of None \<Rightarrow> False | Some e \<Rightarrow> now > e)
      then Inl (Conflict ''Ticket sales have ended.'' [])
      else Inr ())"

definition assertOnSale :: "eligibility \<Rightarrow> instant \<Rightarrow> error + unit" where
  "assertOnSale info now =
     bindE (assertSellableStatus (el_status info)) (\<lambda>_. assertWithinSalesWindow info now)"

definition assertWithinPerOrderBounds :: "eligibility \<Rightarrow> int \<Rightarrow> error + unit" where
  "assertWithinPerOrderBounds info quantity =
     (if quantity < el_minPerOrder info
      then Inl (Validation ''You must buy at least {} of this ticket type per order.''
             [Num (el_minPerOrder info)])
      else if quantity > el_maxPerOrder info
      then Inl (Validation ''You can buy at most {} of this ticket type per order.''
             [Num (el_maxPerOrder info)])
      else Inr ())"

definition assertPurchasable :: "eligibility \<Rightarrow> int \<Rightarrow> instant \<Rightarrow> error + unit" where
  "assertPurchasable info quantity now =
     bindE (assertOnSale info now) (\<lambda>_. assertWithinPerOrderBounds info quantity)"

text \<open>When sales of a tier are open, as a condition on its row and the time.\<close>

definition sales_open :: "eligibility \<Rightarrow> instant \<Rightarrow> bool" where
  "sales_open info now = (el_status info = Onsale
     \<and> (\<forall>s. el_salesStartAt info = Some s \<longrightarrow> s \<le> now)
     \<and> (\<forall>e. el_salesEndAt info = Some e \<longrightarrow> now \<le> e))"

lemma assertOnSale_iff [result_simps]: "assertOnSale info now = Inr u \<longleftrightarrow> sales_open info now"
  by (cases info) (auto simp: assertOnSale_def assertSellableStatus_def assertWithinSalesWindow_def
      sales_open_def bindE_Inr_iff check_Inr_iff not_less split: option.splits)

lemma assertPurchasable_iff [result_simps]:
  "assertPurchasable info quantity now = Inr u \<longleftrightarrow>
     sales_open info now \<and> el_minPerOrder info \<le> quantity \<and> quantity \<le> el_maxPerOrder info"
  by (auto simp: assertPurchasable_def assertWithinPerOrderBounds_def bindE_Inr_iff assertOnSale_iff)

section \<open>The service\<close>

definition assertBookingSize :: "int \<Rightarrow> error + unit" where
  "assertBookingSize count =
     (if count < 1 \<or> count > MAX_SEATS_PER_BOOKING
      then Inl (Validation ''Choose between 1 and {} seats per booking.'' [Num MAX_SEATS_PER_BOOKING])
      else Inr ())"

definition expiryFrom :: "int \<Rightarrow> instant \<Rightarrow> instant" where
  "expiryFrom ttlSeconds now = now + ttlSeconds * MS_PER_SECOND"

definition assertSeatTiersOnSale ::
  "ident \<Rightarrow> ident \<Rightarrow> ident list \<Rightarrow> instant \<Rightarrow> db \<Rightarrow> error + unit" where
  "assertSeatTiersOnSale org event seatIds now d =
     (let tierIds = ticketTypeIdsForSeats org event seatIds d
      in if tierIds = [] then Inr ()
         else forE (\<lambda>tierId. case getEligibilityByIds org tierIds d tierId of
             None \<Rightarrow> Inl (Conflict ''One of those seats is no longer available for sale.'' [])
           | Some info \<Rightarrow> assertOnSale info now) tierIds)"

definition svc_holdSeats ::
  "int \<Rightarrow> ident \<Rightarrow> ident \<Rightarrow> ident \<Rightarrow> ident list \<Rightarrow> ident option \<Rightarrow> instant \<Rightarrow> db
    \<Rightarrow> hold_row list svc" where
  "svc_holdSeats ttl org event tier inputSeatIds orderId now d =
     (let seatIds = dedupe inputSeatIds in
      bindS (assertBookingSize (int (length seatIds)), d) (\<lambda>_ d.
      bindS (assertSeatTiersOnSale org event seatIds now d, d) (\<lambda>_ d.
      bindS (in_tx (holdSeats org event tier seatIds (expiryFrom ttl now) now orderId) d) (\<lambda>result d.
      case result of
        UnavailableSeats u \<Rightarrow>
          (Inl (Conflict ''Some of those seats were just taken. Please choose different seats.''
             [Ids u]), d)
      | HeldSeats holds \<Rightarrow> (Inr holds, d)))))"

definition svc_holdQuantity ::
  "int \<Rightarrow> ident \<Rightarrow> ident \<Rightarrow> ident \<Rightarrow> int \<Rightarrow> ident option \<Rightarrow> instant \<Rightarrow> db \<Rightarrow> hold_row svc" where
  "svc_holdQuantity ttl org event tier quantity orderId now d =
     bindS (assertBookingSize quantity, d) (\<lambda>_ d.
     case getEligibility org event tier d of
       None \<Rightarrow> (Inl (NotFound ''That ticket type is not available for this event.''), d)
     | Some info \<Rightarrow>
         bindS (assertPurchasable info quantity now, d) (\<lambda>_ d.
         bindS (in_tx (holdQuantity org event tier quantity (expiryFrom ttl now) now orderId) d)
           (\<lambda>result d. case result of
              OnlyAvailable n \<Rightarrow>
                (Inl (Conflict ''Only {} left - please reduce your quantity.'' [Num n]), d)
            | HeldQuantity hold \<Rightarrow> (Inr hold, d))))"

definition holdForOffer ::
  "ident \<Rightarrow> ident \<Rightarrow> ident \<Rightarrow> int \<Rightarrow> ident \<Rightarrow> instant \<Rightarrow> instant \<Rightarrow> db \<Rightarrow> hold_row option svc" where
  "holdForOffer org event tier quantity orderId expiresAt now d =
     bindS (assertBookingSize quantity, d) (\<lambda>_ d.
     bindS (in_tx (holdQuantity org event tier quantity expiresAt now (Some orderId)) d)
       (\<lambda>result d. (Inr (case result of HeldQuantity hold \<Rightarrow> Some hold | OnlyAvailable _ \<Rightarrow> None), d)))"

definition svc_release :: "ident \<Rightarrow> ident list \<Rightarrow> db \<Rightarrow> db" where
  "svc_release org holdIds d = release org holdIds d"

definition svc_releaseUnattached :: "ident \<Rightarrow> ident list \<Rightarrow> db \<Rightarrow> db" where
  "svc_releaseUnattached org holdIds d = releaseUnattached org holdIds d"

definition svc_expireStale :: "ident \<Rightarrow> instant option \<Rightarrow> instant \<Rightarrow> db \<Rightarrow> nat \<times> db" where
  "svc_expireStale org now clockNow d =
     expireStale org (case now of None \<Rightarrow> clockNow | Some n \<Rightarrow> n) d"

lemma assertBookingSize_iff [result_simps]:
  "assertBookingSize n = Inr u \<longleftrightarrow> 1 \<le> n \<and> n \<le> 8"
  by (auto simp: assertBookingSize_def MAX_SEATS_PER_BOOKING_def)

lemma getEligibility_SomeD:
  assumes "getEligibility org event tier d = Some info"
  obtains t where "t \<in> set (d_tiers d)" "tt_id t = tier" "tt_org t = org" "tt_event t = event"
    "tt_deletedAt t = None" "info = toEligibility t"
  using assms by (auto simp: getEligibility_def findTicket_def dest!: find_SomeD)

lemma getEligibilityByIds_SomeD:
  assumes "getEligibilityByIds org ids d tier = Some info"
  obtains t where "t \<in> set (d_tiers d)" "tt_id t = tier" "tt_org t = org"
    "tt_deletedAt t = None" "info = toEligibility t"
  using map_of_SomeD [OF assms [unfolded getEligibilityByIds_def]]
  by (auto simp: findByIds_def Let_def split: if_splits)

lemma hold_result_Inr_iff [result_simps]:
  "(case q of HeldQuantity x \<Rightarrow> (Inr x, db1) | OnlyAvailable n \<Rightarrow> (Inl (e n), db1)) = (Inr y, db2)
     \<longleftrightarrow> q = HeldQuantity y \<and> db1 = db2"
  "(case s of HeldSeats xs \<Rightarrow> (Inr xs, db1) | UnavailableSeats u \<Rightarrow> (Inl (f u), db1)) = (Inr ys, db2)
     \<longleftrightarrow> s = HeldSeats ys \<and> db1 = db2"
  by (cases q; simp) (cases s; simp)

lemma svc_holdQuantity_InrD:
  assumes "svc_holdQuantity ttl org event tier quantity orderId now d = (Inr h, d')"
  shows "1 \<le> quantity" "quantity \<le> 8"
    and "holdQuantity org event tier quantity (expiryFrom ttl now) now orderId d = Inr (HeldQuantity h, d')"
    and "\<exists>info. getEligibility org event tier d = Some info \<and> sales_open info now
          \<and> el_minPerOrder info \<le> quantity \<and> quantity \<le> el_maxPerOrder info"
  using assms
  by (auto simp: svc_holdQuantity_def result_simps split: option.split_asm)

lemma svc_holdSeats_InrD:
  assumes "svc_holdSeats ttl org event tier seatIds orderId now d = (Inr hs, d')"
  shows "1 \<le> length (dedupe seatIds)" "length (dedupe seatIds) \<le> 8"
    and "holdSeats org event tier (dedupe seatIds) (expiryFrom ttl now) now orderId d = Inr (HeldSeats hs, d')"
    and "assertSeatTiersOnSale org event (dedupe seatIds) now d = Inr ()"
  using assms
  by (auto simp: svc_holdSeats_def Let_def result_simps)

section \<open>Properties\<close>

text \<open>
  A general-admission hold is placed only for a tier of this event that is on sale by its
  stored status, inside its sales window, in a quantity within the tier's own per-order
  bounds and the platform's 1 to 8; it is active, holds exactly that quantity, belongs to the
  order named, and lapses exactly the configured number of seconds from now.
\<close>

theorem hold_quantity_only_when_purchasable:
  assumes "svc_holdQuantity ttl org event tier quantity orderId now d = (Inr h, d')"
  shows "(\<exists>t\<in>set (d_tiers d). tt_id t = tier \<and> tt_org t = org \<and> tt_event t = event
            \<and> tt_deletedAt t = None \<and> tt_status t = Onsale
            \<and> (\<forall>s. tt_salesStartAt t = Some s \<longrightarrow> s \<le> now) \<and> (\<forall>e. tt_salesEndAt t = Some e \<longrightarrow> now \<le> e)
            \<and> tt_minPerOrder t \<le> quantity \<and> quantity \<le> tt_maxPerOrder t)
    \<and> 1 \<le> quantity \<and> quantity \<le> 8 \<and> h_quantity h = quantity \<and> h_status h = HActive
    \<and> h_order h = orderId \<and> h_expiresAt h = now + ttl * 1000 \<and> h \<in> set (d_holds d')"
proof -
  note D = svc_holdQuantity_InrD [OF assms]
  obtain info where i: "getEligibility org event tier d = Some info" "sales_open info now"
    "el_minPerOrder info \<le> quantity" "quantity \<le> el_maxPerOrder info"
    using D(4) by blast
  from i(1) obtain t where "t \<in> set (d_tiers d)" "tt_id t = tier" "tt_org t = org"
    "tt_event t = event" "tt_deletedAt t = None" "info = toEligibility t"
    by (rule getEligibility_SomeD)
  with i have "\<exists>t\<in>set (d_tiers d). tt_id t = tier \<and> tt_org t = org \<and> tt_event t = event
            \<and> tt_deletedAt t = None \<and> tt_status t = Onsale
            \<and> (\<forall>s. tt_salesStartAt t = Some s \<longrightarrow> s \<le> now) \<and> (\<forall>e. tt_salesEndAt t = Some e \<longrightarrow> now \<le> e)
            \<and> tt_minPerOrder t \<le> quantity \<and> quantity \<le> tt_maxPerOrder t"
    by (intro bexI [of _ t]) (auto simp: toEligibility_def sales_open_def)
  moreover have "h_quantity h = quantity \<and> h_status h = HActive \<and> h_order h = orderId
      \<and> h_expiresAt h = now + ttl * 1000 \<and> h \<in> set (d_holds d')"
    by (rule holdQuantity_cases [OF D(3)]) (simp add: expiryFrom_def MS_PER_SECOND_def)
  ultimately show ?thesis using D(1,2) by blast
qed

text \<open>
  Seats are held for a buyer only as 1 to 8 different seats, when every tier that prices
  one of them is on sale and inside its sales window at that moment; one hold per seat.
\<close>

theorem hold_seats_only_when_tiers_open:
  assumes "svc_holdSeats ttl org event tier seatIds orderId now d = (Inr hs, d')"
  shows "map h_seat hs = map Some (dedupe seatIds) \<and> 1 \<le> length hs \<and> length hs \<le> 8
    \<and> (\<forall>s\<in>set (d_seats d). \<forall>ty. s_org s = org \<and> s_id s \<in> set seatIds \<and> s_type s = Some ty
          \<and> list_ex (\<lambda>m. sm_id m = s_map s \<and> sm_event m = event) (d_maps d)
        \<longrightarrow> (\<exists>t\<in>set (d_tiers d). tt_id t = ty \<and> tt_org t = org \<and> tt_deletedAt t = None
              \<and> tt_status t = Onsale \<and> (\<forall>b. tt_salesStartAt t = Some b \<longrightarrow> b \<le> now)
              \<and> (\<forall>e. tt_salesEndAt t = Some e \<longrightarrow> now \<le> e)))"
proof -
  note D = svc_holdSeats_InrD [OF assms]
  have hs: "hs = map (new_seat_hold org event tier (expiryFrom ttl now) orderId)
      (enumerate (d_next d) (dedupe seatIds))"
    using holdSeats_HeldD(2) [OF D(3)] by simp
  have seats: "map h_seat hs = map Some (dedupe seatIds)"
    unfolding hs by (rule new_seat_hold_fields)
  have len: "length hs = length (dedupe seatIds)"
    unfolding hs by simp
  have open_type: "\<exists>t\<in>set (d_tiers d). tt_id t = ty \<and> tt_org t = org \<and> tt_deletedAt t = None
      \<and> tt_status t = Onsale \<and> (\<forall>b. tt_salesStartAt t = Some b \<longrightarrow> b \<le> now)
      \<and> (\<forall>e. tt_salesEndAt t = Some e \<longrightarrow> now \<le> e)"
    if ty: "ty \<in> set (ticketTypeIdsForSeats org event (dedupe seatIds) d)" for ty
  proof -
    let ?ids = "ticketTypeIdsForSeats org event (dedupe seatIds) d"
    from ty D(4) obtain info where "getEligibilityByIds org ?ids d ty = Some info" "sales_open info now"
      unfolding assertSeatTiersOnSale_def Let_def
      by (cases "?ids = []") (auto simp: result_simps split: option.splits)
    then show ?thesis
      by (elim getEligibilityByIds_SomeD) (auto simp: toEligibility_def sales_open_def)
  qed
  have types: "ty \<in> set (ticketTypeIdsForSeats org event (dedupe seatIds) d)"
    if "s \<in> set (d_seats d)" "s_org s = org" "s_id s \<in> set seatIds" "s_type s = Some ty"
      "list_ex (\<lambda>m. sm_id m = s_map s \<and> sm_event m = event) (d_maps d)" for s ty
    using that unfolding ticketTypeIdsForSeats_def List.map_filter_def by force
  have "\<forall>s\<in>set (d_seats d). \<forall>ty. s_org s = org \<and> s_id s \<in> set seatIds \<and> s_type s = Some ty
          \<and> list_ex (\<lambda>m. sm_id m = s_map s \<and> sm_event m = event) (d_maps d)
        \<longrightarrow> (\<exists>t\<in>set (d_tiers d). tt_id t = ty \<and> tt_org t = org \<and> tt_deletedAt t = None
              \<and> tt_status t = Onsale \<and> (\<forall>b. tt_salesStartAt t = Some b \<longrightarrow> b \<le> now)
              \<and> (\<forall>e. tt_salesEndAt t = Some e \<longrightarrow> now \<le> e))"
    using types open_type by blast
  with seats len D(1,2) show ?thesis by simp
qed

text \<open>
  A waitlist offer's hold never oversells and never looks at the tier's sales status: the
  only errors are a size outside 1 to 8; where a hold is made it is attached to the
  registration and lapses with the offer, and no row but holds changes either way.
\<close>

theorem offer_hold_is_attached:
  "holdForOffer org event tier quantity orderId expiresAt now d = (r, d') \<longrightarrow>
     (case r of
        Inl e \<Rightarrow> \<not> (1 \<le> quantity \<and> quantity \<le> 8) \<and> d' = d
      | Inr None \<Rightarrow> 1 \<le> quantity \<and> quantity \<le> 8 \<and> d' = d\<lparr>d_holds := d_holds d'\<rparr>
      | Inr (Some h) \<Rightarrow> h \<in> set (d_holds d') \<and> h_order h = Some orderId \<and> h_expiresAt h = expiresAt
          \<and> h_status h = HActive \<and> h_quantity h = quantity)"
  by (auto simp: holdForOffer_def holdQuantity_def in_tx_def assertBookingSize_def ACTIVE_def Let_def
      MAX_SEATS_PER_BOOKING_def expireLapsedForTier_def
      split: sum.splits option.splits if_splits hold_quantity_result.splits)

end
