(* ===== verification/CheckoutReach.thy ===== *)
theory CheckoutReach
  imports RefundSteps CheckIn HoldService
begin

text \<open>
  Every transaction that touches the inventory, as one step relation over the database, the
  states it reaches from a workspace that has sold nothing yet, and what holds in all of
  them: the counter of a ticket type is the places taken, and a seat belongs to one person.
\<close>

section \<open>Seats\<close>

definition seats_ok :: "db \<Rightarrow> bool" where
  "seats_ok d = (seat_active_index (d_assignments d) \<and> seat_hold_index (d_holds d)
     \<and> (\<forall>a\<in>set (d_assignments d). live_assignment a \<longrightarrow>
          (\<exists>k\<in>set (d_tickets d). t_id k = sa_ticket a \<and> t_org k = sa_org a \<and> live_ticket k)))"

lemma hold_index_upd:
  assumes "seat_hold_index hs" and "\<And>h. P h \<Longrightarrow> h_seat (f h) = h_seat h"
    and "\<And>h. P h \<Longrightarrow> h_status (f h) = HActive \<Longrightarrow> h_status h = HActive"
  shows "seat_hold_index (upd P f hs)"
  by (rule hold_index.index_update) (use assms in \<open>auto simp: active_seat_hold_def\<close>)

lemma release_index:
  "seat_hold_index (d_holds d) \<Longrightarrow> seat_hold_index (upd (\<lambda>h. h_org h = org \<and> h_order h = Some oid \<and> h_status h = HActive)
     (\<lambda>h. h\<lparr>h_status := HReleased\<rparr>) (d_holds d))"
  by (rule hold_index_upd) auto

lemma placed_holds_index: "seat_hold_index hs \<Longrightarrow> seat_hold_index (placed_holds inp oid hs)"
  unfolding placed_holds_def by (rule hold_index_upd) (auto split: if_splits)

lemma seats_ok_assigned:
  assumes "seats_ok d" and "insertAssignments org seatIds ks dx = Inr dy"
    and "d_assignments dx = d_assignments d" and "d_assignments d' = d_assignments dy"
    and "d_tickets d' = d_tickets d @ ks" and "seat_hold_index (d_holds d')"
    and "\<And>k. k \<in> set ks \<Longrightarrow> t_org k = org \<and> live_ticket k"
  shows "seats_ok d'"
  unfolding seats_ok_def
proof (intro conjI ballI impI)
  show "seat_active_index (d_assignments d')"
    using insertAssignments_D(3) [OF assms(2)] assms(4) by simp
  obtain rows where rows: "d_assignments dy = d_assignments dx @ rows"
    "map (\<lambda>a. (sa_seat a, sa_ticket a)) rows = zip seatIds (map t_id ks)"
    "\<forall>a\<in>set rows. sa_org a = org \<and> sa_releasedAt a = None"
    using insertAssignments_rows [OF assms(2)] by metis
  fix a assume a: "a \<in> set (d_assignments d')" "live_assignment a"
  then consider "a \<in> set (d_assignments d)" | "a \<in> set rows" using rows(1) assms(3,4) by auto
  then show "\<exists>k\<in>set (d_tickets d'). t_id k = sa_ticket a \<and> t_org k = sa_org a \<and> live_ticket k"
  proof cases
    case 1
    with assms(1) a(2) show ?thesis by (auto simp: seats_ok_def assms(5))
  next
    case 2
    then have "(sa_seat a, sa_ticket a) \<in> set (zip seatIds (map t_id ks))"
      unfolding rows(2) [symmetric] by force
    then have "sa_ticket a \<in> t_id ` set ks" by (auto dest: set_zip_rightD)
    then show ?thesis using 2 rows(3) assms(5,7) by auto
  qed
qed (rule assms(6))

lemma seats_ok_same:
  assumes "seats_ok d" and "d_assignments d' = d_assignments d" and "d_tickets d' = d_tickets d @ ks"
    and "seat_hold_index (d_holds d')"
  shows "seats_ok d'"
  using assms by (auto simp: seats_ok_def)

lemma seats_ok_tables:
  assumes "seats_ok d" and "d_assignments d' = d_assignments d" and "d_tickets d' = d_tickets d"
    and "d_holds d' = d_holds d"
  shows "seats_ok d'"
  using assms by (simp add: seats_ok_def)

lemma placeOrder_seats:
  assumes "seats_ok d" and "placeOrder inp d = Inr (r, d')"
  shows "seats_ok d'"
proof (cases "pr_replayed r")
  case True
  with assms show ?thesis
    by (auto simp: placeOrder_def Let_def bindE_Inr_iff split: option.splits prod.splits)
next
  case False
  show ?thesis
  proof (rule placeOrder_shape [OF assms(2) False], goal_cases)
    case (1 d2 aid ord ks)
    have hs: "seat_hold_index (d_holds d')"
      using 1(15) assms(1) by (simp add: placed_holds_index seats_ok_def)
    show ?case
    proof (cases "po_issueTickets inp")
      case issue: True
      then obtain dx dy where a: "d_assignments dx = d_assignments d" "d_assignments d' = d_assignments dy"
        "assignSeats inp ks dx = Inr dy" using 1(14) by auto
      from issue 1(12) have T: "k \<in> set ks \<Longrightarrow> t_org k = po_org inp \<and> live_ticket k" for k
        using placed_tickets(3) [of ks] by auto
      show ?thesis
      proof (cases "\<exists>s. po_seatIds inp = Some s \<and> s \<noteq> []")
        case True
        with a(3) obtain s where "insertAssignments (po_org inp) s ks dx = Inr dy"
          by (auto simp: assignSeats_def)
        then show ?thesis by (rule seats_ok_assigned [OF assms(1) _ a(1,2) 1(11) hs T])
      next
        case False
        with a have "d_assignments d' = d_assignments d" by (auto simp: assignSeats_def split: option.splits)
        then show ?thesis by (rule seats_ok_same [OF assms(1) _ 1(11) hs])
      qed
    qed (use 1(11,14) hs seats_ok_same [OF assms(1)] in auto)
  qed
qed

lemma joinWaitlist_tables:
  assumes "joinWaitlist inp d = Inr (r, d')"
  shows "d_assignments d' = d_assignments d \<and> d_tickets d' = d_tickets d \<and> d_holds d' = d_holds d"
proof (cases "\<exists>ord. insertWaitlistEntry inp d = Inr (ord, d')")
  case False
  with assms show ?thesis
    by (auto simp: joinWaitlist_def Let_def bindE_Inr_iff split: option.splits prod.splits)
next
  case True
  then obtain ord where ins: "insertWaitlistEntry inp d = Inr (ord, d')" ..
  obtain aid d1 where up: "upsertAttendee (jw_org inp) (jw_buyer inp) d = (aid, d1)" by fastforce
  from ins obtain d2 it where o: "insertOrder (waitlist_insert inp) aid WAITLISTED d1 = Inr (ord, d2)"
    and i: "insertOrderItem (jw_org inp) (jw_type inp) (jw_quantity inp) (jw_unitPrice inp)
        (jw_totals inp) (o_id ord) d2 = Inr (it, d')"
    by (auto simp: insertWaitlistEntry_def up Let_def bindE_Inr_iff)
  show ?thesis
    using insertOrder_D(2) [OF o] insertOrderItem_D(2) [OF i] upsertAttendee_D [OF up] by simp
qed

lemma refuseSettlement_shape:
  assumes "refuseSettlement inp ord reason d = Inr (r, d')" and "tx_hook (so_recordPayment inp)"
  shows "d_orders d' = upd (\<lambda>x. o_id x = o_id ord) (closed_row (so_now inp)) (d_orders d)"
    "d_items d' = d_items d" "d_tickets d' = d_tickets d" "d_tiers d' = d_tiers d"
    "d_assignments d' = d_assignments d"
    "d_holds d' = upd (\<lambda>h. h_org h = so_org inp \<and> h_order h = Some (o_id ord) \<and> h_status h = HActive)
       (\<lambda>h. h\<lparr>h_status := HReleased\<rparr>) (d_holds d)"
    "r = \<lparr>sr_outcome = RefundRequired, sr_reference = o_reference ord, sr_ticketCount = 0, sr_reason = None\<rparr>"
    "\<exists>out. d_outbox d' = out @ [so_buildRefundEvent inp ord reason]"
proof -
  from assms(1) obtain d1 where rec: "so_recordPayment inp
      (releaseActiveHolds (so_org inp) (o_id ord) (updateOrder (o_id ord) (closed_row (so_now inp)) d)) = Inr d1"
    and r: "r = \<lparr>sr_outcome = RefundRequired, sr_reference = o_reference ord, sr_ticketCount = 0, sr_reason = None\<rparr>"
    and d': "d' = enqueueIn (so_buildRefundEvent inp ord reason) d1"
    by (auto simp: refuseSettlement_def Let_def bindE_Inr_iff)
  note inv = inventory_eqD [OF tx_hook.hook_frame [OF assms(2) rec]]
  show "d_orders d' = upd (\<lambda>x. o_id x = o_id ord) (closed_row (so_now inp)) (d_orders d)"
    "d_items d' = d_items d" "d_tickets d' = d_tickets d" "d_tiers d' = d_tiers d"
    "d_assignments d' = d_assignments d"
    "d_holds d' = upd (\<lambda>h. h_org h = so_org inp \<and> h_order h = Some (o_id ord) \<and> h_status h = HActive)
       (\<lambda>h. h\<lparr>h_status := HReleased\<rparr>) (d_holds d)"
    using inv by (simp_all add: d' releaseActiveHolds_def)
  show "\<exists>out. d_outbox d' = out @ [so_buildRefundEvent inp ord reason]" by (simp add: d')
  show "r = \<lparr>sr_outcome = RefundRequired, sr_reference = o_reference ord, sr_ticketCount = 0, sr_reason = None\<rparr>"
    by (rule r)
qed

lemma completeSettlement_seats:
  assumes "seats_ok d" and "completeSettlement inp ord (loadSettlement inp ord d) d = Inr (r, d')"
    and "cx_line (loadSettlement inp ord d) = Some line" and "tx_hook (so_recordPayment inp)"
  shows "seats_ok d'"
proof (rule completeSettlement_shape [OF assms(2-4)], goal_cases)
  case (1 d1 ks)
  have hs: "seat_hold_index (d_holds d')"
    unfolding 1(9) by (rule hold_index_upd) (use assms(1) in \<open>auto simp: seats_ok_def\<close>)
  have T: "k \<in> set ks \<Longrightarrow> t_org k = so_org inp \<and> live_ticket k" for k
    using settled_tickets(3) [OF 1(2)] by blast
  show ?case
  proof (cases "cx_seatIds (loadSettlement inp ord d) = []")
    case True
    with 1(10) show ?thesis by (intro seats_ok_same [OF assms(1) _ 1(6) hs]) simp
  next
    case False
    with 1(10) obtain dx dy where "d_assignments dx = d_assignments d" "d_assignments d' = d_assignments dy"
      "insertAssignments (so_org inp) (cx_seatIds (loadSettlement inp ord d)) ks dx = Inr dy" by auto
    then show ?thesis by (intro seats_ok_assigned [OF assms(1) _ _ _ 1(6) hs T])
  qed
qed

lemma refuseSettlement_seats:
  assumes "seats_ok d" and "tx_hook (so_recordPayment inp)" and "refuseSettlement inp ord reason d = Inr (r, d')"
  shows "seats_ok d'"
proof -
  note S = refuseSettlement_shape [OF assms(3,2)]
  have "seat_hold_index (d_holds d')"
    unfolding S(6) by (rule hold_index_upd) (use assms(1) in \<open>auto simp: seats_ok_def\<close>)
  then show ?thesis using S by (intro seats_ok_same [OF assms(1), where ks = "[]"]) simp_all
qed

lemma awaitDecision_seats:
  assumes "seats_ok d" and "tx_hook (so_recordPayment inp)" and "awaitDecision inp ord cx d = Inr (r, d')"
  shows "seats_ok d'"
proof (cases "seatHoldLost (so_org inp) (o_id ord) d")
  case True
  with assms refuseSettlement_seats show ?thesis by (simp add: awaitDecision_def)
next
  case False
  with assms(3) obtain d1 where c: "countSale (the (cx_line cx)) d = Inr d1"
    and rec: "so_recordPayment inp (updateOrder (o_id ord) (waiting_row (so_now inp))
        (holdForDecision (so_org inp) (o_id ord) d1)) = Inr d'"
    by (auto simp: awaitDecision_def bindE_Inr_iff Let_def)
  have d1: "d1 = d\<lparr>d_tiers := d_tiers d1\<rparr>"
    using c by (auto simp: countSale_def dest!: updateTiers_D(1))
  have "d_assignments d1 = d_assignments d" "d_tickets d1 = d_tickets d" "d_holds d1 = d_holds d"
    by (subst d1, simp)+
  moreover note inv = inventory_eqD [OF tx_hook.hook_frame [OF assms(2) rec]]
  moreover have "seat_hold_index (d_holds d')"
    unfolding inv(5) using assms(1) calculation(3)
    by (auto simp: holdForDecision_def seats_ok_def intro!: hold_index_upd)
  ultimately show ?thesis by (intro seats_ok_same [OF assms(1), where ks = "[]"]) (simp_all add: holdForDecision_def)
qed

lemma settleOrder_seats:
  assumes "seats_ok d" and "tx_hook (so_recordPayment inp)" and "settleOrder inp d = Inr (r, d')"
  shows "seats_ok d'"
proof (rule settleOrder_cases [OF assms(3)], goal_cases)
  case (1 ord)
  have hook: "seats_ok d'" if "so_recordPayment inp d = Inr d'"
    using inventory_eqD [OF tx_hook.hook_frame [OF assms(2) that]] assms(1) by (simp add: seats_ok_def)
  from 1(2) show ?case
  proof (elim disjE exE conjE, goal_cases)
    case (3 reason) then show ?case using refuseSettlement_seats [OF assms(1,2)] by blast
  next
    case 5
    obtain line where "cx_line (loadSettlement inp ord d) = Some line"
      using settlementBlocker_None [OF 5(2)] by metis
    with 5 show ?case
      using awaitDecision_seats [OF assms(1,2)] completeSettlement_seats [OF assms(1) _ _ assms(2)]
      by (auto split: if_splits)
  qed (use hook assms(1) in simp_all)
qed

lemma rejectOrder_seats:
  assumes "seats_ok d" and "rejectOrder inp d = Inr (r, d')"
  shows "seats_ok d'"
proof (cases rule: rejectOrder_shape [OF assms(2)])
  case (1 ord)
  with assms(1) show ?thesis by simp
next
  case (2 ord d1)
  have d1: "d1 = d\<lparr>d_tiers := d_tiers d1\<rparr>"
    using 2(5) giveBackStock_fields by (auto simp: givePlacesBack_def split: if_splits)
  have "d_assignments d1 = d_assignments d" "d_tickets d1 = d_tickets d" "d_holds d1 = d_holds d"
    by (subst d1, simp)+
  then show ?thesis
    using assms(1) release_index [of d1]
    by (auto simp: seats_ok_def 2(6)) (auto simp: releaseActiveHolds_def)
qed

lemma releaseHoldsForOrder_seats: "seats_ok d \<Longrightarrow> seats_ok (releaseHoldsForOrder org oid d)"
  using release_index [of d org oid]
  by (auto simp: releaseHoldsForOrder_def releaseActiveHolds_def seats_ok_def split: option.split)

lemma refundOrder_tables:
  assumes "refundOrder org oid rec now d = Inr (r, d')" and "tx_hook rec"
  shows "d_tickets d' = upd (voidable org oid) (\<lambda>t. t\<lparr>t_status := TRefunded\<rparr>) (d_tickets d)"
    and "d_assignments d' = upd (\<lambda>a. sa_org a = org \<and> sa_ticket a \<in> t_id ` set (filter (voidable org oid) (d_tickets d))
         \<and> sa_releasedAt a = None) (\<lambda>a. a\<lparr>sa_releasedAt := Some now\<rparr>) (d_assignments d)"
    and "d_holds d' = d_holds d \<or> d_holds d' = upd (\<lambda>h. h_org h = org \<and> h_order h = Some oid \<and> h_status h = HActive)
         (\<lambda>h. h\<lparr>h_status := HReleased\<rparr>) (d_holds d)"
proof -
  obtain ord d1 d2 where g: "(if isAwaitingApproval ord
      then bindE (givePlacesBack org oid d) (\<lambda>d. Inr (releaseActiveHolds org oid d)) else Inr d) = Inr d1"
    and ret: "returnStock org (filter (voidable org oid) (d_tickets d1)) (void_tickets org oid d1) = Inr d2"
    and rec: "rec (updateOrder oid (refunded_row ord)
        (free_seats org (t_id ` set (filter (voidable org oid) (d_tickets d1))) now d2)) = Inr d'"
    and t1: "d_tickets d1 = d_tickets d"
    using refundOrder_shape [OF assms(1)] by metis
  note inv = inventory_eqD [OF tx_hook.hook_frame [OF assms(2) rec]]
  have d2: "d_tickets d2 = upd (voidable org oid) (\<lambda>t. t\<lparr>t_status := TRefunded\<rparr>) (d_tickets d)"
    "d_assignments d2 = d_assignments d1" "d_holds d2 = d_holds d1"
    by (subst returned_fields [OF ret], simp add: void_tickets_def t1)+
  have "d_assignments d1 = d_assignments d \<and> (d_holds d1 = d_holds d \<or>
     d_holds d1 = upd (\<lambda>h. h_org h = org \<and> h_order h = Some oid \<and> h_status h = HActive)
         (\<lambda>h. h\<lparr>h_status := HReleased\<rparr>) (d_holds d))"
  proof (cases "isAwaitingApproval ord")
    case True
    with g obtain dg where p: "givePlacesBack org oid d = Inr dg" "d1 = releaseActiveHolds org oid dg"
      by (auto simp: bindE_Inr_iff)
    have "d_assignments dg = d_assignments d" "d_holds dg = d_holds d"
      by (subst giveBackStock_fields [OF p(1) [unfolded givePlacesBack_def]], simp)+
    then show ?thesis by (simp add: p(2) releaseActiveHolds_def)
  qed (use g in simp)
  then show "d_tickets d' = upd (voidable org oid) (\<lambda>t. t\<lparr>t_status := TRefunded\<rparr>) (d_tickets d)"
    "d_assignments d' = upd (\<lambda>a. sa_org a = org \<and> sa_ticket a \<in> t_id ` set (filter (voidable org oid) (d_tickets d))
         \<and> sa_releasedAt a = None) (\<lambda>a. a\<lparr>sa_releasedAt := Some now\<rparr>) (d_assignments d)"
    "d_holds d' = d_holds d \<or> d_holds d' = upd (\<lambda>h. h_org h = org \<and> h_order h = Some oid \<and> h_status h = HActive)
         (\<lambda>h. h\<lparr>h_status := HReleased\<rparr>) (d_holds d)"
    using inv d2 t1 by (simp_all add: free_seats_def)
qed

lemma refundOrder_seats:
  assumes "seats_ok d" and "tickets_ok d" and "tx_hook rec" and "refundOrder org oid rec now d = Inr (r, d')"
  shows "seats_ok d'"
  unfolding seats_ok_def
proof (intro conjI ballI impI)
  note T = refundOrder_tables [OF assms(4,3)]
  let ?v = "t_id ` set (filter (voidable org oid) (d_tickets d))"
  show "seat_active_index (d_assignments d')" unfolding T(2)
    by (rule assign_index.index_update) (use assms(1) in \<open>auto simp: live_assignment_def seats_ok_def\<close>)
  show "seat_hold_index (d_holds d')" using T(3) assms(1) release_index [of d] by (auto simp: seats_ok_def)
  fix a assume "a \<in> set (d_assignments d')" "live_assignment a"
  then obtain b where b: "b \<in> set (d_assignments d)" "sa_releasedAt a = None"
    "a = (if sa_org b = org \<and> sa_ticket b \<in> ?v \<and> sa_releasedAt b = None then b\<lparr>sa_releasedAt := Some now\<rparr> else b)"
    unfolding T(2) in_set_upd live_assignment_def by blast
  have n: "\<not> (sa_org b = org \<and> sa_ticket b \<in> ?v \<and> sa_releasedAt b = None)"
  proof
    assume "sa_org b = org \<and> sa_ticket b \<in> ?v \<and> sa_releasedAt b = None"
    from b(3) [unfolded if_P [OF this]] b(2) show False by simp
  qed
  from b(3) [unfolded if_not_P [OF n]] b(1,2) n
  have a: "a \<in> set (d_assignments d)" "\<not> (sa_org a = org \<and> sa_ticket a \<in> ?v)" "live_assignment a"
    unfolding live_assignment_def by blast+
  with assms(1) obtain k where k: "k \<in> set (d_tickets d)" "t_id k = sa_ticket a" "t_org k = sa_org a" "live_ticket k"
    by (auto simp: seats_ok_def)
  have "\<not> voidable org oid k"
    using a(2) k by (auto simp: voidable_def image_iff)
  then have "k \<in> set (d_tickets d')" unfolding T(1) in_set_upd using k(1) by (intro bexI [of _ k]) auto
  with k show "\<exists>k\<in>set (d_tickets d'). t_id k = sa_ticket a \<and> t_org k = sa_org a \<and> live_ticket k" by blast
qed

section \<open>Holds and the door\<close>

lemma holdSeats_keeps:
  assumes "holdSeats org event tier ids expires now oid d = Inr (r, d')" and "stock_ok d" and "seats_ok d"
  shows "stock_ok d' \<and> seats_ok d'"
proof (cases r)
  case (HeldSeats hs)
  note H = holdSeats_HeldD [OF assms(1) [unfolded HeldSeats]]
  let ?e = "expireLapsedForSeats org (dedupe ids) now d"
  have "stock_ok d'"
    unfolding H(1) using stock_ok_next [of "?e\<lparr>d_holds := d_holds ?e @ hs\<rparr>" "d_next d + length (dedupe ids)"] assms(2)
    by (simp add: expireLapsedForSeats_def)
  moreover have "d_assignments d' = d_assignments d" "d_tickets d' = d_tickets d"
    by (subst H(1), simp add: expireLapsedForSeats_def)+
  ultimately show ?thesis using assms(3) H(4) by (simp add: seats_ok_def)
next
  case (UnavailableSeats u)
  from holdSeats_UnavailableD(3) [OF assms(1) [unfolded UnavailableSeats]] show ?thesis
    using assms(2,3) expire_index(1) [of d] by (auto simp: expireLapsedForSeats_def seats_ok_def)
qed

lemma seat_hold_index_ga: "h_seat h = None \<Longrightarrow> seat_hold_index (hs @ [h]) = seat_hold_index hs"
  by (simp add: seat_hold_index_def uniq_append_iff uniq_Cons active_seat_hold_def)

lemma holdQuantity_OnlyAvailableD:
  assumes "holdQuantity org event tier q expires now oid d = Inr (OnlyAvailable n, d')"
  shows "d' = d \<or> d' = expireLapsedForTier org tier now d"
  using assms by (auto simp: holdQuantity_def Let_def split: if_splits option.splits)

lemma holdQuantity_keeps:
  assumes "holdQuantity org event tier q expires now oid d = Inr (r, d')" and "stock_ok d" and "seats_ok d"
  shows "stock_ok d' \<and> seats_ok d'"
proof -
  let ?e = "expireLapsedForTier org tier now d"
  have e: "stock_ok ?e" "seats_ok ?e" "d_next ?e = d_next d"
    using assms(2,3) expire_index(2) [of d] by (auto simp: expireLapsedForTier_def seats_ok_def)
  show ?thesis
  proof (cases r)
    case (HeldQuantity h)
    show ?thesis
    proof (rule holdQuantity_cases [OF assms(1) [unfolded HeldQuantity]])
      assume h: "h = \<lparr>h_id = d_next d, h_org = org, h_event = event, h_order = oid, h_type = Some tier,
          h_seat = None, h_quantity = q, h_status = HActive, h_expiresAt = expires\<rparr>"
        and d': "d' = ?e\<lparr>d_holds := d_holds ?e @ [h], d_next := d_next d + 1\<rparr>"
      show "stock_ok d' \<and> seats_ok d'"
        using e stock_ok_next [of "?e\<lparr>d_holds := d_holds ?e @ [h]\<rparr>" "d_next d + 1"] seat_hold_index_ga [of h]
        by (simp add: d' seats_ok_def) (simp add: h)
    qed
  next
    case (OnlyAvailable n)
    from holdQuantity_OnlyAvailableD [OF assms(1) [unfolded OnlyAvailable]] show ?thesis
      using assms(2,3) e by auto
  qed
qed

lemma released_keep:
  assumes "stock_ok d" and "seats_ok d"
  shows "stock_ok (release org hs d) \<and> seats_ok (release org hs d)"
    and "stock_ok (releaseUnattached org hs d) \<and> seats_ok (releaseUnattached org hs d)"
    and "stock_ok (snd (expireStale org now d)) \<and> seats_ok (snd (expireStale org now d))"
  using assms expire_index(3-5) [of d]
  by (auto simp: hold_defs Let_def seats_ok_def)

text \<open>A change of tickets that keeps who is admitted, for which type and workspace.\<close>

lemma tickets_kept:
  assumes "stock_ok d" and "seats_ok d"
    and d': "d_tickets d' = upd P f (d_tickets d)" "inventory (d'\<lparr>d_tickets := d_tickets d\<rparr>) = inventory d"
    and f: "\<And>t. t_id (f t) = t_id t" "\<And>t. t_order (f t) = t_order t" "\<And>t. t_type (f t) = t_type t"
      "\<And>t. t_org (f t) = t_org t" "\<And>t. t \<in> set (d_tickets d) \<Longrightarrow> P t \<Longrightarrow> live_ticket (f t) = live_ticket t"
  shows "stock_ok d' \<and> seats_ok d'"
proof -
  have inv: "d_orders d' = d_orders d" "d_items d' = d_items d" "d_tiers d' = d_tiers d"
    "d_assignments d' = d_assignments d" "d_holds d' = d_holds d" "d_next d' = d_next d"
    using inventory_eqD [OF d'(2)] by simp_all
  have "live_places (d_tickets d') ty = live_places (d_tickets d) ty" for ty
    unfolding live_places_def d'(1) sum_of_upd by (rule sum_of_cong) (use f in auto)
  moreover have moved: "sold_moved (d_tiers d) (d_tiers d') (\<lambda>_. 0)"
    unfolding inv(3) by (rule sold_moved_refl) simp
  have "tickets_ok d'"
    by (rule tickets_ok_upd [OF _ d'(1) _ moved f(1-4)]) (use assms(1) inv in \<open>simp_all add: stock_ok_def\<close>)
  ultimately have "stock_ok d'"
    using assms(1) inv by (simp add: stock_ok_def order_keys_ok_def items_ok_def sold_ok_def places_def)
  moreover have "\<exists>k\<in>set (d_tickets d'). t_id k = i \<and> t_org k = org \<and> live_ticket k"
    if k: "k \<in> set (d_tickets d)" "t_id k = i" "t_org k = org" "live_ticket k" for k i org
    using f k by (intro bexI [of _ "if P k then f k else k"]) (auto simp: d'(1) upd_def)
  then have "seats_ok d'" using assms(2) inv unfolding seats_ok_def by fastforce
  ultimately show ?thesis by blast
qed

lemma live_iff_not_denied: "live_ticket t \<longleftrightarrow> t_status t \<notin> set DENIED_STATUSES"
  by (cases "t_status t") (auto simp: live_ticket_def LIVE_TICKET_STATUSES_def DENIED_STATUSES_def)

lemma admit_keeps:
  assumes "stock_ok d" and "seats_ok d" and "ticket = None \<or> (\<exists>t\<in>set (d_tickets d). ticket = Some t)"
    and "admit org user eventId ticket scn now d = (r, d')"
  shows "stock_ok d' \<and> seats_ok d'"
proof (cases "\<exists>t\<in>set (d_tickets d). ticket = Some t \<and> t_event t = eventId \<and> live_ticket t")
  case True
  then obtain t where t: "t \<in> set (d_tickets d)" "ticket = Some t" "t_event t = eventId" "live_ticket t" by blast
  let ?inp = "\<lparr>ad_org = org, ad_event = eventId, ad_ticket = t_id t, ad_attendee = t_attendee t,
     ad_checkedInBy = user, ad_now = now, ad_method = sx_method scn, ad_station = sx_station scn,
     ad_tokenFingerprint = sx_tokenFingerprint scn\<rparr>"
  obtain t1 ins where a: "repo_admit ?inp d = ((t1, ins), d')"
    using assms(4) t live_iff_not_denied [of t] by (auto simp: admit_def Let_def split: prod.splits)
  have only: "k = t" if "k \<in> set (d_tickets d)" "t_id k = t_id t" for k
    using assms(1) t(1) that by (metis distinct_map inj_onD stock_ok_def tickets_ok_def)
  show ?thesis
    by (rule tickets_kept [OF assms(1,2) repo_admit_D(2,5) [OF a]])
      (use only t(4) in \<open>auto simp: live_ticket_def LIVE_TICKET_STATUSES_def\<close>)
next
  case False
  have "\<exists>rows. d' = d\<lparr>d_scans := rows\<rparr>"
  proof (cases ticket)
    case None
    with assms(4) show ?thesis by (auto simp: admit_def refuse_def recordScanAttempt_def appendScanAttempt_def)
  next
    case (Some t)
    with assms(3) False have "t_event t \<noteq> eventId \<or> t_status t \<in> set DENIED_STATUSES"
      using live_iff_not_denied by auto
    with Some assms(4) show ?thesis
      by (cases "t_event t = eventId")
        (auto simp: admit_def refuse_def recordScanAttempt_def appendScanAttempt_def)
  qed
  then show ?thesis using assms(1,2) by (auto simp: stock_defs places_def seats_ok_def)
qed

lemma repo_undo_keeps:
  assumes "stock_ok d" and "seats_ok d"
    and "\<And>t. t \<in> set (d_tickets d) \<Longrightarrow> t_id t = k \<Longrightarrow> t_org t = org \<Longrightarrow> live_ticket t"
    and "repo_undo org ev k user d = (b, d')"
  shows "stock_ok d' \<and> seats_ok d'"
proof (cases "d' = d")
  case False
  with assms(4) have "d_tickets d' = upd (\<lambda>t. t_id t = k \<and> t_org t = org)
       (\<lambda>t. t\<lparr>t_status := TIssued, t_checkedInAt := None\<rparr>) (d_tickets d)"
    "inventory (d'\<lparr>d_tickets := d_tickets d\<rparr>) = inventory d"
    by (auto simp: repo_undo_def Let_def inventory_def split: if_splits)
  then show ?thesis
    by (rule tickets_kept [OF assms(1,2)])
      (use assms(3) in \<open>auto simp: live_ticket_def LIVE_TICKET_STATUSES_def\<close>)
qed (use assms in simp)

section \<open>Tiers set up and edited by the organizer\<close>

lemma stock_ok_new_tier:
  assumes "stock_ok d" and "seats_ok d" and "tt_id t \<notin> tt_id ` set (d_tiers d)" and "tt_sold t = 0" "0 \<le> tt_total t"
    and "\<And>i. i \<in> set (d_items d) \<Longrightarrow> oi_type i \<noteq> tt_id t"
    and "\<And>k. k \<in> set (d_tickets d) \<Longrightarrow> t_type k \<noteq> tt_id t"
  shows "stock_ok (d\<lparr>d_tiers := d_tiers d @ [t]\<rparr>) \<and> seats_ok (d\<lparr>d_tiers := d_tiers d @ [t]\<rparr>)"
proof -
  have "places d (tt_id t) = 0"
  proof -
    have "live_places (d_tickets d) (tt_id t) = 0"
      unfolding live_places_def by (rule sum_of_zero) (use assms(7) in simp)
    moreover have "waiting_places (d_orders d) (d_items d) (tt_id t) = 0"
      unfolding waiting_places_def by (rule sum_of_zero) (use assms(6) in simp)
    ultimately show ?thesis by (simp add: places_def)
  qed
  then have "sold_ok (d\<lparr>d_tiers := d_tiers d @ [t]\<rparr>)"
    using assms(1,3-5) by (auto simp: stock_ok_def sold_ok_def places_def sold_within_total_def)
  moreover have "items_ok (d\<lparr>d_tiers := d_tiers d @ [t]\<rparr>)"
    using assms(1) assms(6) [THEN not_sym] by (simp add: stock_ok_def items_ok_def ball_Un)
  moreover have "tickets_ok (d\<lparr>d_tiers := d_tiers d @ [t]\<rparr>)"
    using assms(1) assms(7) [THEN not_sym] by (simp add: stock_ok_def tickets_ok_def ball_Un)
  ultimately show ?thesis
    using assms(1,2) by (simp add: stock_ok_def order_keys_ok_def seats_ok_def)
qed

lemma stock_ok_edit_tiers:
  assumes "stock_ok d" and "seats_ok d" and "updateTiers P f d = Inr d'"
    and f: "\<And>t. tt_id (f t) = tt_id t" "\<And>t. tt_org (f t) = tt_org t" "\<And>t. tt_sold (f t) = tt_sold t"
  shows "stock_ok d' \<and> seats_ok d'"
proof -
  note U = updateTiers_D [OF assms(3)]
  have tiers: "d_tiers d' = upd P f (d_tiers d)" by (subst U(1)) simp
  have same: "places d' = places d" "d_orders d' = d_orders d" "d_items d' = d_items d" "d_tickets d' = d_tickets d"
    "d_next d' = d_next d" "seats_ok d' = seats_ok d"
    by (subst U(1), simp add: places_def fun_eq_iff seats_ok_def)+
  have ids: "map tt_id (d_tiers d') = map tt_id (d_tiers d)"
    unfolding tiers by (rule map_upd_key) (rule f(1))
  have orgs: "(\<forall>t\<in>set (d_tiers d'). tt_id t = x \<longrightarrow> tt_org t = y) = (\<forall>t\<in>set (d_tiers d). tt_id t = x \<longrightarrow> tt_org t = y)" for x y
    unfolding tiers upd_def set_map ball_simps using f(1,2) by (simp split: if_split)
  have "tt_sold t = places d (tt_id t)" if "t \<in> set (d_tiers d')" for t
  proof -
    from that obtain u where u: "u \<in> set (d_tiers d)" "t = (if P u then f u else u)"
      unfolding tiers in_set_upd by blast
    have "tt_sold u = places d (tt_id u)" using assms(1) u(1) by (simp add: stock_ok_def sold_ok_def)
    with u(2) f show ?thesis by simp
  qed
  moreover have "sold_within_total t" if "t \<in> set (d_tiers d')" for t
    by (rule U(2) [OF _ that]) (use assms(1) in \<open>simp add: stock_defs\<close>)
  moreover have "distinct (map tt_id (d_tiers d'))" using ids assms(1) by (simp add: stock_defs)
  ultimately have "sold_ok d'" using same(1) by (simp add: sold_ok_def)
  moreover have "order_keys_ok d' \<and> items_ok d' \<and> tickets_ok d'"
    using assms(1) unfolding stock_ok_def order_keys_ok_def items_ok_def tickets_ok_def same(2-5) orgs by blast
  ultimately show ?thesis using assms(2) same(6) by (simp add: stock_ok_def)
qed

section \<open>The transitions\<close>

inductive inventory_step :: "db \<Rightarrow> db \<Rightarrow> bool" where
  placed: "placed_for d inp \<Longrightarrow> placeOrder inp d = Inr (r, d') \<Longrightarrow> inventory_step d d'"
| joined: "\<forall>t\<in>set (d_tiers d). tt_id t = jw_type jnp \<longrightarrow> tt_org t = jw_org jnp \<Longrightarrow>
    joinWaitlist jnp d = Inr (jr, d') \<Longrightarrow> inventory_step d d'"
| offered: "markOffered org oid offeredBy expires now build d = Inr (ord, d') \<Longrightarrow> inventory_step d d'"
| settled: "tx_hook (so_recordPayment snp) \<Longrightarrow> settleOrder snp d = Inr (sr, d') \<Longrightarrow> inventory_step d d'"
| rejected: "rejectOrder rnp d = Inr (rr, d') \<Longrightarrow> inventory_step d d'"
| lapsed: "inventory_step d (releaseHoldsForOrder org oid d)"
| refunded: "tx_hook rec \<Longrightarrow> refundOrder org oid rec now d = Inr (fr, d') \<Longrightarrow> inventory_step d d'"
| seats_held: "holdSeats org event tier ids expires now holder d = Inr (hr, d') \<Longrightarrow> inventory_step d d'"
| quantity_held: "holdQuantity org event tier q expires now holder d = Inr (qr, d') \<Longrightarrow> inventory_step d d'"
| hold_released: "inventory_step d (release org hs d)"
| hold_dropped: "inventory_step d (releaseUnattached org hs d)"
| holds_swept: "inventory_step d (snd (expireStale org now d))"
| scanned: "ticket = findTicketByToken org q0 d \<or> ticket = findTicketById org k d \<Longrightarrow>
    admit org user eventId ticket scn now d = (sn, d') \<Longrightarrow> inventory_step d d'"
| unscanned: "\<forall>t\<in>set (d_tickets d). t_id t = k \<and> t_org t = org \<longrightarrow> live_ticket t \<Longrightarrow>
    repo_undo org ev k user d = (b, d') \<Longrightarrow> inventory_step d d'"
| tier_added: "tt_id t \<notin> tt_id ` set (d_tiers d) \<Longrightarrow> tt_sold t = 0 \<Longrightarrow> 0 \<le> tt_total t \<Longrightarrow>
    \<forall>i\<in>set (d_items d). oi_type i \<noteq> tt_id t \<Longrightarrow> \<forall>x\<in>set (d_tickets d). t_type x \<noteq> tt_id t \<Longrightarrow>
    inventory_step d (d\<lparr>d_tiers := d_tiers d @ [t]\<rparr>)"
| tiers_edited: "updateTiers P f d = Inr d' \<Longrightarrow> \<forall>t. tt_id (f t) = tt_id t \<and> tt_org (f t) = tt_org t \<and> tt_sold (f t) = tt_sold t
    \<Longrightarrow> inventory_step d d'"
| time_passes: "d_clock d \<le> c \<Longrightarrow> inventory_step d (d\<lparr>d_clock := c\<rparr>)"

text \<open>A step relation with an invariant, and what every run of it keeps.\<close>

locale invariant_system =
  fixes step :: "'s \<Rightarrow> 's \<Rightarrow> bool" and inv :: "'s \<Rightarrow> bool"
  assumes inv_step: "inv s \<Longrightarrow> step s s' \<Longrightarrow> inv s'"
begin

lemma inv_run: "step\<^sup>*\<^sup>* s s' \<Longrightarrow> inv s \<Longrightarrow> inv s'"
  by (induction rule: rtranclp_induct) (auto intro: inv_step)

end

definition checkout_inv :: "db \<Rightarrow> bool" where
  "checkout_inv d = (stock_ok d \<and> seats_ok d)"

lemma inventory_step_keeps:
  assumes "inventory_step d d'" and "stock_ok d" and "seats_ok d"
  shows "stock_ok d' \<and> seats_ok d'"
  using assms
proof (cases rule: inventory_step.cases)
  case (placed inp r)
  then show ?thesis using placeOrder_stock placeOrder_seats assms(2,3) by blast
next
  case (joined jnp jr)
  then show ?thesis using joinWaitlist_stock joinWaitlist_tables seats_ok_tables assms(2,3) by blast
next
  case (offered org oid offeredBy expires now build ord)
  have "seats_ok d'" using offered assms(3)
    by (auto simp: markOffered_def bindE_Inr_iff Let_def seats_ok_def split: if_splits)
  with offered markOffered_stock assms(2) show ?thesis by blast
next
  case (settled snp sr)
  then show ?thesis using settleOrder_stock settleOrder_seats assms(2,3) by blast
next
  case (rejected rnp rr)
  then show ?thesis using rejectOrder_stock rejectOrder_seats assms(2,3) by blast
next
  case (lapsed org oid)
  then show ?thesis using releaseHoldsForOrder_stock releaseHoldsForOrder_seats assms(2,3) by blast
next
  case (refunded rec org oid now fr)
  moreover have "tickets_ok d" using assms(2) by (simp add: stock_ok_def)
  ultimately show ?thesis using refundOrder_stock refundOrder_seats assms(2,3) by blast
next
  case (seats_held org event tier ids expires now holder hr)
  then show ?thesis using holdSeats_keeps assms(2,3) by blast
next
  case (quantity_held org event tier q expires now holder qr)
  then show ?thesis using holdQuantity_keeps assms(2,3) by blast
next
  case (scanned ticket org q0 k user eventId scn now sn)
  have "ticket = None \<or> (\<exists>t\<in>set (d_tickets d). ticket = Some t)"
    using scanned(1) by (cases ticket) (auto simp: findTicketByToken_def findTicketById_def
        dest: find_SomeD [OF sym])
  with scanned(2) show ?thesis using admit_keeps assms(2,3) by blast
next
  case (unscanned k org ev user b)
  then show ?thesis using repo_undo_keeps [OF assms(2,3), of k org ev user b d'] by blast
next
  case (tier_added t)
  then show ?thesis using stock_ok_new_tier [OF assms(2,3), of t] by blast
next
  case (tiers_edited P f)
  then show ?thesis using stock_ok_edit_tiers [OF assms(2,3)] by blast
next
  case (time_passes c)
  then show ?thesis using assms(2,3) by (simp add: stock_defs places_def seats_ok_def)
qed (use released_keep [OF assms(2,3)] in simp_all)

interpretation checkout: invariant_system inventory_step checkout_inv
  by unfold_locales (use inventory_step_keeps in \<open>auto simp: checkout_inv_def\<close>)

text \<open>A workspace whose catalogue is set up and that has sold nothing.\<close>

definition nothing_sold :: "db \<Rightarrow> bool" where
  "nothing_sold d = (d_orders d = [] \<and> d_items d = [] \<and> d_tickets d = [] \<and> d_assignments d = []
     \<and> d_holds d = [] \<and> distinct (map tt_id (d_tiers d)) \<and> (\<forall>t\<in>set (d_tiers d). tt_sold t = 0 \<and> 0 \<le> tt_total t))"

definition reachable :: "db \<Rightarrow> bool" where
  "reachable d = (\<exists>d0. nothing_sold d0 \<and> inventory_step\<^sup>*\<^sup>* d0 d)"

lemma reachable_inv: "reachable d \<Longrightarrow> stock_ok d \<and> seats_ok d"
proof -
  assume "reachable d"
  then obtain d0 where "nothing_sold d0" "inventory_step\<^sup>*\<^sup>* d0 d" by (auto simp: reachable_def)
  moreover have "checkout_inv d0"
    using \<open>nothing_sold d0\<close>
    by (auto simp: nothing_sold_def checkout_inv_def stock_defs places_def live_places_def waiting_places_def
        sold_within_total_def seats_ok_def seat_active_index_def seat_hold_index_def)
  ultimately show ?thesis using checkout.inv_run by (auto simp: checkout_inv_def)
qed

end
