(* ===== verification/Scenario.thy ===== *)
theory Scenario
  imports CheckoutReach
begin

text \<open>
  A small workspace on which the properties are exercised: one event with a free and a priced
  ticket type of five places each, two seats sold under the free one, and the databases that
  the transactions make of it. Every value below is computed by the definitions of the model.
\<close>

definition demo_tier :: "ident \<Rightarrow> satang \<Rightarrow> tier_row" where
  "demo_tier i price = \<lparr>tt_id = i, tt_org = 1, tt_event = 7, tt_name = ''Seat'', tt_isFree = (price = 0),
     tt_price = price, tt_status = Onsale, tt_sold = 0, tt_total = 5, tt_salesStartAt = Some 0,
     tt_salesEndAt = Some 900000, tt_minPerOrder = 1, tt_maxPerOrder = 4, tt_admission = GeneralAdmission,
     tt_iconClass = None, tt_includes = None, tt_isRecommended = False, tt_badge = None, tt_deletedAt = None, tt_version = 1\<rparr>"

definition demo_seat :: "ident \<Rightarrow> seat_row" where
  "demo_seat i = \<lparr>s_id = i, s_org = 1, s_map = 1, s_section = Some ''A'', s_rowLabel = Some ''1'',
     s_seatNumber = ''1'', s_type = Some 2, s_status = SAvailable\<rparr>"

definition demo_code :: code_row where
  "demo_code = \<lparr>dc_id = 3, dc_org = 1, dc_event = None, dc_code = ''LAST'', dc_type = Fixed, dc_value = 100,
     dc_status = DActive, dc_used = 0, dc_redemptionLimit = 1, dc_perPersonLimit = 1, dc_minOrder = 0,
     dc_validFrom = None, dc_validUntil = None, dc_deletedAt = None, dc_version = 1\<rparr>"

definition demo_db :: db where
  "demo_db = empty_db\<lparr>d_next := 10, d_tiers := [demo_tier 2 0, demo_tier 3 1000],
     d_maps := [\<lparr>sm_id = 1, sm_org = 1, sm_event = 7, sm_name = ''Hall'', sm_layout = Some (1, 2), sm_totalSeats = 2, sm_deletedAt = None\<rparr>],
     d_seats := [demo_seat 4, demo_seat 5], d_codes := [demo_code]\<rparr>"

definition demo_buyer :: buyer where
  "demo_buyer = \<lparr>b_name = ''Ann'', b_email = ''ann@example.com'', b_phone = None\<rparr>"

definition demo_totals :: "satang \<Rightarrow> order_totals" where
  "demo_totals t = \<lparr>subtotalSatang = t, discountSatang = 0, serviceFeeSatang = 0, totalSatang = t,
     netSatang = t, vatSatang = 0\<rparr>"

text \<open>Two seats held, and the order that books them at once.\<close>

definition demo_held :: db where
  "demo_held = committed demo_db (holdSeats 1 7 2 [4, 5] 600 0 None demo_db)"

definition demo_order :: place_order_input where
  "demo_order = \<lparr>po_org = 1, po_event = 7, po_reference = ''REF1'', po_idempotencyKey = ''k1'',
     po_buyer = demo_buyer, po_type = 2, po_typeName = ''Seat'', po_quantity = 2,
     po_seatIds = Some [4, 5], po_holdIds = [10, 11], po_unitPrice = 0, po_totals = demo_totals 0,
     po_discountCode = None, po_createdBy = None, po_issueTickets = True, po_requiresApproval = False,
     po_awaitsDecision = False, po_qrTokens = [''q1'', ''q2''], po_buildEvent = (\<lambda>_ _. None), po_now = 5\<rparr>"

definition demo_sold :: db where
  "demo_sold = committed demo_held (placeOrder demo_order demo_held)"

text \<open>A priced order of two places waiting for its payment, and the payment.\<close>

definition demo_unpaid_order :: place_order_input where
  "demo_unpaid_order = demo_order\<lparr>po_reference := ''REF2'', po_idempotencyKey := ''k2'', po_type := 3,
     po_seatIds := None, po_holdIds := [], po_unitPrice := 1000, po_totals := demo_totals 2000,
     po_issueTickets := False, po_qrTokens := []\<rparr>"

definition demo_unpaid :: db where
  "demo_unpaid = committed demo_db (placeOrder demo_unpaid_order demo_db)"

definition demo_payment :: "string \<Rightarrow> settle_order_input" where
  "demo_payment q = \<lparr>so_org = 1, so_order = 11, so_mode = PaymentMode, so_decidedBy = None,
     so_mintQrToken = (\<lambda>n. replicate n CHR ''q'' @ q), so_buildConfirmedEvent =
       (\<lambda>ord n. RegistrationConfirmed (o_org ord) (o_id ord) n (o_total ord) True),
     so_buildRefundEvent = (\<lambda>ord r. PaymentRefundRequired (o_org ord) (o_id ord) (o_total ord) r),
     so_recordPayment = no_payment, so_now = 20\<rparr>"

definition demo_settled :: db where
  "demo_settled = committed demo_unpaid (settleOrder (demo_payment ''x'') demo_unpaid)"

text \<open>The same seats asked for on an event where the organizer decides.\<close>

definition demo_waiting_order :: place_order_input where
  "demo_waiting_order = demo_order\<lparr>po_issueTickets := False, po_requiresApproval := True,
     po_awaitsDecision := True, po_qrTokens := []\<rparr>"

definition demo_waiting :: db where
  "demo_waiting = committed demo_held (placeOrder demo_waiting_order demo_held)"

lemmas demo_defs = demo_tier_def demo_seat_def demo_code_def demo_db_def demo_buyer_def demo_totals_def
  demo_held_def demo_order_def demo_sold_def demo_unpaid_order_def demo_unpaid_def demo_payment_def
  demo_settled_def

text \<open>A transaction that does not fail has a result, and commits the database it returns.\<close>

lemma committed_ok: "\<not> isl m \<Longrightarrow> \<exists>r. m = Inr (r, committed d m)"
  by (cases m) auto

lemma demo_hold_ok: "\<exists>r. holdSeats 1 7 2 [4, 5] 600 0 None demo_db = Inr (r, demo_held)"
  unfolding demo_held_def by (rule committed_ok) code_simp

lemma demo_place_ok: "\<exists>r. placeOrder demo_order demo_held = Inr (r, demo_sold)"
  unfolding demo_sold_def by (rule committed_ok) code_simp

lemma demo_unpaid_ok: "\<exists>r. placeOrder demo_unpaid_order demo_db = Inr (r, demo_unpaid)"
  unfolding demo_unpaid_def by (rule committed_ok) code_simp

lemma demo_settle_ok: "\<exists>r. settleOrder (demo_payment ''x'') demo_unpaid = Inr (r, demo_settled)"
  unfolding demo_settled_def by (rule committed_ok) code_simp

lemma demo_waiting_ok: "\<exists>r. placeOrder demo_waiting_order demo_held = Inr (r, demo_waiting)"
  unfolding demo_waiting_def by (rule committed_ok) code_simp

lemma demo_nothing_sold: "nothing_sold demo_db"
  by (simp add: nothing_sold_def demo_defs empty_db_def)

lemma reachable_start: "nothing_sold d \<Longrightarrow> reachable d"
  by (auto simp: reachable_def)

lemma reachable_step: "reachable d \<Longrightarrow> inventory_step d d' \<Longrightarrow> reachable d'"
  by (auto simp: reachable_def intro: rtranclp.rtrancl_into_rtrancl)

lemma demo_held_reachable: "reachable demo_held"
proof -
  obtain r where "holdSeats 1 7 2 [4, 5] 600 0 None demo_db = Inr (r, demo_held)"
    using demo_hold_ok by blast
  then show ?thesis
    by (intro reachable_step [OF reachable_start [OF demo_nothing_sold]] inventory_step.seats_held)
qed

lemma demo_sold_reachable: "reachable demo_sold"
proof -
  obtain r where "placeOrder demo_order demo_held = Inr (r, demo_sold)" using demo_place_ok by blast
  moreover have "placed_for demo_held demo_order"
    unfolding placed_for_def by code_simp
  ultimately show ?thesis
    by (intro reachable_step [OF demo_held_reachable] inventory_step.placed)
qed

lemma demo_unpaid_reachable: "reachable demo_unpaid"
proof -
  obtain r where "placeOrder demo_unpaid_order demo_db = Inr (r, demo_unpaid)" using demo_unpaid_ok by blast
  moreover have "placed_for demo_db demo_unpaid_order"
    unfolding placed_for_def by code_simp
  ultimately show ?thesis
    by (intro reachable_step [OF reachable_start [OF demo_nothing_sold]] inventory_step.placed)
qed

lemma demo_settled_reachable: "reachable demo_settled"
proof -
  obtain r where "settleOrder (demo_payment ''x'') demo_unpaid = Inr (r, demo_settled)"
    using demo_settle_ok by blast
  moreover have "tx_hook (so_recordPayment (demo_payment ''x''))"
    by (simp add: demo_payment_def approval_hook.tx_hook_axioms)
  ultimately show ?thesis
    by (intro reachable_step [OF demo_unpaid_reachable] inventory_step.settled)
qed

lemma demo_waiting_reachable: "reachable demo_waiting"
proof -
  obtain r where "placeOrder demo_waiting_order demo_held = Inr (r, demo_waiting)"
    using demo_waiting_ok by blast
  moreover have "placed_for demo_held demo_waiting_order"
    unfolding placed_for_def by code_simp
  ultimately show ?thesis
    by (intro reachable_step [OF demo_held_reachable] inventory_step.placed)
qed

end
