(* ===== verification/CheckoutProps.thy ===== *)
theory CheckoutProps
  imports Scenario
begin

text \<open>
  What the checkout promises: the properties of reachable states, and of each transaction
  alone.
\<close>

section \<open>Reachable states\<close>

text \<open>What the two invariants say of a ticket type's counter and of a seat.\<close>

lemma stock_counts_places:
  assumes "stock_ok d" and "t \<in> set (d_tiers d)"
  shows "tt_sold t = live_places (d_tickets d) (tt_id t) + waiting_places (d_orders d) (d_items d) (tt_id t)
    \<and> 0 \<le> tt_sold t \<and> tt_sold t \<le> tt_total t"
  using assms by (auto simp: stock_defs places_def sold_within_total_def)

lemma seats_one_person:
  assumes ok: "seats_ok d"
  shows "(\<forall>a\<in>set (d_assignments d). \<forall>b\<in>set (d_assignments d).
       sa_releasedAt a = None \<and> sa_releasedAt b = None \<and> sa_seat a = sa_seat b \<longrightarrow> a = b)
    \<and> (\<forall>a\<in>set (d_assignments d). sa_releasedAt a = None \<longrightarrow>
         (\<exists>k\<in>set (d_tickets d). t_id k = sa_ticket a \<and> t_org k = sa_org a \<and> t_status k \<in> {TIssued, TCheckedIn}))
    \<and> (\<forall>g\<in>set (d_holds d). \<forall>h\<in>set (d_holds d). h_status g = HActive \<and> h_status h = HActive
         \<and> h_seat g = h_seat h \<and> h_seat h \<noteq> None \<longrightarrow> g = h)"
proof -
  have "a = b" if "a \<in> set (d_assignments d)" "b \<in> set (d_assignments d)" "sa_releasedAt a = None"
      "sa_releasedAt b = None" "sa_seat a = sa_seat b" for a b
    using ok assign_index.index_one that by (auto simp: seats_ok_def live_assignment_def)
  moreover from ok have "g = h" if "g \<in> set (d_holds d)" "h \<in> set (d_holds d)" "h_status g = HActive"
      "h_status h = HActive" "h_seat g = h_seat h" "h_seat h \<noteq> None" for g h
    using hold_index.index_one that by (auto simp: seats_ok_def active_seat_hold_def)
  moreover from ok have "\<exists>k\<in>set (d_tickets d). t_id k = sa_ticket a \<and> t_org k = sa_org a \<and> t_status k \<in> {TIssued, TCheckedIn}"
    if "a \<in> set (d_assignments d)" "sa_releasedAt a = None" for a
    using that by (auto simp: seats_ok_def live_assignment_def live_ticket_def LIVE_TICKET_STATUSES_def)
  ultimately show ?thesis by blast
qed

section \<open>Placing\<close>

text \<open>
  C5. Placing twice with the same key places once: after a successful placement, any request
  with that workspace and key, whatever else it asks for, changes nothing and answers with
  the order the first one made and, in the same sequence, its tickets.
\<close>

theorem place_replay:
  assumes "stock_ok d" and "placeOrder inp d = Inr (r, d')"
    and "po_org inp' = po_org inp" and "po_idempotencyKey inp' = po_idempotencyKey inp"
  shows "placeOrder inp' d' = Inr (\<lparr>pr_order = pr_order r, pr_tickets = pr_tickets r, pr_replayed = True\<rparr>, d')"
proof (cases "findByIdempotencyKey (po_org inp) (po_idempotencyKey inp) d")
  case (Some x)
  with assms(2-4) show ?thesis by (cases x) (auto simp: placeOrder_def)
next
  case None
  then have "\<not> pr_replayed r" using assms(2) by (auto simp: placeOrder_def Let_def bindE_Inr_iff split: prod.splits)
  then show ?thesis
  proof (rule placeOrder_shape [OF assms(2)], goal_cases)
    case (1 d2 aid ord ks)
    let ?P = "\<lambda>ord. o_org ord = po_org inp \<and> o_idempotencyKey ord = Some (po_idempotencyKey inp)"
    have "find ?P (d_orders d) = None"
      using 1(1) by (simp add: findByIdempotencyKey_def)
    then have f: "find ?P (d_orders d') = Some ord"
      unfolding 1(9) find_append by (simp add: 1(4) place_insert_def)
    have old: "t_order k \<noteq> o_id ord" if "k \<in> set (d_tickets d)" for k
      using assms(1) that 1(2,4) by (fastforce simp: stock_defs)
    have new: "t_order k = o_id ord" if "k \<in> set ks" for k
      using 1(12) that placed_tickets(3) [of ks] by (auto split: if_splits)
    have "filter (\<lambda>t. t_order t = o_id ord) (d_tickets d') = ks"
      unfolding 1(11) using old new by (simp add: filter_id_conv filter_empty_conv)
    with f have "findByIdempotencyKey (po_org inp) (po_idempotencyKey inp) d' = Some (ord, sort_key t_id ks)"
      by (simp add: findByIdempotencyKey_def)
    then show ?thesis using 1(5,6) assms(3,4) by (simp add: placeOrder_def)
  qed
qed

text \<open>
  A free order that nobody has to decide on is ticketed as it is placed: confirmed and
  paid, one issued ticket for each token in the buyer's name, \<^verbatim>\<open>sold\<close> raised within the
  allocation by exactly its quantity, its holds used up. Any other placement creates no
  ticket, and one that is to be paid for leaves every count as it was.
\<close>

theorem place_issues_tickets:
  assumes "placeOrder inp d = Inr (r, d')" and "\<not> pr_replayed r"
  shows "(po_issueTickets inp \<longrightarrow>
      o_status (pr_order r) = OConfirmed \<and> o_paymentStatus (pr_order r) = PPaid
      \<and> (\<exists>ks. d_tickets d' = d_tickets d @ ks \<and> map t_qrToken ks = po_qrTokens inp
           \<and> (\<forall>k\<in>set ks. t_status k = TIssued \<and> t_order k = o_id (pr_order r) \<and> t_type k = po_type inp
                \<and> t_holderName k = Some (b_name (po_buyer inp))))
      \<and> (\<exists>t\<in>set (d_tiers d). tt_id t = po_type inp \<and> tt_org t = po_org inp
           \<and> tt_sold t + po_quantity inp \<le> tt_total t
           \<and> d_tiers d' = upd (\<lambda>x. tt_id x = po_type inp) (\<lambda>x. x\<lparr>tt_sold := tt_sold t + po_quantity inp\<rparr>) (d_tiers d))
      \<and> (\<forall>h\<in>set (d_holds d'). h_org h = po_org inp \<and> h_id h \<in> set (po_holdIds inp) \<longrightarrow> h_status h = HConverted))
    \<and> (\<not> po_issueTickets inp \<longrightarrow> d_tickets d' = d_tickets d \<and> o_status (pr_order r) = OPending
        \<and> (\<not> po_awaitsDecision inp \<longrightarrow> d_tiers d' = d_tiers d))"
  using assms
proof (rule placeOrder_shape, goal_cases)
  case (1 d2 aid ord ks)
  show ?case
  proof (cases "po_issueTickets inp")
    case False
    with 1 show ?thesis by (simp add: initialState_def)
  next
    case True
    let ?mk = "map (place_ticket inp (o_id ord) (o_id ord + 1) aid) (po_qrTokens inp)"
    from True 1(12) have ks: "ks = with_ids (o_id ord + 2) ?mk" by simp
    have "map t_qrToken ks = map (\<lambda>f. t_qrToken (f 0)) ?mk"
      unfolding ks by (rule with_ids_map) (auto simp: place_ticket_def)
    then have tokens: "map t_qrToken ks = po_qrTokens inp" by (simp add: place_ticket_def comp_def)
    have rows: "\<forall>k\<in>set ks. t_status k = TIssued \<and> t_order k = o_id ord \<and> t_type k = po_type inp
        \<and> t_holderName k = Some (b_name (po_buyer inp))"
      unfolding ks by (auto dest!: in_with_ids simp: place_ticket_def)
    from True 1(13) obtain dx dy where s: "d_tiers dx = d_tiers d" "d_tiers d' = d_tiers dy"
      "reserveAllocation inp dx = Inr dy" by auto
    have sold: "\<exists>t\<in>set (d_tiers d). tt_id t = po_type inp \<and> tt_org t = po_org inp
         \<and> tt_sold t + po_quantity inp \<le> tt_total t
         \<and> d_tiers d' = upd (\<lambda>x. tt_id x = po_type inp) (\<lambda>x. x\<lparr>tt_sold := tt_sold t + po_quantity inp\<rparr>) (d_tiers d)"
      using s(3)
    proof (rule reserveAllocation_D)
      fix t assume "t \<in> set (d_tiers dx)" "tt_id t = po_type inp" "tt_org t = po_org inp"
        "tt_sold t + po_quantity inp \<le> tt_total t"
        "updateTiers (\<lambda>x. tt_id x = po_type inp) (\<lambda>x. x\<lparr>tt_sold := tt_sold t + po_quantity inp\<rparr>) dx = Inr dy"
      with updateTiers_D(1) [OF this(5)] s(1,2) show ?thesis by (intro bexI [of _ t]) auto
    qed
    have "\<forall>h\<in>set (d_holds d'). h_org h = po_org inp \<and> h_id h \<in> set (po_holdIds inp) \<longrightarrow> h_status h = HConverted"
      unfolding 1(15) placed_holds_def upd_def set_map ball_simps using True by auto
    moreover have "o_status ord = OConfirmed \<and> o_paymentStatus ord = PPaid"
      using True by (simp add: 1(4) initialState_def new_order_row_def)
    ultimately show ?thesis using True 1(5,11) tokens rows sold by auto
  qed
qed

section \<open>Settling\<close>


text \<open>
  C4. Settled once: whatever else a second delivery of the payment carries, after an order is
  confirmed it changes nothing but the ledger, and answers that the order is settled.
\<close>

theorem settle_exactly_once:
  assumes "stock_ok d" and "settleOrder inp d = Inr (r, d')" and "sr_outcome r = Settled"
    and "tx_hook (so_recordPayment inp)" and "tx_hook (so_recordPayment inp2)"
    and "so_org inp2 = so_org inp" and "so_order inp2 = so_order inp"
    and "settleOrder inp2 d' = Inr (r2, d'')"
  shows "sr_outcome r2 = AlreadySettled \<and> so_recordPayment inp2 d' = Inr d'' \<and> inventory d'' = inventory d'"
proof -
  have dist: "distinct (map o_id (d_orders d))" using assms(1) by (simp add: stock_defs)
  have "\<exists>ord. lockOrder (so_org inp) (so_order inp) d = Inr ord
      \<and> d_orders d' = upd (\<lambda>x. o_id x = o_id ord) (settled_row inp) (d_orders d)"
  proof (rule settleOrder_cases [OF assms(2)], goal_cases)
    case (1 ord)
    from 1(2) show ?case
    proof (elim disjE exE conjE, goal_cases)
      case 5
      obtain line where line: "cx_line (loadSettlement inp ord d) = Some line"
        using settlementBlocker_None [OF 5(2)] by metis
      have "completeSettlement inp ord (loadSettlement inp ord d) d = Inr (r, d')"
        using 5(3) assms(3) by (auto simp: awaitDecision_def refuseSettlement_def bindE_Inr_iff Let_def split: if_splits)
      then show ?case
        using completeSettlement_shape [OF _ line assms(4)] 1(1) by metis
    qed (use assms(3) in \<open>auto simp: refuseSettlement_def bindE_Inr_iff Let_def\<close>)
  qed
  then obtain ord where l: "lockOrder (so_org inp) (so_order inp) d = Inr ord"
    and d': "d_orders d' = upd (\<lambda>x. o_id x = o_id ord) (settled_row inp) (d_orders d)" by blast
  note o = lockOrder_D [OF l]
  have "lockOrder (so_org inp2) (so_order inp2) d' = Inr (settled_row inp ord)"
  proof -
    have "find (\<lambda>x. o_id x = so_order inp \<and> o_org x = so_org inp) (d_orders d') = Some (settled_row inp ord)"
      unfolding d' using l o(2) by (subst find_upd) (auto simp: lockOrder_def split: option.splits)
    then show ?thesis by (simp add: lockOrder_def assms(6,7))
  qed
  with assms(8) have "so_recordPayment inp2 d' = Inr d''" "sr_outcome r2 = AlreadySettled"
    by (auto simp: settleOrder_def Let_def bindE_Inr_iff)
  with tx_hook.hook_frame [OF assms(5)] show ?thesis by blast
qed

end
