(* ===== verification/DecisionProps.thy ===== *)
theory DecisionProps
  imports Scenario
begin

text \<open>
  What a refund, an organizer's rejection and an organizer's approval promise.
\<close>

section \<open>Refunding\<close>

lemma lockOrder_upd:
  assumes "lockOrder org oid d = Inr ord" and "d_orders d' = upd (\<lambda>x. o_id x = oid) f (d_orders d)"
    and "o_id (f ord) = oid" and "\<And>x. o_id (f x) = o_id x" and "\<And>x. o_org (f x) = o_org x"
  shows "lockOrder org oid d' = Inr (f ord)"
proof -
  have "find (\<lambda>x. o_id x = oid \<and> o_org x = org) (d_orders d') = Some (f ord)"
    unfolding assms(2) using assms(1) lockOrder_D [OF assms(1)] assms(4,5)
    by (subst find_upd) (auto simp: lockOrder_def split: option.splits)
  then show ?thesis by (simp add: lockOrder_def)
qed

lemma refunded_row_simps [simp]:
  "o_id (refunded_row ord x) = o_id x" "o_org (refunded_row ord x) = o_org x"
  "o_paymentStatus (refunded_row ord x) = PRefunded" "\<not> isAwaitingApproval (refunded_row ord x)"
  "o_status (refunded_row ord x) = (if o_status ord = ORejected then ORejected else OCancelled)"
  by (simp_all add: refunded_row_def isAwaitingApproval_def statusAfterRefund_def)

lemma sold_moved_zero: "sold_moved ts ts' (\<lambda>_. 0) \<Longrightarrow> ts' = ts"
  by (simp add: sold_moved_def)

lemma none_voidable:
  assumes "d_tickets d' = upd (voidable org oid) (\<lambda>t. t\<lparr>t_status := TRefunded\<rparr>) ts"
  shows "filter (voidable org oid) (d_tickets d') = []"
  unfolding assms by (induction ts) (auto simp: voidable_def LIVE_TICKET_STATUSES_def)

text \<open>
  C15. A refund gives everything back exactly once: no ticket of the order admits anyone any
  more, the order is refunded (and stays rejected if it was), and \<^verbatim>\<open>sold\<close> of each ticket type
  falls by exactly the live tickets of that type it voided and the places it still waited
  for. Asked again it voids nothing and returns no stock.
\<close>

theorem refund_gives_back_once:
  assumes "stock_ok d" and "tx_hook rec" and "tx_hook rec2"
    and "refundOrder org oid rec now d = Inr (r, d')"
    and "refundOrder org oid rec2 now2 d' = Inr (r2, d'')"
  shows "\<exists>ord\<in>set (d_orders d). o_id ord = oid \<and> o_org ord = org
    \<and> d_orders d' = upd (\<lambda>x. o_id x = oid) (refunded_row ord) (d_orders d)
    \<and> (\<forall>k\<in>set (d_tickets d'). t_order k = oid \<and> t_org k = org \<longrightarrow> t_status k \<notin> {TIssued, TCheckedIn})
    \<and> fst r = length (filter (voidable org oid) (d_tickets d))
    \<and> d_tiers d' = map (\<lambda>t. t\<lparr>tt_sold := tt_sold t
          - live_places (filter (voidable org oid) (d_tickets d)) (tt_id t)
          - (if isAwaitingApproval ord then order_places (d_items d) oid (tt_id t) else 0)\<rparr>) (d_tiers d)
    \<and> fst r2 = 0 \<and> d_tiers d'' = d_tiers d' \<and> d_tickets d'' = d_tickets d'"
proof -
  obtain ord where l: "lockOrder org oid d = Inr ord"
    and ords: "d_orders d' = upd (\<lambda>x. o_id x = oid) (refunded_row ord) (d_orders d)"
    and tks: "d_tickets d' = upd (voidable org oid) (\<lambda>t. t\<lparr>t_status := TRefunded\<rparr>) (d_tickets d)"
    and n: "fst r = length (filter (voidable org oid) (d_tickets d))"
    and m: "sold_moved (d_tiers d) (d_tiers d')
        (\<lambda>ty. (if isAwaitingApproval ord then - order_places (d_items d) oid ty else 0)
              + - live_places (filter (voidable org oid) (d_tickets d)) ty)"
    and ok: "stock_ok d'"
    using refundOrder_moves [OF assms(1,2,4)] by blast
  note o = lockOrder_D [OF l]
  note none = none_voidable [OF tks]
  have l2: "lockOrder org oid d' = Inr (refunded_row ord ord)"
    by (rule lockOrder_upd [OF l ords]) (use o in simp_all)
  obtain ord2 where l2': "lockOrder org oid d' = Inr ord2"
    and n2: "fst r2 = length (filter (voidable org oid) (d_tickets d'))"
    and tks2: "d_tickets d'' = upd (voidable org oid) (\<lambda>t. t\<lparr>t_status := TRefunded\<rparr>) (d_tickets d')"
    and m2: "sold_moved (d_tiers d') (d_tiers d'')
        (\<lambda>ty. (if isAwaitingApproval ord2 then - order_places (d_items d') oid ty else 0)
              + - live_places (filter (voidable org oid) (d_tickets d')) ty)"
    using refundOrder_moves [OF ok assms(3,5)] by blast
  have "d_tiers d'' = d_tiers d'"
    using l2 l2' m2 by (intro sold_moved_zero) (simp add: none live_places_def)
  moreover have "d_tickets d'' = d_tickets d'"
    unfolding tks2 using none by (intro upd_id) (auto simp: filter_empty_conv)
  moreover have "\<forall>k\<in>set (d_tickets d'). t_order k = oid \<and> t_org k = org \<longrightarrow> t_status k \<notin> {TIssued, TCheckedIn}"
    using none by (auto simp: filter_empty_conv voidable_def LIVE_TICKET_STATUSES_def)
  moreover have "d_tiers d' = map (\<lambda>t. t\<lparr>tt_sold := tt_sold t
          - live_places (filter (voidable org oid) (d_tickets d)) (tt_id t)
          - (if isAwaitingApproval ord then order_places (d_items d) oid (tt_id t) else 0)\<rparr>) (d_tiers d)"
    using m by (auto simp: sold_moved_def)
  ultimately show ?thesis using o ords n n2 none by (intro bexI [of _ ord]) simp_all
qed

section \<open>Rejecting\<close>

lemma rejected_row_simps [simp]:
  "o_id (rejected_row u q now x) = o_id x" "o_org (rejected_row u q now x) = o_org x"
  "o_status (rejected_row u q now x) = ORejected" "o_paymentStatus (rejected_row u q now x) = o_paymentStatus x"
  "o_approvalRequestedAt (rejected_row u q now x) = o_approvalRequestedAt x"
  "o_reference (rejected_row u q now x) = o_reference x"
  by (simp_all add: rejected_row_def)

lemma givePlacesBack_fields:
  "givePlacesBack org oid d = Inr d' \<Longrightarrow> d' = d\<lparr>d_tiers := d_tiers d'\<rparr>"
  unfolding givePlacesBack_def by (rule giveBackStock_fields)

text \<open>
  C16. A rejection ends a registration that still waits for a decision: it is rejected by the
  decider, none of its holds is active any more, no ticket is issued or lost, and \<^verbatim>\<open>sold\<close>
  falls by the places it was counted with, if it was. One with money to give back is
  rejected only by somebody who may refund. Rejecting it again changes nothing, and still
  says whether money is due back.
\<close>

theorem reject_gives_back_once:
  assumes "stock_ok d" and "rejectOrder inp d = Inr (r, d')"
    and "rj_org inp2 = rj_org inp" and "rj_order inp2 = rj_order inp"
  shows "\<exists>ord\<in>set (d_orders d). o_id ord = rj_order inp \<and> o_org ord = rj_org inp
    \<and> r = (o_reference ord, rejectionRefunds ord) \<and> rejectOrder inp2 d' = Inr (r, d')
    \<and> (if o_status ord = ORejected then d' = d
       else o_status ord \<in> {OPending, OWaitlisted} \<and> (rejectionRefunds ord \<longrightarrow> rj_mayRefund inp)
         \<and> d_orders d' = upd (\<lambda>x. o_id x = o_id ord)
             (rejected_row (rj_decidedBy inp) (rj_reason inp) (rj_now inp)) (d_orders d)
         \<and> d_tickets d' = d_tickets d \<and> d_assignments d' = d_assignments d
         \<and> (\<forall>h\<in>set (d_holds d'). h_org h = rj_org inp \<and> h_order h = Some (rj_order inp) \<longrightarrow> h_status h \<noteq> HActive)
         \<and> d_tiers d' = map (\<lambda>t. t\<lparr>tt_sold := tt_sold t
               - (if isAwaitingApproval ord then order_places (d_items d) (o_id ord) (tt_id t) else 0)\<rparr>) (d_tiers d))"
proof (cases rule: rejectOrder_shape [OF assms(2)])
  case (1 ord)
  then show ?thesis
    using lockOrder_D [OF 1(1)] assms(3,4) by (intro bexI [of _ ord]) (simp_all add: rejectOrder_def)
next
  case (2 ord d1)
  note o = lockOrder_D [OF 2(1)]
  let ?f = "rejected_row (rj_decidedBy inp) (rj_reason inp) (rj_now inp)"
  have st: "o_status ord \<in> {OPending, OWaitlisted}" "o_status ord \<noteq> ORejected"
    using 2(3) by (auto simp: isRejectable_def AWAITING_DECISION_def)
  have d1: "d1 = d\<lparr>d_tiers := d_tiers d1\<rparr>"
    using 2(5) givePlacesBack_fields by (auto split: if_splits)
  have f: "d_orders d1 = d_orders d" "d_tickets d1 = d_tickets d" "d_assignments d1 = d_assignments d"
    by (subst d1, simp)+
  have ords: "d_orders d' = upd (\<lambda>x. o_id x = o_id ord) ?f (d_orders d)"
    by (simp add: 2(6) f releaseActiveHolds_def)
  have "lockOrder (rj_org inp) (rj_order inp) d' = Inr (?f ord)"
    by (rule lockOrder_upd [OF 2(1)]) (use ords o in simp_all)
  then have again: "rejectOrder inp2 d' = Inr (r, d')"
    using 2(2) assms(3,4) by (simp add: rejectOrder_def rejectionRefunds_def)
  have held: "\<forall>h\<in>set (d_holds d'). h_org h = rj_org inp \<and> h_order h = Some (rj_order inp) \<longrightarrow> h_status h \<noteq> HActive"
    unfolding 2(6) by (auto simp: releaseActiveHolds_def upd_def o)
  obtain ord' where l': "lockOrder (rj_org inp) (rj_order inp) d = Inr ord'"
    and m: "sold_moved (d_tiers d) (d_tiers d')
        (\<lambda>ty. if isAwaitingApproval ord' then - order_places (d_items d) (o_id ord') ty else 0)"
    using rejectOrder_moves [OF assms(1,2)] by blast
  have "ord' = ord" using l' 2(1) by simp
  then have "d_tiers d' = map (\<lambda>t. t\<lparr>tt_sold := tt_sold t
       - (if isAwaitingApproval ord then order_places (d_items d) (o_id ord) (tt_id t) else 0)\<rparr>) (d_tiers d)"
    using m by (auto simp: sold_moved_def)
  then show ?thesis
    using o st 2(2,4) again held ords f(2,3)
    by (intro bexI [of _ ord]) (simp_all add: 2(6) releaseActiveHolds_def)
qed

section \<open>Approving\<close>

text \<open>
  An organizer's approval either issues one ticket for each place and confirms the order in
  the organizer's name, or changes nothing at all and says why, so a transient sell-out
  never ends a registration. Places an awaiting order was counted with are not counted a
  second time.
\<close>

theorem approval_all_or_nothing:
  assumes "stock_ok d" and "so_mode inp = ApprovalMode" and "tx_hook (so_recordPayment inp)"
    and "settleOrder inp d = Inr (r, d')"
  shows "\<exists>ord\<in>set (d_orders d). o_id ord = so_order inp \<and> o_org ord = so_org inp \<and> (case sr_outcome r of
      Settled \<Rightarrow> o_status ord \<in> {OPending, OWaitlisted}
        \<and> (\<exists>i\<in>set (d_items d). oi_order i = so_order inp \<and> sr_ticketCount r = oi_quantity i
             \<and> (\<exists>ks. d_tickets d' = d_tickets d @ ks \<and> int (length ks) = oi_quantity i
                  \<and> (\<forall>k\<in>set ks. t_order k = so_order inp \<and> t_type k = oi_type i \<and> t_status k = TIssued)))
        \<and> d_orders d' = upd (\<lambda>x. o_id x = so_order inp) (settled_row inp) (d_orders d)
        \<and> o_decidedBy (settled_row inp ord) = so_decidedBy inp
        \<and> (isAwaitingApproval ord \<longrightarrow> d_tiers d' = d_tiers d)
    | AlreadySettled \<Rightarrow> o_status ord = OConfirmed \<and> inventory d' = inventory d
    | Unavailable \<Rightarrow> d' = d \<and> sr_ticketCount r = 0
    | _ \<Rightarrow> False)"
proof (rule settleOrder_cases [OF assms(4)], goal_cases)
  case (1 ord)
  note o = lockOrder_D [OF 1(1)]
  from 1(2) show ?case
  proof (elim disjE exE conjE, goal_cases)
    case 5
    obtain line where line: "cx_line (loadSettlement inp ord d) = Some line"
      using settlementBlocker_None [OF 5(2)] by metis
    obtain i where i: "i \<in> set (d_items d)" "oi_order i = o_id ord" "ln_type line = oi_type i" "ln_quantity line = oi_quantity i"
      using loadSettlement_line [OF line] by metis
    have "completeSettlement inp ord (loadSettlement inp ord d) d = Inr (r, d')"
      using 5(3) assms(2) by simp
    then show ?thesis
    proof (rule completeSettlement_shape [OF _ line assms(3)])
      fix d1 ks
      assume ks: "ks = with_ids (d_next d) (map (\<lambda>j. settle_ticket inp ord line (so_mintQrToken inp j))
            [0 ..< nat (ln_quantity line)])"
        and s: "if isAwaitingApproval ord then d1 = d else countSale line d = Inr d1"
          "d_orders d' = upd (\<lambda>x. o_id x = o_id ord) (settled_row inp) (d_orders d)"
          "d_tickets d' = d_tickets d @ ks" "d_tiers d' = d_tiers d1"
          "r = \<lparr>sr_outcome = Settled, sr_reference = o_reference ord, sr_ticketCount = int (length ks), sr_reason = None\<rparr>"
      have "1 \<le> oi_quantity i" using assms(1) i(1) by (simp add: stock_defs)
      moreover have "\<forall>k\<in>set ks. t_order k = so_order inp \<and> t_type k = oi_type i \<and> t_status k = TIssued"
        unfolding ks by (auto dest!: in_with_ids simp: settle_ticket_def o(2) i(3))
      ultimately have "\<exists>i\<in>set (d_items d). oi_order i = so_order inp \<and> sr_ticketCount r = oi_quantity i
             \<and> (\<exists>ks. d_tickets d' = d_tickets d @ ks \<and> int (length ks) = oi_quantity i
                  \<and> (\<forall>k\<in>set ks. t_order k = so_order inp \<and> t_type k = oi_type i \<and> t_status k = TIssued))"
        using settled_tickets(2) [OF ks] i s(3,5) o(2) by (intro bexI [of _ i]) auto
      then show ?thesis
        using o s 5(1) assms(2)
        by (intro bexI [of _ ord]) (auto simp: AWAITING_DECISION_def settled_row_def Let_def)
    qed
  qed (use o assms(2) tx_hook.hook_frame [OF assms(3)] in \<open>auto intro!: bexI [of _ ord]\<close>)
qed

section \<open>Waiting for the decision\<close>

text \<open>
  The seats of a registration that waits for the organizer stay its own: as long as it
  waits, no sweep of stale holds, no other buyer's reservation, no abandoned checkout and no
  lapsed payment attempt takes or frees a seat it holds until the decision.
\<close>

theorem decision_hold_survives:
  assumes "lockOrder org oid d = Inr ord" and "isAwaitingApproval ord"
    and "h \<in> set (d_holds d)" and "h_order h = Some oid" and "h_status h = HActive"
    and "h_expiresAt h = DECISION_HOLD_EXPIRY" and "now < DECISION_HOLD_EXPIRY"
  shows "h \<in> set (d_holds (snd (expireStale org now d)))
    \<and> h \<in> set (d_holds (releaseUnattached org ids d))
    \<and> h \<in> set (d_holds (releaseHoldsForOrder org oid d))
    \<and> (holdSeats org' event tier seats expires now holder d = Inr (q, d') \<longrightarrow> h \<in> set (d_holds d'))"
proof -
  have find: "find (\<lambda>x. o_id x = oid \<and> o_org x = org) (d_orders d) = Some ord"
    using assms(1) by (auto simp: lockOrder_def split: option.splits)
  then have "h \<in> set (d_holds (snd (expireStale org now d)))" "h \<in> set (d_holds (releaseUnattached org ids d))"
    "h \<in> set (d_holds (releaseHoldsForOrder org oid d))"
    using assms by (auto simp: hold_defs Let_def in_set_upd releaseHoldsForOrder_def
        isOnCheckoutClock_def isAwaitingApproval_def intro!: bexI [of _ h])
  moreover have "h \<in> set (d_holds d')" if "holdSeats org' event tier seats expires now holder d = Inr (q, d')"
    using that assms by (auto simp: holdSeats_def expireLapsedForSeats_def in_set_upd Let_def
        split: if_splits intro!: bexI [of _ h])
  ultimately show ?thesis by blast
qed

end
