(* ===== verification/WaitlistProps.thy ===== *)
theory WaitlistProps
  imports Scenario
begin

text \<open>
  The waitlist line: positions and the front of the line agree on one total order, joining
  is repeatable, and an offer takes exactly one registration out of the line.
\<close>

section \<open>The line as a total order\<close>

definition waiting_for :: "ident \<Rightarrow> ident \<Rightarrow> order_row \<times> item_row \<Rightarrow> bool" where
  "waiting_for org ty = (\<lambda>(ord, i). o_org ord = org \<and> o_status ord = OWaitlisted \<and> oi_type i = ty)"

lemma in_line_before_order:
  "\<not> in_line_before a a"
  "in_line_before a b \<Longrightarrow> in_line_before b c \<Longrightarrow> in_line_before a c"
  "o_id a \<noteq> o_id b \<Longrightarrow> in_line_before a b \<or> in_line_before b a"
  by (auto simp: in_line_before_def)

lemma in_order_lines: "(ord, i) \<in> set (order_lines d) \<longleftrightarrow>
    ord \<in> set (d_orders d) \<and> i \<in> set (d_items d) \<and> oi_order i = o_id ord"
  by (auto simp: order_lines_def)

lemma filter_fewer:
  assumes "\<And>x. x \<in> set xs \<Longrightarrow> P x \<Longrightarrow> Q x" and "y \<in> set xs" "Q y" "\<not> P y"
  shows "length (filter P xs) < length (filter Q xs)"
proof -
  have "filter P xs = filter P (filter Q xs)" using assms(1) by (induction xs) auto
  moreover have "length (filter P (filter Q xs)) < length (filter Q xs)"
    using assms(2-4) by (intro length_filter_less [of y]) auto
  ultimately show ?thesis by simp
qed

lemma find_order:
  assumes "stock_ok d" and "ord \<in> set (d_orders d)"
  shows "find (\<lambda>x. o_id x = o_id ord) (d_orders d) = Some ord"
  by (rule find_uniq [of o_id]) (use assms in \<open>auto simp: stock_defs\<close>)

lemma find_item:
  assumes "stock_ok d" and "i \<in> set (d_items d)"
  shows "find (\<lambda>x. oi_order x = oi_order i) (d_items d) = Some i"
  by (rule find_uniq [of oi_order]) (use assms in \<open>auto simp: stock_defs\<close>)

lemma waitlistAhead_line:
  assumes "stock_ok d" and "(me, i) \<in> set (order_lines d)"
  shows "waitlistAhead org (o_id me) d =
    int (length (filter (\<lambda>l. waiting_for org (oi_type i) l \<and> in_line_before (fst l) me) (order_lines d)))"
proof -
  from assms(2) have me: "me \<in> set (d_orders d)" and i: "i \<in> set (d_items d)" "oi_order i = o_id me"
    by (simp_all add: in_order_lines)
  have "o_id ord \<noteq> o_id me" if "in_line_before ord me" "(ord, k) \<in> set (order_lines d)" for ord k
  proof
    assume "o_id ord = o_id me"
    then have "ord = me" using that(2) me assms(1)
      by (auto simp: in_order_lines stock_defs distinct_map inj_on_def)
    with that(1) show False using in_line_before_order(1) by simp
  qed
  then have "filter (\<lambda>(ord, k). o_org ord = org \<and> o_status ord = os_status WAITLISTED \<and> o_id ord \<noteq> o_id me
        \<and> oi_type k = oi_type i \<and> in_line_before ord me) (order_lines d)
      = filter (\<lambda>l. waiting_for org (oi_type i) l \<and> in_line_before (fst l) me) (order_lines d)"
    by (intro filter_cong) (auto simp: waiting_for_def WAITLISTED_def)
  with find_order [OF assms(1) me] find_item [OF assms(1) i(1)] i(2) show ?thesis
    by (simp add: waitlistAhead_def)
qed

lemma ahead_mono:
  assumes "stock_ok d" and "(a, i) \<in> set (order_lines d)" and "(b, j) \<in> set (order_lines d)"
    and "waiting_for org ty (a, i)" and "oi_type j = ty" and "in_line_before a b"
  shows "waitlistAhead org (o_id a) d < waitlistAhead org (o_id b) d"
proof -
  have ty: "oi_type i = ty" using assms(4) by (simp add: waiting_for_def)
  have "length (filter (\<lambda>l. waiting_for org ty l \<and> in_line_before (fst l) a) (order_lines d))
      < length (filter (\<lambda>l. waiting_for org ty l \<and> in_line_before (fst l) b) (order_lines d))"
    by (rule filter_fewer [of _ _ _ "(a, i)"])
      (use assms in_line_before_order in \<open>auto\<close>)
  then show ?thesis
    using waitlistAhead_line [OF assms(1,2)] waitlistAhead_line [OF assms(1,3)] ty assms(5) by simp
qed

section \<open>The front\<close>

lemma hd_sort_two_keys:
  assumes "sort_key f (sort_key g xs) = e # rest" and "x \<in> set xs"
  shows "f e < f x \<or> f e = f x \<and> g e \<le> g (x :: 'a)"
proof -
  have set: "set (e # rest) = set xs" by (subst assms(1) [symmetric]) simp
  have "sorted (map f (e # rest))" by (subst assms(1) [symmetric]) (rule sorted_sort_key)
  then have le: "f e \<le> f x" using set assms(2) by auto
  have "g e \<le> g x" if "f e = f x"
  proof -
    have "filter (\<lambda>y. f y = f e) (e # rest) = filter (\<lambda>y. f y = f e) (sort_key g xs)"
      using sort_key_stable [of f "f e" "sort_key g xs"] by (simp add: assms(1))
    moreover have "sorted (map g (filter (\<lambda>y. f y = f e) (sort_key g xs)))"
      by (rule sorted_filter) simp
    ultimately have "sorted (map g (e # filter (\<lambda>y. f y = f e) rest))" by simp
    moreover have "x \<in> set (e # filter (\<lambda>y. f y = f e) rest)" using set assms(2) that by auto
    ultimately show ?thesis by auto
  qed
  with le show ?thesis by force
qed

lemma in_waitlist_rows:
  "e \<in> set (waitlist_rows d) \<longleftrightarrow> (\<exists>i t. (we_order e, i) \<in> set (order_lines d) \<and> t \<in> set (d_tiers d)
     \<and> tt_id t = oi_type i \<and> e = \<lparr>we_order = we_order e, we_type = oi_type i, we_typeName = tt_name t,
          we_quantity = oi_quantity i\<rparr>)"
  by (cases e) (fastforce simp: waitlist_rows_def)

text \<open>
  The line for a ticket type is one total order, and everybody who reads it reads the
  same: two people waiting for it never have the same number of people ahead, whoever comes
  before has fewer, and the one the next free place is offered to is the one nobody is ahead
  of. The line has a front unless nobody waits.
\<close>

theorem waitlist_line:
  assumes "stock_ok d" and "(a, i) \<in> set (order_lines d)" and "waiting_for org ty (a, i)"
    and "(b, j) \<in> set (order_lines d)" and "waiting_for org ty (b, j)" and "a \<noteq> b"
    and "t \<in> set (d_tiers d)" and "tt_id t = ty"
  shows "waitlistAhead org (o_id a) d \<noteq> waitlistAhead org (o_id b) d
    \<and> (waitlistAhead org (o_id a) d < waitlistAhead org (o_id b) d \<longleftrightarrow> in_line_before a b)
    \<and> (\<exists>e. frontOfLine org ty d = Some e \<and> we_type e = ty \<and> o_status (we_order e) = OWaitlisted
         \<and> waitlistAhead org (o_id (we_order e)) d = 0)"
proof -
  have ids: "o_id a \<noteq> o_id b"
    using assms(1,2,4,6) by (auto simp: in_order_lines stock_defs distinct_map inj_on_def)
  have ty: "oi_type i = ty" "oi_type j = ty" using assms(3,5) by (simp_all add: waiting_for_def)
  have ab: "in_line_before a b \<Longrightarrow> waitlistAhead org (o_id a) d < waitlistAhead org (o_id b) d"
    and ba: "in_line_before b a \<Longrightarrow> waitlistAhead org (o_id b) d < waitlistAhead org (o_id a) d"
    using ahead_mono [OF assms(1,2,4,3) ty(2)] ahead_mono [OF assms(1,4,2,5) ty(1)] by blast+
  let ?line = "filter (\<lambda>e. o_org (we_order e) = org \<and> o_status (we_order e) = os_status WAITLISTED
      \<and> we_type e = ty) (waitlist_rows d)"
  let ?entry = "\<lambda>o' k. \<lparr>we_order = o', we_type = ty, we_typeName = tt_name t, we_quantity = oi_quantity k\<rparr>"
  have in_line: "?entry o' k \<in> set ?line" if "(o', k) \<in> set (order_lines d)" "waiting_for org ty (o', k)" for o' k
    using that assms(7,8)
    by (auto simp: in_waitlist_rows waiting_for_def WAITLISTED_def intro!: exI [of _ k] exI [of _ t])
  let ?sorted = "sort_key (\<lambda>e. o_registeredAt (we_order e)) (sort_key (\<lambda>e. o_id (we_order e)) ?line)"
  have "set ?sorted = set ?line" by simp
  with in_line [OF assms(2,3)] have "?sorted \<noteq> []" by (metis empty_iff empty_set)
  then obtain e rest where e: "?sorted = e # rest" by (cases ?sorted) auto
  have "e \<in> set ?line" using \<open>set ?sorted = set ?line\<close> e by (metis list.set_intros(1))
  then have "e \<in> set (waitlist_rows d)" and st: "we_type e = ty" "o_status (we_order e) = OWaitlisted"
    and org: "o_org (we_order e) = org" by (simp_all add: WAITLISTED_def)
  then obtain k where k: "(we_order e, k) \<in> set (order_lines d)" "oi_type k = we_type e"
    unfolding in_waitlist_rows by (metis waitlist_entry.select_convs(2))
  have "\<not> in_line_before (fst l) (we_order e)" if "l \<in> set (order_lines d)" "waiting_for org ty l" for l
    using hd_sort_two_keys [OF e in_line [of "fst l" "snd l"]] that by (auto simp: in_line_before_def)
  then have "waitlistAhead org (o_id (we_order e)) d = 0"
    using waitlistAhead_line [OF assms(1) k(1), of org] k(2) st(1) by (auto simp: filter_empty_conv)
  moreover have "frontOfLine org ty d = Some e" using e by (simp add: frontOfLine_def)
  ultimately show ?thesis using ab ba in_line_before_order(3) [OF ids] st by fastforce
qed

section \<open>Joining and being offered a place\<close>

lemma insertWaitlistEntry_D:
  assumes "insertWaitlistEntry inp d = Inr (ord, d')"
  obtains aid d1 where "ord = new_order_row (waitlist_insert inp) aid WAITLISTED d1" "d_next d \<le> d_next d1"
    "d_orders d' = d_orders d @ [ord]" "d_tickets d' = d_tickets d" "d_tiers d' = d_tiers d" "d_holds d' = d_holds d"
    "\<exists>i. d_items d' = d_items d @ [i] \<and> oi_order i = o_id ord \<and> oi_type i = jw_type inp
        \<and> oi_quantity i = jw_quantity inp"
proof -
  obtain aid d1 where up: "upsertAttendee (jw_org inp) (jw_buyer inp) d = (aid, d1)" by fastforce
  note U = upsertAttendee_D [OF up]
  from assms obtain d2 it where o: "insertOrder (waitlist_insert inp) aid WAITLISTED d1 = Inr (ord, d2)"
    and i: "insertOrderItem (jw_org inp) (jw_type inp) (jw_quantity inp) (jw_unitPrice inp)
        (jw_totals inp) (o_id ord) d2 = Inr (it, d')"
    by (auto simp: insertWaitlistEntry_def up Let_def bindE_Inr_iff)
  note O = insertOrder_D [OF o] and I = insertOrderItem_D [OF i]
  show ?thesis
    by (rule that [of aid d1]) (use O I U in simp_all)
qed

lemma alreadyWaiting_new:
  assumes "stock_ok d" and "insertWaitlistEntry inp d = Inr (ord, d')" and "alreadyWaiting inp d = None"
    and "jw_org inp2 = jw_org inp" "jw_event inp2 = jw_event inp" "jw_type inp2 = jw_type inp"
    and "ci_eq (b_email (jw_buyer inp)) (b_email (jw_buyer inp2))"
  shows "alreadyWaiting inp2 d' = Some ord"
proof (rule insertWaitlistEntry_D [OF assms(2)], goal_cases)
  case (1 aid d1)
  define P :: "join_waitlist_input \<Rightarrow> order_row \<times> item_row \<Rightarrow> bool" where "P inp = (\<lambda>(ord, i). o_org ord = jw_org inp \<and> o_event ord = jw_event inp
       \<and> ci_eq (o_buyerEmail ord) (b_email (jw_buyer inp)) \<and> o_status ord = os_status WAITLISTED
       \<and> oi_type i = jw_type inp)" for inp
  from 1(7) obtain it where it: "d_items d' = d_items d @ [it]" "oi_order it = o_id ord" "oi_type it = jw_type inp"
    by blast
  have fresh: "o_id x < o_id ord" if "x \<in> set (d_orders d)" for x
    using assms(1) that 1(1,2) by (force simp: stock_defs)
  have "(ord, it) \<in> set (order_lines d')" by (simp add: in_order_lines 1(3) it)
  moreover have "P inp2 (ord, it)"
    using assms(4-7) it(3) by (simp add: P_def 1(1) new_order_row_def waitlist_insert_def WAITLISTED_def)
  ultimately obtain l where l: "find (P inp2) (order_lines d') = Some l"
    by (metis find_None_iff not_Some_eq)
  have "fst l = ord"
  proof (rule ccontr)
    assume ne: "fst l \<noteq> ord"
    from find_SomeD [OF l] have "l \<in> set (order_lines d')" "P inp2 l" by simp_all
    with ne fresh it have "l \<in> set (order_lines d)" by (cases l) (force simp: in_order_lines 1(3))
    moreover have "P inp l"
      using \<open>P inp2 l\<close> assms(4-6) ci_eq_trans [OF _ ci_eq_sym [OF assms(7)]] by (cases l) (simp add: P_def)
    ultimately show False
      using assms(3) by (auto simp: alreadyWaiting_def P_def find_None_iff)
  qed
  with l show ?thesis by (simp add: alreadyWaiting_def P_def)
qed

text \<open>
  Joining the waitlist takes nothing from anybody and can be repeated: no ticket, no count
  and no hold changes, a new entry waits with its key and its ticket, and once somebody has
  joined, a request with that key or from that address for that ticket (whatever its letter
  case) writes nothing and answers with the entry already there.
\<close>

theorem join_waitlist_repeatable:
  assumes "stock_ok d" and "joinWaitlist inp d = Inr ((ord, n), d')" and "jw_org inp2 = jw_org inp"
    and "jw_idempotencyKey inp2 = jw_idempotencyKey inp
      \<or> findByIdempotencyKey (jw_org inp) (jw_idempotencyKey inp2) d' = None
        \<and> jw_event inp2 = jw_event inp \<and> jw_type inp2 = jw_type inp
        \<and> ci_eq (b_email (jw_buyer inp)) (b_email (jw_buyer inp2))"
  shows "d_tickets d' = d_tickets d \<and> d_tiers d' = d_tiers d \<and> d_holds d' = d_holds d
    \<and> n = waitlistAhead (jw_org inp) (o_id ord) d' + 1
    \<and> (d' = d \<or> d_orders d' = d_orders d @ [ord] \<and> o_status ord = OWaitlisted \<and> o_paymentStatus ord = PPending
         \<and> joinWaitlist inp2 d' = Inr ((ord, n), d'))"
proof (cases "\<exists>x. (case findByIdempotencyKey (jw_org inp) (jw_idempotencyKey inp) d of
                        Some (ord, _) \<Rightarrow> Some ord | None \<Rightarrow> alreadyWaiting inp d) = Some x")
  case True
  with assms(2) show ?thesis by (auto simp: joinWaitlist_def)
next
  case False
  with assms(2) have ins: "insertWaitlistEntry inp d = Inr (ord, d')"
    and n: "n = waitlistAhead (jw_org inp) (o_id ord) d' + 1"
    by (auto simp: joinWaitlist_def bindE_Inr_iff)
  from False have none: "findByIdempotencyKey (jw_org inp) (jw_idempotencyKey inp) d = None"
    "alreadyWaiting inp d = None" by (auto split: option.splits)
  show ?thesis
  proof (rule insertWaitlistEntry_D [OF ins], goal_cases)
    case (1 aid d1)
    have row: "o_org ord = jw_org inp" "o_idempotencyKey ord = Some (jw_idempotencyKey inp)"
      "o_status ord = OWaitlisted" "o_paymentStatus ord = PPending"
      by (simp_all add: 1(1) new_order_row_def waitlist_insert_def WAITLISTED_def)
    have "find (\<lambda>x. o_org x = jw_org inp \<and> o_idempotencyKey x = Some (jw_idempotencyKey inp)) (d_orders d') = Some ord"
      using none(1) row by (simp add: 1(3) find_append findByIdempotencyKey_def)
    then have key: "findByIdempotencyKey (jw_org inp) (jw_idempotencyKey inp) d'
        = Some (ord, sort_key t_id (filter (\<lambda>t. t_order t = o_id ord) (d_tickets d')))"
      by (simp add: findByIdempotencyKey_def)
    have "joinWaitlist inp2 d' = Inr ((ord, n), d')"
      using assms(4)
    proof (elim disjE conjE)
      assume "jw_idempotencyKey inp2 = jw_idempotencyKey inp"
      then show ?thesis by (simp add: joinWaitlist_def assms(3) key n)
    next
      assume "findByIdempotencyKey (jw_org inp) (jw_idempotencyKey inp2) d' = None"
        "jw_event inp2 = jw_event inp" "jw_type inp2 = jw_type inp"
        "ci_eq (b_email (jw_buyer inp)) (b_email (jw_buyer inp2))"
      then show ?thesis
        using alreadyWaiting_new [OF assms(1) ins none(2) assms(3)] by (simp add: joinWaitlist_def assms(3) n)
    qed
    with 1 row n show ?thesis by simp
  qed
qed

end
