(* ===== verification/Witnesses.thy ===== *)
theory Witnesses
  imports CheckoutProps DecisionProps WaitlistProps
begin

text \<open>
  The properties of the lower theories and of the checkout, each applied to the scenario:
  every hypothesis is met there by databases the transactions themselves produced.
\<close>

section \<open>The checkout\<close>

lemma demo_stock_ok: "stock_ok demo_db" "stock_ok demo_held" "stock_ok demo_sold" "stock_ok demo_unpaid"
  "stock_ok demo_settled" "stock_ok demo_waiting"
  using reachable_inv reachable_start [OF demo_nothing_sold] demo_held_reachable demo_sold_reachable
    demo_unpaid_reachable demo_settled_reachable demo_waiting_reachable by blast+

lemma demo_payment_hook: "tx_hook (so_recordPayment (demo_payment q))"
  by (simp add: demo_payment_def approval_hook.tx_hook_axioms)

theorem place_replay_witness:
  "\<exists>r. placeOrder (demo_order\<lparr>po_quantity := 1\<rparr>) demo_sold = Inr (r, demo_sold) \<and> pr_replayed r"
proof -
  obtain r where "placeOrder demo_order demo_held = Inr (r, demo_sold)" using demo_place_ok by blast
  from place_replay [OF demo_stock_ok(2) this, of "demo_order\<lparr>po_quantity := 1\<rparr>"] show ?thesis by simp
qed

theorem place_issues_tickets_witness:
  "map t_qrToken (d_tickets demo_sold) = [''q1'', ''q2''] \<and> list_all (\<lambda>h. h_status h = HConverted) (d_holds demo_sold)"
proof -
  obtain r where r: "placeOrder demo_order demo_held = Inr (r, demo_sold)" using demo_place_ok by blast
  have "findByIdempotencyKey 1 ''k1'' demo_held = None" by code_simp
  then have "\<not> pr_replayed r"
    using r by (auto simp: placeOrder_def Let_def bindE_Inr_iff demo_order_def split: prod.splits)
  note P = place_issues_tickets [OF r this, THEN conjunct1]
  have o: "po_issueTickets demo_order" "po_qrTokens demo_order = [''q1'', ''q2'']" "d_tickets demo_held = []"
    "po_org demo_order = 1" "set (po_holdIds demo_order) = {10, 11}" by code_simp+
  have "\<forall>h\<in>set (d_holds demo_sold). h_org h = 1 \<and> h_id h \<in> {10, 11}"
    unfolding demo_sold_def by code_simp
  with P o show ?thesis by (auto simp: list_all_iff)
qed


theorem settle_exactly_once_witness:
  "\<exists>r d. settleOrder (demo_payment ''y'') demo_settled = Inr (r, d) \<and> sr_outcome r = AlreadySettled
     \<and> inventory d = inventory demo_settled"
proof -
  obtain r where r: "settleOrder (demo_payment ''x'') demo_unpaid = Inr (r, demo_settled)"
    using demo_settle_ok by blast
  have "map_sum id (sr_outcome \<circ> fst) (settleOrder (demo_payment ''x'') demo_unpaid) = Inr Settled"
    by code_simp
  then have s: "sr_outcome r = Settled" by (simp add: r)
  have "\<not> isl (settleOrder (demo_payment ''y'') demo_settled)" unfolding demo_settled_def by code_simp
  then obtain r2 d where r2: "settleOrder (demo_payment ''y'') demo_settled = Inr (r2, d)"
    by (metis sum.collapse(2) prod.collapse)
  have "so_org (demo_payment ''y'') = so_org (demo_payment ''x'')" "so_order (demo_payment ''y'') = so_order (demo_payment ''x'')"
    by (simp_all add: demo_payment_def)
  from settle_exactly_once [OF demo_stock_ok(4) r s demo_payment_hook demo_payment_hook this r2]
  show ?thesis using r2 by blast
qed

section \<open>Decisions\<close>

definition demo_refunded :: db where
  "demo_refunded = committed demo_settled (refundOrder 1 11 no_payment 30 demo_settled)"

theorem refund_gives_back_once_witness:
  "\<exists>r d. refundOrder 1 11 no_payment 40 demo_refunded = Inr (r, d) \<and> fst r = 0
     \<and> d_tiers d = d_tiers demo_refunded
     \<and> list_all (\<lambda>k. t_status k \<notin> {TIssued, TCheckedIn}) (d_tickets demo_refunded)"
proof -
  have "list_all (\<lambda>k. t_order k = 11 \<and> t_org k = 1) (d_tickets demo_refunded)"
    unfolding demo_refunded_def demo_settled_def by code_simp
  then have own: "\<forall>k\<in>set (d_tickets demo_refunded). t_order k = 11 \<and> t_org k = 1" by (simp add: list_all_iff)
  have "\<not> isl (refundOrder 1 11 no_payment 30 demo_settled)" unfolding demo_settled_def by code_simp
  then obtain r where r: "refundOrder 1 11 no_payment 30 demo_settled = Inr (r, demo_refunded)"
    unfolding demo_refunded_def by (metis committed_ok)
  have "\<not> isl (refundOrder 1 11 no_payment 40 demo_refunded)"
    unfolding demo_refunded_def demo_settled_def by code_simp
  then obtain r2 d where r2: "refundOrder 1 11 no_payment 40 demo_refunded = Inr (r2, d)"
    by (metis sum.collapse(2) prod.collapse)
  from refund_gives_back_once [OF demo_stock_ok(5) approval_hook.tx_hook_axioms approval_hook.tx_hook_axioms r r2]
  have "list_all (\<lambda>k. t_status k \<notin> {TIssued, TCheckedIn}) (d_tickets demo_refunded)"
    "fst r2 = 0" "d_tiers d = d_tiers demo_refunded" using own by (auto simp: list_all_iff)
  then show ?thesis using r2 by blast
qed

definition demo_rejection :: "ident \<Rightarrow> reject_order_input" where
  "demo_rejection oid = \<lparr>rj_org = 1, rj_order = oid, rj_decidedBy = 9, rj_reason = None, rj_mayRefund = False,
     rj_buildRejectedEvent = (\<lambda>ord. RegistrationRejected (o_org ord) (o_id ord) None), rj_now = 30\<rparr>"

theorem reject_gives_back_once_witness:
  "\<exists>r d. rejectOrder (demo_rejection 13) demo_waiting = Inr (r, d) \<and> rejectOrder (demo_rejection 13) d = Inr (r, d)
     \<and> d_tickets d = d_tickets demo_waiting"
proof -
  have "\<not> isl (rejectOrder (demo_rejection 13) demo_waiting)" unfolding demo_waiting_def by code_simp
  then obtain r d where r: "rejectOrder (demo_rejection 13) demo_waiting = Inr (r, d)"
    by (metis sum.collapse(2) prod.collapse)
  from reject_gives_back_once [OF demo_stock_ok(6) r refl refl] show ?thesis
    using r by (auto split: if_splits)
qed

definition demo_approval :: settle_order_input where
  "demo_approval = (demo_payment ''z'')\<lparr>so_order := 13, so_mode := ApprovalMode, so_decidedBy := Some 9\<rparr>"

theorem approval_all_or_nothing_witness:
  "\<exists>r d. settleOrder demo_approval demo_waiting = Inr (r, d) \<and> sr_outcome r = Settled
     \<and> (\<exists>ks. d_tickets d = d_tickets demo_waiting @ ks)"
proof -
  have e: "map_sum id (sr_outcome \<circ> fst) (settleOrder demo_approval demo_waiting) = Inr Settled"
    unfolding demo_waiting_def by code_simp
  then obtain r d where r: "settleOrder demo_approval demo_waiting = Inr (r, d)" "sr_outcome r = Settled"
    by (cases "settleOrder demo_approval demo_waiting") auto
  have "so_mode demo_approval = ApprovalMode" "tx_hook (so_recordPayment demo_approval)"
    using demo_payment_hook by (simp_all add: demo_approval_def)
  from approval_all_or_nothing [OF demo_stock_ok(6) this r(1)] r show ?thesis by auto
qed

theorem decision_hold_survives_witness:
  "\<exists>h\<in>set (d_holds demo_waiting). h \<in> set (d_holds (snd (expireStale 1 999999 demo_waiting)))
     \<and> h \<in> set (d_holds (releaseUnattached 1 [h_id h] demo_waiting))"
proof -
  have "\<exists>h\<in>set (d_holds demo_waiting). h_order h = Some 13 \<and> h_status h = HActive \<and> h_expiresAt h = DECISION_HOLD_EXPIRY"
    unfolding demo_waiting_def by code_simp
  then obtain h where h: "h \<in> set (d_holds demo_waiting)" "h_order h = Some 13" "h_status h = HActive"
    "h_expiresAt h = DECISION_HOLD_EXPIRY" by blast
  have "map_sum id isAwaitingApproval (lockOrder 1 13 demo_waiting) = Inr True"
    unfolding demo_waiting_def by code_simp
  then obtain ord where ord: "lockOrder 1 13 demo_waiting = Inr ord" "isAwaitingApproval ord"
    by (cases "lockOrder 1 13 demo_waiting") auto
  have "(999999::int) < DECISION_HOLD_EXPIRY" by (simp add: DECISION_HOLD_EXPIRY_def)
  from decision_hold_survives [OF ord h this] show ?thesis using h(1) by blast
qed

section \<open>Holds\<close>

lemma demo_quantity_ok: "\<exists>h d'. holdQuantity 1 7 3 2 600 0 None demo_db = Inr (HeldQuantity h, d')"
proof -
  have "(case holdQuantity 1 7 3 2 600 0 None demo_db of Inr (HeldQuantity h, d') \<Rightarrow> True | _ \<Rightarrow> False)"
    by code_simp
  then show ?thesis by (auto split: sum.splits prod.splits hold_quantity_result.splits)
qed

theorem hold_quantity_never_oversells_witness:
  "\<exists>h d'. holdQuantity 1 7 3 2 600 0 None demo_db = Inr (HeldQuantity h, d') \<and> h_quantity h = 2
     \<and> (\<exists>t\<in>set (d_tiers d'). tt_id t = 3 \<and> tt_sold t + activeHeldQuantity 1 3 d' \<le> tt_total t)"
proof -
  obtain h d' where h: "holdQuantity 1 7 3 2 600 0 None demo_db = Inr (HeldQuantity h, d')"
    using demo_quantity_ok by blast
  from hold_quantity_never_oversells [OF h] h show ?thesis by blast
qed

theorem hold_seats_all_or_nothing_witness:
  "\<exists>r. holdSeats 1 7 2 [4, 5] 600 0 None demo_db = Inr (r, demo_held)
     \<and> (case r of HeldSeats hs \<Rightarrow> map h_seat hs = [Some 4, Some 5] | UnavailableSeats u \<Rightarrow> False)"
proof -
  obtain r where r: "holdSeats 1 7 2 [4, 5] 600 0 None demo_db = Inr (r, demo_held)" using demo_hold_ok by blast
  have "map_sum id (case_prod (\<lambda>r d. case r of HeldSeats _ \<Rightarrow> True | UnavailableSeats _ \<Rightarrow> False))
      (holdSeats 1 7 2 [4, 5] 600 0 None demo_db) = Inr True" by code_simp
  then have "case r of HeldSeats _ \<Rightarrow> True | UnavailableSeats _ \<Rightarrow> False" unfolding r by simp
  then obtain hs where "r = HeldSeats hs" by (cases r) simp_all
  with hold_seats_all_or_nothing [OF r] r show ?thesis by simp
qed

theorem hold_quantity_only_when_purchasable_witness:
  "\<exists>h d'. svc_holdQuantity 600 1 7 3 2 None 0 demo_db = (Inr h, d') \<and> h_expiresAt h = 600000"
proof -
  have "isl (fst (svc_holdQuantity 600 1 7 3 2 None 0 demo_db)) = False" by code_simp
  then obtain h d' where h: "svc_holdQuantity 600 1 7 3 2 None 0 demo_db = (Inr h, d')"
    by (metis sum.collapse(2) prod.collapse)
  from hold_quantity_only_when_purchasable [OF h] h show ?thesis by simp
qed

theorem hold_seats_only_when_tiers_open_witness:
  "\<exists>hs d'. svc_holdSeats 600 1 7 2 [4, 5, 4] None 0 demo_db = (Inr hs, d') \<and> map h_seat hs = [Some 4, Some 5]"
proof -
  have "isl (fst (svc_holdSeats 600 1 7 2 [4, 5, 4] None 0 demo_db)) = False" by code_simp
  then obtain h d' where h: "svc_holdSeats 600 1 7 2 [4, 5, 4] None 0 demo_db = (Inr h, d')"
    by (metis sum.collapse(2) prod.collapse)
  have "dedupe [4, 5, 4 :: ident] = [4, 5]" by code_simp
  with hold_seats_only_when_tiers_open [OF h] h show ?thesis by auto
qed

theorem offer_hold_is_attached_witness:
  "\<exists>h d'. holdForOffer 1 7 3 2 11 600 0 demo_unpaid = (Inr (Some h), d') \<and> h_order h = Some 11"
proof -
  have "(case holdForOffer 1 7 3 2 11 600 0 demo_unpaid of (Inr (Some h), d') \<Rightarrow> True | _ \<Rightarrow> False)"
    unfolding demo_unpaid_def by code_simp
  then obtain h d' where h: "holdForOffer 1 7 3 2 11 600 0 demo_unpaid = (Inr (Some h), d')"
    by (auto split: sum.splits prod.splits option.splits)
  from offer_hold_is_attached [rule_format, OF h] h show ?thesis by auto
qed

section \<open>Codes\<close>

definition demo_redemption :: "ident \<Rightarrow> redemption_row" where
  "demo_redemption oid = \<lparr>rd_org = 1, rd_code = 3, rd_order = oid, rd_buyerEmail = ''ann@example.com'', rd_amount = 100\<rparr>"

theorem redeem_keeps_ledger_witness:
  "\<exists>d. redeemIn (demo_redemption 11) demo_db = Inr d \<and> ledger_agrees d
     \<and> redeemIn (demo_redemption 12) d = Inl REDEMPTION_LIMIT_REACHED"
proof -
  have "map_sum id (\<lambda>d. redeemIn (demo_redemption 12) d = Inl REDEMPTION_LIMIT_REACHED)
      (redeemIn (demo_redemption 11) demo_db) = Inr True" by code_simp
  then obtain d where d: "redeemIn (demo_redemption 11) demo_db = Inr d"
    "redeemIn (demo_redemption 12) d = Inl REDEMPTION_LIMIT_REACHED"
    by (cases "redeemIn (demo_redemption 11) demo_db") auto
  have "ledger_agrees demo_db" by code_simp
  from redeem_keeps_ledger [OF this d(1)] d show ?thesis by blast
qed

theorem redeem_once_per_order_witness:
  "\<exists>d. redeemIn (demo_redemption 11) demo_db = Inr d \<and> redeemIn (demo_redemption 11) d = Inr d"
proof -
  have "isl (redeemIn (demo_redemption 11) demo_db) = False" by code_simp
  then obtain d where d: "redeemIn (demo_redemption 11) demo_db = Inr d" by (metis sum.collapse(2))
  with redeem_once_per_order [of "demo_redemption 11" demo_db d] show ?thesis by blast
qed

section \<open>Selections and placements\<close>

theorem resolved_seats_sell_under_tier_witness:
  "\<exists>s. resolveSeats (seatsForEvent 1 7 0 [] demo_db) [5] 2 = Inr s \<and> map cs_id s = [5]"
proof -
  have "isl (resolveSeats (seatsForEvent 1 7 0 [] demo_db) [5] 2) = False" by code_simp
  then obtain s where s: "resolveSeats (seatsForEvent 1 7 0 [] demo_db) [5] 2 = Inr s" by (metis sum.collapse(2))
  then show ?thesis using resolved_seats_sell_under_tier [OF s] by (intro exI [of _ s] conjI) simp_all
qed

theorem placement_trichotomy_witness:
  "\<not> pm_requiresApproval (placementFor \<lparr>pl_requiresApproval = True, pl_paymentRequired = False, pl_organizerEntry = True\<rparr>)"
  using placement_trichotomy [of "\<lparr>pl_requiresApproval = True, pl_paymentRequired = False, pl_organizerEntry = True\<rparr>"]
  by (simp add: Let_def)

section \<open>The door\<close>

definition demo_scan :: "ident \<Rightarrow> instant \<Rightarrow> admit_input" where
  "demo_scan t now = \<lparr>ad_org = 1, ad_event = 7, ad_ticket = t, ad_attendee = None, ad_checkedInBy = 9,
     ad_now = now, ad_method = ''qr'', ad_station = None, ad_tokenFingerprint = None\<rparr>"

theorem scan_outcomes_witness:
  "\<exists>r d'. admit 1 9 8 (findTicketByToken 1 ''q1'' demo_sold) \<lparr>sx_method = ''qr'', sx_station = None,
       sx_tokenFingerprint = None\<rparr> 0 demo_sold = (r, d') \<and> sn_outcome r = WrongEvent
     \<and> d' = demo_sold\<lparr>d_scans := d_scans d'\<rparr>"
proof -
  let ?t = "findTicketByToken 1 ''q1'' demo_sold"
  let ?c = "\<lparr>sx_method = ''qr'', sx_station = None, sx_tokenFingerprint = None\<rparr> :: scan_context"
  obtain r d' where a: "admit 1 9 8 ?t ?c 0 demo_sold = (r, d')" by fastforce
  have "map_option t_event ?t = Some 7" unfolding demo_sold_def by code_simp
  then obtain t where "?t = Some t" "t_event t = 7" by (cases ?t) auto
  with scan_outcomes [OF a] have o: "sn_outcome r = WrongEvent" by simp
  with scan_outcomes [OF a] have "d' = demo_sold\<lparr>d_scans := d_scans d'\<rparr>" by simp
  with a o show ?thesis by blast
qed


theorem door_window_witness:
  "snd (undo (\<lambda>_ _. Some \<lparr>de_id = 7, de_status = Cancelled, de_startAt = 0, de_endAt = None\<rparr>) 1 9 7 14 0 demo_sold) = demo_sold"
  using door_window [of "\<lparr>de_id = 7, de_status = Cancelled, de_startAt = 0, de_endAt = None\<rparr>" 0
      "\<lambda>_ _. Some \<lparr>de_id = 7, de_status = Cancelled, de_startAt = 0, de_endAt = None\<rparr>" 1 7 id 9 demo_sold]
  by simp

section \<open>The line\<close>

definition demo_join :: "string \<Rightarrow> string \<Rightarrow> join_waitlist_input" where
  "demo_join key mail = \<lparr>jw_org = 1, jw_event = 7, jw_reference = key, jw_idempotencyKey = key,
     jw_buyer = \<lparr>b_name = ''Bo'', b_email = mail, b_phone = None\<rparr>, jw_type = 3, jw_quantity = 1,
     jw_unitPrice = 1000, jw_totals = demo_totals 1000, jw_now = 0\<rparr>"

definition demo_line1 :: db where
  "demo_line1 = committed demo_db (joinWaitlist (demo_join ''w1'' ''bo@example.com'') demo_db)"

definition demo_line2 :: db where
  "demo_line2 = committed demo_line1 (joinWaitlist (demo_join ''w2'' ''cy@example.com'') demo_line1)"

lemma demo_line1_ok: "\<exists>r. joinWaitlist (demo_join ''w1'' ''bo@example.com'') demo_db = Inr (r, demo_line1)"
  unfolding demo_line1_def by (rule committed_ok) code_simp

lemma demo_line_reachable: "reachable demo_line1" "reachable demo_line2"
proof -
  show 1: "reachable demo_line1"
  proof -
    obtain r where "joinWaitlist (demo_join ''w1'' ''bo@example.com'') demo_db = Inr (r, demo_line1)"
      using demo_line1_ok by blast
    moreover have "\<forall>t\<in>set (d_tiers demo_db). tt_id t = jw_type (demo_join ''w1'' ''bo@example.com'')
        \<longrightarrow> tt_org t = jw_org (demo_join ''w1'' ''bo@example.com'')" by code_simp
    ultimately show ?thesis
      by (intro reachable_step [OF reachable_start [OF demo_nothing_sold]] inventory_step.joined)
  qed
  have "\<exists>r. joinWaitlist (demo_join ''w2'' ''cy@example.com'') demo_line1 = Inr (r, demo_line2)"
    unfolding demo_line2_def demo_line1_def by (rule committed_ok) code_simp
  then obtain r where "joinWaitlist (demo_join ''w2'' ''cy@example.com'') demo_line1 = Inr (r, demo_line2)" ..
  moreover have "\<forall>t\<in>set (d_tiers demo_line1). tt_id t = jw_type (demo_join ''w2'' ''cy@example.com'')
      \<longrightarrow> tt_org t = jw_org (demo_join ''w2'' ''cy@example.com'')" unfolding demo_line1_def by code_simp
  ultimately show "reachable demo_line2"
    by (intro reachable_step [OF 1] inventory_step.joined)
qed

theorem waitlist_line_witness:
  "\<exists>e. frontOfLine 1 3 demo_line2 = Some e \<and> waitlistAhead 1 (o_id (we_order e)) demo_line2 = 0"
proof -
  have "\<exists>l\<in>set (order_lines demo_line2). \<exists>m\<in>set (order_lines demo_line2).
      waiting_for 1 3 l \<and> waiting_for 1 3 m \<and> fst l \<noteq> fst m"
    unfolding demo_line2_def demo_line1_def by code_simp
  then obtain a i b j where l: "(a, i) \<in> set (order_lines demo_line2)" "waiting_for 1 3 (a, i)"
    "(b, j) \<in> set (order_lines demo_line2)" "waiting_for 1 3 (b, j)" "a \<noteq> b" by fastforce
  have "\<exists>t\<in>set (d_tiers demo_line2). tt_id t = 3"
    unfolding demo_line2_def demo_line1_def by code_simp
  then obtain t where t: "t \<in> set (d_tiers demo_line2)" "tt_id t = 3" by blast
  have "stock_ok demo_line2" using reachable_inv demo_line_reachable by blast
  from waitlist_line [OF this l t] show ?thesis by blast
qed

theorem join_waitlist_repeatable_witness:
  "\<exists>r. joinWaitlist (demo_join ''w3'' ''BO@example.com'') demo_line1 = Inr (r, demo_line1)"
proof -
  let ?a = "demo_join ''w1'' ''bo@example.com''" and ?b = "demo_join ''w3'' ''BO@example.com''"
  obtain ord n where j: "joinWaitlist ?a demo_db = Inr ((ord, n), demo_line1)" using demo_line1_ok by fastforce
  have "findByIdempotencyKey 1 ''w3'' demo_line1 = None" "d_orders demo_line1 \<noteq> d_orders demo_db"
    unfolding demo_line1_def by code_simp+
  moreover have "ci_eq ''bo@example.com'' ''BO@example.com''" by code_simp
  ultimately have k: "findByIdempotencyKey (jw_org ?a) (jw_idempotencyKey ?b) demo_line1 = None
      \<and> jw_event ?b = jw_event ?a \<and> jw_type ?b = jw_type ?a \<and> ci_eq (b_email (jw_buyer ?a)) (b_email (jw_buyer ?b))"
    and ne: "demo_line1 \<noteq> demo_db" by (auto simp: demo_join_def)
  have "jw_org ?b = jw_org ?a" by (simp add: demo_join_def)
  from join_waitlist_repeatable [OF demo_stock_ok(1) j this disjI2 [OF k]] ne show ?thesis by blast
qed

end
