(* ===== verification/Offers.thy ===== *)
theory Offers
  imports HoldService SettleSteps
begin

text \<open>
  Deciding and offering: \<^verbatim>\<open>checkout/registration-approval.adapter.ts\<close> (offer, approve,
  reject), \<^verbatim>\<open>checkout/waitlist-offers.adapter.ts\<close> (the loop that hands freed places to the
  front of the line) and \<^verbatim>\<open>registrations/registration-decisions.service.ts\<close> (the rules an
  organizer's decision is checked against before it). Each step of a service is a
  transaction of its own; what it committed stays when a later step fails. \<open>now\<close> is the
  injected clock, the same instant for the whole call; \<open>mint\<close> names the tokens
  \<^verbatim>\<open>generateQrToken\<close> draws for an order.
\<close>

section \<open>The approval adapter\<close>

definition GONE :: string where
  "GONE = ''This registration isn't available.''"

datatype offer_outcome = Offered | AlreadyOffered | NoSeat

record offer_result =
  or_outcome :: offer_outcome
  or_reference :: string
  or_expires :: "instant option"

definition offer ::
  "int \<Rightarrow> ident \<Rightarrow> ident \<Rightarrow> ident option \<Rightarrow> instant \<Rightarrow> db \<Rightarrow> offer_result svc" where
  "offer offerWindowMs org orderId offeredBy now d =
     (case waitlistEntry org orderId d of
        None \<Rightarrow> (Inl (NotFound GONE), d)
      | Some entry \<Rightarrow>
          let order = we_order entry in
          case (if o_status order = OPending then o_offerExpiresAt order else None) of
            Some expires \<Rightarrow>
              (Inr \<lparr>or_outcome = AlreadyOffered, or_reference = o_reference order, or_expires = Some expires\<rparr>, d)
          | None \<Rightarrow>
              let offerExpiresAt = now + offerWindowMs in
              bindS (holdForOffer org (o_event order) (we_type entry) (we_quantity entry) orderId
                       offerExpiresAt now d) (\<lambda>hold d.
              case hold of
                None \<Rightarrow> (Inr \<lparr>or_outcome = NoSeat, or_reference = o_reference order, or_expires = None\<rparr>, d)
              | Some h \<Rightarrow>
                  (case in_tx (markOffered org orderId offeredBy offerExpiresAt now
                           (\<lambda>offered. WaitlistOffered org (o_id offered) offerExpiresAt)) d of
                     (Inl e, d) \<Rightarrow> (Inl e, svc_release org [h_id h] d)
                   | (Inr _, d) \<Rightarrow>
                       (Inr \<lparr>or_outcome = Offered, or_reference = o_reference order,
                          or_expires = Some offerExpiresAt\<rparr>, d))))"

definition findDecidable :: "ident \<Rightarrow> ident \<Rightarrow> db \<Rightarrow> order_row option" where
  "findDecidable org orderId d = orderById org orderId d"

datatype approval_outcome = Approved | AlreadyApproved | ApprovalUnavailable

record approval_result =
  ap_outcome :: approval_outcome
  ap_reference :: "string option"
  ap_ticketCount :: int
  ap_reason :: "string option"

fun APPROVAL_OUTCOMES :: "settlement_outcome \<Rightarrow> approval_outcome" where
  "APPROVAL_OUTCOMES Settled = Approved"
| "APPROVAL_OUTCOMES AlreadySettled = AlreadyApproved"
| "APPROVAL_OUTCOMES _ = ApprovalUnavailable"

text \<open>The result for an order that is not there; its \<^verbatim>\<open>reference\<close> is the order's id.\<close>

definition gone :: approval_result where
  "gone = \<lparr>ap_outcome = ApprovalUnavailable, ap_reference = None, ap_ticketCount = 0, ap_reason = Some GONE\<rparr>"

definition approval_input ::
  "(ident \<Rightarrow> nat \<Rightarrow> string) \<Rightarrow> ident \<Rightarrow> ident \<Rightarrow> ident option \<Rightarrow> instant \<Rightarrow> settle_order_input" where
  "approval_input mint org orderId decidedBy now = \<lparr>so_org = org, so_order = orderId, so_mode = ApprovalMode,
     so_decidedBy = decidedBy, so_mintQrToken = mint orderId,
     so_buildConfirmedEvent = (\<lambda>ord n. RegistrationConfirmed (o_org ord) (o_id ord) n (o_total ord) (o_total ord > 0)),
     so_buildRefundEvent = (\<lambda>ord reason. PaymentRefundRequired org (o_id ord) (o_total ord) reason),
     so_recordPayment = no_payment, so_now = now\<rparr>"

definition approve ::
  "(ident \<Rightarrow> nat \<Rightarrow> string) \<Rightarrow> ident \<Rightarrow> ident \<Rightarrow> ident option \<Rightarrow> instant \<Rightarrow> db \<Rightarrow> approval_result svc" where
  "approve mint org orderId decidedBy now d =
     (case orderById org orderId d of
        None \<Rightarrow> (Inr gone, d)
      | Some _ \<Rightarrow>
          bindS (in_tx (settleOrder (approval_input mint org orderId decidedBy now)) d) (\<lambda>result d.
          (Inr \<lparr>ap_outcome = APPROVAL_OUTCOMES (sr_outcome result), ap_reference = Some (sr_reference result),
             ap_ticketCount = sr_ticketCount result, ap_reason = sr_reason result\<rparr>, d)))"

record rejection_input =
  ri_decidedBy :: ident
  ri_reason :: "string option"
  ri_mayRefund :: bool

definition reject :: "ident \<Rightarrow> ident \<Rightarrow> rejection_input \<Rightarrow> instant \<Rightarrow> db \<Rightarrow> (string \<times> bool) svc" where
  "reject org orderId inp now d =
     in_tx (rejectOrder \<lparr>rj_org = org, rj_order = orderId, rj_decidedBy = ri_decidedBy inp,
       rj_reason = ri_reason inp, rj_mayRefund = ri_mayRefund inp,
       rj_buildRejectedEvent = (\<lambda>order. RegistrationRejected org (o_id order) (ri_reason inp)), rj_now = now\<rparr>) d"

section \<open>Serving the line\<close>

definition CONFIRM_HOLD_MS :: int where "CONFIRM_HOLD_MS = 5 * 60 * 1000"

definition offerPaid ::
  "int \<Rightarrow> ident \<Rightarrow> waitlist_entry \<Rightarrow> instant \<Rightarrow> db \<Rightarrow> bool svc" where
  "offerPaid offerWindowMs org entry now d =
     bindS (offer offerWindowMs org (o_id (we_order entry)) None now d) (\<lambda>result d.
     (Inr (or_outcome result = Offered), d))"

text \<open>The \<^verbatim>\<open>finally\<close> releases the hold unless the approval went through.\<close>

definition confirmFree ::
  "(ident \<Rightarrow> nat \<Rightarrow> string) \<Rightarrow> ident \<Rightarrow> waitlist_entry \<Rightarrow> instant \<Rightarrow> db \<Rightarrow> bool svc" where
  "confirmFree mint org entry now d =
     bindS (holdForOffer org (o_event (we_order entry)) (we_type entry) (we_quantity entry)
              (o_id (we_order entry)) (now + CONFIRM_HOLD_MS) now d) (\<lambda>hold d.
     case hold of
       None \<Rightarrow> (Inr False, d)
     | Some h \<Rightarrow>
         (case approve mint org (o_id (we_order entry)) None now d of
            (Inl e, d) \<Rightarrow> (Inl e, svc_release org [h_id h] d)
          | (Inr result, d) \<Rightarrow>
              if ap_outcome result = Approved then (Inr True, d)
              else (Inr False, svc_release org [h_id h] d)))"

definition placeFor ::
  "int \<Rightarrow> (ident \<Rightarrow> nat \<Rightarrow> string) \<Rightarrow> ident \<Rightarrow> waitlist_entry \<Rightarrow> instant \<Rightarrow> db \<Rightarrow> bool svc" where
  "placeFor offerWindowMs mint org entry now d =
     (if confirmsOnOffer (we_order entry) then confirmFree mint org entry now d
      else offerPaid offerWindowMs org entry now d)"

text \<open>
  The endless loop, with fuel: \<open>None\<close> when it runs out. The result is the error that ended
  it, if any, with the registrations served so far.
\<close>

fun serveInOrder ::
  "nat \<Rightarrow> int \<Rightarrow> (ident \<Rightarrow> nat \<Rightarrow> string) \<Rightarrow> ident \<Rightarrow> ident \<Rightarrow> instant \<Rightarrow> ident list \<Rightarrow> db
    \<Rightarrow> (error option \<times> ident list \<times> db) option" where
  "serveInOrder 0 win mint org type now served d = None"
| "serveInOrder (Suc n) win mint org type now served d =
     (case frontOfLine org type d of
        None \<Rightarrow> Some (None, served, d)
      | Some next \<Rightarrow>
          if o_id (we_order next) \<in> set served then Some (None, served, d)
          else case placeFor win mint org next now d of
              (Inl e, d') \<Rightarrow> Some (Some e, served, d')
            | (Inr placed, d') \<Rightarrow>
                if \<not> placed then Some (None, served, d')
                else serveInOrder n win mint org type now (served @ [o_id (we_order next)]) d')"

text \<open>
  An event as the checkout sees it, through \<^verbatim>\<open>CheckoutEventPort\<close>; the port is an argument of
  every definition that asks it. The fields only shown to the buyer (place, picture, organizer's
  name) are left out.
\<close>

record checkout_event =
  ce_id :: ident
  ce_org :: ident
  ce_startAt :: instant
  ce_seatingMode :: seating_mode
  ce_waitlistEnabled :: bool
  ce_requiresApproval :: bool
  ce_isOnline :: bool

record waitlist_offer_outcome =
  wo_offered :: nat
  wo_interrupted :: bool

definition offerNewPlaces ::
  "nat \<Rightarrow> int \<Rightarrow> (ident \<Rightarrow> nat \<Rightarrow> string) \<Rightarrow> (ident \<Rightarrow> ident \<Rightarrow> checkout_event option) \<Rightarrow> ident \<Rightarrow> ident
    \<Rightarrow> ident \<Rightarrow> instant \<Rightarrow> db \<Rightarrow> (waitlist_offer_outcome \<times> db) option" where
  "offerNewPlaces fuel win mint findOwnedById org eventId type now d =
     (case findOwnedById org eventId of
        None \<Rightarrow> Some (\<lparr>wo_offered = 0, wo_interrupted = False\<rparr>, d)
      | Some ev \<Rightarrow>
          if \<not> autoOffersWaitlist (ce_waitlistEnabled ev) (ce_seatingMode ev) (ce_requiresApproval ev)
          then Some (\<lparr>wo_offered = 0, wo_interrupted = False\<rparr>, d)
          else map_option (\<lambda>(err, served, d').
                 (\<lparr>wo_offered = length served, wo_interrupted = (err \<noteq> None)\<rparr>, d'))
               (serveInOrder fuel win mint org type now [] d))"

end
