(* ===== verification/OfferProps.thy ===== *)
theory OfferProps
  imports Offers WaitlistProps
begin

text \<open>
  Serving the waitlist: each round of the loop takes exactly the front of the line, so the
  loop ends, and it hands places out in the order of the line.
\<close>

section \<open>The line as a list\<close>

definition in_the_line :: "ident \<Rightarrow> ident \<Rightarrow> waitlist_entry \<Rightarrow> bool" where
  "in_the_line org ty e = (o_org (we_order e) = org \<and> o_status (we_order e) = OWaitlisted \<and> we_type e = ty)"

definition the_line :: "ident \<Rightarrow> ident \<Rightarrow> db \<Rightarrow> waitlist_entry list" where
  "the_line org ty d = sort_key (\<lambda>e. o_registeredAt (we_order e))
     (sort_key (\<lambda>e. o_id (we_order e)) (filter (in_the_line org ty) (waitlist_rows d)))"

definition entry_id :: "waitlist_entry \<Rightarrow> ident" where
  "entry_id e = o_id (we_order e)"

lemma frontOfLine_line:
  "frontOfLine org ty d = (case the_line org ty d of [] \<Rightarrow> None | e # _ \<Rightarrow> Some e)"
  by (simp add: frontOfLine_def the_line_def in_the_line_def [abs_def] WAITLISTED_def)

text \<open>The rows of one order, and the keys that make them at most one.\<close>

definition entries_of :: "item_row list \<Rightarrow> (ident \<times> string) list \<Rightarrow> order_row \<Rightarrow> waitlist_entry list" where
  "entries_of is ts ord = concat (map (\<lambda>i. if oi_order i = o_id ord
     then concat (map (\<lambda>(ty, nm). if ty = oi_type i then [\<lparr>we_order = ord, we_type = oi_type i,
            we_typeName = nm, we_quantity = oi_quantity i\<rparr>] else []) ts)
     else []) is)"

definition tier_names :: "db \<Rightarrow> (ident \<times> string) list" where
  "tier_names d = map (\<lambda>t. (tt_id t, tt_name t)) (d_tiers d)"

lemma waitlist_rows_entries:
  "waitlist_rows d = concat (map (entries_of (d_items d) (tier_names d)) (d_orders d))"
proof -
  define g :: "order_row \<times> item_row \<Rightarrow> waitlist_entry list" where "g = (\<lambda>(ord, i). concat (map (\<lambda>t. if tt_id t = oi_type i then [\<lparr>we_order = ord,
            we_type = oi_type i, we_typeName = tt_name t, we_quantity = oi_quantity i\<rparr>] else []) (d_tiers d)))"
  define line where "line ord = concat (map (\<lambda>i. if oi_order i = o_id ord then [(ord, i)] else []) (d_items d))"
    for ord :: order_row
  have "concat (map g (concat (map (\<lambda>i. if oi_order i = o_id ord then [(ord, i)] else []) is)))
      = entries_of is (tier_names d) ord" for ord and "is" :: "item_row list"
    by (induction "is") (simp_all add: entries_of_def tier_names_def g_def comp_def)
  then have one: "concat (map g (line ord)) = entries_of (d_items d) (tier_names d) ord" for ord
    by (simp add: line_def)
  have "concat (map g (concat (map line os))) = concat (map (entries_of (d_items d) (tier_names d)) os)" for os
    by (induction os) (simp_all add: one)
  then show ?thesis
    unfolding waitlist_rows_def order_lines_def g_def line_def by simp
qed

lemma entries_of_in: "e \<in> set (entries_of is ts ord) \<Longrightarrow> we_order e = ord"
  by (auto simp: entries_of_def split: if_splits)

definition line_keys :: "db \<Rightarrow> bool" where
  "line_keys d = (distinct (map o_id (d_orders d)) \<and> distinct (map oi_order (d_items d))
     \<and> distinct (map fst (tier_names d)))"

lemma line_keys_stock: "stock_ok d \<Longrightarrow> line_keys d"
  by (simp add: line_keys_def tier_names_def stock_defs comp_def)

lemma one_entry:
  assumes "distinct (map oi_order is)" and "distinct (map fst ts)"
  shows "length (entries_of is ts ord) \<le> 1"
proof -
  have ts: "length (concat (map (\<lambda>(ty, nm). if ty = x then [g nm] else []) ts)) \<le> 1" for x and g :: "string \<Rightarrow> waitlist_entry"
    using assms(2)
  proof (induction ts)
    case (Cons t ts)
    have "concat (map (\<lambda>(ty, nm). if ty = fst t then [g nm] else []) ts) = []"
      using Cons.prems by (auto simp: image_iff split: if_splits dest: bspec)
    with Cons show ?case by (cases "fst t = x") (auto split: prod.splits)
  qed simp
  show ?thesis
    using assms(1)
  proof (induction "is")
    case (Cons i "is")
    have "entries_of is ts ord = []" if "oi_order i = o_id ord"
      using Cons.prems that by (auto simp: entries_of_def image_iff)
    moreover have "length (entries_of [i] ts ord) \<le> 1"
      using ts [of "oi_type i"] by (simp add: entries_of_def)
    moreover have "entries_of (i # is) ts ord = entries_of [i] ts ord @ entries_of is ts ord"
      by (simp add: entries_of_def)
    moreover have "entries_of [i] ts ord = []" if "oi_order i \<noteq> o_id ord"
      using that by (simp add: entries_of_def)
    ultimately show ?case using Cons by (cases "oi_order i = o_id ord") auto
  qed (simp add: entries_of_def)
qed

lemma distinct_rows:
  assumes "line_keys d"
  shows "distinct (map entry_id (waitlist_rows d))"
proof -
  have "distinct (map entry_id (concat (map (entries_of (d_items d) (tier_names d)) os)))"
    if "distinct (map o_id os)" for os
    using that
  proof (induction os)
    case (Cons ord os)
    have "length (entries_of (d_items d) (tier_names d) ord) \<le> 1"
      using one_entry assms by (simp add: line_keys_def)
    then have "distinct (map entry_id (entries_of (d_items d) (tier_names d) ord))"
      by (cases "entries_of (d_items d) (tier_names d) ord") auto
    moreover have "entry_id e = o_id ord" if "e \<in> set (entries_of (d_items d) (tier_names d) ord)" for e ord
      using entries_of_in [OF that] by (simp add: entry_id_def)
    then have "entry_id ` set (entries_of (d_items d) (tier_names d) ord)
        \<inter> entry_id ` set (concat (map (entries_of (d_items d) (tier_names d)) os)) = {}"
      using Cons.prems by (auto simp: image_iff)
    ultimately show ?case using Cons by simp
  qed simp
  with assms show ?thesis by (simp add: waitlist_rows_entries line_keys_def)
qed

lemma distinct_sort_keys: "distinct (map f xs) \<Longrightarrow> distinct (map f (sort_key g xs))"
  by (simp add: distinct_map)

lemma distinct_line: "line_keys d \<Longrightarrow> distinct (map entry_id (the_line org ty d))"
  unfolding the_line_def
  by (intro distinct_sort_keys distinct_map_filter distinct_rows)

section \<open>Taking one registration out of the line\<close>

definition same_line :: "db \<Rightarrow> db \<Rightarrow> bool" where
  "same_line d d' = (d_orders d' = d_orders d \<and> d_items d' = d_items d \<and> tier_names d' = tier_names d)"

definition left_line :: "ident \<Rightarrow> db \<Rightarrow> db \<Rightarrow> bool" where
  "left_line oid d d' = (d_items d' = d_items d \<and> tier_names d' = tier_names d
     \<and> (\<exists>f. d_orders d' = upd (\<lambda>x. o_id x = oid) f (d_orders d)
          \<and> (\<forall>x. o_id (f x) = o_id x \<and> o_status (f x) \<noteq> OWaitlisted)))"

lemma same_line_refl [simp]: "same_line d d"
  and same_line_trans: "same_line d d1 \<Longrightarrow> same_line d1 d2 \<Longrightarrow> same_line d d2"
  and same_line_left: "same_line d d1 \<Longrightarrow> left_line oid d1 d2 \<Longrightarrow> left_line oid d d2"
  and same_line_keys: "same_line d d' \<Longrightarrow> line_keys d \<Longrightarrow> line_keys d'"
  and same_line_line: "same_line d d' \<Longrightarrow> the_line org ty d' = the_line org ty d"
  by (auto simp: same_line_def left_line_def line_keys_def the_line_def waitlist_rows_entries)

lemma left_line_keys: "left_line oid d d' \<Longrightarrow> line_keys d \<Longrightarrow> line_keys d'"
  by (auto simp: left_line_def line_keys_def map_upd_key)

lemma left_line_line:
  assumes "left_line oid d d'"
  shows "the_line org ty d' = filter (\<lambda>e. entry_id e \<noteq> oid) (the_line org ty d)"
proof -
  let ?E = "entries_of (d_items d) (tier_names d)"
  from assms obtain f where f: "d_orders d' = upd (\<lambda>x. o_id x = oid) f (d_orders d)"
    "\<And>x. o_id (f x) = o_id x" "\<And>x. o_status (f x) \<noteq> OWaitlisted"
    and same: "d_items d' = d_items d" "tier_names d' = tier_names d" by (auto simp: left_line_def)
  have "filter (in_the_line org ty) (concat (map ?E (upd (\<lambda>x. o_id x = oid) f os)))
      = filter (\<lambda>e. in_the_line org ty e \<and> entry_id e \<noteq> oid) (concat (map ?E os))" for os
  proof (induction os)
    case (Cons ord os)
    have "filter (in_the_line org ty) (?E (if o_id ord = oid then f ord else ord))
        = filter (\<lambda>e. in_the_line org ty e \<and> entry_id e \<noteq> oid) (?E ord)"
    proof (cases "o_id ord = oid")
      case True
      have "filter (in_the_line org ty) (?E (f ord)) = []"
        using f(3) by (auto simp: filter_empty_conv in_the_line_def dest!: entries_of_in)
      moreover have "filter (\<lambda>e. in_the_line org ty e \<and> entry_id e \<noteq> oid) (?E ord) = []"
        using True by (auto simp: filter_empty_conv entry_id_def dest!: entries_of_in)
      ultimately show ?thesis using True by simp
    next
      case False
      then show ?thesis by (auto simp: entry_id_def dest!: entries_of_in intro!: filter_cong)
    qed
    with Cons show ?case by auto
  qed simp
  then show ?thesis
    by (simp add: the_line_def waitlist_rows_entries f(1) same filter_sort conj_commute)
qed

lemma left_line_front:
  assumes "left_line (entry_id e) d d'" and "line_keys d" and "the_line org ty d = e # rest"
  shows "the_line org ty d' = rest"
proof -
  have "distinct (map entry_id (e # rest))" using distinct_line [OF assms(2), of org ty] assms(3) by simp
  then have "filter (\<lambda>x. entry_id x \<noteq> entry_id e) (e # rest) = rest"
    by (auto simp: filter_id_conv image_iff)
  with left_line_line [OF assms(1)] assms(3) show ?thesis by simp
qed

section \<open>What one round does\<close>

lemma expireLapsedForTier_line [simp]: "same_line d (expireLapsedForTier org ty now d)"
  and release_line [simp]: "same_line d (svc_release org hs d)"
  by (simp_all add: same_line_def tier_names_def expireLapsedForTier_def svc_release_def release_def)

lemma holdQuantity_line:
  assumes "holdQuantity org ev ty q expires now oid d = Inr (r, d')"
  shows "same_line d d'"
proof (cases r)
  case (HeldQuantity h)
  with assms have "holdQuantity org ev ty q expires now oid d = Inr (HeldQuantity h, d')" by simp
  then show ?thesis
    by (rule holdQuantity_cases)
      (use expireLapsedForTier_line [of d org ty now] in \<open>simp add: same_line_def tier_names_def\<close>)
next
  case (OnlyAvailable n)
  with holdQuantity_OnlyAvailableD [of org ev ty q expires now oid d n d'] assms show ?thesis by auto
qed

lemma holdForOffer_line:
  assumes "holdForOffer org ev ty q oid expires now d = (r, d')"
  shows "same_line d d'"
  using assms
  by (cases "assertBookingSize q"; cases "holdQuantity org ev ty q expires now (Some oid) d")
    (auto simp: holdForOffer_def in_tx_def dest: holdQuantity_line)

lemma markOffered_line:
  assumes "markOffered org oid dec expires now build d = Inr (ord, d')"
  shows "left_line oid d d'"
proof -
  let ?f = "offered_row dec expires now (waitlistAhead org oid d)"
  from assms obtain o' where o': "lockOrder org oid d = Inr o'"
    "d' = enqueueIn (build (?f o')) (updateOrder oid ?f d)"
    by (auto simp: markOffered_def Let_def result_simps lockOrder_D(2) split: if_splits)
  have "\<forall>x. o_id (?f x) = o_id x \<and> o_status (?f x) \<noteq> OWaitlisted" by (simp add: offered_row_def)
  with o'(2) show ?thesis
    by (auto simp: left_line_def tier_names_def intro!: exI [of _ ?f])
qed

lemma offer_line:
  assumes "offer win org oid dec now d = (r, d')"
  shows "(\<exists>x. r = Inr x \<and> or_outcome x = Offered) \<and> left_line oid d d'
    \<or> \<not> (\<exists>x. r = Inr x \<and> or_outcome x = Offered) \<and> same_line d d'"
proof (cases "waitlistEntry org oid d")
  case None
  with assms show ?thesis by (auto simp: offer_def)
next
  case (Some entry)
  show ?thesis
  proof (cases "if o_status (we_order entry) = OPending then o_offerExpiresAt (we_order entry) else None")
    case (Some e)
    with \<open>waitlistEntry org oid d = Some entry\<close> assms show ?thesis by (auto simp: offer_def Let_def)
  next
    case None
    obtain h d1 where h: "holdForOffer org (o_event (we_order entry)) (we_type entry) (we_quantity entry) oid
        (now + win) now d = (h, d1)" by fastforce
    note held = holdForOffer_line [OF h]
    show ?thesis
    proof (cases "\<exists>x. h = Inr (Some x)")
      case False
      with None Some assms h held show ?thesis
        by (cases h; cases "projr h") (auto simp: offer_def Let_def)
    next
      case True
      then obtain x where "h = Inr (Some x)" ..
      with None Some assms h have M: "(case in_tx (markOffered org oid dec (now + win) now
            (\<lambda>offered. WaitlistOffered org (o_id offered) (now + win))) d1 of
          (Inl e, d) \<Rightarrow> (Inl e, svc_release org [h_id x] d)
        | (Inr _, d) \<Rightarrow> (Inr \<lparr>or_outcome = Offered, or_reference = o_reference (we_order entry),
            or_expires = Some (now + win)\<rparr>, d)) = (r, d')"
        by (simp add: offer_def Let_def)
      show ?thesis
      proof (cases "markOffered org oid dec (now + win) now
            (\<lambda>offered. WaitlistOffered org (o_id offered) (now + win)) d1")
        case (Inl e)
        with M same_line_trans [OF held release_line] show ?thesis by (auto simp: in_tx_def)
      next
        case (Inr q)
        with M same_line_left [OF held markOffered_line [of org oid dec "now + win" now _ d1 "fst q" "snd q"]]
        show ?thesis by (cases q) (auto simp: in_tx_def)
      qed
    qed
  qed
qed

lemma completeSettlement_line:
  assumes "completeSettlement inp ord (loadSettlement inp ord d) d = Inr (r, d')"
    and "cx_line (loadSettlement inp ord d) = Some line" and "tx_hook (so_recordPayment inp)"
  shows "left_line (o_id ord) d d'"
proof (rule completeSettlement_shape [OF assms], goal_cases)
  case (1 d1 ks)
  have "tier_names d1 = tier_names d"
    using 1(1) by (auto simp: tier_names_def countSale_def updateTiers_def map_upd_key split: if_splits)
  with 1(4-7) show ?case
    by (auto simp: left_line_def tier_names_def settled_row_def Let_def intro!: exI [of _ "settled_row inp"]
        split: if_splits)
qed

lemma approve_line:
  assumes "approve mint org oid dec now d = (r, d')"
  shows "(\<exists>x. r = Inr x \<and> ap_outcome x = Approved) \<and> left_line oid d d'
    \<or> \<not> (\<exists>x. r = Inr x \<and> ap_outcome x = Approved) \<and> d' = d"
proof -
  let ?inp = "approval_input mint org oid dec now"
  have mode: "so_mode ?inp = ApprovalMode" "so_recordPayment ?inp = no_payment" "so_order ?inp = oid"
    by (simp_all add: approval_input_def)
  show ?thesis
  proof (cases "settleOrder ?inp d")
    case (Inl e)
    with assms show ?thesis
      by (auto simp: approve_def in_tx_def gone_def split: option.splits)
  next
    case (Inr q)
    then obtain s d1 where q: "settleOrder ?inp d = Inr (s, d1)" by (cases q) auto
    then have "(sr_outcome s = Settled \<and> left_line oid d d1) \<or> (sr_outcome s \<noteq> Settled \<and> d1 = d)"
    proof (rule settleOrder_cases, goal_cases)
      case (1 ord)
      from 1(2) show ?case
      proof (elim disjE exE conjE, goal_cases)
        case 5
        then obtain line where "cx_line (loadSettlement ?inp ord d) = Some line"
          using settlementBlocker_None by metis
        with 5 mode completeSettlement_line [of ?inp ord d s d1 line] completeSettlement_shape [of ?inp ord d s d1 line]
          lockOrder_D(2) [OF 1(1)] approval_hook.tx_hook_axioms
        show ?case by (metis settlement.select_convs(1) settlement_mode.distinct(1))
      qed (use mode in \<open>simp_all add: no_payment_def\<close>)
    qed
    with q assms show ?thesis
      by (cases "sr_outcome s") (auto simp: approve_def in_tx_def gone_def split: option.splits)
  qed
qed

lemma confirmFree_line:
  assumes "confirmFree mint org e now d = (r, d')"
  shows "r = Inr True \<and> left_line (entry_id e) d d' \<or> r \<noteq> Inr True \<and> same_line d d'"
proof -
  let ?oid = "o_id (we_order e)"
  obtain h d1 where h: "holdForOffer org (o_event (we_order e)) (we_type e) (we_quantity e) ?oid
      (now + CONFIRM_HOLD_MS) now d = (h, d1)" by fastforce
  note held = holdForOffer_line [OF h]
  show ?thesis
  proof (cases "\<exists>x. h = Inr (Some x)")
    case False
    with assms h held show ?thesis by (cases h; cases "projr h") (auto simp: confirmFree_def)
  next
    case True
    then obtain x where x: "h = Inr (Some x)" ..
    obtain a d2 where a: "approve mint org ?oid None now d1 = (a, d2)" by fastforce
    show ?thesis
      using approve_line [OF a] assms h x a held same_line_left [OF held, of "entry_id e" d2]
        same_line_trans [OF held release_line [of d1 org "[h_id x]"]]
      by (cases a) (auto simp: confirmFree_def entry_id_def split: if_splits)
  qed
qed

lemma placeFor_line:
  assumes "placeFor win mint org e now d = (r, d')"
  shows "r = Inr True \<and> left_line (entry_id e) d d' \<or> r \<noteq> Inr True \<and> same_line d d'"
proof (cases "confirmsOnOffer (we_order e)")
  case True
  with assms confirmFree_line show ?thesis by (simp add: placeFor_def)
next
  case False
  obtain o' d1 where o': "offer win org (entry_id e) None now d = (o', d1)" by fastforce
  with False assms offer_line [OF o'] show ?thesis
    by (cases o') (auto simp: placeFor_def offerPaid_def entry_id_def)
qed

section \<open>The loop\<close>

lemma runs_step: "inventory_step d d' \<Longrightarrow> inventory_step\<^sup>*\<^sup>* d d'"
  by blast

lemma holdForOffer_runs:
  assumes "holdForOffer org ev ty q oid expires now d = (r, d')"
  shows "inventory_step\<^sup>*\<^sup>* d d'"
  using assms
  by (cases "assertBookingSize q"; cases "holdQuantity org ev ty q expires now (Some oid) d")
    (auto simp: holdForOffer_def in_tx_def intro!: runs_step inventory_step.quantity_held)

lemma approve_runs:
  assumes "approve mint org oid dec now d = (r, d')"
  shows "inventory_step\<^sup>*\<^sup>* d d'"
proof (cases "settleOrder (approval_input mint org oid dec now) d")
  case (Inl e)
  with assms show ?thesis by (auto simp: approve_def in_tx_def split: option.splits)
next
  case (Inr q)
  have "tx_hook (so_recordPayment (approval_input mint org oid dec now))"
    by (simp add: approval_input_def approval_hook.tx_hook_axioms)
  with Inr have "inventory_step d (snd q)" by (cases q) (auto intro: inventory_step.settled)
  with Inr assms show ?thesis by (cases q) (auto simp: approve_def in_tx_def split: option.splits)
qed

lemma release_runs: "inventory_step\<^sup>*\<^sup>* d1 d2 \<Longrightarrow> inventory_step\<^sup>*\<^sup>* d1 (svc_release org hs d2)"
  unfolding svc_release_def by (erule rtranclp.rtrancl_into_rtrancl) (rule inventory_step.hold_released)

lemma markOffered_runs:
  "markOffered org oid dec expires now build d = Inr (ord, d') \<Longrightarrow> inventory_step\<^sup>*\<^sup>* d d'"
  by (rule runs_step) (rule inventory_step.offered)

lemma offer_runs:
  assumes "offer win org oid dec now d = (r, d')"
  shows "inventory_step\<^sup>*\<^sup>* d d'"
  using assms
  by (auto simp: offer_def Let_def in_tx_def elim!: bindS.elims
      split: option.splits sum.splits if_splits
      dest!: holdForOffer_runs markOffered_runs intro: release_runs rtranclp_trans)

lemma placeFor_runs:
  assumes "placeFor win mint org e now d = (r, d')"
  shows "inventory_step\<^sup>*\<^sup>* d d'"
  using assms
  by (auto simp: placeFor_def offerPaid_def confirmFree_def elim!: bindS.elims
      split: option.splits sum.splits if_splits prod.splits
      dest!: holdForOffer_runs approve_runs offer_runs) (blast intro: release_runs rtranclp_trans)+

lemma serve_line:
  assumes "line_keys d" and "length (the_line org ty d) < fuel"
    and "entry_id ` set (the_line org ty d) \<inter> set served = {}"
  shows "\<exists>err k d'. serveInOrder fuel win mint org ty now served d
      = Some (err, served @ map entry_id (take k (the_line org ty d)), d')
    \<and> the_line org ty d' = drop k (the_line org ty d) \<and> inventory_step\<^sup>*\<^sup>* d d'"
  using assms
proof (induction fuel arbitrary: served d)
  case (Suc fuel)
  show ?case
  proof (cases "the_line org ty d")
    case Nil
    then show ?thesis by (intro exI [of _ None] exI [of _ 0] exI [of _ d]) (simp add: frontOfLine_line)
  next
    case (Cons e rest)
    then have fresh: "entry_id e \<notin> set served" using Suc.prems(3) by auto
    obtain r d1 where p: "placeFor win mint org e now d = (r, d1)" by fastforce
    note runs = placeFor_runs [OF p]
    show ?thesis
    proof (cases "r = Inr True")
      case False
      with placeFor_line [OF p] same_line_line have "the_line org ty d1 = the_line org ty d" by blast
      with False fresh p Cons runs show ?thesis
        by (cases r) (auto simp: frontOfLine_line entry_id_def intro!: exI [of _ 0])
    next
      case True
      with placeFor_line [OF p] have left: "left_line (entry_id e) d d1" by simp
      note rest = left_line_front [OF left Suc.prems(1) Cons]
      have "entry_id e \<notin> entry_id ` set rest"
        using distinct_line [OF Suc.prems(1), of org ty] Cons by simp
      then have "entry_id ` set (the_line org ty d1) \<inter> set (served @ [entry_id e]) = {}"
        using Suc.prems(3) Cons rest by auto
      moreover have "length (the_line org ty d1) < fuel" using Suc.prems(2) Cons rest by simp
      ultimately obtain err k d' where step: "serveInOrder fuel win mint org ty now (served @ [entry_id e]) d1
          = Some (err, (served @ [entry_id e]) @ map entry_id (take k rest), d')"
        "the_line org ty d' = drop k rest" "inventory_step\<^sup>*\<^sup>* d1 d'"
        using Suc.IH [OF left_line_keys [OF left Suc.prems(1)]] rest by metis
      have "serveInOrder (Suc fuel) win mint org ty now served d
          = Some (err, served @ map entry_id (take (Suc k) (the_line org ty d)), d')"
        using True fresh p Cons step(1) by (simp add: frontOfLine_line entry_id_def)
      with step(2,3) Cons runs show ?thesis
        by (intro exI [of _ err] exI [of _ "Suc k"] exI [of _ d']) auto
    qed
  qed
qed simp

text \<open>
  Handing freed places to the waitlist ends: with more rounds allowed than people waiting
  the loop returns, whatever goes wrong in a round. The registrations it served are the
  front of the line in the order of the line, each once; the line that remains is the rest of
  it, in the same order; and the database is one the checkout's transactions can reach, so
  every invariant of the stock still stands.
\<close>

theorem serve_line_in_order:
  assumes "reachable d" and "length (the_line org ty d) < fuel"
  shows "\<exists>err k d'. serveInOrder fuel win mint org ty now [] d
      = Some (err, map entry_id (take k (the_line org ty d)), d')
    \<and> the_line org ty d' = drop k (the_line org ty d)
    \<and> distinct (map entry_id (the_line org ty d)) \<and> reachable d'"
proof -
  have keys: "line_keys d" using reachable_inv [OF assms(1)] line_keys_stock by blast
  obtain err k d' where s: "serveInOrder fuel win mint org ty now [] d
      = Some (err, [] @ map entry_id (take k (the_line org ty d)), d')"
    "the_line org ty d' = drop k (the_line org ty d)" "inventory_step\<^sup>*\<^sup>* d d'"
    using serve_line [OF keys assms(2), of "[]" win mint now] by auto
  have "reachable d'" using assms(1) s(3) by (auto simp: reachable_def intro: rtranclp_trans)
  with s distinct_line [OF keys] show ?thesis by auto
qed

end
