(* ===== verification/OfferStock.thy ===== *)
theory OfferStock
  imports OfferProps
begin

text \<open>
  Offers and stock: what has been sold and what is on hold fit the allocation together, and
  serving the waitlist keeps it so.
\<close>

definition within_stock :: "ident \<Rightarrow> db \<Rightarrow> bool" where
  "within_stock org d = ((\<forall>h\<in>set (d_holds d). 0 \<le> h_quantity h)
     \<and> (\<forall>t\<in>set (d_tiers d). tt_org t = org
          \<longrightarrow> tt_sold t + activeHeldQuantity org (tt_id t) d \<le> tt_total t))"

definition taken_by :: "(hold_row \<Rightarrow> bool) \<Rightarrow> ident \<Rightarrow> ident \<Rightarrow> hold_row \<Rightarrow> int" where
  "taken_by P org ty h = (if P h \<and> h_org h = org \<and> h_type h = Some ty \<and> h_status h = HActive
     then h_quantity h else 0)"

lemma sum_of_member: "(\<And>x. x \<in> set xs \<Longrightarrow> 0 \<le> g x) \<Longrightarrow> x \<in> set xs \<Longrightarrow> g x \<le> sum_of g xs"
proof (induction xs)
  case (Cons y ys)
  then have "0 \<le> sum_of g ys" by (intro sum_of_nonneg) simp
  with Cons show ?case by fastforce
qed simp

lemma active_after:
  assumes "d_holds d' = upd P f (d_holds d)" and "\<And>h. h_status (f h) \<noteq> HActive"
  shows "activeHeldQuantity org ty d' = activeHeldQuantity org ty d - sum_of (taken_by P org ty) (d_holds d)"
proof -
  have "sum_of h_quantity (filter (\<lambda>h. h_org h = org \<and> h_type h = Some ty \<and> h_status h = HActive) (upd P f hs))
      = sum_of h_quantity (filter (\<lambda>h. h_org h = org \<and> h_type h = Some ty \<and> h_status h = HActive) hs)
        - sum_of (taken_by P org ty) hs" for hs
    using assms(2) by (induction hs) (auto simp: taken_by_def)
  then show ?thesis using assms(1) by (simp add: activeHeldQuantity_def ACTIVE_def)
qed

lemma taken_by_nonneg: "0 \<le> h_quantity h \<Longrightarrow> 0 \<le> taken_by P org ty h"
  by (simp add: taken_by_def)

text \<open>Giving holds up, whichever, keeps the stock within its bounds.\<close>

lemma within_stock_fewer:
  assumes "within_stock org d" and "d_holds d' = upd P f (d_holds d)" and "d_tiers d' = d_tiers d"
    and "\<And>h. h_status (f h) \<noteq> HActive" "\<And>h. h_quantity (f h) = h_quantity h"
  shows "within_stock org d'"
proof -
  have "0 \<le> sum_of (taken_by P org ty) (d_holds d)" for ty
    using assms(1) by (intro sum_of_nonneg taken_by_nonneg) (simp add: within_stock_def)
  then have "activeHeldQuantity org ty d' \<le> activeHeldQuantity org ty d" for ty
    using active_after [OF assms(2,4), of org ty] by simp
  then have "tt_sold t + activeHeldQuantity org (tt_id t) d' \<le> tt_total t"
    if "t \<in> set (d_tiers d)" "tt_org t = org" for t
    using assms(1) that by (meson add_left_mono order_trans within_stock_def)
  moreover have "\<forall>h\<in>set (d_holds d'). 0 \<le> h_quantity h"
    using assms(1,2,5) by (auto simp: within_stock_def in_set_upd)
  ultimately show ?thesis by (simp add: within_stock_def assms(3))
qed

lemma release_within: "within_stock org d \<Longrightarrow> within_stock org (svc_release org hs d)"
  by (cases "hs = []") (auto simp: svc_release_def release_def elim!: within_stock_fewer)

lemma holdQuantity_within:
  assumes "holdQuantity org ev ty q expires now oid d = Inr (r, d')" and "within_stock org d"
    and "distinct (map tt_id (d_tiers d))"
  shows "within_stock org d'"
proof -
  let ?e = "expireLapsedForTier org ty now d"
  have e: "within_stock org ?e" "d_tiers ?e = d_tiers d"
    using assms(2) by (auto simp: expireLapsedForTier_def elim!: within_stock_fewer)
  show ?thesis
  proof (cases r)
    case (OnlyAvailable n)
    with holdQuantity_OnlyAvailableD [of org ev ty q expires now oid d n d'] assms(1,2) e(1)
    show ?thesis by auto
  next
    case (HeldQuantity h)
    with assms(1) have "holdQuantity org ev ty q expires now oid d = Inr (HeldQuantity h, d')" by simp
    then show ?thesis
    proof (rule holdQuantity_cases, goal_cases)
      case (1 t)
      have active: "activeHeldQuantity org x d' = activeHeldQuantity org x ?e + (if x = ty then q else 0)" for x
        by (simp add: 1(8,9) activeHeldQuantity_def ACTIVE_def)
      have only: "t' = t" if "t' \<in> set (d_tiers d)" "tt_id t' = ty" for t'
        using assms(3) 1(1,2) that by (metis distinct_map inj_onD)
      have "tt_sold t' + activeHeldQuantity org (tt_id t') d' \<le> tt_total t'"
        if "t' \<in> set (d_tiers d)" "tt_org t' = org" for t'
        using e that only [OF that(1)] 1(7) unfolding active within_stock_def by fastforce
      moreover have "d_tiers d' = d_tiers d" "d_holds d' = d_holds ?e @ [h]" "h_quantity h = q"
        using e(2) by (simp_all add: 1(8,9))
      ultimately show ?case using e(1) 1(6) by (auto simp: within_stock_def)
    qed
  qed
qed

lemma markOffered_within:
  "markOffered org oid dec expires now build d = Inr (ord, d') \<Longrightarrow> within_stock org d \<Longrightarrow> within_stock org d'"
  by (auto simp: markOffered_def Let_def result_simps within_stock_def activeHeldQuantity_def split: if_splits)

text \<open>
  An approval turns the places its order holds into sold ones: where the order holds what its
  line books, the sum does not grow.
\<close>

lemma completeSettlement_within:
  assumes "completeSettlement inp ord (loadSettlement inp ord d) d = Inr (r, d')"
    and "cx_line (loadSettlement inp ord d) = Some line" and "tx_hook (so_recordPayment inp)"
    and "stock_ok d" and "within_stock (so_org inp) d"
    and i: "i \<in> set (d_items d)" "oi_order i = o_id ord"
    and h: "h \<in> set (d_holds d)" "h_org h = so_org inp" "h_order h = Some (o_id ord)" "h_status h = HActive"
      "h_type h = Some (oi_type i)" "h_quantity h = oi_quantity i"
  shows "within_stock (so_org inp) d'"
proof (rule completeSettlement_shape [OF assms(1-3)], goal_cases)
  case (1 d1 ks)
  let ?P = "\<lambda>h. h_org h = so_org inp \<and> h_order h = Some (o_id ord)"
  let ?taken = "\<lambda>ty. sum_of (taken_by ?P (so_org inp) ty) (d_holds d)"
  have nonneg: "0 \<le> taken_by ?P (so_org inp) ty x" if "x \<in> set (d_holds d)" for x ty
    using that assms(5) by (intro taken_by_nonneg) (simp add: within_stock_def)
  have "oi_quantity i \<le> ?taken (oi_type i)"
    using sum_of_member [of "d_holds d" "taken_by ?P (so_org inp) (oi_type i)", OF nonneg h(1)] h by (simp add: taken_by_def)
  then have taken: "order_places (d_items d) (o_id ord) ty \<le> ?taken ty" and pos: "0 \<le> ?taken ty" for ty
    using order_places_item [of "d_items d" i] i assms(4) sum_of_nonneg [of "d_holds d" "taken_by ?P (so_org inp) ty", OF nonneg]
    by (auto simp: stock_defs)
  have moved: "\<exists>\<delta>. sold_moved (d_tiers d) (d_tiers d1) \<delta> \<and> (\<forall>ty. \<delta> ty \<le> ?taken ty)"
  proof (cases "isAwaitingApproval ord")
    case True
    then show ?thesis using 1(1) pos by (intro exI [of _ "\<lambda>_. 0"]) (simp add: sold_moved_refl)
  next
    case False
    then show ?thesis using 1(1) countSale_moves(2) [OF assms(4,2)] taken by auto
  qed
  then obtain \<delta> where d: "sold_moved (d_tiers d) (d_tiers d1) \<delta>" "\<And>ty. \<delta> ty \<le> ?taken ty" by blast
  have active: "activeHeldQuantity (so_org inp) ty d' = activeHeldQuantity (so_org inp) ty d - ?taken ty" for ty
    by (rule active_after [OF 1(9)]) simp
  have "tt_sold t + activeHeldQuantity (so_org inp) (tt_id t) d' \<le> tt_total t"
    if t: "t \<in> set (d_tiers d1)" "tt_org t = so_org inp" for t
  proof -
    from t d(1) obtain t0 where t0: "t0 \<in> set (d_tiers d)" "t = t0\<lparr>tt_sold := tt_sold t0 + \<delta> (tt_id t0)\<rparr>"
      by (auto simp: sold_moved_def)
    with t(2) assms(5) have "tt_sold t0 + activeHeldQuantity (so_org inp) (tt_id t0) d \<le> tt_total t0"
      by (simp add: within_stock_def)
    with t0(2) d(2) [of "tt_id t0"] show ?thesis by (simp add: active)
  qed
  then show ?case
    using 1(7,9) assms(5) by (auto simp: within_stock_def in_set_upd)
qed

lemma holdForOffer_held:
  assumes "holdForOffer org ev ty q oid expires now d = (Inr (Some h), d')"
  shows "holdQuantity org ev ty q expires now (Some oid) d = Inr (HeldQuantity h, d')"
proof (cases "holdQuantity org ev ty q expires now (Some oid) d")
  case (Inr s)
  with assms show ?thesis
    by (cases s; cases "fst s"; cases "assertBookingSize q") (auto simp: holdForOffer_def in_tx_def)
qed (use assms in \<open>cases "assertBookingSize q"; simp add: holdForOffer_def in_tx_def\<close>)

lemma holdForOffer_within:
  assumes "holdForOffer org ev ty q oid expires now d = (r, d')" and "within_stock org d"
    and "distinct (map tt_id (d_tiers d))"
  shows "within_stock org d'" and "r = Inr (Some h) \<Longrightarrow> h \<in> set (d_holds d') \<and> h_org h = org
    \<and> h_order h = Some oid \<and> h_status h = HActive \<and> h_type h = Some ty \<and> h_quantity h = q"
proof -
  show "within_stock org d'"
    using assms holdQuantity_within [OF _ assms(2,3), of ev ty q expires now "Some oid"]
    by (cases "assertBookingSize q"; cases "holdQuantity org ev ty q expires now (Some oid) d")
      (auto simp: holdForOffer_def in_tx_def)
  assume "r = Inr (Some h)"
  with assms(1) have "holdQuantity org ev ty q expires now (Some oid) d = Inr (HeldQuantity h, d')"
    by (simp add: holdForOffer_held)
  then show "h \<in> set (d_holds d') \<and> h_org h = org
    \<and> h_order h = Some oid \<and> h_status h = HActive \<and> h_type h = Some ty \<and> h_quantity h = q"
    by (rule holdQuantity_cases) simp
qed

lemma approve_within:
  assumes "approve mint org oid dec now d = (r, d')" and "within_stock org d" and "stock_ok d"
    and i: "i \<in> set (d_items d)" "oi_order i = oid"
    and h: "h \<in> set (d_holds d)" "h_org h = org" "h_order h = Some oid" "h_status h = HActive"
      "h_type h = Some (oi_type i)" "h_quantity h = oi_quantity i"
  shows "within_stock org d'"
proof (cases "settleOrder (approval_input mint org oid dec now) d")
  case (Inl e)
  with assms(1,2) show ?thesis by (auto simp: approve_def in_tx_def split: option.splits)
next
  case (Inr q)
  let ?inp = "approval_input mint org oid dec now"
  have mode: "so_mode ?inp = ApprovalMode" "so_recordPayment ?inp = no_payment" "so_order ?inp = oid" "so_org ?inp = org"
    by (simp_all add: approval_input_def)
  obtain s d1 where q: "settleOrder ?inp d = Inr (s, d1)" using Inr by (cases q) auto
  then have "within_stock org d1"
  proof (rule settleOrder_cases, goal_cases)
    case (1 ord)
    note ord = lockOrder_D(2) [OF 1(1)]
    from 1(2) show ?case
    proof (elim disjE exE conjE, goal_cases)
      case 5
      then obtain line where line: "cx_line (loadSettlement ?inp ord d) = Some line"
        using settlementBlocker_None by metis
      from 5 mode have "completeSettlement ?inp ord (loadSettlement ?inp ord d) d = Inr (s, d1)" by simp
      from completeSettlement_within [OF this line _ assms(3), of i h] assms(2) i h mode ord
        approval_hook.tx_hook_axioms show ?case by simp
    qed (use mode assms(2) in \<open>simp_all add: no_payment_def\<close>)
  qed
  with q assms(1,2) show ?thesis by (auto simp: approve_def in_tx_def split: option.splits)
qed

lemma offer_within:
  assumes "offer win org oid dec now d = (r, d')" and "within_stock org d"
    and "distinct (map tt_id (d_tiers d))"
  shows "within_stock org d'"
  using assms(1,2)
  by (auto simp: offer_def Let_def in_tx_def elim!: bindS.elims
      split: option.splits sum.splits if_splits
      intro!: release_within dest!: holdForOffer_within(1) [OF _ assms(2,3)]) (erule markOffered_within, assumption)+

lemma confirmFree_within:
  assumes "confirmFree mint org e now d = (r, d')" and "within_stock org d" and "stock_ok d" and "seats_ok d"
    and "e \<in> set (waitlist_rows d)"
  shows "within_stock org d'"
proof -
  let ?oid = "o_id (we_order e)"
  obtain h d1 where h: "holdForOffer org (o_event (we_order e)) (we_type e) (we_quantity e) ?oid
      (now + CONFIRM_HOLD_MS) now d = (h, d1)" by fastforce
  have ids: "distinct (map tt_id (d_tiers d))" using assms(3) by (simp add: stock_defs)
  note held = holdForOffer_within [OF h assms(2) ids]
  show ?thesis
  proof (cases "\<exists>x. h = Inr (Some x)")
    case False
    with assms(1) h held(1) show ?thesis by (cases h; cases "projr h") (auto simp: confirmFree_def)
  next
    case True
    then obtain x where x: "h = Inr (Some x)" ..
    obtain a d2 where a: "approve mint org ?oid None now d1 = (a, d2)" by fastforce
    from assms(5) obtain i where i: "i \<in> set (d_items d)" "oi_order i = ?oid" "we_type e = oi_type i"
        "we_quantity e = oi_quantity i"
      by (auto simp: in_waitlist_rows in_order_lines) (metis waitlist_entry.select_convs(2,4))
    have "stock_ok d1"
      using holdQuantity_keeps [OF holdForOffer_held [OF h [unfolded x]] assms(3,4)] by simp
    moreover have "d_items d1 = d_items d" using holdForOffer_line [OF h] by (simp add: same_line_def)
    ultimately have "within_stock org d2"
      using approve_within [OF a held(1), of i x] held(2) [OF x] i by simp
    with assms(1) h x a show ?thesis
      by (cases a) (auto simp: confirmFree_def intro: release_within split: if_splits)
  qed
qed

lemma serve_within:
  assumes "checkout_inv d" and "within_stock org d"
    and "serveInOrder fuel win mint org ty now served d = Some (err, ids, d')"
  shows "within_stock org d'"
  using assms
proof (induction fuel win mint org ty now served d rule: serveInOrder.induct)
  case (2 n win mint org ty now served d)
  show ?case
  proof (cases "frontOfLine org ty d")
    case (Some e)
    have row: "e \<in> set (waitlist_rows d)"
    proof -
      from Some have "e \<in> set (the_line org ty d)" by (auto simp: frontOfLine_line split: list.splits)
      then show ?thesis by (simp add: the_line_def)
    qed
    obtain r d1 where p: "placeFor win mint org e now d = (r, d1)" by fastforce
    have inv: "stock_ok d" "seats_ok d" using "2.prems"(1) by (simp_all add: checkout_inv_def)
    then have ids: "distinct (map tt_id (d_tiers d))" by (simp add: stock_defs)
    have "within_stock org d1"
      using p confirmFree_within [OF _ "2.prems"(2) inv row] offer_within [OF _ "2.prems"(2) ids]
      by (auto simp: placeFor_def offerPaid_def elim!: bindS.elims split: if_splits)
    moreover have "checkout_inv d1"
      using checkout.inv_run [OF placeFor_runs [OF p] "2.prems"(1)] .
    ultimately show ?thesis
      using "2.IH" [OF Some] "2.prems"(2,3) Some p by (auto split: if_splits sum.splits)
  qed (use "2.prems" in simp)
qed simp

text \<open>
  C31. Serving the waitlist never oversells: if what is sold of every ticket type of the
  workspace, together with what is on hold, is within its allocation, it still is when the
  loop returns, however many places it gave out, for money or at once, and wherever a round
  failed.
\<close>

theorem offers_never_oversell:
  assumes "reachable d" and "within_stock org d"
    and "serveInOrder fuel win mint org ty now served d = Some (err, ids, d')"
  shows "within_stock org d'"
  using reachable_inv [OF assms(1)] by (intro serve_within [OF _ assms(2,3)]) (simp add: checkout_inv_def)

end
