(* ===== verification/OfferWitnesses.thy ===== *)
theory OfferWitnesses
  imports OfferStock Witnesses
begin

text \<open>
  The properties of serving the waitlist, applied to the two people waiting in
  \<open>demo_line2\<close>: both are offered a place.
\<close>

definition demo_mint :: "ident \<Rightarrow> nat \<Rightarrow> string" where
  "demo_mint i n = replicate (i + n) CHR ''m''"

abbreviation demo_serve :: "nat \<Rightarrow> (error option \<times> ident list \<times> db) option" where
  "demo_serve fuel \<equiv> serveInOrder fuel 1000 demo_mint 1 3 20 [] demo_line2"

theorem serve_line_in_order_witness:
  "\<exists>err ids d'. demo_serve 3 = Some (err, ids, d') \<and> reachable d'"
proof -
  have "length (the_line 1 3 demo_line2) < 3"
    unfolding demo_line2_def demo_line1_def by code_simp
  from serve_line_in_order [OF demo_line_reachable(2) this, of 1000 demo_mint 20] show ?thesis by blast
qed

theorem offers_never_oversell_witness:
  "\<exists>d'. demo_serve 3 = Some (None, map entry_id (the_line 1 3 demo_line2), d')
    \<and> the_line 1 3 demo_line2 \<noteq> [] \<and> within_stock 1 d'"
proof -
  have s: "map_option (\<lambda>(err, ids, d'). (err, ids)) (demo_serve 3)
      = Some (None, map entry_id (the_line 1 3 demo_line2))"
    and "the_line 1 3 demo_line2 \<noteq> []"
    unfolding demo_line2_def demo_line1_def by code_simp+
  moreover from s obtain d' where d': "demo_serve 3 = Some (None, map entry_id (the_line 1 3 demo_line2), d')"
    by auto
  moreover have "within_stock 1 demo_line2"
    unfolding demo_line2_def demo_line1_def within_stock_def by code_simp
  ultimately show ?thesis using offers_never_oversell [OF demo_line_reachable(2)] by blast
qed

end
