(* ===== verification/PaymentsRepo.thy ===== *)
theory PaymentsRepo
  imports CheckoutRepo
begin

text \<open>
  \<^verbatim>\<open>payments/payments.repository.ts\<close>: payment attempts, refunds and the log of the provider's
  callbacks. Only the two functions that end in \<open>In\<close> run inside another component's
  transaction; every other one is a transaction of its own. The columns a receipt copies
  from the workspace (the seller's identity) are left out.
\<close>

section \<open>Inputs\<close>

record record_attempt_input =
  ra_org :: ident
  ra_order :: ident
  ra_event :: ident
  ra_payerName :: string
  ra_method :: string
  ra_amount :: satang
  ra_gatewayRef :: string
  ra_gatewayAccount :: "string option"
  ra_idempotencyKey :: string
  ra_status :: payment_status

record claim_refund_input =
  cr_org :: ident
  cr_payment :: ident
  cr_order :: ident
  cr_amount :: satang
  cr_issuedBy :: ident
  cr_idempotencyKey :: string
  cr_now :: instant

record mark_refunded_input =
  mr_refund :: ident
  mr_payment :: ident
  mr_gatewayRef :: string
  mr_now :: instant

datatype duplicate_refund_settlement = DupSettled | SolePayment | NotPending

text \<open>What the provider's callback turned out to mean (\<^verbatim>\<open>ports/payment-provider.port.ts\<close>).\<close>

datatype webhook_type =
  WSucceeded | WFailedAttempt | WExpired | WRefundSucceeded | WRefundFailed | WIgnored

record verified_webhook =
  vw_eventId :: string
  vw_type :: webhook_type
  vw_gatewayRef :: string
  vw_settledRef :: "string option"
  vw_amount :: satang
  vw_declineReason :: "string option"

section \<open>Payment attempts\<close>

definition attempt_row :: "record_attempt_input \<Rightarrow> ident \<Rightarrow> payment_row" where
  "attempt_row inp i = \<lparr>p_id = i, p_org = ra_org inp, p_txn = ra_gatewayRef inp,
     p_payerName = ra_payerName inp, p_order = ra_order inp, p_event = ra_event inp,
     p_method = ra_method inp, p_amount = ra_amount inp, p_status = ra_status inp, p_paidAt = None,
     p_gatewayRef = Some (ra_gatewayRef inp), p_gatewayAccount = ra_gatewayAccount inp,
     p_idempotencyKey = ra_idempotencyKey inp\<rparr>"

text \<open>
  The INSERT does nothing when either unique index of the table is in the way, but only the
  idempotency key is looked up then; the result is \<open>None\<close> (\<^verbatim>\<open>undefined\<close>) when it was the other.
\<close>

definition upsertAttempt :: "record_attempt_input \<Rightarrow> db \<Rightarrow> payment_row option \<times> db" where
  "upsertAttempt inp d =
     (if list_ex (\<lambda>p. p_org p = ra_org inp \<and> (p_txn p = ra_gatewayRef inp
            \<or> p_idempotencyKey p = ra_idempotencyKey inp)) (d_payments d)
      then (find (\<lambda>p. p_org p = ra_org inp \<and> p_idempotencyKey p = ra_idempotencyKey inp) (d_payments d), d)
      else (Some (attempt_row inp (d_next d)),
        d\<lparr>d_payments := d_payments d @ [attempt_row inp (d_next d)], d_next := d_next d + 1\<rparr>))"

definition findByGatewayRef :: "string \<Rightarrow> db \<Rightarrow> payment_row option" where
  "findByGatewayRef ref d = find (\<lambda>p. p_gatewayRef p = Some ref) (d_payments d)"

definition markPaidIn :: "ident \<Rightarrow> instant \<Rightarrow> db \<Rightarrow> db" where
  "markPaidIn paymentId paidAt d = d\<lparr>d_payments := upd (\<lambda>p. p_id p = paymentId)
     (\<lambda>p. p\<lparr>p_status := PPaid, p_paidAt := Some paidAt\<rparr>) (d_payments d)\<rparr>"

definition markFailed :: "ident \<Rightarrow> db \<Rightarrow> db" where
  "markFailed paymentId d = d\<lparr>d_payments := upd (\<lambda>p. p_id p = paymentId \<and> p_status p = PPending)
     (\<lambda>p. p\<lparr>p_status := PFailed\<rparr>) (d_payments d)\<rparr>"

definition otherPaidPaymentExists :: "ident \<Rightarrow> ident \<Rightarrow> db \<Rightarrow> bool" where
  "otherPaidPaymentExists orderId exceptPaymentId d =
     list_ex (\<lambda>p. p_order p = orderId \<and> p_status p = PPaid \<and> p_id p \<noteq> exceptPaymentId) (d_payments d)"

definition updateGatewayRef :: "ident \<Rightarrow> string \<Rightarrow> db \<Rightarrow> db" where
  "updateGatewayRef paymentId ref d = d\<lparr>d_payments := upd (\<lambda>p. p_id p = paymentId)
     (\<lambda>p. p\<lparr>p_gatewayRef := Some ref\<rparr>) (d_payments d)\<rparr>"

text \<open>Ascending by \<^verbatim>\<open>paid_at\<close>, rows without one last, ties by age.\<close>

definition findSettledPaymentsForOrder :: "ident \<Rightarrow> ident \<Rightarrow> db \<Rightarrow> payment_row list" where
  "findSettledPaymentsForOrder org orderId d =
     (let rows = filter (\<lambda>p. p_org p = org \<and> p_order p = orderId \<and> p_status p \<in> {PPaid, PRefunded})
                   (d_payments d)
      in sort_key (\<lambda>p. the (p_paidAt p)) (filter (\<lambda>p. p_paidAt p \<noteq> None) rows)
         @ filter (\<lambda>p. p_paidAt p = None) rows)"

definition findPaymentForRefund :: "ident \<Rightarrow> ident \<Rightarrow> db \<Rightarrow> payment_row option" where
  "findPaymentForRefund org paymentId d =
     find (\<lambda>p. p_id p = paymentId \<and> p_org p = org) (d_payments d)"

definition lifetimeNetTakings :: "ident \<Rightarrow> db \<Rightarrow> satang" where
  "lifetimeNetTakings org d =
     sum_of p_amount (filter (\<lambda>p. p_org p = org \<and> p_status p \<in> {PPaid, PRefunded}) (d_payments d))
     - sum_of r_amount (filter (\<lambda>r. r_org r = org \<and> r_status r = RSucceeded) (d_refunds d))"

section \<open>Refunds\<close>

definition claim_row :: "claim_refund_input \<Rightarrow> ident \<Rightarrow> refund_row" where
  "claim_row inp i = \<lparr>r_id = i, r_org = cr_org inp, r_payment = cr_payment inp, r_order = cr_order inp,
     r_amount = cr_amount inp, r_reason = None, r_status = RPending, r_issuedBy = cr_issuedBy inp,
     r_issuedAt = cr_now inp, r_settledAt = None, r_gatewayRef = None,
     r_idempotencyKey = cr_idempotencyKey inp\<rparr>"

definition claimRefund :: "claim_refund_input \<Rightarrow> db \<Rightarrow> (refund_row \<times> bool) \<times> db" where
  "claimRefund inp d =
     (case find (\<lambda>r. r_org r = cr_org inp \<and> r_idempotencyKey r = cr_idempotencyKey inp) (d_refunds d) of
        Some r \<Rightarrow> ((r, False), d)
      | None \<Rightarrow> ((claim_row inp (d_next d), True),
          d\<lparr>d_refunds := d_refunds d @ [claim_row inp (d_next d)], d_next := d_next d + 1\<rparr>))"

definition pending_refund :: "ident \<Rightarrow> refund_row \<Rightarrow> bool" where
  "pending_refund refundId r = (r_id r = refundId \<and> r_status r = RPending)"

definition markRefundPending :: "ident \<Rightarrow> string \<Rightarrow> db \<Rightarrow> db" where
  "markRefundPending refundId ref d = d\<lparr>d_refunds := upd (pending_refund refundId)
     (\<lambda>r. r\<lparr>r_gatewayRef := Some ref\<rparr>) (d_refunds d)\<rparr>"

definition findRefundByGatewayRef :: "ident \<Rightarrow> string \<Rightarrow> db \<Rightarrow> refund_row option" where
  "findRefundByGatewayRef org ref d =
     find (\<lambda>r. r_org r = org \<and> r_gatewayRef r = Some ref) (d_refunds d)"

definition markRefundFailed :: "ident \<Rightarrow> string option \<Rightarrow> db \<Rightarrow> bool \<times> db" where
  "markRefundFailed refundId reason d =
     (list_ex (pending_refund refundId) (d_refunds d),
      d\<lparr>d_refunds := upd (pending_refund refundId)
        (\<lambda>r. r\<lparr>r_status := RFailed, r_reason := reason\<rparr>) (d_refunds d)\<rparr>)"

definition markRefundedIn :: "mark_refunded_input \<Rightarrow> db \<Rightarrow> bool \<times> db" where
  "markRefundedIn inp d =
     (if \<not> list_ex (pending_refund (mr_refund inp)) (d_refunds d) then (False, d)
      else (True, d\<lparr>d_refunds := upd (pending_refund (mr_refund inp))
             (\<lambda>r. r\<lparr>r_status := RSucceeded, r_gatewayRef := Some (mr_gatewayRef inp),
                r_settledAt := Some (mr_now inp)\<rparr>) (d_refunds d),
           d_payments := upd (\<lambda>p. p_id p = mr_payment inp) (\<lambda>p. p\<lparr>p_status := PRefunded\<rparr>) (d_payments d)\<rparr>))"

definition settleDuplicateRefund ::
  "ident \<Rightarrow> ident \<Rightarrow> mark_refunded_input \<Rightarrow> db \<Rightarrow> duplicate_refund_settlement \<times> db" where
  "settleDuplicateRefund org orderId inp d =
     (let orderPayments = filter (\<lambda>p. p_org p = org \<and> p_order p = orderId) (d_payments d);
          coveredElsewhere = list_ex (\<lambda>p. p_id p \<noteq> mr_payment inp \<and> p_status p = PPaid) orderPayments
      in if \<not> coveredElsewhere then (SolePayment, d)
         else case markRefundedIn inp d of (moved, d') \<Rightarrow> (if moved then DupSettled else NotPending, d'))"

section \<open>The log of callbacks\<close>

definition webhook_of :: "string \<Rightarrow> string \<Rightarrow> webhook_row \<Rightarrow> bool" where
  "webhook_of provider eventId w = (w_provider w = provider \<and> w_eventId w = eventId)"

definition recordWebhook :: "string \<Rightarrow> verified_webhook \<Rightarrow> db \<Rightarrow> bool \<times> db" where
  "recordWebhook provider verified d =
     (case find (webhook_of provider (vw_eventId verified)) (d_webhooks d) of
        None \<Rightarrow> (True, d\<lparr>d_webhooks := d_webhooks d @ [\<lparr>w_provider = provider,
                   w_eventId = vw_eventId verified, w_status = WReceived, w_org = None\<rparr>]\<rparr>)
      | Some w \<Rightarrow> (w_status w \<noteq> WProcessed, d))"

definition markWebhookProcessed :: "string \<Rightarrow> ident option \<Rightarrow> webhook_status \<Rightarrow> db \<Rightarrow> db" where
  "markWebhookProcessed eventId org status d =
     d\<lparr>d_webhooks := upd (\<lambda>w. w_eventId w = eventId) (\<lambda>w. w\<lparr>w_status := status, w_org := org\<rparr>)
        (d_webhooks d)\<rparr>"

section \<open>Frames\<close>

named_theorems ledger_defs \<open>statements that touch only payments, refunds and callbacks\<close>

lemmas [ledger_defs] = markPaidIn_def markFailed_def updateGatewayRef_def markRefundPending_def
  markRefundFailed_def markWebhookProcessed_def

lemma ledger_inventory [simp]:
  "inventory (markPaidIn i t d) = inventory d" "inventory (markFailed i d) = inventory d"
  "inventory (updateGatewayRef i ref d) = inventory d" "inventory (markRefundPending j ref d) = inventory d"
  "inventory (snd (markRefundFailed j reason d)) = inventory d"
  "inventory (snd (markRefundedIn inp d)) = inventory d"
  "inventory (markWebhookProcessed e tenant st d) = inventory d"
  "inventory (snd (recordWebhook provider v d)) = inventory d"
  "inventory (snd (settleDuplicateRefund org oid inp d)) = inventory d"
  by (simp_all add: ledger_defs inventory_def markRefundedIn_def recordWebhook_def settleDuplicateRefund_def
      split: option.splits prod.splits)

lemma recordWebhook_seen:
  assumes "webhook_of provider (vw_eventId v) w" and "w_status w = WProcessed" and "w \<in> set (d_webhooks d)"
    and "uniq (\<lambda>_. True) (\<lambda>w. (w_provider w, w_eventId w)) (d_webhooks d)"
  shows "recordWebhook provider v d = (False, d)"
proof -
  have "find (webhook_of provider (vw_eventId v)) (d_webhooks d) = Some w"
    by (rule find_uniq [where k = "\<lambda>w. (w_provider w, w_eventId w)"])
      (use assms in \<open>auto simp: uniq_def webhook_of_def\<close>)
  then show ?thesis using assms(2) by (simp add: recordWebhook_def)
qed

end
