(* ===== verification/Calendar.thy ===== *)
theory Calendar
  imports Prelude
begin

text \<open>
  Days of the calendar: \<^verbatim>\<open>src/src/common/time/bangkok.ts\<close>, and the dates the services compute
  with. A date is the number of its day, counted from 1970-01-01; every instant the services
  see is later. The code keeps dates as \<^verbatim>\<open>YYYY-MM-DD\<close> texts; \<open>iso_date\<close> is that text, and
  \<open>civil_of\<close> and \<open>day_of\<close> are the Gregorian calendar JavaScript's \<^verbatim>\<open>Date\<close> and PostgreSQL's
  \<^verbatim>\<open>date\<close> share.
\<close>

section \<open>Bangkok days\<close>

definition BANGKOK_OFFSET_MS :: int where "BANGKOK_OFFSET_MS = 7 * 60 * 60 * 1000"
definition DAY_MS :: int where "DAY_MS = 24 * 60 * 60 * 1000"

definition bangkokDay :: "instant \<Rightarrow> int" where
  "bangkokDay t = (t + BANGKOK_OFFSET_MS) div DAY_MS"

definition daysLeft :: "instant \<Rightarrow> instant \<Rightarrow> int" where
  "daysLeft now target = max 0 (bangkokDay target - bangkokDay now)"

lemma bangkokDay_mono: "s \<le> t \<Longrightarrow> bangkokDay s \<le> bangkokDay t"
  by (simp add: bangkokDay_def DAY_MS_def zdiv_mono1)

section \<open>The Gregorian calendar\<close>

record civil =
  c_year :: nat
  c_month :: nat
  c_day :: nat

definition leap :: "nat \<Rightarrow> bool" where
  "leap y = (y mod 4 = 0 \<and> (y mod 100 \<noteq> 0 \<or> y mod 400 = 0))"

definition year_days :: "nat \<Rightarrow> nat" where
  "year_days y = (if leap y then 366 else 365)"

definition month_days :: "nat \<Rightarrow> nat \<Rightarrow> nat" where
  "month_days y m = (if m = 2 then (if leap y then 29 else 28)
     else if m \<in> {4, 6, 9, 11} then 30 else 31)"

lemma year_days_pos [simp]: "0 < year_days y"
  by (simp add: year_days_def)

function year_from :: "nat \<Rightarrow> nat \<Rightarrow> nat \<times> nat" where
  "year_from y n = (if n < year_days y then (y, n) else year_from (y + 1) (n - year_days y))"
  by pat_completeness auto
termination
proof (relation "measure snd")
  fix y n :: nat
  assume "\<not> n < year_days y"
  then show "((y + 1, n - year_days y), (y, n)) \<in> measure snd"
    using year_days_pos [of y] unfolding in_measure snd_conv by linarith
qed simp

declare year_from.simps [simp del]

function month_from :: "nat \<Rightarrow> nat \<Rightarrow> nat \<Rightarrow> nat \<times> nat" where
  "month_from y m n =
     (if m \<ge> 12 \<or> n < month_days y m then (m, n) else month_from y (m + 1) (n - month_days y m))"
  by pat_completeness auto
termination by (relation "measure (\<lambda>(y, m, n). 12 - m)") auto

declare month_from.simps [simp del]

definition civil_of :: "int \<Rightarrow> civil" where
  "civil_of d = (case year_from 1970 (nat d) of (y, n) \<Rightarrow>
     (case month_from y 1 n of (m, k) \<Rightarrow> \<lparr>c_year = y, c_month = m, c_day = k + 1\<rparr>))"

definition days_before_year :: "nat \<Rightarrow> nat" where
  "days_before_year y = sum_list (map year_days [1970..<y])"

definition days_before_month :: "nat \<Rightarrow> nat \<Rightarrow> nat" where
  "days_before_month y m = sum_list (map (month_days y) [1..<m])"

definition day_of :: "civil \<Rightarrow> int" where
  "day_of c = int (days_before_year (c_year c) + days_before_month (c_year c) (c_month c) + (c_day c - 1))"

definition is_civil :: "civil \<Rightarrow> bool" where
  "is_civil c = (1970 \<le> c_year c \<and> 1 \<le> c_month c \<and> c_month c \<le> 12 \<and> 1 \<le> c_day c
     \<and> c_day c \<le> month_days (c_year c) (c_month c))"

lemma year_from_sum:
  "year_from y n = (y', r) \<Longrightarrow> y \<le> y' \<and> n = sum_list (map year_days [y..<y']) + r \<and> r < year_days y'"
proof (induction y n rule: year_from.induct)
  case (1 y n)
  show ?case
  proof (cases "n < year_days y")
    case True
    with "1.prems" show ?thesis by (simp add: year_from.simps [of y n])
  next
    case False
    with "1.prems" have "year_from (y + 1) (n - year_days y) = (y', r)"
      by (simp add: year_from.simps [of y n])
    with "1.IH" [OF False] have *: "y + 1 \<le> y'" "n - year_days y = sum_list (map year_days [y + 1..<y']) + r"
      "r < year_days y'" by auto
    then have "[y..<y'] = y # [y + 1..<y']" by (simp add: upt_rec)
    with * False show ?thesis by simp
  qed
qed

lemma year_from_eq:
  "y \<le> y' \<Longrightarrow> r < year_days y' \<Longrightarrow> year_from y (sum_list (map year_days [y..<y']) + r) = (y', r)"
proof (induction "y' - y" arbitrary: y)
  case 0
  then show ?case by (simp add: year_from.simps [of y])
next
  case (Suc k)
  then have "[y..<y'] = y # [y + 1..<y']" by (simp add: upt_rec)
  with Suc show ?case by (subst year_from.simps) (simp add: add.assoc)
qed

lemma month_from_sum:
  "month_from y m n = (m', r) \<Longrightarrow> m \<le> 12 \<Longrightarrow>
     m \<le> m' \<and> m' \<le> 12 \<and> n = sum_list (map (month_days y) [m..<m']) + r \<and> (m' < 12 \<longrightarrow> r < month_days y m')"
proof (induction y m n rule: month_from.induct)
  case (1 y m n)
  show ?case
  proof (cases "m \<ge> 12 \<or> n < month_days y m")
    case True
    with "1.prems" show ?thesis by (auto simp: month_from.simps [of y m n])
  next
    case False
    with "1.prems" have "month_from y (m + 1) (n - month_days y m) = (m', r)"
      by (simp add: month_from.simps [of y m n])
    with "1.IH" [OF False] False have *: "m + 1 \<le> m'" "m' \<le> 12"
      "n - month_days y m = sum_list (map (month_days y) [m + 1..<m']) + r"
      "m' < 12 \<longrightarrow> r < month_days y m'" by auto
    then have "[m..<m'] = m # [m + 1..<m']" by (simp add: upt_rec)
    with * False show ?thesis by simp
  qed
qed

lemma month_from_eq:
  "m \<le> m' \<Longrightarrow> m' \<le> 12 \<Longrightarrow> r < month_days y m' \<Longrightarrow>
     month_from y m (sum_list (map (month_days y) [m..<m']) + r) = (m', r)"
proof (induction "m' - m" arbitrary: m)
  case 0
  then show ?case by (simp add: month_from.simps [of y m])
next
  case (Suc k)
  then have "[m..<m'] = m # [m + 1..<m']" "\<not> m \<ge> 12" by (simp_all add: upt_rec)
  with Suc show ?case by (subst month_from.simps) (simp add: add.assoc)
qed

lemma year_days_months: "sum_list (map (month_days y) [1..<12]) + month_days y 12 = year_days y"
  by (simp add: upt_rec month_days_def year_days_def)

lemma days_before_month_bound:
  assumes "1 \<le> m" and "m \<le> 12" and "r < month_days y m"
  shows "days_before_month y m + r < year_days y"
proof -
  have "[1..<12] = [1..<m] @ [m..<12]" using assms by (metis upt_add_eq_append le_add_diff_inverse)
  then have "days_before_month y m + sum_list (map (month_days y) [m..<12]) + month_days y 12 = year_days y"
    using year_days_months [of y] by (simp add: days_before_month_def)
  moreover have "month_days y m \<le> sum_list (map (month_days y) [m..<12]) + month_days y 12"
    using assms by (cases "m = 12") (auto simp: upt_rec)
  ultimately show ?thesis using assms by simp
qed

lemma civil_of_day_of:
  assumes "is_civil c"
  shows "civil_of (day_of c) = c"
proof -
  let ?y = "c_year c" and ?m = "c_month c" and ?k = "c_day c - 1"
  have c: "1970 \<le> ?y" "1 \<le> ?m" "?m \<le> 12" "?k < month_days ?y ?m" "c_day c = ?k + 1"
    using assms by (auto simp: is_civil_def)
  have "nat (day_of c) = days_before_year ?y + (days_before_month ?y ?m + ?k)"
    by (simp only: day_of_def nat_int add.assoc)
  moreover have "year_from 1970 (days_before_year ?y + (days_before_month ?y ?m + ?k))
      = (?y, days_before_month ?y ?m + ?k)"
    unfolding days_before_year_def
    by (rule year_from_eq [OF c(1) days_before_month_bound [OF c(2-4)]])
  moreover have "month_from ?y 1 (days_before_month ?y ?m + ?k) = (?m, ?k)"
    unfolding days_before_month_def by (rule month_from_eq) (use c in auto)
  ultimately show ?thesis using c(5) by (simp add: civil_of_def)
qed

lemma day_of_civil_of:
  assumes "0 \<le> d"
  shows "day_of (civil_of d) = d" and "is_civil (civil_of d)"
proof -
  obtain y n where y: "year_from 1970 (nat d) = (y, n)" by force
  obtain m k where m: "month_from y 1 n = (m, k)" by force
  from year_from_sum [OF y] month_from_sum [OF m]
  have *: "nat d = days_before_year y + n" "n = days_before_month y m + k" "n < year_days y"
    "1970 \<le> y" "1 \<le> m" "m \<le> 12" "m < 12 \<longrightarrow> k < month_days y m"
    by (simp_all add: days_before_year_def days_before_month_def)
  have "k < month_days y m"
    using * year_days_months [of y] by (cases "m = 12") (auto simp: days_before_month_def)
  with * assms y m show "day_of (civil_of d) = d" "is_civil (civil_of d)"
    by (simp_all add: civil_of_def day_of_def is_civil_def)
qed

definition year_of :: "int \<Rightarrow> nat" where
  "year_of d = c_year (civil_of d)"

end
