(* ===== verification/Listing.thy ===== *)
theory Listing
  imports Prelude
begin

text \<open>
  What every list of the console shares: a page of results (\<^verbatim>\<open>src/src/common/http/paginated.ts\<close>),
  the \<^verbatim>\<open>LIMIT\<close>/\<^verbatim>\<open>OFFSET\<close> of its query, and PostgreSQL's \<^verbatim>\<open>ILIKE\<close> the searches use.
\<close>

section \<open>Pages\<close>

record page_meta =
  pg_page :: int
  pg_limit :: int
  pg_total :: int
  pg_totalPages :: int
  pg_hasNext :: bool
  pg_hasPrevious :: bool

definition paginated :: "'a list \<Rightarrow> int \<Rightarrow> int \<Rightarrow> int \<Rightarrow> 'a list \<times> page_meta" where
  "paginated items count page limit =
     (let totalPages = (if limit > 0 then - ((- count) div limit) else 0) in
      (items, \<lparr>pg_page = page, pg_limit = limit, pg_total = count, pg_totalPages = totalPages,
         pg_hasNext = (page < totalPages), pg_hasPrevious = (page > 1)\<rparr>))"

text \<open>The rows of a page: \<^verbatim>\<open>LIMIT limit OFFSET (page - 1) * limit\<close>.\<close>

definition page_of :: "int \<Rightarrow> int \<Rightarrow> 'a list \<Rightarrow> 'a list" where
  "page_of page limit rows = take (nat limit) (drop (nat ((page - 1) * limit)) rows)"

definition clamp_page :: "int option \<Rightarrow> int" where
  "clamp_page page = max 1 (case page of None \<Rightarrow> 1 | Some p \<Rightarrow> p)"

definition clamp_limit :: "int \<Rightarrow> int \<Rightarrow> int option \<Rightarrow> int" where
  "clamp_limit default_limit max_limit limit =
     min max_limit (max 1 (case limit of None \<Rightarrow> default_limit | Some l \<Rightarrow> l))"

text \<open>The pages of a list are the list, cut: reading them in turn reads every row once.\<close>

lemma take_page: "0 < limit \<Longrightarrow> take (k * limit) xs @ take limit (drop (k * limit) xs) = take (Suc k * limit) xs"
  by (simp add: take_add [symmetric] add.commute)

lemma pages_cover:
  assumes "0 < limit"
  shows "concat (map (\<lambda>p. page_of p limit xs) [1..int n]) = take (n * nat limit) xs"
proof (induction n)
  case 0
  then show ?case by simp
next
  case (Suc n)
  have "[1..int (Suc n)] = [1..int n] @ [int (Suc n)]"
    using upto_rec2 [of 1 "int (Suc n)"] by simp
  with Suc assms show ?case
    using take_page [of "nat limit" n xs] by (simp add: page_of_def nat_mult_distrib)
qed

lemma total_pages_cover:
  assumes "0 < limit" and "0 \<le> (count :: int)"
  shows "count \<le> - ((- count) div limit) * limit" and "- ((- count) div limit) * limit < count + limit"
proof -
  have "(- count) div limit * limit \<le> - count"
    using assms(1) by (metis add_increasing2 le_add_same_cancel1 mult.commute mult_div_mod_eq
        pos_mod_sign)
  then show "count \<le> - ((- count) div limit) * limit" by simp
  have "- count < (- count) div limit * limit + limit"
    using assms(1) by (metis add_strict_left_mono div_mult_mod_eq pos_mod_bound)
  then show "- ((- count) div limit) * limit < count + limit" by simp
qed

section \<open>Search\<close>

definition fold_case :: "char \<Rightarrow> char" where
  "fold_case c = (let v = (of_char c :: nat) in if 65 \<le> v \<and> v \<le> 90 then char_of (v + 32) else c)"

text \<open>
  \<^verbatim>\<open>s LIKE pattern\<close>: a percent sign matches any text, an underscore any one character and a
  backslash makes the next character literal. \<^verbatim>\<open>ILIKE\<close> folds the case of both sides (here of
  the ASCII letters).
\<close>

fun like :: "string \<Rightarrow> string \<Rightarrow> bool" where
  "like [] s = (s = [])"
| "like (p # ps) [] = (p = CHR ''%'' \<and> like ps [])"
| "like (p # ps) (c # s) =
     (if p = CHR ''%'' then like ps (c # s) \<or> like (p # ps) s
      else if p = CHR ''_'' then like ps s
      else if p = CHR 0x5C then (case ps of [] \<Rightarrow> False | q # qs \<Rightarrow> q = c \<and> like qs s)
      else p = c \<and> like ps s)"

definition ilike :: "string \<Rightarrow> string \<Rightarrow> bool" where
  "ilike s pattern = like (map fold_case pattern) (map fold_case s)"

definition contains_term :: "string \<Rightarrow> string" where
  "contains_term search = ''%'' @ search @ ''%''"

lemma like_percent_all: "like ''%'' s"
  by (induction s) simp_all

definition like_literal :: "string \<Rightarrow> bool" where
  "like_literal p = list_all (\<lambda>c. c \<notin> {CHR ''%'', CHR ''_'', CHR 0x5C}) p"

lemma like_literal_prefix: "like_literal p \<Longrightarrow> like (p @ ''%'') s \<longleftrightarrow> take (length p) s = p"
proof (induction p arbitrary: s)
  case Nil
  then show ?case by (simp add: like_percent_all)
next
  case (Cons a p)
  then show ?case by (cases s) (auto simp: like_literal_def)
qed

end
