(* ===== verification/TextOutput.thy ===== *)
theory TextOutput
  imports Prelude
begin

text \<open>
  Text the services hand out: \<^verbatim>\<open>src/src/common/csv/csv.ts\<close>, \<^verbatim>\<open>common/xml/escape-xml.ts\<close> and
  \<^verbatim>\<open>common/money/baht.ts\<close>. A text is the list of the bytes of its UTF-8 encoding: every
  character these functions look for is ASCII, and no other character has an ASCII byte.
  \<open>read_csv\<close> is the reader of RFC 4180 an exported file is written for.
\<close>

section \<open>Money\<close>

definition SATANG_PER_BAHT :: int where "SATANG_PER_BAHT = 100"

definition BAHT_SYMBOL :: string where
  "BAHT_SYMBOL = map char_of [224, 184, 191 :: nat]"

definition sign_text :: "int \<Rightarrow> string" where
  "sign_text n = (if n < 0 then ''-'' else [])"

definition two_digits :: "nat \<Rightarrow> string" where
  "two_digits n = [digit (n div 10), digit (n mod 10)]"

text \<open>
  A number of the code that is a whole number of hundredths, as \<^verbatim>\<open>String\<close> prints it; below
  \<^verbatim>\<open>10^15\<close> hundredths the double nearest to it is printed so.
\<close>

definition number_text :: "int \<Rightarrow> string" where
  "number_text n = (let m = nat \<bar>n\<bar>; f = m mod 100 in
     sign_text n @ digits (m div 100)
       @ (if f = 0 then [] else if f mod 10 = 0 then [CHR ''.'', digit (f div 10)]
          else CHR ''.'' # two_digits f))"

text \<open>\<^verbatim>\<open>satangToBaht\<close> is a division by 100: its value is its argument, read in hundredths.\<close>

definition satangToBaht :: "satang \<Rightarrow> int" where
  "satangToBaht n = n"

text \<open>The grouping of \<^verbatim>\<open>toLocaleString('en-US')\<close>: a comma before every third digit from the end.\<close>

fun grouped :: "nat \<Rightarrow> string" where
  "grouped n = (if n < 1000 then digits n
     else grouped (n div 1000) @ CHR '','' # digit (n mod 1000 div 100) # two_digits (n mod 100))"

declare grouped.simps [simp del]

definition formatBaht :: "satang \<Rightarrow> string" where
  "formatBaht n = (let m = nat \<bar>n\<bar>; f = m mod 100 in
     BAHT_SYMBOL @ sign_text n @ grouped (m div 100)
       @ (if f = 0 then [] else CHR ''.'' # two_digits f))"

section \<open>XML\<close>

definition replace_char :: "char \<Rightarrow> string \<Rightarrow> string \<Rightarrow> string" where
  "replace_char c t s = concat (map (\<lambda>x. if x = c then t else [x]) s)"

definition QUOTE :: char where "QUOTE = CHR 0x22"
definition APOSTROPHE :: char where "APOSTROPHE = CHR 0x27"

definition escapeXml :: "string \<Rightarrow> string" where
  "escapeXml s =
     replace_char APOSTROPHE ''&apos;'' (replace_char QUOTE ''&quot;''
       (replace_char CHR ''>'' ''&gt;'' (replace_char CHR ''<'' ''&lt;''
         (replace_char CHR ''&'' ''&amp;'' s))))"

definition xml_entity :: "char \<Rightarrow> string" where
  "xml_entity c =
     (if c = CHR ''&'' then ''&amp;'' else if c = CHR ''<'' then ''&lt;''
      else if c = CHR ''>'' then ''&gt;'' else if c = QUOTE then ''&quot;''
      else if c = APOSTROPHE then ''&apos;'' else [c])"

lemma replace_char_simps [simp]:
  "replace_char c t [] = []"
  "replace_char c t (x # s) = (if x = c then t else [x]) @ replace_char c t s"
  "replace_char c t (u @ s) = replace_char c t u @ replace_char c t s"
  by (simp_all add: replace_char_def)

text \<open>Five passes over the text are one pass over its characters.\<close>

lemma escapeXml_map: "escapeXml s = concat (map xml_entity s)"
  by (induction s) (simp_all add: escapeXml_def xml_entity_def QUOTE_def APOSTROPHE_def)

text \<open>What an XML parser reads: the five entities stand for their characters.\<close>

definition xml_entities :: "(string \<times> char) list" where
  "xml_entities = [(''&amp;'', CHR ''&''), (''&lt;'', CHR ''<''), (''&gt;'', CHR ''>''),
     (''&quot;'', QUOTE), (''&apos;'', APOSTROPHE)]"

fun unescape :: "nat \<Rightarrow> string \<Rightarrow> string" where
  "unescape (Suc k) (c # s) =
     (case find (\<lambda>(t, _). take (length t) (c # s) = t) xml_entities of
        Some (t, x) \<Rightarrow> x # unescape k (drop (length t) (c # s))
      | None \<Rightarrow> c # unescape k s)"
| "unescape _ _ = []"

lemma unescape_entity: "unescape (Suc k) (xml_entity c @ s) = c # unescape k s"
  by (simp add: xml_entity_def xml_entities_def QUOTE_def APOSTROPHE_def)

lemma unescape_escapeXml: "length s \<le> k \<Longrightarrow> unescape k (escapeXml s) = s"
proof (induction s arbitrary: k)
  case Nil
  then show ?case by (cases k) (simp_all add: escapeXml_map)
next
  case (Cons c s)
  then obtain j where "k = Suc j" "length s \<le> j" by (cases k) auto
  with Cons.IH show ?case by (simp add: escapeXml_map unescape_entity)
qed

lemma escapeXml_no_markup: "c \<in> set (escapeXml s) \<Longrightarrow> c \<notin> {CHR ''<'', CHR ''>'', QUOTE, APOSTROPHE}"
  by (auto simp: escapeXml_map xml_entity_def QUOTE_def APOSTROPHE_def split: if_splits)

section \<open>CSV\<close>

definition UTF8_BOM :: string where
  "UTF8_BOM = map char_of [239, 187, 191 :: nat]"

datatype csv_value = CsvNull | CsvText string | CsvNumber int

definition FORMULA_LEADS :: "char list" where
  "FORMULA_LEADS = [CHR ''='', CHR ''+'', CHR ''-'', CHR ''@'', CHR 0x09, CHR 0x0D]"

definition NEEDS_QUOTING :: "string \<Rightarrow> bool" where
  "NEEDS_QUOTING s = list_ex (\<lambda>c. c \<in> {QUOTE, CHR '','', CHR 0x0A, CHR 0x0D}) s"

definition neutralised :: "string \<Rightarrow> bool" where
  "neutralised s = (s \<noteq> [] \<and> hd s \<in> set FORMULA_LEADS)"

definition doubled :: "string \<Rightarrow> string" where
  "doubled s = replace_char QUOTE [QUOTE, QUOTE] s"

fun cell :: "csv_value \<Rightarrow> string" where
  "cell CsvNull = []"
| "cell (CsvNumber n) = number_text n"
| "cell (CsvText s) =
     (let safe = (if neutralised s then APOSTROPHE # s else s)
      in if neutralised s \<or> NEEDS_QUOTING safe then QUOTE # doubled safe @ [QUOTE] else safe)"

fun join :: "string \<Rightarrow> string list \<Rightarrow> string" where
  "join sep [] = []"
| "join sep [x] = x"
| "join sep (x # y # zs) = x @ sep @ join sep (y # zs)"

definition toCsv :: "string list \<Rightarrow> csv_value list list \<Rightarrow> string" where
  "toCsv header rows =
     UTF8_BOM @ join [CHR 0x0A] (join '','' (map (cell \<circ> CsvText) header)
         # map (\<lambda>row. join '','' (map cell row)) rows) @ [CHR 0x0A]"

section \<open>Reading a file back\<close>

text \<open>What a reader should see in a cell.\<close>

fun shown :: "csv_value \<Rightarrow> string" where
  "shown CsvNull = []"
| "shown (CsvNumber n) = number_text n"
| "shown (CsvText s) = (if neutralised s then APOSTROPHE # s else s)"

datatype csv_state = AtStart | InPlain | InQuotes | AfterQuote

fun read_csv :: "csv_state \<Rightarrow> string \<Rightarrow> string list \<Rightarrow> string \<Rightarrow> string list list" where
  "read_csv st x row [] = (if st = AtStart \<and> row = [] then [] else [row @ [x]])"
| "read_csv st x row (c # cs) =
     (if st = InQuotes then
        if c = QUOTE then read_csv AfterQuote x row cs else read_csv InQuotes (x @ [c]) row cs
      else if st = AfterQuote \<and> c = QUOTE then read_csv InQuotes (x @ [c]) row cs
      else if st = AtStart \<and> c = QUOTE then read_csv InQuotes x row cs
      else if c = CHR '','' then read_csv AtStart [] (row @ [x]) cs
      else if c = CHR 0x0A then (row @ [x]) # read_csv AtStart [] [] cs
      else read_csv InPlain (x @ [c]) row cs)"

definition csv_sep :: "char \<Rightarrow> bool" where
  "csv_sep c = (c = CHR '','' \<or> c = CHR 0x0A)"

definition csv_plain :: "string \<Rightarrow> bool" where
  "csv_plain s = list_all (\<lambda>c. c \<noteq> QUOTE \<and> \<not> csv_sep c) s"

lemma read_plain:
  "csv_plain s \<Longrightarrow> csv_sep c \<Longrightarrow> st = AtStart \<or> st = InPlain \<or> st = AfterQuote \<Longrightarrow>
     read_csv st x row (s @ c # cs) = read_csv AtStart (x @ s) row (c # cs)"
proof (induction s arbitrary: st x)
  case Nil
  then show ?case by (auto simp: csv_sep_def QUOTE_def)
next
  case (Cons a s)
  then have "read_csv st x row ((a # s) @ c # cs) = read_csv InPlain (x @ [a]) row (s @ c # cs)"
    by (auto simp: csv_plain_def csv_sep_def)
  with Cons show ?case by (auto simp: csv_plain_def)
qed

lemma read_quotes:
  "csv_sep c \<Longrightarrow> read_csv InQuotes x row (doubled s @ QUOTE # c # cs) = read_csv AtStart (x @ s) row (c # cs)"
proof (induction s arbitrary: x)
  case Nil
  then show ?case by (auto simp: doubled_def csv_sep_def QUOTE_def)
next
  case (Cons a s)
  then show ?case by (auto simp: doubled_def)
qed

lemma digit_plain: "digit_value c \<noteq> None \<Longrightarrow> c \<noteq> QUOTE \<and> \<not> csv_sep c"
  by (auto simp: digit_value_def QUOTE_def csv_sep_def split: if_splits)

lemma csv_plain_digits: "csv_plain (digits n)"
  using digits_are_digits digit_plain by (fastforce simp: csv_plain_def list_all_iff)

lemma csv_plain_digit: "n < 10 \<Longrightarrow> csv_plain [digit n]"
  using digit_plain [of "digit n"] by (simp add: csv_plain_def)

lemma csv_plain_append [simp]: "csv_plain (s @ t) \<longleftrightarrow> csv_plain s \<and> csv_plain t"
  by (simp add: csv_plain_def)

lemma csv_plain_Cons: "csv_plain (c # t) \<longleftrightarrow> c \<noteq> QUOTE \<and> \<not> csv_sep c \<and> csv_plain t"
  by (simp add: csv_plain_def)

lemma csv_plain_number: "csv_plain (number_text n)"
proof -
  have "csv_plain [digit (k div 10), digit (k mod 10)]" if "k < 100" for k
    using that csv_plain_digit [of "k div 10"] csv_plain_digit [of "k mod 10"]
    by (simp add: csv_plain_Cons)
  moreover have "csv_plain (sign_text n)" "CHR ''.'' \<noteq> QUOTE" "\<not> csv_sep CHR ''.''" "csv_plain []"
    by (simp_all add: sign_text_def csv_plain_def csv_sep_def QUOTE_def)
  ultimately show ?thesis
    using csv_plain_digits by (simp add: number_text_def Let_def two_digits_def csv_plain_Cons)
qed

lemma read_cell:
  assumes "csv_sep c"
  shows "read_csv AtStart [] row (cell v @ c # cs) = read_csv AtStart (shown v) row (c # cs)"
proof (cases v)
  case (CsvText s)
  let ?t = "shown v"
  show ?thesis
  proof (cases "neutralised s \<or> NEEDS_QUOTING ?t")
    case True
    with CsvText have "cell v = QUOTE # doubled ?t @ [QUOTE]" by (auto simp: Let_def)
    with read_quotes [OF assms, of "[]" row ?t cs] show ?thesis by simp
  next
    case False
    with CsvText have "cell v = ?t" "csv_plain ?t"
      by (auto simp: Let_def NEEDS_QUOTING_def csv_plain_def csv_sep_def list_ex_iff list_all_iff)
    with read_plain [of ?t c AtStart "[]" row cs] assms show ?thesis by simp
  qed
qed (use assms read_plain [OF csv_plain_number assms, of AtStart "[]" row] in auto)

lemma read_row:
  "vs \<noteq> [] \<Longrightarrow> read_csv AtStart [] row (join '','' (map cell vs) @ CHR 0x0A # cs)
     = (row @ map shown vs) # read_csv AtStart [] [] cs"
proof (induction vs arbitrary: row rule: induct_list012)
  case (2 v)
  then show ?case using read_cell [of "CHR 0x0A" row v cs] by (simp add: csv_sep_def QUOTE_def)
next
  case (3 v w vs)
  then show ?case
    using read_cell [of "CHR '',''" row v "join '','' (map cell (w # vs)) @ CHR 0x0A # cs"]
    by (simp add: csv_sep_def QUOTE_def)
qed simp

lemma read_rows:
  "list_all (\<lambda>r. r \<noteq> []) rows \<Longrightarrow> rows \<noteq> [] \<Longrightarrow>
     read_csv AtStart [] [] (join [CHR 0x0A] (map (\<lambda>row. join '','' (map cell row)) rows) @ [CHR 0x0A])
       = map (map shown) rows"
proof (induction rows rule: induct_list012)
  case (2 r)
  then show ?case using read_row [of r "[]" "[]"] by simp
next
  case (3 r q rows)
  then show ?case
    using read_row [of r "[]" "join [CHR 0x0A] (map (\<lambda>row. join '','' (map cell row)) (q # rows)) @ [CHR 0x0A]"]
    by simp
qed simp

end
