(* ===== verification/Invoices.thy ===== *)
theory Invoices
  imports PaymentsRepo Calendar Listing TextOutput "HOL-Library.Sublist"
begin

text \<open>
  Tax invoices: \<^verbatim>\<open>invoices/invoices.repository.ts\<close>, \<^verbatim>\<open>invoices.service.ts\<close>,
  \<^verbatim>\<open>invoices-ledger.service.ts\<close>, \<^verbatim>\<open>invoice-ageing.ts\<close>, \<^verbatim>\<open>invoices.mapper.ts\<close> and
  \<^verbatim>\<open>order-invoice.adapter.ts\<close>, with Checkout's and Payments' side of it
  (\<^verbatim>\<open>checkout/invoice-order.adapter.ts\<close>, \<^verbatim>\<open>payments/invoice-payment.adapter.ts\<close>). A number is
  drawn under a lock held to the end of the transaction, so issuing is one function on the
  database. The seller's identity stamped on an invoice and its currency are left out.
\<close>

section \<open>Constants\<close>

definition INVOICE_TERM_DAYS :: int where "INVOICE_TERM_DAYS = 14"
definition INVOICE_NUMBER_PREFIX :: string where "INVOICE_NUMBER_PREFIX = ''INV''"
definition INVOICE_SEQUENCE_WIDTH :: nat where "INVOICE_SEQUENCE_WIDTH = 4"
definition REFUND_VOID_REASON :: string where "REFUND_VOID_REASON = ''Refunded''"
definition INVOICE_AUDIT :: string where "INVOICE_AUDIT = ''invoice''"
definition INVOICE_DEFAULT_LIMIT :: int where "INVOICE_DEFAULT_LIMIT = 20"
definition INVOICE_MAX_LIMIT :: int where "INVOICE_MAX_LIMIT = 100"
definition INVOICE_EXPORT_LIMIT :: int where "INVOICE_EXPORT_LIMIT = 10000"

definition NO_AMOUNT :: error where
  "NO_AMOUNT = Validation ''This order has nothing to bill - an invoice needs a positive amount.'' []"
definition NO_BUYER_EMAIL :: error where
  "NO_BUYER_EMAIL = Validation ''This order has no buyer email, so the invoice has nobody to bill.'' []"
definition VOID_PAID :: error where
  "VOID_PAID = Conflict ''A paid invoice cannot be voided - refund its payment instead, which voids it.'' []"
definition ALREADY_VOID :: error where
  "ALREADY_VOID = Conflict ''This invoice is already void.'' []"
definition NOTHING_TO_EXPORT :: error where
  "NOTHING_TO_EXPORT = Conflict ''There is nothing to export - no invoices match these filters.'' []"
definition VOID_BLOCKED_PAID_HINT :: string where
  "VOID_BLOCKED_PAID_HINT = ''Paid - void it by refunding the payment.''"
definition VOID_BLOCKED_VOID_HINT :: string where
  "VOID_BLOCKED_VOID_HINT = ''Already void.''"

section \<open>Ageing\<close>

record ageing =
  ag_status :: invoice_status
  ag_daysUntilDue :: int

definition bangkokToday :: "instant \<Rightarrow> date" where
  "bangkokToday now = bangkokDay now"

definition dueDateFor :: "date \<Rightarrow> date" where
  "dueDateFor issuedAt = issuedAt + INVOICE_TERM_DAYS"

definition ageInvoice :: "invoice_status \<Rightarrow> date \<Rightarrow> date \<Rightarrow> ageing" where
  "ageInvoice stored dueAt today =
     (let daysUntilDue = dueAt - today in
      if stored = IPaid \<or> stored = IVoid then \<lparr>ag_status = stored, ag_daysUntilDue = daysUntilDue\<rparr>
      else \<lparr>ag_status = (if daysUntilDue < 0 then IOverdue else IIssued), ag_daysUntilDue = daysUntilDue\<rparr>)"

definition effectiveStatus :: "date \<Rightarrow> invoice_row \<Rightarrow> invoice_status" where
  "effectiveStatus today v =
     (if iv_status v \<in> {IPaid, IVoid} then iv_status v
      else if iv_dueAt v < today then IOverdue else IIssued)"

section \<open>Numbers\<close>

definition padStart :: "nat \<Rightarrow> char \<Rightarrow> string \<Rightarrow> string" where
  "padStart w c s = replicate (w - length s) c @ s"

fun split_part :: "char \<Rightarrow> nat \<Rightarrow> string \<Rightarrow> string" where
  "split_part sep 0 s = takeWhile (\<lambda>c. c \<noteq> sep) s"
| "split_part sep (Suc n) s = split_part sep n (drop 1 (dropWhile (\<lambda>c. c \<noteq> sep) s))"

definition number_prefix :: "nat \<Rightarrow> string" where
  "number_prefix year = INVOICE_NUMBER_PREFIX @ ''-'' @ digits year @ ''-''"

definition number_of :: "nat \<Rightarrow> nat \<Rightarrow> string" where
  "number_of year n = number_prefix year @ padStart INVOICE_SEQUENCE_WIDTH CHR ''0'' (digits n)"

text \<open>The third part of the number, which the cast \<^verbatim>\<open>::int\<close> refuses when it is no number.\<close>

definition sequence_of :: "string \<Rightarrow> nat option" where
  "sequence_of number = read_nat (split_part CHR ''-'' 2 number)"

definition nextNumber :: "ident \<Rightarrow> nat \<Rightarrow> db \<Rightarrow> error + string" where
  "nextNumber org year d =
     (let seqs = map (sequence_of \<circ> iv_number)
            (filter (\<lambda>v. iv_org v = org \<and> prefix (number_prefix year) (iv_number v)) (d_invoices d))
      in if None \<in> set seqs then Inl Uncaught
         else Inr (number_of year (fold max (map the seqs) 0 + 1)))"

section \<open>The repository\<close>

record issue_invoice_input =
  ii_org :: ident
  ii_order :: ident
  ii_event :: ident
  ii_buyerName :: string
  ii_buyerEmail :: string
  ii_issuedAt :: date
  ii_dueAt :: date
  ii_subtotal :: satang
  ii_vatAmount :: satang
  ii_amount :: satang
  ii_status :: invoice_status
  ii_paidVia :: "string option"
  ii_paidOn :: "date option"
  ii_actor :: ident

record void_invoice_input =
  vi_voidedBy :: ident
  vi_reason :: "string option"
  vi_now :: instant

definition audit_invoice :: "ident \<Rightarrow> ident \<Rightarrow> string \<Rightarrow> string option \<Rightarrow> db \<Rightarrow> db" where
  "audit_invoice org actor title meta d =
     d\<lparr>d_audits := d_audits d @ [\<lparr>au_org = org, au_type = INVOICE_AUDIT, au_title = title,
        au_meta = meta, au_actor = actor\<rparr>]\<rparr>"

definition findLiveForOrder :: "ident \<Rightarrow> ident \<Rightarrow> db \<Rightarrow> invoice_row option" where
  "findLiveForOrder org orderId d =
     find (\<lambda>v. iv_org v = org \<and> iv_order v = orderId \<and> iv_status v \<noteq> IVoid) (d_invoices d)"

definition findInvoice :: "ident \<Rightarrow> ident \<Rightarrow> db \<Rightarrow> invoice_row option" where
  "findInvoice org invoiceId d = find (\<lambda>v. iv_org v = org \<and> iv_id v = invoiceId) (d_invoices d)"

definition issued_row :: "issue_invoice_input \<Rightarrow> string \<Rightarrow> ident \<Rightarrow> invoice_row" where
  "issued_row inp number i = \<lparr>iv_id = i, iv_org = ii_org inp, iv_number = number, iv_order = ii_order inp,
     iv_event = ii_event inp, iv_buyerName = ii_buyerName inp, iv_buyerEmail = ii_buyerEmail inp,
     iv_issuedAt = ii_issuedAt inp, iv_dueAt = ii_dueAt inp, iv_subtotal = ii_subtotal inp,
     iv_vatAmount = ii_vatAmount inp, iv_amount = ii_amount inp, iv_status = ii_status inp,
     iv_paidVia = ii_paidVia inp, iv_paidOn = ii_paidOn inp, iv_voidedAt = None, iv_voidReason = None,
     iv_voidedBy = None\<rparr>"

definition live_order_index :: "invoice_row list \<Rightarrow> bool" where
  "live_order_index vs = uniq (\<lambda>v. iv_status v \<noteq> IVoid) iv_order vs"

definition number_index :: "invoice_row list \<Rightarrow> bool" where
  "number_index vs = uniq (\<lambda>_. True) (\<lambda>v. (iv_org v, iv_number v)) vs"

definition insertInvoice :: "invoice_row \<Rightarrow> db \<Rightarrow> error + db" where
  "insertInvoice v d =
     (if \<not> number_index (d_invoices d @ [v]) then Inl (DbViolation uq_invoices_org_number)
      else if \<not> live_order_index (d_invoices d @ [v]) then Inl (DbViolation uq_invoices_live_order)
      else Inr (d\<lparr>d_invoices := d_invoices d @ [v], d_next := d_next d + 1\<rparr>))"

definition issue :: "issue_invoice_input \<Rightarrow> db \<Rightarrow> (invoice_row \<times> bool) tx" where
  "issue inp d =
     (case findLiveForOrder (ii_org inp) (ii_order inp) d of
        Some existing \<Rightarrow> Inr ((existing, False), d)
      | None \<Rightarrow>
          bindE (nextNumber (ii_org inp) (year_of (ii_issuedAt inp)) d) (\<lambda>number.
          let row = issued_row inp number (d_next d) in
          bindE (insertInvoice row d) (\<lambda>d.
          Inr ((row, True), audit_invoice (ii_org inp) (ii_actor inp) (''Issued invoice '' @ number) None d))))"

definition void_row :: "void_invoice_input \<Rightarrow> invoice_row \<Rightarrow> invoice_row" where
  "void_row inp v = v\<lparr>iv_status := IVoid, iv_voidedAt := Some (vi_now inp),
     iv_voidedBy := Some (vi_voidedBy inp), iv_voidReason := vi_reason inp\<rparr>"

definition markVoid :: "ident \<Rightarrow> ident \<Rightarrow> void_invoice_input \<Rightarrow> db \<Rightarrow> invoice_row tx" where
  "markVoid org invoiceId inp d =
     (case findInvoice org invoiceId d of
        None \<Rightarrow> Inl Uncaught
      | Some v \<Rightarrow> Inr (void_row inp v,
          audit_invoice org (vi_voidedBy inp) (''Voided invoice '' @ iv_number v) (vi_reason inp)
            (d\<lparr>d_invoices := upd (\<lambda>v. iv_org v = org \<and> iv_id v = invoiceId) (void_row inp) (d_invoices d)\<rparr>)))"

definition markPaidForOrderIn :: "ident \<Rightarrow> ident \<Rightarrow> string \<Rightarrow> date \<Rightarrow> db \<Rightarrow> db" where
  "markPaidForOrderIn org orderId paidVia paidOn d =
     d\<lparr>d_invoices := upd (\<lambda>v. iv_org v = org \<and> iv_order v = orderId \<and> iv_status v = IIssued)
        (\<lambda>v. v\<lparr>iv_status := IPaid, iv_paidVia := Some paidVia, iv_paidOn := Some paidOn\<rparr>) (d_invoices d)\<rparr>"

definition live_of_order :: "ident \<Rightarrow> ident \<Rightarrow> invoice_row \<Rightarrow> bool" where
  "live_of_order org orderId v = (iv_org v = org \<and> iv_order v = orderId \<and> iv_status v \<noteq> IVoid)"

definition voidForRefundIn :: "ident \<Rightarrow> ident \<Rightarrow> void_invoice_input \<Rightarrow> db \<Rightarrow> db" where
  "voidForRefundIn org orderId inp d =
     fold (\<lambda>v. audit_invoice org (vi_voidedBy inp) (''Voided invoice '' @ iv_number v) (vi_reason inp))
       (filter (live_of_order org orderId) (d_invoices d))
       (d\<lparr>d_invoices := upd (live_of_order org orderId) (void_row inp) (d_invoices d)\<rparr>)"

section \<open>The adapter Payments calls\<close>

definition markInvoicePaidIn :: "ident \<Rightarrow> ident \<Rightarrow> string \<Rightarrow> instant \<Rightarrow> db \<Rightarrow> error + db" where
  "markInvoicePaidIn org orderId method_name paidAt d =
     Inr (markPaidForOrderIn org orderId method_name (bangkokToday paidAt) d)"

definition voidInvoiceForRefundIn :: "ident \<Rightarrow> ident \<Rightarrow> ident \<Rightarrow> instant \<Rightarrow> db \<Rightarrow> error + db" where
  "voidInvoiceForRefundIn org orderId actor now d =
     Inr (voidForRefundIn org orderId
       \<lparr>vi_voidedBy = actor, vi_reason = Some REFUND_VOID_REASON, vi_now = now\<rparr> d)"

section \<open>The service\<close>

text \<open>Checkout's side: the order an invoice may be raised against.\<close>

definition findBillableOrder :: "ident \<Rightarrow> ident \<Rightarrow> db \<Rightarrow> order_row option" where
  "findBillableOrder org orderId d =
     find (\<lambda>o'. o_id o' = orderId \<and> o_org o' = org \<and> o_status o' \<noteq> OCancelled) (d_orders d)"

text \<open>Payments' side: the newest paid payment of the order (a NULL time sorts first).\<close>

definition newest_first :: "('a \<Rightarrow> int option) \<Rightarrow> 'a list \<Rightarrow> 'a list" where
  "newest_first k xs = filter (\<lambda>x. k x = None) xs @ sort_key (\<lambda>x. - the (k x)) (filter (\<lambda>x. k x \<noteq> None) xs)"

definition findSettlementForOrder :: "ident \<Rightarrow> ident \<Rightarrow> db \<Rightarrow> (string \<times> date option) option" where
  "findSettlementForOrder org orderId d =
     (case newest_first p_paidAt (filter (\<lambda>p. p_org p = org \<and> p_order p = orderId \<and> p_status p = PPaid)
             (d_payments d)) of
        [] \<Rightarrow> None
      | p # _ \<Rightarrow> Some (p_method p, map_option bangkokDay (p_paidAt p)))"

definition requireBillable :: "ident \<Rightarrow> ident \<Rightarrow> db \<Rightarrow> error + order_row" where
  "requireBillable org orderId d =
     (case findBillableOrder org orderId d of
        None \<Rightarrow> Inl (NotFound ''Order not found.'')
      | Some ord \<Rightarrow>
          if o_total ord \<le> 0 then Inl NO_AMOUNT
          else if o_buyerEmail ord = [] then Inl NO_BUYER_EMAIL
          else Inr ord)"

definition issue_input :: "ident \<Rightarrow> ident \<Rightarrow> instant \<Rightarrow> order_row \<Rightarrow> (string \<times> date option) option
    \<Rightarrow> issue_invoice_input" where
  "issue_input org user now ord settlement = (let issuedAt = bangkokToday now in
     \<lparr>ii_org = org, ii_order = o_id ord, ii_event = o_event ord, ii_buyerName = o_buyerName ord,
      ii_buyerEmail = o_buyerEmail ord, ii_issuedAt = issuedAt, ii_dueAt = dueDateFor issuedAt,
      ii_subtotal = o_total ord - o_vatAmount ord, ii_vatAmount = o_vatAmount ord,
      ii_amount = o_total ord, ii_status = (if settlement = None then IIssued else IPaid),
      ii_paidVia = map_option fst settlement, ii_paidOn = Option.bind settlement snd, ii_actor = user\<rparr>)"

definition svc_issue :: "ident \<Rightarrow> ident \<Rightarrow> ident \<Rightarrow> instant \<Rightarrow> db \<Rightarrow> invoice_row svc" where
  "svc_issue org user orderId now d =
     bindS (requireBillable org orderId d, d) (\<lambda>ord d.
     bindS (in_tx (issue (issue_input org user now ord (findSettlementForOrder org (o_id ord) d))) d)
       (\<lambda>(v, _) d. (Inr v, d)))"

definition check_voidable :: "ident \<Rightarrow> ident \<Rightarrow> db \<Rightarrow> error + invoice_row" where
  "check_voidable org invoiceId d =
     (case findInvoice org invoiceId d of
        None \<Rightarrow> Inl (NotFound ''Invoice not found.'')
      | Some v \<Rightarrow>
          if iv_status v = IPaid then Inl VOID_PAID
          else if iv_status v = IVoid then Inl ALREADY_VOID
          else Inr v)"

definition voidInvoice :: "ident \<Rightarrow> ident \<Rightarrow> ident \<Rightarrow> string option \<Rightarrow> instant \<Rightarrow> db \<Rightarrow> invoice_row svc" where
  "voidInvoice org user invoiceId reason now d =
     bindS (check_voidable org invoiceId d, d) (\<lambda>_ d.
     in_tx (markVoid org invoiceId \<lparr>vi_voidedBy = user, vi_reason = reason, vi_now = now\<rparr>) d)"

section \<open>The hooks of a settlement and a refund\<close>

lemma audit_invoice_frame [simp]:
  "d_invoices (audit_invoice org a title m d) = d_invoices d" "d_next (audit_invoice org a title m d) = d_next d"
  "inventory (audit_invoice org a title m d) = inventory d"
  by (simp_all add: audit_invoice_def inventory_def)

lemma fold_audit_frame:
  "d_invoices (fold (\<lambda>v. audit_invoice org a (t v) m) vs d) = d_invoices d"
  "d_next (fold (\<lambda>v. audit_invoice org a (t v) m) vs d) = d_next d"
  "inventory (fold (\<lambda>v. audit_invoice org a (t v) m) vs d) = inventory d"
  by (induction vs arbitrary: d) simp_all

lemma invoice_hooks_inventory [simp]:
  "inventory (markPaidForOrderIn org i how day d) = inventory d"
  "inventory (voidForRefundIn org i inp d) = inventory d"
  by (simp add: markPaidForOrderIn_def inventory_def)
    (simp add: voidForRefundIn_def fold_audit_frame, simp add: inventory_def)

text \<open>Marking an invoice paid or void inside a settlement or a refund leaves the inventory alone.\<close>

interpretation pay_invoice: tx_hook "markInvoicePaidIn org orderId how paidAt" for org orderId how paidAt
  by unfold_locales (auto simp: markInvoicePaidIn_def)

interpretation void_invoice: tx_hook "voidInvoiceForRefundIn org orderId actor now" for org orderId actor now
  by unfold_locales (auto simp: voidInvoiceForRefundIn_def)

end
