(* ===== verification/InvoiceLedger.thy ===== *)
theory InvoiceLedger
  imports Invoices
begin

text \<open>
  Reading the invoices: the ledger, its tab counts and its export
  (\<^verbatim>\<open>invoices/invoices-ledger.service.ts\<close>, the reads of \<^verbatim>\<open>invoices.repository.ts\<close>,
  \<^verbatim>\<open>invoices.mapper.ts\<close>). The name of an event is a parameter: the \<^verbatim>\<open>events\<close> table is not part
  of the database here.
\<close>

type_synonym event_names = "ident \<Rightarrow> string option"

record ledger_row =
  lr_invoice :: invoice_row
  lr_orderReference :: string
  lr_eventName :: string

record invoice_filters =
  if_status :: "invoice_status option"
  if_event :: "ident option"
  if_search :: "string option"

definition invoice_join :: "event_names \<Rightarrow> db \<Rightarrow> invoice_row \<Rightarrow> ledger_row option" where
  "invoice_join events d v =
     (case (find (\<lambda>o'. o_id o' = iv_order v) (d_orders d), events (iv_event v)) of
        (Some o', Some n) \<Rightarrow> Some \<lparr>lr_invoice = v, lr_orderReference = o_reference o', lr_eventName = n\<rparr>
      | _ \<Rightarrow> None)"

text \<open>An empty search text is falsy, and filters nothing.\<close>

definition ledgerWhere :: "ident \<Rightarrow> invoice_filters \<Rightarrow> date \<Rightarrow> invoice_row \<Rightarrow> bool" where
  "ledgerWhere org f today v =
     (iv_org v = org
      \<and> (case if_status f of None \<Rightarrow> True | Some s \<Rightarrow> effectiveStatus today v = s)
      \<and> (case if_event f of None \<Rightarrow> True | Some e \<Rightarrow> iv_event v = e)
      \<and> (case if_search f of None \<Rightarrow> True
         | Some s \<Rightarrow> s = [] \<or> ilike (iv_number v) (contains_term s) \<or> ilike (iv_buyerName v) (contains_term s)))"

definition ledger :: "event_names \<Rightarrow> ident \<Rightarrow> invoice_filters \<Rightarrow> date \<Rightarrow> db \<Rightarrow> ledger_row list" where
  "ledger events org f today d =
     List.map_filter (invoice_join events d) (filter (ledgerWhere org f today) (d_invoices d))"

text \<open>\<^verbatim>\<open>ORDER BY issued_at DESC, id DESC\<close>.\<close>

definition newest_issued :: "ledger_row list \<Rightarrow> ledger_row list" where
  "newest_issued rows = sort_key (\<lambda>r. - iv_issuedAt (lr_invoice r))
     (sort_key (\<lambda>r. - int (iv_id (lr_invoice r))) rows)"

definition invoice_page ::
  "event_names \<Rightarrow> ident \<Rightarrow> invoice_filters \<Rightarrow> int \<Rightarrow> int \<Rightarrow> date \<Rightarrow> db \<Rightarrow> ledger_row list \<times> int" where
  "invoice_page events org f page limit today d =
     (let rows = ledger events org f today d
      in (page_of page limit (newest_issued rows), int (length rows)))"

record invoice_counts =
  ic_issued :: int
  ic_paid :: int
  ic_overdue :: int
  ic_void :: int

definition count_status :: "date \<Rightarrow> invoice_status \<Rightarrow> ledger_row list \<Rightarrow> int" where
  "count_status today s rows = int (length (filter (\<lambda>r. effectiveStatus today (lr_invoice r) = s) rows))"

definition countByStatus :: "event_names \<Rightarrow> ident \<Rightarrow> invoice_filters \<Rightarrow> date \<Rightarrow> db \<Rightarrow> invoice_counts" where
  "countByStatus events org f today d =
     (let rows = ledger events org (f\<lparr>if_status := None\<rparr>) today d in
      \<lparr>ic_issued = count_status today IIssued rows, ic_paid = count_status today IPaid rows,
       ic_overdue = count_status today IOverdue rows, ic_void = count_status today IVoid rows\<rparr>)"

section \<open>What the console shows\<close>

record invoice_entry =
  ie_row :: ledger_row
  ie_status :: invoice_status
  ie_daysUntilDue :: int
  ie_amountLabel :: string
  ie_canVoid :: bool
  ie_voidBlockedReason :: "string option"

definition voidBlockedReason :: "invoice_status \<Rightarrow> string option" where
  "voidBlockedReason status =
     (if status = IPaid then Some VOID_BLOCKED_PAID_HINT
      else if status = IVoid then Some VOID_BLOCKED_VOID_HINT else None)"

definition toInvoiceEntry :: "ledger_row \<Rightarrow> date \<Rightarrow> invoice_entry" where
  "toInvoiceEntry row today =
     (let age = ageInvoice (iv_status (lr_invoice row)) (iv_dueAt (lr_invoice row)) today in
      \<lparr>ie_row = row, ie_status = ag_status age, ie_daysUntilDue = ag_daysUntilDue age,
       ie_amountLabel = formatBaht (iv_amount (lr_invoice row)),
       ie_canVoid = (ag_status age = IIssued \<or> ag_status age = IOverdue),
       ie_voidBlockedReason = voidBlockedReason (ag_status age)\<rparr>)"

record list_invoices_query =
  lq_page :: "int option"
  lq_limit :: "int option"
  lq_filters :: invoice_filters

definition list_invoices ::
  "event_names \<Rightarrow> ident \<Rightarrow> list_invoices_query \<Rightarrow> instant \<Rightarrow> db
    \<Rightarrow> (invoice_entry list \<times> page_meta) \<times> invoice_counts" where
  "list_invoices events org q now d =
     (let today = bangkokToday now;
          page = clamp_page (lq_page q);
          limit = clamp_limit INVOICE_DEFAULT_LIMIT INVOICE_MAX_LIMIT (lq_limit q)
      in case invoice_page events org (lq_filters q) page limit today d of (items, count) \<Rightarrow>
        (paginated (map (\<lambda>r. toInvoiceEntry r today) items) count page limit,
         countByStatus events org (lq_filters q) today d))"

definition detail :: "event_names \<Rightarrow> ident \<Rightarrow> ident \<Rightarrow> instant \<Rightarrow> db \<Rightarrow> error + invoice_entry" where
  "detail events org invoiceId now d =
     (case Option.bind (findInvoice org invoiceId d) (invoice_join events d) of
        None \<Rightarrow> Inl (NotFound ''Invoice not found.'')
      | Some row \<Rightarrow> Inr (toInvoiceEntry row (bangkokToday now)))"

section \<open>The export\<close>

fun invoice_status_text :: "invoice_status \<Rightarrow> string" where
  "invoice_status_text IIssued = ''issued''"
| "invoice_status_text IPaid = ''paid''"
| "invoice_status_text IOverdue = ''overdue''"
| "invoice_status_text IVoid = ''void''"

definition two_of :: "nat \<Rightarrow> string" where
  "two_of n = padStart 2 CHR ''0'' (digits n)"

definition iso_date :: "date \<Rightarrow> string" where
  "iso_date day = (let c = civil_of day in
     padStart 4 CHR ''0'' (digits (c_year c)) @ ''-'' @ two_of (c_month c) @ ''-'' @ two_of (c_day c))"

definition opt_text :: "string option \<Rightarrow> csv_value" where
  "opt_text v = (case v of None \<Rightarrow> CsvNull | Some s \<Rightarrow> CsvText s)"

definition INVOICE_EXPORT_HEADER :: "string list" where
  "INVOICE_EXPORT_HEADER = [''invoice_number'', ''issued_at'', ''due_at'', ''days_until_due'', ''buyer_name'',
     ''buyer_email'', ''event'', ''order_reference'', ''subtotal_baht'', ''vat_baht'', ''total_baht'',
     ''currency'', ''status'', ''paid_via'', ''paid_on'']"

definition toCsvRow :: "ledger_row \<Rightarrow> date \<Rightarrow> csv_value list" where
  "toCsvRow row today =
     (let v = lr_invoice row; age = ageInvoice (iv_status v) (iv_dueAt v) today in
      [CsvText (iv_number v), CsvText (iso_date (iv_issuedAt v)), CsvText (iso_date (iv_dueAt v)),
       CsvNumber (100 * ag_daysUntilDue age), CsvText (iv_buyerName v), CsvText (iv_buyerEmail v),
       CsvText (lr_eventName row), CsvText (lr_orderReference row),
       CsvNumber (satangToBaht (iv_subtotal v)), CsvNumber (satangToBaht (iv_vatAmount v)),
       CsvNumber (satangToBaht (iv_amount v)), CsvText ''THB'',
       CsvText (invoice_status_text (ag_status age)), opt_text (iv_paidVia v),
       opt_text (map_option iso_date (iv_paidOn v))])"

definition exportCsv ::
  "event_names \<Rightarrow> ident \<Rightarrow> list_invoices_query \<Rightarrow> instant \<Rightarrow> db \<Rightarrow> error + string" where
  "exportCsv events org q now d =
     (let today = bangkokToday now;
          items = fst (invoice_page events org (lq_filters q) 1 INVOICE_EXPORT_LIMIT today d)
      in if items = [] then Inl NOTHING_TO_EXPORT
         else Inr (toCsv INVOICE_EXPORT_HEADER (map (\<lambda>r. toCsvRow r today) items)))"

section \<open>Facts\<close>

lemma ageInvoice_effective: "ag_status (ageInvoice (iv_status v) (iv_dueAt v) today) = effectiveStatus today v"
  by (simp add: ageInvoice_def effectiveStatus_def Let_def)

lemma map_filter_filter:
  "(\<And>x y. g x = Some y \<Longrightarrow> Q y = P x) \<Longrightarrow>
     List.map_filter g (filter P xs) = filter Q (List.map_filter g xs)"
  by (induction xs) (auto simp: List.map_filter_def)

lemma ledger_status:
  "ledger events org (f\<lparr>if_status := Some s\<rparr>) today d
     = filter (\<lambda>r. effectiveStatus today (lr_invoice r) = s) (ledger events org (f\<lparr>if_status := None\<rparr>) today d)"
proof -
  have "filter (ledgerWhere org (f\<lparr>if_status := Some s\<rparr>) today) vs
      = filter (\<lambda>v. effectiveStatus today v = s) (filter (ledgerWhere org (f\<lparr>if_status := None\<rparr>) today) vs)"
    for vs by (induction vs) (auto simp: ledgerWhere_def)
  note split = this
  have "lr_invoice r = v" if "invoice_join events d v = Some r" for v r
    using that by (auto simp: invoice_join_def split: option.splits)
  then have "List.map_filter (invoice_join events d) (filter (\<lambda>v. effectiveStatus today v = s) vs)
      = filter (\<lambda>r. effectiveStatus today (lr_invoice r) = s) (List.map_filter (invoice_join events d) vs)"
    for vs by (intro map_filter_filter) simp
  then show ?thesis unfolding ledger_def split by (simp only:)
qed

end
