(* ===== verification/InvoiceProps.thy ===== *)
theory InvoiceProps
  imports InvoiceLedger Scenario
begin

text \<open>
  Theorems on tax invoices: the numbers of a workspace's year run 1, 2, 3, ... without a gap
  whatever is issued, paid or voided; a void is final; the ledger's reads agree with each
  other; an exported file reads back.
\<close>

section \<open>Numbers\<close>

lemma digits_no_dash: "CHR ''-'' \<notin> set (digits n)"
  using digits_are_digits [of "CHR ''-''" n] by (auto simp: digit_value_def)

lemma takeWhile_no_dash: "CHR ''-'' \<notin> set xs \<Longrightarrow> takeWhile (\<lambda>c. c \<noteq> CHR ''-'') (xs @ CHR ''-'' # ys) = xs"
  by (induction xs) auto

lemma dropWhile_no_dash: "CHR ''-'' \<notin> set xs \<Longrightarrow> dropWhile (\<lambda>c. c \<noteq> CHR ''-'') (xs @ CHR ''-'' # ys) = CHR ''-'' # ys"
  by (induction xs) auto

lemma padStart_no_dash: "CHR ''-'' \<notin> set (padStart w CHR ''0'' (digits n))"
  using digits_no_dash by (auto simp: padStart_def)

lemma takeWhile_all: "CHR ''-'' \<notin> set xs \<Longrightarrow> takeWhile (\<lambda>c. c \<noteq> CHR ''-'') xs = xs"
  by (induction xs) auto

lemma sequence_of_number_of [simp]: "sequence_of (number_of year n) = Some n"
proof -
  have "split_part CHR ''-'' 2 (number_of year n) = padStart INVOICE_SEQUENCE_WIDTH CHR ''0'' (digits n)"
    using dropWhile_no_dash [OF digits_no_dash, of year] takeWhile_all [OF padStart_no_dash]
    by (simp add: number_of_def number_prefix_def INVOICE_NUMBER_PREFIX_def numeral_2_eq_2)
  then show ?thesis
    by (simp add: sequence_of_def read_nat_def padStart_def read_digits_digits)
qed

lemma number_prefix_number_of: "prefix (number_prefix y) (number_of year n) \<longleftrightarrow> y = year"
proof
  assume "prefix (number_prefix y) (number_of year n)"
  then obtain zs where "digits y @ CHR ''-'' # zs
      = digits year @ CHR ''-'' # padStart INVOICE_SEQUENCE_WIDTH CHR ''0'' (digits n)"
    by (auto simp: prefix_def number_of_def number_prefix_def)
  then have "takeWhile (\<lambda>c. c \<noteq> CHR ''-'') (digits y @ CHR ''-'' # zs)
      = takeWhile (\<lambda>c. c \<noteq> CHR ''-'')
          (digits year @ CHR ''-'' # padStart INVOICE_SEQUENCE_WIDTH CHR ''0'' (digits n))" by simp
  then show "y = year" by (simp add: takeWhile_no_dash digits_no_dash)
qed (simp add: number_of_def)

lemma number_of_inject: "number_of y m = number_of z n \<longleftrightarrow> y = z \<and> m = n"
  by (metis number_prefix_number_of option.inject prefix_order.refl sequence_of_number_of)

section \<open>The sequence of a workspace's year\<close>

text \<open>The numbers issued, in the order of issue.\<close>

definition numbers_of :: "ident \<Rightarrow> nat \<Rightarrow> db \<Rightarrow> string list" where
  "numbers_of org year d =
     map iv_number (filter (\<lambda>v. iv_org v = org \<and> year_of (iv_issuedAt v) = year) (d_invoices d))"

definition gap_free :: "db \<Rightarrow> bool" where
  "gap_free d = (\<forall>org year. numbers_of org year d
     = map (number_of year) [1..<Suc (length (numbers_of org year d))])"

lemma gap_free_number:
  assumes "gap_free d" and "v \<in> set (d_invoices d)"
  shows "\<exists>n. iv_number v = number_of (year_of (iv_issuedAt v)) n"
proof -
  let ?l = "numbers_of (iv_org v) (year_of (iv_issuedAt v)) d"
  have "iv_number v \<in> set ?l" using assms(2) by (auto simp: numbers_of_def)
  also have "?l = map (number_of (year_of (iv_issuedAt v))) [1..<Suc (length ?l)]"
    using assms(1) unfolding gap_free_def by blast
  finally show ?thesis by auto
qed

lemma fold_max_upto: "fold max [Suc 0..<Suc n] 0 = n"
  by (induction n) simp_all

lemma nextNumber_gap_free:
  assumes "gap_free d"
  shows "nextNumber org year d = Inr (number_of year (Suc (length (numbers_of org year d))))"
proof -
  let ?vs = "filter (\<lambda>v. iv_org v = org \<and> prefix (number_prefix year) (iv_number v)) (d_invoices d)"
  let ?n = "length (numbers_of org year d)"
  have "?vs = filter (\<lambda>v. iv_org v = org \<and> year_of (iv_issuedAt v) = year) (d_invoices d)"
  proof (rule filter_cong [OF refl])
    fix v assume "v \<in> set (d_invoices d)"
    from gap_free_number [OF assms this]
    show "(iv_org v = org \<and> prefix (number_prefix year) (iv_number v))
        = (iv_org v = org \<and> year_of (iv_issuedAt v) = year)"
      by (auto simp: number_prefix_number_of)
  qed
  then have "map iv_number ?vs = map (number_of year) [1..<Suc ?n]"
    using assms unfolding gap_free_def numbers_of_def by metis
  then have "map (sequence_of \<circ> iv_number) ?vs = map Some [1..<Suc ?n]"
    by (simp add: map_map [symmetric] del: map_map upt_Suc) (simp add: comp_def del: upt_Suc)
  then show ?thesis
    unfolding nextNumber_def Let_def by (simp add: comp_def fold_max_upto del: upt_Suc)
qed

lemma gap_free_frame:
  "map (\<lambda>v. (iv_org v, iv_number v, iv_issuedAt v)) (d_invoices d')
     = map (\<lambda>v. (iv_org v, iv_number v, iv_issuedAt v)) (d_invoices d) \<Longrightarrow> gap_free d' = gap_free d"
proof -
  assume eq: "map (\<lambda>v. (iv_org v, iv_number v, iv_issuedAt v)) (d_invoices d')
     = map (\<lambda>v. (iv_org v, iv_number v, iv_issuedAt v)) (d_invoices d)"
  have "numbers_of org year d = map (fst \<circ> snd) (filter (\<lambda>(q, n, t). q = org \<and> year_of t = year)
      (map (\<lambda>v. (iv_org v, iv_number v, iv_issuedAt v)) (d_invoices d)))" for org year d
    by (simp add: numbers_of_def filter_map comp_def)
  with eq show ?thesis by (simp add: gap_free_def)
qed

section \<open>What may happen to the invoices\<close>

text \<open>
  Everything that writes \<^verbatim>\<open>invoices\<close>: issuing one, an Admin's void, the settlement and the
  refund of an order, and any statement on other tables, which may use up ids.
\<close>

inductive invoice_step :: "db \<Rightarrow> db \<Rightarrow> bool" where
  issued: "svc_issue org user orderId now d = (r, d') \<Longrightarrow> invoice_step d d'"
| voided: "voidInvoice org user invoiceId reason now d = (r, d') \<Longrightarrow> invoice_step d d'"
| paid: "markInvoicePaidIn org orderId how paidAt d = Inr d' \<Longrightarrow> invoice_step d d'"
| refunded: "voidInvoiceForRefundIn org orderId actor now d = Inr d' \<Longrightarrow> invoice_step d d'"
| elsewhere: "d_invoices d' = d_invoices d \<Longrightarrow> d_next d \<le> d_next d' \<Longrightarrow> invoice_step d d'"

text \<open>Two states of one document: what was issued is the same, only its fate may differ.\<close>

definition same_document :: "invoice_row \<Rightarrow> invoice_row \<Rightarrow> bool" where
  "same_document v w = (w\<lparr>iv_status := iv_status v, iv_paidVia := iv_paidVia v, iv_paidOn := iv_paidOn v,
     iv_voidedAt := iv_voidedAt v, iv_voidReason := iv_voidReason v, iv_voidedBy := iv_voidedBy v\<rparr> = v)"

text \<open>What may become of an invoice: a void one is as it was, a paid one stays paid or is void.\<close>

definition document_after :: "invoice_row \<Rightarrow> invoice_row \<Rightarrow> bool" where
  "document_after v w = (same_document v w \<and> (iv_status v = IVoid \<longrightarrow> w = v)
     \<and> (iv_status v = IPaid \<longrightarrow> iv_status w \<in> {IPaid, IVoid}))"

lemma document_after_refl [simp]: "document_after v v"
  by (simp add: document_after_def same_document_def)

lemma document_after_trans: "document_after u v \<Longrightarrow> document_after v w \<Longrightarrow> document_after u w"
  by (cases u; cases v; cases w) (auto simp: document_after_def same_document_def)

lemma document_after_same:
  "document_after v w \<Longrightarrow> iv_id w = iv_id v \<and> iv_org w = iv_org v \<and> iv_number w = iv_number v
     \<and> iv_issuedAt w = iv_issuedAt v \<and> iv_order w = iv_order v
     \<and> (iv_status w \<noteq> IVoid \<longrightarrow> iv_status v \<noteq> IVoid)"
  by (cases v; cases w) (auto simp: document_after_def same_document_def)

text \<open>The documents of one list are those of the other, each as it then is.\<close>

definition documents_after :: "invoice_row list \<Rightarrow> invoice_row list \<Rightarrow> bool" where
  "documents_after vs ws = list_all2 document_after vs ws"

lemma documents_after_upd:
  "(\<And>v. v \<in> set vs \<Longrightarrow> P v \<Longrightarrow> document_after v (f v)) \<Longrightarrow> documents_after vs (upd P f vs)"
  by (induction vs) (auto simp: documents_after_def)

lemma documents_after_refl [simp]: "documents_after vs vs"
  by (induction vs) (auto simp: documents_after_def)

lemma documents_after_map:
  assumes "documents_after vs ws"
  shows "map iv_id ws = map iv_id vs"
    and "map (\<lambda>v. (iv_org v, iv_number v, iv_issuedAt v)) ws = map (\<lambda>v. (iv_org v, iv_number v, iv_issuedAt v)) vs"
    and "map (\<lambda>v. (iv_org v, iv_number v)) ws = map (\<lambda>v. (iv_org v, iv_number v)) vs"
  using assms unfolding documents_after_def
  by (induction rule: list_all2_induct) (auto dest: document_after_same)

lemma documents_after_live_order:
  assumes "documents_after vs ws" and "w \<in> set ws" and "iv_status w \<noteq> IVoid"
  shows "\<exists>v\<in>set vs. iv_status v \<noteq> IVoid \<and> iv_order v = iv_order w"
proof -
  from assms(1,2) obtain v where "v \<in> set vs" "document_after v w"
    unfolding documents_after_def by (metis in_set_conv_nth list_all2_conv_all_nth)
  with document_after_same assms(3) show ?thesis by metis
qed

lemma documents_after_live:
  "documents_after vs ws \<Longrightarrow> live_order_index vs \<Longrightarrow> live_order_index ws"
  unfolding documents_after_def
proof (induction rule: list_all2_induct)
  case (Cons v vs w ws)
  then have "live_order_index ws" "live_order_index vs"
    by (simp_all add: live_order_index_def uniq_Cons)
  moreover have "iv_order w \<notin> iv_order ` {y \<in> set ws. iv_status y \<noteq> IVoid}" if "iv_status w \<noteq> IVoid"
  proof
    assume "iv_order w \<in> iv_order ` {y \<in> set ws. iv_status y \<noteq> IVoid}"
    then obtain y where "y \<in> set ws" "iv_status y \<noteq> IVoid" "iv_order y = iv_order w" by auto
    with documents_after_live_order [of vs ws y] Cons.hyps(2)
    obtain x where "x \<in> set vs" "iv_status x \<noteq> IVoid" "iv_order x = iv_order w"
      by (auto simp: documents_after_def)
    with Cons.prems document_after_same [OF Cons.hyps(1)] that show False
      by (auto simp: live_order_index_def uniq_Cons image_iff)
  qed
  ultimately show ?case by (simp add: live_order_index_def uniq_Cons)
qed simp

section \<open>The invariant\<close>

definition invoices_ok :: "db \<Rightarrow> bool" where
  "invoices_ok d = (gap_free d \<and> live_order_index (d_invoices d) \<and> number_index (d_invoices d)
     \<and> distinct (map iv_id (d_invoices d)) \<and> list_all (\<lambda>i. i < d_next d) (map iv_id (d_invoices d)))"

text \<open>A step either changes the fate of documents, or adds one with the next number of its year.\<close>

definition invoices_moved :: "db \<Rightarrow> db \<Rightarrow> bool" where
  "invoices_moved d d' = (d_next d \<le> d_next d' \<and> documents_after (d_invoices d) (d_invoices d'))"

definition invoice_added :: "db \<Rightarrow> invoice_row \<Rightarrow> db \<Rightarrow> bool" where
  "invoice_added d v d' = (d_invoices d' = d_invoices d @ [v] \<and> live_order_index (d_invoices d @ [v])
     \<and> number_index (d_invoices d @ [v]) \<and> iv_id v = d_next d \<and> d_next d < d_next d'
     \<and> nextNumber (iv_org v) (year_of (iv_issuedAt v)) d = Inr (iv_number v))"

lemma invoices_moved_ok:
  assumes "invoices_moved d d'" and "invoices_ok d"
  shows "invoices_ok d'"
proof -
  have docs: "documents_after (d_invoices d) (d_invoices d')" and "d_next d \<le> d_next d'"
    using assms(1) by (simp_all add: invoices_moved_def)
  then show ?thesis
    using assms(2) gap_free_frame [OF documents_after_map(2) [OF docs]] documents_after_live [OF docs]
    unfolding invoices_ok_def documents_after_map(1) [OF docs]
    by (auto simp: list_all_iff number_index_def uniq_def documents_after_map(3) [OF docs])
qed

lemma invoice_added_ok:
  assumes "invoice_added d v d'" and "invoices_ok d"
  shows "invoices_ok d'"
proof -
  have d': "d_invoices d' = d_invoices d @ [v]" and "live_order_index (d_invoices d @ [v])" "number_index (d_invoices d @ [v])"
    and "iv_id v = d_next d" "d_next d < d_next d'"
    and n: "iv_number v = number_of (year_of (iv_issuedAt v))
      (Suc (length (numbers_of (iv_org v) (year_of (iv_issuedAt v)) d)))"
    using assms nextNumber_gap_free by (auto simp: invoice_added_def invoices_ok_def)
  moreover have "gap_free d'"
    unfolding gap_free_def
  proof (intro allI)
    fix org year
    have "numbers_of org year d = map (number_of year) [1..<Suc (length (numbers_of org year d))]"
      using assms(2) unfolding invoices_ok_def gap_free_def by blast
    moreover have "numbers_of org year d' = numbers_of org year d
        @ (if iv_org v = org \<and> year_of (iv_issuedAt v) = year then [iv_number v] else [])"
      by (simp add: numbers_of_def d')
    ultimately show "numbers_of org year d' = map (number_of year) [1..<Suc (length (numbers_of org year d'))]"
      using n by (auto simp del: upt_Suc simp add: upt_Suc_append)
  qed
  ultimately show ?thesis
    using assms(2) by (auto simp: invoices_ok_def list_all_iff)
qed

lemma issue_cases:
  assumes "issue inp d = Inr ((v, fresh), d')"
  shows "if fresh then invoice_added d v d' \<and> iv_order v = ii_order inp \<and> iv_org v = ii_org inp
         else d' = d \<and> findLiveForOrder (ii_org inp) (ii_order inp) d = Some v"
  using assms by (auto simp: issue_def Let_def insertInvoice_def invoice_added_def issued_row_def
      audit_invoice_def bindE_Inr_iff split: option.splits if_splits)

lemma void_row_after: "iv_status v \<noteq> IVoid \<Longrightarrow> document_after v (void_row inp v)"
  by (simp add: document_after_def same_document_def void_row_def)

lemma markVoid_moved:
  assumes "invoices_ok d" and "check_voidable org i d = Inr v" and "markVoid org i inp d = Inr (w, d')"
  shows "invoices_moved d d'"
proof -
  have v: "v \<in> set (d_invoices d)" "iv_org v = org" "iv_id v = i" "iv_status v \<notin> {IPaid, IVoid}"
    using assms(2) by (auto simp: check_voidable_def findInvoice_def split: option.splits if_splits
        dest: find_SomeD)
  have "u = v" if "u \<in> set (d_invoices d)" "iv_id u = i" for u
    using assms(1) v(1,3) that by (auto simp: invoices_ok_def distinct_map inj_on_def)
  then have "document_after u (void_row inp u)" if "u \<in> set (d_invoices d)" "iv_id u = i" for u
    using that v(4) void_row_after by auto
  with assms(3) show ?thesis
    by (auto simp: markVoid_def invoices_moved_def split: option.splits intro!: documents_after_upd)
qed

lemma paid_moved: "markInvoicePaidIn org oid how t d = Inr d' \<Longrightarrow> invoices_moved d d'"
  by (auto simp: markInvoicePaidIn_def markPaidForOrderIn_def invoices_moved_def document_after_def
      same_document_def intro!: documents_after_upd)

lemma refunded_moved: "voidInvoiceForRefundIn org oid a t d = Inr d' \<Longrightarrow> invoices_moved d d'"
  by (auto simp: voidInvoiceForRefundIn_def voidForRefundIn_def invoices_moved_def fold_audit_frame
      live_of_order_def intro!: documents_after_upd void_row_after)

text \<open>Every step is one of the two.\<close>

lemma invoice_step_shape:
  assumes "invoice_step d d'" and "invoices_ok d"
  shows "invoices_moved d d' \<or> (\<exists>v. invoice_added d v d')"
  using assms(1)
proof cases
  case (issued org user orderId now r)
  then show ?thesis
    by (auto simp: svc_issue_def in_tx_def invoices_moved_def split: sum.splits prod.splits
        elim!: bindS.elims dest!: issue_cases split: if_splits)
next
  case (voided org user i reason now r)
  then show ?thesis
    using markVoid_moved [OF assms(2)]
    by (cases "check_voidable org i d") (auto simp: voidInvoice_def in_tx_def invoices_moved_def
        split: sum.splits)
qed (auto simp: invoices_moved_def dest: paid_moved refunded_moved)

lemma invoice_steps_ok:
  assumes "invoice_step\<^sup>*\<^sup>* d d'" and "invoices_ok d"
  shows "invoices_ok d'"
  using assms by (induction rule: rtranclp_induct)
    (auto dest: invoice_step_shape invoices_moved_ok invoice_added_ok)

lemma no_invoices_ok: "d_invoices d = [] \<Longrightarrow> invoices_ok d"
  by (simp add: invoices_ok_def gap_free_def numbers_of_def live_order_index_def number_index_def)

lemma next_number_fresh:
  assumes "gap_free d" and "w \<in> set (d_invoices d)" and "iv_org w = org"
  shows "iv_number w \<noteq> number_of year (Suc (length (numbers_of org year d)))"
proof
  assume eq: "iv_number w = number_of year (Suc (length (numbers_of org year d)))"
  with gap_free_number [OF assms(1,2)] have "year_of (iv_issuedAt w) = year"
    by (auto simp: number_of_inject)
  with assms(2,3) have "iv_number w \<in> set (numbers_of org year d)" by (auto simp: numbers_of_def)
  also have "numbers_of org year d = map (number_of year) [1..<Suc (length (numbers_of org year d))]"
    using assms(1) unfolding gap_free_def by blast
  finally show False unfolding eq by (auto simp: number_of_inject)
qed

lemma find_live:
  assumes "live_order_index (d_invoices d)" and "v \<in> set (d_invoices d)" and "iv_status v \<noteq> IVoid"
  shows "findLiveForOrder (iv_org v) (iv_order v) d = Some v"
proof -
  let ?P = "\<lambda>w. iv_org w = iv_org v \<and> iv_order w = iv_order v \<and> iv_status w \<noteq> IVoid"
  have "find ?P (d_invoices d) \<noteq> None" using assms(2,3) by (auto simp: find_None_iff)
  then obtain w where w: "find ?P (d_invoices d) = Some w" by blast
  from find_SomeD [OF this] have "w \<in> set (d_invoices d)" "iv_order w = iv_order v" "iv_status w \<noteq> IVoid"
    by auto
  then have "w = v"
    by (intro uniqD [OF assms(1) [unfolded live_order_index_def] _ assms(2) _ assms(3)])
  with w show ?thesis by (simp add: findLiveForOrder_def)
qed

text \<open>Nothing stands in the way of issuing the invoice of a billable order that has none.\<close>

lemma issue_succeeds:
  assumes "invoices_ok d"
    and free: "\<And>w. w \<in> set (d_invoices d) \<Longrightarrow> iv_order w = ii_order inp \<Longrightarrow> iv_status w = IVoid"
  shows "\<exists>number d'. issue inp d = Inr ((issued_row inp number (d_next d), True), d')
    \<and> invoice_added d (issued_row inp number (d_next d)) d'"
proof -
  let ?number = "number_of (year_of (ii_issuedAt inp))
    (Suc (length (numbers_of (ii_org inp) (year_of (ii_issuedAt inp)) d)))"
  let ?v = "issued_row inp ?number (d_next d)"
  have ok: "gap_free d" "live_order_index (d_invoices d)" "number_index (d_invoices d)"
    using assms(1) by (simp_all add: invoices_ok_def)
  have "findLiveForOrder (ii_org inp) (ii_order inp) d = None"
    using free by (auto simp: findLiveForOrder_def find_None_iff)
  moreover have "nextNumber (ii_org inp) (year_of (ii_issuedAt inp)) d = Inr ?number"
    by (rule nextNumber_gap_free [OF ok(1)])
  moreover have "?number \<noteq> iv_number w" if "w \<in> set (d_invoices d)" "iv_org w = ii_org inp" for w
    using next_number_fresh [OF ok(1) that] by metis
  then have "number_index (d_invoices d @ [?v])"
    using ok(3) unfolding number_index_def uniq_append_iff by (auto simp: issued_row_def uniq_Cons)
  moreover have "live_order_index (d_invoices d @ [?v])"
    using ok(2) free unfolding live_order_index_def uniq_append_iff
    by (auto simp: issued_row_def uniq_Cons)
  ultimately have "issue inp d = Inr ((?v, True), audit_invoice (ii_org inp) (ii_actor inp)
      (''Issued invoice '' @ ?number) None (d\<lparr>d_invoices := d_invoices d @ [?v], d_next := d_next d + 1\<rparr>))"
    by (simp add: issue_def insertInvoice_def Let_def)
  with issue_cases [OF this] show ?thesis by auto
qed

lemma documents_stay:
  assumes "invoice_step\<^sup>*\<^sup>* d d'" and "invoices_ok d" and "v \<in> set (d_invoices d)"
  shows "\<exists>w\<in>set (d_invoices d'). document_after v w"
  using assms
proof (induction rule: rtranclp_induct)
  case base
  then show ?case by (auto intro: bexI [of _ v])
next
  case (step b c)
  then obtain w where w: "w \<in> set (d_invoices b)" "document_after v w" by blast
  from invoice_step_shape [OF step.hyps(2) invoice_steps_ok [OF step.hyps(1) step.prems(1)]]
  obtain x where "x \<in> set (d_invoices c)" "document_after w x"
  proof (elim disjE exE)
    assume "invoices_moved b c"
    with w(1) that show ?thesis
      unfolding invoices_moved_def documents_after_def by (metis in_set_conv_nth list_all2_conv_all_nth)
  next
    fix u assume "invoice_added b u c"
    with w(1) that [of w] show ?thesis by (simp add: invoice_added_def)
  qed
  with w(2) show ?case using document_after_trans by blast
qed

section \<open>Properties\<close>

text \<open>
  C21. Whatever is issued, voided, paid and refunded, and whatever else the
  services do in between, the invoices a workspace issued in a year are numbered 1, 2, 3, ...
  in the order of issue, without a gap or a repetition; and the next one can be numbered.
\<close>

theorem invoice_numbers_gap_free:
  assumes "invoice_step\<^sup>*\<^sup>* d d'" and "d_invoices d = []"
  shows "numbers_of org year d' = map (number_of year) [1..<Suc (length (numbers_of org year d'))]
    \<and> nextNumber org year d' = Inr (number_of year (Suc (length (numbers_of org year d'))))
    \<and> distinct (numbers_of org year d')"
proof (intro conjI)
  have "gap_free d'" using invoice_steps_ok [OF assms(1) no_invoices_ok [OF assms(2)]] by (simp add: invoices_ok_def)
  then show eq: "numbers_of org year d' = map (number_of year) [1..<Suc (length (numbers_of org year d'))]"
    and "nextNumber org year d' = Inr (number_of year (Suc (length (numbers_of org year d'))))"
    unfolding gap_free_def by (blast, simp add: gap_free_def nextNumber_gap_free)
  have "distinct (map (number_of year) [1..<Suc (length (numbers_of org year d'))])"
    by (simp add: distinct_map inj_on_def number_of_inject del: upt_Suc)
  then show "distinct (numbers_of org year d')" by (simp only: eq [symmetric])
qed

text \<open>
  Once issued, an invoice is never removed and its number,
  buyer, dates and amounts never change; a void one never changes at all, a paid one can only
  become void; and an order never has two invoices that are not void.
\<close>

theorem invoice_documents_frozen:
  assumes "invoice_step\<^sup>*\<^sup>* d0 d" and "d_invoices d0 = []" and "invoice_step\<^sup>*\<^sup>* d d'"
    and "v \<in> set (d_invoices d)"
  shows "(\<exists>w\<in>set (d_invoices d'). document_after v w) \<and> live_order_index (d_invoices d')"
proof (intro conjI)
  have ok: "invoices_ok d" by (rule invoice_steps_ok [OF assms(1) no_invoices_ok [OF assms(2)]])
  show "\<exists>w\<in>set (d_invoices d'). document_after v w" by (rule documents_stay [OF assms(3) ok assms(4)])
  show "live_order_index (d_invoices d')"
    using invoice_steps_ok [OF assms(3) ok] by (simp add: invoices_ok_def)
qed

text \<open>
  C22. Every billable order gets its invoice: unless an invoice of the order that is not void
  exists already, issuing one succeeds, for the order's buyer and amounts, due after fourteen
  days; and asking again returns the same invoice and changes nothing.
\<close>

theorem billable_order_gets_invoice:
  assumes "invoice_step\<^sup>*\<^sup>* d0 d" and "d_invoices d0 = []"
    and "requireBillable org orderId d = Inr ord"
    and "list_all (\<lambda>v. iv_order v = o_id ord \<longrightarrow> iv_status v = IVoid) (d_invoices d)"
  shows "\<exists>v d'. svc_issue org user orderId now d = (Inr v, d') \<and> d_invoices d' = d_invoices d @ [v]
    \<and> iv_order v = o_id ord \<and> iv_amount v = o_total ord \<and> iv_subtotal v + iv_vatAmount v = iv_amount v
    \<and> iv_dueAt v = bangkokDay now + 14
    \<and> svc_issue org user2 orderId now2 d' = (Inr v, d')"
proof -
  let ?inp = "issue_input org user now ord (findSettlementForOrder org (o_id ord) d)"
  have ok: "invoices_ok d" by (rule invoice_steps_ok [OF assms(1) no_invoices_ok [OF assms(2)]])
  have inp: "ii_order ?inp = o_id ord" "ii_org ?inp = org" by (simp_all add: issue_input_def Let_def)
  obtain number d' where i: "issue ?inp d = Inr ((issued_row ?inp number (d_next d), True), d')"
    and added: "invoice_added d (issued_row ?inp number (d_next d)) d'"
    using issue_succeeds [OF ok, of ?inp] assms(4) by (auto simp: inp list_all_iff)
  have svc: "svc_issue org user orderId now d = (Inr (issued_row ?inp number (d_next d)), d')"
    using assms(3) i by (simp add: svc_issue_def in_tx_def)
  have "d_orders d' = d_orders d"
    using i by (auto simp: issue_def Let_def insertInvoice_def audit_invoice_def bindE_Inr_iff
        split: option.splits if_splits)
  then have "requireBillable org orderId d' = Inr ord"
    using assms(3) by (simp add: requireBillable_def findBillableOrder_def)
  have "live_order_index (d_invoices d')" "issued_row ?inp number (d_next d) \<in> set (d_invoices d')"
    using added by (simp_all add: invoice_added_def)
  note live = find_live [OF this]
  have "iv_status (issued_row ?inp number (d_next d)) \<noteq> IVoid"
    by (simp add: issued_row_def issue_input_def Let_def)
  from live [OF this] have "findLiveForOrder org (o_id ord) d' = Some (issued_row ?inp number (d_next d))"
    using inp by (simp add: issued_row_def)
  then have "svc_issue org user2 orderId now2 d' = (Inr (issued_row ?inp number (d_next d)), d')"
    using \<open>requireBillable org orderId d' = Inr ord\<close>
    by (simp add: svc_issue_def in_tx_def issue_def issue_input_def Let_def)
  with svc added show ?thesis
    by (auto simp: invoice_added_def issued_row_def issue_input_def Let_def bangkokToday_def
        dueDateFor_def INVOICE_TERM_DAYS_def)
qed

text \<open>
  The number of invoices a status tab announces is the
  number its list has, and every row of the list is shown with the tab's status, although the
  one is computed by the database and the other by the service.
\<close>

fun tab_count :: "invoice_status \<Rightarrow> invoice_counts \<Rightarrow> int" where
  "tab_count IIssued c = ic_issued c"
| "tab_count IPaid c = ic_paid c"
| "tab_count IOverdue c = ic_overdue c"
| "tab_count IVoid c = ic_void c"

theorem ledger_tabs_agree:
  "snd (invoice_page events org (f\<lparr>if_status := Some s\<rparr>) page limit today d)
     = tab_count s (countByStatus events org f today d)
   \<and> list_all (\<lambda>r. ie_status (toInvoiceEntry r today) = s)
     (fst (invoice_page events org (f\<lparr>if_status := Some s\<rparr>) page limit today d))"
proof (intro conjI)
  show "snd (invoice_page events org (f\<lparr>if_status := Some s\<rparr>) page limit today d)
      = tab_count s (countByStatus events org f today d)"
    by (cases s) (simp_all add: invoice_page_def Let_def ledger_status countByStatus_def count_status_def)
  have "set (fst (invoice_page events org (f\<lparr>if_status := Some s\<rparr>) page limit today d))
      \<subseteq> set (ledger events org (f\<lparr>if_status := Some s\<rparr>) today d)"
    by (auto simp: invoice_page_def Let_def page_of_def newest_issued_def dest!: in_set_takeD in_set_dropD)
  then show "list_all (\<lambda>r. ie_status (toInvoiceEntry r today) = s)
      (fst (invoice_page events org (f\<lparr>if_status := Some s\<rparr>) page limit today d))"
    by (auto simp: list_all_iff ledger_status toInvoiceEntry_def Let_def ageInvoice_effective)
qed

text \<open>
  C34. A reader of RFC 4180 sees in an exported file exactly the header and
  the rows, whatever commas, quotes and line breaks the stored texts hold, and no stored text
  it sees starts like a formula.
\<close>

theorem csv_reads_back:
  assumes "header \<noteq> []" and "list_all (\<lambda>r. r \<noteq> []) rows"
  shows "read_csv AtStart [] [] (drop (length UTF8_BOM) (toCsv header rows))
      = map (shown \<circ> CsvText) header # map (map shown) rows
    \<and> \<not> neutralised (shown (CsvText s))"
proof (intro conjI)
  have "drop (length UTF8_BOM) (toCsv header rows) = join [CHR 0x0A]
      (map (\<lambda>row. join '','' (map cell row)) (map CsvText header # rows)) @ [CHR 0x0A]"
    by (simp add: toCsv_def)
  with assms read_rows [of "map CsvText header # rows"]
  show "read_csv AtStart [] [] (drop (length UTF8_BOM) (toCsv header rows))
      = map (shown \<circ> CsvText) header # map (map shown) rows" by simp
  show "\<not> neutralised (shown (CsvText s))"
    by (simp add: neutralised_def FORMULA_LEADS_def APOSTROPHE_def)
qed

section \<open>Witnesses\<close>

text \<open>The unpaid order of the scenario is billed, paid, refunded, and billed again.\<close>

definition billed :: db where "billed = snd (svc_issue 1 5 11 1000 demo_unpaid)"
definition billed_paid :: db where
  "billed_paid = markPaidForOrderIn 1 11 ''Card'' 2000 billed"
definition billed_refunded :: db where
  "billed_refunded = voidForRefundIn 1 11 \<lparr>vi_voidedBy = 5, vi_reason = Some REFUND_VOID_REASON, vi_now = 3000\<rparr> billed_paid"
definition billed_again :: db where "billed_again = snd (svc_issue 1 5 11 4000 billed_refunded)"

lemma demo_unpaid_no_invoices: "d_invoices demo_unpaid = []"
  by code_simp

lemma demo_billable: "\<exists>ord. requireBillable 1 11 demo_unpaid = Inr ord"
proof -
  have "\<not> isl (requireBillable 1 11 demo_unpaid)" by code_simp
  then show ?thesis by (metis sum.collapse(2))
qed

lemma demo_issue_step: "invoice_step d (snd (svc_issue org u i now d))"
  by (rule invoice_step.issued) (rule surjective_pairing)

lemma issued_once:
  assumes "invoice_step\<^sup>*\<^sup>* d0 d" and "d_invoices d0 = []" and "requireBillable org orderId d = Inr ord"
    and "list_all (\<lambda>v. iv_order v = o_id ord \<longrightarrow> iv_status v = IVoid) (d_invoices d)"
  obtains v where "d_invoices (snd (svc_issue org user orderId now d)) = d_invoices d @ [v]"
    "iv_org v = org" "iv_order v = o_id ord" "iv_issuedAt v = bangkokDay now" "iv_status v \<in> {IIssued, IPaid}"
proof -
  let ?inp = "issue_input org user now ord (findSettlementForOrder org (o_id ord) d)"
  obtain number d' where "issue ?inp d = Inr ((issued_row ?inp number (d_next d), True), d')"
    and "invoice_added d (issued_row ?inp number (d_next d)) d'"
    using issue_succeeds [OF invoice_steps_ok [OF assms(1) no_invoices_ok [OF assms(2)]], of ?inp] assms(4)
    by (auto simp: issue_input_def Let_def list_all_iff)
  with that [of "issued_row ?inp number (d_next d)"] assms(3) show ?thesis
    by (simp add: svc_issue_def in_tx_def invoice_added_def issued_row_def issue_input_def Let_def
        bangkokToday_def)
qed

lemma billed_steps:
  "invoice_step\<^sup>*\<^sup>* demo_unpaid billed" "invoice_step\<^sup>*\<^sup>* billed billed_refunded"
  "invoice_step\<^sup>*\<^sup>* billed billed_again"
proof -
  show "invoice_step\<^sup>*\<^sup>* demo_unpaid billed"
    unfolding billed_def by (rule r_into_rtranclp) (rule demo_issue_step)
  have "invoice_step billed billed_paid"
    by (rule invoice_step.paid [of 1 11 "''Card''" "2000 * DAY_MS"])
      (simp add: billed_paid_def markInvoicePaidIn_def bangkokToday_def bangkokDay_def DAY_MS_def BANGKOK_OFFSET_MS_def)
  moreover have "invoice_step billed_paid billed_refunded"
    by (rule invoice_step.refunded [of 1 11 5 3000]) (simp add: billed_refunded_def voidInvoiceForRefundIn_def)
  ultimately show r: "invoice_step\<^sup>*\<^sup>* billed billed_refunded" by (meson rtranclp.simps)
  show "invoice_step\<^sup>*\<^sup>* billed billed_again"
    unfolding billed_again_def by (rule rtranclp.rtrancl_into_rtrancl [OF r]) (rule demo_issue_step)
qed

lemma demo_year: "bangkokDay 1000 = 0" "bangkokDay 4000 = 0" "year_of 0 = 1970"
  by (simp_all add: bangkokDay_def DAY_MS_def BANGKOK_OFFSET_MS_def year_of_def civil_of_def
      year_from.simps year_days_def leap_def month_from.simps month_days_def)

lemma issue_inventory_orders [simp]: "d_orders (snd (svc_issue org u i now d)) = d_orders d"
  by (cases "requireBillable org i d")
    (auto simp: svc_issue_def in_tx_def issue_def Let_def insertInvoice_def audit_invoice_def
      bindE_Inr_iff split: option.splits sum.splits if_splits)

lemma billed_orders: "d_orders billed_refunded = d_orders demo_unpaid"
  by (metis billed_def billed_paid_def billed_refunded_def invoice_hooks_inventory inventory_eqD(1)
      issue_inventory_orders)

lemma billed_row: "\<exists>v. d_invoices billed = [v] \<and> iv_org v = 1 \<and> iv_order v = 11 \<and> iv_issuedAt v = 0
    \<and> iv_status v \<in> {IIssued, IPaid}"
proof -
  obtain ord where ord: "requireBillable 1 11 demo_unpaid = Inr ord" using demo_billable by blast
  then have "o_id ord = 11"
    by (auto simp: requireBillable_def findBillableOrder_def split: option.splits if_splits dest: find_SomeD)
  with issued_once [OF rtranclp.rtrancl_refl demo_unpaid_no_invoices ord, of 5 1000] show ?thesis
    by (auto simp: billed_def demo_unpaid_no_invoices demo_year)
qed

lemma billed_refunded_row: "\<exists>v. d_invoices billed_refunded = [v] \<and> iv_org v = 1 \<and> iv_order v = 11
    \<and> iv_issuedAt v = 0 \<and> iv_status v = IVoid"
  using billed_row by (auto simp: billed_refunded_def billed_paid_def voidForRefundIn_def fold_audit_frame
      markPaidForOrderIn_def live_of_order_def void_row_def)

lemma billed_again_rows: "\<exists>v w. d_invoices billed_again = [v, w] \<and> iv_org v = 1 \<and> iv_issuedAt v = 0
    \<and> iv_org w = 1 \<and> iv_issuedAt w = 0"
proof -
  obtain v where v: "d_invoices billed_refunded = [v]" "iv_org v = 1" "iv_order v = 11" "iv_issuedAt v = 0"
    "iv_status v = IVoid" using billed_refunded_row by blast
  obtain ord where "requireBillable 1 11 demo_unpaid = Inr ord" using demo_billable by blast
  then have ord: "requireBillable 1 11 billed_refunded = Inr ord"
    by (simp add: requireBillable_def findBillableOrder_def billed_orders)
  obtain w where "d_invoices (snd (svc_issue 1 5 11 4000 billed_refunded)) = d_invoices billed_refunded @ [w]"
    "iv_org w = 1" "iv_issuedAt w = bangkokDay 4000"
    using issued_once [OF rtranclp_trans [OF billed_steps(1,2)] demo_unpaid_no_invoices ord, of 5 4000] v
    by auto
  with v show ?thesis by (simp add: billed_again_def demo_year)
qed

lemma replicate_three: "replicate 3 c = [c, c, c]"
  by (simp add: numeral_3_eq_3)

lemma demo_numbers: "number_of 1970 1 = ''INV-1970-0001''" "number_of 1970 2 = ''INV-1970-0002''"
  by (simp_all add: number_of_def number_prefix_def digits.simps digit_def INVOICE_NUMBER_PREFIX_def
      padStart_def INVOICE_SEQUENCE_WIDTH_def replicate_three)

theorem invoice_numbers_gap_free_witness:
  "numbers_of 1 1970 billed_again = [''INV-1970-0001'', ''INV-1970-0002'']"
proof -
  have "length (numbers_of 1 1970 billed_again) = 2"
    using billed_again_rows by (auto simp: numbers_of_def demo_year)
  with invoice_numbers_gap_free [OF rtranclp_trans [OF billed_steps(1,3)] demo_unpaid_no_invoices, of 1 1970]
  have "numbers_of 1 1970 billed_again = map (number_of 1970) [1..<Suc 2]" by metis
  also have "[1..<Suc 2] = [1, 2]" by (simp add: upt_rec)
  finally show ?thesis by (simp only: list.map demo_numbers)
qed

theorem invoice_documents_frozen_witness:
  "\<exists>v w. v \<in> set (d_invoices billed_refunded) \<and> iv_status v = IVoid
     \<and> w \<in> set (d_invoices billed_again) \<and> w = v"
proof -
  obtain v where v: "v \<in> set (d_invoices billed_refunded)" "iv_status v = IVoid"
    using billed_refunded_row by auto
  have "invoice_step\<^sup>*\<^sup>* billed_refunded billed_again"
    unfolding billed_again_def by (rule r_into_rtranclp) (rule demo_issue_step)
  from invoice_documents_frozen [OF rtranclp_trans [OF billed_steps(1,2)] demo_unpaid_no_invoices this v(1)] v
  show ?thesis by (auto simp: document_after_def)
qed

theorem billable_order_gets_invoice_witness:
  "\<exists>v d'. svc_issue 1 5 11 1000 demo_unpaid = (Inr v, d') \<and> svc_issue 1 6 11 2000 d' = (Inr v, d')"
proof -
  obtain ord where "requireBillable 1 11 demo_unpaid = Inr ord" using demo_billable by blast
  from billable_order_gets_invoice [OF rtranclp.rtrancl_refl demo_unpaid_no_invoices this, of 5 1000 6 2000]
  show ?thesis by (auto simp: demo_unpaid_no_invoices)
qed

theorem csv_reads_back_witness:
  "read_csv AtStart [] [] (drop (length UTF8_BOM) (toCsv [''a,b'', ''c''] [[CsvText ''=1'', CsvNumber 1250]]))
     = [[''a,b'', ''c''], [APOSTROPHE # ''=1'', ''12.5'']]"
  using csv_reads_back [of "[''a,b'', ''c'']" "[[CsvText ''=1'', CsvNumber 1250]]"]
  by (simp add: neutralised_def FORMULA_LEADS_def number_text_def digits.simps digit_def sign_text_def Let_def)

end
