(* ===== verification/StripeAdapter.thy ===== *)
theory StripeAdapter
  imports PaymentsRepo
begin

text \<open>
  \<^verbatim>\<open>payments/providers/stripe-payment.adapter.ts\<close>: what is asked of Stripe and what its
  answers and callbacks mean. Stripe's client and its signature check are parameters: a
  record of calls for one secret key, and a function from body, signature and secret to the
  event it signs. An event is Stripe's union type, its constructor the event's type.
\<close>

section \<open>Stripe's objects\<close>

text \<open>The fields the adapter reads.\<close>

record payment_error =
  pe_code :: "string option"
  pe_message :: "string option"

record stripe_intent =
  si_id :: string
  si_status :: string
  si_amount :: satang
  si_amountReceived :: "satang option"
  si_clientSecret :: "string option"
  si_created :: int   \<comment> \<open>seconds; 0 when absent\<close>
  si_lastError :: "payment_error option"
  si_promptpayQr :: "string option option"   \<comment> \<open>the QR next-action and its \<^verbatim>\<open>data\<close>\<close>

datatype intent_ref = IntentId string | IntentObject string | NoIntent

record stripe_session =
  ss_id :: string
  ss_url :: "string option"
  ss_paymentIntent :: intent_ref
  ss_paymentStatus :: string
  ss_amountTotal :: "satang option"
  ss_expiresAt :: "int option"

record stripe_refund =
  sf_id :: string
  sf_status :: "string option"
  sf_amount :: satang
  sf_failureReason :: "string option"

record stripe_payout =
  sp_id :: string
  sp_status :: string
  sp_failureMessage :: "string option"

datatype stripe_event =
    SessionCompleted string stripe_session
  | SessionExpired string stripe_session
  | IntentSucceeded string stripe_intent
  | IntentPaymentFailed string stripe_intent
  | IntentCanceled string stripe_intent
  | RefundUpdated string stripe_refund
  | RefundFailed string stripe_refund
  | OtherEvent string

section \<open>The adapter's inputs and answers\<close>

datatype payment_method_choice = Card | PromptPay

record start_payment_input =
  sti_order :: ident
  sti_org :: ident
  sti_amount :: satang
  sti_currency :: string
  sti_method :: payment_method_choice
  sti_buyerEmail :: string
  sti_descriptor :: "string option"
  sti_description :: string
  sti_returnUrl :: string
  sti_idempotencyKey :: string

datatype started_status = RequiresAction | StartSucceeded | StartFailed

record started_payment =
  sd_gatewayRef :: string
  sd_status :: started_status
  sd_checkoutUrl :: "string option"
  sd_clientSecret :: "string option"
  sd_promptPayQr :: "string option"
  sd_expiresAt :: "instant option"
  sd_declineReason :: "string option"

record refund_payment_input =
  rp_org :: ident
  rp_gatewayRef :: string
  rp_amount :: satang
  rp_idempotencyKey :: string

datatype provider_refund_status = ProvSucceeded | ProvPending | ProvFailed

record refunded_payment =
  rf_refundRef :: string
  rf_status :: provider_refund_status
  rf_failureReason :: "string option"

record retry_payout_input =
  rt_org :: ident
  rt_reference :: string
  rt_amount :: satang
  rt_currency :: string

datatype retried_status = RetryProcessing | RetryFailed

record retried_payout =
  rd_payoutRef :: string
  rd_status :: retried_status
  rd_failureReason :: "string option"

text \<open>
  What an intent or a session is created with: the amount, its currency, the method's
  parameters, and for a session the page the buyer comes back to.
\<close>

datatype method_params = CardParams "string option" | PromptPayParams string

record intent_params =
  ip_amount :: satang
  ip_currency :: string
  ip_order :: ident
  ip_org :: ident
  ip_method :: method_params

record session_params =
  sp_email :: string
  sp_amount :: satang
  sp_currency :: string
  sp_product :: string
  sp_returnUrl :: string
  sp_order :: ident
  sp_org :: ident
  sp_suffix :: "string option"

record stripe_client =
  createIntent :: "intent_params \<Rightarrow> string \<Rightarrow> error + stripe_intent"
  createSession :: "session_params \<Rightarrow> string \<Rightarrow> error + stripe_session"
  createRefund :: "string \<Rightarrow> satang \<Rightarrow> string \<Rightarrow> error + stripe_refund"
  createPayout :: "satang \<Rightarrow> string \<Rightarrow> string \<Rightarrow> string \<Rightarrow> string option + stripe_payout"

section \<open>Constants\<close>

definition THB :: string where "THB = ''thb''"
definition MIN_THB_SATANG :: int where "MIN_THB_SATANG = 1000"
definition MAX_THB_SATANG :: int where "MAX_THB_SATANG = 99999999"
definition MAX_SUFFIX_LENGTH :: nat where "MAX_SUFFIX_LENGTH = 12"
definition MIN_SUFFIX_LENGTH :: nat where "MIN_SUFFIX_LENGTH = 5"

text \<open>Whether a character matches \<^verbatim>\<open>NON_LATIN\<close>.\<close>

definition NON_LATIN :: "char \<Rightarrow> bool" where
  "NON_LATIN c = (let n = (of_char c :: nat) in
     \<not> (65 \<le> n \<and> n \<le> 90 \<or> 97 \<le> n \<and> n \<le> 122 \<or> 48 \<le> n \<and> n \<le> 57 \<or> n = 32))"

definition ATTEMPT_EXPIRED :: string where
  "ATTEMPT_EXPIRED = ''payment_intent_payment_attempt_expired''"

definition REFUND_IN_FLIGHT :: "string list" where
  "REFUND_IN_FLIGHT = [''pending'', ''requires_action'']"

fun REFUND_WEBHOOK_OUTCOME :: "string \<Rightarrow> webhook_type option" where
  "REFUND_WEBHOOK_OUTCOME s =
     (if s = ''succeeded'' then Some WRefundSucceeded
      else if s = ''failed'' \<or> s = ''canceled'' then Some WRefundFailed
      else None)"

definition STRIPE_DASHBOARD :: string where "STRIPE_DASHBOARD = ''https://dashboard.stripe.com''"
definition TEST_MODE_PATH :: string where "TEST_MODE_PATH = ''/test''"
definition PAYOUT_SETTINGS_PATH :: string where "PAYOUT_SETTINGS_PATH = ''/settings/payouts''"

definition TEST_MODE_KEY :: "string \<Rightarrow> bool" where
  "TEST_MODE_KEY key = (take 8 key = ''sk_test_'' \<or> take 8 key = ''rk_test_'')"

section \<open>Statement descriptors\<close>

text \<open>
  A run of spaces becomes one. After the replacement of every other character the only white
  space left is the space itself.
\<close>

fun collapse :: "string \<Rightarrow> string" where
  "collapse (a # b # cs) = (if a = CHR '' '' \<and> b = CHR '' '' then collapse (b # cs) else a # collapse (b # cs))"
| "collapse cs = cs"

definition trim :: "string \<Rightarrow> string" where
  "trim cs = rev (dropWhile ((=) CHR '' '') (rev (dropWhile ((=) CHR '' '') cs)))"

definition statementDescriptorSuffix :: "string option \<Rightarrow> string option" where
  "statementDescriptorSuffix descriptor =
     (case descriptor of
        None \<Rightarrow> None
      | Some text \<Rightarrow>
          if text = [] then None
          else
            let latin = trim (take MAX_SUFFIX_LENGTH (trim (collapse
                  (map (\<lambda>c. if NON_LATIN c then CHR '' '' else c) text))))
            in if MIN_SUFFIX_LENGTH \<le> length latin then Some latin else None)"

section \<open>Starting a payment\<close>

definition assertChargeable :: "start_payment_input \<Rightarrow> error + unit" where
  "assertChargeable input =
     (if map lower (sti_currency input) \<noteq> THB
      then Inl (Validation ''Stripe payments settle in THB; this order is in {}.'' [Txt (sti_currency input)])
      else if sti_amount input < MIN_THB_SATANG
      then Inl (Validation ''A card or PromptPay payment must be at least THB 10.'' [])
      else if sti_amount input > MAX_THB_SATANG
      then Inl (Validation ''This total is above the maximum a single payment can collect.'' [])
      else Inr ())"

definition cardParams :: "start_payment_input \<Rightarrow> method_params" where
  "cardParams input = CardParams (statementDescriptorSuffix (sti_descriptor input))"

definition promptPayParams :: "start_payment_input \<Rightarrow> method_params" where
  "promptPayParams input = PromptPayParams (sti_buyerEmail input)"

definition params :: "start_payment_input \<Rightarrow> intent_params" where
  "params input = \<lparr>ip_amount = sti_amount input, ip_currency = map lower (sti_currency input),
     ip_order = sti_order input, ip_org = sti_org input,
     ip_method = (case sti_method input of PromptPay \<Rightarrow> promptPayParams input | Card \<Rightarrow> cardParams input)\<rparr>"

definition sessionParams :: "start_payment_input \<Rightarrow> session_params" where
  "sessionParams input = \<lparr>sp_email = sti_buyerEmail input, sp_amount = sti_amount input,
     sp_currency = map lower (sti_currency input), sp_product = sti_description input,
     sp_returnUrl = sti_returnUrl input, sp_order = sti_order input, sp_org = sti_org input,
     sp_suffix = statementDescriptorSuffix (sti_descriptor input)\<rparr>"

definition toStartedStatus :: "stripe_intent \<Rightarrow> started_status" where
  "toStartedStatus intent =
     (if si_status intent = ''succeeded'' then StartSucceeded
      else if si_status intent = ''canceled'' \<or> si_lastError intent \<noteq> None then StartFailed
      else RequiresAction)"

definition qrDeadline :: "int \<Rightarrow> instant \<Rightarrow> stripe_intent \<Rightarrow> instant" where
  "qrDeadline ttlSeconds now intent =
     (let createdMs = (if si_created intent \<noteq> 0 then si_created intent * 1000 else now)
      in createdMs + ttlSeconds * 1000)"

definition toStartedPayment ::
  "int \<Rightarrow> instant \<Rightarrow> stripe_intent \<Rightarrow> payment_method_choice \<Rightarrow> started_payment" where
  "toStartedPayment ttlSeconds now intent method =
     \<lparr>sd_gatewayRef = si_id intent, sd_status = toStartedStatus intent, sd_checkoutUrl = None,
      sd_clientSecret = (if method = Card then si_clientSecret intent else None),
      sd_promptPayQr = (case si_promptpayQr intent of None \<Rightarrow> None | Some q \<Rightarrow> q),
      sd_expiresAt = (case si_promptpayQr intent of None \<Rightarrow> None
                      | Some _ \<Rightarrow> Some (qrDeadline ttlSeconds now intent)),
      sd_declineReason = (case si_lastError intent of None \<Rightarrow> None | Some e \<Rightarrow> pe_message e)\<rparr>"

definition intentIdOf :: "stripe_session \<Rightarrow> string" where
  "intentIdOf session =
     (case ss_paymentIntent session of IntentId i \<Rightarrow> i | IntentObject i \<Rightarrow> i | NoIntent \<Rightarrow> ss_id session)"

text \<open>\<^verbatim>\<open>session.expires_at\<close> is tested for truth, so 0 counts as absent.\<close>

definition provider_start ::
  "int \<Rightarrow> (ident \<Rightarrow> error + string) \<Rightarrow> (string \<Rightarrow> stripe_client) \<Rightarrow> instant \<Rightarrow> start_payment_input
    \<Rightarrow> error + started_payment" where
  "provider_start ttlSeconds secretKeyFor clientFor now input =
     bindE (assertChargeable input) (\<lambda>_.
     bindE (secretKeyFor (sti_org input)) (\<lambda>key.
     let stripe = clientFor key in
     if sti_method input = PromptPay
     then bindE (createIntent stripe (params input) (sti_idempotencyKey input)) (\<lambda>intent.
            Inr (toStartedPayment ttlSeconds now intent (sti_method input)))
     else bindE (createSession stripe (sessionParams input) (sti_idempotencyKey input)) (\<lambda>session.
            Inr \<lparr>sd_gatewayRef = intentIdOf session, sd_status = RequiresAction,
              sd_checkoutUrl = ss_url session, sd_clientSecret = None, sd_promptPayQr = None,
              sd_expiresAt = (case ss_expiresAt session of None \<Rightarrow> None
                 | Some t \<Rightarrow> if t = 0 then None else Some (t * 1000)),
              sd_declineReason = None\<rparr>)))"

section \<open>Refunds and payouts\<close>

definition toRefundStatus :: "string option \<Rightarrow> provider_refund_status" where
  "toRefundStatus status =
     (case status of
        None \<Rightarrow> ProvFailed
      | Some s \<Rightarrow> if s = ''succeeded'' then ProvSucceeded
                 else if s \<in> set REFUND_IN_FLIGHT then ProvPending
                 else ProvFailed)"

definition provider_refund ::
  "(ident \<Rightarrow> error + string) \<Rightarrow> (string \<Rightarrow> stripe_client) \<Rightarrow> refund_payment_input
    \<Rightarrow> error + refunded_payment" where
  "provider_refund secretKeyFor clientFor input =
     bindE (secretKeyFor (rp_org input)) (\<lambda>key.
     bindE (createRefund (clientFor key) (rp_gatewayRef input) (rp_amount input) (rp_idempotencyKey input))
       (\<lambda>refund. Inr \<lparr>rf_refundRef = sf_id refund, rf_status = toRefundStatus (sf_status refund),
          rf_failureReason = sf_failureReason refund\<rparr>))"

definition payoutSettingsLink ::
  "(ident \<Rightarrow> error + string) \<Rightarrow> ident \<Rightarrow> string option \<Rightarrow> error + string option" where
  "payoutSettingsLink secretKeyFor org accountId =
     (case accountId of
        None \<Rightarrow> Inr None
      | Some a \<Rightarrow> if a = [] then Inr None
          else bindE (secretKeyFor org) (\<lambda>key.
            let mode = (if TEST_MODE_KEY key then TEST_MODE_PATH else [])
            in Inr (Some (STRIPE_DASHBOARD @ mode @ PAYOUT_SETTINGS_PATH))))"

text \<open>
  A refused payout is an answer, not an error: \<open>createPayout\<close> fails with the message of a
  Stripe error or with none, and so does a missing key, which is not a Stripe error.
\<close>

definition retryPayout ::
  "(ident \<Rightarrow> error + string) \<Rightarrow> (string \<Rightarrow> stripe_client) \<Rightarrow> retry_payout_input \<Rightarrow> retried_payout" where
  "retryPayout secretKeyFor clientFor input =
     (case secretKeyFor (rt_org input) of
        Inl _ \<Rightarrow> \<lparr>rd_payoutRef = [], rd_status = RetryFailed, rd_failureReason = None\<rparr>
      | Inr key \<Rightarrow>
          case createPayout (clientFor key) (rt_amount input) (map lower (rt_currency input))
                 (rt_reference input) (''payout-retry:'' @ rt_reference input) of
            Inl reason \<Rightarrow> \<lparr>rd_payoutRef = [], rd_status = RetryFailed, rd_failureReason = reason\<rparr>
          | Inr payout \<Rightarrow> \<lparr>rd_payoutRef = sp_id payout,
              rd_status = (if sp_status payout = ''failed'' then RetryFailed else RetryProcessing),
              rd_failureReason = sp_failureMessage payout\<rparr>)"

section \<open>Callbacks\<close>

definition IGNORED :: verified_webhook where
  "IGNORED = \<lparr>vw_eventId = [], vw_type = WIgnored, vw_gatewayRef = [], vw_settledRef = None,
     vw_amount = 0, vw_declineReason = None\<rparr>"

definition intent_settled :: "string \<Rightarrow> stripe_intent \<Rightarrow> webhook_type \<Rightarrow> verified_webhook" where
  "intent_settled eventId intent type = \<lparr>vw_eventId = eventId, vw_type = type, vw_gatewayRef = si_id intent,
     vw_settledRef = None,
     vw_amount = (case si_amountReceived intent of None \<Rightarrow> si_amount intent | Some a \<Rightarrow> a),
     vw_declineReason = None\<rparr>"

definition failure :: "string \<Rightarrow> stripe_intent \<Rightarrow> verified_webhook" where
  "failure eventId intent = \<lparr>vw_eventId = eventId,
     vw_type = (case si_lastError intent of
         Some e \<Rightarrow> if pe_code e = Some ATTEMPT_EXPIRED then WExpired else WFailedAttempt
       | None \<Rightarrow> WFailedAttempt),
     vw_gatewayRef = si_id intent, vw_settledRef = None,
     vw_amount = (case si_amountReceived intent of None \<Rightarrow> si_amount intent | Some a \<Rightarrow> a),
     vw_declineReason = (case si_lastError intent of None \<Rightarrow> None | Some e \<Rightarrow> pe_message e)\<rparr>"

definition fromSession :: "string \<Rightarrow> stripe_session \<Rightarrow> verified_webhook" where
  "fromSession eventId session =
     (if ss_paymentStatus session \<noteq> ''paid'' then IGNORED
      else \<lparr>vw_eventId = eventId, vw_type = WSucceeded, vw_gatewayRef = ss_id session,
        vw_settledRef = Some (intentIdOf session),
        vw_amount = (case ss_amountTotal session of None \<Rightarrow> 0 | Some a \<Rightarrow> a),
        vw_declineReason = None\<rparr>)"

definition fromRefund :: "string \<Rightarrow> stripe_refund \<Rightarrow> verified_webhook" where
  "fromRefund eventId refund =
     (case REFUND_WEBHOOK_OUTCOME (case sf_status refund of None \<Rightarrow> [] | Some s \<Rightarrow> s) of
        None \<Rightarrow> IGNORED
      | Some type \<Rightarrow> \<lparr>vw_eventId = eventId, vw_type = type, vw_gatewayRef = sf_id refund,
          vw_settledRef = None, vw_amount = sf_amount refund,
          vw_declineReason = sf_failureReason refund\<rparr>)"

fun toVerifiedWebhook :: "stripe_event \<Rightarrow> verified_webhook" where
  "toVerifiedWebhook (SessionCompleted i s) = fromSession i s"
| "toVerifiedWebhook (SessionExpired i s) = \<lparr>vw_eventId = i, vw_type = WExpired, vw_gatewayRef = ss_id s,
     vw_settledRef = None, vw_amount = 0, vw_declineReason = None\<rparr>"
| "toVerifiedWebhook (IntentSucceeded i p) = intent_settled i p WSucceeded"
| "toVerifiedWebhook (IntentPaymentFailed i p) = failure i p"
| "toVerifiedWebhook (IntentCanceled i p) = intent_settled i p WExpired"
| "toVerifiedWebhook (RefundUpdated i r) = fromRefund i r"
| "toVerifiedWebhook (RefundFailed i r) = fromRefund i r"
| "toVerifiedWebhook (OtherEvent i) = IGNORED"

text \<open>\<open>signs body signature secret\<close> is the event when the signature is good under that secret.\<close>

fun constructEvent ::
  "(string \<Rightarrow> string \<Rightarrow> string \<Rightarrow> stripe_event option) \<Rightarrow> string \<Rightarrow> string \<Rightarrow> string list
    \<Rightarrow> error + stripe_event" where
  "constructEvent signs body signature [] = Inl (Forbidden ''Invalid webhook signature.'')"
| "constructEvent signs body signature (secret # rest) =
     (case signs body signature secret of
        Some event \<Rightarrow> Inr event
      | None \<Rightarrow> constructEvent signs body signature rest)"

definition verifyWebhook ::
  "(string \<Rightarrow> string \<Rightarrow> string \<Rightarrow> stripe_event option) \<Rightarrow> string \<Rightarrow> string \<Rightarrow> string list
    \<Rightarrow> error + verified_webhook" where
  "verifyWebhook signs body signature secrets =
     bindE (constructEvent signs body signature secrets) (\<lambda>event. Inr (toVerifiedWebhook event))"

end
