(* ===== verification/RefundsService.thy ===== *)
theory RefundsService
  imports StripeAdapter
begin

text \<open>
  \<^verbatim>\<open>payments/refunds.service.ts\<close> and \<^verbatim>\<open>payments/registration-refund.adapter.ts\<close>: issuing a
  refund, finishing one the provider settles later, and giving back every payment of a
  rejected registration. The provider's answer and the invoice that is voided with the
  order are parameters.
\<close>

section \<open>Ports\<close>

text \<open>
  \<open>pt_refund\<close> asks the provider for a refund; \<open>pt_voidInvoice\<close> runs inside the transaction of
  the refund, with the workspace, the order, who issued the refund, and the time.
\<close>

record refund_ports =
  pt_refund :: "refund_payment_input \<Rightarrow> error + refunded_payment"
  pt_voidInvoice :: "ident \<Rightarrow> ident \<Rightarrow> ident \<Rightarrow> instant \<Rightarrow> db \<Rightarrow> error + db"

record refund_payment_request =
  rq_payment :: ident
  rq_idempotencyKey :: string

record refund_result =
  rr_refund :: ident
  rr_status :: refund_status
  rr_amount :: satang

record provider_refund_report =
  rep_org :: ident
  rep_refundRef :: string
  rep_succeeded :: bool
  rep_amount :: satang
  rep_failureReason :: "string option"

datatype refund_completion =
  RcSettled | RcFailed | RcUnknown | RcAlreadyFinal | RcAmountMismatch | RcFailedAfterSettled

definition ALREADY_REFUNDED :: error where
  "ALREADY_REFUNDED = Conflict ''This payment has already been refunded.'' []"

definition NOT_PAID :: error where
  "NOT_PAID = Conflict ''Only a completed payment can be refunded - this one never cleared.'' []"

definition NO_GATEWAY_REF :: error where
  "NO_GATEWAY_REF = Conflict
     ''This payment has no provider reference, so it cannot be refunded automatically.'' []"

definition FINISHED_ELSEWHERE :: error where
  "FINISHED_ELSEWHERE = Conflict
     ''This refund was finished by another request - reload to see where it stands.'' []"

section \<open>Issuing a refund\<close>

definition toResult :: "refund_row \<Rightarrow> refund_result" where
  "toResult refund = \<lparr>rr_refund = r_id refund, rr_status = r_status refund, rr_amount = r_amount refund\<rparr>"

definition requireRefundable :: "ident \<Rightarrow> ident \<Rightarrow> db \<Rightarrow> error + (payment_row \<times> string)" where
  "requireRefundable org paymentId d =
     (case findPaymentForRefund org paymentId d of
        None \<Rightarrow> Inl (NotFound ''Payment not found.'')
      | Some payment \<Rightarrow>
          if p_status payment = PRefunded then Inl ALREADY_REFUNDED
          else if p_status payment \<noteq> PPaid then Inl NOT_PAID
          else case p_gatewayRef payment of
              None \<Rightarrow> Inl NO_GATEWAY_REF
            | Some ref \<Rightarrow> if ref = [] then Inl NO_GATEWAY_REF else Inr (payment, ref))"

text \<open>What runs inside the transaction that voids the order.\<close>

definition void_hook :: "refund_ports \<Rightarrow> refund_row \<Rightarrow> mark_refunded_input \<Rightarrow> db \<Rightarrow> error + db" where
  "void_hook ports refund ledger d =
     (case markRefundedIn ledger d of
        (False, _) \<Rightarrow> Inl RefundNoLongerPending
      | (True, d) \<Rightarrow> pt_voidInvoice ports (r_org refund) (r_order refund) (r_issuedBy refund) (mr_now ledger) d)"

definition voidOrder :: "refund_ports \<Rightarrow> refund_row \<Rightarrow> mark_refunded_input \<Rightarrow> db \<Rightarrow> bool svc" where
  "voidOrder ports refund ledger d =
     (case in_tx (refundOrder (r_org refund) (r_order refund) (void_hook ports refund ledger) (mr_now ledger)) d of
        (Inl e, d) \<Rightarrow> if e = RefundNoLongerPending then (Inr False, d) else (Inl e, d)
      | (Inr _, d) \<Rightarrow> (Inr True, d))"

definition ledger_input :: "refund_row \<Rightarrow> string \<Rightarrow> instant \<Rightarrow> mark_refunded_input" where
  "ledger_input refund gatewayRef now = \<lparr>mr_refund = r_id refund, mr_payment = r_payment refund,
     mr_gatewayRef = gatewayRef, mr_now = now\<rparr>"

definition completeRefund :: "refund_ports \<Rightarrow> refund_row \<Rightarrow> string \<Rightarrow> instant \<Rightarrow> db \<Rightarrow> bool svc" where
  "completeRefund ports refund gatewayRef now d =
     (let ledger = ledger_input refund gatewayRef now in
      case settleDuplicateRefund (r_org refund) (r_order refund) ledger d of
        (SolePayment, d) \<Rightarrow> voidOrder ports refund ledger d
      | (DupSettled, d) \<Rightarrow> (Inr True, d)
      | (NotPending, d) \<Rightarrow> (Inr False, d))"

definition settleRefund ::
  "refund_ports \<Rightarrow> payment_row \<Rightarrow> string \<Rightarrow> refund_row \<Rightarrow> instant \<Rightarrow> db \<Rightarrow> refund_result svc" where
  "settleRefund ports payment ref refund now d =
     bindS (pt_refund ports \<lparr>rp_org = p_org payment, rp_gatewayRef = ref, rp_amount = p_amount payment,
              rp_idempotencyKey = r_idempotencyKey refund\<rparr>, d) (\<lambda>outcome d.
     case rf_status outcome of
       ProvFailed \<Rightarrow>
         (Inl (BadGateway (''The provider refused the refund: ''
             @ (case rf_failureReason outcome of None \<Rightarrow> ''no reason given'' | Some r \<Rightarrow> r) @ ''.'')),
          snd (markRefundFailed (r_id refund) (rf_failureReason outcome) d))
     | ProvPending \<Rightarrow>
         (Inr ((toResult refund)\<lparr>rr_status := RPending\<rparr>),
          markRefundPending (r_id refund) (rf_refundRef outcome) d)
     | ProvSucceeded \<Rightarrow>
         bindS (completeRefund ports refund (rf_refundRef outcome) now d) (\<lambda>done d.
         if \<not> done then (Inl FINISHED_ELSEWHERE, d)
         else (Inr ((toResult refund)\<lparr>rr_status := RSucceeded\<rparr>), d)))"

text \<open>A missing reference is \<^verbatim>\<open>null\<close> or the empty string.\<close>

definition replay ::
  "refund_ports \<Rightarrow> payment_row \<Rightarrow> string \<Rightarrow> refund_row \<Rightarrow> instant \<Rightarrow> db \<Rightarrow> refund_result svc" where
  "replay ports payment ref refund now d =
     (if r_status refund = RPending \<and> (case r_gatewayRef refund of None \<Rightarrow> True | Some g \<Rightarrow> g = [])
      then settleRefund ports payment ref refund now d
      else (Inr (toResult refund), d))"

definition svc_refund ::
  "refund_ports \<Rightarrow> ident \<Rightarrow> ident \<Rightarrow> refund_payment_request \<Rightarrow> instant \<Rightarrow> db \<Rightarrow> refund_result svc" where
  "svc_refund ports org user inp now d =
     bindS (requireRefundable org (rq_payment inp) d, d) (\<lambda>(payment, ref) d.
     case claimRefund \<lparr>cr_org = org, cr_payment = p_id payment, cr_order = p_order payment,
            cr_amount = p_amount payment, cr_issuedBy = user,
            cr_idempotencyKey = rq_idempotencyKey inp, cr_now = now\<rparr> d of
       ((row, fresh), d) \<Rightarrow>
         if \<not> fresh then replay ports payment ref row now d
         else settleRefund ports payment ref row now d)"

section \<open>Finishing a pending refund\<close>

definition onFinished :: "refund_row \<Rightarrow> provider_refund_report \<Rightarrow> refund_completion" where
  "onFinished refund report =
     (if r_status refund = RSucceeded \<and> \<not> rep_succeeded report then RcFailedAfterSettled
      else RcAlreadyFinal)"

definition afterLostRace :: "provider_refund_report \<Rightarrow> db \<Rightarrow> refund_completion svc" where
  "afterLostRace report d =
     (case findRefundByGatewayRef (rep_org report) (rep_refundRef report) d of
        None \<Rightarrow> (Inr RcUnknown, d)
      | Some current \<Rightarrow> (Inr (onFinished current report), d))"

definition onFailed :: "refund_row \<Rightarrow> provider_refund_report \<Rightarrow> db \<Rightarrow> refund_completion svc" where
  "onFailed refund report d =
     (case markRefundFailed (r_id refund) (rep_failureReason report) d of
        (moved, d) \<Rightarrow> if moved then (Inr RcFailed, d) else afterLostRace report d)"

definition onConfirmed ::
  "refund_ports \<Rightarrow> refund_row \<Rightarrow> provider_refund_report \<Rightarrow> instant \<Rightarrow> db \<Rightarrow> refund_completion svc" where
  "onConfirmed ports refund report now d =
     (if rep_amount report \<noteq> r_amount refund then (Inr RcAmountMismatch, d)
      else bindS (completeRefund ports refund (rep_refundRef report) now d) (\<lambda>done d.
        if done then (Inr RcSettled, d) else afterLostRace report d))"

definition completePending ::
  "refund_ports \<Rightarrow> provider_refund_report \<Rightarrow> instant \<Rightarrow> db \<Rightarrow> refund_completion svc" where
  "completePending ports report now d =
     (case findRefundByGatewayRef (rep_org report) (rep_refundRef report) d of
        None \<Rightarrow> (Inr RcUnknown, d)
      | Some refund \<Rightarrow>
          if r_status refund \<noteq> RPending then (Inr (onFinished refund report), d)
          else if \<not> rep_succeeded report then onFailed refund report d
          else onConfirmed ports refund report now d)"

section \<open>Refunding a rejected registration\<close>

definition rejectionRefundKey :: "ident \<Rightarrow> ident \<Rightarrow> string" where
  "rejectionRefundKey orderId paymentId =
     ''registration-rejected:'' @ digits orderId @ '':'' @ digits paymentId"

record rejection_refund =
  rjr_pending :: bool
  rjr_amount :: satang

definition NO_PAYMENT :: error where
  "NO_PAYMENT = Conflict ''There is no payment on this registration to refund.'' []"

definition REFUSED_BEFORE :: error where
  "REFUSED_BEFORE = Conflict ''An earlier attempt to refund it was refused by the provider.'' []"

definition refundPayment ::
  "refund_ports \<Rightarrow> ident \<Rightarrow> ident \<Rightarrow> ident \<Rightarrow> payment_row \<Rightarrow> instant \<Rightarrow> db \<Rightarrow> rejection_refund svc" where
  "refundPayment ports org user orderId payment now d =
     (if p_status payment = PRefunded
      then (Inr \<lparr>rjr_pending = False, rjr_amount = p_amount payment\<rparr>, d)
      else bindS (svc_refund ports org user \<lparr>rq_payment = p_id payment,
                    rq_idempotencyKey = rejectionRefundKey orderId (p_id payment)\<rparr> now d) (\<lambda>res d.
        if rr_status res = RFailed then (Inl REFUSED_BEFORE, d)
        else (Inr \<lparr>rjr_pending = (rr_status res = RPending), rjr_amount = rr_amount res\<rparr>, d)))"

fun refund_each ::
  "refund_ports \<Rightarrow> ident \<Rightarrow> ident \<Rightarrow> ident \<Rightarrow> instant \<Rightarrow> payment_row list \<Rightarrow> db
    \<Rightarrow> rejection_refund list svc" where
  "refund_each ports org user orderId now [] d = (Inr [], d)"
| "refund_each ports org user orderId now (p # ps) d =
     bindS (refundPayment ports org user orderId p now d) (\<lambda>o' d.
     bindS (refund_each ports org user orderId now ps d) (\<lambda>os d. (Inr (o' # os), d)))"

definition combined :: "rejection_refund list \<Rightarrow> rejection_refund" where
  "combined outcomes = \<lparr>rjr_pending = list_ex rjr_pending outcomes, rjr_amount = sum_of rjr_amount outcomes\<rparr>"

definition refundRejected ::
  "refund_ports \<Rightarrow> ident \<Rightarrow> ident \<Rightarrow> ident \<Rightarrow> instant \<Rightarrow> db \<Rightarrow> rejection_refund svc" where
  "refundRejected ports org user orderId now d =
     (let payments = findSettledPaymentsForOrder org orderId d in
      if payments = [] then (Inl NO_PAYMENT, d)
      else bindS (refund_each ports org user orderId now payments d) (\<lambda>outcomes d.
        (Inr (combined outcomes), d)))"

end
