(* ===== verification/PaymentsService.thy ===== *)
theory PaymentsService
  imports RefundsService Offers
begin

text \<open>
  \<^verbatim>\<open>payments/payments.service.ts\<close> with Checkout's side of it,
  \<^verbatim>\<open>checkout/order-payment.adapter.ts\<close>: starting a payment, and acting once on each callback of
  the provider. Log lines are left out.
\<close>

section \<open>Ports\<close>

record merchant_account =
  ma_connected :: bool
  ma_accountId :: "string option"
  ma_descriptor :: "string option"
  ma_acceptedMethods :: "payment_method_choice list"

record webhook_identity =
  wi_org :: ident
  wi_signingSecrets :: "string list"

text \<open>
  \<open>pm_eventName\<close> is the name an order's event has, \<open>pm_orgDescriptor\<close> the workspace's own
  statement descriptor, \<open>pm_payInvoice\<close> the invoice marked paid inside the settlement (workspace,
  order, method, time), \<open>pm_mint\<close> the tokens \<^verbatim>\<open>generateQrToken\<close> draws for an order.
\<close>

record payment_ports =
  pm_start :: "start_payment_input \<Rightarrow> error + started_payment"
  pm_verify :: "string \<Rightarrow> string \<Rightarrow> string list \<Rightarrow> error + verified_webhook"
  pm_identity :: "string \<Rightarrow> webhook_identity option"
  pm_account :: "ident \<Rightarrow> merchant_account"
  pm_orgDescriptor :: "ident \<Rightarrow> string option"
  pm_eventName :: "ident \<Rightarrow> string option"
  pm_ticketsUrl :: "ident \<Rightarrow> string"
  pm_payInvoice :: "ident \<Rightarrow> ident \<Rightarrow> string \<Rightarrow> instant \<Rightarrow> db \<Rightarrow> error + db"
  pm_mint :: "ident \<Rightarrow> nat \<Rightarrow> string"
  pm_refunds :: refund_ports

section \<open>Checkout's side\<close>

record payable_order =
  py_id :: ident
  py_org :: ident
  py_reference :: string
  py_event :: ident
  py_eventName :: string
  py_buyerName :: string
  py_buyerEmail :: string
  py_status :: order_status
  py_paymentStatus :: payment_status
  py_total :: satang

definition findPayable :: "(ident \<Rightarrow> string option) \<Rightarrow> ident \<Rightarrow> db \<Rightarrow> payable_order option" where
  "findPayable eventName orderId d =
     (case findOrderAnyTenant orderId d of
        None \<Rightarrow> None
      | Some order \<Rightarrow> Some \<lparr>py_id = o_id order, py_org = o_org order, py_reference = o_reference order,
          py_event = o_event order,
          py_eventName = (case eventName orderId of None \<Rightarrow> o_reference order | Some n \<Rightarrow> n),
          py_buyerName = o_buyerName order, py_buyerEmail = o_buyerEmail order,
          py_status = o_status order, py_paymentStatus = o_paymentStatus order,
          py_total = o_total order\<rparr>)"

definition payment_settlement ::
  "(ident \<Rightarrow> nat \<Rightarrow> string) \<Rightarrow> ident \<Rightarrow> ident \<Rightarrow> (db \<Rightarrow> error + db) \<Rightarrow> instant \<Rightarrow> settle_order_input" where
  "payment_settlement mint org orderId recordPayment now = \<lparr>so_org = org, so_order = orderId,
     so_mode = PaymentMode, so_decidedBy = None, so_mintQrToken = mint orderId,
     so_buildConfirmedEvent = (\<lambda>ord n. RegistrationConfirmed (o_org ord) (o_id ord) n (o_total ord) True),
     so_buildRefundEvent = (\<lambda>ord reason. PaymentRefundRequired org (o_id ord) (o_total ord) reason),
     so_recordPayment = recordPayment, so_now = now\<rparr>"

definition settle ::
  "(ident \<Rightarrow> nat \<Rightarrow> string) \<Rightarrow> ident \<Rightarrow> ident \<Rightarrow> (db \<Rightarrow> error + db) \<Rightarrow> instant \<Rightarrow> db \<Rightarrow> settlement svc" where
  "settle mint org orderId recordPayment now d =
     (case orderById org orderId d of
        None \<Rightarrow> (Inl (NotFound ''This order isn't available.''), d)
      | Some _ \<Rightarrow> in_tx (settleOrder (payment_settlement mint org orderId recordPayment now)) d)"

definition releaseHolds :: "ident \<Rightarrow> ident \<Rightarrow> db \<Rightarrow> db" where
  "releaseHolds org orderId d = releaseHoldsForOrder org orderId d"

definition queueRefund :: "ident \<Rightarrow> ident \<Rightarrow> satang \<Rightarrow> string \<Rightarrow> db \<Rightarrow> unit svc" where
  "queueRefund org orderId amount reason d =
     (case orderById org orderId d of
        None \<Rightarrow> (Inl (NotFound ''This order isn't available.''), d)
      | Some order \<Rightarrow> (Inr (), enqueueRefund (PaymentRefundRequired org (o_id order) amount reason) d))"

section \<open>Starting a payment\<close>

definition NO_MERCHANT_ACCOUNT :: error where
  "NO_MERCHANT_ACCOUNT = Conflict ''This event cannot take payment yet - the organizer has not finished connecting their payment account.'' []"

fun method_name :: "payment_method_choice \<Rightarrow> string" where
  "method_name Card = ''Card''"
| "method_name PromptPay = ''PromptPay''"

definition methodOff :: "payment_method_choice \<Rightarrow> error" where
  "methodOff method = Conflict ''This event doesn't take {} - please choose another way to pay.''
     [Txt (method_name method)]"

definition assertAccepted :: "merchant_account \<Rightarrow> payment_method_choice \<Rightarrow> error + unit" where
  "assertAccepted account method = check (method \<in> set (ma_acceptedMethods account)) (methodOff method)"

definition requirePayable :: "payment_ports \<Rightarrow> ident \<Rightarrow> db \<Rightarrow> error + payable_order" where
  "requirePayable ports orderId d =
     (case findPayable (pm_eventName ports) orderId d of
        None \<Rightarrow> Inl (NotFound ''This order isn't available.'')
      | Some order \<Rightarrow>
          if py_paymentStatus order = PPaid then Inl (Conflict ''This order is already paid.'' [])
          else if py_status order = OExpired
          then Inl (Conflict ''This order expired - the seats were released. Please book again.'' [])
          else if py_status order \<noteq> OPending then Inl (Conflict ''This order can no longer be paid.'' [])
          else if py_total order = 0
          then Inl (Conflict ''This order is free - there is nothing to pay.'' [])
          else Inr order)"

definition requireMerchantAccount :: "payment_ports \<Rightarrow> ident \<Rightarrow> error + (merchant_account \<times> string)" where
  "requireMerchantAccount ports org =
     (let account = pm_account ports org in
      case ma_accountId account of
        None \<Rightarrow> Inl NO_MERCHANT_ACCOUNT
      | Some a \<Rightarrow> if \<not> ma_connected account \<or> a = [] then Inl NO_MERCHANT_ACCOUNT else Inr (account, a))"

definition statementDescriptorFor :: "payment_ports \<Rightarrow> ident \<Rightarrow> merchant_account \<Rightarrow> string option" where
  "statementDescriptorFor ports org account =
     (case ma_descriptor account of Some s \<Rightarrow> Some s | None \<Rightarrow> pm_orgDescriptor ports org)"

definition reconcileGatewayRef :: "payment_row \<Rightarrow> string \<Rightarrow> db \<Rightarrow> payment_row \<times> db" where
  "reconcileGatewayRef payment ref d =
     (if p_gatewayRef payment = Some ref then (payment, d)
      else (payment\<lparr>p_gatewayRef := Some ref\<rparr>, updateGatewayRef (p_id payment) ref d))"

text \<open>An order's currency is its column's default, THB: nothing sets another.\<close>

record pay_order =
  pd_order :: ident
  pd_method :: payment_method_choice
  pd_idempotencyKey :: string

record payment_intent =
  pn_payment :: ident
  pn_order :: ident
  pn_method :: string
  pn_status :: payment_status
  pn_amount :: satang
  pn_started :: started_payment

definition toIntent :: "payment_row \<Rightarrow> payable_order \<Rightarrow> started_payment \<Rightarrow> payment_intent" where
  "toIntent payment order started = \<lparr>pn_payment = p_id payment, pn_order = py_id order,
     pn_method = p_method payment, pn_status = p_status payment, pn_amount = py_total order,
     pn_started = started\<rparr>"

definition start_input ::
  "payment_ports \<Rightarrow> pay_order \<Rightarrow> payable_order \<Rightarrow> merchant_account \<Rightarrow> start_payment_input" where
  "start_input ports inp order account = \<lparr>sti_order = py_id order, sti_org = py_org order,
     sti_amount = py_total order, sti_currency = ''THB'', sti_method = pd_method inp,
     sti_buyerEmail = py_buyerEmail order,
     sti_descriptor = statementDescriptorFor ports (py_org order) account,
     sti_description = py_eventName order, sti_returnUrl = pm_ticketsUrl ports (py_id order),
     sti_idempotencyKey = pd_idempotencyKey inp\<rparr>"

definition attempt_of ::
  "pay_order \<Rightarrow> payable_order \<Rightarrow> string \<Rightarrow> started_payment \<Rightarrow> record_attempt_input" where
  "attempt_of inp order accountId started = \<lparr>ra_org = py_org order, ra_order = py_id order,
     ra_event = py_event order, ra_payerName = py_buyerName order,
     ra_method = method_name (pd_method inp), ra_amount = py_total order,
     ra_gatewayRef = sd_gatewayRef started, ra_gatewayAccount = Some accountId,
     ra_idempotencyKey = pd_idempotencyKey inp,
     ra_status = (if sd_status started = StartFailed then PFailed else PPending)\<rparr>"

definition pay :: "payment_ports \<Rightarrow> pay_order \<Rightarrow> db \<Rightarrow> payment_intent svc" where
  "pay ports inp d =
     bindS (requirePayable ports (pd_order inp) d, d) (\<lambda>order d.
     bindS (requireMerchantAccount ports (py_org order), d) (\<lambda>(account, accountId) d.
     bindS (assertAccepted account (pd_method inp), d) (\<lambda>_ d.
     bindS (pm_start ports (start_input ports inp order account), d) (\<lambda>started d.
     case upsertAttempt (attempt_of inp order accountId started) d of
       (None, d) \<Rightarrow> (Inl Uncaught, d)
     | (Some payment, d) \<Rightarrow>
         (case reconcileGatewayRef payment (sd_gatewayRef started) d of
            (payment, d) \<Rightarrow> (Inr (toIntent payment order started), d))))))"

section \<open>The provider's callbacks\<close>

definition PROVIDER_NAME :: string where "PROVIDER_NAME = ''stripe''"

fun WEBHOOK_STATUS_FOR :: "refund_completion \<Rightarrow> webhook_status" where
  "WEBHOOK_STATUS_FOR RcSettled = WProcessed"
| "WEBHOOK_STATUS_FOR RcFailed = WProcessed"
| "WEBHOOK_STATUS_FOR RcUnknown = WProcessed"
| "WEBHOOK_STATUS_FOR RcAlreadyFinal = WProcessed"
| "WEBHOOK_STATUS_FOR RcAmountMismatch = WFailed"
| "WEBHOOK_STATUS_FOR RcFailedAfterSettled = WFailed"

definition isRefundWebhook :: "verified_webhook \<Rightarrow> bool" where
  "isRefundWebhook verified = (vw_type verified \<in> {WRefundSucceeded, WRefundFailed})"

text \<open>Inside the settlement: the ledger line, then the invoice.\<close>

definition recordPaid :: "payment_ports \<Rightarrow> payment_row \<Rightarrow> instant \<Rightarrow> db \<Rightarrow> error + db" where
  "recordPaid ports payment now d =
     pm_payInvoice ports (p_org payment) (p_order payment) (p_method payment) now
       (markPaidIn (p_id payment) now d)"

definition refundIfDuplicate :: "payment_row \<Rightarrow> db \<Rightarrow> unit svc" where
  "refundIfDuplicate payment d =
     (if \<not> otherPaidPaymentExists (p_order payment) (p_id payment) d then (Inr (), d)
      else queueRefund (p_org payment) (p_order payment) (p_amount payment) ''duplicate_payment'' d)"

definition onSucceeded ::
  "payment_ports \<Rightarrow> verified_webhook \<Rightarrow> payment_row \<Rightarrow> instant \<Rightarrow> db \<Rightarrow> unit svc" where
  "onSucceeded ports verified payment now d =
     (if vw_amount verified \<noteq> p_amount payment
      then (Inr (), markWebhookProcessed (vw_eventId verified) (Some (p_org payment)) WFailed d)
      else
        bindS (if p_status payment \<noteq> PPaid
               then bindS (settle (pm_mint ports) (p_org payment) (p_order payment)
                             (recordPaid ports payment now) now d) (\<lambda>result d.
                      if sr_outcome result = AlreadySettled then refundIfDuplicate payment d
                      else (Inr (), d))
               else (Inr (), d)) (\<lambda>_ d.
        (Inr (), markWebhookProcessed (vw_eventId verified) (Some (p_org payment)) WProcessed d)))"

definition dispatch ::
  "payment_ports \<Rightarrow> verified_webhook \<Rightarrow> payment_row \<Rightarrow> instant \<Rightarrow> db \<Rightarrow> unit svc" where
  "dispatch ports verified payment now d =
     (if vw_type verified = WSucceeded then onSucceeded ports verified payment now d
      else
        let d = markFailed (p_id payment) d;
            d = (if vw_type verified = WExpired then releaseHolds (p_org payment) (p_order payment) d else d)
        in (Inr (), markWebhookProcessed (vw_eventId verified) (Some (p_org payment)) WProcessed d))"

definition onRefundReport ::
  "payment_ports \<Rightarrow> ident \<Rightarrow> verified_webhook \<Rightarrow> instant \<Rightarrow> db \<Rightarrow> unit svc" where
  "onRefundReport ports org verified now d =
     bindS (completePending (pm_refunds ports) \<lparr>rep_org = org, rep_refundRef = vw_gatewayRef verified,
              rep_succeeded = (vw_type verified = WRefundSucceeded), rep_amount = vw_amount verified,
              rep_failureReason = vw_declineReason verified\<rparr> now d) (\<lambda>completion d.
     (Inr (), markWebhookProcessed (vw_eventId verified)
        (if completion = RcUnknown then None else Some org) (WEBHOOK_STATUS_FOR completion) d))"

text \<open>What is done with a verified callback; the reply is always the same.\<close>

definition handle_verified ::
  "payment_ports \<Rightarrow> ident \<Rightarrow> verified_webhook \<Rightarrow> instant \<Rightarrow> db \<Rightarrow> unit svc" where
  "handle_verified ports org verified now d =
     (if vw_type verified = WIgnored then (Inr (), d)
      else case recordWebhook PROVIDER_NAME verified d of
        (fresh, d) \<Rightarrow>
          if \<not> fresh then (Inr (), d)
          else if isRefundWebhook verified then onRefundReport ports org verified now d
          else case findByGatewayRef (vw_gatewayRef verified) d of
              None \<Rightarrow> (Inr (), markWebhookProcessed (vw_eventId verified) None WProcessed d)
            | Some payment \<Rightarrow>
                (case (case vw_settledRef verified of
                         None \<Rightarrow> (payment, d)
                       | Some ref \<Rightarrow> if ref = [] then (payment, d) else reconcileGatewayRef payment ref d) of
                   (settled, d) \<Rightarrow> dispatch ports verified settled now d))"

definition handleWebhook ::
  "payment_ports \<Rightarrow> string \<Rightarrow> string \<Rightarrow> string \<Rightarrow> instant \<Rightarrow> db \<Rightarrow> unit svc" where
  "handleWebhook ports token rawBody signature now d =
     (case pm_identity ports token of
        None \<Rightarrow> (Inl (Forbidden ''Invalid webhook signature.''), d)
      | Some identity \<Rightarrow>
          bindS (pm_verify ports rawBody signature (wi_signingSecrets identity), d) (\<lambda>verified d.
          handle_verified ports (wi_org identity) verified now d))"

end
