(* ===== verification/PaymentProps.thy ===== *)
theory PaymentProps
  imports PaymentsService InvoiceProps
begin

text \<open>
  Theorems on payments and refunds: what one callback of the provider does, once; what
  starting a payment may do; what a refund does to the order, and that a finished refund is
  final. The invoice hooks are the ones of \<^verbatim>\<open>OrderInvoiceAdapter\<close>.
\<close>

section \<open>What the checkout's transactions leave to the ledger\<close>

text \<open>The tables of money and documents, that the inventory's statements do not touch.\<close>

definition ledger_of :: "db \<Rightarrow> payment_row list \<times> refund_row list \<times> webhook_row list \<times> invoice_row list" where
  "ledger_of d = (d_payments d, d_refunds d, d_webhooks d, d_invoices d)"

lemma ledger_ofD:
  "ledger_of d = ledger_of d' \<Longrightarrow> d_payments d = d_payments d' \<and> d_refunds d = d_refunds d'
     \<and> d_webhooks d = d_webhooks d' \<and> d_invoices d = d_invoices d'"
  by (simp add: ledger_of_def)

lemma ledger_of_statements [simp]:
  "ledger_of (enqueueIn ev d) = ledger_of d" "ledger_of (updateHolds P f d) = ledger_of d"
  "ledger_of (updateOrder i g d) = ledger_of d" "ledger_of (releaseActiveHolds org i d) = ledger_of d"
  "ledger_of (holdForDecision org i d) = ledger_of d" "ledger_of (d\<lparr>d_tickets := ts\<rparr>) = ledger_of d"
  "ledger_of (d\<lparr>d_assignments := as\<rparr>) = ledger_of d"
  by (simp_all add: ledger_of_def enqueueIn_def updateHolds_def updateOrder_def releaseActiveHolds_def
      holdForDecision_def)

lemma ledger_of_fallible:
  "updateTiers P f d = Inr d' \<Longrightarrow> ledger_of d' = ledger_of d"
  "countSale line d = Inr d' \<Longrightarrow> ledger_of d' = ledger_of d"
  "insertTickets mk d = Inr (ks, d') \<Longrightarrow> ledger_of d' = ledger_of d"
  "insertAssignments org ss ks d = Inr d' \<Longrightarrow> ledger_of d' = ledger_of d"
  by (auto simp: updateTiers_def countSale_def insertTickets_def insertAssignments_def ledger_of_def Let_def
      split: if_splits)

lemma ledger_of_giveBack: "giveBackStock org ls d = Inr d' \<Longrightarrow> ledger_of d' = ledger_of d"
  by (induction org ls d rule: giveBackStock.induct) (auto simp: bindE_Inr_iff dest: ledger_of_fallible)

text \<open>A payment that lands runs its ledger hook once, and nothing else moves money.\<close>

lemma settleOrder_ledger:
  assumes "settleOrder inp d = Inr (r, d')" and "so_mode inp = PaymentMode"
  shows "\<exists>d1 d2. ledger_of d1 = ledger_of d \<and> so_recordPayment inp d1 = Inr d2 \<and> ledger_of d' = ledger_of d2"
proof -
  have hookI: ?thesis if "so_recordPayment inp x = Inr y" "ledger_of x = ledger_of d" "ledger_of d' = ledger_of y"
    for x y using that by blast
  have refuse: ?thesis if "refuseSettlement inp ord reason d = Inr (r, d')" for ord reason
  proof -
    from that obtain d2 where "so_recordPayment inp
        (releaseActiveHolds (so_org inp) (o_id ord) (updateOrder (o_id ord) (closed_row (so_now inp)) d)) = Inr d2"
      "d' = enqueueIn (so_buildRefundEvent inp ord reason) d2"
      by (auto simp: refuseSettlement_def Let_def bindE_Inr_iff)
    from hookI [OF this(1)] this(2) show ?thesis by simp
  qed
  have await: ?thesis if aw: "awaitDecision inp ord cx d = Inr (r, d')" for ord cx
  proof (cases "seatHoldLost (so_org inp) (o_id ord) d")
    case True
    with aw refuse show ?thesis by (simp add: awaitDecision_def)
  next
    case False
    with aw obtain a d2 where "countSale (the (cx_line cx)) d = Inr a" "so_recordPayment inp
        (updateOrder (o_id ord) (waiting_row (so_now inp)) (holdForDecision (so_org inp) (o_id ord) a)) = Inr d2"
      "d' = d2" by (auto simp: awaitDecision_def Let_def bindE_Inr_iff)
    from hookI [OF this(2)] this(3) ledger_of_fallible(2) [OF this(1)] show ?thesis by simp
  qed
  have complete: ?thesis if cs: "completeSettlement inp ord cx d = Inr (r, d')" for ord cx
  proof -
    from cs obtain a b c ks d2 where "(if cx_placesCounted cx then Inr d else countSale (the (cx_line cx)) d) = Inr a"
      "insertTickets (map (\<lambda>n. settle_ticket inp ord (the (cx_line cx)) (so_mintQrToken inp n))
         [0 ..< nat (ln_quantity (the (cx_line cx)))]) a = Inr (ks, b)"
      "(if cx_seatIds cx = [] then Inr b else insertAssignments (so_org inp) (cx_seatIds cx) ks b) = Inr c"
      "so_recordPayment inp (updateOrder (o_id ord) (settled_row inp) (updateHolds
          (\<lambda>h. h_org h = so_org inp \<and> h_order h = Some (o_id ord)) (\<lambda>h. h\<lparr>h_status := HConverted, h_order := None\<rparr>) c))
        = Inr d2" "ledger_of d' = ledger_of d2"
      by (auto simp: completeSettlement_def Let_def bindE_Inr_iff)
    note parts = this
    from parts(1-3) have "ledger_of c = ledger_of d"
      by (auto split: if_splits dest!: ledger_of_fallible)
    with hookI [OF parts(4)] parts(5) show ?thesis by simp
  qed
  show ?thesis
    using assms refuse await complete
    by (auto simp: settleOrder_def Let_def bindE_Inr_iff split: if_splits option.splits)
qed

text \<open>A refund runs its ledger hook once.\<close>

lemma refundOrder_ledger:
  assumes "refundOrder org i hook now d = Inr (r, d')"
  shows "\<exists>d1. ledger_of d1 = ledger_of d \<and> hook d1 = Inr d'"
proof -
  from assms obtain ord a b where a: "(if isAwaitingApproval ord
      then bindE (givePlacesBack org i d) (\<lambda>d. Inr (releaseActiveHolds org i d)) else Inr d) = Inr a"
    and b: "returnStock org (filter (voidable org i) (d_tickets a))
      (a\<lparr>d_tickets := upd (voidable org i) (\<lambda>t. t\<lparr>t_status := TRefunded\<rparr>) (d_tickets a)\<rparr>) = Inr b"
    and hook: "\<exists>x. ledger_of x = ledger_of b \<and> hook x = Inr d'"
    by (fastforce simp: refundOrder_def Let_def bindE_Inr_iff)
  from a have "ledger_of a = ledger_of d"
    by (auto simp: bindE_Inr_iff givePlacesBack_def split: if_splits dest!: ledger_of_giveBack)
  moreover from b have "ledger_of b = ledger_of a"
    by (auto simp: returnStock_def dest!: ledger_of_giveBack)
  ultimately show ?thesis using hook by metis
qed

section \<open>The log of callbacks\<close>

text \<open>A handler logs the event and otherwise leaves the log alone, or throws and leaves all of it.\<close>

definition logs_event :: "string \<Rightarrow> db \<Rightarrow> unit svc \<Rightarrow> bool" where
  "logs_event eventId d m = (case m of
      (Inl _, d') \<Rightarrow> d_webhooks d' = d_webhooks d
    | (Inr _, d') \<Rightarrow> (\<exists>tenant st. st \<in> {WProcessed, WFailed}
        \<and> d_webhooks d' = d_webhooks (markWebhookProcessed eventId tenant st d)))"

lemma webhooks_frame [simp]:
  "d_webhooks (markPaidIn i t d) = d_webhooks d" "d_webhooks (markFailed i d) = d_webhooks d"
  "d_webhooks (updateGatewayRef i ref d) = d_webhooks d" "d_webhooks (markRefundPending j ref d) = d_webhooks d"
  "d_webhooks (snd (markRefundFailed j reason d)) = d_webhooks d"
  "d_webhooks (snd (markRefundedIn inp d)) = d_webhooks d"
  "d_webhooks (snd (settleDuplicateRefund org oid inp d)) = d_webhooks d"
  "d_webhooks (markPaidForOrderIn org oid how day d) = d_webhooks d"
  by (simp_all add: ledger_defs markRefundedIn_def settleDuplicateRefund_def markPaidForOrderIn_def Let_def
      split: prod.splits)

lemma fold_audit_ledger [simp]:
  "d_webhooks (fold (\<lambda>v. audit_invoice org a (t v) m) vs d) = d_webhooks d"
  "d_payments (fold (\<lambda>v. audit_invoice org a (t v) m) vs d) = d_payments d"
  "d_refunds (fold (\<lambda>v. audit_invoice org a (t v) m) vs d) = d_refunds d"
  by (induction vs arbitrary: d) (simp_all add: audit_invoice_def)

lemma voidForRefundIn_ledger [simp]:
  "d_webhooks (voidForRefundIn org oid inp d) = d_webhooks d"
  "d_payments (voidForRefundIn org oid inp d) = d_payments d"
  "d_refunds (voidForRefundIn org oid inp d) = d_refunds d"
  by (simp_all add: voidForRefundIn_def)

lemma markWebhook_cong:
  "d_webhooks d = d_webhooks d' \<Longrightarrow>
     d_webhooks (markWebhookProcessed e tenant st d) = d_webhooks (markWebhookProcessed e tenant st d')"
  by (simp add: markWebhookProcessed_def)

lemma logs_event_cong: "d_webhooks d = d_webhooks d' \<Longrightarrow> logs_event e d m \<Longrightarrow> logs_event e d' m"
  by (auto simp: logs_event_def markWebhookProcessed_def split: sum.splits)

lemma recordPaid_Inr:
  "pm_payInvoice ports = markInvoicePaidIn \<Longrightarrow> recordPaid ports p now d =
     Inr (markPaidForOrderIn (p_org p) (p_order p) (p_method p) (bangkokToday now) (markPaidIn (p_id p) now d))"
  by (simp add: recordPaid_def markInvoicePaidIn_def)

text \<open>The settlement of a payment: refused as a whole, or the money and the invoice are recorded.\<close>

lemma settle_cases:
  assumes "settle mint org oid (recordPaid ports p now) now d = (res, d')"
    and "pm_payInvoice ports = markInvoicePaidIn"
  obtains e where "res = Inl e" "d' = d"
  | r where "res = Inr r" "settleOrder (payment_settlement mint org oid (recordPaid ports p now) now) d = Inr (r, d')"
      "orderById org oid d \<noteq> None"
      "d_payments d' = d_payments (markPaidIn (p_id p) now d)" "d_refunds d' = d_refunds d"
      "d_webhooks d' = d_webhooks d"
      "d_invoices d' = d_invoices (markPaidForOrderIn (p_org p) (p_order p) (p_method p) (bangkokToday now) d)"
proof -
  let ?inp = "payment_settlement mint org oid (recordPaid ports p now) now"
  show thesis
  proof (cases res)
    case (Inl e)
    with assms(1) that(1) show thesis
      by (auto simp: settle_def in_tx_def split: option.splits sum.splits)
  next
    case (Inr r)
    with assms(1) have s: "settleOrder ?inp d = Inr (r, d')" "orderById org oid d \<noteq> None"
      by (auto simp: settle_def in_tx_def split: option.splits sum.splits)
    from settleOrder_ledger [OF s(1)] obtain d1 d2 where "ledger_of d1 = ledger_of d"
      "recordPaid ports p now d1 = Inr d2" "ledger_of d' = ledger_of d2"
      by (auto simp: payment_settlement_def)
    with that(2) [OF Inr s] show thesis
      by (auto simp: recordPaid_Inr [OF assms(2)] ledger_of_def markPaidForOrderIn_def markPaidIn_def)
  qed
qed

lemma queueRefund_frame: "queueRefund org oid amount reason d = (res, d') \<Longrightarrow>
    d_webhooks d' = d_webhooks d \<and> inventory d' = inventory d \<and> ledger_of d' = ledger_of d"
  by (auto simp: queueRefund_def enqueueRefund_def enqueueIn_def inventory_def ledger_of_def split: option.splits)

lemma onSucceeded_logs:
  assumes "pm_payInvoice ports = markInvoicePaidIn"
  shows "logs_event (vw_eventId v) d (onSucceeded ports v p now d)"
proof (cases "vw_amount v = p_amount p \<and> p_status p \<noteq> PPaid")
  case True
  obtain res d1 where s: "settle (pm_mint ports) (p_org p) (p_order p) (recordPaid ports p now) now d = (res, d1)"
    by force
  from settle_cases [OF s assms] show ?thesis
  proof cases
    case (2 r)
    obtain res2 d2 where q: "refundIfDuplicate p d1 = (res2, d2)" by force
    then have "d_webhooks d2 = d_webhooks d1"
      by (auto simp: refundIfDuplicate_def split: if_splits dest: queueRefund_frame)
    with True s 2 q show ?thesis
      by (cases res2) (auto simp: onSucceeded_def logs_event_def markWebhookProcessed_def)
  qed (use True s in \<open>simp add: onSucceeded_def logs_event_def\<close>)
qed (auto simp: onSucceeded_def logs_event_def)

lemma releaseHolds_webhooks [simp]: "d_webhooks (releaseHolds org oid d) = d_webhooks d"
  by (auto simp: releaseHolds_def releaseHoldsForOrder_def releaseActiveHolds_def updateHolds_def
      split: option.splits)

lemma dispatch_logs:
  "pm_payInvoice ports = markInvoicePaidIn \<Longrightarrow> logs_event (vw_eventId v) d (dispatch ports v p now d)"
  using onSucceeded_logs [of ports v d p now]
  by (auto simp: dispatch_def Let_def logs_event_def markWebhookProcessed_def)

section \<open>Finishing a refund\<close>

lemma markRefundedIn_inventory: "markRefundedIn inp d = (moved, d') \<Longrightarrow> inventory d' = inventory d"
  by (metis ledger_inventory(6) snd_conv)

lemma markRefundFailed_webhooks: "markRefundFailed i reason d = (moved, d') \<Longrightarrow> d_webhooks d' = d_webhooks d"
  by (metis webhooks_frame(5) snd_conv)

text \<open>
  What voiding the order inside the refund's transaction does to the ledger: all of it, or
  nothing at all when another request finished the refund first, or the order is gone.
\<close>

lemma voidOrder_cases:
  assumes "voidOrder ports r inp d = (res, d')" and "pt_voidInvoice ports = voidInvoiceForRefundIn"
  obtains e where "res = Inl e" "d' = d" | "res = Inr False" "d' = d"
  | n hook where "res = Inr True" "refundOrder (r_org r) (r_order r) hook (mr_now inp) d = Inr (n, d')" "tx_hook hook"
      "fst (markRefundedIn inp d)" "d_webhooks d' = d_webhooks d"
      "d_payments d' = d_payments (snd (markRefundedIn inp d))" "d_refunds d' = d_refunds (snd (markRefundedIn inp d))"
      "d_invoices d' = d_invoices (voidForRefundIn (r_org r) (r_order r)
         \<lparr>vi_voidedBy = r_issuedBy r, vi_reason = Some REFUND_VOID_REASON, vi_now = mr_now inp\<rparr> d)"
proof -
  let ?hook = "void_hook ports r inp"
  have frame: "tx_hook ?hook"
  proof
    fix d d' assume "?hook d = Inr d'"
    then show "inventory d' = inventory d"
      using assms(2) void_invoice.hook_frame markRefundedIn_inventory
      by (fastforce simp: void_hook_def split: prod.splits bool.splits)
  qed
  show thesis
  proof (cases "refundOrder (r_org r) (r_order r) ?hook (mr_now inp) d")
    case (Inl e)
    with assms(1) that(1,2) show thesis by (auto simp: voidOrder_def in_tx_def split: if_splits)
  next
    case (Inr x)
    then obtain n d1 where R: "refundOrder (r_org r) (r_order r) ?hook (mr_now inp) d = Inr (n, d1)" by (cases x) auto
    with assms(1) have res: "res = Inr True" "d' = d1" by (auto simp: voidOrder_def in_tx_def)
    from refundOrder_ledger [OF R] obtain d0 where d0: "ledger_of d0 = ledger_of d" "?hook d0 = Inr d1" by blast
    then obtain d2 where "markRefundedIn inp d0 = (True, d2)"
      "voidInvoiceForRefundIn (r_org r) (r_order r) (r_issuedBy r) (mr_now inp) d2 = Inr d1"
      using assms(2) by (auto simp: void_hook_def split: prod.splits bool.splits)
    with d0(1) that(3) [OF res(1) _ frame] R res(2) show thesis
      by (auto simp: markRefundedIn_def voidInvoiceForRefundIn_def ledger_of_def voidForRefundIn_def
          fold_audit_frame split: if_splits)
  qed
qed

lemma completeRefund_webhooks:
  assumes "completeRefund ports r ref now d = (res, d')" and "pt_voidInvoice ports = voidInvoiceForRefundIn"
  shows "d_webhooks d' = d_webhooks d"
proof (cases "settleDuplicateRefund (r_org r) (r_order r) (ledger_input r ref now) d")
  case (Pair out d1)
  then have "d_webhooks d1 = d_webhooks d" using webhooks_frame(7) by (metis snd_conv)
  with Pair assms(1) show ?thesis
    by (cases out) (auto simp: completeRefund_def elim: voidOrder_cases [OF _ assms(2)])
qed

lemma completePending_webhooks:
  assumes "completePending ports rep now d = (res, d')" and "pt_voidInvoice ports = voidInvoiceForRefundIn"
  shows "d_webhooks d' = d_webhooks d"
proof -
  have lost: "d_webhooks (snd (afterLostRace rep d)) = d_webhooks d" for d
    by (auto simp: afterLostRace_def split: option.splits)
  have "d_webhooks (snd (onFailed r rep d)) = d_webhooks d" for r
    using lost by (auto simp: onFailed_def split: prod.splits dest: markRefundFailed_webhooks)
  moreover have "d_webhooks (snd (onConfirmed ports r rep now d)) = d_webhooks d" for r
  proof (cases "completeRefund ports r (rep_refundRef rep) now d")
    case (Pair x d1)
    with completeRefund_webhooks [OF this assms(2)] lost [of d1] show ?thesis
      by (cases x) (auto simp: onConfirmed_def)
  qed
  ultimately have "d_webhooks (snd (completePending ports rep now d)) = d_webhooks d"
    by (simp add: completePending_def split: option.splits)
  with assms(1) show ?thesis by simp
qed

lemma onRefundReport_logs:
  assumes "pt_voidInvoice (pm_refunds ports) = voidInvoiceForRefundIn"
  shows "logs_event (vw_eventId v) d (onRefundReport ports org v now d)"
proof -
  let ?rep = "\<lparr>rep_org = org, rep_refundRef = vw_gatewayRef v, rep_succeeded = (vw_type v = WRefundSucceeded),
    rep_amount = vw_amount v, rep_failureReason = vw_declineReason v\<rparr>"
  obtain c d1 where c: "completePending (pm_refunds ports) ?rep now d = (c, d1)" by force
  note w = completePending_webhooks [OF c assms]
  show ?thesis
  proof (cases c)
    case (Inr x)
    then have "WEBHOOK_STATUS_FOR x \<in> {WProcessed, WFailed}" by (cases x) auto
    with Inr c w show ?thesis
      by (auto simp: onRefundReport_def logs_event_def markWebhookProcessed_def)
  qed (use c w in \<open>simp add: onRefundReport_def logs_event_def\<close>)
qed

section \<open>One callback\<close>

lemma handle_fresh_logs:
  assumes "pm_payInvoice ports = markInvoicePaidIn" "pt_voidInvoice (pm_refunds ports) = voidInvoiceForRefundIn"
    and "vw_type v \<noteq> WIgnored" "recordWebhook PROVIDER_NAME v d = (True, d0)"
  shows "logs_event (vw_eventId v) d0 (handle_verified ports org v now d)"
proof (cases "isRefundWebhook v")
  case True
  with assms onRefundReport_logs [OF assms(2)] show ?thesis by (simp add: handle_verified_def)
next
  case False
  show ?thesis
  proof (cases "findByGatewayRef (vw_gatewayRef v) d0")
    case None
    with False assms(3,4) show ?thesis by (auto simp: handle_verified_def logs_event_def)
  next
    case (Some p)
    obtain p1 d1 where p1: "(case vw_settledRef v of None \<Rightarrow> (p, d0)
        | Some ref \<Rightarrow> if ref = [] then (p, d0) else reconcileGatewayRef p ref d0) = (p1, d1)" by force
    then have "d_webhooks d1 = d_webhooks d0"
      by (auto simp: reconcileGatewayRef_def split: option.splits if_splits)
    from dispatch_logs [OF assms(1), of v d1 p1 now] this have "logs_event (vw_eventId v) d0 (dispatch ports v p1 now d1)"
      by (rule logs_event_cong [rotated])
    with False Some assms(3,4) p1 show ?thesis by (simp add: handle_verified_def)
  qed
qed

lemma recordWebhook_found:
  assumes "recordWebhook provider v d = (fresh, d0)"
  shows "\<exists>w. find (webhook_of provider (vw_eventId v)) (d_webhooks d0) = Some w \<and> fresh = (w_status w \<noteq> WProcessed)
     \<and> (\<not> fresh \<longrightarrow> d0 = d)"
  using assms by (auto simp: recordWebhook_def webhook_of_def find_append split: option.splits)

text \<open>
  C17. A callback is acted on once. When handling an event ends without an error the event is
  logged as processed, or as failed when its money does not match; an event logged as
  processed is answered again without changing anything, whatever the redelivered copy says;
  and when handling it throws, the event is not logged as processed, so that its redelivery
  is acted on.
\<close>

theorem webhook_acted_once:
  assumes "pm_payInvoice ports = markInvoicePaidIn" "pt_voidInvoice (pm_refunds ports) = voidInvoiceForRefundIn"
    and "vw_type v \<noteq> WIgnored" "handle_verified ports org v now d = (res, d')"
    and "vw_eventId v2 = vw_eventId v"
  shows "\<exists>w. find (webhook_of PROVIDER_NAME (vw_eventId v)) (d_webhooks d') = Some w
    \<and> (case res of Inl _ \<Rightarrow> w_status w \<noteq> WProcessed \<and> recordWebhook PROVIDER_NAME v2 d' = (True, d')
       | Inr _ \<Rightarrow> w_status w \<in> {WProcessed, WFailed}
           \<and> (w_status w = WProcessed \<longrightarrow> handle_verified ports2 org2 v2 now2 d' = (Inr (), d')))"
proof -
  have again: "handle_verified ports2 org2 v2 now2 d' = (Inr (), d')"
    if "find (webhook_of PROVIDER_NAME (vw_eventId v)) (d_webhooks d') = Some w" "w_status w = WProcessed" for w
    using that assms(5) by (simp add: handle_verified_def recordWebhook_def)
  obtain fresh d0 where r: "recordWebhook PROVIDER_NAME v d = (fresh, d0)" by force
  from recordWebhook_found [OF r] obtain w
    where w: "find (webhook_of PROVIDER_NAME (vw_eventId v)) (d_webhooks d0) = Some w"
      "fresh = (w_status w \<noteq> WProcessed)" "\<not> fresh \<longrightarrow> d0 = d" by blast
  show ?thesis
  proof (cases fresh)
    case False
    with assms(3,4) r w again show ?thesis by (auto simp: handle_verified_def)
  next
    case True
    with handle_fresh_logs [OF assms(1-3), of d d0 org now] r assms(4)
    have l: "logs_event (vw_eventId v) d0 (res, d')" by simp
    show ?thesis
    proof (cases res)
      case (Inl e)
      with l w True assms(5) show ?thesis by (auto simp: logs_event_def recordWebhook_def)
    next
      case (Inr u)
      with l obtain tenant st where st: "st \<in> {WProcessed, WFailed}"
        "d_webhooks d' = d_webhooks (markWebhookProcessed (vw_eventId v) tenant st d0)"
        by (auto simp: logs_event_def)
      have "find (webhook_of PROVIDER_NAME (vw_eventId v)) (d_webhooks d')
          = Some (if w_eventId w = vw_eventId v then w\<lparr>w_status := st, w_org := tenant\<rparr> else w)"
        unfolding st(2) markWebhookProcessed_def by (simp add: find_upd webhook_of_def w(1))
      moreover have "w_eventId w = vw_eventId v" using find_SomeD [OF w(1)] by (simp add: webhook_of_def)
      ultimately show ?thesis using Inr st(1) again by auto
    qed
  qed
qed

section \<open>What the money does\<close>

lemma recordPaid_hook: "pm_payInvoice ports = markInvoicePaidIn \<Longrightarrow> tx_hook (recordPaid ports p now)"
  by unfold_locales (auto simp: recordPaid_Inr)

lemma settled_before_frame:
  assumes "settleOrder inp d = Inr (r, d')" "sr_outcome r = AlreadySettled" "tx_hook (so_recordPayment inp)"
  shows "inventory d' = inventory d"
proof (rule settleOrder_cases [OF assms(1)], goal_cases)
  case (1 ord)
  from 1(2) assms(2,3) show ?case
    by (elim disjE exE conjE) (auto simp: refuseSettlement_def awaitDecision_def completeSettlement_def Let_def
        bindE_Inr_iff dest: tx_hook.hook_frame split: if_splits)
qed

lemma list_ex_upd: "(\<And>x. Q x \<Longrightarrow> \<not> P x \<and> \<not> P (f x)) \<Longrightarrow> list_ex P (upd Q f xs) = list_ex P xs"
  by (induction xs) auto

lemma other_paid_markPaid:
  "d_payments d1 = d_payments (markPaidIn i t d) \<Longrightarrow> otherPaidPaymentExists oid i d1 = otherPaidPaymentExists oid i d"
  by (auto simp: otherPaidPaymentExists_def markPaidIn_def intro!: list_ex_upd)


text \<open>
  C19. A refund the provider confirmed is booked as a whole or not at all. Booked, the refund
  and its payment are settled; when another payment still pays for the order nothing else
  changes, and when it was the only one the order is refunded in the same transaction (which
  gives its tickets and places back) and the order's invoices are void.
\<close>

theorem refund_booked_whole:
  assumes "pt_voidInvoice ports = voidInvoiceForRefundIn" "completeRefund ports r ref now d = (res, d')"
  shows "case res of Inl _ \<Rightarrow> d' = d
    | Inr booked \<Rightarrow> if \<not> booked then d' = d
      else list_ex (pending_refund (r_id r)) (d_refunds d)
        \<and> d_refunds d' = upd (pending_refund (r_id r)) (\<lambda>x. x\<lparr>r_status := RSucceeded,
             r_gatewayRef := Some ref, r_settledAt := Some now\<rparr>) (d_refunds d)
        \<and> d_payments d' = upd (\<lambda>p. p_id p = r_payment r) (\<lambda>p. p\<lparr>p_status := PRefunded\<rparr>) (d_payments d)
        \<and> (if list_ex (\<lambda>p. p_id p \<noteq> r_payment r \<and> p_status p = PPaid)
                (filter (\<lambda>p. p_org p = r_org r \<and> p_order p = r_order r) (d_payments d))
           then inventory d' = inventory d \<and> d_invoices d' = d_invoices d \<and> d_outbox d' = d_outbox d
           else (\<exists>n hook. refundOrder (r_org r) (r_order r) hook now d = Inr (n, d') \<and> tx_hook hook)
             \<and> list_all (\<lambda>v. iv_org v = r_org r \<and> iv_order v = r_order r \<longrightarrow> iv_status v = IVoid) (d_invoices d'))"
proof (cases "list_ex (\<lambda>p. p_id p \<noteq> r_payment r \<and> p_status p = PPaid)
    (filter (\<lambda>p. p_org p = r_org r \<and> p_order p = r_order r) (d_payments d))")
  case True
  with assms(2) show ?thesis
    by (auto simp: completeRefund_def settleDuplicateRefund_def ledger_input_def markRefundedIn_def Let_def
        inventory_def split: if_splits)
next
  case False
  with assms(2) have "voidOrder ports r (ledger_input r ref now) d = (res, d')"
    by (simp add: completeRefund_def settleDuplicateRefund_def ledger_input_def)
  then show ?thesis
  proof (rule voidOrder_cases [OF _ assms(1)], goal_cases)
    case (3 n hook)
    have "iv_status v = IVoid" if "v \<in> set (d_invoices d')" "iv_org v = r_org r" "iv_order v = r_order r" for v
    proof -
      let ?void = "void_row \<lparr>vi_voidedBy = r_issuedBy r, vi_reason = Some REFUND_VOID_REASON,
        vi_now = mr_now (ledger_input r ref now)\<rparr>"
      from that(1) obtain x where x: "v = (if live_of_order (r_org r) (r_order r) x then ?void x else x)"
        unfolding 3(8) voidForRefundIn_def fold_audit_frame by (auto simp: in_set_upd)
      show ?thesis
      proof (cases "live_of_order (r_org r) (r_order r) x")
        case True
        with x have "v = ?void x" by simp
        then show ?thesis by (simp add: void_row_def)
      next
        case False
        with x have "v = x" by simp
        with False that(2,3) show ?thesis by (simp add: live_of_order_def)
      qed
    qed
    moreover have "\<exists>n hook. refundOrder (r_org r) (r_order r) hook now d = Inr (n, d') \<and> tx_hook hook"
      using 3(2,3) by (intro exI [of _ n] exI [of _ hook]) (simp add: ledger_input_def)
    ultimately show ?thesis
      using 3(1,4,6,7) False
      by (auto simp: markRefundedIn_def ledger_input_def list_all_iff split: if_splits)
  qed auto
qed

section \<open>Finished refunds\<close>

text \<open>What may become of a refund row: what was claimed stays, and a finished row never changes.\<close>

definition refund_after :: "refund_row \<Rightarrow> refund_row \<Rightarrow> bool" where
  "refund_after r s = (s\<lparr>r_status := r_status r, r_reason := r_reason r, r_settledAt := r_settledAt r,
       r_gatewayRef := r_gatewayRef r\<rparr> = r \<and> (r_status r \<noteq> RPending \<longrightarrow> s = r))"

definition refunds_after :: "refund_row list \<Rightarrow> refund_row list \<Rightarrow> bool" where
  "refunds_after rs ss = (length rs \<le> length ss \<and> list_all2 refund_after rs (take (length rs) ss))"

lemma refund_after_refl [simp]: "refund_after r r"
  by (simp add: refund_after_def)

lemma refund_after_trans: "refund_after r s \<Longrightarrow> refund_after s t \<Longrightarrow> refund_after r t"
  by (cases r; cases s; cases t) (auto simp: refund_after_def)

lemma list_all2_refund_after_refl [simp]: "list_all2 refund_after rs rs"
  by (rule list_all2_refl) simp

lemma refunds_after_refl [simp]: "refunds_after rs rs"
  by (simp add: refunds_after_def)

lemma refunds_after_append [simp]: "refunds_after rs (rs @ ss)"
  by (simp add: refunds_after_def)

lemma refunds_after_trans: "refunds_after rs ss \<Longrightarrow> refunds_after ss ts \<Longrightarrow> refunds_after rs ts"
proof -
  assume a: "refunds_after rs ss" and b: "refunds_after ss ts"
  have "list_all2 refund_after (take (length rs) ss) (take (length rs) (take (length ss) ts))"
    using b by (intro list_all2_takeI) (simp add: refunds_after_def)
  then have "list_all2 refund_after (take (length rs) ss) (take (length rs) ts)"
    using a by (simp add: refunds_after_def min_def)
  with a b show ?thesis
    unfolding refunds_after_def by (auto intro: list_all2_trans [OF refund_after_trans])
qed

lemma refunds_after_upd:
  "(\<And>x. pending_refund i x \<Longrightarrow> refund_after x (f x)) \<Longrightarrow> refunds_after rs (upd (pending_refund i) f rs)"
  unfolding refunds_after_def by (simp, induction rs) auto

lemma claimRefund_after: "claimRefund inp d = (x, d') \<Longrightarrow> refunds_after (d_refunds d) (d_refunds d')"
  by (auto simp: claimRefund_def split: option.splits)

lemma markRefundedIn_after: "refunds_after (d_refunds d) (d_refunds (snd (markRefundedIn inp d)))"
  by (auto simp: markRefundedIn_def pending_refund_def refund_after_def intro!: refunds_after_upd)

lemma completeRefund_after:
  assumes "pt_voidInvoice ports = voidInvoiceForRefundIn" "completeRefund ports r ref now d = (res, d')"
  shows "refunds_after (d_refunds d) (d_refunds d')"
proof (cases "settleDuplicateRefund (r_org r) (r_order r) (ledger_input r ref now) d")
  case (Pair out d1)
  show ?thesis
  proof (cases out)
    case SolePayment
    with Pair assms(2) have "d1 = d" "voidOrder ports r (ledger_input r ref now) d1 = (res, d')"
      by (auto simp: settleDuplicateRefund_def completeRefund_def Let_def split: if_splits prod.splits)
    with markRefundedIn_after [of d] show ?thesis
      by (auto elim: voidOrder_cases [OF _ assms(1)])
  qed (use Pair assms(2) markRefundedIn_after [of d "ledger_input r ref now"] in
      \<open>auto simp: settleDuplicateRefund_def completeRefund_def Let_def split: if_splits prod.splits\<close>)
qed

lemma markRefundFailed_after: "markRefundFailed i reason d = (x, d') \<Longrightarrow> refunds_after (d_refunds d) (d_refunds d')"
  by (auto simp: markRefundFailed_def pending_refund_def refund_after_def intro!: refunds_after_upd)

lemma settleRefund_after:
  assumes "pt_voidInvoice ports = voidInvoiceForRefundIn" "settleRefund ports p ref r now d = (res, d')"
  shows "refunds_after (d_refunds d) (d_refunds d')"
proof (cases "pt_refund ports \<lparr>rp_org = p_org p, rp_gatewayRef = ref, rp_amount = p_amount p,
    rp_idempotencyKey = r_idempotencyKey r\<rparr>")
  case (Inr outcome)
  show ?thesis
  proof (cases "rf_status outcome")
    case ProvSucceeded
    obtain c d1 where c: "completeRefund ports r (rf_refundRef outcome) now d = (c, d1)" by force
    with Inr ProvSucceeded assms(2) have "d' = d1" by (cases c) (auto simp: settleRefund_def split: if_splits)
    with completeRefund_after [OF assms(1) c] show ?thesis by simp
  next
    case ProvPending
    with Inr assms(2) show ?thesis
      by (auto simp: settleRefund_def markRefundPending_def pending_refund_def refund_after_def
          intro!: refunds_after_upd)
  next
    case ProvFailed
    with Inr assms(2) have "d' = snd (markRefundFailed (r_id r) (rf_failureReason outcome) d)"
      by (auto simp: settleRefund_def)
    then show ?thesis using markRefundFailed_after surjective_pairing by metis
  qed
qed (use assms(2) in \<open>simp add: settleRefund_def\<close>)

lemma svc_refund_after:
  assumes "pt_voidInvoice ports = voidInvoiceForRefundIn" "svc_refund ports org user inp now d = (res, d')"
  shows "refunds_after (d_refunds d) (d_refunds d')"
proof (cases "requireRefundable org (rq_payment inp) d")
  case (Inr x)
  obtain p ref where x: "x = (p, ref)" by force
  let ?claim = "\<lparr>cr_org = org, cr_payment = p_id p, cr_order = p_order p, cr_amount = p_amount p,
    cr_issuedBy = user, cr_idempotencyKey = rq_idempotencyKey inp, cr_now = now\<rparr>"
  obtain row fresh d1 where c: "claimRefund ?claim d = ((row, fresh), d1)" by (metis surj_pair)
  with assms(2) Inr x have "(if fresh then settleRefund ports p ref row now d1
      else replay ports p ref row now d1) = (res, d')"
    by (auto simp: svc_refund_def split: if_splits)
  then have "refunds_after (d_refunds d1) (d_refunds d')"
    using settleRefund_after [OF assms(1)] by (auto simp: replay_def split: if_splits)
  with claimRefund_after [OF c] show ?thesis by (rule refunds_after_trans)
qed (use assms(2) in \<open>simp add: svc_refund_def\<close>)

lemma completePending_after:
  assumes "pt_voidInvoice ports = voidInvoiceForRefundIn" "completePending ports rep now d = (res, d')"
  shows "refunds_after (d_refunds d) (d_refunds d')"
proof -
  have lost: "snd (afterLostRace rep d) = d" for d
    by (auto simp: afterLostRace_def split: option.splits)
  have "refunds_after (d_refunds d) (d_refunds (snd (onFailed r rep d)))" for r
    using lost by (auto simp: onFailed_def split: prod.splits dest: markRefundFailed_after)
  moreover have "refunds_after (d_refunds d) (d_refunds (snd (onConfirmed ports r rep now d)))" for r
  proof (cases "completeRefund ports r (rep_refundRef rep) now d")
    case (Pair x d1)
    with completeRefund_after [OF assms(1) this] lost [of d1] show ?thesis
      by (cases x) (auto simp: onConfirmed_def)
  qed
  ultimately have "refunds_after (d_refunds d) (d_refunds (snd (completePending ports rep now d)))"
    by (simp add: completePending_def split: option.splits)
  with assms(2) show ?thesis by simp
qed

text \<open>Everything that moves refunds: issuing one, and what the provider reports of one.\<close>

inductive refund_step :: "db \<Rightarrow> db \<Rightarrow> bool" where
  refund_issued: "pt_voidInvoice ports = voidInvoiceForRefundIn \<Longrightarrow>
     svc_refund ports org user inp now d = (res, d') \<Longrightarrow> refund_step d d'"
| refund_reported: "pt_voidInvoice ports = voidInvoiceForRefundIn \<Longrightarrow>
     completePending ports rep now d = (res2, d') \<Longrightarrow> refund_step d d'"
| refund_elsewhere: "d_refunds d' = d_refunds d \<Longrightarrow> refund_step d d'"

text \<open>
  C20. A refund that succeeded or failed is final, and what was claimed is never changed:
  whatever is issued, replayed and reported in whatever order, every refund row keeps its
  payment, order, amount and key, and a finished one stays exactly as it is.
\<close>

theorem finished_refund_final:
  assumes "refund_step\<^sup>*\<^sup>* d d'"
  shows "refunds_after (d_refunds d) (d_refunds d')"
  using assms
proof (induction rule: rtranclp_induct)
  case (step b c)
  from step.hyps(2) have "refunds_after (d_refunds b) (d_refunds c)"
    by cases (auto dest: svc_refund_after completePending_after)
  with step.IH show ?case by (rule refunds_after_trans)
qed simp

section \<open>Starting a payment\<close>

lemma reconcileGatewayRef_row:
  assumes "reconcileGatewayRef p ref d = (p', d')" and "p \<in> set (d_payments d)"
  shows "p' \<in> set (d_payments d')" "p_id p' = p_id p" "p_org p' = p_org p" "p_gatewayRef p' = Some ref"
    "d' = d\<lparr>d_payments := d_payments d'\<rparr>"
  using assms by (auto simp: reconcileGatewayRef_def updateGatewayRef_def in_set_upd split: if_splits)

text \<open>
  Starting a payment does nothing when it is refused, by the order's state, the
  workspace's account, the method or the provider. When it is accepted the order was waiting
  to be paid, exactly its total is asked for, the attempt is on record under the provider's
  reference, and no order, ticket, seat or counter moved.
\<close>

theorem pay_all_or_nothing:
  assumes "pay ports inp d = (res, d')"
  shows "case res of Inl _ \<Rightarrow> d' = d
    | Inr i \<Rightarrow> \<exists>ord. findOrderAnyTenant (pd_order inp) d = Some ord
        \<and> o_status ord = OPending \<and> o_paymentStatus ord \<noteq> PPaid \<and> o_total ord \<noteq> 0
        \<and> pn_order i = pd_order inp \<and> pn_amount i = o_total ord
        \<and> ma_connected (pm_account ports (o_org ord)) \<and> pd_method inp \<in> set (ma_acceptedMethods (pm_account ports (o_org ord)))
        \<and> (\<exists>p\<in>set (d_payments d'). p_id p = pn_payment i \<and> p_org p = o_org ord
             \<and> p_gatewayRef p = Some (sd_gatewayRef (pn_started i)))
        \<and> d_orders d' = d_orders d \<and> d_tickets d' = d_tickets d \<and> d_tiers d' = d_tiers d
        \<and> d_holds d' = d_holds d \<and> d_assignments d' = d_assignments d"
proof (cases "requirePayable ports (pd_order inp) d")
  case (Inr order)
  then obtain ord where ord: "findOrderAnyTenant (pd_order inp) d = Some ord" "o_status ord = OPending"
    "o_paymentStatus ord \<noteq> PPaid" "o_total ord \<noteq> 0" "py_id order = o_id ord" "py_org order = o_org ord"
    "py_total order = o_total ord"
    by (auto simp: requirePayable_def findPayable_def split: option.splits if_splits)
  have id: "o_id ord = pd_order inp" using ord(1) by (auto simp: findOrderAnyTenant_def dest: find_SomeD)
  show ?thesis
  proof (cases "requireMerchantAccount ports (py_org order)")
    case acc: (Inr x)
    then obtain accountId where x: "x = (pm_account ports (py_org order), accountId)"
      "ma_connected (pm_account ports (py_org order))"
      by (auto simp: requireMerchantAccount_def Let_def split: option.splits if_splits)
    let ?account = "pm_account ports (py_org order)"
    show ?thesis
    proof (cases "pd_method inp \<in> set (ma_acceptedMethods ?account)")
      case m: True
      show ?thesis
      proof (cases "pm_start ports (start_input ports inp order ?account)")
        case st: (Inr started)
        obtain po d1 where up: "upsertAttempt (attempt_of inp order accountId started) d = (po, d1)" by force
        show ?thesis
        proof (cases po)
          case None
          with up have "d1 = d" by (auto simp: upsertAttempt_def split: if_splits)
          with None up assms Inr acc x m st show ?thesis by (auto simp: pay_def assertAccepted_def)
        next
          case (Some p)
          from up Some have p: "p \<in> set (d_payments d1)" "p_org p = py_org order" "d_orders d1 = d_orders d"
            "d_tickets d1 = d_tickets d" "d_tiers d1 = d_tiers d" "d_holds d1 = d_holds d"
            "d_assignments d1 = d_assignments d"
            by (auto simp: upsertAttempt_def attempt_row_def attempt_of_def split: if_splits dest!: find_SomeD)
          obtain p' d2 where rec: "reconcileGatewayRef p (sd_gatewayRef started) d1 = (p', d2)" by force
          note rec' = reconcileGatewayRef_row [OF rec p(1)]
          have "d_orders d2 = d_orders d" "d_tickets d2 = d_tickets d" "d_tiers d2 = d_tiers d"
            "d_holds d2 = d_holds d" "d_assignments d2 = d_assignments d"
            by (subst rec'(5), simp add: p(3-7))+
          with rec rec'(1-4) p Some up assms Inr acc x m st ord id show ?thesis
            by (auto simp: pay_def assertAccepted_def toIntent_def)
        qed
      qed (use assms Inr acc x m in \<open>auto simp: pay_def assertAccepted_def\<close>)
    qed (use assms Inr acc x in \<open>auto simp: pay_def assertAccepted_def check_def\<close>)
  qed (use assms Inr in \<open>auto simp: pay_def\<close>)
qed (use assms in \<open>auto simp: pay_def\<close>)

section \<open>Statement descriptors\<close>

lemma set_collapse: "set (collapse cs) \<subseteq> set cs"
  by (induction cs rule: collapse.induct) auto

lemma set_trim: "set (trim cs) \<subseteq> set cs"
  by (auto simp: trim_def dest!: set_dropWhileD)

lemma length_trim: "length (trim cs) \<le> length cs"
  using length_dropWhile_le [of "(=) CHR '' ''" "rev (dropWhile ((=) CHR '' '') cs)"]
    length_dropWhile_le [of "(=) CHR '' ''" cs] by (simp add: trim_def)

lemma trim_ends: "trim cs \<noteq> [] \<Longrightarrow> hd (trim cs) \<noteq> CHR '' '' \<and> last (trim cs) \<noteq> CHR '' ''"
proof -
  assume ne: "trim cs \<noteq> []"
  let ?a = "dropWhile ((=) CHR '' '') cs"
  let ?b = "dropWhile ((=) CHR '' '') (rev ?a)"
  have b: "?b \<noteq> []" using ne by (simp add: trim_def)
  have "hd ?b \<noteq> CHR '' ''" using hd_dropWhile [OF b] by auto
  moreover have "hd ?a \<noteq> CHR '' ''" using b hd_dropWhile [of "(=) CHR '' ''" cs] by fastforce
  moreover obtain zs where "rev ?a = zs @ ?b" by (metis takeWhile_dropWhile_id)
  then have "?a = rev ?b @ rev zs" by (metis rev_append rev_rev_ident)
  then have "hd ?a = hd (rev ?b)" using b by (metis hd_append2 rev_is_Nil_conv)
  ultimately show ?thesis using b by (simp add: trim_def last_rev)
qed

text \<open>
  What is printed on a card statement is a text the provider takes: between five and
  twelve Latin letters, digits and spaces, not beginning or ending with a space. A name that
  has no such part prints nothing.
\<close>

theorem descriptor_suffix_valid:
  "case statementDescriptorSuffix descriptor of None \<Rightarrow> True
   | Some s \<Rightarrow> 5 \<le> length s \<and> length s \<le> 12 \<and> list_all (\<lambda>c. \<not> NON_LATIN c) s
       \<and> hd s \<noteq> CHR '' '' \<and> last s \<noteq> CHR '' ''"
proof (cases descriptor)
  case (Some name)
  let ?m = "map (\<lambda>c. if NON_LATIN c then CHR '' '' else c) name"
  let ?s = "trim (take MAX_SUFFIX_LENGTH (trim (collapse ?m)))"
  have "\<not> NON_LATIN c" if "c \<in> set ?s" for c
  proof -
    from that have "c \<in> set ?m"
      using set_trim set_collapse set_take_subset by (meson subsetD)
    then show ?thesis by (auto simp: NON_LATIN_def)
  qed
  then have latin: "list_all (\<lambda>c. \<not> NON_LATIN c) ?s" unfolding list_all_iff by blast
  have len: "length ?s \<le> 12"
    using length_trim [of "take MAX_SUFFIX_LENGTH (trim (collapse ?m))"] by (simp add: MAX_SUFFIX_LENGTH_def)
  have ends: "hd ?s \<noteq> CHR '' '' \<and> last ?s \<noteq> CHR '' ''" if "5 \<le> length ?s"
    by (rule trim_ends) (use that in auto)
  have "statementDescriptorSuffix descriptor = (if name = [] \<or> length ?s < 5 then None else Some ?s)"
    by (simp add: Some statementDescriptorSuffix_def Let_def MIN_SUFFIX_LENGTH_def)
  with latin len ends show ?thesis by (simp split: if_split)
qed (simp add: statementDescriptorSuffix_def)

section \<open>Witnesses\<close>

text \<open>
  The unpaid order of the scenario is paid by card: an attempt is recorded, the provider
  reports it collected, and later reports a refund.
\<close>

definition demo_ports :: payment_ports where
  "demo_ports = \<lparr>
     pm_start = (\<lambda>i. Inr \<lparr>sd_gatewayRef = ''pi_1'', sd_status = RequiresAction, sd_checkoutUrl = None,
        sd_clientSecret = None, sd_promptPayQr = None, sd_expiresAt = None, sd_declineReason = None\<rparr>),
     pm_verify = (\<lambda>b s k. Inl Uncaught), pm_identity = (\<lambda>t. None),
     pm_account = (\<lambda>org. \<lparr>ma_connected = True, ma_accountId = Some ''acct'', ma_descriptor = None,
        ma_acceptedMethods = [Card]\<rparr>),
     pm_orgDescriptor = (\<lambda>org. None), pm_eventName = (\<lambda>i. None), pm_ticketsUrl = (\<lambda>i. []),
     pm_payInvoice = markInvoicePaidIn, pm_mint = (\<lambda>i n. replicate n CHR ''t''),
     pm_refunds = \<lparr>pt_refund = (\<lambda>i. Inr \<lparr>rf_refundRef = ''re_1'', rf_status = ProvPending,
         rf_failureReason = None\<rparr>), pt_voidInvoice = voidInvoiceForRefundIn\<rparr>\<rparr>"

definition demo_pay :: pay_order where
  "demo_pay = \<lparr>pd_order = 11, pd_method = Card, pd_idempotencyKey = ''pay-key-1''\<rparr>"

definition demo_attempted :: db where
  "demo_attempted = snd (pay demo_ports demo_pay demo_unpaid)"

definition demo_event :: verified_webhook where
  "demo_event = \<lparr>vw_eventId = ''evt_1'', vw_type = WSucceeded, vw_gatewayRef = ''pi_1'', vw_settledRef = None,
     vw_amount = 2000, vw_declineReason = None\<rparr>"

definition demo_collected :: db where
  "demo_collected = snd (handle_verified demo_ports 1 demo_event 20 demo_attempted)"

lemma demo_pay_ok: "\<not> isl (fst (pay demo_ports demo_pay demo_unpaid))"
  by code_simp

lemma demo_collect_ok: "fst (handle_verified demo_ports 1 demo_event 20 demo_attempted) = Inr ()
    \<and> map p_status (d_payments demo_collected) = [PPaid]
    \<and> map w_status (d_webhooks demo_collected) = [WProcessed] \<and> length (d_tickets demo_collected) = 2"
  by code_simp

lemma demo_ports_hooks: "pm_payInvoice demo_ports = markInvoicePaidIn"
  "pt_voidInvoice (pm_refunds demo_ports) = voidInvoiceForRefundIn"
  by (simp_all add: demo_ports_def)

theorem webhook_acted_once_witness:
  "handle_verified demo_ports 2 (demo_event\<lparr>vw_amount := 5\<rparr>) 30 demo_collected = (Inr (), demo_collected)"
proof -
  have h: "handle_verified demo_ports 1 demo_event 20 demo_attempted = (Inr (), demo_collected)"
    using demo_collect_ok by (simp add: demo_collected_def prod_eq_iff)
  have "vw_type demo_event \<noteq> WIgnored" "vw_eventId (demo_event\<lparr>vw_amount := 5\<rparr>) = vw_eventId demo_event"
    by (simp_all add: demo_event_def)
  note c = webhook_acted_once [OF demo_ports_hooks this(1) h this(2), of demo_ports 2 30]
  then obtain w where w: "find (webhook_of PROVIDER_NAME (vw_eventId demo_event)) (d_webhooks demo_collected) = Some w"
    "w_status w = WProcessed \<Longrightarrow>
      handle_verified demo_ports 2 (demo_event\<lparr>vw_amount := 5\<rparr>) 30 demo_collected = (Inr (), demo_collected)"
    by auto
  then have "w_status w \<in> set (map w_status (d_webhooks demo_collected))" by (auto dest: find_SomeD)
  with demo_collect_ok w(2) show ?thesis by simp
qed

definition demo_attempt :: payment_row where
  "demo_attempt = hd (d_payments demo_attempted)"


text \<open>The refund claimed for that payment, which the provider then confirms.\<close>

definition demo_refund_claimed :: db where
  "demo_refund_claimed = snd (svc_refund (pm_refunds demo_ports) 1 5
     \<lparr>rq_payment = p_id demo_attempt, rq_idempotencyKey = ''refund-1''\<rparr> 40 demo_collected)"

definition demo_refund :: refund_row where
  "demo_refund = hd (d_refunds demo_refund_claimed)"

definition demo_refund_done :: db where
  "demo_refund_done = snd (completeRefund (pm_refunds demo_ports) demo_refund ''re_1'' 50 demo_refund_claimed)"

theorem refund_booked_whole_witness:
  "map r_status (d_refunds demo_refund_done) = [RSucceeded] \<and> map p_status (d_payments demo_refund_done) = [PRefunded]"
proof -
  obtain res where r: "completeRefund (pm_refunds demo_ports) demo_refund ''re_1'' 50 demo_refund_claimed
      = (res, demo_refund_done)"
    unfolding demo_refund_done_def by (metis surjective_pairing)
  have "fst (completeRefund (pm_refunds demo_ports) demo_refund ''re_1'' 50 demo_refund_claimed) = Inr True"
    "map r_status (upd (pending_refund (r_id demo_refund)) (\<lambda>x. x\<lparr>r_status := RSucceeded,
       r_gatewayRef := Some ''re_1'', r_settledAt := Some 50\<rparr>) (d_refunds demo_refund_claimed)) = [RSucceeded]"
    "map p_status (upd (\<lambda>p. p_id p = r_payment demo_refund) (\<lambda>p. p\<lparr>p_status := PRefunded\<rparr>)
       (d_payments demo_refund_claimed)) = [PRefunded]" by code_simp+
  with refund_booked_whole [OF demo_ports_hooks(2) r] r show ?thesis by auto
qed

theorem finished_refund_final_witness:
  "refunds_after (d_refunds demo_collected) (d_refunds demo_refund_claimed)"
proof -
  have "refund_step demo_collected demo_refund_claimed"
    unfolding demo_refund_claimed_def
    by (rule refund_issued [OF demo_ports_hooks(2)]) (rule surjective_pairing)
  from finished_refund_final [OF r_into_rtranclp [of refund_step, OF this]] show ?thesis .
qed

theorem pay_all_or_nothing_witness:
  "\<exists>i (ord :: order_row). fst (pay demo_ports demo_pay demo_unpaid) = Inr i \<and> pn_amount i = o_total ord \<and> o_id ord = 11
     \<and> d_orders demo_attempted = d_orders demo_unpaid"
proof -
  obtain i where i: "pay demo_ports demo_pay demo_unpaid = (Inr i, demo_attempted)"
    using demo_pay_ok unfolding demo_attempted_def by (metis prod.collapse sum.collapse(2))
  with pay_all_or_nothing [OF i] obtain ord where "findOrderAnyTenant 11 demo_unpaid = Some ord"
    "pn_amount i = o_total ord" "d_orders demo_attempted = d_orders demo_unpaid"
    by (auto simp: demo_pay_def)
  moreover from this(1) have "o_id ord = 11" by (auto simp: findOrderAnyTenant_def dest: find_SomeD)
  ultimately show ?thesis using i by (intro exI [of _ i] exI [of _ ord]) simp
qed

end
