(* ===== verification/Cascades.thy ===== *)
theory Cascades
  imports CheckoutReach Redemptions
begin

text \<open>
  What PostgreSQL does when an organizer's row is deleted, by the foreign keys of
  \<^verbatim>\<open>src/src/db/schema\<close>: a row that still refers to it refuses the statement
  (\<^verbatim>\<open>ON DELETE RESTRICT\<close>), goes with it (\<^verbatim>\<open>CASCADE\<close>) or lets go of it (\<^verbatim>\<open>SET NULL\<close>). And that
  no such deletion can disturb what has been sold.
\<close>

section \<open>The deletions\<close>

definition remove_seats :: "(seat_row \<Rightarrow> bool) \<Rightarrow> db \<Rightarrow> error + db" where
  "remove_seats P d =
     (let gone = (\<lambda>i. list_ex (\<lambda>s. P s \<and> s_id s = i) (d_seats d)) in
      if list_ex (\<lambda>a. gone (sa_seat a)) (d_assignments d) then Inl (DbViolation fk_seat_assignments_seat)
      else Inr (d\<lparr>d_seats := filter (\<lambda>s. \<not> P s) (d_seats d),
             d_holds := filter (\<lambda>h. case h_seat h of None \<Rightarrow> True | Some i \<Rightarrow> \<not> gone i) (d_holds d)\<rparr>))"

definition remove_maps :: "(seat_map_row \<Rightarrow> bool) \<Rightarrow> db \<Rightarrow> error + db" where
  "remove_maps P d =
     bindE (remove_seats (\<lambda>s. list_ex (\<lambda>m. P m \<and> sm_id m = s_map s) (d_maps d)) d) (\<lambda>d.
     Inr (d\<lparr>d_maps := filter (\<lambda>m. \<not> P m) (d_maps d)\<rparr>))"

definition remove_tiers :: "(tier_row \<Rightarrow> bool) \<Rightarrow> db \<Rightarrow> error + db" where
  "remove_tiers P d =
     (let gone = (\<lambda>i. list_ex (\<lambda>t. P t \<and> tt_id t = i) (d_tiers d)) in
      if list_ex (\<lambda>i. gone (oi_type i)) (d_items d) then Inl (DbViolation fk_order_items_ticket_type)
      else if list_ex (\<lambda>k. gone (t_type k)) (d_tickets d) then Inl (DbViolation fk_tickets_ticket_type)
      else Inr (d\<lparr>d_tiers := filter (\<lambda>t. \<not> P t) (d_tiers d),
             d_holds := filter (\<lambda>h. case h_type h of None \<Rightarrow> True | Some i \<Rightarrow> \<not> gone i) (d_holds d),
             d_seats := upd (\<lambda>s. case s_type s of None \<Rightarrow> False | Some i \<Rightarrow> gone i)
               (\<lambda>s. s\<lparr>s_type := None\<rparr>) (d_seats d)\<rparr>))"

definition remove_codes :: "(code_row \<Rightarrow> bool) \<Rightarrow> db \<Rightarrow> error + db" where
  "remove_codes P d =
     (let gone = (\<lambda>i. list_ex (\<lambda>c. P c \<and> dc_id c = i) (d_codes d)) in
      if list_ex (\<lambda>r. gone (rd_code r)) (d_redemptions d) then Inl (DbViolation fk_discount_redemptions_code)
      else Inr (d\<lparr>d_codes := filter (\<lambda>c. \<not> P c) (d_codes d),
             d_orders := upd (\<lambda>ord. case o_discountCode ord of None \<Rightarrow> False | Some i \<Rightarrow> gone i)
               (\<lambda>ord. ord\<lparr>o_discountCode := None\<rparr>) (d_orders d)\<rparr>))"

text \<open>An event: what refuses its deletion, and what goes with it.\<close>

definition event_history :: "ident \<Rightarrow> db \<Rightarrow> db_constraint option" where
  "event_history ev d =
     (if list_ex (\<lambda>ord. o_event ord = ev) (d_orders d) then Some fk_orders_event
      else if list_ex (\<lambda>k. t_event k = ev) (d_tickets d) then Some fk_tickets_event
      else if list_ex (\<lambda>p. p_event p = ev) (d_payments d) then Some fk_payments_event
      else if list_ex (\<lambda>i. iv_event i = ev) (d_invoices d) then Some fk_invoices_event
      else if list_ex (\<lambda>c. ci_event c = ev) (d_checkIns d) then Some fk_check_ins_event
      else if list_ex (\<lambda>s. sc_event s = ev) (d_scans d) then Some fk_scan_attempts_event
      else None)"

definition remove_event :: "ident \<Rightarrow> db \<Rightarrow> error + db" where
  "remove_event ev d =
     (case event_history ev d of
        Some c \<Rightarrow> Inl (DbViolation c)
      | None \<Rightarrow>
          bindE (remove_tiers (\<lambda>t. tt_event t = ev) d) (\<lambda>d.
          bindE (remove_maps (\<lambda>m. sm_event m = ev) d) (\<lambda>d.
          bindE (remove_codes (\<lambda>c. dc_event c = Some ev) d) (\<lambda>d.
          Inr (d\<lparr>d_events := filter (\<lambda>e. evt_id e \<noteq> ev) (d_events d),
              d_holds := filter (\<lambda>h. h_event h \<noteq> ev) (d_holds d),
              d_scans := upd (\<lambda>s. sc_ticketEvent s = Some ev) (\<lambda>s. s\<lparr>sc_ticketEvent := None\<rparr>) (d_scans d)\<rparr>)))))"

section \<open>What they leave alone\<close>

lemma hold_index_filter: "seat_hold_index hs \<Longrightarrow> seat_hold_index (filter P hs)"
proof -
  have "filter active_seat_hold (filter P hs) = filter P (filter active_seat_hold hs)"
    by (induction hs) simp_all
  then show "seat_hold_index hs \<Longrightarrow> seat_hold_index (filter P hs)"
    by (simp only: seat_hold_index_def uniq_def distinct_map_filter)
qed

lemma keeps_hold_filter:
  "stock_ok d \<and> seats_ok d \<Longrightarrow> stock_ok (d\<lparr>d_holds := filter P (d_holds d)\<rparr>)
     \<and> seats_ok (d\<lparr>d_holds := filter P (d_holds d)\<rparr>)"
  by (simp add: seats_ok_def hold_index_filter)

lemma keeps_tables:
  assumes "stock_ok d \<and> seats_ok d"
    and "d_orders d' = d_orders d" "d_items d' = d_items d" "d_tickets d' = d_tickets d"
    "d_tiers d' = d_tiers d" "d_next d \<le> d_next d'" "d_assignments d' = d_assignments d"
    "\<exists>P. d_holds d' = filter P (d_holds d)"
  shows "stock_ok d' \<and> seats_ok d'"
  using assms hold_index_filter by (auto simp: stock_defs places_def seats_ok_def)

lemma remove_seats_keeps: "stock_ok d \<and> seats_ok d \<Longrightarrow> remove_seats P d = Inr d' \<Longrightarrow> stock_ok d' \<and> seats_ok d'"
  by (rule keeps_tables [of d]) (auto simp: remove_seats_def Let_def split: if_splits)

lemma remove_maps_keeps: "stock_ok d \<and> seats_ok d \<Longrightarrow> remove_maps P d = Inr d' \<Longrightarrow> stock_ok d' \<and> seats_ok d'"
  by (rule keeps_tables [of d])
    (auto simp: remove_maps_def bindE_Inr_iff remove_seats_def Let_def split: if_splits)

text \<open>A ticket type goes only when no order and no ticket names it, so no place is lost.\<close>

lemma remove_tiers_keeps:
  assumes "stock_ok d \<and> seats_ok d" and "remove_tiers P d = Inr d'"
  shows "stock_ok d' \<and> seats_ok d'"
proof -
  from assms(2) have t: "d_tiers d' = filter (\<lambda>t. \<not> P t) (d_tiers d)" "d_orders d' = d_orders d"
    "d_items d' = d_items d" "d_tickets d' = d_tickets d" "d_next d' = d_next d"
    "d_assignments d' = d_assignments d" "\<exists>Q. d_holds d' = filter Q (d_holds d)"
    by (auto simp: remove_tiers_def Let_def split: if_splits)
  have "distinct (map tt_id (filter (\<lambda>t. \<not> P t) (d_tiers d)))"
    using assms(1) by (simp add: stock_defs distinct_map_filter)
  moreover have "seats_ok d'" using assms(1) t(4,6,7) hold_index_filter by (auto simp: seats_ok_def)
  ultimately show ?thesis using assms(1) t(1-5) by (simp add: stock_defs places_def)
qed

lemma awaits_code_upd [simp]:
  "awaits (upd P (\<lambda>ord. ord\<lparr>o_discountCode := x\<rparr>) ords) i = awaits ords i"
  by (induction ords) (auto simp: awaits_def isAwaitingApproval_def)

lemma remove_codes_keeps:
  assumes "stock_ok d \<and> seats_ok d" and "remove_codes P d = Inr d'"
  shows "stock_ok d' \<and> seats_ok d'"
proof -
  obtain Q where o: "d_orders d' = upd Q (\<lambda>ord. ord\<lparr>o_discountCode := None\<rparr>) (d_orders d)"
    and t: "d_items d' = d_items d" "d_tickets d' = d_tickets d" "d_tiers d' = d_tiers d" "d_next d' = d_next d"
      "d_assignments d' = d_assignments d" "d_holds d' = d_holds d"
    using assms(2) by (auto simp: remove_codes_def Let_def split: if_splits)
  have "places d' = places d" by (simp add: places_def waiting_places_def o t fun_eq_iff)
  moreover have "map o_id (d_orders d') = map o_id (d_orders d)" unfolding o by (rule map_upd_key) simp
  moreover have "(\<exists>ord\<in>set (d_orders d'). o_id ord = i \<and> o_org ord = g) \<longleftrightarrow>
      (\<exists>ord\<in>set (d_orders d). o_id ord = i \<and> o_org ord = g)" for i g
    unfolding o upd_def set_map bex_simps by (simp split: if_split)
  moreover have "(\<forall>ord\<in>set (d_orders d'). o_status ord = OWaitlisted \<longrightarrow> o_approvalRequestedAt ord = None) \<longleftrightarrow>
      (\<forall>ord\<in>set (d_orders d). o_status ord = OWaitlisted \<longrightarrow> o_approvalRequestedAt ord = None)"
    unfolding o upd_def set_map ball_simps by (simp split: if_split)
  moreover have "(\<forall>ord\<in>set (d_orders d'). o_id ord < n) \<longleftrightarrow> (\<forall>ord\<in>set (d_orders d). o_id ord < n)" for n
    unfolding o upd_def set_map ball_simps by (simp split: if_split)
  ultimately show ?thesis using assms(1) by (simp add: stock_defs t seats_ok_def)
qed

lemma remove_event_keeps:
  assumes "stock_ok d \<and> seats_ok d" and "remove_event ev d = Inr d'"
  shows "stock_ok d' \<and> seats_ok d'"
proof -
  from assms(2) obtain d1 d2 d3 where r: "remove_tiers (\<lambda>t. tt_event t = ev) d = Inr d1"
    "remove_maps (\<lambda>m. sm_event m = ev) d1 = Inr d2" "remove_codes (\<lambda>c. dc_event c = Some ev) d2 = Inr d3"
    and d': "d' = d3\<lparr>d_events := filter (\<lambda>e. evt_id e \<noteq> ev) (d_events d3),
              d_holds := filter (\<lambda>h. h_event h \<noteq> ev) (d_holds d3),
              d_scans := upd (\<lambda>s. sc_ticketEvent s = Some ev) (\<lambda>s. s\<lparr>sc_ticketEvent := None\<rparr>) (d_scans d3)\<rparr>"
    by (auto simp: remove_event_def bindE_Inr_iff split: option.splits)
  have "stock_ok d3 \<and> seats_ok d3"
    using remove_codes_keeps [OF remove_maps_keeps [OF remove_tiers_keeps [OF assms(1) r(1)] r(2)] r(3)] .
  then show ?thesis unfolding d' by (rule keeps_tables) auto
qed

end
