(* ===== verification/JsText.thy ===== *)
theory JsText
  imports Schema
begin

text \<open>
  The text functions of JavaScript that the services apply to what an organizer types:
  \<^verbatim>\<open>trim()\<close>, \<^verbatim>\<open>toUpperCase()\<close>, and \<^verbatim>\<open>slugify\<close> of \<^verbatim>\<open>src/src/common/util/slugify.ts\<close>. A
  \<open>char\<close> is a byte and only the ASCII blanks and letters are known; what \<^verbatim>\<open>normalize('NFKD')\<close>
  makes of other letters is an argument of \<open>slugify\<close>.
\<close>

definition js_blank :: "char \<Rightarrow> bool" where
  "js_blank c = (c = CHR '' '' \<or> (9 \<le> (of_char c :: nat) \<and> (of_char c :: nat) \<le> 13))"

definition js_trim :: "string \<Rightarrow> string" where
  "js_trim s = rev (dropWhile js_blank (rev (dropWhile js_blank s)))"

definition upper :: "char \<Rightarrow> char" where
  "upper c = (if 97 \<le> (of_char c :: nat) \<and> (of_char c :: nat) \<le> 122
     then char_of ((of_char c :: nat) - 32) else c)"

definition is_digit :: "char \<Rightarrow> bool" where
  "is_digit c = (48 \<le> (of_char c :: nat) \<and> (of_char c :: nat) \<le> 57)"

definition is_lower :: "char \<Rightarrow> bool" where
  "is_lower c = (97 \<le> (of_char c :: nat) \<and> (of_char c :: nat) \<le> 122)"

definition is_upper :: "char \<Rightarrow> bool" where
  "is_upper c = (65 \<le> (of_char c :: nat) \<and> (of_char c :: nat) \<le> 90)"

section \<open>Slugs\<close>

definition slug_char :: "char \<Rightarrow> bool" where
  "slug_char c = (is_lower c \<or> is_digit c)"

text \<open>\<^verbatim>\<open>replace(/[^a-z0-9]+/g, '-')\<close>: a run of other characters becomes one hyphen.\<close>

fun hyphenate :: "bool \<Rightarrow> string \<Rightarrow> string" where
  "hyphenate in_run [] = []"
| "hyphenate in_run (c # cs) =
     (if slug_char c then c # hyphenate False cs
      else if in_run then hyphenate True cs else CHR ''-'' # hyphenate True cs)"

definition strip_trailing :: "string \<Rightarrow> string" where
  "strip_trailing s = rev (dropWhile (\<lambda>c. c = CHR ''-'') (rev s))"

definition MIN_LENGTH :: nat where "MIN_LENGTH = 3"
definition MAX_LENGTH :: nat where "MAX_LENGTH = 80"

definition slugify :: "(string \<Rightarrow> string) \<Rightarrow> string \<Rightarrow> string \<Rightarrow> string" where
  "slugify nfkd name fallback =
     (let slug = strip_trailing (take MAX_LENGTH (strip_trailing
            (dropWhile (\<lambda>c. c = CHR ''-'') (hyphenate False (nfkd (map lower name))))))
      in if MIN_LENGTH \<le> length slug then slug else fallback)"

text \<open>The shape the rest of the system relies on: \<^verbatim>\<open>^[a-z0-9-]+$\<close>, no hyphen at either end.\<close>

definition slug_shaped :: "string \<Rightarrow> bool" where
  "slug_shaped s = (s \<noteq> [] \<and> list_all (\<lambda>c. slug_char c \<or> c = CHR ''-'') s
     \<and> hd s \<noteq> CHR ''-'' \<and> last s \<noteq> CHR ''-'')"

lemma hyphenate_chars: "c \<in> set (hyphenate b s) \<Longrightarrow> slug_char c \<or> c = CHR ''-''"
  by (induction b s rule: hyphenate.induct) (auto split: if_splits)

lemma strip_trailing_subset: "set (strip_trailing s) \<subseteq> set s"
  by (auto simp: strip_trailing_def dest: set_dropWhileD)

lemma strip_trailing_length: "length (strip_trailing s) \<le> length s"
  using length_dropWhile_le [of "\<lambda>c. c = CHR ''-''" "rev s"] by (simp add: strip_trailing_def)

lemma strip_trailing_last: "strip_trailing s \<noteq> [] \<Longrightarrow> last (strip_trailing s) \<noteq> CHR ''-''"
  using hd_dropWhile [of "\<lambda>c. c = CHR ''-''" "rev s"] by (simp add: strip_trailing_def last_rev)

lemma strip_trailing_hd: "strip_trailing s \<noteq> [] \<Longrightarrow> hd (strip_trailing s) = hd s"
proof -
  assume ne: "strip_trailing s \<noteq> []"
  have "rev s = takeWhile (\<lambda>c. c = CHR ''-'') (rev s) @ dropWhile (\<lambda>c. c = CHR ''-'') (rev s)" by simp
  then have "s = rev (dropWhile (\<lambda>c. c = CHR ''-'') (rev s)) @ rev (takeWhile (\<lambda>c. c = CHR ''-'') (rev s))"
    by (metis rev_append rev_rev_ident)
  with ne show ?thesis unfolding strip_trailing_def by (metis hd_append2)
qed

lemma slugify_shape:
  assumes "slug_shaped fallback"
  shows "slug_shaped (slugify nfkd name fallback)"
proof -
  define h where "h = dropWhile (\<lambda>c. c = CHR ''-'') (hyphenate False (nfkd (map lower name)))"
  define t where "t = take MAX_LENGTH (strip_trailing h)"
  show ?thesis
  proof (cases "MIN_LENGTH \<le> length (strip_trailing t)")
    case True
    then have ne: "strip_trailing t \<noteq> []" by (auto simp: MIN_LENGTH_def)
    then have "t \<noteq> []" by (auto simp: strip_trailing_def)
    then have h: "strip_trailing h \<noteq> []" "hd t = hd (strip_trailing h)" by (auto simp: t_def MAX_LENGTH_def hd_take)
    then have "h \<noteq> []" by (auto simp: strip_trailing_def)
    then have "hd h \<noteq> CHR ''-''" unfolding h_def by (rule hd_dropWhile)
    then have "hd (strip_trailing t) \<noteq> CHR ''-''"
      using strip_trailing_hd [OF ne] h strip_trailing_hd [OF h(1)] by simp
    moreover have "set (strip_trailing t) \<subseteq> set (hyphenate False (nfkd (map lower name)))"
      using strip_trailing_subset [of t] strip_trailing_subset [of h] set_take_subset [of MAX_LENGTH "strip_trailing h"]
      by (auto simp: t_def h_def dest: set_dropWhileD)
    ultimately show ?thesis
      using True ne strip_trailing_last [OF ne] hyphenate_chars
      by (auto simp: slugify_def Let_def slug_shaped_def list_all_iff t_def h_def)
  next
    case False
    then show ?thesis using assms by (simp add: slugify_def Let_def t_def h_def)
  qed
qed

lemma slugify_length:
  assumes "MIN_LENGTH \<le> length fallback" and "length fallback \<le> MAX_LENGTH"
  shows "MIN_LENGTH \<le> length (slugify nfkd name fallback) \<and> length (slugify nfkd name fallback) \<le> MAX_LENGTH"
  using assms by (auto simp: slugify_def Let_def intro: order_trans [OF strip_trailing_length])

end
