(* ===== verification/EventsRepo.thy ===== *)
theory EventsRepo
  imports Cascades JsText Listing Offers "HOL-Library.Product_Lexorder"
begin

text \<open>
  Data access of the Events module, \<^verbatim>\<open>events/events.repository.ts\<close>, and the views of an
  event that its adapters hand to Checkout, Check-in, Discounts, Ticketing and Meetings. The
  values of an INSERT are the row but for its id; the SET clause of an UPDATE is a function on
  the row. The paged list sorted by name is left out (it follows the database's collation).
\<close>

definition LIVE_STATUSES :: "event_status list" where "LIVE_STATUSES = [Planned, Upcoming, Live]"

definition live_event :: "ident \<Rightarrow> event_row \<Rightarrow> bool" where
  "live_event org e = (evt_org e = org \<and> evt_deletedAt e = None)"

section \<open>Reads\<close>

definition organizationIdFor :: "ident \<Rightarrow> db \<Rightarrow> ident option" where
  "organizationIdFor eventId d =
     map_option evt_org (find (\<lambda>e. evt_id e = eventId \<and> evt_deletedAt e = None) (d_events d))"

definition toCheckoutEvent :: "event_row \<Rightarrow> checkout_event" where
  "toCheckoutEvent e = \<lparr>ce_id = evt_id e, ce_org = evt_org e, ce_startAt = evt_startAt e,
     ce_seatingMode = evt_seatingMode e, ce_waitlistEnabled = evt_waitlistEnabled e,
     ce_requiresApproval = evt_requiresApproval e, ce_isOnline = evt_isOnline e\<rparr>"

datatype event_key = BySlug string | ById ident

fun keyed :: "event_key \<Rightarrow> event_row \<Rightarrow> bool" where
  "keyed (BySlug s) e = (evt_slug e = s)"
| "keyed (ById i) e = (evt_id e = i)"

definition findPublishedForCheckout :: "event_key \<Rightarrow> db \<Rightarrow> checkout_event option" where
  "findPublishedForCheckout key d =
     map_option toCheckoutEvent (find (\<lambda>e. keyed key e \<and> evt_visibility e = Public \<and> evt_publishedAt e \<noteq> None
       \<and> evt_status e \<in> set LIVE_STATUSES \<and> evt_deletedAt e = None) (d_events d))"

definition findOwnedForCheckout :: "ident \<Rightarrow> ident \<Rightarrow> db \<Rightarrow> checkout_event option" where
  "findOwnedForCheckout org eventId d =
     map_option toCheckoutEvent (find (\<lambda>e. evt_id e = eventId \<and> evt_org e = org
       \<and> evt_status e \<in> set LIVE_STATUSES \<and> evt_deletedAt e = None) (d_events d))"

record event_brief =
  eb_id :: ident
  eb_name :: string
  eb_seatingMode :: seating_mode

definition briefsByIds :: "ident \<Rightarrow> ident list \<Rightarrow> db \<Rightarrow> event_brief list" where
  "briefsByIds org eventIds d =
     (let ids = dedupe eventIds in
      if ids = [] then []
      else map (\<lambda>e. \<lparr>eb_id = evt_id e, eb_name = evt_name e, eb_seatingMode = evt_seatingMode e\<rparr>)
             (filter (\<lambda>e. live_event org e \<and> evt_id e \<in> set ids) (d_events d)))"

definition idsMatchingName :: "ident \<Rightarrow> string \<Rightarrow> db \<Rightarrow> ident list" where
  "idsMatchingName org search d =
     map evt_id (filter (\<lambda>e. live_event org e \<and> ilike (evt_name e) (contains_term search)) (d_events d))"

definition existingSlugs :: "ident \<Rightarrow> string \<Rightarrow> db \<Rightarrow> string list" where
  "existingSlugs org base d =
     map evt_slug (filter (\<lambda>e. evt_org e = org \<and> like (base @ ''%'') (evt_slug e)) (d_events d))"

definition categoryExists :: "ident \<Rightarrow> ident \<Rightarrow> db \<Rightarrow> bool" where
  "categoryExists org category d =
     list_ex (\<lambda>c. ct_id c = category \<and> ct_org c = org \<and> ct_deletedAt c = None) (d_categories d)"

definition findEvent :: "ident \<Rightarrow> ident \<Rightarrow> db \<Rightarrow> event_row option" where
  "findEvent org eventId d =
     find (\<lambda>e. evt_id e = eventId \<and> evt_org e = org \<and> evt_deletedAt e = None) (d_events d)"

definition by_start :: "event_row list \<Rightarrow> event_row list" where
  "by_start = sort_key (\<lambda>e. (evt_startAt e, evt_id e))"

definition listInRange :: "ident \<Rightarrow> instant \<Rightarrow> instant \<Rightarrow> db \<Rightarrow> event_row list" where
  "listInRange org startUtc endUtc d =
     by_start (filter (\<lambda>e. live_event org e \<and> startUtc \<le> evt_startAt e \<and> evt_startAt e < endUtc) (d_events d))"

definition listUpcoming :: "ident \<Rightarrow> instant \<Rightarrow> int \<Rightarrow> db \<Rightarrow> event_row list" where
  "listUpcoming org nowUtc limit d =
     take (nat limit) (by_start (filter (\<lambda>e. live_event org e \<and> nowUtc \<le> evt_startAt e
       \<and> evt_status e \<noteq> Cancelled) (d_events d)))"

text \<open>A search term is escaped, so that it matches literally.\<close>

definition likeEscape :: "string \<Rightarrow> string" where
  "likeEscape s = concat (map (\<lambda>c. if c \<in> {CHR 0x5C, CHR ''%'', CHR ''_''} then [CHR 0x5C, c] else [c]) s)"

definition matchWhere :: "ident \<Rightarrow> event_bucket option \<Rightarrow> event_type option \<Rightarrow> string option \<Rightarrow> event_row \<Rightarrow> bool" where
  "matchWhere org bucket type q e = (live_event org e
     \<and> (case bucket of None \<Rightarrow> True | Some b \<Rightarrow> evt_bucket e = b)
     \<and> (case type of None \<Rightarrow> True | Some t \<Rightarrow> evt_type e = t)
     \<and> (case q of None \<Rightarrow> True | Some s \<Rightarrow> s = [] \<or> ilike (evt_name e) (contains_term (likeEscape s))))"

definition event_listAll ::
  "ident \<Rightarrow> event_bucket option \<Rightarrow> event_type option \<Rightarrow> string option \<Rightarrow> db \<Rightarrow> event_row list" where
  "event_listAll org bucket type q d = rev (filter (matchWhere org bucket type q) (d_events d))"

definition bucketCounts :: "ident \<Rightarrow> db \<Rightarrow> event_bucket \<Rightarrow> nat" where
  "bucketCounts org d b = length (filter (\<lambda>e. live_event org e \<and> evt_bucket e = b) (d_events d))"

section \<open>Writes\<close>

definition event_insert :: "(ident \<Rightarrow> event_row) \<Rightarrow> db \<Rightarrow> event_row tx" where
  "event_insert mk d =
     (let row = (mk (d_next d))\<lparr>evt_id := d_next d, evt_version := 1\<rparr> in
      if list_ex (\<lambda>e. evt_org e = evt_org row \<and> evt_slug e = evt_slug row) (d_events d)
      then Inl (DbViolation uq_events_org_slug)
      else Inr (row, d\<lparr>d_events := d_events d @ [row], d_next := d_next d + 1\<rparr>))"

definition at_version :: "ident \<Rightarrow> ident \<Rightarrow> nat \<Rightarrow> event_row \<Rightarrow> bool" where
  "at_version org eventId version e = (evt_id e = eventId \<and> evt_org e = org \<and> evt_version e = version
     \<and> evt_deletedAt e = None)"

definition event_update ::
  "ident \<Rightarrow> ident \<Rightarrow> (event_row \<Rightarrow> event_row) \<Rightarrow> nat \<Rightarrow> db \<Rightarrow> event_row option tx" where
  "event_update org eventId vals currentVersion d =
     (let set_row = (\<lambda>e. (vals e)\<lparr>evt_version := currentVersion + 1\<rparr>)
      in Inr (map_option set_row (find (at_version org eventId currentVersion) (d_events d)),
           d\<lparr>d_events := upd (at_version org eventId currentVersion) set_row (d_events d)\<rparr>))"

definition event_hardDelete :: "ident \<Rightarrow> ident \<Rightarrow> db \<Rightarrow> unit tx" where
  "event_hardDelete org eventId d =
     (if list_ex (\<lambda>e. evt_id e = eventId \<and> evt_org e = org) (d_events d)
      then bindE (remove_event eventId d) (\<lambda>d. Inr ((), d))
      else Inr ((), d))"

text \<open>What the door is told of an event (\<^verbatim>\<open>check-in-event.adapter.ts\<close>).\<close>

definition findForCheckIn :: "ident \<Rightarrow> ident \<Rightarrow> db \<Rightarrow> door_event option" where
  "findForCheckIn org eventId d =
     map_option (\<lambda>e. \<lparr>de_id = evt_id e, de_status = evt_status e, de_startAt = evt_startAt e,
        de_endAt = evt_endAt e\<rparr>) (findEvent org eventId d)"

section \<open>Escaped searches\<close>

text \<open>An escaped term, between percent signs, matches exactly the texts that contain it.\<close>

lemma like_escaped_prefix: "like (likeEscape p @ ''%'') s \<longleftrightarrow> take (length p) s = p"
proof (induction p arbitrary: s)
  case Nil
  then show ?case by (simp add: likeEscape_def like_percent_all)
next
  case (Cons a p)
  then show ?case by (cases s) (auto simp: likeEscape_def)
qed

lemma like_percent: "like (CHR ''%'' # ps) s \<longleftrightarrow> (\<exists>n \<le> length s. like ps (drop n s))"
proof (induction s)
  case (Cons c s)
  have "(\<exists>n \<le> length (c # s). like ps (drop n (c # s))) \<longleftrightarrow> like ps (c # s) \<or> (\<exists>n \<le> length s. like ps (drop n s))"
    by (metis Suc_le_mono drop0 drop_Suc_Cons le0 length_Cons not0_implies_Suc)
  with Cons show ?case by simp
qed simp

lemma escaped_search: "like (contains_term (likeEscape q)) s \<longleftrightarrow> (\<exists>a b. s = a @ q @ b)"
proof -
  have "like (contains_term (likeEscape q)) s \<longleftrightarrow> (\<exists>n \<le> length s. take (length q) (drop n s) = q)"
    by (simp add: contains_term_def like_percent like_escaped_prefix)
  also have "\<dots> \<longleftrightarrow> (\<exists>a b. s = a @ q @ b)"
  proof
    assume "\<exists>n \<le> length s. take (length q) (drop n s) = q"
    then obtain n where "take (length q) (drop n s) = q" by blast
    then have "s = take n s @ q @ drop (length q) (drop n s)" by (metis append_take_drop_id)
    then show "\<exists>a b. s = a @ q @ b" by blast
  next
    assume "\<exists>a b. s = a @ q @ b"
    then obtain a b where "s = a @ q @ b" by blast
    then show "\<exists>n \<le> length s. take (length q) (drop n s) = q" by (intro exI [of _ "length a"]) simp
  qed
  finally show ?thesis .
qed

end
