(* ===== verification/Ticketing.thy ===== *)
theory Ticketing
  imports EventsRepo Pricing
begin

text \<open>
  The ticket types an organizer sells: the rules of \<^verbatim>\<open>ticketing/ticketing.policy.ts\<close>, the
  transactions of \<^verbatim>\<open>ticketing/ticketing.repository.ts\<close>, the quantities a seat map sets
  (\<^verbatim>\<open>ticket-seat-quantities.service.ts\<close>, \<^verbatim>\<open>ticket-quantity.adapter.ts\<close>) and the views handed to
  Checkout and the dashboard. A new row's columns that no caller sets have the defaults of
  \<^verbatim>\<open>db/schema/ticketing.ts\<close>.
\<close>

section \<open>Rules\<close>

definition MAX_SEATS_PER_BOOKING :: int where "MAX_SEATS_PER_BOOKING = 8"
definition SATANG_PER_BAHT :: int where "SATANG_PER_BAHT = 100"
definition UNLIMITED :: int where "UNLIMITED = 0"

definition assertSalesWindow :: "instant option \<Rightarrow> instant option \<Rightarrow> error + unit" where
  "assertSalesWindow startAt endAt =
     (case (startAt, endAt) of
        (Some s, Some e) \<Rightarrow> check (e > s) (Validation ''The sales end date must come after the sales start date.'' [])
      | _ \<Rightarrow> Inr ())"

definition assertPerOrderBounds :: "int \<Rightarrow> int \<Rightarrow> int \<Rightarrow> bool \<Rightarrow> error + unit" where
  "assertPerOrderBounds minPerOrder maxPerOrder count quantityFromSeats =
     (if maxPerOrder > MAX_SEATS_PER_BOOKING
      then Inl (Validation ''A per-order limit can't exceed {} seats.'' [Num MAX_SEATS_PER_BOOKING])
      else if minPerOrder < 1 \<or> minPerOrder > maxPerOrder
      then Inl (Validation ''The minimum per order must be at least 1 and no more than the maximum.'' [])
      else if \<not> quantityFromSeats \<and> count \<noteq> UNLIMITED \<and> maxPerOrder > count
      then Inl (Validation ''The per-order limit ({}) can't exceed the {} seats available.'' [Num maxPerOrder, Num count])
      else Inr ())"

definition assertWholeBaht :: "satang \<Rightarrow> error + unit" where
  "assertWholeBaht price = check (price mod SATANG_PER_BAHT = 0)
     (Validation ''Prices are set in whole baht - drop the stray satang.'' [])"

definition assertChangeAllowedAfterSales :: "tier_row \<Rightarrow> satang option \<Rightarrow> bool option \<Rightarrow> error + unit" where
  "assertChangeAllowedAfterSales tier price isFree =
     (if tt_sold tier = 0 then Inr ()
      else check ((price = None \<or> price = Some (tt_price tier)) \<and> (isFree = None \<or> isFree = Some (tt_isFree tier)))
        (Conflict ''The price and paid/free setting can't change after sales began - create a new ticket type instead.'' []))"

definition assertQuantityNotBelowSold :: "int \<Rightarrow> int \<Rightarrow> error + unit" where
  "assertQuantityNotBelowSold count sold = check (count \<ge> sold)
     (Validation ''Cannot set the quantity ({}) below the {} already sold.'' [Num count, Num sold])"

definition quantityFromSeats :: "seating_mode \<Rightarrow> bool \<Rightarrow> bool" where
  "quantityFromSeats seatingMode hasTypedSeats = (seatingMode = Reserved \<and> hasTypedSeats)"

definition assertQuantityFromSeats :: "int option \<Rightarrow> int \<Rightarrow> error + unit" where
  "assertQuantityFromSeats count seats = check (count = None \<or> count = Some seats)
     (Conflict ''This event's ticket quantities come from its seat map. Give rows to a ticket type instead.'' [])"

definition assertNoSeats :: "string \<Rightarrow> int \<Rightarrow> error + unit" where
  "assertNoSeats name seats = check (seats = 0)
     (Conflict ''{} still has seats. Give them to another ticket type first.'' [Txt name])"

definition assertSeatsCoverSold :: "string \<Rightarrow> int \<Rightarrow> int \<Rightarrow> error + unit" where
  "assertSeatsCoverSold name sold seats = check (seats \<ge> sold)
     (Conflict ''{} has sold {} tickets, more than the {} seats it now holds.'' [Txt name, Num sold, Num seats])"

definition raisesAllocation :: "int \<Rightarrow> int \<Rightarrow> bool" where
  "raisesAllocation before after = (before \<noteq> UNLIMITED \<and> after > before)"

definition isExhausted :: "int \<Rightarrow> int \<Rightarrow> bool" where
  "isExhausted sold count = (count \<noteq> UNLIMITED \<and> sold \<ge> count)"

definition isBeforeWindow :: "instant option \<Rightarrow> instant \<Rightarrow> bool" where
  "isBeforeWindow salesStartAt now = (case salesStartAt of None \<Rightarrow> False | Some s \<Rightarrow> now < s)"

definition resolveStatus :: "ticket_status \<Rightarrow> int \<Rightarrow> int \<Rightarrow> instant option \<Rightarrow> instant \<Rightarrow> ticket_status" where
  "resolveStatus status sold count salesStartAt now =
     (if status = Paused then Paused
      else if isExhausted sold count then Soldout
      else if isBeforeWindow salesStartAt now then Scheduled
      else Onsale)"

definition row_status :: "tier_row \<Rightarrow> instant \<Rightarrow> ticket_status" where
  "row_status t now = resolveStatus (tt_status t) (tt_sold t) (tt_total t) (tt_salesStartAt t) now"

section \<open>The table\<close>

text \<open>The check constraints, in the order PostgreSQL tries them.\<close>

definition tier_violation :: "tier_row \<Rightarrow> db_constraint option" where
  "tier_violation t =
     (if tt_isFree t \<and> tt_price t \<noteq> 0 then Some ck_ticket_types_free_price
      else if tt_price t < 0 then Some ck_ticket_types_price
      else if \<not> sold_within_total t then Some ck_ticket_types_sold
      else None)"

definition live_tier :: "ident \<Rightarrow> ident \<Rightarrow> tier_row \<Rightarrow> bool" where
  "live_tier org event t = (tt_org t = org \<and> tt_event t = event \<and> tt_deletedAt t = None)"

definition nameExists :: "ident \<Rightarrow> ident \<Rightarrow> string \<Rightarrow> ident option \<Rightarrow> db \<Rightarrow> bool" where
  "nameExists org event name excludeId d =
     list_ex (\<lambda>t. live_tier org event t \<and> tt_name t = name \<and> Some (tt_id t) \<noteq> excludeId) (d_tiers d)"

definition ticket_insert :: "(ident \<Rightarrow> tier_row) \<Rightarrow> db \<Rightarrow> tier_row tx" where
  "ticket_insert mk d =
     (let row = (mk (d_next d))\<lparr>tt_id := d_next d, tt_sold := 0, tt_includes := None, tt_isRecommended := False,
          tt_badge := None, tt_deletedAt := None, tt_version := 1\<rparr>
      in case tier_violation row of
           Some c \<Rightarrow> Inl (DbViolation c)
         | None \<Rightarrow> Inr (row, d\<lparr>d_tiers := d_tiers d @ [row], d_next := d_next d + 1\<rparr>))"

definition ticket_listByEvent :: "ident \<Rightarrow> ident \<Rightarrow> db \<Rightarrow> tier_row list" where
  "ticket_listByEvent org event d = filter (live_tier org event) (d_tiers d)"

record search_options =
  tq_limit :: int
  tq_page :: int
  tq_status :: "ticket_status option"
  tq_event :: "ident option"
  tq_search :: "string option"
  tq_eventIds :: "ident list option"

definition searchWhere :: "ident \<Rightarrow> search_options \<Rightarrow> tier_row \<Rightarrow> bool" where
  "searchWhere org opts t = (tt_org t = org \<and> tt_deletedAt t = None
     \<and> (case tq_status opts of None \<Rightarrow> True | Some s \<Rightarrow> tt_status t = s)
     \<and> (case tq_event opts of None \<Rightarrow> True | Some e \<Rightarrow> tt_event t = e)
     \<and> (case tq_search opts of None \<Rightarrow> True
        | Some s \<Rightarrow> ilike (tt_name t) (contains_term s)
            \<or> (case tq_eventIds opts of None \<Rightarrow> False | Some es \<Rightarrow> tt_event t \<in> set es)))"

definition ticket_search :: "ident \<Rightarrow> search_options \<Rightarrow> db \<Rightarrow> tier_row list \<times> int" where
  "ticket_search org opts d =
     (let rows = rev (filter (searchWhere org opts) (d_tiers d))
      in (page_of (tq_page opts) (tq_limit opts) rows, int (length rows)))"

definition countsByStatus :: "ident \<Rightarrow> db \<Rightarrow> ticket_status \<Rightarrow> nat" where
  "countsByStatus org d s =
     length (filter (\<lambda>t. tt_org t = org \<and> tt_deletedAt t = None \<and> tt_status t = s) (d_tiers d))"

definition tier_at_version :: "ident \<Rightarrow> ident \<Rightarrow> nat \<Rightarrow> tier_row \<Rightarrow> bool" where
  "tier_at_version org ticketId version t = (tt_id t = ticketId \<and> tt_org t = org \<and> tt_version t = version
     \<and> tt_deletedAt t = None)"

text \<open>An UPDATE with its check constraints: the first row that breaks one refuses the statement.\<close>

definition checked_tiers :: "(tier_row \<Rightarrow> bool) \<Rightarrow> (tier_row \<Rightarrow> tier_row) \<Rightarrow> db \<Rightarrow> error + db" where
  "checked_tiers P f d =
     (case List.map_filter (\<lambda>t. tier_violation (f t)) (filter P (d_tiers d)) of
        c # _ \<Rightarrow> Inl (DbViolation c)
      | [] \<Rightarrow> Inr (d\<lparr>d_tiers := upd P f (d_tiers d)\<rparr>))"

definition ticket_update ::
  "ident \<Rightarrow> ident \<Rightarrow> (tier_row \<Rightarrow> tier_row) \<Rightarrow> nat \<Rightarrow> db \<Rightarrow> tier_row option tx" where
  "ticket_update org ticketId vals currentVersion d =
     (let set_row = (\<lambda>t. (vals t)\<lparr>tt_version := currentVersion + 1\<rparr>);
          P = tier_at_version org ticketId currentVersion
      in bindE (checked_tiers P set_row d) (\<lambda>d'.
         Inr (map_option set_row (find P (d_tiers d)), d')))"

text \<open>\<open>guard\<close> judges the removal inside its transaction.\<close>

definition ticket_softDelete ::
  "ident \<Rightarrow> ident \<Rightarrow> (db \<Rightarrow> error + unit) \<Rightarrow> instant \<Rightarrow> db \<Rightarrow> bool tx" where
  "ticket_softDelete org ticketId guard now d =
     bindE (guard d) (\<lambda>_.
     let P = (\<lambda>t. tt_id t = ticketId \<and> tt_org t = org \<and> tt_deletedAt t = None)
     in Inr (list_ex P (d_tiers d), d\<lparr>d_tiers := upd P (\<lambda>t. t\<lparr>tt_deletedAt := Some now\<rparr>) (d_tiers d)\<rparr>))"

definition ticket_hardDelete ::
  "ident \<Rightarrow> ident \<Rightarrow> (db \<Rightarrow> error + unit) \<Rightarrow> db \<Rightarrow> bool tx" where
  "ticket_hardDelete org ticketId guard d =
     bindE (guard d) (\<lambda>_.
     let P = (\<lambda>t. tt_id t = ticketId \<and> tt_org t = org \<and> tt_sold t = 0)
     in bindE (remove_tiers P d) (\<lambda>d'. Inr (list_ex P (d_tiers d), d')))"

definition lockLiveByEventIn :: "ident \<Rightarrow> ident \<Rightarrow> db \<Rightarrow> tier_row list" where
  "lockLiveByEventIn org event d = sort_key tt_id (filter (live_tier org event) (d_tiers d))"

definition setTotalIn :: "ident \<Rightarrow> ident \<Rightarrow> int \<Rightarrow> ticket_status \<Rightarrow> db \<Rightarrow> error + db" where
  "setTotalIn org ticketId count status d =
     checked_tiers (\<lambda>t. tt_id t = ticketId \<and> tt_org t = org)
       (\<lambda>t. t\<lparr>tt_total := count, tt_status := status, tt_version := tt_version t + 1\<rparr>) d"

definition countActive :: "ident \<Rightarrow> ident \<Rightarrow> db \<Rightarrow> nat" where
  "countActive org event d = length (filter (live_tier org event) (d_tiers d))"

definition sumQuantities :: "ident \<Rightarrow> ident \<Rightarrow> db \<Rightarrow> int" where
  "sumQuantities org event d = sum_of tt_total (filter (live_tier org event) (d_tiers d))"

definition sumSold :: "ident \<Rightarrow> ident \<Rightarrow> db \<Rightarrow> int" where
  "sumSold org event d = sum_of tt_sold (filter (live_tier org event) (d_tiers d))"

definition salesByEvent :: "ident \<Rightarrow> ident list \<Rightarrow> db \<Rightarrow> ident \<Rightarrow> (int \<times> int) option" where
  "salesByEvent org eventIds d ev =
     (if ev \<in> set eventIds \<and> filter (live_tier org ev) (d_tiers d) \<noteq> []
      then Some (sumSold org ev d, sumQuantities org ev d) else None)"

section \<open>Quantities from the seat map\<close>

text \<open>The seats each ticket type holds where the seat map sets the quantities, else \<open>None\<close>.\<close>

definition forEvent :: "ident \<Rightarrow> ident \<Rightarrow> db \<Rightarrow> error + (ident \<Rightarrow> nat option) option" where
  "forEvent org eventId d =
     (case findEvent org eventId d of
        None \<Rightarrow> Inl (NotFound ''Event {} not found.'')
      | Some e \<Rightarrow>
          let seats = seatsByTicketType org eventId d;
              hasTyped = list_ex (\<lambda>s. s_org s = org \<and> on_live_map d eventId s \<and> s_type s \<noteq> None) (d_seats d)
          in Inr (if quantityFromSeats (evt_seatingMode e) hasTyped then Some seats else None))"

definition seats_of :: "(ident \<Rightarrow> nat option) \<Rightarrow> ident \<Rightarrow> int" where
  "seats_of seats ticketId = (case seats ticketId of None \<Rightarrow> 0 | Some n \<Rightarrow> int n)"

definition assertUnseatedIn :: "ident \<Rightarrow> tier_row \<Rightarrow> db \<Rightarrow> error + unit" where
  "assertUnseatedIn org ticket d = assertNoSeats (tt_name ticket) (int (seatsOfTicketTypeIn org (tt_id ticket) d))"

fun set_totals :: "ident \<Rightarrow> (ident \<Rightarrow> int) \<Rightarrow> instant \<Rightarrow> tier_row list \<Rightarrow> db \<Rightarrow> error + db" where
  "set_totals org seatsOf now [] d = Inr d"
| "set_totals org seatsOf now (t # ts) d =
     bindE (setTotalIn org (tt_id t) (seatsOf (tt_id t))
              (resolveStatus (tt_status t) (tt_sold t) (seatsOf (tt_id t)) (tt_salesStartAt t) now) d)
       (set_totals org seatsOf now ts)"

definition setSeatQuantitiesIn ::
  "ident \<Rightarrow> ident \<Rightarrow> (ident \<Rightarrow> nat option) \<Rightarrow> instant \<Rightarrow> db \<Rightarrow> error + db" where
  "setSeatQuantitiesIn org eventId seatsByTier now d =
     (let tiers = lockLiveByEventIn org eventId d in
      bindE (forE (\<lambda>t. assertSeatsCoverSold (tt_name t) (tt_sold t) (seats_of seatsByTier (tt_id t))) tiers) (\<lambda>_.
      set_totals org (seats_of seatsByTier) now
        (filter (\<lambda>t. seats_of seatsByTier (tt_id t) \<noteq> tt_total t) tiers) d))"

end
