(* ===== verification/SeatMap.thy ===== *)
theory SeatMap
  imports Ticketing
begin

text \<open>
  The reserved seat map of an event: the rules of \<^verbatim>\<open>event-seating/event-seating.policy.ts\<close>
  and the save of \<^verbatim>\<open>event-seating/event-seating.repository.ts\<close>, which writes the seats and
  the quantities of the ticket types they sell in one transaction.
\<close>

section \<open>Positions\<close>

record seat_position =
  np_section :: "string option"
  np_rowLabel :: string
  np_seatNumber :: string
  np_type :: "ident option"

record reserved_input =
  ri_name :: string
  ri_rows :: nat
  ri_seatsPerRow :: nat
  ri_rowTicketTypes :: "ident option list option"
  ri_seatTicketTypes :: "ident option list list option"

definition orEmpty :: "string option \<Rightarrow> string" where
  "orEmpty s = (case s of None \<Rightarrow> '''' | Some x \<Rightarrow> x)"

definition key_of :: "string option \<Rightarrow> string option \<Rightarrow> string \<Rightarrow> string" where
  "key_of section row number = orEmpty section @ ''|'' @ orEmpty row @ ''|'' @ number"

definition positionKey :: "seat_row \<Rightarrow> string" where
  "positionKey s = key_of (s_section s) (s_rowLabel s) (s_seatNumber s)"

definition newPositionKey :: "seat_position \<Rightarrow> string" where
  "newPositionKey p = key_of (np_section p) (Some (np_rowLabel p)) (np_seatNumber p)"

definition gridPositions :: "nat \<Rightarrow> nat \<Rightarrow> seat_position list" where
  "gridPositions rows seatsPerRow =
     concat (map (\<lambda>r. map (\<lambda>s. \<lparr>np_section = Some '''', np_rowLabel = digits r, np_seatNumber = digits s,
         np_type = None\<rparr>) [1..<Suc seatsPerRow]) [1..<Suc rows])"

section \<open>Rules\<close>

definition assertOnePerRow :: "nat \<Rightarrow> nat option \<Rightarrow> error + unit" where
  "assertOnePerRow rows perRow = check (perRow = None \<or> perRow = Some rows)
     (Validation ''Send one ticket type per row: this map has {} rows, but {} were sent.''
        [Num (int rows), Num (int (case perRow of None \<Rightarrow> 0 | Some n \<Rightarrow> n))])"

definition assertOnePerSeat :: "nat \<Rightarrow> nat \<Rightarrow> ident option list \<Rightarrow> error + unit" where
  "assertOnePerSeat row seatsPerRow seats = check (length seats = seatsPerRow)
     (Validation ''Send one ticket type per seat: row {} has {} seats, but {} were sent.''
        [Num (int row), Num (int seatsPerRow), Num (int (length seats))])"

definition assertTypeShape :: "reserved_input \<Rightarrow> error + unit" where
  "assertTypeShape inp =
     bindE (check (ri_rowTicketTypes inp = None \<or> ri_seatTicketTypes inp = None)
              (Validation ''Send rowTicketTypes or seatTicketTypes, not both.'' [])) (\<lambda>_.
     bindE (assertOnePerRow (ri_rows inp)
              (case ri_rowTicketTypes inp of Some ts \<Rightarrow> Some (length ts)
               | None \<Rightarrow> map_option length (ri_seatTicketTypes inp))) (\<lambda>_.
     case ri_seatTicketTypes inp of
       None \<Rightarrow> Inr ()
     | Some rows \<Rightarrow> forE (\<lambda>(i, seats). assertOnePerSeat (i + 1) (ri_seatsPerRow inp) seats) (enumerate 0 rows)))"

text \<open>An element of an array, or \<^verbatim>\<open>undefined\<close> outside it.\<close>

definition elem_at :: "'a list \<Rightarrow> nat \<Rightarrow> 'a option" where
  "elem_at xs i = (if i < length xs then Some (xs ! i) else None)"

definition label_number :: "string \<Rightarrow> nat" where
  "label_number s = (case read_nat s of None \<Rightarrow> 0 | Some n \<Rightarrow> n)"

text \<open>\<open>None\<close> when no list was sent; otherwise the type sent, or none.\<close>

definition sentTypeAt :: "reserved_input \<Rightarrow> seat_position \<Rightarrow> ident option option" where
  "sentTypeAt inp p =
     (let row = label_number (np_rowLabel p) - 1 in
      case ri_seatTicketTypes inp of
        Some rows \<Rightarrow> Option.bind (elem_at rows row) (\<lambda>seats. elem_at seats (label_number (np_seatNumber p) - 1))
      | None \<Rightarrow> Option.bind (ri_rowTicketTypes inp) (\<lambda>ts. elem_at ts row))"

definition layoutAfter :: "seat_row list \<Rightarrow> reserved_input \<Rightarrow> seat_position list" where
  "layoutAfter seats inp =
     (let current = map_of (rev (map (\<lambda>s. (positionKey s, s_type s)) seats)) in
      map (\<lambda>p. p\<lparr>np_type := (case sentTypeAt inp p of
             Some ty \<Rightarrow> ty
           | None \<Rightarrow> (case current (newPositionKey p) of None \<Rightarrow> None | Some ty \<Rightarrow> ty))\<rparr>)
        (gridPositions (ri_rows inp) (ri_seatsPerRow inp)))"

type_synonym seat_tier = "ident \<times> string"

definition assertLiveTypes :: "seat_position list \<Rightarrow> seat_tier list \<Rightarrow> bool \<Rightarrow> error + unit" where
  "assertLiveTypes layout tiers sentByRow =
     (case find (\<lambda>s. np_type s \<noteq> None \<and> the (np_type s) \<notin> fst ` set tiers) layout of
        None \<Rightarrow> Inr ()
      | Some stray \<Rightarrow>
          Inl (if sentByRow
               then Validation ''Row {}'s ticket type isn't one of this event's ticket types.'' [Txt (np_rowLabel stray)]
               else Validation ''Row {} seat {}'s ticket type isn't one of this event's ticket types.''
                      [Txt (np_rowLabel stray), Txt (np_seatNumber stray)]))"

definition assertEverySeatTyped :: "seat_position list \<Rightarrow> bool \<Rightarrow> error + unit" where
  "assertEverySeatTyped layout published =
     (if \<not> published \<or> list_all (\<lambda>s. np_type s = None) layout then Inr ()
      else case find (\<lambda>s. np_type s = None) layout of
          None \<Rightarrow> Inr ()
        | Some untyped \<Rightarrow> Inl (Validation
            ''Give every seat in row {} a ticket type. Every seat of a published event needs one.''
            [Txt (np_rowLabel untyped)]))"

definition assertNoSoldSeatRemoved :: "seat_row list \<Rightarrow> bool \<Rightarrow> error + unit" where
  "assertNoSoldSeatRemoved removed block =
     check (\<not> block \<or> \<not> list_ex (\<lambda>s. s_status s = SSold) removed)
       (Validation ''Seats that are already sold cannot be removed from a published event.'' [])"

definition seatsByTier :: "seat_position list \<Rightarrow> seat_tier list \<Rightarrow> (ident \<Rightarrow> nat option) option" where
  "seatsByTier layout tiers =
     (if list_all (\<lambda>s. np_type s = None) layout then None
      else Some (\<lambda>ty. if ty \<in> fst ` set tiers
                      then Some (length (filter (\<lambda>s. np_type s = Some ty) layout)) else None))"

record layout_diff =
  ld_kept :: "seat_row list"
  ld_removed :: "seat_row list"
  ld_added :: "seat_position list"

definition diffLayout :: "seat_row list \<Rightarrow> seat_position list \<Rightarrow> layout_diff" where
  "diffLayout seats layout =
     (let wanted = set (map newPositionKey layout); existing = set (map positionKey seats) in
      \<lparr>ld_kept = filter (\<lambda>s. positionKey s \<in> wanted) seats,
       ld_removed = filter (\<lambda>s. positionKey s \<notin> wanted) seats,
       ld_added = filter (\<lambda>p. newPositionKey p \<notin> existing) layout\<rparr>)"

type_synonym seat_retype = "ident option \<times> ident list"

definition groupByType :: "seat_row list \<Rightarrow> (seat_row \<Rightarrow> ident option) \<Rightarrow> seat_retype list" where
  "groupByType seats typeOf =
     map (\<lambda>ty. (ty, map s_id (filter (\<lambda>s. typeOf s = ty) seats))) (dedupe (map typeOf seats))"

definition typeAt :: "seat_position list \<Rightarrow> seat_row \<Rightarrow> ident option" where
  "typeAt layout s =
     (case map_of (rev (map (\<lambda>p. (newPositionKey p, np_type p)) layout)) (positionKey s) of
        None \<Rightarrow> None | Some ty \<Rightarrow> ty)"

definition retypedSeats :: "seat_row list \<Rightarrow> seat_position list \<Rightarrow> ident set \<Rightarrow> error + seat_retype list" where
  "retypedSeats kept layout occupiedSeatIds =
     (let moving = filter (\<lambda>s. s_type s \<noteq> typeAt layout s) kept in
      case find (\<lambda>s. s_id s \<in> occupiedSeatIds) moving of
        Some locked \<Rightarrow> Inl (Conflict ''Row {} seat {} is booked or held, so its ticket type can't change.''
           [Txt (orEmpty (s_rowLabel locked)), Txt (s_seatNumber locked)])
      | None \<Rightarrow> Inr (groupByType moving (typeAt layout)))"

record reserved_plan =
  rp_added :: "seat_position list"
  rp_removedSeatIds :: "ident list"
  rp_retyped :: "seat_retype list"
  rp_seatsByTier :: "(ident \<Rightarrow> nat option) option"

definition planReserved ::
  "seat_row list \<Rightarrow> seat_tier list \<Rightarrow> ident set \<Rightarrow> reserved_input \<Rightarrow> bool \<Rightarrow> error + reserved_plan" where
  "planReserved seats tiers occupiedSeatIds inp published =
     (let layout = layoutAfter seats inp in
      bindE (assertLiveTypes layout tiers (ri_rowTicketTypes inp \<noteq> None)) (\<lambda>_.
      bindE (assertEverySeatTyped layout published) (\<lambda>_.
      let diff = diffLayout seats layout in
      bindE (assertNoSoldSeatRemoved (ld_removed diff) published) (\<lambda>_.
      bindE (retypedSeats (ld_kept diff) layout occupiedSeatIds) (\<lambda>retyped.
      Inr \<lparr>rp_added = ld_added diff, rp_removedSeatIds = map s_id (ld_removed diff), rp_retyped = retyped,
           rp_seatsByTier = seatsByTier layout tiers\<rparr>)))))"

text \<open>What the publish gate asks: seats without a type, and types without a seat.\<close>

definition seats_readiness :: "ident option list \<Rightarrow> seat_tier list \<Rightarrow> nat \<times> string list" where
  "seats_readiness seatTypes tiers =
     (let seatsWithoutType = length (filter (\<lambda>t. t = None) seatTypes) in
      if length seatTypes > 0 \<and> seatsWithoutType = length seatTypes then (seatsWithoutType, [])
      else (seatsWithoutType, map snd (filter (\<lambda>t. Some (fst t) \<notin> set seatTypes) tiers)))"

section \<open>The repository\<close>

definition mapWhere :: "ident \<Rightarrow> ident \<Rightarrow> seat_map_row \<Rightarrow> bool" where
  "mapWhere org eventId m = (sm_org m = org \<and> sm_event m = eventId \<and> sm_deletedAt m = None)"

definition findMap :: "ident \<Rightarrow> ident \<Rightarrow> db \<Rightarrow> seat_map_row option" where
  "findMap org eventId d = find (mapWhere org eventId) (d_maps d)"

definition seats_on :: "db \<Rightarrow> ident \<Rightarrow> seat_row list" where
  "seats_on d m = filter (\<lambda>s. s_map s = m) (d_seats d)"

definition getMapWithSeats :: "ident \<Rightarrow> ident \<Rightarrow> db \<Rightarrow> (seat_map_row \<times> seat_row list) option" where
  "getMapWithSeats org eventId d =
     map_option (\<lambda>m. (m, sort_key s_id (seats_on d (sm_id m)))) (findMap org eventId d)"

definition seatTypes :: "ident \<Rightarrow> ident \<Rightarrow> db \<Rightarrow> seat_row list" where
  "seatTypes org mapId d = filter (\<lambda>s. s_org s = org \<and> s_map s = mapId) (d_seats d)"

record reserved_params =
  rs_event :: ident
  rs_name :: string
  rs_rows :: nat
  rs_seatsPerRow :: nat

definition saveMap :: "ident \<Rightarrow> reserved_params \<Rightarrow> seat_map_row option \<Rightarrow> db \<Rightarrow> ident tx" where
  "saveMap org params existing d =
     (let layout = Some (int (rs_rows params), int (rs_seatsPerRow params));
          count = int (rs_rows params * rs_seatsPerRow params)
      in case existing of
           Some m \<Rightarrow> Inr (sm_id m, d\<lparr>d_maps := upd (\<lambda>r. sm_id r = sm_id m)
             (\<lambda>r. r\<lparr>sm_name := rs_name params, sm_layout := layout, sm_totalSeats := count\<rparr>) (d_maps d)\<rparr>)
         | None \<Rightarrow>
             if list_ex (\<lambda>r. sm_event r = rs_event params) (d_maps d) then Inl (DbViolation uq_seat_maps_event)
             else Inr (d_next d, d\<lparr>d_maps := d_maps d @ [\<lparr>sm_id = d_next d, sm_org = org,
                    sm_event = rs_event params, sm_name = rs_name params, sm_layout = layout, sm_totalSeats = count,
                    sm_deletedAt = None\<rparr>], d_next := d_next d + 1\<rparr>))"

definition retypeSeats :: "seat_retype list \<Rightarrow> seat_row list \<Rightarrow> seat_row list" where
  "retypeSeats retyped seats =
     foldl (\<lambda>ss g. upd (\<lambda>s. s_id s \<in> set (snd g)) (\<lambda>s. s\<lparr>s_type := fst g\<rparr>) ss) seats retyped"

text \<open>\<^verbatim>\<open>uq_seats_position\<close>; a NULL makes a row unlike any other.\<close>

definition seat_position_index :: "seat_row list \<Rightarrow> bool" where
  "seat_position_index ss = uniq (\<lambda>s. s_section s \<noteq> None \<and> s_rowLabel s \<noteq> None)
     (\<lambda>s. (s_map s, s_section s, s_rowLabel s, s_seatNumber s)) ss"

definition new_seats :: "ident \<Rightarrow> ident \<Rightarrow> nat \<Rightarrow> seat_position list \<Rightarrow> seat_row list" where
  "new_seats org mapId n ps =
     map (\<lambda>(i, p). \<lparr>s_id = i, s_org = org, s_map = mapId, s_section = np_section p, s_rowLabel = Some (np_rowLabel p),
        s_seatNumber = np_seatNumber p, s_type = np_type p, s_status = SAvailable\<rparr>) (enumerate n ps)"

definition insertSeats :: "ident \<Rightarrow> ident \<Rightarrow> seat_position list \<Rightarrow> db \<Rightarrow> error + db" where
  "insertSeats org mapId positions d =
     (if positions = [] then Inr d
      else let rows = d_seats d @ new_seats org mapId (d_next d) positions in
        if seat_position_index rows
        then Inr (d\<lparr>d_seats := rows, d_next := d_next d + length positions\<rparr>)
        else Inl (DbViolation uq_seats_position))"

definition writeSeats :: "ident \<Rightarrow> ident \<Rightarrow> reserved_plan \<Rightarrow> db \<Rightarrow> error + db" where
  "writeSeats org mapId plan d =
     bindE (if rp_removedSeatIds plan = [] then Inr d
            else remove_seats (\<lambda>s. s_id s \<in> set (rp_removedSeatIds plan)) d) (\<lambda>d.
     insertSeats org mapId (rp_added plan) (d\<lparr>d_seats := retypeSeats (rp_retyped plan) (d_seats d)\<rparr>))"

text \<open>The planner decides on what the transaction read.\<close>

definition applyReserved ::
  "ident \<Rightarrow> reserved_params \<Rightarrow> (seat_row list \<Rightarrow> seat_tier list \<Rightarrow> ident set \<Rightarrow> error + reserved_plan)
    \<Rightarrow> instant \<Rightarrow> db \<Rightarrow> seat_map_row tx" where
  "applyReserved org params planner now d =
     (let existing = findMap org (rs_event params) d;
          tiers = map (\<lambda>t. (tt_id t, tt_name t)) (lockLiveByEventIn org (rs_event params) d);
          current = (case existing of None \<Rightarrow> [] | Some m \<Rightarrow> sort_key s_id (seats_on d (sm_id m)));
          occupied = occupiedSeatIdsIn org (map s_id current) now d
      in bindE (planner current tiers occupied) (\<lambda>decided.
         bindE (saveMap org params existing d) (\<lambda>(mapId, d).
         bindE (writeSeats org mapId decided d) (\<lambda>d.
         bindE (case rp_seatsByTier decided of None \<Rightarrow> Inr d
                | Some seats \<Rightarrow> setSeatQuantitiesIn org (rs_event params) seats now d) (\<lambda>d.
         case find (\<lambda>m. sm_id m = mapId) (d_maps d) of None \<Rightarrow> Inl Uncaught | Some m \<Rightarrow> Inr (m, d))))))"

definition clearSeating :: "ident \<Rightarrow> ident \<Rightarrow> db \<Rightarrow> unit tx" where
  "clearSeating org eventId d = bindE (remove_maps (mapWhere org eventId) d) (\<lambda>d. Inr ((), d))"

text \<open>The readiness adapter: the seats of the event's map against its live ticket types.\<close>

definition seatsReadiness :: "ident \<Rightarrow> ident \<Rightarrow> db \<Rightarrow> nat \<times> string list" where
  "seatsReadiness org eventId d =
     seats_readiness
       (case findMap org eventId d of None \<Rightarrow> [] | Some m \<Rightarrow> map s_type (seatTypes org (sm_id m) d))
       (map (\<lambda>t. (tt_id t, tt_name t)) (ticket_listByEvent org eventId d))"

end
