(* ===== verification/SeatMapProps.thy ===== *)
theory SeatMapProps
  imports SeatMap "HOL-Library.Multiset"
begin

text \<open>
  What the save of a reserved seat map makes true: the seats become exactly the grid asked
  for, each with the ticket type sent for it, and each ticket type's quantity its seats.
\<close>

section \<open>Keys of positions\<close>

lemma digits_no_bar: "c \<in> set (digits n) \<Longrightarrow> c \<noteq> CHR ''|''"
  using digits_are_digits [of c n] by (auto simp: digit_value_def)

lemma split_at_bar:
  assumes "a @ CHR ''|'' # b = a' @ CHR ''|'' # b'" and "CHR ''|'' \<notin> set a" "CHR ''|'' \<notin> set a'"
  shows "a = a' \<and> b = b'"
  using assms
proof (induction a arbitrary: a')
  case Nil
  then show ?case by (cases a') auto
next
  case (Cons c a)
  then show ?case by (cases a') auto
qed

lemma grid_key_inject:
  "key_of (Some '''') (Some (digits r)) (digits s) = key_of (Some '''') (Some (digits r')) (digits s') \<longleftrightarrow> r = r' \<and> s = s'"
  using split_at_bar [of "digits r" "digits s" "digits r'" "digits s'"]
  by (auto simp: key_of_def orEmpty_def dest: digits_no_bar)

definition grid_keys :: "nat \<Rightarrow> nat \<Rightarrow> string list" where
  "grid_keys rows seatsPerRow = map newPositionKey (gridPositions rows seatsPerRow)"

lemma grid_keys_eq:
  "grid_keys rows n = map (\<lambda>(r, s). key_of (Some '''') (Some (digits r)) (digits s))
     (List.product [1..<Suc rows] [1..<Suc n])"
  by (simp add: grid_keys_def gridPositions_def map_concat newPositionKey_def product_concat_map
      comp_def del: upt_Suc)

lemma grid_keys_distinct: "distinct (grid_keys rows n)"
proof -
  have "inj (\<lambda>(r, s). key_of (Some '''') (Some (digits r)) (digits s))"
    by (rule injI) (auto simp: grid_key_inject)
  then show ?thesis unfolding grid_keys_eq
    by (auto simp: distinct_map distinct_product inj_on_def simp del: upt_Suc)
qed

lemma length_grid_keys: "length (grid_keys rows n) = rows * n"
  by (simp add: grid_keys_eq length_product del: upt_Suc)

lemma newPositionKey_type [simp]: "newPositionKey (p\<lparr>np_type := ty\<rparr>) = newPositionKey p"
  by (simp add: newPositionKey_def)

lemma layout_keys: "map newPositionKey (layoutAfter seats inp) = grid_keys (ri_rows inp) (ri_seatsPerRow inp)"
  by (simp add: layoutAfter_def Let_def grid_keys_def)

lemma positionKey_type [simp]: "positionKey (s\<lparr>s_type := ty\<rparr>) = positionKey s"
  by (simp add: positionKey_def)

section \<open>Moving seats between types\<close>

lemma retypeSeats_group:
  assumes "distinct (map s_id ss)" and "set moving \<subseteq> set ss" and "distinct ks"
  shows "retypeSeats (map (\<lambda>ty. (ty, map s_id (filter (\<lambda>s. f s = ty) moving))) ks) ss
    = map (\<lambda>s. if s \<in> set moving \<and> f s \<in> set ks then s\<lparr>s_type := f s\<rparr> else s) ss"
  using assms(3)
proof (induction ks rule: rev_induct)
  case Nil
  then show ?case by (simp add: retypeSeats_def map_idI)
next
  case (snoc ty ks)
  have in_group: "s_id s \<in> s_id ` {x \<in> set moving. f x = ty} \<longleftrightarrow> s \<in> set moving \<and> f s = ty" if "s \<in> set ss" for s
  proof
    assume "s_id s \<in> s_id ` {x \<in> set moving. f x = ty}"
    then obtain x where "x \<in> set moving" "f x = ty" "s_id x = s_id s" by auto
    with assms(1,2) that have "x = s" by (auto simp: distinct_map inj_on_def)
    with \<open>x \<in> set moving\<close> \<open>f x = ty\<close> show "s \<in> set moving \<and> f s = ty" by simp
  qed auto
  from snoc have "retypeSeats (map (\<lambda>ty. (ty, map s_id (filter (\<lambda>s. f s = ty) moving))) (ks @ [ty])) ss
      = upd (\<lambda>s. s_id s \<in> s_id ` {x \<in> set moving. f x = ty}) (\<lambda>s. s\<lparr>s_type := ty\<rparr>)
          (map (\<lambda>s. if s \<in> set moving \<and> f s \<in> set ks then s\<lparr>s_type := f s\<rparr> else s) ss)"
    by (simp add: retypeSeats_def)
  also have "\<dots> = map (\<lambda>s. if s \<in> set moving \<and> f s \<in> set (ks @ [ty]) then s\<lparr>s_type := f s\<rparr> else s) ss"
    using snoc.prems in_group by (auto simp: upd_def)
  finally show ?case .
qed

lemma retypeSeats_typed:
  assumes "distinct (map s_id ss)" and "set moving \<subseteq> set ss"
  shows "retypeSeats (groupByType moving f) ss = map (\<lambda>s. if s \<in> set moving then s\<lparr>s_type := f s\<rparr> else s) ss"
  unfolding groupByType_def retypeSeats_group [OF assms distinct_dedupe] by (rule map_cong) auto

section \<open>The tables of seat maps\<close>

definition seat_maps_ok :: "db \<Rightarrow> bool" where
  "seat_maps_ok d = (distinct (map s_id (d_seats d)) \<and> (\<forall>s\<in>set (d_seats d). s_id s < d_next d \<and> s_map s < d_next d)
     \<and> distinct (map sm_id (d_maps d)) \<and> (\<forall>m\<in>set (d_maps d). sm_id m < d_next d)
     \<and> (\<forall>m. distinct (map positionKey (seats_on d m))))"

text \<open>The abstract seat map: which positions exist, and the type each sells.\<close>

definition plan_of :: "db \<Rightarrow> ident \<Rightarrow> string \<Rightarrow> ident option option" where
  "plan_of d m = map_of (map (\<lambda>s. (positionKey s, s_type s)) (seats_on d m))"

text \<open>Laying a map out, on the abstract map.\<close>

definition laid_out :: "reserved_input \<Rightarrow> (string \<Rightarrow> ident option option) \<Rightarrow> string \<Rightarrow> ident option option" where
  "laid_out inp old = map_of (map (\<lambda>p. (newPositionKey p, case sentTypeAt inp p of
       Some ty \<Rightarrow> ty
     | None \<Rightarrow> (case old (newPositionKey p) of None \<Rightarrow> None | Some ty \<Rightarrow> ty)))
     (gridPositions (ri_rows inp) (ri_seatsPerRow inp)))"

lemma map_of_rev: "distinct (map fst xs) \<Longrightarrow> map_of (rev xs) = map_of xs"
  by (rule map_of_eqI) (auto simp: rev_map [symmetric] distinct_map map_of_eq_Some_iff)

lemma layout_laid_out:
  assumes "map_of (rev (map (\<lambda>s. (positionKey s, s_type s)) seats)) = old"
  shows "map_of (map (\<lambda>p. (newPositionKey p, np_type p)) (layoutAfter seats inp)) = laid_out inp old"
  by (simp add: layoutAfter_def Let_def laid_out_def assms comp_def)

section \<open>A save, step by step\<close>

definition save_reserved ::
  "ident \<Rightarrow> ident \<Rightarrow> reserved_input \<Rightarrow> bool \<Rightarrow> instant \<Rightarrow> db \<Rightarrow> seat_map_row tx" where
  "save_reserved org eventId inp published now d =
     applyReserved org \<lparr>rs_event = eventId, rs_name = ri_name inp, rs_rows = ri_rows inp,
         rs_seatsPerRow = ri_seatsPerRow inp\<rparr>
       (\<lambda>seats tiers occupied. planReserved seats tiers occupied inp published) now d"

definition current_seats :: "ident \<Rightarrow> ident \<Rightarrow> db \<Rightarrow> seat_row list" where
  "current_seats org eventId d =
     (case findMap org eventId d of None \<Rightarrow> [] | Some m \<Rightarrow> sort_key s_id (seats_on d (sm_id m)))"

lemma checked_tiers_D:
  assumes "checked_tiers P f d = Inr d'"
  shows "d' = d\<lparr>d_tiers := upd P f (d_tiers d)\<rparr>" "\<And>t. t \<in> set (d_tiers d) \<Longrightarrow> P t \<Longrightarrow> tier_violation (f t) = None"
proof -
  have none: "List.map_filter (\<lambda>t. tier_violation (f t)) (filter P (d_tiers d)) = []"
    and d': "d' = d\<lparr>d_tiers := upd P f (d_tiers d)\<rparr>"
    using assms by (auto simp: checked_tiers_def split: list.splits)
  show "d' = d\<lparr>d_tiers := upd P f (d_tiers d)\<rparr>" by (rule d')
  show "tier_violation (f t) = None" if "t \<in> set (d_tiers d)" "P t" for t
    using none that by (auto simp: List.map_filter_def filter_empty_conv)
qed

lemma set_totals_only_tiers: "set_totals org f now ts d = Inr d' \<Longrightarrow> d' = d\<lparr>d_tiers := d_tiers d'\<rparr>"
proof (induction ts arbitrary: d)
  case (Cons t ts)
  then obtain d1 where "setTotalIn org (tt_id t) (f (tt_id t))
      (resolveStatus (tt_status t) (tt_sold t) (f (tt_id t)) (tt_salesStartAt t) now) d = Inr d1"
    and r: "set_totals org f now ts d1 = Inr d'" by (auto simp: bindE_Inr_iff)
  from checked_tiers_D(1) [OF this(1) [unfolded setTotalIn_def]] have "d1 = d\<lparr>d_tiers := d_tiers d1\<rparr>" by simp
  with Cons.IH [OF r] show ?case by (metis (no_types, lifting) db.surjective db.update_convs(9) db.select_convs(9))
qed simp

lemma setSeatQuantities_only_tiers: "setSeatQuantitiesIn org ev f now d = Inr d' \<Longrightarrow> d' = d\<lparr>d_tiers := d_tiers d'\<rparr>"
  by (auto simp: setSeatQuantitiesIn_def Let_def bindE_Inr_iff dest: set_totals_only_tiers)

text \<open>The plan the policy makes of what the save reads.\<close>

lemma planReserved_D:
  assumes "planReserved seats tiers occ inp published = Inr plan"
  defines "layout \<equiv> layoutAfter seats inp"
  shows "rp_added plan = filter (\<lambda>p. newPositionKey p \<notin> set (map positionKey seats)) layout"
    "rp_removedSeatIds plan = map s_id (filter (\<lambda>s. positionKey s \<notin> set (map newPositionKey layout)) seats)"
    "rp_retyped plan = groupByType (filter (\<lambda>s. s_type s \<noteq> typeAt layout s)
        (filter (\<lambda>s. positionKey s \<in> set (map newPositionKey layout)) seats)) (typeAt layout)"
    "rp_seatsByTier plan = seatsByTier layout tiers"
    "\<And>s. s \<in> set seats \<Longrightarrow> s_id s \<in> occ \<Longrightarrow> positionKey s \<in> set (map newPositionKey layout) \<Longrightarrow>
       s_type s = typeAt layout s"
    "\<And>p. p \<in> set layout \<Longrightarrow> np_type p = Some ty \<Longrightarrow> ty \<in> fst ` set tiers"
proof -
  from assms(1) obtain u where parts: "rp_added plan = ld_added (diffLayout seats layout)"
    "rp_removedSeatIds plan = map s_id (ld_removed (diffLayout seats layout))"
    "retypedSeats (ld_kept (diffLayout seats layout)) layout occ = Inr (rp_retyped plan)"
    "rp_seatsByTier plan = seatsByTier layout tiers"
    "assertLiveTypes layout tiers (ri_rowTicketTypes inp \<noteq> None) = Inr u"
    by (auto simp: planReserved_def Let_def bindE_Inr_iff layout_def)
  show "rp_added plan = filter (\<lambda>p. newPositionKey p \<notin> set (map positionKey seats)) layout"
    "rp_removedSeatIds plan = map s_id (filter (\<lambda>s. positionKey s \<notin> set (map newPositionKey layout)) seats)"
    "rp_seatsByTier plan = seatsByTier layout tiers"
    using parts by (simp_all add: diffLayout_def Let_def)
  show "rp_retyped plan = groupByType (filter (\<lambda>s. s_type s \<noteq> typeAt layout s)
        (filter (\<lambda>s. positionKey s \<in> set (map newPositionKey layout)) seats)) (typeAt layout)"
    using parts(3) by (auto simp: retypedSeats_def diffLayout_def Let_def split: option.splits)
  show "s_type s = typeAt layout s" if "s \<in> set seats" "s_id s \<in> occ" "positionKey s \<in> set (map newPositionKey layout)" for s
    using parts(3) that by (auto simp: retypedSeats_def diffLayout_def Let_def find_None_iff split: option.splits)
  have "\<forall>p\<in>set layout. np_type p = None \<or> the (np_type p) \<in> fst ` set tiers"
    using parts(5) by (auto simp: assertLiveTypes_def find_None_iff split: option.splits if_splits)
  then show "ty \<in> fst ` set tiers" if "p \<in> set layout" "np_type p = Some ty" for p
    using that by force
qed

lemma saveMap_D:
  assumes "saveMap org params ex d = Inr (m, d')"
  shows "d' = d\<lparr>d_maps := d_maps d', d_next := d_next d'\<rparr>"
    "case ex of Some r \<Rightarrow> m = sm_id r \<and> d_next d' = d_next d | None \<Rightarrow> m = d_next d \<and> d_next d' = d_next d + 1"
    "case ex of Some r \<Rightarrow> map sm_id (d_maps d') = map sm_id (d_maps d)
     | None \<Rightarrow> map sm_id (d_maps d') = map sm_id (d_maps d) @ [d_next d]"
  using assms by (auto simp: saveMap_def Let_def map_upd_key split: option.splits if_splits)

lemma new_seats_simps [simp]:
  "map s_id (new_seats org m n ps) = [n..<n + length ps]"
  "map (\<lambda>s. (positionKey s, s_type s)) (new_seats org m n ps) = map (\<lambda>p. (newPositionKey p, np_type p)) ps"
  "map positionKey (new_seats org m n ps) = map newPositionKey ps"
proof (induction ps arbitrary: n)
  case (Cons p ps)
  { case 1 show ?case using Cons(1) [of "Suc n"] by (simp add: new_seats_def upt_conv_Cons del: upt_Suc) }
  { case 2 show ?case using Cons(2) [of "Suc n"] by (simp add: new_seats_def positionKey_def newPositionKey_def) }
  { case 3 show ?case using Cons(3) [of "Suc n"] by (simp add: new_seats_def positionKey_def newPositionKey_def) }
qed (simp_all add: new_seats_def)

lemma new_seats_map: "s \<in> set (new_seats org m n ps) \<Longrightarrow> s_map s = m \<and> s_org s = org \<and> s_status s = SAvailable"
  by (auto simp: new_seats_def)

lemma seats_on_append [simp]: "filter (\<lambda>s. s_map s = m') (new_seats org m n ps) = (if m' = m then new_seats org m n ps else [])"
  by (auto simp: filter_empty_conv filter_id_conv dest: new_seats_map)

definition kept_typed :: "seat_position list \<Rightarrow> seat_row list \<Rightarrow> seat_row \<Rightarrow> seat_row" where
  "kept_typed layout cur s = (if s \<in> set cur \<and> positionKey s \<in> set (map newPositionKey layout) then s\<lparr>s_type := typeAt layout s\<rparr> else s)"

lemma writeSeats_D:
  assumes "writeSeats org m plan d = Inr d'" and ids: "distinct (map s_id (d_seats d))"
    and cur: "set cur \<subseteq> set (d_seats d)" and plan: "planReserved cur tiers occ inp published = Inr plan"
  defines "layout \<equiv> layoutAfter cur inp"
  defines "dropped \<equiv> (\<lambda>s. s \<in> set cur \<and> positionKey s \<notin> set (map newPositionKey layout))"
  shows "d_seats d' = map (kept_typed layout cur) (filter (\<lambda>s. \<not> dropped s) (d_seats d))
      @ new_seats org m (d_next d) (rp_added plan)" (is ?seats)
    and "d_next d' = d_next d + length (rp_added plan)" (is ?next)
    and "\<And>a. a \<in> set (d_assignments d) \<Longrightarrow> sa_seat a \<notin> s_id ` {s \<in> set (d_seats d). dropped s}"
    and "d' = d\<lparr>d_seats := d_seats d', d_next := d_next d', d_holds := d_holds d'\<rparr>"
    and "\<exists>Q. d_holds d' = filter Q (d_holds d)"
proof -
  note P = planReserved_D [OF plan, folded layout_def]
  have gone: "s_id s \<in> set (rp_removedSeatIds plan) \<longleftrightarrow> dropped s" if "s \<in> set (d_seats d)" for s
  proof -
    have "s_id s \<in> set (rp_removedSeatIds plan) \<longleftrightarrow> (\<exists>x\<in>set cur. s_id x = s_id s \<and> positionKey x \<notin> set (map newPositionKey layout))"
      unfolding P(2) by (auto simp: image_iff eq_commute)
    also have "\<dots> \<longleftrightarrow> dropped s"
      using ids cur that unfolding dropped_def distinct_map by (metis (no_types, lifting) inj_on_def subsetD)
    finally show ?thesis .
  qed
  let ?d1 = "d\<lparr>d_seats := filter (\<lambda>s. \<not> dropped s) (d_seats d)\<rparr>"
  obtain d1 where d1: "d_seats d1 = filter (\<lambda>s. \<not> dropped s) (d_seats d)" "d_next d1 = d_next d"
      "d1 = d\<lparr>d_seats := d_seats d1, d_holds := d_holds d1\<rparr>" "\<exists>Q. d_holds d1 = filter Q (d_holds d)"
      "\<forall>a\<in>set (d_assignments d). sa_seat a \<notin> s_id ` {s \<in> set (d_seats d). dropped s}"
    and ins: "insertSeats org m (rp_added plan) (d1\<lparr>d_seats := retypeSeats (rp_retyped plan) (d_seats d1)\<rparr>) = Inr d'"
  proof -
    from assms(1) obtain d1 where rem: "(if rp_removedSeatIds plan = [] then Inr d
        else remove_seats (\<lambda>s. s_id s \<in> set (rp_removedSeatIds plan)) d) = Inr d1"
      and ins: "insertSeats org m (rp_added plan) (d1\<lparr>d_seats := retypeSeats (rp_retyped plan) (d_seats d1)\<rparr>) = Inr d'"
      by (auto simp: writeSeats_def bindE_Inr_iff)
    show ?thesis
    proof (rule that [OF _ _ _ _ _ ins]; cases "rp_removedSeatIds plan = []")
      assume empty: "rp_removedSeatIds plan = []"
      with rem have "d1 = d" by simp
      moreover from empty gone have no: "\<not> dropped s" if "s \<in> set (d_seats d)" for s using that by simp
      moreover from no have "filter (\<lambda>s. \<not> dropped s) (d_seats d) = d_seats d" by (simp add: filter_id_conv)
      ultimately show "d_seats d1 = filter (\<lambda>s. \<not> dropped s) (d_seats d)" "d_next d1 = d_next d"
        "d1 = d\<lparr>d_seats := d_seats d1, d_holds := d_holds d1\<rparr>" "\<exists>Q. d_holds d1 = filter Q (d_holds d)"
        "\<forall>a\<in>set (d_assignments d). sa_seat a \<notin> s_id ` {s \<in> set (d_seats d). dropped s}"
        by (auto intro: exI [of _ "\<lambda>_. True"])
    next
      assume "rp_removedSeatIds plan \<noteq> []"
      with rem have r: "remove_seats (\<lambda>s. s_id s \<in> set (rp_removedSeatIds plan)) d = Inr d1" by simp
      then show "d_seats d1 = filter (\<lambda>s. \<not> dropped s) (d_seats d)" "d_next d1 = d_next d"
        "d1 = d\<lparr>d_seats := d_seats d1, d_holds := d_holds d1\<rparr>" "\<exists>Q. d_holds d1 = filter Q (d_holds d)"
        by (auto simp: remove_seats_def Let_def gone cong: filter_cong split: if_splits)
      show "\<forall>a\<in>set (d_assignments d). sa_seat a \<notin> s_id ` {s \<in> set (d_seats d). dropped s}"
        using r gone by (force simp: remove_seats_def Let_def list_ex_iff split: if_splits)
    qed
  qed
  have "retypeSeats (rp_retyped plan) (d_seats d1) = map (kept_typed layout cur) (d_seats d1)"
  proof -
    let ?moving = "filter (\<lambda>s. s_type s \<noteq> typeAt layout s) (filter (\<lambda>s. positionKey s \<in> set (map newPositionKey layout)) cur)"
    have "set ?moving \<subseteq> set (d_seats d1)" using cur unfolding d1(1) by (auto simp: dropped_def)
    moreover have "distinct (map s_id (d_seats d1))" unfolding d1(1) using ids by (simp add: distinct_map_filter)
    ultimately show ?thesis unfolding P(3)
      by (subst retypeSeats_typed) (auto simp: kept_typed_def)
  qed
  with ins d1 show ?seats ?next "d' = d\<lparr>d_seats := d_seats d', d_next := d_next d', d_holds := d_holds d'\<rparr>"
    "\<exists>Q. d_holds d' = filter Q (d_holds d)"
    by (auto simp: insertSeats_def Let_def new_seats_def split: if_splits)
  show "sa_seat a \<notin> s_id ` {s \<in> set (d_seats d). dropped s}" if "a \<in> set (d_assignments d)" for a
    using d1(5) that by blast
qed

section \<open>The map after a save\<close>

lemma found_row: "(case x of None \<Rightarrow> Inl e | Some m \<Rightarrow> Inr (m, d)) = Inr (y, d') \<longleftrightarrow> x = Some y \<and> d' = d"
  by (cases x) auto

lemma save_reserved_D:
  assumes "save_reserved org ev inp published now d = Inr (m, d')"
  obtains plan mapId d1 d2 where
    "planReserved (current_seats org ev d) (map (\<lambda>t. (tt_id t, tt_name t)) (lockLiveByEventIn org ev d))
       (occupiedSeatIdsIn org (map s_id (current_seats org ev d)) now d) inp published = Inr plan"
    "saveMap org \<lparr>rs_event = ev, rs_name = ri_name inp, rs_rows = ri_rows inp, rs_seatsPerRow = ri_seatsPerRow inp\<rparr>
       (findMap org ev d) d = Inr (mapId, d1)"
    "writeSeats org mapId plan d1 = Inr d2"
    "(case rp_seatsByTier plan of None \<Rightarrow> Inr d2 | Some seats \<Rightarrow> setSeatQuantitiesIn org ev seats now d2) = Inr d'"
    "find (\<lambda>x. sm_id x = mapId) (d_maps d') = Some m"
  using assms
  by (simp add: save_reserved_def applyReserved_def Let_def bindE_Inr_iff found_row current_seats_def [symmetric] cong: option.case_cong) blast

lemma find_upd_row:
  "(\<And>x. P (f x) = P x) \<Longrightarrow> find P (upd Q f xs) = map_option (\<lambda>x. if Q x then f x else x) (find P xs)"
  by (induction xs) auto

lemma find_distinct_key: "distinct (map k xs) \<Longrightarrow> x \<in> set xs \<Longrightarrow> find (\<lambda>y. k y = k x) xs = Some x"
  by (induction xs) (auto simp: image_iff)

lemma saveMap_found:
  assumes "saveMap org params (findMap org (rs_event params) d) d = Inr (mapId, d1)"
    and "distinct (map sm_id (d_maps d))" and "\<And>x. x \<in> set (d_maps d) \<Longrightarrow> sm_id x < d_next d"
  shows "findMap org (rs_event params) d1 = find (\<lambda>x. sm_id x = mapId) (d_maps d1)"
proof (cases "findMap org (rs_event params) d")
  case None
  have old: "find (\<lambda>x. sm_id x = d_next d) (d_maps d) = None" using assms(3) by (fastforce simp: find_None_iff)
  have app: "find P (xs @ [y]) = (case find P xs of None \<Rightarrow> if P y then Some y else None | Some x \<Rightarrow> Some x)"
    for P and xs and y :: seat_map_row by (induction xs) auto
  show ?thesis using assms(1) None old
    by (auto simp: saveMap_def findMap_def Let_def app mapWhere_def split: if_splits)
next
  case (Some r)
  then have r: "r \<in> set (d_maps d)" using find_SomeD by (fastforce simp: findMap_def)
  from assms(1) Some have m: "mapId = sm_id r" and d1: "d_maps d1 = upd (\<lambda>x. sm_id x = sm_id r) (\<lambda>x. x\<lparr>sm_name := rs_name params,
      sm_layout := Some (int (rs_rows params), int (rs_seatsPerRow params)),
      sm_totalSeats := int (rs_rows params * rs_seatsPerRow params)\<rparr>) (d_maps d)"
    by (auto simp: saveMap_def Let_def)
  show ?thesis using Some find_distinct_key [OF assms(2) r]
    by (simp add: findMap_def d1 m find_upd_row mapWhere_def)
qed

text \<open>The seats of a save before and after, seen from the map it writes.\<close>

lemma save_shape:
  assumes ok: "seat_maps_ok d" and save: "save_reserved org ev inp published now d = Inr (m, d')"
  defines "cur \<equiv> current_seats org ev d"
  defines "layout \<equiv> layoutAfter cur inp"
  obtains mapId n added where "sm_id m = mapId" "m \<in> set (d_maps d')" "d_next d \<le> n" "d_next d' = n + length added"
    "added = filter (\<lambda>p. newPositionKey p \<notin> set (map positionKey cur)) layout"
    "set cur = set (seats_on d mapId)" "mapId < n"
    "d_seats d' = map (kept_typed layout cur)
       (filter (\<lambda>s. \<not> (s \<in> set cur \<and> positionKey s \<notin> set (map newPositionKey layout))) (d_seats d)) @ new_seats org mapId n added"
    "\<And>a. a \<in> set (d_assignments d) \<Longrightarrow>
       sa_seat a \<notin> s_id ` {s \<in> set (d_seats d). s \<in> set cur \<and> positionKey s \<notin> set (map newPositionKey layout)}"
    "d_assignments d' = d_assignments d" "\<exists>Q. d_holds d' = filter Q (d_holds d)"
    "distinct (map sm_id (d_maps d'))" "\<forall>x\<in>set (d_maps d'). sm_id x < n"
    "case findMap org ev d of None \<Rightarrow> seats_on d mapId = [] | Some r \<Rightarrow> mapId = sm_id r"
    "\<And>s. s \<in> set cur \<Longrightarrow> s_id s \<in> occupiedSeatIdsIn org (map s_id cur) now d \<Longrightarrow>
       positionKey s \<in> set (map newPositionKey layout) \<Longrightarrow> s_type s = typeAt layout s"
    "findMap org ev d' = Some m"
proof -
  define params where "params = \<lparr>rs_event = ev, rs_name = ri_name inp, rs_rows = ri_rows inp, rs_seatsPerRow = ri_seatsPerRow inp\<rparr>"
  define tiers where "tiers = map (\<lambda>t. (tt_id t, tt_name t)) (lockLiveByEventIn org ev d)"
  define occ where "occ = occupiedSeatIdsIn org (map s_id cur) now d"
  from save_reserved_D [OF save] obtain plan mapId d1 d2 where plan: "planReserved cur tiers occ inp published = Inr plan"
    and sv: "saveMap org params (findMap org ev d) d = Inr (mapId, d1)"
    and wr: "writeSeats org mapId plan d1 = Inr d2"
    and q: "(case rp_seatsByTier plan of None \<Rightarrow> Inr d2 | Some seats \<Rightarrow> setSeatQuantitiesIn org ev seats now d2) = Inr d'"
    and fin: "find (\<lambda>x. sm_id x = mapId) (d_maps d') = Some m"
    unfolding params_def tiers_def occ_def cur_def by blast
  have "d' = d2\<lparr>d_tiers := d_tiers d'\<rparr>"
    using q setSeatQuantities_only_tiers [of org ev _ now d2 d'] by (auto split: option.splits)
  then obtain T where "d' = d2\<lparr>d_tiers := T\<rparr>" ..
  then have q': "d_seats d' = d_seats d2" "d_next d' = d_next d2" "d_maps d' = d_maps d2" "d_assignments d' = d_assignments d2"
    "d_holds d' = d_holds d2"
    by simp_all
  note S = saveMap_D [OF sv]
  have d1: "d_seats d1 = d_seats d" "d_assignments d1 = d_assignments d" "d_holds d1 = d_holds d"
    by (subst S(1), simp)+
  have cur_on: "set cur = set (seats_on d mapId)" and case_map: "case findMap org ev d of None \<Rightarrow> seats_on d mapId = [] | Some r \<Rightarrow> mapId = sm_id r"
  proof -
    show "case findMap org ev d of None \<Rightarrow> seats_on d mapId = [] | Some r \<Rightarrow> mapId = sm_id r"
      using S(2) ok by (auto simp: seat_maps_ok_def seats_on_def filter_empty_conv split: option.splits)
    then show "set cur = set (seats_on d mapId)" by (auto simp: cur_def current_seats_def split: option.splits)
  qed
  have sub: "set cur \<subseteq> set (d_seats d1)" unfolding cur_on d1 by (auto simp: seats_on_def)
  have ids: "distinct (map s_id (d_seats d1))" using ok by (simp add: seat_maps_ok_def d1)
  note W = writeSeats_D [OF wr ids sub plan, folded layout_def, unfolded d1]
  have maps2: "d_maps d2 = d_maps d1" by (subst W(4)) simp
  have lt: "mapId < d_next d1" "distinct (map sm_id (d_maps d1))" "\<forall>x\<in>set (d_maps d1). sm_id x < d_next d1"
  proof -
    have mem: "sm_id r < d_next d" if "findMap org ev d = Some r" for r
      using ok find_SomeD [OF that [unfolded findMap_def]] by (auto simp: seat_maps_ok_def)
    with S(2) show "mapId < d_next d1" by (auto split: option.splits)
    show "distinct (map sm_id (d_maps d1))" using S(3) ok by (auto simp: seat_maps_ok_def split: option.splits)
    have "set (map sm_id (d_maps d1)) \<subseteq> {i. i < d_next d1}"
    proof (cases "findMap org ev d")
      case None
      with S(3) have e: "map sm_id (d_maps d1) = map sm_id (d_maps d) @ [d_next d]" by simp
      show ?thesis unfolding e using ok None S(2) by (auto simp: seat_maps_ok_def less_Suc_eq)
    next
      case (Some r)
      with S(3) have e: "map sm_id (d_maps d1) = map sm_id (d_maps d)" by simp
      show ?thesis unfolding e using ok Some S(2) by (auto simp: seat_maps_ok_def)
    qed
    then show "\<forall>x\<in>set (d_maps d1). sm_id x < d_next d1" by auto
  qed
  show ?thesis
  proof (rule that [of mapId "d_next d1" "rp_added plan"])
    show "sm_id m = mapId" "m \<in> set (d_maps d')" using find_SomeD [OF fin] by auto
    show "d_next d \<le> d_next d1" using S(2) by (auto split: option.splits)
    show "rp_added plan = filter (\<lambda>p. newPositionKey p \<notin> set (map positionKey cur)) layout"
      using planReserved_D(1) [OF plan] by (simp add: layout_def)
    show "s_type s = typeAt layout s" if "s \<in> set cur" "s_id s \<in> occupiedSeatIdsIn org (map s_id cur) now d"
      "positionKey s \<in> set (map newPositionKey layout)" for s
      using planReserved_D(5) [OF plan, of s] that by (simp add: layout_def occ_def)
    have "findMap org (rs_event params) d1 = find (\<lambda>x. sm_id x = mapId) (d_maps d1)"
      by (rule saveMap_found) (use sv ok in \<open>auto simp: params_def seat_maps_ok_def\<close>)
    then have "findMap org ev d1 = find (\<lambda>x. sm_id x = mapId) (d_maps d1)" by (simp add: params_def)
    then show "findMap org ev d' = Some m" using fin by (simp add: findMap_def q'(3) maps2)
    show "d_assignments d' = d_assignments d" unfolding q'(4) by (subst W(4)) (simp add: d1)
    show "\<exists>Q. d_holds d' = filter Q (d_holds d)" unfolding q'(5) by (rule W(5))
  qed (use W(1,2,3) q' lt cur_on case_map maps2 in simp_all)
qed

text \<open>The keys and types of the seats on the written map, and on any other.\<close>

definition event_plan :: "ident \<Rightarrow> ident \<Rightarrow> db \<Rightarrow> string \<Rightarrow> ident option option" where
  "event_plan org ev d = (case findMap org ev d of None \<Rightarrow> (\<lambda>_. None) | Some r \<Rightarrow> plan_of d (sm_id r))"

lemma kept_typed_simps [simp]:
  "positionKey (kept_typed l c s) = positionKey s" "s_map (kept_typed l c s) = s_map s"
  "s_id (kept_typed l c s) = s_id s" "s_org (kept_typed l c s) = s_org s"
  by (simp_all add: kept_typed_def positionKey_def)

lemma typeAt_layout:
  assumes "distinct (map newPositionKey layout)" and "p \<in> set layout" and "newPositionKey p = positionKey s"
  shows "typeAt layout s = np_type p"
proof -
  have "map_of (map (\<lambda>p. (newPositionKey p, np_type p)) layout) (positionKey s) = Some (np_type p)"
    by (rule map_of_is_SomeI) (use assms in \<open>force simp: comp_def\<close>)+
  moreover have "distinct (map fst (map (\<lambda>p. (newPositionKey p, np_type p)) layout))" using assms(1) by (simp add: comp_def)
  ultimately show ?thesis unfolding typeAt_def by (subst map_of_rev) simp_all
qed

lemma plan_of_layout:
  assumes dist: "distinct (map newPositionKey layout)"
    and dist': "distinct (map positionKey seats)"
    and cur: "set seats = set cur"
  defines "kept \<equiv> map (kept_typed layout cur) (filter (\<lambda>s. positionKey s \<in> set (map newPositionKey layout)) seats)"
    and "added \<equiv> filter (\<lambda>p. newPositionKey p \<notin> set (map positionKey cur)) layout"
  shows "map_of (map (\<lambda>s. (positionKey s, s_type s)) kept @ map (\<lambda>p. (newPositionKey p, np_type p)) added)
      = map_of (map (\<lambda>p. (newPositionKey p, np_type p)) layout)" (is "map_of ?new = map_of ?all")
    and "distinct (map positionKey kept @ map newPositionKey added)"
proof -
  have k: "map positionKey kept = map positionKey (filter (\<lambda>s. positionKey s \<in> set (map newPositionKey layout)) seats)"
    by (simp add: kept_def)
  show new_keys: "distinct (map positionKey kept @ map newPositionKey added)"
    unfolding k added_def using cur by (auto simp: distinct_map_filter dist dist') (metis imageI)
  then have keys: "distinct (map fst ?new)" by (simp add: comp_def)
  have "set ?new = set ?all"
  proof (intro equalityI subsetI)
    fix x assume "x \<in> set ?new"
    then consider s where "s \<in> set seats" "positionKey s \<in> set (map newPositionKey layout)" "x = (positionKey s, typeAt layout s)"
      | p where "p \<in> set layout" "x = (newPositionKey p, np_type p)"
      using cur by (auto simp: kept_def added_def kept_typed_def)
    then show "x \<in> set ?all"
    proof cases
      case 1
      then obtain p where "p \<in> set layout" "newPositionKey p = positionKey s" by auto
      with 1(3) typeAt_layout [OF dist this] show ?thesis by (auto intro: image_eqI [of _ _ p])
    qed auto
  next
    fix x assume "x \<in> set ?all"
    then obtain p where p: "p \<in> set layout" "x = (newPositionKey p, np_type p)" by auto
    show "x \<in> set ?new"
    proof (cases "newPositionKey p \<in> set (map positionKey cur)")
      case True
      then obtain s where s: "s \<in> set seats" "positionKey s = newPositionKey p" using cur by auto
      then have "kept_typed layout cur s \<in> set kept" using p(1) by (auto simp: kept_def)
      moreover have "s_type (kept_typed layout cur s) = np_type p"
        using s p(1) cur typeAt_layout [OF dist p(1), of s] by (auto simp: kept_typed_def)
      ultimately show ?thesis using p(2) s(2) by force
    qed (use p in \<open>auto simp: added_def\<close>)
  qed
  moreover have "distinct (map fst ?all)" using dist by (simp add: comp_def)
  ultimately show "map_of ?new = map_of ?all" using keys map_of_inject_set by blast
qed

lemma seats_on_after:
  assumes ids: "distinct (map s_id (d_seats d))" and cur: "set cur = set (seats_on d mapId)"
  shows "filter (\<lambda>s. s_map s = mapId) (map (kept_typed layout cur)
      (filter (\<lambda>s. \<not> (s \<in> set cur \<and> positionKey s \<notin> K)) (d_seats d)))
    = map (kept_typed layout cur) (filter (\<lambda>s. positionKey s \<in> K) (seats_on d mapId))"
    and "m' \<noteq> mapId \<Longrightarrow> filter (\<lambda>s. s_map s = m') (map (kept_typed layout cur)
      (filter (\<lambda>s. \<not> (s \<in> set cur \<and> positionKey s \<notin> K)) (d_seats d))) = seats_on d m'"
proof -
  have on: "s \<in> set cur \<longleftrightarrow> s_map s = mapId" if "s \<in> set (d_seats d)" for s
    using that by (simp add: cur seats_on_def)
  show "filter (\<lambda>s. s_map s = mapId) (map (kept_typed layout cur)
      (filter (\<lambda>s. \<not> (s \<in> set cur \<and> positionKey s \<notin> K)) (d_seats d)))
    = map (kept_typed layout cur) (filter (\<lambda>s. positionKey s \<in> K) (seats_on d mapId))"
    by (auto simp: filter_map comp_def seats_on_def on intro!: filter_cong arg_cong [where f = "map (kept_typed layout cur)"])
  show "filter (\<lambda>s. s_map s = m') (map (kept_typed layout cur)
      (filter (\<lambda>s. \<not> (s \<in> set cur \<and> positionKey s \<notin> K)) (d_seats d))) = seats_on d m'" if "m' \<noteq> mapId"
  proof -
    have "filter (\<lambda>s. s_map s = m') (filter (\<lambda>s. \<not> (s \<in> set cur \<and> positionKey s \<notin> K)) (d_seats d)) = seats_on d m'"
      using that on by (auto simp: seats_on_def intro!: filter_cong)
    moreover have "map (kept_typed layout cur) (seats_on d m') = seats_on d m'"
      using that on by (auto simp: seats_on_def kept_typed_def intro!: map_idI)
    ultimately show ?thesis by (simp add: filter_map comp_def)
  qed
qed

text \<open>A save makes the abstract map what laying it out makes of it, and keeps the tables sound.\<close>

lemma current_plan:
  assumes "seat_maps_ok d"
  shows "map_of (rev (map (\<lambda>s. (positionKey s, s_type s)) (current_seats org ev d))) = event_plan org ev d"
proof -
  let ?pairs = "map (\<lambda>s. (positionKey s, s_type s))"
  have dc: "distinct (map positionKey (current_seats org ev d))"
    using assms by (auto simp: current_seats_def seat_maps_ok_def distinct_map split: option.splits)
  have "map_of (?pairs (current_seats org ev d)) = event_plan org ev d"
  proof (cases "findMap org ev d")
    case None
    then show ?thesis by (simp add: current_seats_def event_plan_def)
  next
    case (Some r)
    have "map_of (?pairs (current_seats org ev d)) = map_of (?pairs (seats_on d (sm_id r)))"
      using dc assms Some by (subst map_of_inject_set) (simp_all add: comp_def current_seats_def seat_maps_ok_def)
    with Some show ?thesis by (simp add: event_plan_def plan_of_def)
  qed
  with dc show ?thesis by (subst map_of_rev) (simp_all add: comp_def)
qed

lemma save_plan_all:
  assumes ok: "seat_maps_ok d" and save: "save_reserved org ev inp published now d = Inr (m, d')"
  shows "event_plan org ev d' = laid_out inp (event_plan org ev d) \<and> seat_maps_ok d' \<and>
    plan_of d' (sm_id m) = map_of (map (\<lambda>p. (newPositionKey p, np_type p)) (layoutAfter (current_seats org ev d) inp))"
proof (rule save_shape [OF ok save], goal_cases)
  define cur where "cur = current_seats org ev d"
  define layout where "layout = layoutAfter cur inp"
  define K where "K = set (map newPositionKey layout)"
  case (1 mapId n added)
  note F = 1 [folded cur_def, folded layout_def, folded K_def]
  have dist: "distinct (map newPositionKey layout)" unfolding layout_def layout_keys by (rule grid_keys_distinct)
  have ids: "distinct (map s_id (d_seats d))" using ok by (simp add: seat_maps_ok_def)
  have old: "distinct (map positionKey (seats_on d mapId))" using ok by (simp add: seat_maps_ok_def)
  note on = seats_on_after [OF ids F(6), where layout = layout and K = K]
  have here: "seats_on d' mapId = map (kept_typed layout cur) (filter (\<lambda>s. positionKey s \<in> K) (seats_on d mapId))
      @ new_seats org mapId n added"
    by (simp only: seats_on_def F(8) filter_append on(1) [unfolded seats_on_def] seats_on_append if_True simp_thms)
  note L = plan_of_layout [OF dist old F(6) [symmetric], folded K_def, folded F(5)]
  have plan: "plan_of d' mapId = map_of (map (\<lambda>p. (newPositionKey p, np_type p)) layout)"
    unfolding plan_of_def here map_append new_seats_simps(2) by (rule L(1))
  then have "plan_of d' (sm_id m) = map_of (map (\<lambda>p. (newPositionKey p, np_type p)) (layoutAfter (current_seats org ev d) inp))"
    by (simp add: F(1) layout_def cur_def)
  moreover have "map_of (map (\<lambda>p. (newPositionKey p, np_type p)) layout) = laid_out inp (event_plan org ev d)"
    unfolding layout_def
    by (rule layout_laid_out) (simp only: cur_def current_plan [OF ok])
  then have "event_plan org ev d' = laid_out inp (event_plan org ev d)" using F(1,16) plan by (simp add: event_plan_def)
  moreover have "seat_maps_ok d'"
  proof -
  have below: "\<forall>s\<in>set (d_seats d). s_id s < n \<and> s_map s < n"
    using ok F(3) by (auto simp: seat_maps_ok_def intro: less_le_trans)
  have "distinct (map s_id (d_seats d'))"
    using ids below unfolding F(8) by (auto simp: distinct_map_filter comp_def)
  moreover have "\<forall>s\<in>set (d_seats d'). s_id s < d_next d' \<and> s_map s < d_next d'"
  proof
    fix s assume "s \<in> set (d_seats d')"
    then consider x where "x \<in> set (d_seats d)" "s = kept_typed layout cur x" | "s \<in> set (new_seats org mapId n added)"
      unfolding F(8) by auto
    then show "s_id s < d_next d' \<and> s_map s < d_next d'"
    proof cases
      case 1
      with below F(4) show ?thesis by fastforce
    next
      case 2
      then have "s_id s \<in> set (map s_id (new_seats org mapId n added))" unfolding set_map by (rule imageI)
      then have "s_id s \<in> set [n..<n + length added]" by (simp only: new_seats_simps(1))
      with new_seats_map [OF 2] F(4,7) show ?thesis by simp
    qed
  qed
  moreover have "distinct (map positionKey (seats_on d' m'))" for m'
  proof (cases "m' = mapId")
    case True
    then show ?thesis using L(2) by (simp add: here)
  next
    case False
    then have "seats_on d' m' = seats_on d m'"
      by (simp only: seats_on_def F(8) filter_append on(2) [OF False, unfolded seats_on_def] False seats_on_append if_False append_Nil2)
    then show ?thesis using ok by (simp add: seat_maps_ok_def)
  qed
  ultimately show "seat_maps_ok d'" using F(4,12,13) by (force simp: seat_maps_ok_def)
  qed
  ultimately show ?case by blast
qed

lemma save_plan:
  assumes "seat_maps_ok d" and "save_reserved org ev inp published now d = Inr (m, d')"
  shows "event_plan org ev d' = laid_out inp (event_plan org ev d)" "seat_maps_ok d'"
    "plan_of d' (sm_id m) = map_of (map (\<lambda>p. (newPositionKey p, np_type p)) (layoutAfter (current_seats org ev d) inp))"
  using save_plan_all [OF assms] by blast+

section \<open>Quantities\<close>

text \<open>A row whose total, status and version may differ.\<close>

definition requantified :: "ident \<Rightarrow> (ident \<Rightarrow> int) \<Rightarrow> ident set \<Rightarrow> tier_row \<Rightarrow> tier_row \<Rightarrow> bool" where
  "requantified org f S t t' = (tt_id t' = tt_id t \<and> tt_org t' = tt_org t \<and> tt_event t' = tt_event t
     \<and> tt_sold t' = tt_sold t \<and> tt_deletedAt t' = tt_deletedAt t \<and> tt_price t' = tt_price t
     \<and> tt_total t' = (if tt_org t = org \<and> tt_id t \<in> S then f (tt_id t) else tt_total t))"

lemma set_totals_D:
  "set_totals org f now ts d = Inr d' \<Longrightarrow> list_all2 (requantified org f (tt_id ` set ts)) (d_tiers d) (d_tiers d')"
proof (induction ts arbitrary: d)
  case Nil
  then show ?case by (auto simp: list.rel_refl requantified_def)
next
  case (Cons t ts)
  then obtain d1 where one: "setTotalIn org (tt_id t) (f (tt_id t))
      (resolveStatus (tt_status t) (tt_sold t) (f (tt_id t)) (tt_salesStartAt t) now) d = Inr d1"
    and r: "set_totals org f now ts d1 = Inr d'" by (auto simp: bindE_Inr_iff)
  have "list_all2 (requantified org f {tt_id t}) (d_tiers d) (d_tiers d1)"
    using checked_tiers_D(1) [OF one [unfolded setTotalIn_def]]
    by (auto simp: requantified_def upd_def list.rel_map list.rel_refl)
  then show ?case
    by (rule list_all2_trans [rotated, OF _ Cons.IH [OF r]]) (auto simp: requantified_def split: if_splits)
qed

lemma save_counts:
  assumes "seat_maps_ok d" and "save_reserved org ev inp published now d = Inr (m, d')"
  shows "length (filter (\<lambda>p. np_type p = Some ty) (layoutAfter (current_seats org ev d) inp))
    = length (filter (\<lambda>s. s_type s = Some ty) (seats_on d' (sm_id m)))"
proof -
  let ?a = "map (\<lambda>p. (newPositionKey p, np_type p)) (layoutAfter (current_seats org ev d) inp)"
  let ?b = "map (\<lambda>s. (positionKey s, s_type s)) (seats_on d' (sm_id m))"
  note P = save_plan [OF assms]
  have da: "distinct (map fst ?a)"
    using grid_keys_distinct [of "ri_rows inp" "ri_seatsPerRow inp"]
    by (simp add: comp_def layout_keys [symmetric, where seats = "current_seats org ev d"])
  have db: "distinct (map fst ?b)" using P(2) by (simp add: comp_def seat_maps_ok_def)
  have "set ?a = set ?b" using P(3) map_of_inject_set [OF da db] by (simp add: plan_of_def)
  then have "mset ?a = mset ?b"
    using set_eq_iff_mset_eq_distinct [OF distinct_map [THEN iffD1, OF da, THEN conjunct1] distinct_map [THEN iffD1, OF db, THEN conjunct1]] by blast
  then have "size (filter_mset (\<lambda>x. snd x = Some ty) (mset ?a)) = size (filter_mset (\<lambda>x. snd x = Some ty) (mset ?b))"
    by simp
  then show ?thesis by (simp add: mset_filter [symmetric] filter_map comp_def del: mset_map)
qed

definition seats_selling :: "db \<Rightarrow> ident \<Rightarrow> ident \<Rightarrow> int" where
  "seats_selling d m ty = int (length (filter (\<lambda>s. s_type s = Some ty) (seats_on d m)))"

lemma saveMap_tiers: "saveMap org params ex d = Inr (m, d') \<Longrightarrow> d_tiers d' = d_tiers d"
  by (subst saveMap_D(1), assumption) simp

lemma writeSeats_tiers: "writeSeats org m plan d = Inr d' \<Longrightarrow> d_tiers d' = d_tiers d"
  by (auto simp: writeSeats_def bindE_Inr_iff insertSeats_def remove_seats_def Let_def split: if_splits)

lemma same_untyped:
  assumes "\<And>ty. length (filter (\<lambda>x. f x = Some ty) xs) = length (filter (\<lambda>y. g y = Some ty) ys)"
  shows "(\<forall>x\<in>set xs. f x = None) \<longleftrightarrow> (\<forall>y\<in>set ys. g y = None)"
proof -
  have untyped: "(\<forall>z\<in>set zs. h z = None) \<longleftrightarrow> (\<forall>ty. length (filter (\<lambda>z. h z = Some ty) zs) = 0)" for h and zs :: "'z list"
    by (simp add: filter_empty_conv) (metis not_None_eq)
  show ?thesis by (simp only: untyped assms)
qed

lemma save_tiers:
  assumes ok: "seat_maps_ok d" and save: "save_reserved org ev inp published now d = Inr (m, d')"
  defines "selling \<equiv> seats_selling d' (sm_id m)"
  shows "(\<forall>s\<in>set (seats_on d' (sm_id m)). s_type s = None) \<Longrightarrow> d_tiers d' = d_tiers d"
    and "\<exists>s\<in>set (seats_on d' (sm_id m)). s_type s \<noteq> None \<Longrightarrow>
      list_all2 (\<lambda>t t'. requantified org selling {tt_id t |t. t \<in> set (d_tiers d) \<and> live_tier org ev t \<and> selling (tt_id t) \<noteq> tt_total t} t t'
        \<and> (live_tier org ev t \<longrightarrow> tt_sold t \<le> selling (tt_id t))) (d_tiers d) (d_tiers d')"
proof -
  let ?layout = "layoutAfter (current_seats org ev d) inp"
  let ?tiers = "map (\<lambda>t. (tt_id t, tt_name t)) (lockLiveByEventIn org ev d)"
  obtain plan mapId d1 d2 where plan: "planReserved (current_seats org ev d) ?tiers
      (occupiedSeatIdsIn org (map s_id (current_seats org ev d)) now d) inp published = Inr plan"
    and sv: "saveMap org \<lparr>rs_event = ev, rs_name = ri_name inp, rs_rows = ri_rows inp, rs_seatsPerRow = ri_seatsPerRow inp\<rparr>
       (findMap org ev d) d = Inr (mapId, d1)"
    and wr: "writeSeats org mapId plan d1 = Inr d2"
    and q: "(case rp_seatsByTier plan of None \<Rightarrow> Inr d2 | Some seats \<Rightarrow> setSeatQuantitiesIn org ev seats now d2) = Inr d'"
    and "find (\<lambda>x. sm_id x = mapId) (d_maps d') = Some m"
    by (rule save_reserved_D [OF save])
  have d2: "d_tiers d2 = d_tiers d"
    using writeSeats_tiers [OF wr] saveMap_tiers [OF sv] by simp
  have by_tier: "rp_seatsByTier plan = seatsByTier ?layout ?tiers" by (rule planReserved_D(4) [OF plan])
  have cnt: "int (length (filter (\<lambda>p. np_type p = Some ty) ?layout)) = selling ty" for ty
    by (simp only: selling_def seats_selling_def save_counts [OF ok save])
  have none: "list_all (\<lambda>p. np_type p = None) ?layout \<longleftrightarrow> (\<forall>s\<in>set (seats_on d' (sm_id m)). s_type s = None)"
    using save_counts [OF ok save] unfolding list_all_iff by (rule same_untyped)
  show "d_tiers d' = d_tiers d" if "\<forall>s\<in>set (seats_on d' (sm_id m)). s_type s = None"
    using q d2 that none by (simp add: by_tier seatsByTier_def)
  assume some: "\<exists>s\<in>set (seats_on d' (sm_id m)). s_type s \<noteq> None"
  have typed: "\<not> list_all (\<lambda>p. np_type p = None) ?layout" unfolding none using some by simp
  define f where "f = (\<lambda>ty. if ty \<in> fst ` set ?tiers then Some (length (filter (\<lambda>p. np_type p = Some ty) ?layout)) else None)"
  have f: "rp_seatsByTier plan = Some f"
    "\<And>t. t \<in> set (lockLiveByEventIn org ev d) \<Longrightarrow> seats_of f (tt_id t) = selling (tt_id t)"
    using typed by (simp add: by_tier seatsByTier_def f_def) (simp add: seats_of_def f_def cnt image_image)
  have lock: "lockLiveByEventIn org ev d2 = lockLiveByEventIn org ev d" by (simp add: lockLiveByEventIn_def d2)
  have live: "t \<in> set (lockLiveByEventIn org ev d) \<longleftrightarrow> t \<in> set (d_tiers d) \<and> live_tier org ev t" for t
    by (auto simp: lockLiveByEventIn_def)
  let ?todo = "filter (\<lambda>t. seats_of f (tt_id t) \<noteq> tt_total t) (lockLiveByEventIn org ev d)"
  from q f(1) have cover: "\<forall>t\<in>set (lockLiveByEventIn org ev d). tt_sold t \<le> seats_of f (tt_id t)"
    and tot: "set_totals org (seats_of f) now ?todo d2 = Inr d'"
    by (auto simp: setSeatQuantitiesIn_def Let_def bindE_Inr_iff forE_Inr_iff assertSeatsCoverSold_def check_Inr_iff lock)
  have ids: "tt_id ` set ?todo = {tt_id t |t. t \<in> set (d_tiers d) \<and> live_tier org ev t \<and> selling (tt_id t) \<noteq> tt_total t}"
    using f(2) live by force
  have "list_all2 (requantified org (seats_of f) (tt_id ` set ?todo)) (d_tiers d) (d_tiers d')"
    using set_totals_D [OF tot] by (simp add: d2)
  then show "list_all2 (\<lambda>t t'. requantified org selling {tt_id t |t. t \<in> set (d_tiers d) \<and> live_tier org ev t \<and> selling (tt_id t) \<noteq> tt_total t} t t'
        \<and> (live_tier org ev t \<longrightarrow> tt_sold t \<le> selling (tt_id t))) (d_tiers d) (d_tiers d')"
  proof (rule list.rel_mono_strong)
    fix t t' assume t: "t \<in> set (d_tiers d)" "requantified org (seats_of f) (tt_id ` set ?todo) t t'"
    have "tt_id t \<in> tt_id ` set ?todo \<Longrightarrow> seats_of f (tt_id t) = selling (tt_id t)" using f(2) by force
    moreover have "live_tier org ev t \<Longrightarrow> tt_sold t \<le> selling (tt_id t)" using cover f(2) live t(1) by force
    ultimately show "requantified org selling {tt_id t |t. t \<in> set (d_tiers d) \<and> live_tier org ev t \<and> selling (tt_id t) \<noteq> tt_total t} t t'
        \<and> (live_tier org ev t \<longrightarrow> tt_sold t \<le> selling (tt_id t))"
      using t(2) unfolding ids by (auto simp: requantified_def)
  qed
qed


section \<open>The properties\<close>

text \<open>C23. The save of a reserved seat map refines laying it out: seen as the function from
  positions to the ticket type each sells, the seats of the event's map become exactly the rows
  and seats asked for, each with the type sent for it or, when none was sent, the one it had;
  and the tables stay sound (one seat at a position, fresh keys).\<close>

theorem seat_map_save_refines:
  assumes "seat_maps_ok d" and "save_reserved org ev inp published now d = Inr (m, d')"
  shows "event_plan org ev d' = laid_out inp (event_plan org ev d)
    \<and> dom (event_plan org ev d') = set (grid_keys (ri_rows inp) (ri_seatsPerRow inp))
    \<and> length (seats_on d' (sm_id m)) = ri_rows inp * ri_seatsPerRow inp
    \<and> seat_maps_ok d'"
proof -
  note P = save_plan [OF assms]
  have dom: "dom (event_plan org ev d') = set (grid_keys (ri_rows inp) (ri_seatsPerRow inp))"
    unfolding P(1) laid_out_def by (simp add: dom_map_of_conv_image_fst image_image grid_keys_def)
  have "event_plan org ev d' = plan_of d' (sm_id m)"
    using P(1,3) layout_laid_out [OF current_plan [OF assms(1)]] by simp
  then have "set (map positionKey (seats_on d' (sm_id m))) = set (grid_keys (ri_rows inp) (ri_seatsPerRow inp))"
    using dom by (simp add: plan_of_def dom_map_of_conv_image_fst image_image)
  moreover have "distinct (map positionKey (seats_on d' (sm_id m)))" using P(2) by (simp add: seat_maps_ok_def)
  ultimately have "length (map positionKey (seats_on d' (sm_id m))) = length (grid_keys (ri_rows inp) (ri_seatsPerRow inp))"
    using grid_keys_distinct distinct_card by metis
  then show ?thesis using P(1,2) dom by (simp add: length_grid_keys)
qed

text \<open>C24. Once a seat of the map has a ticket type, every ticket type of the event on sale has
  exactly its seats as quantity, never below what it has sold, and nothing else of any
  ticket type's stock moves; a map whose seats have no type leaves the quantities alone.\<close>

theorem quantities_are_seats:
  assumes "seat_maps_ok d" and "save_reserved org ev inp published now d = Inr (m, d')" and "distinct (map tt_id (d_tiers d))"
  shows "if \<exists>s\<in>set (seats_on d' (sm_id m)). s_type s \<noteq> None
    then list_all2 (\<lambda>t t'. tt_id t' = tt_id t \<and> tt_sold t' = tt_sold t \<and>
        (if live_tier org ev t then tt_total t' = seats_selling d' (sm_id m) (tt_id t) \<and> tt_sold t' \<le> tt_total t'
         else tt_total t' = tt_total t)) (d_tiers d) (d_tiers d')
    else d_tiers d' = d_tiers d"
proof -
  let ?S = "{tt_id t |t. t \<in> set (d_tiers d) \<and> live_tier org ev t \<and> seats_selling d' (sm_id m) (tt_id t) \<noteq> tt_total t}"
  note T = save_tiers [OF assms(1,2)]
  have same: "x = t" if "x \<in> set (d_tiers d)" "t \<in> set (d_tiers d)" "tt_id x = tt_id t" for x t
    using that assms(3) by (auto simp: distinct_map inj_on_def)
  show ?thesis
  proof (cases "\<exists>s\<in>set (seats_on d' (sm_id m)). s_type s \<noteq> None")
    case True
    from T(2) [OF True] have "list_all2 (\<lambda>t t'. tt_id t' = tt_id t \<and> tt_sold t' = tt_sold t \<and>
        (if live_tier org ev t then tt_total t' = seats_selling d' (sm_id m) (tt_id t) \<and> tt_sold t' \<le> tt_total t'
         else tt_total t' = tt_total t)) (d_tiers d) (d_tiers d')"
    proof (rule list.rel_mono_strong)
      fix t t' assume t: "t \<in> set (d_tiers d)" and r: "requantified org (seats_selling d' (sm_id m)) ?S t t'
        \<and> (live_tier org ev t \<longrightarrow> tt_sold t \<le> seats_selling d' (sm_id m) (tt_id t))"
      have "tt_id t \<in> ?S \<longleftrightarrow> live_tier org ev t \<and> seats_selling d' (sm_id m) (tt_id t) \<noteq> tt_total t"
        using same t by blast
      with r show "tt_id t' = tt_id t \<and> tt_sold t' = tt_sold t \<and>
        (if live_tier org ev t then tt_total t' = seats_selling d' (sm_id m) (tt_id t) \<and> tt_sold t' \<le> tt_total t'
         else tt_total t' = tt_total t)"
        by (auto simp: requantified_def live_tier_def)
    qed
    with True show ?thesis by simp
  next
    case False
    with T(1) show ?thesis by auto
  qed
qed

text \<open>C25. A seat that somebody has booked is the same seat after any save of the map, on the same
  position and under the same ticket type; a save that would drop it or retype it is refused.\<close>

theorem booked_seat_stays:
  assumes ok: "seat_maps_ok d" and save: "save_reserved org ev inp published now d = Inr (m, d')"
    and a: "a \<in> set (d_assignments d)" "live_assignment a" "sa_org a = org"
    and s: "s \<in> set (d_seats d)" "s_id s = sa_seat a"
  shows "s \<in> set (d_seats d')"
proof (rule save_shape [OF ok save], goal_cases)
  case (1 mapId n added)
  let ?cur = "current_seats org ev d"
  let ?layout = "layoutAfter ?cur inp"
  have not_dropped: "\<not> (s \<in> set ?cur \<and> positionKey s \<notin> set (map newPositionKey ?layout))"
  proof
    assume "s \<in> set ?cur \<and> positionKey s \<notin> set (map newPositionKey ?layout)"
    with s(1) have "s_id s \<in> s_id ` {s \<in> set (d_seats d). s \<in> set ?cur \<and> positionKey s \<notin> set (map newPositionKey ?layout)}"
      by (intro imageI) simp
    with 1(9) [OF a(1)] s(2) show False by simp
  qed
  have "kept_typed ?layout ?cur s = s"
  proof (cases "s \<in> set ?cur \<and> positionKey s \<in> set (map newPositionKey ?layout)")
    case True
    then have "s_id s \<in> set (map s_id ?cur)" by simp
    then have "sa_seat a \<in> sa_seat ` {a \<in> set (d_assignments d). sa_org a = org \<and> sa_seat a \<in> set (map s_id ?cur)
        \<and> sa_releasedAt a = None}"
      using a s(2) by (intro imageI) (simp add: live_assignment_def)
    with True s(2) have "s_id s \<in> occupiedSeatIdsIn org (map s_id ?cur) now d"
      by (auto simp: occupiedSeatIdsIn_def assignedSeatIds_def)
    with 1(15) True show ?thesis by (simp add: kept_typed_def)
  qed (auto simp: kept_typed_def)
  with not_dropped s(1) show ?case unfolding 1(8) by force
qed

end
