(* ===== verification/SeatMapWitnesses.thy ===== *)
theory SeatMapWitnesses
  imports SeatMapProps Scenario
begin

text \<open>
  The seat map properties on a hall of one row: two seats sold under one ticket type, the
  first of them booked, laid out again as three seats, two of them under another type.
\<close>

definition hall_seat :: "ident \<Rightarrow> string \<Rightarrow> seat_row" where
  "hall_seat i n = \<lparr>s_id = i, s_org = 1, s_map = 1, s_section = Some '''', s_rowLabel = Some ''1'', s_seatNumber = n,
     s_type = Some 2, s_status = SAvailable\<rparr>"

definition hall_booking :: assignment_row where
  "hall_booking = \<lparr>sa_id = 6, sa_org = 1, sa_seat = 4, sa_ticket = 8, sa_releasedAt = None\<rparr>"

definition demo_hall :: db where
  "demo_hall = demo_db\<lparr>d_seats := [hall_seat 4 ''1'', hall_seat 5 ''2''], d_assignments := [hall_booking]\<rparr>"

definition demo_layout :: reserved_input where
  "demo_layout = \<lparr>ri_name = ''Hall'', ri_rows = 1, ri_seatsPerRow = 3, ri_rowTicketTypes = None,
     ri_seatTicketTypes = Some [[Some 2, Some 3, Some 3]]\<rparr>"

definition hall_saved :: "seat_map_row \<times> db" where
  "hall_saved = (case save_reserved 1 7 demo_layout True 0 demo_hall of
     Inr r \<Rightarrow> r | Inl _ \<Rightarrow> (hd (d_maps demo_hall), demo_hall))"

lemma hall_save: "save_reserved 1 7 demo_layout True 0 demo_hall = Inr (fst hall_saved, snd hall_saved)"
  by code_simp

lemma hall_ok: "seat_maps_ok demo_hall"
  by (auto simp: seat_maps_ok_def seats_on_def demo_hall_def demo_db_def hall_seat_def positionKey_def key_of_def)

theorem seat_map_save_refines_witness:
  "event_plan 1 7 (snd hall_saved) = laid_out demo_layout (event_plan 1 7 demo_hall)
    \<and> dom (event_plan 1 7 (snd hall_saved)) = set (grid_keys 1 3)
    \<and> length (seats_on (snd hall_saved) (sm_id (fst hall_saved))) = 3 \<and> seat_maps_ok (snd hall_saved)
    \<and> event_plan 1 7 (snd hall_saved) ''|1|2'' = Some (Some 3)"
proof -
  have "event_plan 1 7 (snd hall_saved) ''|1|2'' = Some (Some 3)" by code_simp
  moreover have dims: "ri_rows demo_layout = 1" "ri_seatsPerRow demo_layout = 3" by (simp_all add: demo_layout_def)
  ultimately show ?thesis
    using seat_map_save_refines [OF hall_ok hall_save, unfolded dims nat_mult_1] by blast
qed

theorem quantities_are_seats_witness:
  "list_all2 (\<lambda>t t'. tt_id t' = tt_id t \<and> tt_sold t' = tt_sold t \<and>
        (if live_tier 1 7 t then tt_total t' = seats_selling (snd hall_saved) (sm_id (fst hall_saved)) (tt_id t)
           \<and> tt_sold t' \<le> tt_total t'
         else tt_total t' = tt_total t)) (d_tiers demo_hall) (d_tiers (snd hall_saved))
    \<and> map tt_total (d_tiers (snd hall_saved)) = [1, 2]"
proof -
  have "distinct (map tt_id (d_tiers demo_hall))" by code_simp
  note q = quantities_are_seats [OF hall_ok hall_save this]
  have "\<exists>s\<in>set (seats_on (snd hall_saved) (sm_id (fst hall_saved))). s_type s \<noteq> None" by code_simp
  moreover have "map tt_total (d_tiers (snd hall_saved)) = [1, 2]" by code_simp
  ultimately show ?thesis using q by simp
qed

theorem booked_seat_stays_witness: "hall_seat 4 ''1'' \<in> set (d_seats (snd hall_saved))"
proof -
  have "hall_booking \<in> set (d_assignments demo_hall)" "hall_seat 4 ''1'' \<in> set (d_seats demo_hall)"
    by (simp_all add: demo_hall_def)
  from booked_seat_stays [OF hall_ok hall_save this(1) _ _ this(2)] show ?thesis
    by (simp add: hall_booking_def hall_seat_def live_assignment_def)
qed

end
