(* ===== verification/SlugSearch.thy ===== *)
theory SlugSearch
  imports JsText Listing
begin

text \<open>
  The search for a free slug that \<^verbatim>\<open>events/events.service.ts\<close> and
  \<^verbatim>\<open>auth-signup/auth-signup.repository.ts\<close> share: \<open>base\<close>, then \<open>base-2\<close>, \<open>base-3\<close>, ... The loop
  has no bound of its own, so its result is an option and \<open>None\<close> would be a loop that never
  returns; the lemmas show that it always returns.
\<close>

partial_function (option) next_free :: "string list \<Rightarrow> string \<Rightarrow> nat \<Rightarrow> string option" where
  "next_free taken base i =
     (let candidate = base @ ''-'' @ digits i in
      if candidate \<in> set taken then next_free taken base (i + 1) else Some candidate)"

definition unique_slug :: "string list \<Rightarrow> string \<Rightarrow> string option" where
  "unique_slug taken base = (if base \<in> set taken then next_free taken base 2 else Some base)"

definition numbered :: "string \<Rightarrow> nat \<Rightarrow> string" where
  "numbered base i = base @ ''-'' @ digits i"

lemma numbered_inject [simp]: "numbered base i = numbered base j \<longleftrightarrow> i = j"
  by (simp add: numbered_def)

text \<open>Only finitely many slugs are taken, so the candidates run into a free one.\<close>

lemma some_candidate_free: "\<exists>j \<ge> i. numbered base j \<notin> set taken"
proof (rule ccontr)
  assume "\<not> (\<exists>j \<ge> i. numbered base j \<notin> set taken)"
  then have "numbered base ` {i..} \<subseteq> set taken" by auto
  then have "finite (numbered base ` {i..})" by (rule finite_subset) simp
  moreover have "inj_on (numbered base) {i..}" by (simp add: inj_on_def)
  ultimately show False using infinite_Ici finite_imageD by blast
qed

lemma next_free_skips:
  assumes "i \<le> j" and "numbered base j \<notin> set taken"
    and "\<And>k. i \<le> k \<Longrightarrow> k < j \<Longrightarrow> numbered base k \<in> set taken"
  shows "next_free taken base i = Some (numbered base j)"
  using assms
proof (induction "j - i" arbitrary: i)
  case 0
  then have "i = j" by simp
  with 0 show ?case by (subst next_free.simps) (simp add: numbered_def)
next
  case (Suc n)
  then have "next_free taken base (i + 1) = Some (numbered base j)" by simp
  moreover have "numbered base i \<in> set taken" using Suc by simp
  ultimately show ?case by (subst next_free.simps) (simp add: numbered_def)
qed

lemma next_free_returns:
  obtains j where "i \<le> j" "next_free taken base i = Some (numbered base j)" "numbered base j \<notin> set taken"
    "\<And>k. i \<le> k \<Longrightarrow> k < j \<Longrightarrow> numbered base k \<in> set taken"
proof -
  define free where "free = (\<lambda>j. i \<le> j \<and> numbered base j \<notin> set taken)"
  define j where "j = (LEAST j. free j)"
  have "\<exists>j. free j" using some_candidate_free unfolding free_def by blast
  then have j: "free j" unfolding j_def by (rule LeastI_ex)
  have below: "numbered base k \<in> set taken" if "i \<le> k" "k < j" for k
    using not_less_Least [of k free] that unfolding j_def free_def by blast
  from j have "next_free taken base i = Some (numbered base j)"
    by (intro next_free_skips) (auto simp: free_def below)
  with j below show thesis by (intro that) (auto simp: free_def)
qed

lemma unique_slug_returns:
  "\<exists>slug. unique_slug taken base = Some slug \<and> slug \<notin> set taken \<and> (\<exists>rest. slug = base @ rest)"
proof (cases "base \<in> set taken")
  case True
  obtain j where "next_free taken base 2 = Some (numbered base j)" "numbered base j \<notin> set taken"
    by (rule next_free_returns)
  with True show ?thesis by (auto simp: unique_slug_def numbered_def)
qed (simp add: unique_slug_def)

text \<open>A pattern without wildcards, followed by a percent sign, is a prefix.\<close>

lemma like_plain_prefix:
  "list_all (\<lambda>c. c \<notin> {CHR 0x5C, CHR ''%'', CHR ''_''}) p \<Longrightarrow>
     like (p @ ''%'') s \<longleftrightarrow> (\<exists>rest. s = p @ rest)"
proof (induction p arbitrary: s)
  case Nil
  then show ?case by (simp add: like_percent_all)
next
  case (Cons a p)
  then show ?case by (cases s) auto
qed

lemma slug_shaped_plain: "slug_shaped s \<Longrightarrow> list_all (\<lambda>c. c \<notin> {CHR 0x5C, CHR ''%'', CHR ''_''}) s"
  unfolding slug_shaped_def list_all_iff
  by (auto simp: slug_char_def is_lower_def is_digit_def)

lemma digits_slug_chars: "list_all slug_char (digits n)"
proof -
  have "slug_char (digit k)" if "k < 10" for k
  proof -
    have "k \<in> set [0,1,2,3,4,5,6,7,8,9]" using that by (auto simp: numeral_eq_Suc less_Suc_eq)
    then show ?thesis by (auto simp: digit_def slug_char_def is_digit_def)
  qed
  then show ?thesis
  proof (induction n rule: digits.induct)
    case (1 n)
    then show ?case by (subst digits.simps) (auto simp: list_all_iff)
  qed
qed

lemma numbered_shaped: "slug_shaped base \<Longrightarrow> slug_shaped (numbered base i)"
proof -
  assume b: "slug_shaped base"
  have l: "slug_char (last (digits i))" using digits_slug_chars [of i]
    by (simp add: list_all_iff)
  have "last (digits i) \<noteq> CHR ''-''" using l by (auto simp: slug_char_def is_lower_def is_digit_def)
  then show ?thesis using b digits_slug_chars [of i]
    by (auto simp: slug_shaped_def numbered_def list_all_iff)
qed

lemma unique_slug_shaped:
  assumes "slug_shaped base" and "unique_slug taken base = Some slug"
  shows "slug_shaped slug"
proof (cases "base \<in> set taken")
  case True
  obtain j where "next_free taken base 2 = Some (numbered base j)" by (rule next_free_returns)
  with True assms(2) have "slug = numbered base j" by (simp add: unique_slug_def)
  then show ?thesis by (simp add: numbered_shaped [OF assms(1)])
next
  case False
  with assms show ?thesis by (simp add: unique_slug_def)
qed

end
