(* ===== verification/EventsService.thy ===== *)
theory EventsService
  imports SlugSearch SeatMap
begin

text \<open>
  Managing events: \<^verbatim>\<open>events/events.service.ts\<close> and the cleaning of a description,
  \<^verbatim>\<open>events/rich-text.ts\<close>. The ports onto Ticketing and the seat map are the models of their
  adapters. Parameters: \<open>nfkd\<close> (see theory JsText), \<open>sanitizeHtml\<close> (the third-party cleaner with
  the file's allow-list) and the workspace's name.
\<close>

record event_actor =
  ea_org :: ident
  ea_user :: ident

section \<open>Descriptions\<close>

definition after :: "string \<Rightarrow> string \<Rightarrow> string option" where
  "after p s = (if take (length p) s = p then Some (drop (length p) s) else None)"

text \<open>\<^verbatim>\<open>EMPTY_PARAGRAPH\<close>: paragraphs of blanks, line breaks and \<^verbatim>\<open>&nbsp;\<close> only.\<close>

definition after_br :: "string \<Rightarrow> string option" where
  "after_br s = (case after ''<br'' s of None \<Rightarrow> None
     | Some r \<Rightarrow> (let r = dropWhile js_blank r;
                     r = (case r of [] \<Rightarrow> [] | c # q \<Rightarrow> if c = CHR ''/'' then q else r)
                 in after ''>'' r))"

lemma after_length: "after p s = Some r \<Longrightarrow> length s = length p + length r"
  by (simp add: after_def split: if_splits) (metis append_take_drop_id length_append)

lemma after_br_shorter:
  assumes "after_br s = Some r"
  shows "length r < length s"
proof -
  obtain r1 where r1: "after ''<br'' s = Some r1" using assms by (auto simp: after_br_def split: option.splits)
  have tail: "length (case xs of [] \<Rightarrow> [] | c # q \<Rightarrow> if c = CHR ''/'' then q else xs) \<le> length xs" for xs
    by (cases xs) simp_all
  have "length r < length (case dropWhile js_blank r1 of [] \<Rightarrow> []
      | c # q \<Rightarrow> if c = CHR ''/'' then q else dropWhile js_blank r1)"
    using assms r1 by (simp add: after_br_def Let_def) (drule after_length, simp)
  also have "\<dots> \<le> length r1" using tail length_dropWhile_le [of js_blank r1] by (rule order_trans)
  also have "\<dots> \<le> length s" using after_length [OF r1] by simp
  finally show ?thesis .
qed

function skip_filler :: "string \<Rightarrow> string" where
  "skip_filler s = (case s of [] \<Rightarrow> []
     | c # r \<Rightarrow> if js_blank c then skip_filler r
       else case after_br s of Some q \<Rightarrow> skip_filler q
       | None \<Rightarrow> (case after ''&nbsp;'' s of Some q \<Rightarrow> skip_filler q | None \<Rightarrow> s))"
  by pat_completeness auto
termination by (relation "measure length") (auto dest: after_br_shorter after_length)

declare skip_filler.simps [simp del]

lemma skip_filler_length: "length (skip_filler s) \<le> length s"
proof (induction s rule: skip_filler.induct)
  case (1 s)
  show ?case
    by (subst skip_filler.simps)
      (use 1 in \<open>fastforce split: list.splits option.splits dest: after_br_shorter after_length\<close>)
qed

function empty_paragraphs :: "string \<Rightarrow> bool" where
  "empty_paragraphs s =
     (case after ''<p>'' s of None \<Rightarrow> False
      | Some r \<Rightarrow> (case after ''</p>'' (skip_filler r) of None \<Rightarrow> False
                   | Some q \<Rightarrow> q = [] \<or> empty_paragraphs q))"
  by pat_completeness auto
termination
proof (relation "measure length", goal_cases)
  case (2 s r q)
  then show ?case using skip_filler_length [of r] by (auto dest!: after_length)
qed simp

declare empty_paragraphs.simps [simp del]

definition sanitizeDescription :: "(string \<Rightarrow> string) \<Rightarrow> string \<Rightarrow> string" where
  "sanitizeDescription sanitizeHtml html =
     (let clean = js_trim (sanitizeHtml html) in if empty_paragraphs clean then [] else clean)"

definition cleanDescription :: "(string \<Rightarrow> string) \<Rightarrow> string option \<Rightarrow> string option" where
  "cleanDescription sanitizeHtml html =
     (case html of None \<Rightarrow> None
      | Some h \<Rightarrow> (let c = sanitizeDescription sanitizeHtml h in if c = [] then None else Some c))"

section \<open>Creating\<close>

definition bucketForStatus :: "event_status \<Rightarrow> event_bucket" where
  "bucketForStatus status = (if status = Completed \<or> status = Cancelled then BCompleted else BActive)"

definition assertCategoryInOrg :: "ident \<Rightarrow> ident \<Rightarrow> db \<Rightarrow> error + unit" where
  "assertCategoryInOrg org category d =
     check (categoryExists org category d) (NotFound ''Category {} not found in this workspace.'')"

definition EVENT_SLUG_FALLBACK :: string where "EVENT_SLUG_FALLBACK = ''event''"

definition uniqueSlug :: "(string \<Rightarrow> string) \<Rightarrow> ident \<Rightarrow> string \<Rightarrow> db \<Rightarrow> string option" where
  "uniqueSlug nfkd org name d =
     (let base = slugify nfkd name EVENT_SLUG_FALLBACK in unique_slug (existingSlugs org base d) base)"

record create_event =
  cr_name :: string
  cr_type :: event_type
  cr_startAt :: instant
  cr_description :: "string option"
  cr_category :: "ident option"
  cr_organizerName :: "string option"

text \<open>The row of an INSERT: the values the service sets, the table's defaults for the rest.\<close>

definition draft_row :: "event_actor \<Rightarrow> create_event \<Rightarrow> string \<Rightarrow> string \<Rightarrow> string option \<Rightarrow> ident \<Rightarrow> event_row" where
  "draft_row a i slug organizerName description eid =
     \<lparr>evt_id = eid, evt_org = ea_org a, evt_slug = slug, evt_name = cr_name i, evt_description = description,
      evt_type = cr_type i, evt_status = Draft, evt_requiresApproval = False, evt_waitlistEnabled = False,
      evt_bucket = bucketForStatus Draft, evt_visibility = Private, evt_category = cr_category i,
      evt_startAt = cr_startAt i, evt_endAt = None, evt_timezone = ''Asia/Bangkok'', evt_venueName = None,
      evt_venueAddress = None, evt_city = None, evt_isOnline = False, evt_onlineNote = None,
      evt_seatingMode = Ga, evt_capacity = None, evt_coverImage = None, evt_accentColor = None,
      evt_organizerName = organizerName, evt_contactEmail = None, evt_landing = None, evt_publishedAt = None,
      evt_cancelledAt = None, evt_deletedAt = None, evt_createdBy = Some (ea_user a), evt_version = 1\<rparr>"

text \<open>The slug search returns an option; its \<open>None\<close> (a search that never returns) is \<open>Uncaught\<close>.\<close>

definition returned :: "'a option \<Rightarrow> error + 'a" where
  "returned x = (case x of None \<Rightarrow> Inl Uncaught | Some y \<Rightarrow> Inr y)"

definition createDraft ::
  "(string \<Rightarrow> string) \<Rightarrow> (string \<Rightarrow> string) \<Rightarrow> (ident \<Rightarrow> string) \<Rightarrow> event_actor \<Rightarrow> create_event \<Rightarrow> db \<Rightarrow> event_row tx" where
  "createDraft nfkd sanitizeHtml orgName a i d =
     bindE (case cr_category i of None \<Rightarrow> Inr () | Some c \<Rightarrow> assertCategoryInOrg (ea_org a) c d) (\<lambda>_.
     bindE (returned (uniqueSlug nfkd (ea_org a) (cr_name i) d)) (\<lambda>slug.
     let organizerName = (case cr_organizerName i of None \<Rightarrow> orgName (ea_org a) | Some n \<Rightarrow> n)
     in event_insert (draft_row a i slug organizerName (cleanDescription sanitizeHtml (cr_description i))) d))"

definition loadEvent :: "ident \<Rightarrow> ident \<Rightarrow> db \<Rightarrow> error + event_row" where
  "loadEvent org eventId d =
     (case findEvent org eventId d of None \<Rightarrow> Inl (NotFound ''Event {} not found.'') | Some e \<Rightarrow> Inr e)"

definition getEvent :: "event_actor \<Rightarrow> ident \<Rightarrow> db \<Rightarrow> error + event_row" where
  "getEvent a eventId d = loadEvent (ea_org a) eventId d"

text \<open>The copy starts over: a new slug, a draft, no stamps; the settings are the original's.\<close>

definition copy_row :: "event_actor \<Rightarrow> event_row \<Rightarrow> string \<Rightarrow> string \<Rightarrow> ident \<Rightarrow> event_row" where
  "copy_row a src name slug eid = src\<lparr>evt_id := eid, evt_org := ea_org a, evt_slug := slug, evt_name := name,
     evt_status := Draft, evt_bucket := bucketForStatus Draft, evt_publishedAt := None, evt_cancelledAt := None,
     evt_deletedAt := None, evt_createdBy := Some (ea_user a), evt_version := 1\<rparr>"

definition duplicateBasics :: "(string \<Rightarrow> string) \<Rightarrow> event_actor \<Rightarrow> ident \<Rightarrow> db \<Rightarrow> event_row tx" where
  "duplicateBasics nfkd a srcEventId d =
     bindE (loadEvent (ea_org a) srcEventId d) (\<lambda>src.
     let name = evt_name src @ '' (Copy)'' in
     bindE (returned (uniqueSlug nfkd (ea_org a) name d)) (\<lambda>slug.
     event_insert (copy_row a src name slug) d))"

section \<open>Changing\<close>

definition stale_error :: error where
  "stale_error = Conflict ''This event changed elsewhere. Reload the latest version and try again.'' []"

definition assertVersion :: "nat option \<Rightarrow> event_row \<Rightarrow> error + unit" where
  "assertVersion version e = check (version = None \<or> version = Some (evt_version e)) stale_error"

text \<open>
  A PATCH: a field that is absent (\<open>None\<close>) stays, and a nullable field can be cleared
  (\<open>Some None\<close>).
\<close>

record update_event =
  ue_name :: "string option"
  ue_description :: "string option option"
  ue_type :: "event_type option"
  ue_category :: "ident option option"
  ue_startAt :: "instant option"
  ue_endAt :: "instant option option"
  ue_timezone :: "string option"
  ue_venueName :: "string option option"
  ue_venueAddress :: "string option option"
  ue_city :: "string option option"
  ue_isOnline :: "bool option"
  ue_onlineNote :: "string option option"
  ue_seatingMode :: "seating_mode option"
  ue_capacity :: "int option option"
  ue_waitlistEnabled :: "bool option"
  ue_requiresApproval :: "bool option"
  ue_coverImage :: "string option option"
  ue_accentColor :: "string option option"
  ue_contactEmail :: "string option option"
  ue_landing :: "template_id option"
  ue_version :: "nat option"

definition patch :: "'a option \<Rightarrow> 'a \<Rightarrow> 'a" where
  "patch v old = (case v of None \<Rightarrow> old | Some x \<Rightarrow> x)"

definition withCleanDescription :: "(string \<Rightarrow> string) \<Rightarrow> update_event \<Rightarrow> update_event" where
  "withCleanDescription sanitizeHtml i =
     (case ue_description i of
        Some (Some h) \<Rightarrow> i\<lparr>ue_description := Some (Some (sanitizeDescription sanitizeHtml h))\<rparr>
      | _ \<Rightarrow> i)"

definition updatable :: "update_event \<Rightarrow> event_row \<Rightarrow> event_row" where
  "updatable i e = e\<lparr>evt_name := patch (ue_name i) (evt_name e),
     evt_description := patch (ue_description i) (evt_description e),
     evt_type := patch (ue_type i) (evt_type e),
     evt_category := patch (ue_category i) (evt_category e),
     evt_startAt := patch (ue_startAt i) (evt_startAt e),
     evt_endAt := patch (ue_endAt i) (evt_endAt e),
     evt_timezone := patch (ue_timezone i) (evt_timezone e),
     evt_venueName := patch (ue_venueName i) (evt_venueName e),
     evt_venueAddress := patch (ue_venueAddress i) (evt_venueAddress e),
     evt_city := patch (ue_city i) (evt_city e),
     evt_isOnline := patch (ue_isOnline i) (evt_isOnline e),
     evt_onlineNote := patch (ue_onlineNote i) (evt_onlineNote e),
     evt_seatingMode := patch (ue_seatingMode i) (evt_seatingMode e),
     evt_capacity := patch (ue_capacity i) (evt_capacity e),
     evt_waitlistEnabled := patch (ue_waitlistEnabled i) (evt_waitlistEnabled e),
     evt_requiresApproval := patch (ue_requiresApproval i) (evt_requiresApproval e),
     evt_coverImage := patch (ue_coverImage i) (evt_coverImage e),
     evt_accentColor := patch (ue_accentColor i) (evt_accentColor e),
     evt_contactEmail := patch (ue_contactEmail i) (evt_contactEmail e),
     evt_landing := (case ue_landing i of None \<Rightarrow> evt_landing e | Some t \<Rightarrow> Some t)\<rparr>"

definition assertEndAfterStart :: "update_event \<Rightarrow> event_row \<Rightarrow> error + unit" where
  "assertEndAfterStart i e =
     (case patch (ue_endAt i) (evt_endAt e) of
        None \<Rightarrow> Inr ()
      | Some t \<Rightarrow> check (t > patch (ue_startAt i) (evt_startAt e)) (Validation ''End time must be after the start time.'' []))"

text \<open>The guarded UPDATE of every operation: a row at another version is a 409.\<close>

definition update_or_stale ::
  "ident \<Rightarrow> ident \<Rightarrow> (event_row \<Rightarrow> event_row) \<Rightarrow> nat \<Rightarrow> db \<Rightarrow> event_row tx" where
  "update_or_stale org eventId vals version d =
     bindE (event_update org eventId vals version d) (\<lambda>(r, d').
       case r of None \<Rightarrow> Inl stale_error | Some e \<Rightarrow> Inr (e, d'))"

definition updateEvent ::
  "(string \<Rightarrow> string) \<Rightarrow> event_actor \<Rightarrow> ident \<Rightarrow> update_event \<Rightarrow> db \<Rightarrow> event_row tx" where
  "updateEvent sanitizeHtml a eventId i d =
     bindE (loadEvent (ea_org a) eventId d) (\<lambda>e.
     bindE (assertVersion (ue_version i) e) (\<lambda>_.
     bindE (assertEndAfterStart i e) (\<lambda>_.
     bindE (case ue_category i of Some (Some c) \<Rightarrow> assertCategoryInOrg (ea_org a) c d | _ \<Rightarrow> Inr ()) (\<lambda>_.
     update_or_stale (ea_org a) eventId (updatable (withCleanDescription sanitizeHtml i)) (evt_version e) d))))"

section \<open>Publishing\<close>

record publish_event =
  pe_visibility :: "visibility option"
  pe_landing :: "template_id option"
  pe_confirmPastStart :: bool
  pe_version :: "nat option"

datatype publish_gap = GapTitle | GapDescription | GapLocation | GapTickets | GapSeating

definition blank :: "string option \<Rightarrow> bool" where
  "blank s = (case s of None \<Rightarrow> True | Some x \<Rightarrow> js_trim x = [])"

definition readinessGaps :: "ident \<Rightarrow> event_row \<Rightarrow> db \<Rightarrow> publish_gap list" where
  "readinessGaps org e d =
     (if js_trim (evt_name e) = [] then [GapTitle] else [])
     @ (if blank (evt_description e) then [GapDescription] else [])
     @ (if blank (evt_venueName e) \<and> \<not> evt_isOnline e then [GapLocation] else [])
     @ (if countActive org (evt_id e) d < 1 then [GapTickets] else [])"

datatype seat_gap = UntypedSeats | SeatlessTicketType string

definition seatingGaps :: "ident \<Rightarrow> event_row \<Rightarrow> db \<Rightarrow> seat_gap list" where
  "seatingGaps org e d =
     (if evt_seatingMode e \<noteq> Reserved \<or> evt_isOnline e then []
      else (case seatsReadiness org (evt_id e) d of (seatsWithoutType, ticketTypesWithoutSeats) \<Rightarrow>
        (if seatsWithoutType > 0 then [UntypedSeats] else []) @ map SeatlessTicketType ticketTypesWithoutSeats))"

fun requirement :: "publish_gap \<Rightarrow> string" where
  "requirement GapTitle = ''a title''"
| "requirement GapDescription = ''a description''"
| "requirement GapLocation = ''a venue or an online link''"
| "requirement GapTickets = ''at least one ticket type''"
| "requirement GapSeating = ''seating''"

fun seat_sentence :: "seat_gap \<Rightarrow> string" where
  "seat_sentence UntypedSeats = ''Give every seat a ticket type before publishing.''"
| "seat_sentence (SeatlessTicketType name) = name @ '' has no seats. Give it some seats or remove it.''"

fun joined :: "string \<Rightarrow> string list \<Rightarrow> string" where
  "joined sep [] = []"
| "joined sep [x] = x"
| "joined sep (x # y # xs) = x @ sep @ joined sep (y # xs)"

definition notReady :: "publish_gap list \<Rightarrow> seat_gap list \<Rightarrow> error" where
  "notReady gaps seatGaps =
     Validation (joined '' ''
        ((if gaps \<noteq> [] then [''Cannot publish yet - please add '' @ joined '', '' (map requirement gaps) @ ''.''] else [])
         @ map seat_sentence seatGaps))
       (map (\<lambda>g. Txt (requirement g)) (gaps @ (if seatGaps \<noteq> [] then [GapSeating] else [])))"

definition publishValues :: "publish_event \<Rightarrow> instant \<Rightarrow> event_row \<Rightarrow> event_row" where
  "publishValues i now e = e\<lparr>evt_status := Upcoming, evt_bucket := bucketForStatus Upcoming,
     evt_publishedAt := Some now, evt_visibility := patch (pe_visibility i) (evt_visibility e),
     evt_landing := (case pe_landing i of None \<Rightarrow> evt_landing e | Some t \<Rightarrow> Some t)\<rparr>"

definition enqueue :: "outbox_event \<Rightarrow> db \<Rightarrow> db" where
  "enqueue m d = d\<lparr>d_outbox := d_outbox d @ [m]\<rparr>"

definition announcePublished :: "event_actor \<Rightarrow> event_row \<Rightarrow> instant \<Rightarrow> db \<Rightarrow> db" where
  "announcePublished a e now =
     enqueue (EventPublished (ea_org a) (evt_id e) (evt_slug e) (evt_name e) (ea_user a) now)"

definition publishEvent :: "event_actor \<Rightarrow> ident \<Rightarrow> publish_event \<Rightarrow> instant \<Rightarrow> db \<Rightarrow> event_row tx" where
  "publishEvent a eventId i now d =
     bindE (loadEvent (ea_org a) eventId d) (\<lambda>e.
     bindE (check (evt_status e = Draft) (Conflict ''This event is already published.'' [])) (\<lambda>_.
     bindE (assertVersion (pe_version i) e) (\<lambda>_.
     let gaps = readinessGaps (ea_org a) e d; seatGaps = seatingGaps (ea_org a) e d in
     bindE (check (gaps = [] \<and> seatGaps = []) (notReady gaps seatGaps)) (\<lambda>_.
     bindE (check (\<not> (evt_startAt e < now \<and> \<not> pe_confirmPastStart i))
       (Validation ''This event's start date is already in the past. Confirm to publish it anyway.'' [])) (\<lambda>_.
     bindE (update_or_stale (ea_org a) eventId (publishValues i now) (evt_version e) d) (\<lambda>(published, d).
     Inr (published, announcePublished a published now d)))))))"

definition unpublishValues :: "event_row \<Rightarrow> event_row" where
  "unpublishValues e = e\<lparr>evt_status := Draft, evt_bucket := bucketForStatus Draft, evt_visibility := Private,
     evt_publishedAt := None\<rparr>"

definition unpublishEvent :: "event_actor \<Rightarrow> ident \<Rightarrow> nat option \<Rightarrow> db \<Rightarrow> event_row tx" where
  "unpublishEvent a eventId version d =
     bindE (loadEvent (ea_org a) eventId d) (\<lambda>e.
     bindE (check (evt_status e \<noteq> Draft) (Conflict ''This event is not published.'' [])) (\<lambda>_.
     bindE (assertVersion version e) (\<lambda>_.
     update_or_stale (ea_org a) eventId unpublishValues (evt_version e) d)))"

section \<open>Deleting and cancelling\<close>

definition HAS_REGISTRATIONS :: error where
  "HAS_REGISTRATIONS = Conflict ''This event has registrations and can't be deleted. Cancel it instead to refund and notify attendees.'' []"

definition hardDeleteOrRefuse :: "ident \<Rightarrow> ident \<Rightarrow> db \<Rightarrow> unit tx" where
  "hardDeleteOrRefuse org eventId d =
     (case event_hardDelete org eventId d of
        Inl (DbViolation c) \<Rightarrow> Inl (if foreign_key_violation c then HAS_REGISTRATIONS else DbViolation c)
      | r \<Rightarrow> r)"

definition deleteEvent :: "event_actor \<Rightarrow> ident \<Rightarrow> nat option \<Rightarrow> db \<Rightarrow> unit tx" where
  "deleteEvent a eventId version d =
     bindE (loadEvent (ea_org a) eventId d) (\<lambda>e.
     bindE (assertVersion version e) (\<lambda>_.
     bindE (check (evt_status e = Draft)
       (Conflict ''A published event cannot be deleted. Cancel it instead to refund and notify attendees.'' [])) (\<lambda>_.
     bindE (check (\<not> sumSold (ea_org a) eventId d > 0) HAS_REGISTRATIONS) (\<lambda>_.
     hardDeleteOrRefuse (ea_org a) eventId d))))"

definition cancelValues :: "instant \<Rightarrow> event_row \<Rightarrow> event_row" where
  "cancelValues now e = e\<lparr>evt_status := Cancelled, evt_bucket := bucketForStatus Cancelled,
     evt_cancelledAt := Some now\<rparr>"

definition announceCancelled :: "event_actor \<Rightarrow> event_row \<Rightarrow> string \<Rightarrow> instant \<Rightarrow> db \<Rightarrow> db" where
  "announceCancelled a e reason now =
     enqueue (EventCancelled (ea_org a) (evt_id e) (evt_slug e) (evt_name e) reason (ea_user a) now)"

definition cancelEvent :: "event_actor \<Rightarrow> ident \<Rightarrow> string \<Rightarrow> nat option \<Rightarrow> instant \<Rightarrow> db \<Rightarrow> event_row tx" where
  "cancelEvent a eventId reason version now d =
     bindE (loadEvent (ea_org a) eventId d) (\<lambda>e.
     bindE (assertVersion version e) (\<lambda>_.
     let reason = js_trim reason in
     bindE (check (reason \<noteq> []) (Validation ''A cancellation reason is required.'' [])) (\<lambda>_.
     bindE (check (\<not> (evt_status e = Cancelled \<or> evt_status e = Completed))
       (Conflict ''This event can no longer be cancelled.'' [])) (\<lambda>_.
     bindE (update_or_stale (ea_org a) eventId (cancelValues now) (evt_version e) d) (\<lambda>(cancelled, d).
     Inr (cancelled, announceCancelled a cancelled reason now d))))))"

end
