(* ===== verification/Versioned.thy ===== *)
theory Versioned
  imports Prelude
begin

text \<open>
  Optimistic concurrency. Rows an organizer edits carry a \<^verbatim>\<open>version\<close>; a write names the version
  it was made from, is refused when the row has moved on, and advances the version by one.
  The locale is that contract; Events and Ticketing interpret it.
\<close>

text \<open>Writes, each with the version it was made from, one after another.\<close>

fun run_writes :: "('i \<Rightarrow> nat \<Rightarrow> 'd \<Rightarrow> 'e + 'd) \<Rightarrow> ('i \<times> nat) list \<Rightarrow> 'd \<Rightarrow> 'e + 'd" where
  "run_writes edit [] d = Inr d"
| "run_writes edit (w # ws) d = bindE (edit (fst w) (snd w) d) (run_writes edit ws)"

locale versioned =
  fixes edit :: "'i \<Rightarrow> nat \<Rightarrow> 'd \<Rightarrow> 'e + 'd" and version :: "'d \<Rightarrow> nat"
  assumes from_current: "edit i v d = Inr d' \<Longrightarrow> v = version d"
    and advances: "edit i v d = Inr d' \<Longrightarrow> version d' = Suc (version d)"
begin

text \<open>So every version is written from at most once: no edit overwrites one it has not seen.\<close>

lemma stale_refused: "edit i v d = Inr d' \<Longrightarrow> \<exists>e. edit j v d' = Inl e"
  using from_current [of j v d'] advances [of i v d d'] from_current [of i v d d']
  by (cases "edit j v d'") auto

lemma writes_in_sequence:
  "run_writes edit ws d = Inr d' \<Longrightarrow> map snd ws = [version d ..< version d + length ws]"
proof (induction ws arbitrary: d)
  case (Cons w ws)
  then obtain d1 where "edit (fst w) (snd w) d = Inr d1" "run_writes edit ws d1 = Inr d'"
    by (auto simp: bindE_Inr_iff)
  with Cons.IH [of d1] from_current advances
  have "snd w = version d" "map snd ws = [Suc (version d) ..< Suc (version d) + length ws]" by fastforce+
  then show ?case by (simp add: upt_conv_Cons del: upt_Suc)
qed simp

end

end
