(* ===== verification/EventProps.thy ===== *)
theory EventProps
  imports EventsService Versioned
begin

text \<open>
  What managing events promises: a draft is always created, under a slug of its own; what is
  published has everything the page needs; a deletion takes no history with it; edits never
  overwrite each other; and whatever is done, the events stay consistent.
\<close>

section \<open>The guarded update\<close>

lemma loadEvent_Inr [result_simps]: "loadEvent org ev d = Inr e \<longleftrightarrow> findEvent org ev d = Some e"
  by (auto simp: loadEvent_def split: option.splits)

lemma findEvent_Some:
  "findEvent org ev d = Some e \<Longrightarrow> e \<in> set (d_events d) \<and> evt_id e = ev \<and> evt_org e = org \<and> evt_deletedAt e = None"
  by (auto simp: findEvent_def dest: find_SomeD)

definition sets_no_key :: "(event_row \<Rightarrow> event_row) \<Rightarrow> bool" where
  "sets_no_key f = (\<forall>e. evt_id (f e) = evt_id e \<and> evt_org (f e) = evt_org e \<and> evt_deletedAt (f e) = evt_deletedAt e
     \<and> evt_slug (f e) = evt_slug e)"

text \<open>A row as the lifecycle leaves it: its tab, its stamps and its address agree with its status.\<close>

definition event_ok :: "event_row \<Rightarrow> bool" where
  "event_ok e = (evt_bucket e = bucketForStatus (evt_status e) \<and> slug_shaped (evt_slug e)
     \<and> (evt_status e = Draft \<longrightarrow> evt_publishedAt e = None) \<and> (evt_status e = Upcoming \<longrightarrow> evt_publishedAt e \<noteq> None)
     \<and> (evt_status e = Cancelled \<longrightarrow> evt_cancelledAt e \<noteq> None))"

definition keeps_ok :: "(event_row \<Rightarrow> event_row) \<Rightarrow> bool" where
  "keeps_ok f = (\<forall>e. event_ok e \<longrightarrow> event_ok (f e))"

lemma event_values [simp]:
  "sets_no_key (updatable i)" "sets_no_key (publishValues p now)" "sets_no_key unpublishValues"
  "sets_no_key (cancelValues now)"
  "keeps_ok (updatable i)" "keeps_ok (publishValues p now)" "keeps_ok unpublishValues" "keeps_ok (cancelValues now)"
  by (simp_all add: sets_no_key_def keeps_ok_def event_ok_def updatable_def publishValues_def unpublishValues_def
      cancelValues_def)

lemma update_or_stale_D:
  assumes "update_or_stale org ev f v d = Inr (e, d')"
  obtains e0 where "find (at_version org ev v) (d_events d) = Some e0"
    "e = (f e0)\<lparr>evt_version := v + 1\<rparr>"
    "d' = d\<lparr>d_events := upd (at_version org ev v) (\<lambda>e. (f e)\<lparr>evt_version := v + 1\<rparr>) (d_events d)\<rparr>"
  using assms by (auto simp: update_or_stale_def event_update_def Let_def bindE_Inr_iff split: option.splits)

lemma find_upd_first:
  "find P xs = Some x \<Longrightarrow> Q x \<Longrightarrow> (\<And>y. Q y \<Longrightarrow> P y) \<Longrightarrow> (\<And>y. P (f y) = P y) \<Longrightarrow> find P (upd Q f xs) = Some (f x)"
  by (induction xs) (auto simp: upd_def split: if_splits)

text \<open>The row that was loaded is the row that is written, and it is found again.\<close>

lemma update_or_stale_found:
  assumes "findEvent org ev d = Some e0" and "update_or_stale org ev f (evt_version e0) d = Inr (e, d')"
    and "sets_no_key f"
  shows "e = (f e0)\<lparr>evt_version := evt_version e0 + 1\<rparr> \<and> findEvent org ev d' = Some e"
proof -
  let ?P = "\<lambda>e. evt_id e = ev \<and> evt_org e = org \<and> evt_deletedAt e = None"
  let ?Q = "at_version org ev (evt_version e0)"
  have "find ?P xs = Some e0 \<Longrightarrow> find ?Q xs = Some e0" for xs
    by (induction xs) (auto simp: at_version_def split: if_splits)
  then have q: "find ?Q (d_events d) = Some e0" using assms(1) by (simp add: findEvent_def)
  from update_or_stale_D [OF assms(2)] obtain e1 where
    "find ?Q (d_events d) = Some e1" "e = (f e1)\<lparr>evt_version := evt_version e0 + 1\<rparr>"
    and d': "d' = d\<lparr>d_events := upd ?Q (\<lambda>e. (f e)\<lparr>evt_version := evt_version e0 + 1\<rparr>) (d_events d)\<rparr>" .
  with q have e: "e = (f e0)\<lparr>evt_version := evt_version e0 + 1\<rparr>" by simp
  have "find ?P (upd ?Q (\<lambda>e. (f e)\<lparr>evt_version := evt_version e0 + 1\<rparr>) (d_events d))
      = Some ((f e0)\<lparr>evt_version := evt_version e0 + 1\<rparr>)"
    using assms(1,3) by (intro find_upd_first) (auto simp: findEvent_def at_version_def sets_no_key_def dest: find_SomeD)
  then show ?thesis using e d' by (simp add: findEvent_def)
qed

section \<open>Creating\<close>

lemma fallback_shaped: "slug_shaped EVENT_SLUG_FALLBACK"
  by (simp add: EVENT_SLUG_FALLBACK_def slug_shaped_def slug_char_def is_lower_def)

lemma uniqueSlug_free:
  "\<exists>slug. uniqueSlug nfkd org name d = Some slug \<and> slug_shaped slug
     \<and> (\<forall>e\<in>set (d_events d). evt_org e = org \<longrightarrow> evt_slug e \<noteq> slug)"
proof -
  define base where "base = slugify nfkd name EVENT_SLUG_FALLBACK"
  have base: "slug_shaped base" unfolding base_def by (rule slugify_shape [OF fallback_shaped])
  obtain slug rest where s: "unique_slug (existingSlugs org base d) base = Some slug"
      "slug \<notin> set (existingSlugs org base d)" "slug = base @ rest"
    using unique_slug_returns by blast
  have "evt_slug e \<noteq> slug" if "e \<in> set (d_events d)" "evt_org e = org" for e
  proof
    assume "evt_slug e = slug"
    then have "evt_slug e \<in> set (existingSlugs org base d)"
      using that s(3) like_plain_prefix [OF slug_shaped_plain [OF base], of slug]
      by (force simp: existingSlugs_def)
    with s(2) \<open>evt_slug e = slug\<close> show False by simp
  qed
  moreover have "slug_shaped slug" by (rule unique_slug_shaped [OF base s(1)])
  ultimately show ?thesis using s(1) by (auto simp: uniqueSlug_def Let_def base_def)
qed

lemma event_insert_fresh:
  assumes "\<And>eid. evt_org (mk eid) = org \<and> evt_slug (mk eid) = slug"
    and "\<forall>e\<in>set (d_events d). evt_org e = org \<longrightarrow> evt_slug e \<noteq> slug"
  shows "event_insert mk d = Inr ((mk (d_next d))\<lparr>evt_id := d_next d, evt_version := 1\<rparr>,
     d\<lparr>d_events := d_events d @ [(mk (d_next d))\<lparr>evt_id := d_next d, evt_version := 1\<rparr>], d_next := d_next d + 1\<rparr>)"
  using assms by (auto simp: event_insert_def Let_def list_ex_iff)

text \<open>
  C29. Creating a draft never fails and never runs on once its category, if it names one, exists in the workspace: the search for
  a slug returns, its slug has the form of a web address, no event of the workspace has it (so the unique index
  cannot refuse the row), and the one change is the new private draft at version 1.
\<close>
theorem draft_always_created:
  assumes "case cr_category i of None \<Rightarrow> True | Some c \<Rightarrow> categoryExists (ea_org a) c d"
  shows "\<exists>e. createDraft nfkd sanitizeHtml orgName a i d
       = Inr (e, d\<lparr>d_events := d_events d @ [e], d_next := d_next d + 1\<rparr>)
     \<and> slug_shaped (evt_slug e) \<and> (\<forall>x\<in>set (d_events d). evt_org x = evt_org e \<longrightarrow> evt_slug x \<noteq> evt_slug e)
     \<and> evt_org e = ea_org a \<and> evt_id e = d_next d \<and> evt_version e = 1 \<and> evt_name e = cr_name i
     \<and> evt_status e = Draft \<and> evt_visibility e = Private \<and> evt_publishedAt e = None"
proof -
  obtain slug where s: "uniqueSlug nfkd (ea_org a) (cr_name i) d = Some slug" "slug_shaped slug"
      "\<forall>e\<in>set (d_events d). evt_org e = ea_org a \<longrightarrow> evt_slug e \<noteq> slug"
    using uniqueSlug_free by blast
  define mk where "mk = draft_row a i slug (case cr_organizerName i of None \<Rightarrow> orgName (ea_org a) | Some n \<Rightarrow> n)
    (cleanDescription sanitizeHtml (cr_description i))"
  have mk: "evt_org (mk eid) = ea_org a \<and> evt_slug (mk eid) = slug" for eid by (simp add: mk_def draft_row_def)
  have row: "evt_name (mk eid) = cr_name i \<and> evt_status (mk eid) = Draft \<and> evt_visibility (mk eid) = Private
    \<and> evt_publishedAt (mk eid) = None" for eid by (simp add: mk_def draft_row_def)
  have "createDraft nfkd sanitizeHtml orgName a i d = event_insert mk d"
    using assms s(1) by (cases "cr_category i")
      (simp_all add: createDraft_def assertCategoryInOrg_def returned_def mk_def)
  then show ?thesis using event_insert_fresh [OF mk s(3)] s(2,3) mk row
    by (intro exI [of _ "(mk (d_next d))\<lparr>evt_id := d_next d, evt_version := 1\<rparr>"]) simp
qed

section \<open>Publishing\<close>

text \<open>
  C26. Whatever is published was a draft at the version that was read and is ready for its public page: a title and a
  description that are not blank, a place unless it is online, at least one ticket type, on a reserved map no seat without a
  ticket type and no ticket type without a seat, and a start that lies ahead or was confirmed. It goes live with exactly
  one message, and no other event changes.
\<close>
theorem published_is_ready:
  assumes "publishEvent a ev i now d = Inr (e, d')"
  shows "\<exists>e0. findEvent (ea_org a) ev d = Some e0 \<and> evt_status e0 = Draft
     \<and> (pe_version i = None \<or> pe_version i = Some (evt_version e0))
     \<and> js_trim (evt_name e) \<noteq> [] \<and> \<not> blank (evt_description e) \<and> (evt_isOnline e \<or> \<not> blank (evt_venueName e))
     \<and> countActive (ea_org a) ev d \<ge> 1
     \<and> (evt_seatingMode e = Reserved \<and> \<not> evt_isOnline e \<longrightarrow> seatsReadiness (ea_org a) ev d = (0, []))
     \<and> (now \<le> evt_startAt e \<or> pe_confirmPastStart i)
     \<and> e = (publishValues i now e0)\<lparr>evt_version := evt_version e0 + 1\<rparr> \<and> findEvent (ea_org a) ev d' = Some e
     \<and> d_outbox d' = d_outbox d @ [EventPublished (ea_org a) ev (evt_slug e) (evt_name e) (ea_user a) now]
     \<and> (\<forall>x. evt_id x \<noteq> ev \<longrightarrow> x \<in> set (d_events d') \<longleftrightarrow> x \<in> set (d_events d))"
proof -
  from assms obtain e0 d1 where e0: "findEvent (ea_org a) ev d = Some e0" "evt_status e0 = Draft"
      "pe_version i = None \<or> pe_version i = Some (evt_version e0)"
    and g: "readinessGaps (ea_org a) e0 d = []" "seatingGaps (ea_org a) e0 d = []"
      "now \<le> evt_startAt e0 \<or> pe_confirmPastStart i"
    and u: "update_or_stale (ea_org a) ev (publishValues i now) (evt_version e0) d = Inr (e, d1)"
    and d': "d' = announcePublished a e now d1"
    by (auto simp: publishEvent_def Let_def result_simps assertVersion_def)
  note F = findEvent_Some [OF e0(1)]
  have U: "e = (publishValues i now e0)\<lparr>evt_version := evt_version e0 + 1\<rparr>" "findEvent (ea_org a) ev d1 = Some e"
    using update_or_stale_found [OF e0(1) u] by simp_all
  have d1: "d1 = d\<lparr>d_events := upd (at_version (ea_org a) ev (evt_version e0))
      (\<lambda>e. (publishValues i now e)\<lparr>evt_version := evt_version e0 + 1\<rparr>) (d_events d)\<rparr>"
    by (rule update_or_stale_D [OF u])
  have same: "x \<in> set (d_events d1) \<longleftrightarrow> x \<in> set (d_events d)" if "evt_id x \<noteq> ev" for x
    using that by (auto simp: d1 in_set_upd at_version_def publishValues_def split: if_splits)
  have fields: "evt_name e = evt_name e0" "evt_description e = evt_description e0" "evt_venueName e = evt_venueName e0"
    "evt_isOnline e = evt_isOnline e0" "evt_seatingMode e = evt_seatingMode e0" "evt_startAt e = evt_startAt e0"
    "evt_id e = ev" "evt_slug e = evt_slug e0"
    using F by (simp_all add: U(1) publishValues_def)
  have "js_trim (evt_name e) \<noteq> [] \<and> \<not> blank (evt_description e) \<and> (evt_isOnline e \<or> \<not> blank (evt_venueName e))
     \<and> countActive (ea_org a) ev d \<ge> 1"
    using g(1) F by (auto simp: fields readinessGaps_def split: if_splits)
  moreover have "evt_seatingMode e = Reserved \<and> \<not> evt_isOnline e \<longrightarrow> seatsReadiness (ea_org a) ev d = (0, [])"
    using g(2) F by (auto simp: fields seatingGaps_def split: if_splits prod.splits)
  moreover have "findEvent (ea_org a) ev d' = Some e"
    "d_outbox d' = d_outbox d @ [EventPublished (ea_org a) ev (evt_slug e) (evt_name e) (ea_user a) now]"
    using U(2) by (simp_all add: d' announcePublished_def enqueue_def findEvent_def d1 fields)
  moreover have "\<forall>x. evt_id x \<noteq> ev \<longrightarrow> x \<in> set (d_events d') \<longleftrightarrow> x \<in> set (d_events d)"
    using same by (simp add: d' announcePublished_def enqueue_def)
  ultimately show ?thesis using e0 g(3) U(1) fields(6) by metis
qed

section \<open>Deleting\<close>

lemma deleteEvent_D:
  assumes "deleteEvent a ev version d = Inr (u, d')"
  obtains e d1 d2 d3 where "findEvent (ea_org a) ev d = Some e" "evt_status e = Draft" "event_history ev d = None"
    "remove_tiers (\<lambda>t. tt_event t = ev) d = Inr d1" "remove_maps (\<lambda>m. sm_event m = ev) d1 = Inr d2"
    "remove_codes (\<lambda>c. dc_event c = Some ev) d2 = Inr d3"
    "d' = d3\<lparr>d_events := filter (\<lambda>e. evt_id e \<noteq> ev) (d_events d3),
       d_holds := filter (\<lambda>h. h_event h \<noteq> ev) (d_holds d3),
       d_scans := upd (\<lambda>s. sc_ticketEvent s = Some ev) (\<lambda>s. s\<lparr>sc_ticketEvent := None\<rparr>) (d_scans d3)\<rparr>"
proof -
  from assms obtain e where e: "findEvent (ea_org a) ev d = Some e" "evt_status e = Draft"
    and r: "event_hardDelete (ea_org a) ev d = Inr (u, d')"
    by (auto simp: deleteEvent_def result_simps hardDeleteOrRefuse_def
        split: sum.splits error.splits if_splits)
  have "list_ex (\<lambda>e. evt_id e = ev \<and> evt_org e = ea_org a) (d_events d)"
    using findEvent_Some [OF e(1)] by (auto simp: list_ex_iff)
  with r have "remove_event ev d = Inr d'" by (simp add: event_hardDelete_def result_simps)
  then show thesis by (auto simp: remove_event_def bindE_Inr_iff split: option.splits intro: that [OF e])
qed

lemmas removals = remove_tiers_def remove_maps_def remove_seats_def remove_codes_def Let_def

lemma deleteEvent_tables:
  assumes "deleteEvent a ev version d = Inr (u, d')"
  shows "d_tickets d' = d_tickets d" "d_items d' = d_items d" "d_payments d' = d_payments d"
    "d_refunds d' = d_refunds d" "d_invoices d' = d_invoices d" "d_redemptions d' = d_redemptions d"
    "d_checkIns d' = d_checkIns d" "d_assignments d' = d_assignments d" "d_next d' = d_next d"
    "d_events d' = filter (\<lambda>e. evt_id e \<noteq> ev) (d_events d)"
proof -
  obtain d1 d2 d3 where r: "remove_tiers (\<lambda>t. tt_event t = ev) d = Inr d1" "remove_maps (\<lambda>m. sm_event m = ev) d1 = Inr d2"
    "remove_codes (\<lambda>c. dc_event c = Some ev) d2 = Inr d3"
    and d': "d' = d3\<lparr>d_events := filter (\<lambda>e. evt_id e \<noteq> ev) (d_events d3),
       d_holds := filter (\<lambda>h. h_event h \<noteq> ev) (d_holds d3),
       d_scans := upd (\<lambda>s. sc_ticketEvent s = Some ev) (\<lambda>s. s\<lparr>sc_ticketEvent := None\<rparr>) (d_scans d3)\<rparr>"
    by (rule deleteEvent_D [OF assms])
  show "d_tickets d' = d_tickets d" "d_items d' = d_items d" "d_payments d' = d_payments d"
    "d_refunds d' = d_refunds d" "d_invoices d' = d_invoices d" "d_redemptions d' = d_redemptions d"
    "d_checkIns d' = d_checkIns d" "d_assignments d' = d_assignments d" "d_next d' = d_next d"
    "d_events d' = filter (\<lambda>e. evt_id e \<noteq> ev) (d_events d)"
    using r [unfolded removals] by (auto simp: d' bindE_Inr_iff split: if_splits)
qed

text \<open>
  A deletion takes no history with it: it goes through only for a draft to which no order, ticket, payment, invoice,
  check-in or scan refers, and then every ticket, order item, payment, refund, invoice, redemption and check-in is as it was,
  every order is but for a discount code that went with the event, and no event but this one is gone.
\<close>
theorem deletion_spares_history:
  assumes "deleteEvent a ev version d = Inr (u, d')"
  shows "event_history ev d = None \<and> (\<exists>e. findEvent (ea_org a) ev d = Some e \<and> evt_status e = Draft)
     \<and> d_tickets d' = d_tickets d \<and> d_items d' = d_items d \<and> d_payments d' = d_payments d \<and> d_refunds d' = d_refunds d
     \<and> d_invoices d' = d_invoices d \<and> d_redemptions d' = d_redemptions d \<and> d_checkIns d' = d_checkIns d
     \<and> d_assignments d' = d_assignments d
     \<and> list_all2 (\<lambda>x y. y = x \<or> y = x\<lparr>o_discountCode := None\<rparr>) (d_orders d) (d_orders d')
     \<and> d_events d' = filter (\<lambda>e. evt_id e \<noteq> ev) (d_events d)"
proof -
  obtain e d1 d2 d3 where e: "findEvent (ea_org a) ev d = Some e" "evt_status e = Draft" "event_history ev d = None"
    and r: "remove_tiers (\<lambda>t. tt_event t = ev) d = Inr d1" "remove_maps (\<lambda>m. sm_event m = ev) d1 = Inr d2"
    "remove_codes (\<lambda>c. dc_event c = Some ev) d2 = Inr d3" and d': "d_orders d' = d_orders d3"
    by (rule deleteEvent_D [OF assms]) auto
  have "d_orders d1 = d_orders d" "d_orders d2 = d_orders d1"
    using r(1,2) [unfolded removals] by (auto simp: bindE_Inr_iff split: if_splits)
  moreover have "\<exists>P. d_orders d3 = upd P (\<lambda>x. x\<lparr>o_discountCode := None\<rparr>) (d_orders d2)"
    using r(3) [unfolded removals] by (auto split: if_splits)
  ultimately have "list_all2 (\<lambda>x y. y = x \<or> y = x\<lparr>o_discountCode := None\<rparr>) (d_orders d) (d_orders d')"
    by (auto simp: d' upd_def list_all2_conv_all_nth)
  then show ?thesis using e deleteEvent_tables [OF assms] by blast
qed

section \<open>Edits made at the same time\<close>

datatype event_write = WUpdate update_event | WPublish publish_event instant | WUnpublish | WCancel string instant

text \<open>The four edits of an existing event, made from a version the client read.\<close>

fun event_edit :: "(string \<Rightarrow> string) \<Rightarrow> event_actor \<Rightarrow> ident \<Rightarrow> event_write \<Rightarrow> nat \<Rightarrow> db \<Rightarrow> event_row tx" where
  "event_edit san a ev (WUpdate i) v d = updateEvent san a ev (i\<lparr>ue_version := Some v\<rparr>) d"
| "event_edit san a ev (WPublish i now) v d = publishEvent a ev (i\<lparr>pe_version := Some v\<rparr>) now d"
| "event_edit san a ev WUnpublish v d = unpublishEvent a ev (Some v) d"
| "event_edit san a ev (WCancel reason now) v d = cancelEvent a ev reason (Some v) now d"

definition edit_db :: "(string \<Rightarrow> string) \<Rightarrow> event_actor \<Rightarrow> ident \<Rightarrow> event_write \<Rightarrow> nat \<Rightarrow> db \<Rightarrow> error + db" where
  "edit_db san a ev w v d = bindE (event_edit san a ev w v d) (\<lambda>(e, d'). Inr d')"

definition version_of :: "event_actor \<Rightarrow> ident \<Rightarrow> db \<Rightarrow> nat" where
  "version_of a ev d = (case findEvent (ea_org a) ev d of None \<Rightarrow> 0 | Some e \<Rightarrow> evt_version e)"

text \<open>Every edit is the guarded update of the row it loaded, and perhaps a message.\<close>

lemma event_edit_D:
  assumes "event_edit san a ev w v d = Inr (e, d')"
  obtains e0 f d1 where "findEvent (ea_org a) ev d = Some e0" "evt_version e0 = v" "sets_no_key f" "keeps_ok f"
    "update_or_stale (ea_org a) ev f v d = Inr (e, d1)" "d_events d' = d_events d1" "d_next d' = d_next d1"
proof (cases w)
  case (WUpdate i)
  with assms obtain e0 where "findEvent (ea_org a) ev d = Some e0" "evt_version e0 = v"
    "update_or_stale (ea_org a) ev (updatable (withCleanDescription san (i\<lparr>ue_version := Some v\<rparr>))) v d = Inr (e, d')"
    by (auto simp: updateEvent_def result_simps assertVersion_def)
  then show ?thesis by (intro that) auto
next
  case (WPublish i now)
  with assms obtain e0 d1 where "findEvent (ea_org a) ev d = Some e0" "evt_version e0 = v"
    "update_or_stale (ea_org a) ev (publishValues (i\<lparr>pe_version := Some v\<rparr>) now) v d = Inr (e, d1)"
    "d' = announcePublished a e now d1"
    by (auto simp: publishEvent_def Let_def result_simps assertVersion_def)
  then show ?thesis by (intro that) (auto simp: announcePublished_def enqueue_def)
next
  case WUnpublish
  with assms obtain e0 where "findEvent (ea_org a) ev d = Some e0" "evt_version e0 = v"
    "update_or_stale (ea_org a) ev unpublishValues v d = Inr (e, d')"
    by (auto simp: unpublishEvent_def result_simps assertVersion_def)
  then show ?thesis by (intro that) auto
next
  case (WCancel reason now)
  with assms obtain e0 d1 where "findEvent (ea_org a) ev d = Some e0" "evt_version e0 = v"
    "update_or_stale (ea_org a) ev (cancelValues now) v d = Inr (e, d1)"
    "d' = announceCancelled a e (js_trim reason) now d1"
    by (auto simp: cancelEvent_def Let_def result_simps assertVersion_def)
  then show ?thesis by (intro that) (auto simp: announceCancelled_def enqueue_def)
qed

lemma edit_db_versions:
  assumes "edit_db san a ev w v d = Inr d'"
  shows "v = version_of a ev d \<and> version_of a ev d' = Suc (version_of a ev d)"
proof -
  from assms obtain e where "event_edit san a ev w v d = Inr (e, d')"
    by (auto simp: edit_db_def bindE_Inr_iff)
  then obtain e0 f d1 where e0: "findEvent (ea_org a) ev d = Some e0" "evt_version e0 = v" "sets_no_key f"
    "update_or_stale (ea_org a) ev f v d = Inr (e, d1)" "d_events d' = d_events d1"
    by (rule event_edit_D)
  have "e = (f e0)\<lparr>evt_version := evt_version e0 + 1\<rparr> \<and> findEvent (ea_org a) ev d1 = Some e"
    by (rule update_or_stale_found [OF e0(1) _ e0(3)]) (use e0 in simp)
  then have "findEvent (ea_org a) ev d' = Some ((f e0)\<lparr>evt_version := v + 1\<rparr>)"
    using e0(2,5) by (simp add: findEvent_def)
  with e0 show ?thesis by (simp add: version_of_def)
qed

interpretation event_edits: versioned "edit_db san a ev" "version_of a ev"
  by unfold_locales (use edit_db_versions in blast)+


section \<open>The lifecycle\<close>

text \<open>
  Everything that touches the events: the service's operations, and whatever the rest of the program does
  (it may take row ids, and leaves this table alone).
\<close>

inductive event_step :: "db \<Rightarrow> db \<Rightarrow> bool" where
  created: "createDraft nfkd san orgName a i d = Inr (e, d') \<Longrightarrow> event_step d d'"
| duplicated: "duplicateBasics nfkd a src d = Inr (e, d') \<Longrightarrow> event_step d d'"
| edited: "event_edit san a ev w v d = Inr (e, d') \<Longrightarrow> event_step d d'"
| deleted: "deleteEvent a ev version d = Inr (u, d') \<Longrightarrow> event_step d d'"
| elsewhere: "d_events d' = d_events d \<Longrightarrow> d_next d \<le> d_next d' \<Longrightarrow> event_step d d'"

definition events_ok :: "db \<Rightarrow> bool" where
  "events_ok d = (distinct (map evt_id (d_events d)) \<and> (\<forall>e\<in>set (d_events d). evt_id e < d_next d)
     \<and> distinct (map (\<lambda>e. (evt_org e, evt_slug e)) (d_events d)) \<and> (\<forall>e\<in>set (d_events d). event_ok e))"

lemma event_insert_keeps:
  assumes "events_ok d" and "event_insert mk d = Inr (e, d')"
    and "event_ok ((mk (d_next d))\<lparr>evt_id := d_next d, evt_version := 1\<rparr>)"
  shows "events_ok d'"
proof -
  define row where "row = (mk (d_next d))\<lparr>evt_id := d_next d, evt_version := 1\<rparr>"
  have "\<not> list_ex (\<lambda>e. evt_org e = evt_org row \<and> evt_slug e = evt_slug row) (d_events d)"
    and d': "d' = d\<lparr>d_events := d_events d @ [row], d_next := d_next d + 1\<rparr>" and id: "evt_id row = d_next d"
    using assms(2) by (auto simp: event_insert_def Let_def row_def split: if_splits)
  then have "(evt_org row, evt_slug row) \<notin> (\<lambda>e. (evt_org e, evt_slug e)) ` set (d_events d)"
    by (auto simp: list_ex_iff)
  moreover have "d_next d \<notin> evt_id ` set (d_events d)" using assms(1) by (auto simp: events_ok_def)
  moreover have "event_ok row" using assms(3) by (simp add: row_def)
  ultimately show ?thesis using assms(1) id by (auto simp: events_ok_def d' less_Suc_eq)
qed

lemma event_edit_keeps:
  assumes "events_ok d" and "event_edit san a ev w v d = Inr (e, d')"
  shows "events_ok d'"
proof -
  obtain f d1 where f: "sets_no_key f" "keeps_ok f" "update_or_stale (ea_org a) ev f v d = Inr (e, d1)"
    "d_events d' = d_events d1" "d_next d' = d_next d1"
    by (rule event_edit_D [OF assms(2)])
  define g where "g = (\<lambda>e. (f e)\<lparr>evt_version := v + 1\<rparr>)"
  have d1: "d1 = d\<lparr>d_events := upd (at_version (ea_org a) ev v) g (d_events d)\<rparr>"
    unfolding g_def by (rule update_or_stale_D [OF f(3)])
  have g: "evt_id (g e) = evt_id e" "evt_org (g e) = evt_org e" "evt_slug (g e) = evt_slug e"
    "event_ok e \<Longrightarrow> event_ok (g e)" for e
    using f(1,2) by (simp_all add: g_def sets_no_key_def keeps_ok_def event_ok_def)
  have "map evt_id (d_events d') = map evt_id (d_events d)"
    "map (\<lambda>e. (evt_org e, evt_slug e)) (d_events d') = map (\<lambda>e. (evt_org e, evt_slug e)) (d_events d)"
    unfolding f(4) d1 by (simp_all, (rule map_upd_key, simp add: g)+)
  then show ?thesis using assms(1) g by (auto simp: events_ok_def f(4,5) d1 in_set_upd)
qed

lemma event_step_keeps: "event_step d d' \<Longrightarrow> events_ok d \<Longrightarrow> events_ok d'"
proof (induction rule: event_step.induct)
  case (created nfkd san orgName a i d e d')
  from created(1) obtain slug where "uniqueSlug nfkd (ea_org a) (cr_name i) d = Some slug"
    and ins: "event_insert (draft_row a i slug (case cr_organizerName i of None \<Rightarrow> orgName (ea_org a) | Some n \<Rightarrow> n)
        (cleanDescription san (cr_description i))) d = Inr (e, d')"
    by (auto simp: createDraft_def bindE_Inr_iff returned_def split: option.splits)
  then have "slug_shaped slug" using uniqueSlug_free [of nfkd "ea_org a" "cr_name i" d] by auto
  then show ?case by (intro event_insert_keeps [OF created(2) ins]) (simp add: event_ok_def draft_row_def)
next
  case (duplicated nfkd a src d e d')
  from duplicated(1) obtain row slug where s: "uniqueSlug nfkd (ea_org a) (evt_name row @ '' (Copy)'') d = Some slug"
    and ins: "event_insert (copy_row a row (evt_name row @ '' (Copy)'') slug) d = Inr (e, d')"
    by (auto simp: duplicateBasics_def bindE_Inr_iff returned_def Let_def split: option.splits)
  then have "slug_shaped slug" using uniqueSlug_free [of nfkd "ea_org a" "evt_name row @ '' (Copy)''" d] by auto
  then show ?case by (intro event_insert_keeps [OF duplicated(2) ins]) (simp add: event_ok_def copy_row_def)
next
  case (edited san a ev w v d e d')
  then show ?case using event_edit_keeps by blast
next
  case (deleted a ev version d u d')
  have "d_events d' = filter (\<lambda>e. evt_id e \<noteq> ev) (d_events d)" "d_next d' = d_next d"
    using deleteEvent_tables [OF deleted(1)] by simp_all
  then show ?case using deleted(2) by (auto simp: events_ok_def distinct_map_filter)
next
  case (elsewhere d' d)
  then show ?case by (fastforce simp: events_ok_def)
qed

interpretation lifecycle: invariant_system event_step events_ok
  by unfold_locales (rule event_step_keeps)


end
