(* ===== verification/EventWitnesses.thy ===== *)
theory EventWitnesses
  imports EventProps Scenario
begin

text \<open>
  The properties of managing events on one workspace: a draft that is created, published, cancelled, and the one that
  is deleted; and what unpublishing makes of a cancelled event.
\<close>

definition demo_actor :: event_actor where "demo_actor = \<lparr>ea_org = 1, ea_user = 9\<rparr>"

definition demo_create :: create_event where
  "demo_create = \<lparr>cr_name = ''Jazz Night'', cr_type = ConcertFestival, cr_startAt = 5000, cr_description = Some ''<p>Come</p>'',
     cr_category = None, cr_organizerName = None\<rparr>"

definition demo_show :: event_row where
  "demo_show = (draft_row demo_actor demo_create ''jazz-night'' ''Org'' (Some ''<p>Come</p>'') 7)
     \<lparr>evt_venueName := Some ''Hall''\<rparr>"

definition demo_shows :: db where "demo_shows = demo_db\<lparr>d_events := [demo_show]\<rparr>"

definition demo_publish :: publish_event where
  "demo_publish = \<lparr>pe_visibility = Some Public, pe_landing = Some Noir, pe_confirmPastStart = False, pe_version = Some 1\<rparr>"

definition demo_published :: "event_row \<times> db" where
  "demo_published = (case publishEvent demo_actor 7 demo_publish 100 demo_shows of Inr r \<Rightarrow> r | Inl _ \<Rightarrow> (demo_show, demo_shows))"

lemma demo_publishes:
  "publishEvent demo_actor 7 demo_publish 100 demo_shows = Inr (fst demo_published, snd demo_published)"
  by code_simp

theorem draft_always_created_witness:
  "\<exists>e. createDraft id id (\<lambda>_. ''Org'') demo_actor demo_create demo_shows
       = Inr (e, demo_shows\<lparr>d_events := d_events demo_shows @ [e], d_next := d_next demo_shows + 1\<rparr>)
     \<and> slug_shaped (evt_slug e) \<and> evt_slug demo_show \<noteq> evt_slug e \<and> evt_status e = Draft"
proof -
  have "case cr_category demo_create of None \<Rightarrow> True | Some c \<Rightarrow> categoryExists (ea_org demo_actor) c demo_shows"
    by (simp add: demo_create_def)
  from draft_always_created [OF this, of id id "\<lambda>_. ''Org''"] obtain e where
    e: "createDraft id id (\<lambda>_. ''Org'') demo_actor demo_create demo_shows
       = Inr (e, demo_shows\<lparr>d_events := d_events demo_shows @ [e], d_next := d_next demo_shows + 1\<rparr>)"
      "slug_shaped (evt_slug e)" "evt_org e = ea_org demo_actor" "evt_status e = Draft"
      "\<forall>x\<in>set (d_events demo_shows). evt_org x = evt_org e \<longrightarrow> evt_slug x \<noteq> evt_slug e" by blast
  moreover have "demo_show \<in> set (d_events demo_shows)" "evt_org demo_show = ea_org demo_actor"
    by (simp_all add: demo_shows_def demo_show_def draft_row_def)
  ultimately show ?thesis by auto
qed

theorem published_is_ready_witness:
  "findEvent 1 7 (snd demo_published) = Some (fst demo_published) \<and> evt_status (fst demo_published) = Upcoming
     \<and> \<not> blank (evt_description (fst demo_published)) \<and> length (d_outbox (snd demo_published)) = 1"
proof -
  have "evt_status (fst demo_published) = Upcoming" "d_outbox demo_shows = []" by code_simp+
  then show ?thesis using published_is_ready [OF demo_publishes] by (auto simp: demo_actor_def)
qed

definition demo_lone_db :: db where "demo_lone_db = empty_db\<lparr>d_events := [demo_show]\<rparr>"

theorem deletion_spares_history_witness:
  "deleteEvent demo_actor 7 None demo_lone_db = Inr ((), empty_db) \<and> event_history 7 demo_lone_db = None"
proof -
  have "deleteEvent demo_actor 7 None demo_lone_db = Inr ((), empty_db)" by code_simp
  with deletion_spares_history [OF this] show ?thesis by blast
qed



text \<open>
  Unpublishing refuses drafts only: a cancelled event becomes a draft again, its date of cancellation kept, and can be
  published a second time.
\<close>

theorem cancelled_event_goes_back_to_draft:
  "\<exists>e d. bindE (event_edit id demo_actor 7 (WCancel ''Rain'' 200) 1 demo_shows) (\<lambda>(_, d). unpublishEvent demo_actor 7 None d)
      = Inr (e, d) \<and> evt_status e = Draft \<and> evt_cancelledAt e = Some 200"
proof -
  let ?r = "bindE (event_edit id demo_actor 7 (WCancel ''Rain'' 200) 1 demo_shows) (\<lambda>(_, d). unpublishEvent demo_actor 7 None d)"
  have "\<not> isl ?r" "evt_status (fst (projr ?r)) = Draft" "evt_cancelledAt (fst (projr ?r)) = Some 200" by code_simp+
  then show ?thesis by (cases ?r) auto
qed

end
