(* ===== verification/TicketingService.thy ===== *)
theory TicketingService
  imports EventsService
begin

text \<open>
  Managing ticket types: \<^verbatim>\<open>ticketing/ticketing.service.ts\<close> with its mapper, the list across events
  (\<^verbatim>\<open>ticketing-query.service.ts\<close>) and the adapters that show ticket types to Checkout, the dashboard
  and the payment settings. The workspace's VAT rate is an argument.
\<close>

section \<open>Answers\<close>

record ticket_response =
  tr_tier :: tier_row
  tr_net :: satang
  tr_vat :: satang
  tr_quantityFromSeats :: bool

definition toTicketResponse :: "tier_row \<Rightarrow> rat \<Rightarrow> bool \<Rightarrow> ticket_response" where
  "toTicketResponse t vatRate fromSeats =
     (let b = vatInclusiveBreakdown (tt_price t) vatRate
      in \<lparr>tr_tier = t\<lparr>tt_price := grossSatang b\<rparr>, tr_net = vb_net b, tr_vat = vb_vat b, tr_quantityFromSeats = fromSeats\<rparr>)"

section \<open>Creating and listing\<close>

record create_ticket =
  ct'_name :: string
  ct'_isFree :: "bool option"
  ct'_price :: "satang option"
  ct'_total :: "int option"
  ct'_admission :: "admission_type option"
  ct'_min :: "int option"
  ct'_max :: "int option"
  ct'_salesStart :: "instant option"
  ct'_salesEnd :: "instant option"

definition assertNameFree :: "ident \<Rightarrow> ident \<Rightarrow> string \<Rightarrow> ident option \<Rightarrow> db \<Rightarrow> error + unit" where
  "assertNameFree org eventId name excludeId d =
     check (\<not> nameExists org eventId name excludeId d)
       (Conflict ''A ticket type with this name already exists for this event.'' [])"

definition or_else :: "'a option \<Rightarrow> 'a \<Rightarrow> 'a" where
  "or_else x y = (case x of None \<Rightarrow> y | Some v \<Rightarrow> v)"

definition new_ticket ::
  "ident \<Rightarrow> ident \<Rightarrow> string \<Rightarrow> create_ticket \<Rightarrow> satang \<Rightarrow> int \<Rightarrow> instant \<Rightarrow> ident \<Rightarrow> tier_row" where
  "new_ticket org eventId name i price count now tid =
     \<lparr>tt_id = tid, tt_org = org, tt_event = eventId, tt_name = name, tt_isFree = or_else (ct'_isFree i) False,
      tt_price = price, tt_status = resolveStatus Scheduled 0 count (ct'_salesStart i) now, tt_sold = 0, tt_total = count,
      tt_salesStartAt = ct'_salesStart i, tt_salesEndAt = ct'_salesEnd i, tt_minPerOrder = or_else (ct'_min i) 1,
      tt_maxPerOrder = or_else (ct'_max i) MAX_SEATS_PER_BOOKING,
      tt_admission = or_else (ct'_admission i) GeneralAdmission, tt_iconClass = None, tt_includes = None,
      tt_isRecommended = False, tt_badge = None, tt_deletedAt = None, tt_version = 1\<rparr>"

definition createTicket ::
  "rat \<Rightarrow> event_actor \<Rightarrow> ident \<Rightarrow> create_ticket \<Rightarrow> instant \<Rightarrow> db \<Rightarrow> ticket_response tx" where
  "createTicket vatRate a eventId i now d =
     bindE (forEvent (ea_org a) eventId d) (\<lambda>seats.
     let name = js_trim (ct'_name i) in
     bindE (assertNameFree (ea_org a) eventId name None d) (\<lambda>_.
     let price = (if or_else (ct'_isFree i) False then 0 else or_else (ct'_price i) 0);
         count = (if seats \<noteq> None then 0 else or_else (ct'_total i) 0) in
     bindE (assertWholeBaht price) (\<lambda>_.
     bindE (assertSalesWindow (ct'_salesStart i) (ct'_salesEnd i)) (\<lambda>_.
     bindE (assertPerOrderBounds (or_else (ct'_min i) 1) (or_else (ct'_max i) MAX_SEATS_PER_BOOKING) count False) (\<lambda>_.
     bindE (ticket_insert (new_ticket (ea_org a) eventId name i price count now) d) (\<lambda>(row, d).
     Inr (toTicketResponse row vatRate (seats \<noteq> None), d)))))))"

definition listTickets :: "rat \<Rightarrow> event_actor \<Rightarrow> ident \<Rightarrow> db \<Rightarrow> error + ticket_response list" where
  "listTickets vatRate a eventId d =
     bindE (forEvent (ea_org a) eventId d) (\<lambda>seats.
     Inr (map (\<lambda>r. toTicketResponse r vatRate (seats \<noteq> None)) (ticket_listByEvent (ea_org a) eventId d)))"

section \<open>Changing\<close>

record update_ticket =
  ut_name :: "string option"
  ut_isFree :: "bool option"
  ut_price :: "satang option"
  ut_total :: "int option"
  ut_admission :: "admission_type option"
  ut_min :: "int option"
  ut_max :: "int option"
  ut_salesStart :: "instant option option"
  ut_salesEnd :: "instant option option"
  ut_version :: "nat option"

definition load_ticket :: "ident \<Rightarrow> ident \<Rightarrow> ident \<Rightarrow> db \<Rightarrow> error + tier_row" where
  "load_ticket org eventId ticketId d =
     (case findTicket org eventId ticketId d of
        None \<Rightarrow> Inl (NotFound ''Ticket type {} not found for this event.'') | Some t \<Rightarrow> Inr t)"

definition stale_ticket :: error where
  "stale_ticket = Conflict ''This ticket type changed elsewhere. Reload and try again.'' []"

definition assertRenameAllowed :: "ident \<Rightarrow> ident \<Rightarrow> ident \<Rightarrow> update_ticket \<Rightarrow> db \<Rightarrow> error + unit" where
  "assertRenameAllowed org eventId ticketId i d =
     (case ut_name i of None \<Rightarrow> Inr () | Some n \<Rightarrow> assertNameFree org eventId (js_trim n) (Some ticketId) d)"

text \<open>The tier as it will be once the input is applied: what the rules judge.\<close>

definition merge_ticket :: "tier_row \<Rightarrow> update_ticket \<Rightarrow> tier_row" where
  "merge_ticket t i = t\<lparr>tt_total := patch (ut_total i) (tt_total t),
     tt_price := (if ut_isFree i = Some True then 0 else patch (ut_price i) (tt_price t)),
     tt_minPerOrder := patch (ut_min i) (tt_minPerOrder t), tt_maxPerOrder := patch (ut_max i) (tt_maxPerOrder t),
     tt_salesStartAt := patch (ut_salesStart i) (tt_salesStartAt t),
     tt_salesEndAt := patch (ut_salesEnd i) (tt_salesEndAt t)\<rparr>"

text \<open>The SET clause: the keys that are present, the name trimmed, a free tier's price zero.\<close>

definition buildValues :: "update_ticket \<Rightarrow> tier_row \<Rightarrow> tier_row" where
  "buildValues i t = t\<lparr>tt_name := (case ut_name i of None \<Rightarrow> tt_name t | Some n \<Rightarrow> js_trim n),
     tt_isFree := patch (ut_isFree i) (tt_isFree t),
     tt_price := (if ut_isFree i = Some True then 0 else patch (ut_price i) (tt_price t)),
     tt_total := patch (ut_total i) (tt_total t), tt_admission := patch (ut_admission i) (tt_admission t),
     tt_minPerOrder := patch (ut_min i) (tt_minPerOrder t), tt_maxPerOrder := patch (ut_max i) (tt_maxPerOrder t),
     tt_salesStartAt := patch (ut_salesStart i) (tt_salesStartAt t),
     tt_salesEndAt := patch (ut_salesEnd i) (tt_salesEndAt t)\<rparr>"

definition ticket_or_stale ::
  "ident \<Rightarrow> ident \<Rightarrow> (tier_row \<Rightarrow> tier_row) \<Rightarrow> nat \<Rightarrow> db \<Rightarrow> tier_row tx" where
  "ticket_or_stale org ticketId vals version d =
     bindE (ticket_update org ticketId vals version d) (\<lambda>(r, d').
       case r of None \<Rightarrow> Inl stale_ticket | Some t \<Rightarrow> Inr (t, d'))"

text \<open>Up to the UPDATE: the row before, the row after, and whether seats set the quantity.\<close>

definition save_ticket ::
  "event_actor \<Rightarrow> ident \<Rightarrow> ident \<Rightarrow> update_ticket \<Rightarrow> instant \<Rightarrow> db \<Rightarrow> (tier_row \<times> tier_row \<times> bool) tx" where
  "save_ticket a eventId ticketId i now d =
     bindE (forEvent (ea_org a) eventId d) (\<lambda>seats.
     bindE (load_ticket (ea_org a) eventId ticketId d) (\<lambda>t.
     bindE (check (ut_version i = None \<or> ut_version i = Some (tt_version t)) stale_ticket) (\<lambda>_.
     bindE (assertChangeAllowedAfterSales t (ut_price i) (ut_isFree i)) (\<lambda>_.
     bindE (case seats of None \<Rightarrow> Inr () | Some m \<Rightarrow> assertQuantityFromSeats (ut_total i) (seats_of m ticketId)) (\<lambda>_.
     bindE (assertRenameAllowed (ea_org a) eventId ticketId i d) (\<lambda>_.
     let merged = merge_ticket t i in
     bindE (assertQuantityNotBelowSold (tt_total merged) (tt_sold t)) (\<lambda>_.
     bindE (assertWholeBaht (tt_price merged)) (\<lambda>_.
     bindE (assertSalesWindow (tt_salesStartAt merged) (tt_salesEndAt merged)) (\<lambda>_.
     bindE (assertPerOrderBounds (tt_minPerOrder merged) (tt_maxPerOrder merged) (tt_total merged) (seats \<noteq> None)) (\<lambda>_.
     bindE (ticket_or_stale (ea_org a) ticketId
              (\<lambda>r. (buildValues i r)\<lparr>tt_status := row_status merged now\<rparr>) (tt_version t) d) (\<lambda>(updated, d).
     Inr ((t, updated, seats \<noteq> None), d))))))))))))"

text \<open>
  The port onto the waitlist. Its adapter never throws (\<open>offerNewPlaces\<close>), and the service catches it if it did. \<open>None\<close> is a call that does
  not return.
\<close>

type_synonym offers_port = "ident \<Rightarrow> ident \<Rightarrow> ident \<Rightarrow> db \<Rightarrow> waitlist_offer_outcome svc option"

definition offerRaisedPlaces ::
  "offers_port \<Rightarrow> ident \<Rightarrow> tier_row \<Rightarrow> tier_row \<Rightarrow> db \<Rightarrow> (waitlist_offer_outcome \<times> db) option" where
  "offerRaisedPlaces waitlist org before aftr d =
     (if \<not> raisesAllocation (tt_total before) (tt_total aftr)
      then Some (\<lparr>wo_offered = 0, wo_interrupted = False\<rparr>, d)
      else case waitlist org (tt_event aftr) (tt_id aftr) d of
          None \<Rightarrow> None
        | Some (Inr outcome, d) \<Rightarrow> Some (outcome, d)
        | Some (Inl e, d) \<Rightarrow> Some (\<lparr>wo_offered = 0, wo_interrupted = True\<rparr>, d))"

definition respondToUpdate ::
  "offers_port \<Rightarrow> rat \<Rightarrow> ident \<Rightarrow> tier_row \<Rightarrow> tier_row \<Rightarrow> bool \<Rightarrow> db
    \<Rightarrow> (ticket_response \<times> waitlist_offer_outcome) svc option" where
  "respondToUpdate waitlist vatRate org before aftr fromSeats d =
     (case offerRaisedPlaces waitlist org before aftr d of
        None \<Rightarrow> None
      | Some (outcome, d) \<Rightarrow>
          Some (case (if wo_offered outcome > 0 then load_ticket org (tt_event aftr) (tt_id aftr) d else Inr aftr) of
                  Inl e \<Rightarrow> (Inl e, d)
                | Inr current \<Rightarrow> (Inr (toTicketResponse current vatRate fromSeats, outcome), d)))"

definition updateTicket ::
  "offers_port \<Rightarrow> rat \<Rightarrow> event_actor \<Rightarrow> ident \<Rightarrow> ident \<Rightarrow> update_ticket \<Rightarrow> instant \<Rightarrow> db
    \<Rightarrow> (ticket_response \<times> waitlist_offer_outcome) svc option" where
  "updateTicket waitlist vatRate a eventId ticketId i now d =
     (case save_ticket a eventId ticketId i now d of
        Inl e \<Rightarrow> Some (Inl e, d)
      | Inr ((before, aftr, fromSeats), d) \<Rightarrow> respondToUpdate waitlist vatRate (ea_org a) before aftr fromSeats d)"

text \<open>The port bound to its adapter.\<close>

definition waitlist_offers ::
  "nat \<Rightarrow> int \<Rightarrow> (ident \<Rightarrow> nat \<Rightarrow> string) \<Rightarrow> instant \<Rightarrow> offers_port" where
  "waitlist_offers fuel win mint now org eventId ticketId d =
     map_option (\<lambda>(outcome, d'). (Inr outcome, d'))
       (offerNewPlaces fuel win mint (\<lambda>o' e. findOwnedForCheckout o' e d) org eventId ticketId now d)"

section \<open>Pausing and resuming\<close>

definition setStatus :: "rat \<Rightarrow> event_actor \<Rightarrow> tier_row \<Rightarrow> ticket_status \<Rightarrow> db \<Rightarrow> ticket_response svc" where
  "setStatus vatRate a t status d =
     bindS (in_tx (ticket_or_stale (ea_org a) (tt_id t) (\<lambda>r. r\<lparr>tt_status := status\<rparr>) (tt_version t)) d) (\<lambda>updated d.
     (map_sum id (\<lambda>seats. toTicketResponse updated vatRate (seats \<noteq> None)) (forEvent (ea_org a) (tt_event t) d), d))"

definition loaded :: "error + 'r \<Rightarrow> ('r \<Rightarrow> db \<Rightarrow> 's svc) \<Rightarrow> db \<Rightarrow> 's svc" where
  "loaded r f d = (case r of Inl e \<Rightarrow> (Inl e, d) | Inr x \<Rightarrow> f x d)"

definition pauseTicket :: "rat \<Rightarrow> event_actor \<Rightarrow> ident \<Rightarrow> ident \<Rightarrow> db \<Rightarrow> ticket_response svc" where
  "pauseTicket vatRate a eventId ticketId d =
     loaded (load_ticket (ea_org a) eventId ticketId d) (\<lambda>t. setStatus vatRate a t Paused) d"

definition resumeTicket :: "rat \<Rightarrow> event_actor \<Rightarrow> ident \<Rightarrow> ident \<Rightarrow> instant \<Rightarrow> db \<Rightarrow> ticket_response svc" where
  "resumeTicket vatRate a eventId ticketId now d =
     loaded (load_ticket (ea_org a) eventId ticketId d) (\<lambda>t d.
       if (case tt_salesEndAt t of None \<Rightarrow> False | Some e \<Rightarrow> e < now)
       then (Inl (Conflict ''Sales for this ticket type have already ended - extend the sales end date first.'' []), d)
       else setStatus vatRate a t (row_status (t\<lparr>tt_status := Onsale\<rparr>) now) d) d"

section \<open>Removing and copying\<close>

datatype delete_outcome = Removed | Retired

definition deleteTicket :: "event_actor \<Rightarrow> ident \<Rightarrow> ident \<Rightarrow> instant \<Rightarrow> db \<Rightarrow> delete_outcome tx" where
  "deleteTicket a eventId ticketId now d =
     bindE (load_ticket (ea_org a) eventId ticketId d) (\<lambda>t.
     bindE (check (\<not> countActive (ea_org a) eventId d \<le> 1)
       (Validation ''An event must keep at least one ticket type - this is the last one.'' [])) (\<lambda>_.
     bindE (forEvent (ea_org a) eventId d) (\<lambda>seats.
     bindE (assertNoSeats (tt_name t) (case seats of None \<Rightarrow> 0 | Some m \<Rightarrow> seats_of m ticketId)) (\<lambda>_.
     bindE (check (\<not> hasActiveHolds (ea_org a) ticketId now d)
       (Conflict ''Someone is checking out with this ticket type - pause it and try again shortly.'' [])) (\<lambda>_.
     let guard = assertUnseatedIn (ea_org a) t in
     if tt_sold t = 0 then bindE (ticket_hardDelete (ea_org a) ticketId guard d) (\<lambda>(_, d). Inr (Removed, d))
     else bindE (ticket_softDelete (ea_org a) ticketId guard now d) (\<lambda>(_, d). Inr (Retired, d)))))))"

definition statusOfCopy :: "tier_row \<Rightarrow> instant \<Rightarrow> ticket_status" where
  "statusOfCopy source now = resolveStatus (tt_status source) 0 (tt_total source) None now"

definition copied_ticket :: "ident \<Rightarrow> ident \<Rightarrow> instant \<Rightarrow> tier_row \<Rightarrow> ident \<Rightarrow> tier_row" where
  "copied_ticket org destEventId now t tid =
     \<lparr>tt_id = tid, tt_org = org, tt_event = destEventId, tt_name = tt_name t, tt_isFree = tt_isFree t,
      tt_price = tt_price t, tt_status = statusOfCopy t now, tt_sold = 0, tt_total = tt_total t, tt_salesStartAt = None,
      tt_salesEndAt = None, tt_minPerOrder = tt_minPerOrder t, tt_maxPerOrder = tt_maxPerOrder t,
      tt_admission = tt_admission t, tt_iconClass = tt_iconClass t, tt_includes = None, tt_isRecommended = False,
      tt_badge = None, tt_deletedAt = None, tt_version = 1\<rparr>"

text \<open>One insert after another, each its own transaction: an error leaves the earlier copies.\<close>

fun copy_tickets :: "ident \<Rightarrow> ident \<Rightarrow> instant \<Rightarrow> tier_row list \<Rightarrow> db \<Rightarrow> unit svc" where
  "copy_tickets org destEventId now [] d = (Inr (), d)"
| "copy_tickets org destEventId now (t # ts) d =
     bindS (in_tx (ticket_insert (copied_ticket org destEventId now t)) d) (\<lambda>_. copy_tickets org destEventId now ts)"

definition ticket_cloneForEvent :: "event_actor \<Rightarrow> ident \<Rightarrow> ident \<Rightarrow> instant \<Rightarrow> db \<Rightarrow> unit svc" where
  "ticket_cloneForEvent a srcEventId destEventId now d =
     copy_tickets (ea_org a) destEventId now (ticket_listByEvent (ea_org a) srcEventId d) d"

section \<open>Every ticket type of the workspace\<close>

definition TICKETS_DEFAULT_LIMIT :: int where "TICKETS_DEFAULT_LIMIT = 20"
definition TICKETS_MAX_LIMIT :: int where "TICKETS_MAX_LIMIT = 100"

record list_tickets =
  lt_page :: "int option"
  lt_limit :: "int option"
  lt_status :: "ticket_status option"
  lt_event :: "ident option"
  lt_search :: "string option"

record inventory_item =
  ii_tier :: tier_row
  ii_eventName :: string
  ii_vatRate :: rat
  ii_quantityFromSeats :: bool

definition seatSet :: "event_brief option \<Rightarrow> ident set \<Rightarrow> bool" where
  "seatSet brief typed = (case brief of None \<Rightarrow> False
     | Some b \<Rightarrow> quantityFromSeats (eb_seatingMode b) (eb_id b \<in> typed))"

definition toInventoryItem :: "tier_row \<Rightarrow> event_brief option \<Rightarrow> rat \<Rightarrow> bool \<Rightarrow> inventory_item" where
  "toInventoryItem t ev vatRate fromSeats =
     \<lparr>ii_tier = t, ii_eventName = (case ev of None \<Rightarrow> '''' | Some b \<Rightarrow> eb_name b), ii_vatRate = vatRate,
      ii_quantityFromSeats = fromSeats\<rparr>"

definition decorate :: "rat \<Rightarrow> ident \<Rightarrow> tier_row list \<Rightarrow> db \<Rightarrow> inventory_item list" where
  "decorate vatRate org rows d =
     (let eventIds = dedupe (map tt_event rows); briefs = briefsByIds org eventIds d;
          typed = eventsWithTypedSeats org eventIds d
      in map (\<lambda>r. let brief = find (\<lambda>b. eb_id b = tt_event r) briefs
                  in toInventoryItem r brief vatRate (seatSet brief typed)) rows)"

definition ticket_list :: "rat \<Rightarrow> event_actor \<Rightarrow> list_tickets \<Rightarrow> db \<Rightarrow> inventory_item list \<times> page_meta" where
  "ticket_list vatRate a q d =
     (let page = clamp_page (lt_page q); limit = clamp_limit TICKETS_DEFAULT_LIMIT TICKETS_MAX_LIMIT (lt_limit q);
          search = map_option js_trim (lt_search q);
          (items, count) = ticket_search (ea_org a) \<lparr>tq_limit = limit, tq_page = page, tq_status = lt_status q,
             tq_event = lt_event q, tq_search = search,
             tq_eventIds = (case search of None \<Rightarrow> None | Some s \<Rightarrow> if s = [] then None else Some (idsMatchingName (ea_org a) s d))\<rparr> d
      in paginated (decorate vatRate (ea_org a) items d) count page limit)"

definition statusCounts :: "event_actor \<Rightarrow> db \<Rightarrow> ticket_status \<Rightarrow> nat" where
  "statusCounts a d = countsByStatus (ea_org a) d"

section \<open>Ticket types as other modules see them\<close>

text \<open>The status is derived as the row is read.\<close>

definition toTier :: "instant \<Rightarrow> tier_row \<Rightarrow> tier_row" where
  "toTier now t = t\<lparr>tt_status := row_status t now\<rparr>"

definition tiersForEvent :: "ident \<Rightarrow> ident \<Rightarrow> instant \<Rightarrow> db \<Rightarrow> tier_row list" where
  "tiersForEvent org eventId now d = map (toTier now) (ticket_listByEvent org eventId d)"

definition tierById :: "ident \<Rightarrow> ident \<Rightarrow> ident \<Rightarrow> instant \<Rightarrow> db \<Rightarrow> tier_row option" where
  "tierById org eventId ticketId now d = map_option (toTier now) (findTicket org eventId ticketId d)"

definition LOW_STOCK_PERCENT :: int where "LOW_STOCK_PERCENT = 80"
definition FULL :: int where "FULL = 100"

definition runningLow :: "ident \<Rightarrow> tier_row \<Rightarrow> bool" where
  "runningLow org t = (tt_org t = org \<and> tt_status t = Onsale \<and> tt_total t > UNLIMITED
     \<and> tt_sold t * FULL \<ge> tt_total t * LOW_STOCK_PERCENT)"

definition countSellingOut :: "ident \<Rightarrow> db \<Rightarrow> nat" where
  "countSellingOut org d = length (filter (runningLow org) (d_tiers d))"

definition hasTicketType :: "ident \<Rightarrow> db \<Rightarrow> bool" where
  "hasTicketType org d = list_ex (\<lambda>t. tt_org t = org \<and> tt_deletedAt t = None) (d_tiers d)"

definition hasPaidTickets :: "ident \<Rightarrow> db \<Rightarrow> bool" where
  "hasPaidTickets org d =
     list_ex (\<lambda>t. tt_org t = org \<and> \<not> tt_isFree t \<and> tt_price t > 0 \<and> tt_deletedAt t = None) (d_tiers d)"

end
