(* ===== verification/TicketProps.thy ===== *)
theory TicketProps
  imports TicketingService SeatMapProps Versioned
begin

text \<open>
  What managing ticket types promises: their terms always make sense, terms people bought under are frozen, and removing
  a ticket type never takes it from somebody who holds one.
\<close>

section \<open>What a save does\<close>

lemma findTicket_Some: "findTicket org ev tid d = Some t \<Longrightarrow>
    t \<in> set (d_tiers d) \<and> tt_id t = tid \<and> tt_event t = ev \<and> tt_org t = org \<and> tt_deletedAt t = None"
  by (auto simp: findTicket_def dest: find_SomeD)

lemma load_ticket_Inr [result_simps]: "load_ticket org ev tid d = Inr t \<longleftrightarrow> findTicket org ev tid d = Some t"
  by (auto simp: load_ticket_def split: option.splits)

lemma ticket_or_stale_D:
  assumes "ticket_or_stale org tid f v d = Inr (t', d')"
  obtains t0 where "find (tier_at_version org tid v) (d_tiers d) = Some t0" "t' = (f t0)\<lparr>tt_version := v + 1\<rparr>"
    "d' = d\<lparr>d_tiers := upd (tier_at_version org tid v) (\<lambda>t. (f t)\<lparr>tt_version := v + 1\<rparr>) (d_tiers d)\<rparr>"
    "\<forall>t\<in>set (d_tiers d). tier_at_version org tid v t \<longrightarrow> tier_violation ((f t)\<lparr>tt_version := v + 1\<rparr>) = None"
proof -
  from assms obtain t0 d1 where f: "find (tier_at_version org tid v) (d_tiers d) = Some t0"
    "t' = (f t0)\<lparr>tt_version := v + 1\<rparr>" and d': "d' = d1"
    and c: "checked_tiers (tier_at_version org tid v) (\<lambda>t. (f t)\<lparr>tt_version := v + 1\<rparr>) d = Inr d1"
    by (auto simp: ticket_or_stale_def ticket_update_def Let_def bindE_Inr_iff split: option.splits)
  show thesis using checked_tiers_D [OF c] by (intro that [OF f]) (simp_all add: d')
qed

text \<open>With distinct ids the row that was loaded is the one row that is written.\<close>

lemma upd_one_row:
  assumes "distinct (map tt_id xs)" and "t \<in> set xs" and "P t" and "\<And>x. P x \<Longrightarrow> tt_id x = tt_id t"
  shows "upd P f xs = upd (\<lambda>x. tt_id x = tt_id t) (\<lambda>x. f t) xs"
proof -
  have one: "x = t" if "x \<in> set xs" "tt_id x = tt_id t" for x
    using assms(1,2) that by (auto simp: distinct_map inj_on_def)
  have "P x \<longleftrightarrow> tt_id x = tt_id t" if "x \<in> set xs" for x
    using one [OF that] assms(3,4) by metis
  then show ?thesis unfolding upd_def by (intro map_cong refl) (use one in auto)
qed

lemma ticket_save_row:
  assumes "distinct (map tt_id (d_tiers d))" and "findTicket org ev tid d = Some t"
    and "ticket_or_stale org tid f (tt_version t) d = Inr (t', d')"
  shows "t' = (f t)\<lparr>tt_version := tt_version t + 1\<rparr>"
    and "d' = d\<lparr>d_tiers := upd (\<lambda>x. tt_id x = tid) (\<lambda>x. t') (d_tiers d)\<rparr>" and "tier_violation t' = None"
proof -
  note F = findTicket_Some [OF assms(2)]
  have only: "x = t" if "x \<in> set (d_tiers d)" "tt_id x = tid" for x
    using assms(1) F that by (auto simp: distinct_map inj_on_def)
  obtain t0 where
    t0: "find (tier_at_version org tid (tt_version t)) (d_tiers d) = Some t0" "t' = (f t0)\<lparr>tt_version := tt_version t + 1\<rparr>"
    and d': "d' = d\<lparr>d_tiers := upd (tier_at_version org tid (tt_version t)) (\<lambda>x. (f x)\<lparr>tt_version := tt_version t + 1\<rparr>) (d_tiers d)\<rparr>"
    and v: "\<forall>x\<in>set (d_tiers d). tier_at_version org tid (tt_version t) x \<longrightarrow>
      tier_violation ((f x)\<lparr>tt_version := tt_version t + 1\<rparr>) = None"
    by (rule ticket_or_stale_D [OF assms(3)])
  have "t0 = t" using find_SomeD [OF t0(1)] only by (simp add: tier_at_version_def)
  then show t': "t' = (f t)\<lparr>tt_version := tt_version t + 1\<rparr>" using t0 by simp
  have "tier_at_version org tid (tt_version t) t" using F by (simp add: tier_at_version_def)
  then show "tier_violation t' = None" using v F t' by simp
  have "upd (tier_at_version org tid (tt_version t)) (\<lambda>x. (f x)\<lparr>tt_version := tt_version t + 1\<rparr>) (d_tiers d)
      = upd (\<lambda>x. tt_id x = tt_id t) (\<lambda>x. (f t)\<lparr>tt_version := tt_version t + 1\<rparr>) (d_tiers d)"
    by (rule upd_one_row [OF assms(1)]) (use F in \<open>auto simp: tier_at_version_def\<close>)
  then show "d' = d\<lparr>d_tiers := upd (\<lambda>x. tt_id x = tid) (\<lambda>x. t') (d_tiers d)\<rparr>" using d' F t' by simp
qed

definition window_ok :: "tier_row \<Rightarrow> bool" where
  "window_ok t = (case (tt_salesStartAt t, tt_salesEndAt t) of (Some s, Some e) \<Rightarrow> s < e | _ \<Rightarrow> True)"

text \<open>Terms a ticket type can be sold on.\<close>

definition terms_ok :: "tier_row \<Rightarrow> bool" where
  "terms_ok t = (0 \<le> tt_price t \<and> tt_price t mod SATANG_PER_BAHT = 0 \<and> (tt_isFree t \<longrightarrow> tt_price t = 0)
     \<and> 1 \<le> tt_minPerOrder t \<and> tt_minPerOrder t \<le> tt_maxPerOrder t \<and> tt_maxPerOrder t \<le> MAX_SEATS_PER_BOOKING
     \<and> window_ok t \<and> 0 \<le> tt_sold t \<and> tt_sold t \<le> tt_total t)"

lemma policy_Inr [result_simps]:
  "assertWholeBaht p = Inr u \<longleftrightarrow> p mod SATANG_PER_BAHT = 0"
  "assertPerOrderBounds lo hi n b = Inr u \<longleftrightarrow> hi \<le> MAX_SEATS_PER_BOOKING \<and> 1 \<le> lo \<and> lo \<le> hi \<and> (b \<or> n = UNLIMITED \<or> hi \<le> n)"
  "assertQuantityNotBelowSold n s = Inr u \<longleftrightarrow> s \<le> n"
  "assertChangeAllowedAfterSales t pr fr = Inr u \<longleftrightarrow> tt_sold t = 0 \<or>
     ((pr = None \<or> pr = Some (tt_price t)) \<and> (fr = None \<or> fr = Some (tt_isFree t)))"
  "assertNameFree org ev nm x d = Inr u \<longleftrightarrow> \<not> nameExists org ev nm x d"
  by (auto simp: assertWholeBaht_def assertPerOrderBounds_def assertQuantityNotBelowSold_def
      assertChangeAllowedAfterSales_def assertNameFree_def check_def)

lemma assertSalesWindow_Inr [result_simps]:
  "assertSalesWindow s e = Inr u \<longleftrightarrow> (case (s, e) of (Some s, Some e) \<Rightarrow> s < e | _ \<Rightarrow> True)"
  by (auto simp: assertSalesWindow_def check_def split: option.splits)

lemma tier_violation_None: "tier_violation t = None \<longleftrightarrow>
    (tt_isFree t \<longrightarrow> tt_price t = 0) \<and> 0 \<le> tt_price t \<and> 0 \<le> tt_sold t \<and> tt_sold t \<le> tt_total t"
  by (auto simp: tier_violation_def sold_within_total_def)

lemma save_ticket_D:
  assumes "save_ticket a ev tid i now d = Inr ((t, t', b), d')" and "distinct (map tt_id (d_tiers d))"
  shows "findTicket (ea_org a) ev tid d = Some t"
    and "t' = (buildValues i t)\<lparr>tt_status := row_status (merge_ticket t i) now, tt_version := tt_version t + 1\<rparr>"
    and "d' = d\<lparr>d_tiers := upd (\<lambda>x. tt_id x = tid) (\<lambda>x. t') (d_tiers d)\<rparr>"
    and "terms_ok t'" and "tt_sold t' = tt_sold t"
    and "tt_sold t \<noteq> 0 \<Longrightarrow> tt_price t = 0 \<or> \<not> tt_isFree t \<Longrightarrow> tt_price t' = tt_price t \<and> tt_isFree t' = tt_isFree t"
    and "tt_name t' = tt_name t \<or> \<not> nameExists (ea_org a) ev (tt_name t') (Some tid) d"
    and "\<And>v. ut_version i = Some v \<Longrightarrow> v = tt_version t"
proof -
  from assms(1) have l: "findTicket (ea_org a) ev tid d = Some t" and v: "ut_version i = None \<or> ut_version i = Some (tt_version t)"
    and c: "tt_sold t = 0 \<or> ((ut_price i = None \<or> ut_price i = Some (tt_price t)) \<and> (ut_isFree i = None \<or> ut_isFree i = Some (tt_isFree t)))"
    and r: "assertRenameAllowed (ea_org a) ev tid i d = Inr ()"
    and m: "tt_sold t \<le> tt_total (merge_ticket t i)" "tt_price (merge_ticket t i) mod SATANG_PER_BAHT = 0"
      "window_ok (merge_ticket t i)" "tt_maxPerOrder (merge_ticket t i) \<le> MAX_SEATS_PER_BOOKING"
      "1 \<le> tt_minPerOrder (merge_ticket t i)" "tt_minPerOrder (merge_ticket t i) \<le> tt_maxPerOrder (merge_ticket t i)"
    and s: "ticket_or_stale (ea_org a) tid (\<lambda>x. (buildValues i x)\<lparr>tt_status := row_status (merge_ticket t i) now\<rparr>) (tt_version t) d
        = Inr (t', d')"
    by (auto simp: save_ticket_def Let_def result_simps window_ok_def)
  show "findTicket (ea_org a) ev tid d = Some t" by (rule l)
  note R = ticket_save_row [OF assms(2) l s]
  show t': "t' = (buildValues i t)\<lparr>tt_status := row_status (merge_ticket t i) now, tt_version := tt_version t + 1\<rparr>"
    using R(1) by simp
  show "d' = d\<lparr>d_tiers := upd (\<lambda>x. tt_id x = tid) (\<lambda>x. t') (d_tiers d)\<rparr>" by (rule R(2))
  show "tt_sold t' = tt_sold t" by (simp add: t' buildValues_def)
  show "terms_ok t'" using m R(3) [unfolded tier_violation_None]
    by (simp add: terms_ok_def t' buildValues_def merge_ticket_def window_ok_def)
  show "tt_price t' = tt_price t \<and> tt_isFree t' = tt_isFree t" if "tt_sold t \<noteq> 0" "tt_price t = 0 \<or> \<not> tt_isFree t"
    using c that by (auto simp: t' buildValues_def patch_def)
  show "tt_name t' = tt_name t \<or> \<not> nameExists (ea_org a) ev (tt_name t') (Some tid) d"
    using r by (cases "ut_name i") (simp_all add: t' buildValues_def assertRenameAllowed_def result_simps)
  show "v = tt_version t" if "ut_version i = Some v" for v using v that by simp
qed

text \<open>
  An organizer's change of a ticket type keeps to its rules: it was made from the row as it stood, what has been sold
  is not touched and still fits the new quantity, once anything is sold the price and whether it is free are what they were,
  the new terms can be sold on (whole baht, free means zero, one to eight places per order, a window that opens before it closes), the
  status is the one these terms imply, and no other ticket type and no other table changes.
\<close>
theorem ticket_change_within_rules:
  assumes "save_ticket a ev tid i now d = Inr ((t, t', b), d')" and "distinct (map tt_id (d_tiers d))"
    and "list_all terms_ok (d_tiers d)"
  shows "findTicket (ea_org a) ev tid d = Some t \<and> (ut_version i = None \<or> ut_version i = Some (tt_version t))
     \<and> tt_sold t' = tt_sold t \<and> tt_sold t' \<le> tt_total t'
     \<and> (tt_sold t = 0 \<or> tt_price t' = tt_price t \<and> tt_isFree t' = tt_isFree t)
     \<and> terms_ok t' \<and> tt_status t' = resolveStatus (tt_status t) (tt_sold t') (tt_total t') (tt_salesStartAt t') now
     \<and> tt_version t' = tt_version t + 1 \<and> findTicket (ea_org a) ev tid d' = Some t'
     \<and> d' = d\<lparr>d_tiers := upd (\<lambda>x. tt_id x = tid) (\<lambda>x. t') (d_tiers d)\<rparr>"
proof -
  note S = save_ticket_D [OF assms(1,2)]
  note F = findTicket_Some [OF S(1)]
  have "terms_ok t" using assms(3) F by (simp add: list_all_iff)
  then have "tt_sold t = 0 \<or> tt_price t' = tt_price t \<and> tt_isFree t' = tt_isFree t"
    using S(6) by (auto simp: terms_ok_def)
  moreover have "tt_status t' = resolveStatus (tt_status t) (tt_sold t') (tt_total t') (tt_salesStartAt t') now"
    by (simp add: S(2) row_status_def merge_ticket_def buildValues_def)
  moreover have "findTicket (ea_org a) ev tid d' = Some t'"
  proof -
    have key: "tt_id t' = tid \<and> tt_event t' = ev \<and> tt_org t' = ea_org a \<and> tt_deletedAt t' = None"
      using F by (simp add: S(2) buildValues_def)
    let ?P = "\<lambda>t. tt_id t = tid \<and> tt_event t = ev \<and> tt_org t = ea_org a \<and> tt_deletedAt t = None"
    have "distinct (map tt_id xs) \<Longrightarrow> t \<in> set xs \<Longrightarrow> find ?P (upd (\<lambda>x. tt_id x = tid) (\<lambda>x. t') xs) = Some t'" for xs
      using key F by (induction xs) auto
    with assms(2) F show ?thesis by (simp add: findTicket_def S(3))
  qed
  moreover have "tt_version t' = tt_version t + 1" by (simp add: S(2))
  moreover have "ut_version i = None \<or> ut_version i = Some (tt_version t)"
    using S(8) by (cases "ut_version i") auto
  ultimately show ?thesis using S(1,3-5) S(4) [unfolded terms_ok_def] by blast
qed

section \<open>Removing\<close>

lemma remove_tiers_D:
  assumes "remove_tiers P d = Inr d'"
  shows "d_tiers d' = filter (\<lambda>t. \<not> P t) (d_tiers d)" "d_items d' = d_items d" "d_tickets d' = d_tickets d"
    "d_orders d' = d_orders d" "d_next d' = d_next d"
    "\<And>t. t \<in> set (d_tiers d) \<Longrightarrow> P t \<Longrightarrow> (\<forall>x\<in>set (d_items d). oi_type x \<noteq> tt_id t) \<and> (\<forall>k\<in>set (d_tickets d). t_type k \<noteq> tt_id t)"
proof -
  have none: "\<forall>x\<in>set (d_items d). \<forall>t\<in>set (d_tiers d). P t \<longrightarrow> tt_id t \<noteq> oi_type x"
    "\<forall>k\<in>set (d_tickets d). \<forall>t\<in>set (d_tiers d). P t \<longrightarrow> tt_id t \<noteq> t_type k"
    using assms by (auto simp: remove_tiers_def Let_def list_ex_iff split: if_splits)
  show "(\<forall>x\<in>set (d_items d). oi_type x \<noteq> tt_id t) \<and> (\<forall>k\<in>set (d_tickets d). t_type k \<noteq> tt_id t)"
    if "t \<in> set (d_tiers d)" "P t" for t
    using none that by metis
qed (use assms in \<open>auto simp: remove_tiers_def Let_def split: if_splits\<close>)

text \<open>
  Removing a ticket type takes nothing from anybody: a type with sales is only marked as retired, its row otherwise as
  it was; it is erased only when nothing was ever ordered or issued under it; every order item and ticket
  finds the ticket type it found before; the event keeps another type on sale; and no seat sells under a type that has left.
\<close>
theorem removal_takes_nothing:
  assumes "deleteTicket a ev tid now d = Inr (r, d')" and "distinct (map tt_id (d_tiers d))"
  shows "\<exists>t. findTicket (ea_org a) ev tid d = Some t \<and> findTicket (ea_org a) ev tid d' = None
     \<and> d_items d' = d_items d \<and> d_tickets d' = d_tickets d \<and> d_orders d' = d_orders d
     \<and> (if tt_sold t = 0
        then r = Removed \<and> d_tiers d' = filter (\<lambda>x. tt_id x \<noteq> tid) (d_tiers d)
          \<and> (\<forall>x\<in>set (d_items d). oi_type x \<noteq> tid) \<and> (\<forall>k\<in>set (d_tickets d). t_type k \<noteq> tid)
        else r = Retired \<and> d' = d\<lparr>d_tiers := upd (\<lambda>x. tt_id x = tid) (\<lambda>x. t\<lparr>tt_deletedAt := Some now\<rparr>) (d_tiers d)\<rparr>)
     \<and> (\<exists>x\<in>set (d_tiers d'). tt_id x \<noteq> tid \<and> live_tier (ea_org a) ev x)
     \<and> \<not> hasActiveHolds (ea_org a) tid now d \<and> seatsOfTicketTypeIn (ea_org a) tid d = 0"
proof -
  from assms(1) obtain t where l: "findTicket (ea_org a) ev tid d = Some t" and n: "1 < countActive (ea_org a) ev d"
    and h: "\<not> hasActiveHolds (ea_org a) tid now d"
    and del: "if tt_sold t = 0 then r = Removed \<and> (\<exists>b. ticket_hardDelete (ea_org a) tid (assertUnseatedIn (ea_org a) t) d = Inr (b, d'))
      else r = Retired \<and> (\<exists>b. ticket_softDelete (ea_org a) tid (assertUnseatedIn (ea_org a) t) now d = Inr (b, d'))"
    by (auto simp: deleteTicket_def Let_def result_simps split: if_splits)
  note F = findTicket_Some [OF l]
  have only: "x = t" if "x \<in> set (d_tiers d)" "tt_id x = tid" for x
    using assms(2) F that by (auto simp: distinct_map inj_on_def)
  have seats: "seatsOfTicketTypeIn (ea_org a) tid d = 0"
    using del F by (auto simp: ticket_hardDelete_def ticket_softDelete_def assertUnseatedIn_def assertNoSeats_def result_simps split: if_splits)
  obtain y where y: "y \<in> set (d_tiers d)" "live_tier (ea_org a) ev y" "tt_id y \<noteq> tid"
  proof (rule ccontr)
    assume "\<not> thesis"
    then have "set (filter (live_tier (ea_org a) ev) (d_tiers d)) \<subseteq> {t}" using that only by auto
    moreover have "distinct (filter (live_tier (ea_org a) ev) (d_tiers d))"
      using assms(2) by (simp add: distinct_map)
    ultimately have "length (filter (live_tier (ea_org a) ev) (d_tiers d)) \<le> 1"
      by (metis card_mono distinct_card finite.emptyI finite_insert is_singletonI is_singleton_altdef)
    with n show False by (simp add: countActive_def)
  qed
  show ?thesis
  proof (cases "tt_sold t = 0")
    case True
    with del have r: "r = Removed" and "remove_tiers (\<lambda>x. tt_id x = tid \<and> tt_org x = ea_org a \<and> tt_sold x = 0) d = Inr d'"
      by (auto simp: ticket_hardDelete_def Let_def result_simps)
    note R = remove_tiers_D [OF this(2)]
    have same: "filter (\<lambda>x. \<not> (tt_id x = tid \<and> tt_org x = ea_org a \<and> tt_sold x = 0)) (d_tiers d)
        = filter (\<lambda>x. tt_id x \<noteq> tid) (d_tiers d)"
      using True by (intro filter_cong refl) (metis F only)
    have "findTicket (ea_org a) ev tid d' = None"
      unfolding findTicket_def R(1) same find_None_iff by auto
    then show ?thesis using True r R y h seats l F same by (intro exI [of _ t]) auto
  next
    case False
    with del have r: "r = Retired" and
      d': "d' = d\<lparr>d_tiers := upd (\<lambda>x. tt_id x = tid \<and> tt_org x = ea_org a \<and> tt_deletedAt x = None)
        (\<lambda>x. x\<lparr>tt_deletedAt := Some now\<rparr>) (d_tiers d)\<rparr>"
      by (auto simp: ticket_softDelete_def Let_def result_simps)
    have "upd (\<lambda>x. tt_id x = tid \<and> tt_org x = ea_org a \<and> tt_deletedAt x = None) (\<lambda>x. x\<lparr>tt_deletedAt := Some now\<rparr>) (d_tiers d)
        = upd (\<lambda>x. tt_id x = tt_id t) (\<lambda>x. t\<lparr>tt_deletedAt := Some now\<rparr>) (d_tiers d)"
      by (rule upd_one_row [OF assms(2)]) (use F in auto)
    then have same: "d' = d\<lparr>d_tiers := upd (\<lambda>x. tt_id x = tid) (\<lambda>x. t\<lparr>tt_deletedAt := Some now\<rparr>) (d_tiers d)\<rparr>"
      using d' F by simp
    have "findTicket (ea_org a) ev tid d' = None"
      by (auto simp: findTicket_def same find_None_iff in_set_upd)
    moreover have "y \<in> set (d_tiers d')" using y by (auto simp: same in_set_upd)
    ultimately show ?thesis using False r y h seats l same by (intro exI [of _ t]) auto
  qed
qed

end
