(* ===== verification/Discounts.thy ===== *)
theory Discounts
  imports TicketingService Redemptions
begin

text \<open>
  Discount codes: the rules of \<^verbatim>\<open>discounts/discounts.policy.ts\<close>, \<^verbatim>\<open>discounts.repository.ts\<close>, the
  organizer's operations (\<^verbatim>\<open>discounts.service.ts\<close>), the quote at checkout
  (\<^verbatim>\<open>discount-redemption.service.ts\<close>), the list (\<^verbatim>\<open>discounts-query.service.ts\<close>) and the code
  generator, whose random numbers are an argument.
\<close>

section \<open>Rules\<close>

definition CODE_MIN :: nat where "CODE_MIN = 3"
definition CODE_MAX :: nat where "CODE_MAX = 24"
definition PERCENT_MIN :: int where "PERCENT_MIN = 1"
definition PERCENT_MAX :: int where "PERCENT_MAX = 100"
definition MIN_FIXED_SATANG :: int where "MIN_FIXED_SATANG = 1"

definition code_char :: "char \<Rightarrow> bool" where
  "code_char c = (is_upper c \<or> is_digit c \<or> c = CHR ''-'')"

definition normaliseCode :: "string \<Rightarrow> error + string" where
  "normaliseCode raw =
     (let code = map upper (js_trim raw) in
      if length code < CODE_MIN \<or> length code > CODE_MAX
      then Inl (Validation ''A code must be {}-{} characters.'' [Num (int CODE_MIN), Num (int CODE_MAX)])
      else if code = [] \<or> \<not> list_all code_char code
      then Inl (Validation ''A code can use letters, numbers and hyphens only.'' [])
      else Inr code)"

definition assertValue :: "discount_type \<Rightarrow> int \<Rightarrow> error + unit" where
  "assertValue type v =
     (case type of
        Percent \<Rightarrow> check (PERCENT_MIN \<le> v \<and> v \<le> PERCENT_MAX)
          (Validation ''A percentage discount must be between {} and {}.'' [Num PERCENT_MIN, Num PERCENT_MAX])
      | Fixed \<Rightarrow> check (MIN_FIXED_SATANG \<le> v) (Validation ''A fixed discount must be at least one satang.'' []))"

definition assertLimits :: "int \<Rightarrow> int \<Rightarrow> error + unit" where
  "assertLimits redemptionLimit perPersonLimit =
     check (redemptionLimit = UNLIMITED_REDEMPTIONS \<or> perPersonLimit = UNLIMITED_REDEMPTIONS \<or> perPersonLimit \<le> redemptionLimit)
       (Validation ''The per-person limit ({}) can't exceed the total usage limit ({}).''
          [Num perPersonLimit, Num redemptionLimit])"

definition assertWindow :: "instant option \<Rightarrow> instant option \<Rightarrow> instant \<Rightarrow> error + unit" where
  "assertWindow validFrom validUntil now =
     bindE (case (validFrom, validUntil) of
              (Some f, Some u) \<Rightarrow> check (\<not> u \<le> f) (Validation ''The end date must come after the start date.'' [])
            | _ \<Rightarrow> Inr ()) (\<lambda>_.
     case validUntil of
       None \<Rightarrow> Inr ()
     | Some u \<Rightarrow> check (\<not> u < now)
         (Validation ''That validity window has already expired - pick an end date in the future.'' []))"

record update_discount =
  ud_code :: "string option"
  ud_type :: "discount_type option"
  ud_value :: "int option"
  ud_event :: "ident option option"
  ud_redemptionLimit :: "int option"
  ud_perPersonLimit :: "int option"
  ud_minOrder :: "satang option"
  ud_validFrom :: "instant option option"
  ud_validUntil :: "instant option option"
  ud_version :: "nat option"

definition assertChangeAllowedAfterUse :: "code_row \<Rightarrow> update_discount \<Rightarrow> error + unit" where
  "assertChangeAllowedAfterUse current i =
     bindE (case ud_redemptionLimit i of
              None \<Rightarrow> Inr ()
            | Some l \<Rightarrow> check (\<not> (l \<noteq> UNLIMITED_REDEMPTIONS \<and> l < dc_used current))
                (Validation ''The usage limit can't drop below the {} redemptions already made.'' [Num (dc_used current)])) (\<lambda>_.
     if dc_used current = 0 then Inr ()
     else
       let changesCode = (case ud_code i of None \<Rightarrow> False | Some c \<Rightarrow> map upper (js_trim c) \<noteq> dc_code current);
           changesValue = ((ud_value i \<noteq> None \<and> ud_value i \<noteq> Some (dc_value current))
             \<or> (ud_type i \<noteq> None \<and> ud_type i \<noteq> Some (dc_type current)))
       in check (\<not> changesCode \<and> \<not> changesValue)
         (Conflict ''The code and its value can't change after it has been used - create a new code instead.'' []))"

definition code_exhausted :: "code_row \<Rightarrow> bool" where
  "code_exhausted c = (dc_redemptionLimit c \<noteq> UNLIMITED_REDEMPTIONS \<and> dc_used c \<ge> dc_redemptionLimit c)"

definition isPastWindow :: "code_row \<Rightarrow> instant \<Rightarrow> bool" where
  "isPastWindow c now = (case dc_validUntil c of None \<Rightarrow> False | Some u \<Rightarrow> u < now)"

definition code_status :: "code_row \<Rightarrow> instant \<Rightarrow> discount_status" where
  "code_status c now =
     (if dc_status c = DDisabled then DDisabled
      else if code_exhausted c \<or> isPastWindow c now then DExpired
      else if (case dc_validFrom c of None \<Rightarrow> False | Some f \<Rightarrow> now < f) then DScheduled
      else DActive)"

definition assertRevivable :: "code_row \<Rightarrow> instant \<Rightarrow> error + unit" where
  "assertRevivable c now = check (\<not> code_exhausted c \<and> \<not> isPastWindow c now)
     (Conflict ''This code has expired - update its dates or usage limit to revive it.'' [])"

section \<open>The table\<close>

text \<open>The check constraints and the unique key, whose NULL event is unlike any other.\<close>

definition code_checks :: "code_row \<Rightarrow> bool" where
  "code_checks c = (0 \<le> dc_used c \<and> 0 \<le> dc_redemptionLimit c \<and> 0 \<le> dc_perPersonLimit c \<and> 0 \<le> dc_minOrder c
     \<and> (case dc_type c of Percent \<Rightarrow> 1 \<le> dc_value c \<and> dc_value c \<le> 100 | Fixed \<Rightarrow> 1 \<le> dc_value c))"

definition code_key_index :: "code_row list \<Rightarrow> bool" where
  "code_key_index cs = uniq (\<lambda>c. dc_event c \<noteq> None) (\<lambda>c. (dc_org c, dc_event c, dc_code c)) cs"

definition stored_codes :: "code_row list \<Rightarrow> db \<Rightarrow> error + db" where
  "stored_codes cs d =
     (if \<not> list_all code_checks cs then Inl (DbViolation ck_discount_codes)
      else if \<not> code_key_index cs then Inl (DbViolation uq_discount_codes_org_event_code)
      else Inr (d\<lparr>d_codes := cs\<rparr>))"

definition discount_insert :: "(ident \<Rightarrow> code_row) \<Rightarrow> db \<Rightarrow> code_row tx" where
  "discount_insert mk d =
     (let row = (mk (d_next d))\<lparr>dc_id := d_next d\<rparr> in
      bindE (stored_codes (d_codes d @ [row]) d) (\<lambda>d'. Inr (row, d'\<lparr>d_next := d_next d + 1\<rparr>)))"

definition live_code :: "ident \<Rightarrow> code_row \<Rightarrow> bool" where
  "live_code org c = (dc_org c = org \<and> dc_deletedAt c = None)"

definition findById :: "ident \<Rightarrow> ident \<Rightarrow> db \<Rightarrow> code_row option" where
  "findById org code d = find (\<lambda>c. dc_id c = code \<and> live_code org c) (d_codes d)"

text \<open>
  \<^verbatim>\<open>ORDER BY event_id DESC LIMIT 1\<close>: PostgreSQL puts a NULL first, so a code of the whole workspace precedes
  one of the event.
\<close>

definition findUsable :: "ident \<Rightarrow> string \<Rightarrow> ident \<Rightarrow> db \<Rightarrow> code_row option" where
  "findUsable org code eventId d =
     (let rows = filter (\<lambda>c. live_code org c \<and> dc_code c = code \<and> (dc_event c = None \<or> dc_event c = Some eventId)) (d_codes d)
      in case filter (\<lambda>c. dc_event c = None) rows @ filter (\<lambda>c. dc_event c \<noteq> None) rows of
           [] \<Rightarrow> None | c # _ \<Rightarrow> Some c)"

definition codeExists :: "ident \<Rightarrow> string \<Rightarrow> ident option \<Rightarrow> ident option \<Rightarrow> db \<Rightarrow> bool" where
  "codeExists org code eventId excludeId d =
     list_ex (\<lambda>c. live_code org c \<and> dc_code c = code \<and> dc_event c = eventId \<and> Some (dc_id c) \<noteq> excludeId) (d_codes d)"

definition allCodes :: "ident \<Rightarrow> db \<Rightarrow> string list" where
  "allCodes org d = map dc_code (filter (\<lambda>c. dc_org c = org) (d_codes d))"

definition discount_update ::
  "ident \<Rightarrow> ident \<Rightarrow> (code_row \<Rightarrow> code_row) \<Rightarrow> nat \<Rightarrow> db \<Rightarrow> code_row option tx" where
  "discount_update org code vals currentVersion d =
     (let P = (\<lambda>c. dc_id c = code \<and> live_code org c \<and> dc_version c = currentVersion);
          set_row = (\<lambda>c. (vals c)\<lparr>dc_version := currentVersion + 1\<rparr>)
      in bindE (stored_codes (upd P set_row (d_codes d)) d) (\<lambda>d'.
         Inr (map_option set_row (find P (d_codes d)), d')))"

definition discount_softDelete :: "ident \<Rightarrow> ident \<Rightarrow> instant \<Rightarrow> db \<Rightarrow> bool tx" where
  "discount_softDelete org code now d =
     (let P = (\<lambda>c. dc_id c = code \<and> live_code org c)
      in Inr (list_ex P (d_codes d),
           d\<lparr>d_codes := upd P (\<lambda>c. c\<lparr>dc_deletedAt := Some now, dc_status := DDisabled\<rparr>) (d_codes d)\<rparr>))"

definition discount_hardDelete :: "ident \<Rightarrow> ident \<Rightarrow> db \<Rightarrow> bool tx" where
  "discount_hardDelete org code d =
     (let P = (\<lambda>c. dc_id c = code \<and> dc_org c = org \<and> dc_used c = 0)
      in bindE (remove_codes P d) (\<lambda>d'. Inr (list_ex P (d_codes d), d')))"

definition liveCodes :: "ident \<Rightarrow> db \<Rightarrow> code_row list" where
  "liveCodes org d = filter (live_code org) (d_codes d)"

definition redemptionsByBuyer :: "ident \<Rightarrow> ident \<Rightarrow> string \<Rightarrow> db \<Rightarrow> nat" where
  "redemptionsByBuyer org code buyerEmail d =
     length (filter (\<lambda>r. rd_org r = org \<and> rd_code r = code \<and> ci_eq (rd_buyerEmail r) buyerEmail) (d_redemptions d))"

definition syncStatuses :: "ident \<Rightarrow> (ident \<times> discount_status) list \<Rightarrow> db \<Rightarrow> db" where
  "syncStatuses org changes d =
     d\<lparr>d_codes := foldl (\<lambda>cs (i, s). upd (\<lambda>c. dc_id c = i \<and> dc_org c = org) (\<lambda>c. c\<lparr>dc_status := s\<rparr>) cs) (d_codes d) changes\<rparr>"

section \<open>The organizer\<close>

record create_discount =
  cd_code :: string
  cd_type :: discount_type
  cd_value :: int
  cd_event :: "ident option"
  cd_redemptionLimit :: "int option"
  cd_perPersonLimit :: "int option"
  cd_minOrder :: "satang option"
  cd_validFrom :: "instant option"
  cd_validUntil :: "instant option"

definition load_code :: "ident \<Rightarrow> ident \<Rightarrow> db \<Rightarrow> error + code_row" where
  "load_code org code d =
     (case findById org code d of None \<Rightarrow> Inl (NotFound ''Discount code not found.'') | Some c \<Rightarrow> Inr c)"

definition stale_code :: error where
  "stale_code = Conflict ''This code changed elsewhere. Reload and try again.'' []"

definition assertCodeFree :: "ident \<Rightarrow> string \<Rightarrow> ident option \<Rightarrow> ident option \<Rightarrow> db \<Rightarrow> error + unit" where
  "assertCodeFree org code eventId excludeId d =
     check (\<not> codeExists org code eventId excludeId d) (Conflict ''The code \"{}\" is already in use.'' [Txt code])"

definition new_code :: "ident \<Rightarrow> create_discount \<Rightarrow> string \<Rightarrow> instant \<Rightarrow> ident \<Rightarrow> code_row" where
  "new_code org i code now cid =
     (let row = \<lparr>dc_id = cid, dc_org = org, dc_event = cd_event i, dc_code = code, dc_type = cd_type i, dc_value = cd_value i,
          dc_status = DActive, dc_used = 0, dc_redemptionLimit = or_else (cd_redemptionLimit i) 0,
          dc_perPersonLimit = or_else (cd_perPersonLimit i) 0, dc_minOrder = or_else (cd_minOrder i) 0,
          dc_validFrom = cd_validFrom i, dc_validUntil = cd_validUntil i, dc_deletedAt = None, dc_version = 1\<rparr>
      in row\<lparr>dc_status := code_status row now\<rparr>)"

definition createDiscount :: "ident \<Rightarrow> create_discount \<Rightarrow> instant \<Rightarrow> db \<Rightarrow> code_row tx" where
  "createDiscount org i now d =
     bindE (normaliseCode (cd_code i)) (\<lambda>code.
     bindE (assertValue (cd_type i) (cd_value i)) (\<lambda>_.
     bindE (assertLimits (or_else (cd_redemptionLimit i) 0) (or_else (cd_perPersonLimit i) 0)) (\<lambda>_.
     bindE (assertWindow (cd_validFrom i) (cd_validUntil i) now) (\<lambda>_.
     bindE (assertCodeFree org code (cd_event i) None d) (\<lambda>_.
     discount_insert (new_code org i code now) d)))))"

text \<open>The keys a PATCH may set, on a row.\<close>

definition patched_code :: "update_discount \<Rightarrow> code_row \<Rightarrow> code_row" where
  "patched_code i c = c\<lparr>dc_type := patch (ud_type i) (dc_type c), dc_value := patch (ud_value i) (dc_value c),
     dc_event := patch (ud_event i) (dc_event c),
     dc_redemptionLimit := patch (ud_redemptionLimit i) (dc_redemptionLimit c),
     dc_perPersonLimit := patch (ud_perPersonLimit i) (dc_perPersonLimit c),
     dc_minOrder := patch (ud_minOrder i) (dc_minOrder c), dc_validFrom := patch (ud_validFrom i) (dc_validFrom c),
     dc_validUntil := patch (ud_validUntil i) (dc_validUntil c)\<rparr>"

definition code_or_stale ::
  "ident \<Rightarrow> ident \<Rightarrow> (code_row \<Rightarrow> code_row) \<Rightarrow> nat \<Rightarrow> db \<Rightarrow> code_row tx" where
  "code_or_stale org code vals version d =
     bindE (discount_update org code vals version d) (\<lambda>(r, d').
       case r of None \<Rightarrow> Inl stale_code | Some c \<Rightarrow> Inr (c, d'))"

definition updateDiscount :: "ident \<Rightarrow> ident \<Rightarrow> update_discount \<Rightarrow> instant \<Rightarrow> db \<Rightarrow> code_row tx" where
  "updateDiscount org code i now d =
     bindE (load_code org code d) (\<lambda>row.
     bindE (check (ud_version i = None \<or> ud_version i = Some (dc_version row)) stale_code) (\<lambda>_.
     bindE (assertChangeAllowedAfterUse row i) (\<lambda>_.
     let merged = patched_code i row in
     bindE (assertValue (dc_type merged) (dc_value merged)) (\<lambda>_.
     bindE (assertLimits (dc_redemptionLimit merged) (dc_perPersonLimit merged)) (\<lambda>_.
     bindE (assertWindow (dc_validFrom merged) (dc_validUntil merged) now) (\<lambda>_.
     bindE (case ud_code i of
              None \<Rightarrow> Inr None
            | Some raw \<Rightarrow> bindE (normaliseCode raw) (\<lambda>c.
                bindE (assertCodeFree org c (dc_event merged) (Some code) d) (\<lambda>_. Inr (Some c)))) (\<lambda>newCode.
     code_or_stale org code (\<lambda>r. (patched_code i r)\<lparr>dc_code := patch newCode (dc_code r),
         dc_status := code_status merged now\<rparr>) (dc_version row) d)))))))"

definition code_setStatus :: "ident \<Rightarrow> code_row \<Rightarrow> discount_status \<Rightarrow> db \<Rightarrow> code_row tx" where
  "code_setStatus org row status d = code_or_stale org (dc_id row) (\<lambda>c. c\<lparr>dc_status := status\<rparr>) (dc_version row) d"

definition disableDiscount :: "ident \<Rightarrow> ident \<Rightarrow> db \<Rightarrow> code_row tx" where
  "disableDiscount org code d = bindE (load_code org code d) (\<lambda>row. code_setStatus org row DDisabled d)"

definition enableDiscount :: "ident \<Rightarrow> ident \<Rightarrow> instant \<Rightarrow> db \<Rightarrow> code_row tx" where
  "enableDiscount org code now d =
     bindE (load_code org code d) (\<lambda>row.
     bindE (assertRevivable row now) (\<lambda>_.
     code_setStatus org row (code_status (row\<lparr>dc_status := DActive\<rparr>) now) d))"

definition deleteDiscount :: "ident \<Rightarrow> ident \<Rightarrow> instant \<Rightarrow> db \<Rightarrow> delete_outcome tx" where
  "deleteDiscount org code now d =
     bindE (load_code org code d) (\<lambda>row.
     if dc_used row = 0 then bindE (discount_hardDelete org code d) (\<lambda>(_, d). Inr (Removed, d))
     else bindE (discount_softDelete org code now d) (\<lambda>(_, d). Inr (Retired, d)))"

section \<open>Suggesting a code\<close>

definition WORDS :: "string list" where
  "WORDS = [''PROMO'', ''SAVE'', ''EARLY'', ''BONUS'', ''TREAT'', ''FRIEND'', ''WELCOME'', ''THANKS'', ''CHEER'', ''BOOST'',
     ''SPARK'', ''LUCKY'']"

definition ATTEMPTS_BEFORE_WIDENING :: nat where "ATTEMPTS_BEFORE_WIDENING = 40"

text \<open>The draws of \<^verbatim>\<open>randomInt\<close>: a word's place and a suffix, narrow and wide.\<close>

definition drawn :: "(nat \<Rightarrow> nat \<times> nat) \<Rightarrow> nat \<Rightarrow> string" where
  "drawn draws i = (case draws i of (w, n) \<Rightarrow> WORDS ! w @ digits n)"

partial_function (option) widen :: "string list \<Rightarrow> (nat \<Rightarrow> nat \<times> nat) \<Rightarrow> nat \<Rightarrow> string option" where
  "widen taken draws i = (let code = drawn draws i in
     if code \<in> set taken then widen taken draws (i + 1) else Some code)"

definition generate_code :: "string list \<Rightarrow> (nat \<Rightarrow> nat \<times> nat) \<Rightarrow> (nat \<Rightarrow> nat \<times> nat) \<Rightarrow> string option" where
  "generate_code taken narrow wide =
     (case find (\<lambda>c. c \<notin> set taken) (map (drawn narrow) [0..<ATTEMPTS_BEFORE_WIDENING]) of
        Some c \<Rightarrow> Some c | None \<Rightarrow> widen taken wide 0)"

definition suggestCode :: "ident \<Rightarrow> (nat \<Rightarrow> nat \<times> nat) \<Rightarrow> (nat \<Rightarrow> nat \<times> nat) \<Rightarrow> db \<Rightarrow> string option" where
  "suggestCode org narrow wide d = generate_code (allCodes org d) narrow wide"

section \<open>The quote at checkout\<close>

record quote_request =
  qr_code :: string
  qr_event :: ident
  qr_subtotal :: satang
  qr_buyerEmail :: "string option"

text \<open>The amount is formatted for the reader; here it is the number of satang.\<close>

definition assertUsable :: "code_row \<Rightarrow> quote_request \<Rightarrow> instant \<Rightarrow> error + unit" where
  "assertUsable c i now =
     (let name = [Txt (dc_code c)] in
      if dc_status c = DDisabled then Inl (Validation ''{} is no longer available.'' name)
      else if (case dc_validFrom c of None \<Rightarrow> False | Some f \<Rightarrow> now < f) then Inl (Validation ''{} isn't active yet.'' name)
      else if isPastWindow c now then Inl (Validation ''{} has expired.'' name)
      else if dc_event c \<noteq> None \<and> dc_event c \<noteq> Some (qr_event i) then Inl (Validation ''{} can't be used for this event.'' name)
      else if code_exhausted c then Inl (Validation ''{} has reached its redemption limit.'' name)
      else if qr_subtotal i < dc_minOrder c
      then Inl (Validation ''Add {} more to use {}.'' (Num (dc_minOrder c - qr_subtotal i) # name))
      else Inr ())"

definition assertBuyerHasRoom :: "ident \<Rightarrow> code_row \<Rightarrow> string option \<Rightarrow> db \<Rightarrow> error + unit" where
  "assertBuyerHasRoom org c buyerEmail d =
     (case buyerEmail of
        None \<Rightarrow> Inr ()
      | Some email \<Rightarrow>
          if dc_perPersonLimit c = 0 \<or> email = [] then Inr ()
          else check (int (redemptionsByBuyer org (dc_id c) email d) < dc_perPersonLimit c)
            (Validation ''You've already used {}.'' [Txt (dc_code c)]))"

definition discount_quote_for ::
  "(ident \<Rightarrow> rat) \<Rightarrow> quote_request \<Rightarrow> instant \<Rightarrow> db \<Rightarrow> error + (code_row \<times> discount_quote)" where
  "discount_quote_for vatRate i now d =
     (if qr_subtotal i \<le> 0 then Inl (Validation ''There's nothing to discount - this order is already free.'' [])
      else case organizationIdFor (qr_event i) d of
          None \<Rightarrow> Inl (NotFound ''This event isn't available.'')
        | Some org \<Rightarrow>
            bindE (normaliseCode (qr_code i)) (\<lambda>code.
            case findUsable org code (qr_event i) d of
              None \<Rightarrow> Inl (Validation ''{} isn't a code we recognise for this event.'' [Txt code])
            | Some row \<Rightarrow>
                bindE (assertUsable row i now) (\<lambda>_.
                bindE (assertBuyerHasRoom org row (qr_buyerEmail i) d) (\<lambda>_.
                Inr (row, quoteDiscount (dc_type row) (dc_value row) (qr_subtotal i) (vatRate org))))))"

section \<open>The list\<close>

record list_discounts =
  ld_page :: "int option"
  ld_limit :: "int option"
  ld_status :: "discount_status option"
  ld_event :: "ident option"
  ld_search :: "string option"

text \<open>Every live code's status is derived again, and a difference written back.\<close>

definition settleStatuses :: "ident \<Rightarrow> code_row list \<Rightarrow> instant \<Rightarrow> db \<Rightarrow> db" where
  "settleStatuses org rows now d =
     syncStatuses org (map (\<lambda>c. (dc_id c, code_status c now)) (filter (\<lambda>c. code_status c now \<noteq> dc_status c) rows)) d"

definition code_searchWhere ::
  "ident \<Rightarrow> discount_status option \<Rightarrow> ident option \<Rightarrow> string option \<Rightarrow> ident list option \<Rightarrow> code_row \<Rightarrow> bool" where
  "code_searchWhere org status ev search eventIds c = (live_code org c
     \<and> (case status of None \<Rightarrow> True | Some s \<Rightarrow> dc_status c = s)
     \<and> (case ev of None \<Rightarrow> True | Some e \<Rightarrow> dc_event c = Some e \<or> dc_event c = None)
     \<and> (case search of None \<Rightarrow> True
        | Some s \<Rightarrow> s = [] \<or> ilike (dc_code c) (contains_term s)
            \<or> (case eventIds of None \<Rightarrow> False | Some es \<Rightarrow> (case dc_event c of None \<Rightarrow> False | Some e \<Rightarrow> e \<in> set es))))"

definition scope_label :: "ident \<Rightarrow> code_row list \<Rightarrow> db \<Rightarrow> code_row \<Rightarrow> string" where
  "scope_label org rows d c =
     (case dc_event c of
        None \<Rightarrow> ''All events''
      | Some e \<Rightarrow> (case find (\<lambda>b. eb_id b = e) (briefsByIds org (List.map_filter dc_event rows) d) of
            None \<Rightarrow> '''' | Some b \<Rightarrow> eb_name b))"

definition discount_list ::
  "ident \<Rightarrow> list_discounts \<Rightarrow> instant \<Rightarrow> db \<Rightarrow> ((code_row \<times> string) list \<times> page_meta) \<times> db" where
  "discount_list org q now d =
     (let page = clamp_page (ld_page q); limit = clamp_limit 20 100 (ld_limit q);
          search = map_option js_trim (ld_search q);
          d = settleStatuses org (liveCodes org d) now d;
          eventIds = (case search of None \<Rightarrow> None | Some s \<Rightarrow> if s = [] then None else Some (idsMatchingName org s d));
          rows = rev (filter (code_searchWhere org (ld_status q) (ld_event q) search eventIds) (d_codes d));
          items = page_of page limit rows
      in (paginated (map (\<lambda>c. (c, scope_label org items d c)) items) (int (length rows)) page limit, d))"

end
