(* ===== verification/Workspace.thy ===== *)
theory Workspace
  imports TicketProps Discounts OfferStock
begin

text \<open>
  The whole workspace as one step relation: the transactions of the booking side together with everything an
  organizer's modules write (ticket types, seat maps, events, discount codes), the bookkeeping of payments, refunds, invoices and
  messages included, which leaves the inventory alone, and the inventory invariant in every
  state they reach in whatever order.
\<close>

section \<open>What the organizer's transactions keep\<close>

lemma checked_tiers_keeps:
  assumes "checkout_inv d" and "checked_tiers P f d = Inr d'"
    and "\<And>t. tt_id (f t) = tt_id t" "\<And>t. tt_org (f t) = tt_org t" "\<And>t. tt_sold (f t) = tt_sold t"
  shows "checkout_inv d'"
proof -
  note C = checked_tiers_D [OF assms(2)]
  have "updateTiers P f d = Inr d'"
    using C [unfolded tier_violation_None] by (auto simp: updateTiers_def list_all_iff sold_within_total_def)
  then show ?thesis using stock_ok_edit_tiers assms(1,3-5) unfolding checkout_inv_def by blast
qed

lemma ticket_update_keeps:
  assumes "checkout_inv d" and "ticket_update org tid f v d = Inr (r, d')"
    and "\<And>t. tt_id (f t) = tt_id t \<and> tt_org (f t) = tt_org t \<and> tt_sold (f t) = tt_sold t"
  shows "checkout_inv d'"
proof -
  from assms(2) have "checked_tiers (tier_at_version org tid v) (\<lambda>t. (f t)\<lparr>tt_version := v + 1\<rparr>) d = Inr d'"
    by (auto simp: ticket_update_def Let_def bindE_Inr_iff)
  then show ?thesis by (rule checked_tiers_keeps [OF assms(1)]) (simp_all add: assms(3))
qed

lemma set_totals_keeps: "checkout_inv d \<Longrightarrow> set_totals org f now ts d = Inr d' \<Longrightarrow> checkout_inv d'"
proof (induction ts arbitrary: d)
  case (Cons t ts)
  from Cons.prems(2) obtain d1 where one: "setTotalIn org (tt_id t) (f (tt_id t))
      (resolveStatus (tt_status t) (tt_sold t) (f (tt_id t)) (tt_salesStartAt t) now) d = Inr d1"
    and r: "set_totals org f now ts d1 = Inr d'" by (auto simp: bindE_Inr_iff)
  have "checkout_inv d1"
    by (rule checked_tiers_keeps [OF Cons.prems(1) one [unfolded setTotalIn_def]]) simp_all
  then show ?case by (rule Cons.IH [OF _ r])
qed simp

definition fresh_type :: "db \<Rightarrow> bool" where
  "fresh_type d = (d_next d \<notin> tt_id ` set (d_tiers d) \<and> (\<forall>i\<in>set (d_items d). oi_type i \<noteq> d_next d)
     \<and> (\<forall>x\<in>set (d_tickets d). t_type x \<noteq> d_next d))"

lemma keeps_inv:
  assumes "checkout_inv d" and "d_orders d' = d_orders d" "d_items d' = d_items d" "d_tickets d' = d_tickets d"
    "d_tiers d' = d_tiers d" "d_next d \<le> d_next d'" "d_assignments d' = d_assignments d"
    "\<exists>P. d_holds d' = filter P (d_holds d)"
  shows "checkout_inv d'"
  using keeps_tables [OF assms(1) [unfolded checkout_inv_def] assms(2-8)] by (simp add: checkout_inv_def)

lemma same_holds: "d_holds d' = d_holds d \<Longrightarrow> \<exists>P. d_holds d' = filter P (d_holds d)"
  by (rule exI [of _ "\<lambda>_. True"]) simp

lemma ticket_insert_keeps:
  assumes "checkout_inv d" and "fresh_type d" and "ticket_insert mk d = Inr (r, d')"
  shows "checkout_inv d'"
proof -
  let ?row = "(mk (d_next d))\<lparr>tt_id := d_next d, tt_sold := 0, tt_includes := None, tt_isRecommended := False,
          tt_badge := None, tt_deletedAt := None, tt_version := 1\<rparr>"
  from assms(3) have v: "tier_violation ?row = None" and d': "d' = d\<lparr>d_tiers := d_tiers d @ [?row], d_next := d_next d + 1\<rparr>"
    by (auto simp: ticket_insert_def Let_def split: option.splits)
  have total: "0 \<le> tt_total ?row" using v by (simp add: tier_violation_None)
  have "inventory_step d (d\<lparr>d_tiers := d_tiers d @ [?row]\<rparr>)"
    by (rule inventory_step.tier_added) (use assms(2) total in \<open>auto simp: fresh_type_def\<close>)
  then have "checkout_inv (d\<lparr>d_tiers := d_tiers d @ [?row]\<rparr>)"
    using checkout.inv_run [OF r_into_rtranclp] assms(1) by blast
  then show ?thesis unfolding d' by (rule keeps_inv) (auto intro: same_holds)
qed

lemma ticket_softDelete_keeps:
  assumes "checkout_inv d" and "ticket_softDelete org tid guard now d = Inr (r, d')"
  shows "checkout_inv d'"
proof -
  let ?P = "\<lambda>t. tt_id t = tid \<and> tt_org t = org \<and> tt_deletedAt t = None"
  have "updateTiers ?P (\<lambda>t. t\<lparr>tt_deletedAt := Some now\<rparr>) d = Inr d'"
    using assms by (auto simp: ticket_softDelete_def Let_def bindE_Inr_iff updateTiers_def list_all_iff
        checkout_inv_def stock_defs sold_within_total_def)
  then show ?thesis
    using stock_ok_edit_tiers [of d ?P "\<lambda>t. t\<lparr>tt_deletedAt := Some now\<rparr>" d'] assms(1) by (simp add: checkout_inv_def)
qed

lemma removals_keep:
  assumes "checkout_inv d"
  shows "remove_tiers P d = Inr d' \<Longrightarrow> checkout_inv d'" and "remove_maps Q d = Inr d' \<Longrightarrow> checkout_inv d'"
    and "remove_codes R d = Inr d' \<Longrightarrow> checkout_inv d'" and "remove_event ev d = Inr d' \<Longrightarrow> checkout_inv d'"
    and "remove_seats S d = Inr d' \<Longrightarrow> checkout_inv d'"
  using assms remove_tiers_keeps remove_maps_keeps remove_codes_keeps remove_event_keeps remove_seats_keeps
  unfolding checkout_inv_def by blast+

lemma found_Inr_iff: "(case x of None \<Rightarrow> Inl e | Some y \<Rightarrow> Inr (y, d)) = Inr (m, d') \<longleftrightarrow> x = Some m \<and> d = d'"
  by (cases x) auto

lemma applyReserved_keeps:
  assumes "checkout_inv d" and "applyReserved org params planner now d = Inr (m, d')"
  shows "checkout_inv d'"
proof -
  from assms(2) obtain plan mapId d1 d2 d3 where
    s: "saveMap org params (findMap org (rs_event params) d) d = Inr (mapId, d1)" and
    w: "writeSeats org mapId plan d1 = Inr d2" and
    q: "(case rp_seatsByTier plan of None \<Rightarrow> Inr d2
         | Some seats \<Rightarrow> setSeatQuantitiesIn org (rs_event params) seats now d2) = Inr d3" and d': "d' = d3"
    by (auto simp: applyReserved_def Let_def bindE_Inr_iff found_Inr_iff)
  have "checkout_inv d1"
    by (rule keeps_inv [OF assms(1)]; (subst saveMap_D(1) [OF s])?)
      (use saveMap_D(2) [OF s] in \<open>auto intro: same_holds split: option.splits\<close>)
  then have "checkout_inv d2"
  proof -
    from w obtain dr where r: "(if rp_removedSeatIds plan = [] then Inr d1
            else remove_seats (\<lambda>s. s_id s \<in> set (rp_removedSeatIds plan)) d1) = Inr dr"
      and i: "insertSeats org mapId (rp_added plan) (dr\<lparr>d_seats := retypeSeats (rp_retyped plan) (d_seats dr)\<rparr>) = Inr d2"
      by (auto simp: writeSeats_def bindE_Inr_iff)
    have "checkout_inv dr" using r \<open>checkout_inv d1\<close> removals_keep(5) by (auto split: if_splits)
    then show ?thesis
      by (rule keeps_inv) (use i in \<open>auto simp: insertSeats_def Let_def split: if_splits intro: same_holds\<close>)
  qed
  then have "checkout_inv d3"
    using q by (auto simp: setSeatQuantitiesIn_def Let_def bindE_Inr_iff intro: set_totals_keeps split: option.splits)
  then show ?thesis by (simp add: d')
qed

section \<open>The workspace\<close>

inductive workspace_step :: "db \<Rightarrow> db \<Rightarrow> bool" where
  booking: "inventory_step d d' \<Longrightarrow> workspace_step d d'"
| type_created: "fresh_type d \<Longrightarrow> ticket_insert mk d = Inr (t, d') \<Longrightarrow> workspace_step d d'"
| type_updated: "(\<And>t. tt_id (f t) = tt_id t \<and> tt_org (f t) = tt_org t \<and> tt_sold (f t) = tt_sold t) \<Longrightarrow>
    ticket_update org tid f v d = Inr (tu, d') \<Longrightarrow> workspace_step d d'"
| type_retired: "ticket_softDelete org tid guard now d = Inr (b, d') \<Longrightarrow> workspace_step d d'"
| type_erased: "ticket_hardDelete org tid guard d = Inr (b, d') \<Longrightarrow> workspace_step d d'"
| seats_saved: "applyReserved org params planner now d = Inr (m, d') \<Longrightarrow> workspace_step d d'"
| seats_cleared: "clearSeating org ev d = Inr (u, d') \<Longrightarrow> workspace_step d d'"
| event_created: "event_insert mke d = Inr (e, d') \<Longrightarrow> workspace_step d d'"
| event_updated: "event_update org ev fe v d = Inr (eu, d') \<Longrightarrow> workspace_step d d'"
| event_erased: "event_hardDelete org ev d = Inr (u, d') \<Longrightarrow> workspace_step d d'"
| code_created: "discount_insert mkc d = Inr (c, d') \<Longrightarrow> workspace_step d d'"
| code_updated: "discount_update org cid fc v d = Inr (cu, d') \<Longrightarrow> workspace_step d d'"
| code_retired: "discount_softDelete org cid now d = Inr (b, d') \<Longrightarrow> workspace_step d d'"
| code_erased: "discount_hardDelete org cid d = Inr (b, d') \<Longrightarrow> workspace_step d d'"
| codes_settled: "workspace_step d (syncStatuses org changes d)"
| bookkeeping: "inventory (d'\<lparr>d_next := d_next d\<rparr>) = inventory d \<Longrightarrow> d_next d \<le> d_next d' \<Longrightarrow> workspace_step d d'"

lemma workspace_step_keeps: "workspace_step d d' \<Longrightarrow> checkout_inv d \<Longrightarrow> checkout_inv d'"
proof (induction rule: workspace_step.induct)
  case (booking d d')
  then show ?case using checkout.inv_run [OF r_into_rtranclp] by blast
next
  case (type_created d mk t d')
  then show ?case using ticket_insert_keeps by blast
next
  case (type_updated f org tid v d tu d')
  then show ?case using ticket_update_keeps by blast
next
  case (type_retired org tid guard now d b d')
  then show ?case using ticket_softDelete_keeps by blast
next
  case (type_erased org tid guard d b d')
  then show ?case by (auto simp: ticket_hardDelete_def Let_def bindE_Inr_iff intro: removals_keep(1))
next
  case (seats_saved org params planner now d m d')
  then show ?case using applyReserved_keeps by blast
next
  case (seats_cleared org ev d u d')
  then show ?case by (auto simp: clearSeating_def bindE_Inr_iff intro: removals_keep(2))
next
  case (event_created mke d e d')
  then show ?case by (auto simp: event_insert_def Let_def split: if_splits elim!: keeps_inv intro: same_holds)
next
  case (event_updated org ev fe v d eu d')
  then show ?case by (auto simp: event_update_def Let_def elim!: keeps_inv intro: same_holds)
next
  case (event_erased org ev d u d')
  then show ?case by (auto simp: event_hardDelete_def bindE_Inr_iff split: if_splits intro: removals_keep(4))
next
  case (code_created mkc d c d')
  then show ?case
    by (auto simp: discount_insert_def stored_codes_def Let_def bindE_Inr_iff split: if_splits elim!: keeps_inv intro: same_holds)
next
  case (code_updated org cid fc v d cu d')
  then show ?case
    by (auto simp: discount_update_def stored_codes_def Let_def bindE_Inr_iff split: if_splits elim!: keeps_inv intro: same_holds)
next
  case (code_retired org cid now d b d')
  then show ?case by (auto simp: discount_softDelete_def Let_def elim!: keeps_inv intro: same_holds)
next
  case (code_erased org cid d b d')
  then show ?case by (auto simp: discount_hardDelete_def Let_def bindE_Inr_iff intro: removals_keep(3))
next
  case (codes_settled d org changes)
  then show ?case by (auto simp: syncStatuses_def elim!: keeps_inv intro: same_holds)
next
  case (bookkeeping d' d)
  from inventory_eqD [OF this(1)] have "d_orders d' = d_orders d" "d_items d' = d_items d" "d_tickets d' = d_tickets d"
    "d_tiers d' = d_tiers d" "d_assignments d' = d_assignments d" "d_holds d' = d_holds d" by simp_all
  then show ?case by (intro keeps_inv [OF bookkeeping(3)] same_holds bookkeeping(2)) simp_all
qed

interpretation workspace: invariant_system workspace_step checkout_inv
  by unfold_locales (rule workspace_step_keeps)

definition workspace_reachable :: "db \<Rightarrow> bool" where
  "workspace_reachable d = (\<exists>d0. nothing_sold d0 \<and> workspace_step\<^sup>*\<^sup>* d0 d)"

lemma workspace_reachable_inv: "workspace_reachable d \<Longrightarrow> checkout_inv d"
proof -
  assume "workspace_reachable d"
  then obtain d0 where "nothing_sold d0" "workspace_step\<^sup>*\<^sup>* d0 d" by (auto simp: workspace_reachable_def)
  moreover have "reachable d0" using \<open>nothing_sold d0\<close> by (auto simp: reachable_def)
  ultimately show ?thesis
    using workspace.inv_run reachable_inv by (auto simp: checkout_inv_def)
qed

end
