(* ===== verification/WorkspaceProps.thy ===== *)
theory WorkspaceProps
  imports Workspace CheckoutProps
begin

text \<open>
  What holds in every state of the workspace, whatever buyers, organizers and the door do in whatever order; and what
  raising an allocation does for the people waiting.
\<close>


text \<open>
  C2. In every state the workspace reaches a seat has at most one live assignment, of a ticket that still
  admits its holder and belongs to the same workspace, and at most one active hold.
\<close>
theorem one_person_per_seat:
  assumes "workspace_reachable d"
  shows "(\<forall>a\<in>set (d_assignments d). \<forall>b\<in>set (d_assignments d).
       sa_releasedAt a = None \<and> sa_releasedAt b = None \<and> sa_seat a = sa_seat b \<longrightarrow> a = b)
    \<and> (\<forall>a\<in>set (d_assignments d). sa_releasedAt a = None \<longrightarrow>
         (\<exists>k\<in>set (d_tickets d). t_id k = sa_ticket a \<and> t_org k = sa_org a \<and> t_status k \<in> {TIssued, TCheckedIn}))
    \<and> (\<forall>g\<in>set (d_holds d). \<forall>h\<in>set (d_holds d). h_status g = HActive \<and> h_status h = HActive
         \<and> h_seat g = h_seat h \<and> h_seat h \<noteq> None \<longrightarrow> g = h)"
  by (rule seats_one_person [OF conjunct2 [OF workspace_reachable_inv [OF assms, unfolded checkout_inv_def]]])

section \<open>Raising an allocation\<close>

lemma ticket_or_stale_keeps:
  assumes "checkout_inv d" and "ticket_or_stale org tid f v d = Inr (r, d')"
    and "\<And>t. tt_id (f t) = tt_id t \<and> tt_org (f t) = tt_org t \<and> tt_sold (f t) = tt_sold t"
  shows "checkout_inv d'"
proof -
  from assms(2) obtain x where "ticket_update org tid f v d = Inr (x, d')"
    by (auto simp: ticket_or_stale_def bindE_Inr_iff split: option.splits)
  then show ?thesis by (rule ticket_update_keeps [OF assms(1) _ assms(3)])
qed

lemma save_ticket_keeps:
  assumes "checkout_inv d" and "save_ticket a ev tid i now d = Inr (r, d')"
  shows "checkout_inv d'"
proof -
  from assms(2) obtain t x where "ticket_or_stale (ea_org a) tid
      (\<lambda>r. (buildValues i r)\<lparr>tt_status := row_status (merge_ticket t i) now\<rparr>) (tt_version t) d = Inr (x, d')"
    by (auto simp: save_ticket_def Let_def bindE_Inr_iff)
  then show ?thesis by (rule ticket_or_stale_keeps [OF assms(1)]) (simp add: buildValues_def)
qed

lemma raised_within:
  assumes "within_stock org d" and "distinct (map tt_id (d_tiers d))" and "t \<in> set (d_tiers d)"
    and "tt_id t' = tt_id t" "tt_org t' = tt_org t" "tt_sold t' = tt_sold t" "tt_total t \<le> tt_total t'"
  shows "within_stock org (d\<lparr>d_tiers := upd (\<lambda>x. tt_id x = tt_id t) (\<lambda>x. t') (d_tiers d)\<rparr>)"
  using assms by (force simp: within_stock_def in_set_upd activeHeldQuantity_def split: if_splits)

text \<open>
  Raising a ticket type's quantity serves the people waiting for it and oversells nothing: with more rounds allowed than
  people waiting the call returns; whoever it served was the front of the line, in the order of the line, each once, and the rest of the line
  is as it was; what is sold and what is on hold still fit every allocation; and the invariants of the workspace stand.
\<close>
theorem raised_allocation_serves_line:
  assumes "workspace_reachable d" and "within_stock (ea_org a) d"
    and "save_ticket a ev tid i now d = Inr ((t, t', b), d1)" and "raisesAllocation (tt_total t) (tt_total t')"
    and "length (the_line (ea_org a) tid d1) < fuel"
  shows "\<exists>outcome k d' r. offerRaisedPlaces (waitlist_offers fuel win mint now) (ea_org a) t t' d1 = Some (outcome, d')
     \<and> updateTicket (waitlist_offers fuel win mint now) vat a ev tid i now d = Some (r, d')
     \<and> wo_offered outcome = k \<and> k \<le> length (the_line (ea_org a) tid d1)
     \<and> the_line (ea_org a) tid d' = drop k (the_line (ea_org a) tid d1)
     \<and> within_stock (ea_org a) d' \<and> checkout_inv d'"
proof -
  have inv: "checkout_inv d" by (rule workspace_reachable_inv [OF assms(1)])
  then have ids: "distinct (map tt_id (d_tiers d))" by (simp add: checkout_inv_def stock_defs)
  note S = save_ticket_D [OF assms(3) ids] and inv1 = save_ticket_keeps [OF inv assms(3)]
  note F = findTicket_Some [OF S(1)]
  have t': "tt_id t' = tid" "tt_org t' = ea_org a" "tt_event t' = ev" using F by (simp_all add: S(2) buildValues_def)
  have within: "within_stock (ea_org a) d1"
    unfolding S(3) using raised_within [OF assms(2) ids, of t t'] F t' S(5) assms(4) by (simp add: raisesAllocation_def)
  have line: "\<exists>outcome k d'. offerNewPlaces fuel win mint (\<lambda>o' e. findOwnedForCheckout o' e d1) (ea_org a) ev tid now d1 = Some (outcome, d')
     \<and> wo_offered outcome = k \<and> k \<le> length (the_line (ea_org a) tid d1)
     \<and> the_line (ea_org a) tid d' = drop k (the_line (ea_org a) tid d1) \<and> within_stock (ea_org a) d' \<and> checkout_inv d'"
  proof -
    have keys: "line_keys d1" using inv1 line_keys_stock by (simp add: checkout_inv_def)
    obtain err k d' where s: "serveInOrder fuel win mint (ea_org a) tid now [] d1
        = Some (err, [] @ map entry_id (take k (the_line (ea_org a) tid d1)), d')"
      "the_line (ea_org a) tid d' = drop k (the_line (ea_org a) tid d1)" "inventory_step\<^sup>*\<^sup>* d1 d'"
      using serve_line [OF keys assms(5), of "[]" win mint now] by auto
    have "within_stock (ea_org a) d'" by (rule serve_within [OF inv1 within s(1)])
    moreover have "checkout_inv d'" by (rule checkout.inv_run [OF s(3) inv1])
    moreover have "the_line (ea_org a) tid d' = drop (length (take k (the_line (ea_org a) tid d1))) (the_line (ea_org a) tid d1)"
      using s(2) by (simp add: min_def)
    ultimately show ?thesis using s(1) inv1 within
      by (cases "findOwnedForCheckout (ea_org a) ev d1") (auto simp: offerNewPlaces_def)
  qed
  then obtain outcome k d' where o: "offerNewPlaces fuel win mint (\<lambda>o' e. findOwnedForCheckout o' e d1) (ea_org a) ev tid now d1
      = Some (outcome, d')" and rest: "wo_offered outcome = k" "k \<le> length (the_line (ea_org a) tid d1)"
     "the_line (ea_org a) tid d' = drop k (the_line (ea_org a) tid d1)" "within_stock (ea_org a) d'" "checkout_inv d'"
    by blast
  have call: "offerRaisedPlaces (waitlist_offers fuel win mint now) (ea_org a) t t' d1 = Some (outcome, d')"
    using o assms(4) t' by (simp add: offerRaisedPlaces_def waitlist_offers_def)
  moreover have "\<exists>r. updateTicket (waitlist_offers fuel win mint now) vat a ev tid i now d = Some (r, d')"
    using call by (auto simp: updateTicket_def assms(3) respondToUpdate_def split: sum.splits)
  ultimately show ?thesis using rest by blast
qed

end
