(* ===== verification/WorkspaceWitnesses.thy ===== *)
theory WorkspaceWitnesses
  imports WorkspaceProps Witnesses EventWitnesses OfferWitnesses
begin

text \<open>
  The properties of the whole workspace on the scenario: two seats sold and their ticket type retired afterwards, and an
  allocation raised while one person waits.
\<close>

definition demo_retired :: db where
  "demo_retired = committed demo_sold (ticket_softDelete 1 2 (\<lambda>_. Inr ()) 50 demo_sold)"

lemma demo_retired_reachable: "workspace_reachable demo_retired"
proof -
  have mono: "inventory_step\<^sup>*\<^sup>* d d' \<Longrightarrow> workspace_step\<^sup>*\<^sup>* d d'" for d d'
    by (induction rule: rtranclp_induct) (auto intro: rtranclp.rtrancl_into_rtrancl workspace_step.booking)
  obtain d0 where d0: "nothing_sold d0" "inventory_step\<^sup>*\<^sup>* d0 demo_sold"
    using demo_sold_reachable by (auto simp: reachable_def)
  have "\<exists>b. ticket_softDelete 1 2 (\<lambda>_. Inr ()) 50 demo_sold = Inr (b, demo_retired)"
    unfolding demo_retired_def by (rule committed_ok) (simp add: ticket_softDelete_def Let_def)
  then have "workspace_step demo_sold demo_retired" using workspace_step.type_retired by blast
  with mono [OF d0(2)] d0(1) show ?thesis
    unfolding workspace_reachable_def by (blast intro: rtranclp.rtrancl_into_rtrancl)
qed


theorem one_person_per_seat_witness:
  "map sa_seat (d_assignments demo_retired) = [4, 5]
   \<and> (\<exists>k\<in>set (d_tickets demo_retired). t_id k = sa_ticket (hd (d_assignments demo_retired))
        \<and> t_status k \<in> {TIssued, TCheckedIn})"
proof -
  have s: "map sa_seat (d_assignments demo_retired) = [4, 5]" "sa_releasedAt (hd (d_assignments demo_retired)) = None"
    unfolding demo_retired_def demo_sold_def by code_simp+
  then have "hd (d_assignments demo_retired) \<in> set (d_assignments demo_retired)"
    by (cases "d_assignments demo_retired") simp_all
  with one_person_per_seat [OF demo_retired_reachable] s show ?thesis by blast
qed

definition fan_base :: db where
  "fan_base = demo_db\<lparr>d_events := [demo_show\<lparr>evt_status := Upcoming, evt_waitlistEnabled := True\<rparr>]\<rparr>"

definition fan_line :: db where
  "fan_line = committed fan_base (joinWaitlist (demo_join ''w1'' ''bo@example.com'') fan_base)"

definition demo_raise :: update_ticket where
  "demo_raise = \<lparr>ut_name = None, ut_isFree = None, ut_price = None, ut_total = Some 8, ut_admission = None, ut_min = None,
     ut_max = None, ut_salesStart = None, ut_salesEnd = None, ut_version = Some 1\<rparr>"

definition demo_raised :: "(tier_row \<times> tier_row \<times> bool) \<times> db" where
  "demo_raised = projr (save_ticket demo_actor 7 3 demo_raise 20 fan_line)"

lemma fan_line_reachable: "workspace_reachable fan_line"
proof -
  have "nothing_sold fan_base" by (simp add: fan_base_def nothing_sold_def demo_defs empty_db_def)
  moreover have "\<exists>r. joinWaitlist (demo_join ''w1'' ''bo@example.com'') fan_base = Inr (r, fan_line)"
    unfolding fan_line_def by (rule committed_ok) code_simp
  moreover have "\<forall>t\<in>set (d_tiers fan_base). tt_id t = jw_type (demo_join ''w1'' ''bo@example.com'')
      \<longrightarrow> tt_org t = jw_org (demo_join ''w1'' ''bo@example.com'')" by code_simp
  ultimately show ?thesis
    unfolding workspace_reachable_def
    by (blast intro: r_into_rtranclp workspace_step.booking inventory_step.joined)
qed

theorem raised_allocation_serves_line_witness:
  "\<exists>d' r. updateTicket (waitlist_offers 2 1000 demo_mint 20) 0 demo_actor 7 3 demo_raise 20 fan_line = Some (r, d')
     \<and> within_stock 1 d' \<and> length (the_line 1 3 fan_line) = 1"
proof -
  obtain t t' b d1 where r: "demo_raised = ((t, t', b), d1)" by (metis prod.exhaust)
  have "\<not> isl (save_ticket demo_actor 7 3 demo_raise 20 fan_line)"
    unfolding fan_line_def by code_simp
  then have s: "save_ticket demo_actor 7 3 demo_raise 20 fan_line = Inr ((t, t', b), d1)"
    using r by (cases "save_ticket demo_actor 7 3 demo_raise 20 fan_line") (simp_all add: demo_raised_def)
  have f: "raisesAllocation (tt_total (fst (fst demo_raised))) (tt_total (fst (snd (fst demo_raised))))"
    "length (the_line 1 3 (snd demo_raised)) < 2" and one: "length (the_line 1 3 fan_line) = 1"
    and within: "within_stock 1 fan_line"
    unfolding demo_raised_def fan_line_def within_stock_def by code_simp+
  note f = f [unfolded r fst_conv snd_conv]
  have act: "ea_org demo_actor = 1" by (simp add: demo_actor_def)
  note R = raised_allocation_serves_line [OF fan_line_reachable _ s, of 2 1000 demo_mint 0, unfolded act]
  from R [OF within f] one show ?thesis by blast
qed

section \<open>Ticket types\<close>

theorem ticket_change_within_rules_witness:
  "\<exists>t t' b d'. save_ticket demo_actor 7 3 demo_raise 20 demo_shows = Inr ((t, t', b), d') \<and> terms_ok t' \<and> tt_total t' = 8
     \<and> tt_version t' = 2"
proof -
  let ?r = "save_ticket demo_actor 7 3 demo_raise 20 demo_shows"
  have ok: "\<not> isl ?r" and v: "tt_total (fst (snd (fst (projr ?r)))) = 8" "tt_version (fst (fst (projr ?r))) = 1"
    and inv: "distinct (map tt_id (d_tiers demo_shows))" "list_all terms_ok (d_tiers demo_shows)" by code_simp+
  obtain t t' b d' where r: "?r = Inr ((t, t', b), d')" using ok by (cases ?r) auto
  from ticket_change_within_rules [OF r inv] v show ?thesis by (auto simp: r)
qed

theorem removal_takes_nothing_witness:
  "\<exists>d'. deleteTicket demo_actor 7 3 20 demo_shows = Inr (Removed, d') \<and> findTicket 1 7 3 d' = None"
proof -
  let ?r = "deleteTicket demo_actor 7 3 20 demo_shows"
  have ok: "\<not> isl ?r" "fst (projr ?r) = Removed" and ids: "distinct (map tt_id (d_tiers demo_shows))" by code_simp+
  obtain d' where r: "?r = Inr (Removed, d')" using ok by (cases ?r) auto
  have "ea_org demo_actor = 1" by (simp add: demo_actor_def)
  with removal_takes_nothing [OF r ids] r show ?thesis by auto
qed

text \<open>
  A price for a free ticket type passes the rules and is refused by the table's own check, as an error without a message.
\<close>

lemma priced_free_type_refused:
  "save_ticket demo_actor 7 2 (demo_raise\<lparr>ut_price := Some 10000\<rparr>) 20 demo_shows = Inl (DbViolation ck_ticket_types_free_price)"
  by code_simp

end
