(* ===== verification/DiscountProps.thy ===== *)
theory DiscountProps
  imports Discounts CheckoutReach
begin

text \<open>
  What discount codes promise: a redeemed code is a promise already made, so its text and value are frozen and its limit
  never falls below what was given; the ledger and the counters agree whatever is done; a quote is given only for a code
  that may be used; and reading the list settles every status.
\<close>

section \<open>The organizer's operations on one row\<close>

lemma findById_Some: "findById org cid d = Some c \<Longrightarrow> c \<in> set (d_codes d) \<and> dc_id c = cid \<and> live_code org c"
  by (auto simp: findById_def dest: find_SomeD)

lemma load_code_Inr [result_simps]: "load_code org cid d = Inr c \<longleftrightarrow> findById org cid d = Some c"
  by (auto simp: load_code_def split: option.splits)

lemma stored_codes_D:
  "stored_codes cs d = Inr d' \<Longrightarrow> d' = d\<lparr>d_codes := cs\<rparr> \<and> list_all code_checks cs \<and> code_key_index cs"
  by (auto simp: stored_codes_def split: if_splits)

lemma code_or_stale_D:
  assumes "distinct (map dc_id (d_codes d))" and "findById org cid d = Some c"
    and "code_or_stale org cid f (dc_version c) d = Inr (c', d')"
  shows "c' = (f c)\<lparr>dc_version := dc_version c + 1\<rparr>"
    and "d' = d\<lparr>d_codes := upd (\<lambda>x. dc_id x = cid) (\<lambda>x. c') (d_codes d)\<rparr>" and "list_all code_checks (d_codes d')"
proof -
  note F = findById_Some [OF assms(2)]
  let ?P = "\<lambda>x. dc_id x = cid \<and> live_code org x \<and> dc_version x = dc_version c"
  from assms(3) obtain c0 d1 where c0: "find ?P (d_codes d) = Some c0" "c' = (f c0)\<lparr>dc_version := dc_version c + 1\<rparr>"
    and s: "stored_codes (upd ?P (\<lambda>x. (f x)\<lparr>dc_version := dc_version c + 1\<rparr>) (d_codes d)) d = Inr d1" and d': "d' = d1"
    by (auto simp: code_or_stale_def discount_update_def Let_def bindE_Inr_iff split: option.splits)
  have one: "x = c" if "x \<in> set (d_codes d)" "dc_id x = cid" for x
    using assms(1) F that by (auto simp: distinct_map inj_on_def)
  have "c0 = c" using find_SomeD [OF c0(1)] one by simp
  then show c': "c' = (f c)\<lparr>dc_version := dc_version c + 1\<rparr>" using c0(2) by simp
  have "?P x \<longleftrightarrow> dc_id x = cid" if "x \<in> set (d_codes d)" for x
    using one [OF that] F by (cases "dc_id x = cid") auto
  then have "upd ?P (\<lambda>x. (f x)\<lparr>dc_version := dc_version c + 1\<rparr>) (d_codes d) = upd (\<lambda>x. dc_id x = cid) (\<lambda>x. c') (d_codes d)"
    unfolding upd_def by (intro map_cong refl) (use one c' in auto)
  with stored_codes_D [OF s] d'
  show "d' = d\<lparr>d_codes := upd (\<lambda>x. dc_id x = cid) (\<lambda>x. c') (d_codes d)\<rparr>" "list_all code_checks (d_codes d')" by simp_all
qed

text \<open>What an organizer may do to a code: as long as it is used, its text and value stay and its limit covers the uses.\<close>

definition keeps_promise :: "code_row \<Rightarrow> code_row \<Rightarrow> bool" where
  "keeps_promise c c' = (dc_id c' = dc_id c \<and> dc_org c' = dc_org c \<and> dc_used c \<le> dc_used c' \<and> 0 \<le> dc_used c'
     \<and> (dc_used c \<noteq> 0 \<longrightarrow> dc_code c' = dc_code c \<and> dc_type c' = dc_type c \<and> dc_value c' = dc_value c)
     \<and> (within_limit c \<longrightarrow> within_limit c'))"

definition code_text_ok :: "string \<Rightarrow> bool" where
  "code_text_ok s = (CODE_MIN \<le> length s \<and> length s \<le> CODE_MAX \<and> list_all code_char s)"

lemma normaliseCode_ok: "normaliseCode raw = Inr c \<Longrightarrow> code_text_ok c \<and> c = map upper (js_trim raw)"
  by (auto simp: normaliseCode_def code_text_ok_def Let_def split: if_splits)

lemma updateDiscount_row:
  assumes "updateDiscount org cid i now d = Inr (c', d')" and "distinct (map dc_id (d_codes d))"
    and "\<forall>c\<in>set (d_codes d). 0 \<le> dc_used c \<and> code_text_ok (dc_code c)"
  obtains c where "findById org cid d = Some c" "keeps_promise c c'" "dc_used c' = dc_used c" "code_text_ok (dc_code c')"
    "d' = d\<lparr>d_codes := upd (\<lambda>x. dc_id x = cid) (\<lambda>x. c') (d_codes d)\<rparr>" "list_all code_checks (d_codes d')"
proof -
  from assms(1) obtain c newCode where c: "findById org cid d = Some c" and use: "assertChangeAllowedAfterUse c i = Inr ()"
    and code: "(case ud_code i of None \<Rightarrow> Inr None
            | Some raw \<Rightarrow> bindE (normaliseCode raw) (\<lambda>k.
                bindE (assertCodeFree org k (dc_event (patched_code i c)) (Some cid) d) (\<lambda>_. Inr (Some k)))) = Inr newCode"
    and s: "code_or_stale org cid (\<lambda>r. (patched_code i r)\<lparr>dc_code := patch newCode (dc_code r),
         dc_status := code_status (patched_code i c) now\<rparr>) (dc_version c) d = Inr (c', d')"
    by (auto simp: updateDiscount_def Let_def result_simps)
  note R = code_or_stale_D [OF assms(2) c s] and F = findById_Some [OF c]
  have row: "c' = (patched_code i c)\<lparr>dc_code := patch newCode (dc_code c), dc_status := code_status (patched_code i c) now,
      dc_version := dc_version c + 1\<rparr>" using R(1) by simp
  have shape: "code_text_ok (dc_code c')"
    using code assms(3) F normaliseCode_ok
    by (cases "ud_code i") (auto simp: row patch_def bindE_Inr_iff)
  have frozen: "dc_code c' = dc_code c \<and> dc_type c' = dc_type c \<and> dc_value c' = dc_value c" if "dc_used c \<noteq> 0"
  proof -
    have "patch newCode (dc_code c) = dc_code c"
      using use code that normaliseCode_ok
      by (cases "ud_code i") (auto simp: assertChangeAllowedAfterUse_def Let_def result_simps patch_def split: option.splits)
    then show ?thesis using use that
      by (auto simp: row patched_code_def patch_def assertChangeAllowedAfterUse_def Let_def result_simps split: option.splits)
  qed
  have "within_limit c'" if "within_limit c"
    using use that by (auto simp: within_limit_def row patched_code_def patch_def assertChangeAllowedAfterUse_def Let_def
        result_simps split: option.splits)
  moreover have "dc_used c' = dc_used c" "dc_id c' = dc_id c" "dc_org c' = dc_org c" by (simp_all add: row patched_code_def)
  ultimately have "keeps_promise c c'" using frozen assms(3) F by (auto simp: keeps_promise_def)
  then show thesis using that c shape R(2,3) \<open>dc_used c' = dc_used c\<close> by blast
qed

lemma setStatus_row:
  assumes "findById org cid d = Some c" and "code_setStatus org c status d = Inr (c', d')" and "distinct (map dc_id (d_codes d))"
    and "\<forall>c\<in>set (d_codes d). 0 \<le> dc_used c \<and> code_text_ok (dc_code c)"
  shows "keeps_promise c c'" "dc_used c' = dc_used c" "code_text_ok (dc_code c')"
    "d' = d\<lparr>d_codes := upd (\<lambda>x. dc_id x = cid) (\<lambda>x. c') (d_codes d)\<rparr>" "list_all code_checks (d_codes d')"
proof -
  note F = findById_Some [OF assms(1)]
  from assms(2) F have s: "code_or_stale org cid (\<lambda>c. c\<lparr>dc_status := status\<rparr>) (dc_version c) d = Inr (c', d')"
    by (simp add: code_setStatus_def)
  note R = code_or_stale_D [OF assms(3,1) s]
  show "keeps_promise c c'" "dc_used c' = dc_used c" "code_text_ok (dc_code c')"
    using R(1) F assms(4) by (auto simp: keeps_promise_def within_limit_def)
  show "d' = d\<lparr>d_codes := upd (\<lambda>x. dc_id x = cid) (\<lambda>x. c') (d_codes d)\<rparr>" "list_all code_checks (d_codes d')"
    by (rule R(2), rule R(3))
qed

section \<open>Every state the promotions reach\<close>

inductive discount_step :: "db \<Rightarrow> db \<Rightarrow> bool" where
  created: "createDiscount org i now d = Inr (c, d') \<Longrightarrow> discount_step d d'"
| updated: "updateDiscount org cid ui now d = Inr (c, d') \<Longrightarrow> discount_step d d'"
| disabled: "disableDiscount org cid d = Inr (c, d') \<Longrightarrow> discount_step d d'"
| enabled: "enableDiscount org cid now d = Inr (c, d') \<Longrightarrow> discount_step d d'"
| deleted: "deleteDiscount org cid now d = Inr (r, d') \<Longrightarrow> discount_step d d'"
| listed: "discount_list org q now d = (page, d') \<Longrightarrow> discount_step d d'"
| redeemed: "redeemIn rd d = Inr d' \<Longrightarrow> discount_step d d'"
| elsewhere: "d_codes d' = d_codes d \<Longrightarrow> d_redemptions d' = d_redemptions d \<Longrightarrow> d_next d \<le> d_next d' \<Longrightarrow> discount_step d d'"

text \<open>The invariant: the ledger agrees, every redemption's code is there, and every row is well formed.\<close>

definition promises_ok :: "db \<Rightarrow> bool" where
  "promises_ok d = (ledger_agrees d
     \<and> (\<forall>r\<in>set (d_redemptions d). \<exists>c\<in>set (d_codes d). dc_id c = rd_code r \<and> dc_org c = rd_org r)
     \<and> (\<forall>c\<in>set (d_codes d). dc_id c < d_next d \<and> code_checks c \<and> code_text_ok (dc_code c)))"

lemma promises_ids: "promises_ok d \<Longrightarrow> distinct (map dc_id (d_codes d))"
  and promises_rows: "promises_ok d \<Longrightarrow> \<forall>c\<in>set (d_codes d). 0 \<le> dc_used c \<and> code_text_ok (dc_code c)"
  by (auto simp: promises_ok_def ledger_agrees_def code_checks_def)

text \<open>Rows changed one by one, each keeping its promise and its count.\<close>

lemma promises_upd:
  assumes "promises_ok d" and "d' = d\<lparr>d_codes := upd P f (d_codes d)\<rparr>"
    and "\<And>c. c \<in> set (d_codes d) \<Longrightarrow> P c \<Longrightarrow> keeps_promise c (f c) \<and> dc_used (f c) = dc_used c \<and> code_text_ok (dc_code (f c))
      \<and> code_checks (f c)"
  shows "promises_ok d'"
proof -
  have ids: "map dc_id (d_codes d') = map dc_id (d_codes d)"
    unfolding assms(2) by simp (rule map_upd_key, use assms(3) in \<open>auto simp: keeps_promise_def\<close>)
  have row: "\<exists>c\<in>set (d_codes d). dc_id c' = dc_id c \<and> dc_org c' = dc_org c \<and> dc_used c' = dc_used c
      \<and> (within_limit c \<longrightarrow> within_limit c') \<and> (code_checks c \<longrightarrow> code_checks c') \<and> (code_text_ok (dc_code c) \<longrightarrow> code_text_ok (dc_code c'))"
    if "c' \<in> set (d_codes d')" for c'
    using that assms(3) by (fastforce simp: assms(2) in_set_upd keeps_promise_def split: if_splits)
  have there: "\<exists>c'\<in>set (d_codes d'). dc_id c' = dc_id c \<and> dc_org c' = dc_org c" if "c \<in> set (d_codes d)" for c
    using that assms(3) [OF that]
    by (intro bexI [of _ "if P c then f c else c"]) (auto simp: assms(2) in_set_upd keeps_promise_def)
  have same: "d_redemptions d' = d_redemptions d" "d_next d' = d_next d" by (simp_all add: assms(2))
  have "dc_used c' = uses_of (d_redemptions d') (dc_org c') (dc_id c') \<and> within_limit c' \<and> dc_id c' < d_next d'
      \<and> code_checks c' \<and> code_text_ok (dc_code c')" if "c' \<in> set (d_codes d')" for c'
    using row [OF that] assms(1) by (auto simp: promises_ok_def ledger_agrees_def same)
  moreover have "\<forall>r\<in>set (d_redemptions d'). \<exists>c\<in>set (d_codes d'). dc_id c = rd_code r \<and> dc_org c = rd_org r"
    using assms(1) there by (fastforce simp: promises_ok_def same)
  ultimately show ?thesis using promises_ids [OF assms(1)] ids by (simp add: promises_ok_def ledger_agrees_def)
qed

lemma createDiscount_D:
  assumes "createDiscount org i now d = Inr (c, d')"
  shows "d' = d\<lparr>d_codes := d_codes d @ [c], d_next := d_next d + 1\<rparr>" "dc_id c = d_next d" "dc_used c = 0" "dc_org c = org"
    "code_text_ok (dc_code c)" "list_all code_checks (d_codes d')" "0 \<le> dc_redemptionLimit c"
proof -
  from assms obtain code where code: "normaliseCode (cd_code i) = Inr code"
    and ins: "discount_insert (new_code org i code now) d = Inr (c, d')"
    by (auto simp: createDiscount_def result_simps)
  then obtain d1 where s: "stored_codes (d_codes d @ [c]) d = Inr d1" and d': "d' = d1\<lparr>d_next := d_next d + 1\<rparr>"
    and c: "c = (new_code org i code now (d_next d))\<lparr>dc_id := d_next d\<rparr>"
    by (auto simp: discount_insert_def Let_def bindE_Inr_iff)
  note S = stored_codes_D [OF s]
  show "d' = d\<lparr>d_codes := d_codes d @ [c], d_next := d_next d + 1\<rparr>" "list_all code_checks (d_codes d')"
    using S d' by simp_all
  show "dc_id c = d_next d" "dc_used c = 0" "dc_org c = org" by (simp_all add: c new_code_def Let_def)
  have "dc_code c = code" by (simp add: c new_code_def Let_def)
  with conjunct1 [OF normaliseCode_ok [OF code]] show "code_text_ok (dc_code c)" by simp
  show "0 \<le> dc_redemptionLimit c" using S d' by (simp add: code_checks_def)
qed

lemma uses_of_none: "(\<forall>r\<in>set rs. rd_code r \<noteq> cid) \<Longrightarrow> uses_of rs org cid = 0"
  by (auto simp: uses_of_def filter_empty_conv)

lemma created_promises:
  assumes "promises_ok d" and "createDiscount org i now d = Inr (c, d')"
  shows "promises_ok d'"
proof -
  note C = createDiscount_D [OF assms(2)]
  have fresh: "d_next d \<notin> dc_id ` set (d_codes d)" using assms(1) by (auto simp: promises_ok_def)
  then have "\<forall>r\<in>set (d_redemptions d). rd_code r \<noteq> d_next d"
    using assms(1) by (fastforce simp: promises_ok_def)
  then have "uses_of (d_redemptions d) (dc_org c) (dc_id c) = 0" using uses_of_none C(2) by simp
  moreover have "within_limit c" using C(3,7) by (auto simp: within_limit_def)
  moreover have "code_checks c" using C(1,6) by simp
  moreover have "\<forall>r\<in>set (d_redemptions d). \<exists>x\<in>set (d_codes d @ [c]). dc_id x = rd_code r \<and> dc_org x = rd_org r"
    using assms(1) by (auto simp: promises_ok_def)
  ultimately show ?thesis using assms(1) fresh C(2,3,5)
    by (auto simp: C(1) promises_ok_def ledger_agrees_def less_Suc_eq)
qed

lemma counted_keeps: "dc_code (counted c) = dc_code c" "code_checks c \<Longrightarrow> code_checks (counted c)"
  by (auto simp: counted_def code_checks_def split: discount_type.splits)

lemma counted_promise: "0 \<le> dc_used c \<Longrightarrow> countable org cid c \<Longrightarrow> keeps_promise c (counted c)"
  by (auto simp: keeps_promise_def counted_def countable_def within_limit_def)

lemma redeemed_promises:
  assumes "promises_ok d" and "redeemIn rd d = Inr d'"
  shows "promises_ok d'"
proof -
  have led: "ledger_agrees d'" by (rule redeem_keeps_ledger [OF _ assms(2)]) (use assms(1) in \<open>simp add: promises_ok_def\<close>)
  show ?thesis
  proof (cases "d' = d")
    case False
    let ?P = "countable (rd_org rd) (rd_code rd)"
    from False assms(2) have codes: "d_codes d' = upd ?P counted (d_codes d)" and next_id: "d_next d' = d_next d"
      and reds: "d_redemptions d' = d_redemptions d @ [rd]" and some: "\<exists>c\<in>set (d_codes d). ?P c"
      by (auto simp: redeemIn_def count_use_def filter_empty_conv split: if_splits)
    have row: "dc_id c' < d_next d' \<and> code_checks c' \<and> code_text_ok (dc_code c')" if c': "c' \<in> set (d_codes d')" for c'
    proof -
      obtain c where "c \<in> set (d_codes d)" "c' = (if ?P c then counted c else c)"
        using c' unfolding codes in_set_upd by blast
      then show ?thesis using assms(1) by (simp add: promises_ok_def next_id counted_keeps)
    qed
    have there: "\<exists>c'\<in>set (d_codes d'). dc_id c' = dc_id c \<and> dc_org c' = dc_org c" if "c \<in> set (d_codes d)" for c
      using that by (intro bexI [of _ "if ?P c then counted c else c"]) (auto simp: codes in_set_upd)
    have "\<exists>c\<in>set (d_codes d). dc_id c = rd_code r \<and> dc_org c = rd_org r" if "r \<in> set (d_redemptions d')" for r
      using that some assms(1) by (auto simp: reds promises_ok_def countable_def)
    then have "\<exists>c\<in>set (d_codes d'). dc_id c = rd_code r \<and> dc_org c = rd_org r" if "r \<in> set (d_redemptions d')" for r
      using that there by metis
    with led row show ?thesis by (simp add: promises_ok_def)
  qed (use assms in simp)
qed

lemma keeps_promise_refl: "0 \<le> dc_used c \<Longrightarrow> keeps_promise c c"
  by (simp add: keeps_promise_def)

lemma keeps_promise_trans: "keeps_promise a b \<Longrightarrow> keeps_promise b c \<Longrightarrow> 0 < dc_used a \<Longrightarrow> keeps_promise a c"
  by (auto simp: keeps_promise_def)

text \<open>Every code somebody used is still there, its promise kept.\<close>

definition promises_carried :: "db \<Rightarrow> db \<Rightarrow> bool" where
  "promises_carried d d' = (\<forall>c\<in>set (d_codes d). 0 < dc_used c \<longrightarrow> (\<exists>c'\<in>set (d_codes d'). keeps_promise c c'))"

lemma carried_upd:
  assumes "d_codes d' = upd P f (d_codes d)" and "\<And>c. c \<in> set (d_codes d) \<Longrightarrow> P c \<Longrightarrow> 0 < dc_used c \<Longrightarrow> keeps_promise c (f c)"
  shows "promises_carried d d'"
  unfolding promises_carried_def
proof (intro ballI impI)
  fix c assume c: "c \<in> set (d_codes d)" "0 < dc_used c"
  then have "keeps_promise c (if P c then f c else c)" using assms(2) keeps_promise_refl by simp
  then show "\<exists>c'\<in>set (d_codes d'). keeps_promise c c'" using c(1)
    by (intro bexI [of _ "if P c then f c else c"]) (auto simp: assms(1) in_set_upd)
qed

lemma carried_subset: "set (d_codes d) \<subseteq> set (d_codes d') \<Longrightarrow> promises_carried d d'"
  by (force simp: promises_carried_def intro: keeps_promise_refl)

lemma carried_trans: "promises_carried d e \<Longrightarrow> promises_carried e f \<Longrightarrow> promises_carried d f"
  unfolding promises_carried_def by (meson keeps_promise_def keeps_promise_trans less_le_trans)

lemma row_replaced:
  assumes "promises_ok d" and "findById org cid d = Some c" and "keeps_promise c c'" and "dc_used c' = dc_used c"
    and "code_text_ok (dc_code c')" and "d' = d\<lparr>d_codes := upd (\<lambda>x. dc_id x = cid) (\<lambda>x. c') (d_codes d)\<rparr>"
    and "list_all code_checks (d_codes d')"
  shows "promises_ok d' \<and> promises_carried d d'"
proof -
  note F = findById_Some [OF assms(2)]
  have one: "x = c" if "x \<in> set (d_codes d)" "dc_id x = cid" for x
    using promises_ids [OF assms(1)] F that by (auto simp: distinct_map inj_on_def)
  have "c' \<in> set (d_codes d')" using F by (auto simp: assms(6) in_set_upd)
  with assms(7) have "code_checks c'" by (simp add: list_all_iff)
  with assms(3,4,5) one have "promises_ok d'"
    by (intro promises_upd [OF assms(1,6)]) auto
  moreover have "promises_carried d d'"
    by (rule carried_upd [of _ "\<lambda>x. dc_id x = cid" "\<lambda>x. c'"]) (use assms(3,6) one in auto)
  ultimately show ?thesis ..
qed

lemma deleted_promises:
  assumes "promises_ok d" and "deleteDiscount org cid now d = Inr (r, d')"
  shows "promises_ok d' \<and> promises_carried d d'"
proof -
  from assms(2) obtain c where c: "findById org cid d = Some c" by (auto simp: deleteDiscount_def result_simps)
  show ?thesis
  proof (cases "dc_used c = 0")
    case True
    let ?P = "\<lambda>c. dc_id c = cid \<and> dc_org c = org \<and> dc_used c = 0"
    from assms(2) c True have codes: "d_codes d' = filter (\<lambda>c. \<not> ?P c) (d_codes d)"
      and rest: "d_redemptions d' = d_redemptions d" "d_next d' = d_next d"
      and fk: "\<forall>r\<in>set (d_redemptions d). \<not> (\<exists>c\<in>set (d_codes d). ?P c \<and> dc_id c = rd_code r)"
      by (auto simp: deleteDiscount_def load_code_def discount_hardDelete_def remove_codes_def Let_def bindE_Inr_iff
          list_ex_iff split: if_splits)
    have "distinct (map dc_id (d_codes d'))" using promises_ids [OF assms(1)] by (simp add: codes distinct_map_filter)
    moreover have "\<exists>c\<in>set (d_codes d'). dc_id c = rd_code r \<and> dc_org c = rd_org r" if "r \<in> set (d_redemptions d)" for r
    proof -
      have "\<forall>r\<in>set (d_redemptions d). \<exists>c\<in>set (d_codes d). dc_id c = rd_code r \<and> dc_org c = rd_org r"
        using assms(1) by (simp add: promises_ok_def)
      from bspec [OF this that] obtain x where x: "x \<in> set (d_codes d)" "dc_id x = rd_code r \<and> dc_org x = rd_org r" ..
      then have "\<not> ?P x" using fk that by blast
      with x show ?thesis unfolding codes by auto
    qed
    ultimately have "promises_ok d'" using assms(1) by (auto simp: promises_ok_def ledger_agrees_def rest codes)
    moreover have "promises_carried d d'"
      by (auto simp: promises_carried_def codes intro!: bexI keeps_promise_refl)
    ultimately show ?thesis ..
  next
    case False
    let ?f = "\<lambda>c. c\<lparr>dc_deletedAt := Some now, dc_status := DDisabled\<rparr>"
    from assms(2) c False have d': "d' = d\<lparr>d_codes := upd (\<lambda>c. dc_id c = cid \<and> live_code org c) ?f (d_codes d)\<rparr>"
      by (auto simp: deleteDiscount_def load_code_def discount_softDelete_def Let_def bindE_Inr_iff)
    have keep: "keeps_promise c (?f c) \<and> dc_used (?f c) = dc_used c \<and> code_text_ok (dc_code (?f c)) \<and> code_checks (?f c)"
      if "c \<in> set (d_codes d)" for c
      using assms(1) that by (auto simp: promises_ok_def keeps_promise_def within_limit_def code_checks_def
          split: discount_type.splits)
    have "promises_ok d'" by (rule promises_upd [OF assms(1) d']) (rule keep)
    moreover have "promises_carried d d'" by (rule carried_upd [of _ "\<lambda>c. dc_id c = cid \<and> live_code org c" ?f]) (use d' keep in auto)
    ultimately show ?thesis ..
  qed
qed

text \<open>Settling the statuses sets, on every live code, the status its dates and uses give.\<close>

lemma sync_codes:
  fixes cs :: "code_row list"
  assumes "distinct (map fst changes)"
  shows "foldl (\<lambda>cs (i, s). upd (\<lambda>c. dc_id c = i \<and> dc_org c = org) (\<lambda>c. c\<lparr>dc_status := s\<rparr>) cs) cs changes
    = map (\<lambda>c. if dc_org c = org then (case map_of changes (dc_id c) of None \<Rightarrow> c | Some s \<Rightarrow> c\<lparr>dc_status := s\<rparr>) else c) cs"
  using assms
proof (induction changes arbitrary: cs)
  case Nil
  show ?case by (simp add: map_idI)
next
  case (Cons change xs)
  obtain i s where change: "change = (i, s)" by (rule prod.exhaust)
  from Cons.prems have none: "map_of xs i = None" and d: "distinct (map fst xs)"
    by (auto simp: change map_of_eq_None_iff)
  have IH: "foldl (\<lambda>cs (i, s). upd (\<lambda>c. dc_id c = i \<and> dc_org c = org) (\<lambda>c. c\<lparr>dc_status := s\<rparr>) cs) ds xs
    = map (\<lambda>c. if dc_org c = org then (case map_of xs (dc_id c) of None \<Rightarrow> c | Some s \<Rightarrow> c\<lparr>dc_status := s\<rparr>) else c) ds"
    for ds :: "code_row list"
    by (rule Cons.IH [OF d])
  show ?case
    unfolding change foldl_Cons prod.case IH
    unfolding upd_def list.map_comp using none by (intro map_cong) (auto split: option.splits)
qed

lemma code_status_again: "code_status (c\<lparr>dc_status := code_status c now\<rparr>) now = code_status c now"
  by (simp add: code_status_def code_exhausted_def isPastWindow_def)

definition settled_code :: "ident \<Rightarrow> instant \<Rightarrow> code_row \<Rightarrow> code_row" where
  "settled_code org now c = c\<lparr>dc_status := code_status c now\<rparr>"

lemma settled_codes:
  assumes "distinct (map dc_id (d_codes d))"
  shows "settleStatuses org (liveCodes org d) now d
    = d\<lparr>d_codes := upd (live_code org) (settled_code org now) (d_codes d)\<rparr>"
proof -
  let ?Q = "\<lambda>c. live_code org c \<and> code_status c now \<noteq> dc_status c"
  let ?changes = "map (\<lambda>c. (dc_id c, code_status c now)) (filter (\<lambda>c. code_status c now \<noteq> dc_status c) (liveCodes org d))"
  have "map fst ?changes = map dc_id (filter ?Q (d_codes d))" by (simp add: liveCodes_def comp_def conj_commute)
  then have dist: "distinct (map fst ?changes)" using assms by (simp add: distinct_map_filter)
  have find: "map_of ?changes (dc_id c) = (if ?Q c then Some (code_status c now) else None)" if c: "c \<in> set (d_codes d)" for c
  proof (cases "?Q c")
    case True
    then have "(dc_id c, code_status c now) \<in> set ?changes" using c by (auto simp: liveCodes_def)
    from map_of_is_SomeI [OF dist this] True show ?thesis by simp
  next
    case False
    then have "dc_id c \<notin> fst ` set ?changes"
      using assms c by (auto simp: liveCodes_def distinct_map inj_on_def)
    from iffD2 [OF map_of_eq_None_iff this] False show ?thesis by simp
  qed
  show ?thesis
    unfolding settleStatuses_def syncStatuses_def sync_codes [OF dist]
    unfolding upd_def
    by (simp add: find settled_code_def live_code_def cong: map_cong)
qed

text \<open>So every step keeps the invariant and every promise.\<close>

lemma settled_keeps: "0 \<le> dc_used c \<Longrightarrow> keeps_promise c (settled_code org now c)"
  by (auto simp: settled_code_def keeps_promise_def within_limit_def)

lemma discount_step_keeps:
  assumes "discount_step d d'" and "promises_ok d"
  shows "promises_ok d' \<and> promises_carried d d'"
  using assms(1)
proof cases
  case (created org i now c)
  then show ?thesis using created_promises [OF assms(2) created]
    by (auto intro: carried_subset simp: createDiscount_D(1) [OF created])
next
  case (updated org cid ui now c)
  obtain c0 where "findById org cid d = Some c0" "keeps_promise c0 c" "dc_used c = dc_used c0" "code_text_ok (dc_code c)"
    "d' = d\<lparr>d_codes := upd (\<lambda>x. dc_id x = cid) (\<lambda>x. c) (d_codes d)\<rparr>" "list_all code_checks (d_codes d')"
    by (rule updateDiscount_row [OF updated promises_ids [OF assms(2)] promises_rows [OF assms(2)]])
  then show ?thesis by (rule row_replaced [OF assms(2)])
next
  case (disabled org cid c)
  then obtain c0 where c0: "findById org cid d = Some c0" and s: "code_setStatus org c0 DDisabled d = Inr (c, d')"
    by (auto simp: disableDiscount_def result_simps)
  show ?thesis
    by (rule row_replaced [OF assms(2) c0 setStatus_row [OF c0 s promises_ids [OF assms(2)] promises_rows [OF assms(2)]]])
next
  case (enabled org cid now c)
  then obtain c0 st where c0: "findById org cid d = Some c0" and s: "code_setStatus org c0 st d = Inr (c, d')"
    by (auto simp: enableDiscount_def result_simps)
  show ?thesis
    by (rule row_replaced [OF assms(2) c0 setStatus_row [OF c0 s promises_ids [OF assms(2)] promises_rows [OF assms(2)]]])
next
  case (deleted org cid now r)
  then show ?thesis by (rule deleted_promises [OF assms(2)])
next
  case (listed org q now page)
  then have d': "d' = d\<lparr>d_codes := upd (live_code org) (settled_code org now) (d_codes d)\<rparr>"
    using settled_codes [OF promises_ids [OF assms(2)]] by (simp add: discount_list_def Let_def)
  have keep: "keeps_promise c (settled_code org now c)" if "c \<in> set (d_codes d)" for c
    using settled_keeps promises_rows [OF assms(2)] that by simp
  have "promises_ok d'"
    by (rule promises_upd [OF assms(2) d'])
      (use keep assms(2) in \<open>auto simp: promises_ok_def settled_code_def code_checks_def split: discount_type.splits\<close>)
  moreover have "promises_carried d d'" by (rule carried_upd [of _ "live_code org" "settled_code org now"]) (use d' keep in auto)
  ultimately show ?thesis ..
next
  case (redeemed rd)
  have "promises_carried d d'"
  proof (cases "d' = d")
    case False
    then have "d_codes d' = upd (countable (rd_org rd) (rd_code rd)) counted (d_codes d)"
      using redeemed by (auto simp: redeemIn_def count_use_def split: if_splits)
    then show ?thesis by (rule carried_upd) (simp add: counted_promise)
  qed (auto intro: carried_subset)
  with redeemed_promises [OF assms(2) redeemed] show ?thesis ..
next
  case elsewhere
  then show ?thesis using assms(2) by (auto simp: promises_ok_def ledger_agrees_def intro: carried_subset order.strict_trans2)
qed

interpretation promotions: invariant_system discount_step promises_ok
  by unfold_locales (use discount_step_keeps in blast)

lemma carried_run: "discount_step\<^sup>*\<^sup>* d d' \<Longrightarrow> promises_ok d \<Longrightarrow> promises_carried d d'"
proof (induction rule: rtranclp_induct)
  case base
  show ?case by (auto intro: carried_subset)
next
  case (step e f)
  have "promises_ok e" by (rule promotions.inv_run [OF step.hyps(1) step.prems])
  with step show ?case using discount_step_keeps carried_trans by blast
qed

section \<open>Suggesting a code\<close>

text \<open>The search ends at the first free draw, and what it ends with is free.\<close>

lemma widen_at:
  "drawn draws (i + n) \<notin> set taken \<Longrightarrow> \<forall>m<n. drawn draws (i + m) \<in> set taken \<Longrightarrow>
     widen taken draws i = Some (drawn draws (i + n))"
proof (induction n arbitrary: i)
  case 0
  then show ?case by (subst widen.simps) (simp add: Let_def)
next
  case (Suc n)
  have "\<forall>m<n. drawn draws (i + 1 + m) \<in> set taken" using Suc.prems(2) by (auto dest: spec [of _ "Suc m" for m])
  then have "widen taken draws (i + 1) = Some (drawn draws (i + 1 + n))" using Suc.prems(1) by (intro Suc.IH) simp_all
  moreover have "drawn draws i \<in> set taken" using Suc.prems(2) by (metis add.right_neutral zero_less_Suc)
  ultimately show ?case by (subst widen.simps) (simp add: Let_def)
qed

lemma widen_returns:
  assumes "drawn draws n \<notin> set taken"
  shows "\<exists>c. widen taken draws 0 = Some c \<and> c \<notin> set taken"
proof -
  define n0 where "n0 = (LEAST n. drawn draws n \<notin> set taken)"
  have "drawn draws n0 \<notin> set taken" unfolding n0_def by (rule LeastI [of "\<lambda>n. drawn draws n \<notin> set taken", OF assms])
  moreover have "drawn draws m \<in> set taken" if "m < n0" for m
    using not_less_Least [OF that [unfolded n0_def]] by simp
  ultimately have "widen taken draws 0 = Some (drawn draws n0)" using widen_at [of draws 0 n0 taken] by simp
  then show ?thesis using \<open>drawn draws n0 \<notin> set taken\<close> by blast
qed

lemma suggestion_is_free:
  assumes "drawn wide n \<notin> set (allCodes org d)"
  shows "\<exists>c. suggestCode org narrow wide d = Some c \<and> c \<notin> set (allCodes org d)"
proof (cases "find (\<lambda>c. c \<notin> set (allCodes org d)) (map (drawn narrow) [0..<ATTEMPTS_BEFORE_WIDENING])")
  case None
  then show ?thesis using widen_returns [OF assms] by (simp add: suggestCode_def generate_code_def)
next
  case (Some c)
  then show ?thesis using find_SomeD [OF Some] by (simp add: suggestCode_def generate_code_def)
qed

section \<open>Properties\<close>

lemma first_in_set: "(case xs of [] \<Rightarrow> None | x # _ \<Rightarrow> Some x) = Some y \<Longrightarrow> y \<in> set xs"
  by (cases xs) simp_all


text \<open>
  A code somebody used is a promise made: whatever is done to the promotions afterwards, it is never removed, its
  text, its kind and its worth never change, its counter never falls, and a limit it was within still covers the uses
  made.
\<close>

theorem used_code_frozen:
  assumes "discount_step\<^sup>*\<^sup>* d d'" and "promises_ok d" and "c \<in> set (d_codes d)" and "0 < dc_used c"
  shows "\<exists>c'\<in>set (d_codes d'). dc_id c' = dc_id c \<and> dc_org c' = dc_org c \<and> dc_code c' = dc_code c
     \<and> dc_type c' = dc_type c \<and> dc_value c' = dc_value c \<and> dc_used c \<le> dc_used c' \<and> within_limit c'"
proof -
  obtain c' where c': "c' \<in> set (d_codes d')" "keeps_promise c c'"
    using carried_run [OF assms(1,2)] assms(3,4) by (auto simp: promises_carried_def)
  moreover have "within_limit c'"
    using promotions.inv_run [OF assms(1,2)] c'(1) by (simp add: promises_ok_def ledger_agrees_def)
  ultimately show ?thesis using assms(4) by (auto simp: keeps_promise_def)
qed

text \<open>
  A quote is given only for an existing code of the event's workspace, on this event or on all, that is not
  disabled, inside its dates, with a use left in all and for this buyer, on an order that reaches its minimum; and what
  is quoted is between nothing and the whole subtotal and adds up with the total, its net and its VAT.
\<close>

theorem quote_only_usable:
  assumes "discount_quote_for vatRate i now d = Inr (c, q)"
  shows "organizationIdFor (qr_event i) d = Some (dc_org c) \<and> c \<in> set (d_codes d) \<and> dc_deletedAt c = None
     \<and> dc_code c = map upper (js_trim (qr_code i)) \<and> (dc_event c = None \<or> dc_event c = Some (qr_event i))
     \<and> code_status c now = DActive \<and> 0 < qr_subtotal i \<and> dc_minOrder c \<le> qr_subtotal i
     \<and> (\<forall>e. qr_buyerEmail i = Some e \<and> e \<noteq> [] \<and> dc_perPersonLimit c \<noteq> 0
          \<longrightarrow> int (redemptionsByBuyer (dc_org c) (dc_id c) e d) < dc_perPersonLimit c)
     \<and> 0 \<le> dq_discount q \<and> dq_discount q \<le> qr_subtotal i \<and> dq_discount q + dq_total q = qr_subtotal i
     \<and> dq_net q + dq_vat q = dq_total q"
proof -
  from assms obtain org code where s: "0 < qr_subtotal i" and org: "organizationIdFor (qr_event i) d = Some org"
    and code: "normaliseCode (qr_code i) = Inr code" and c: "findUsable org code (qr_event i) d = Some c"
    and ok: "assertUsable c i now = Inr ()" and room: "assertBuyerHasRoom org c (qr_buyerEmail i) d = Inr ()"
    and q: "q = quoteDiscount (dc_type c) (dc_value c) (qr_subtotal i) (vatRate org)"
    by (auto simp: discount_quote_for_def result_simps split: if_splits option.splits)
  let ?rows = "filter (\<lambda>c. live_code org c \<and> dc_code c = code \<and> (dc_event c = None \<or> dc_event c = Some (qr_event i))) (d_codes d)"
  have "c \<in> set (filter (\<lambda>c. dc_event c = None) ?rows @ filter (\<lambda>c. dc_event c \<noteq> None) ?rows)"
    using first_in_set [OF c [unfolded findUsable_def Let_def]] .
  then have row: "c \<in> set (d_codes d)" "live_code org c" "dc_code c = code" "dc_event c = None \<or> dc_event c = Some (qr_event i)"
    by auto
  have usable: "code_status c now = DActive \<and> dc_minOrder c \<le> qr_subtotal i"
    using ok by (auto simp: assertUsable_def code_status_def Let_def split: if_splits option.splits)
  have "dq_discount q + dq_total q = qr_subtotal i \<and> dq_net q + dq_vat q = dq_total q \<and> 0 \<le> dq_discount q
      \<and> dq_discount q \<le> qr_subtotal i"
    using s by (simp add: q quoteDiscount_def Let_def vat_net_sum)
  moreover have "int (redemptionsByBuyer (dc_org c) (dc_id c) e d) < dc_perPersonLimit c"
    if "qr_buyerEmail i = Some e \<and> e \<noteq> [] \<and> dc_perPersonLimit c \<noteq> 0" for e
    using room that row(2) by (auto simp: assertBuyerHasRoom_def live_code_def check_Inr_iff)
  ultimately show ?thesis
    using s org row usable conjunct2 [OF normaliseCode_ok [OF code]] by (simp add: live_code_def)
qed

text \<open>
  The list of codes is computed on the statuses the clock gives: it shows the page, the total and the labels of the
  table in which every live code of the workspace carries the status its dates and uses give now, and leaves exactly that
  table behind.
\<close>

theorem list_settles_statuses:
  assumes "distinct (map dc_id (d_codes d))"
  shows "discount_list org q now d =
    (let settled = d\<lparr>d_codes := upd (live_code org) (\<lambda>c. c\<lparr>dc_status := code_status c now\<rparr>) (d_codes d)\<rparr>;
         search = map_option js_trim (ld_search q);
         events = (case search of None \<Rightarrow> None | Some s \<Rightarrow> if s = [] then None else Some (idsMatchingName org s settled));
         rows = rev (filter (code_searchWhere org (ld_status q) (ld_event q) search events) (d_codes settled));
         items = page_of (clamp_page (ld_page q)) (clamp_limit 20 100 (ld_limit q)) rows
     in (paginated (map (\<lambda>c. (c, scope_label org items settled c)) items) (int (length rows))
           (clamp_page (ld_page q)) (clamp_limit 20 100 (ld_limit q)), settled))"
  using settled_codes [OF assms] by (simp add: discount_list_def Let_def settled_code_def [abs_def])

end
