(* ===== verification/DiscountWitnesses.thy ===== *)
theory DiscountWitnesses
  imports DiscountProps EventWitnesses
begin

text \<open>
  The properties of the discount codes on one promotion: a code of ten percent with a single use, made, redeemed, and
  looked at again.
\<close>

definition promo_base :: db where "promo_base = demo_shows\<lparr>d_codes := []\<rparr>"

definition promo_new :: create_discount where
  "promo_new = \<lparr>cd_code = '' save10 '', cd_type = Percent, cd_value = 10, cd_event = Some 7, cd_redemptionLimit = Some 1,
     cd_perPersonLimit = Some 1, cd_minOrder = Some 100, cd_validFrom = None, cd_validUntil = Some 90\<rparr>"

definition promo_made :: db where "promo_made = committed promo_base (createDiscount 1 promo_new 50 promo_base)"

definition promo_redemption :: redemption_row where
  "promo_redemption = \<lparr>rd_org = 1, rd_code = 10, rd_order = 20, rd_buyerEmail = ''ann@example.com'', rd_amount = 25\<rparr>"

definition promo_used :: db where
  "promo_used = (case redeemIn promo_redemption promo_made of Inl _ \<Rightarrow> promo_made | Inr d \<Rightarrow> d)"

definition promo_terms :: "code_row \<Rightarrow> string \<times> int \<times> discount_status" where
  "promo_terms c = (dc_code c, dc_used c, dc_status c)"

lemma promo_values:
  "map promo_terms (d_codes promo_made) = [(''SAVE10'', 0, DActive)]"
  "map promo_terms (d_codes promo_used) = [(''SAVE10'', 1, DExpired)]"
  by code_simp+

lemma promo_run: "discount_step\<^sup>*\<^sup>* promo_base promo_made" "discount_step promo_made promo_used"
proof -
  have "isl (createDiscount 1 promo_new 50 promo_base) = False" "isl (redeemIn promo_redemption promo_made) = False"
    by code_simp+
  then obtain c d' d'' where "createDiscount 1 promo_new 50 promo_base = Inr (c, d')" "redeemIn promo_redemption promo_made = Inr d''"
    by (auto simp: isl_def) (metis Inr_Inl_False obj_sumE old.prod.exhaust)
  then show "discount_step\<^sup>*\<^sup>* promo_base promo_made" "discount_step promo_made promo_used"
    by (auto simp: promo_made_def promo_used_def intro: discount_step.intros)
qed

lemma promo_ok: "promises_ok promo_made" "promises_ok promo_used"
proof -
  have "promises_ok promo_base" by code_simp
  from promotions.inv_run [OF promo_run(1) this] show "promises_ok promo_made" .
  from promotions.inv_step [OF this promo_run(2)] show "promises_ok promo_used" .
qed


theorem used_code_frozen_witness:
  "\<exists>c\<in>set (d_codes (snd (discount_list 1 \<lparr>ld_page = None, ld_limit = None, ld_status = None, ld_event = None, ld_search = None\<rparr>
      100 promo_used))). dc_code c = ''SAVE10'' \<and> dc_value c = 10 \<and> 1 \<le> dc_used c"
proof -
  let ?q = "\<lparr>ld_page = None, ld_limit = None, ld_status = None, ld_event = None, ld_search = None\<rparr>"
  have "discount_step\<^sup>*\<^sup>* promo_used (snd (discount_list 1 ?q 100 promo_used))"
    by (rule r_into_rtranclp, rule discount_step.listed) (rule prod.collapse [symmetric])
  moreover have "hd (d_codes promo_used) \<in> set (d_codes promo_used)"
    using promo_values(2) by (cases "d_codes promo_used") auto
  moreover have "dc_code (hd (d_codes promo_used)) = ''SAVE10'' \<and> dc_value (hd (d_codes promo_used)) = 10
      \<and> dc_used (hd (d_codes promo_used)) = 1" by code_simp
  ultimately show ?thesis using used_code_frozen [OF _ promo_ok(2)] by (metis zero_less_one)
qed

definition promo_request :: quote_request where
  "promo_request = \<lparr>qr_code = ''save10'', qr_event = 7, qr_subtotal = 250, qr_buyerEmail = Some ''ann@example.com''\<rparr>"

theorem quote_only_usable_witness:
  "\<exists>c q. discount_quote_for (\<lambda>_. 0) promo_request 60 promo_made = Inr (c, q) \<and> dc_code c = ''SAVE10''
     \<and> dq_discount q = 25 \<and> dq_discount q + dq_total q = 250"
proof -
  have "(case discount_quote_for (\<lambda>_. 0) promo_request 60 promo_made of Inl _ \<Rightarrow> False
      | Inr (c, q) \<Rightarrow> dc_code c = ''SAVE10'' \<and> dq_discount q = 25)" by code_simp
  then obtain c q where q: "discount_quote_for (\<lambda>_. 0) promo_request 60 promo_made = Inr (c, q)"
      "dc_code c = ''SAVE10'' \<and> dq_discount q = 25" by (auto split: sum.splits prod.splits)
  with quote_only_usable [OF q(1)] have "dq_discount q + dq_total q = 250" by (simp add: promo_request_def)
  with q show ?thesis by blast
qed

theorem list_settles_statuses_witness:
  "map dc_status (d_codes (snd (discount_list 1 \<lparr>ld_page = None, ld_limit = None, ld_status = None, ld_event = None,
      ld_search = None\<rparr> 100 promo_made))) = [DExpired]"
proof -
  have "distinct (map dc_id (d_codes promo_made))" by code_simp
  note L = list_settles_statuses [OF this]
  have "map (\<lambda>c. dc_status c) (upd (live_code 1) (\<lambda>c. c\<lparr>dc_status := code_status c 100\<rparr>) (d_codes promo_made)) = [DExpired]"
    by code_simp
  then show ?thesis unfolding L by (simp add: Let_def)
qed

end
