(* ===== verification/CheckoutService.thy ===== *)
theory CheckoutService
  imports Discounts TextOutput
begin

text \<open>
  The buyer's side of a booking: \<^verbatim>\<open>checkout/checkout.service.ts\<close> (quote, hold, release), what
  \<^verbatim>\<open>checkout-view.service.ts\<close> shows and loads, \<^verbatim>\<open>checkout-order.service.ts\<close> (confirm, the guest's view),
  \<^verbatim>\<open>checkout-waitlist.service.ts\<close> (join), \<^verbatim>\<open>order-reference.ts\<close>, and the organizer's entry of a booking by hand
  (\<^verbatim>\<open>registration-entry.adapter.ts\<close>, \<^verbatim>\<open>registration-entry.service.ts\<close>). The event and catalogue ports are
  bound to their adapters. \<open>now\<close> is the clock of the call, \<open>rates\<close> what \<^verbatim>\<open>orgRates\<close> reads of a workspace's
  row, \<open>ttl\<close> the configured length of a hold, and the random draws of references and tokens are arguments.
\<close>

section \<open>References and tokens\<close>

definition CROCKFORD_ALPHABET :: string where "CROCKFORD_ALPHABET = ''0123456789ABCDEFGHJKMNPQRSTVWXYZ''"
definition ORDER_REFERENCE_LENGTH :: nat where "ORDER_REFERENCE_LENGTH = 8"
definition ORDER_REFERENCE_PREFIX :: string where "ORDER_REFERENCE_PREFIX = ''ORD''"
definition QR_TOKEN_LENGTH :: nat where "QR_TOKEN_LENGTH = 24"
definition REFERENCE_ATTEMPTS :: nat where "REFERENCE_ATTEMPTS = 3"

text \<open>The i-th draw of \<^verbatim>\<open>randomInt(32)\<close> is \<open>draws i\<close>.\<close>

definition generateOrderReference :: "(nat \<Rightarrow> nat) \<Rightarrow> string" where
  "generateOrderReference draws =
     ORDER_REFERENCE_PREFIX @ ''-'' @ map (\<lambda>i. CROCKFORD_ALPHABET ! draws i) [0..<ORDER_REFERENCE_LENGTH]"

definition generateQrToken :: "(nat \<Rightarrow> nat) \<Rightarrow> string" where
  "generateQrToken draws = map (\<lambda>i. CROCKFORD_ALPHABET ! draws i) [0..<QR_TOKEN_LENGTH]"

definition isReferenceCollision :: "error \<Rightarrow> bool" where
  "isReferenceCollision e = (e = DbViolation uq_orders_org_reference)"

text \<open>The loop, from a given attempt; each draws its own reference.\<close>

function from_attempt :: "nat \<Rightarrow> (nat \<Rightarrow> nat \<Rightarrow> nat) \<Rightarrow> (string \<Rightarrow> db \<Rightarrow> 'r svc) \<Rightarrow> db \<Rightarrow> 'r svc" where
  "from_attempt attempt draws place d =
     (case place (generateOrderReference (draws attempt)) d of
        (Inr r, d') \<Rightarrow> (Inr r, d')
      | (Inl e, d') \<Rightarrow>
          if \<not> isReferenceCollision e \<or> attempt \<ge> REFERENCE_ATTEMPTS then (Inl e, d')
          else from_attempt (attempt + 1) draws place d')"
  by pat_completeness auto
termination by (relation "measure (\<lambda>(attempt, _). REFERENCE_ATTEMPTS - attempt)") auto

declare from_attempt.simps [simp del]

definition withFreshReference :: "(nat \<Rightarrow> nat \<Rightarrow> nat) \<Rightarrow> (string \<Rightarrow> db \<Rightarrow> 'r svc) \<Rightarrow> db \<Rightarrow> 'r svc" where
  "withFreshReference draws place d = from_attempt 1 draws place d"

section \<open>What every action starts from\<close>

definition requireOpen :: "checkout_event option \<Rightarrow> instant \<Rightarrow> error + checkout_event" where
  "requireOpen e now =
     (case e of
        None \<Rightarrow> Inl (NotFound ''This event isn't available.'')
      | Some e \<Rightarrow> bindE (assertRegistrationOpen (ce_startAt e) now) (\<lambda>_. Inr e))"

definition view_load :: "ident \<Rightarrow> instant \<Rightarrow> db \<Rightarrow> error + checkout_event" where
  "view_load eventId now d = requireOpen (findPublishedForCheckout (ById eventId) d) now"

definition loadOwned :: "ident \<Rightarrow> ident \<Rightarrow> db \<Rightarrow> error + checkout_event" where
  "loadOwned org eventId d =
     (case findOwnedForCheckout org eventId d of
        None \<Rightarrow> Inl (NotFound ''That event isn't open for new registrations.'')
      | Some e \<Rightarrow> Inr e)"

definition requireTier :: "ident \<Rightarrow> ident \<Rightarrow> ident \<Rightarrow> instant \<Rightarrow> db \<Rightarrow> error + tier_row" where
  "requireTier org eventId ticketTypeId now d =
     (case tierById org eventId ticketTypeId now d of
        None \<Rightarrow> Inl (NotFound ''That ticket type isn't available for this event.'')
      | Some t \<Rightarrow> Inr t)"

definition seatsFor :: "checkout_event \<Rightarrow> ident list \<Rightarrow> instant \<Rightarrow> db \<Rightarrow> checkout_seat list" where
  "seatsFor e ownHoldIds now d = seatsForEvent (ce_org e) (ce_id e) now ownHoldIds d"

section \<open>What the page shows\<close>

definition canSelect :: "tier_row \<Rightarrow> bool" where
  "canSelect t = (tt_status t = Onsale)"

definition tier_is_free :: "tier_row \<Rightarrow> bool" where
  "tier_is_free t = (tt_isFree t \<or> tt_price t = 0)"

definition FREE_LABEL :: string where "FREE_LABEL = ''Free''"

record tier_dto =
  td_id :: ident
  td_name :: string
  td_priceLabel :: string
  td_price :: satang
  td_isFree :: bool
  td_status :: ticket_status
  td_canSelect :: bool
  td_min :: int
  td_max :: int
  td_remaining :: "int option"
  td_waitlist :: bool

definition toTierDto :: "checkout_event \<Rightarrow> tier_row \<Rightarrow> tier_dto" where
  "toTierDto e t = \<lparr>td_id = tt_id t, td_name = tt_name t,
     td_priceLabel = (if tier_is_free t then FREE_LABEL else formatBaht (tt_price t)),
     td_price = tt_price t, td_isFree = tt_isFree t, td_status = tt_status t, td_canSelect = canSelect t,
     td_min = tt_minPerOrder t, td_max = tt_maxPerOrder t,
     td_remaining = (if tt_total t = UNLIMITED then None else Some (max 0 (tt_total t - tt_sold t))),
     td_waitlist = canJoinWaitlist (ce_waitlistEnabled e) (ce_seatingMode e) (tt_status t)\<rparr>"

record checkout_view =
  cv_event :: checkout_event
  cv_tiers :: "tier_dto list"
  cv_seats :: "checkout_seat list option"
  cv_gaNote :: bool
  cv_deliveryNote :: bool
  cv_approvalNote :: bool
  cv_maxPerBooking :: int
  cv_paymentRequired :: bool

definition toSeatMap :: "checkout_event \<Rightarrow> instant \<Rightarrow> db \<Rightarrow> checkout_seat list option" where
  "toSeatMap e now d = (if ce_seatingMode e \<noteq> Reserved then None else Some (seatsFor e [] now d))"

definition checkout_page :: "string \<Rightarrow> instant \<Rightarrow> db \<Rightarrow> error + checkout_view" where
  "checkout_page slug now d =
     bindE (requireOpen (findPublishedForCheckout (BySlug slug) d) now) (\<lambda>e.
     let tiers = tiersForEvent (ce_org e) (ce_id e) now d in
     Inr \<lparr>cv_event = e, cv_tiers = map (toTierDto e) tiers, cv_seats = toSeatMap e now d,
          cv_gaNote = (ce_seatingMode e = Ga), cv_deliveryNote = ce_isOnline e, cv_approvalNote = ce_requiresApproval e,
          cv_maxPerBooking = SeatHolds.MAX_SEATS_PER_BOOKING,
          cv_paymentRequired = list_ex (\<lambda>t. canSelect t \<and> \<not> tier_is_free t) tiers\<rparr>)"

section \<open>Pricing a selection\<close>

record quote_input =
  qi_event :: ident
  qi_type :: ident
  qi_quantity :: "int option"
  qi_seatIds :: "ident list option"
  qi_code :: "string option"
  qi_buyerEmail :: "string option"
  qi_holdIds :: "ident list option"
  qi_actorOrg :: "ident option"

record org_rates =
  rt_vat :: rat
  rt_serviceFee :: rat

record order_summary =
  ors_event :: ident
  ors_type :: ident
  ors_typeName :: string
  ors_quantity :: int
  ors_seatIds :: "ident list option"
  ors_unitPrice :: satang
  ors_totals :: order_totals
  ors_code :: "string option"
  ors_labels :: "string \<times> string option \<times> string \<times> string"
  ors_paymentRequired :: bool

record priced_selection =
  ps_summary :: order_summary
  ps_event :: checkout_event
  ps_tier :: tier_row
  ps_selection :: checkout_selection
  ps_discountCode :: "ident option"

definition loadEvent :: "quote_input \<Rightarrow> instant \<Rightarrow> db \<Rightarrow> error + checkout_event" where
  "loadEvent i now d =
     (case qi_actorOrg i of None \<Rightarrow> view_load (qi_event i) now d | Some org \<Rightarrow> loadOwned org (qi_event i) d)"

definition resolve_selection ::
  "quote_input \<Rightarrow> instant \<Rightarrow> db \<Rightarrow> error + (checkout_event \<times> tier_row \<times> checkout_selection)" where
  "resolve_selection i now d =
     bindE (loadEvent i now d) (\<lambda>e.
     bindE (requireTier (ce_org e) (ce_id e) (qi_type i) now d) (\<lambda>t.
     bindE (resolveSelection (ce_seatingMode e)
              \<lparr>si_ticketTypeId = qi_type i, si_quantity = qi_quantity i, si_seatIds = qi_seatIds i\<rparr>) (\<lambda>s.
     bindE (assertWithinTierBounds (tt_minPerOrder t) (tt_maxPerOrder t) (selectionSize s)) (\<lambda>_.
     bindE (case s of
              ReservedSelection _ seatIds \<Rightarrow>
                bindE (resolveSeats (seatsFor e (or_else (qi_holdIds i) []) now d) seatIds (tt_id t)) (\<lambda>_. Inr ())
            | GaSelection _ _ \<Rightarrow> Inr ()) (\<lambda>_.
     Inr (e, t, s))))))"

definition discountFor ::
  "(ident \<Rightarrow> org_rates) \<Rightarrow> quote_input \<Rightarrow> satang \<Rightarrow> instant \<Rightarrow> db \<Rightarrow> error + (satang \<times> code_row option)" where
  "discountFor rates i subtotal now d =
     (case qi_code i of
        None \<Rightarrow> Inr (0, None)
      | Some code \<Rightarrow>
          if code = [] then Inr (0, None)
          else bindE (discount_quote_for (\<lambda>org. rt_vat (rates org))
                 \<lparr>qr_code = code, qr_event = qi_event i, qr_subtotal = subtotal, qr_buyerEmail = qi_buyerEmail i\<rparr> now d)
                 (\<lambda>(row, q). Inr (dq_discount q, Some row)))"

definition summary_labels :: "order_totals \<Rightarrow> string \<times> string option \<times> string \<times> string" where
  "summary_labels s = (formatBaht (subtotalSatang s),
     (if discountSatang s > 0 then Some (formatBaht (discountSatang s)) else None),
     formatBaht (serviceFeeSatang s), formatBaht (totalSatang s))"

definition priceSelection :: "(ident \<Rightarrow> org_rates) \<Rightarrow> quote_input \<Rightarrow> instant \<Rightarrow> db \<Rightarrow> error + priced_selection" where
  "priceSelection rates i now d =
     bindE (resolve_selection i now d) (\<lambda>(e, t, s).
     let quantity = selectionSize s; subtotal = tt_price t * quantity in
     bindE (discountFor rates i subtotal now d) (\<lambda>(discount, code).
     let totals = priceOrder \<lparr>pi_subtotal = subtotal, pi_discount = discount,
            pi_serviceFeeRate = rt_serviceFee (rates (ce_org e)), pi_vatRate = rt_vat (rates (ce_org e))\<rparr>
     in Inr \<lparr>ps_summary = \<lparr>ors_event = ce_id e, ors_type = tt_id t, ors_typeName = tt_name t, ors_quantity = quantity,
            ors_seatIds = (case s of ReservedSelection _ ids \<Rightarrow> Some ids | GaSelection _ _ \<Rightarrow> None),
            ors_unitPrice = tt_price t, ors_totals = totals, ors_code = map_option dc_code code,
            ors_labels = summary_labels totals, ors_paymentRequired = (totalSatang totals > 0)\<rparr>,
          ps_event = e, ps_tier = t, ps_selection = s, ps_discountCode = map_option dc_id code\<rparr>))"

definition checkout_quote :: "(ident \<Rightarrow> org_rates) \<Rightarrow> quote_input \<Rightarrow> instant \<Rightarrow> db \<Rightarrow> error + order_summary" where
  "checkout_quote rates i now d = map_sum id ps_summary (priceSelection rates i now d)"

section \<open>Reserving and giving back\<close>

record checkout_hold_dto =
  hd_holdIds :: "ident list"
  hd_expiresAt :: instant

definition checkout_hold :: "int \<Rightarrow> quote_input \<Rightarrow> instant \<Rightarrow> db \<Rightarrow> checkout_hold_dto svc" where
  "checkout_hold ttl i now d =
     loaded (resolve_selection i now d) (\<lambda>(e, _, s) d.
       bindS (case s of
                ReservedSelection type seatIds \<Rightarrow> svc_holdSeats ttl (ce_org e) (ce_id e) type seatIds None now d
              | GaSelection type quantity \<Rightarrow>
                  bindS (svc_holdQuantity ttl (ce_org e) (ce_id e) type quantity None now d) (\<lambda>h d. (Inr [h], d)))
         (\<lambda>holds d. case holds of
            [] \<Rightarrow> (Inl Uncaught, d)
          | h # _ \<Rightarrow> (Inr \<lparr>hd_holdIds = map h_id holds, hd_expiresAt = h_expiresAt h\<rparr>, d))) d"

definition checkout_release :: "ident \<Rightarrow> ident list \<Rightarrow> instant \<Rightarrow> db \<Rightarrow> unit svc" where
  "checkout_release eventId holdIds now d =
     (if holdIds = [] then (Inr (), d)
      else loaded (view_load eventId now d) (\<lambda>e d. (Inr (), svc_releaseUnattached (ce_org e) holdIds d)) d)"

section \<open>Placing the order\<close>

record confirm_request =
  co_event :: ident
  co_type :: ident
  co_quantity :: "int option"
  co_seatIds :: "ident list option"
  co_holdIds :: "ident list"
  co_code :: "string option"
  co_buyer :: buyer
  co_key :: string

record organizer_entry =
  en_org :: ident
  en_createdBy :: ident
  en_notify :: bool

record order_placed =
  op_order :: order_row
  op_summary :: order_summary
  op_tickets :: "ticket_row list"
  op_paymentRequired :: bool
  op_awaitingApproval :: bool

definition confirm_quote :: "confirm_request \<Rightarrow> organizer_entry option \<Rightarrow> quote_input" where
  "confirm_quote i entry = \<lparr>qi_event = co_event i, qi_type = co_type i, qi_quantity = co_quantity i,
     qi_seatIds = co_seatIds i, qi_code = co_code i, qi_buyerEmail = Some (b_email (co_buyer i)),
     qi_holdIds = Some (co_holdIds i), qi_actorOrg = map_option en_org entry\<rparr>"

text \<open>The input of the transaction. \<open>tokens i\<close> are the draws of the i-th ticket's token.\<close>

definition place_input ::
  "(nat \<Rightarrow> nat \<Rightarrow> nat) \<Rightarrow> confirm_request \<Rightarrow> priced_selection \<Rightarrow> organizer_entry option \<Rightarrow> instant \<Rightarrow> string
    \<Rightarrow> place_order_input" where
  "place_input tokens i priced entry now reference =
     (let s = ps_summary priced; e = ps_event priced;
          p = placementFor \<lparr>pl_requiresApproval = ce_requiresApproval e, pl_paymentRequired = ors_paymentRequired s,
                pl_organizerEntry = (entry \<noteq> None)\<rparr>;
          notify = (case entry of None \<Rightarrow> True | Some x \<Rightarrow> en_notify x)
      in \<lparr>po_org = ce_org e, po_event = ce_id e, po_reference = reference, po_idempotencyKey = co_key i,
          po_buyer = co_buyer i, po_type = ors_type s, po_typeName = ors_typeName s, po_quantity = ors_quantity s,
          po_seatIds = ors_seatIds s, po_holdIds = co_holdIds i, po_unitPrice = ors_unitPrice s,
          po_totals = ors_totals s, po_discountCode = ps_discountCode priced, po_createdBy = map_option en_createdBy entry,
          po_issueTickets = pm_issueTickets p, po_requiresApproval = pm_requiresApproval p,
          po_awaitsDecision = pm_awaitsDecision p,
          po_qrTokens = (if pm_issueTickets p then map (\<lambda>k. generateQrToken (tokens k)) [0..<nat (ors_quantity s)] else []),
          po_buildEvent = (\<lambda>ord issued. if pm_issueTickets p \<and> notify
             then Some (RegistrationConfirmed (ce_org e) (o_id ord) (int (length issued)) (o_total ord) (o_total ord > 0))
             else None),
          po_now = now\<rparr>)"

definition place ::
  "(nat \<Rightarrow> nat \<Rightarrow> nat) \<Rightarrow> (nat \<Rightarrow> nat \<Rightarrow> nat) \<Rightarrow> confirm_request \<Rightarrow> priced_selection \<Rightarrow> organizer_entry option \<Rightarrow> instant
    \<Rightarrow> db \<Rightarrow> placed_order svc" where
  "place refs tokens i priced entry now d =
     withFreshReference refs (\<lambda>reference. in_tx (placeOrder (place_input tokens i priced entry now reference))) d"

definition toResponse :: "order_row \<Rightarrow> ticket_row list \<Rightarrow> priced_selection \<Rightarrow> order_placed" where
  "toResponse order issued priced = \<lparr>op_order = order, op_summary = ps_summary priced, op_tickets = issued,
     op_paymentRequired = ors_paymentRequired (ps_summary priced), op_awaitingApproval = isAwaitingApproval order\<rparr>"

definition confirm_order ::
  "(ident \<Rightarrow> org_rates) \<Rightarrow> (nat \<Rightarrow> nat \<Rightarrow> nat) \<Rightarrow> (nat \<Rightarrow> nat \<Rightarrow> nat) \<Rightarrow> confirm_request \<Rightarrow> organizer_entry option \<Rightarrow> instant
    \<Rightarrow> db \<Rightarrow> order_placed svc" where
  "confirm_order rates refs tokens i entry now d =
     loaded (priceSelection rates (confirm_quote i entry) now d) (\<lambda>priced d.
       bindS (place refs tokens i priced entry now d) (\<lambda>placed d.
       (Inr (toResponse (pr_order placed) (pr_tickets placed) priced), d))) d"

section \<open>The guest's own order\<close>

record guest_line =
  gl_typeName :: string
  gl_quantity :: int
  gl_unitPrice :: satang
  gl_lineSubtotal :: satang

definition findGuestOrder :: "ident \<Rightarrow> db \<Rightarrow> (order_row \<times> string \<times> ticket_row list \<times> guest_line list) option" where
  "findGuestOrder orderId d =
     (case find (\<lambda>r. o_id r = orderId) (d_orders d) of
        None \<Rightarrow> None
      | Some ord \<Rightarrow>
          (case find (\<lambda>e. evt_id e = o_event ord) (d_events d) of
             None \<Rightarrow> None
           | Some e \<Rightarrow> Some (ord, evt_name e, sort_key t_id (filter (\<lambda>t. t_order t = orderId) (d_tickets d)),
               concat (map (\<lambda>x. map (\<lambda>t. \<lparr>gl_typeName = tt_name t, gl_quantity = oi_quantity x,
                     gl_unitPrice = oi_unitPrice x, gl_lineSubtotal = oi_lineSubtotal x\<rparr>)
                   (filter (\<lambda>t. tt_id t = oi_type x) (d_tiers d)))
                 (sort_key oi_id (filter (\<lambda>x. oi_order x = orderId) (d_items d)))))))"

record guest_order =
  go_order :: order_row
  go_eventName :: string
  go_lines :: "guest_line list"
  go_tickets :: "ticket_row list"
  go_paymentRequired :: bool
  go_awaitingApproval :: bool
  go_holdExpiresAt :: "instant option"

definition ORDER_NOT_FOUND :: error where "ORDER_NOT_FOUND = NotFound ''That order could not be found.''"

definition viewGuestOrder :: "ident \<Rightarrow> db \<Rightarrow> error + guest_order" where
  "viewGuestOrder orderId d =
     (case findGuestOrder orderId d of
        None \<Rightarrow> Inl ORDER_NOT_FOUND
      | Some (ord, name, ts, ls) \<Rightarrow>
          let awaiting = isAwaitingApproval ord in
          Inr \<lparr>go_order = ord, go_eventName = name, go_lines = ls, go_tickets = ts,
            go_paymentRequired = (\<not> awaiting \<and> o_paymentStatus ord \<noteq> PPaid), go_awaitingApproval = awaiting,
            go_holdExpiresAt = (if awaiting then None else holdExpiryForOrder (o_id ord) d)\<rparr>)"

section \<open>Joining the waitlist\<close>

record join_waitlist =
  jl_event :: ident
  jl_type :: ident
  jl_quantity :: int
  jl_buyer :: buyer
  jl_key :: string

definition refusalFor :: "string \<Rightarrow> error" where
  "refusalFor reason = (if reason = WAITLIST_TICKETS_LEFT then Conflict reason [] else Validation reason [])"

definition join_input :: "join_waitlist \<Rightarrow> priced_selection \<Rightarrow> instant \<Rightarrow> string \<Rightarrow> join_waitlist_input" where
  "join_input i priced now reference = (let s = ps_summary priced in
     \<lparr>jw_org = ce_org (ps_event priced), jw_event = ce_id (ps_event priced), jw_reference = reference,
      jw_idempotencyKey = jl_key i, jw_buyer = jl_buyer i, jw_type = ors_type s, jw_quantity = ors_quantity s,
      jw_unitPrice = ors_unitPrice s, jw_totals = ors_totals s, jw_now = now\<rparr>)"

definition join_line ::
  "(ident \<Rightarrow> org_rates) \<Rightarrow> (nat \<Rightarrow> nat \<Rightarrow> nat) \<Rightarrow> join_waitlist \<Rightarrow> instant \<Rightarrow> db \<Rightarrow> (order_row \<times> int) svc" where
  "join_line rates refs i now d =
     loaded (priceSelection rates \<lparr>qi_event = jl_event i, qi_type = jl_type i, qi_quantity = Some (jl_quantity i),
         qi_seatIds = None, qi_code = None, qi_buyerEmail = Some (b_email (jl_buyer i)), qi_holdIds = None,
         qi_actorOrg = None\<rparr> now d) (\<lambda>priced d.
       case waitlistRefusal (ce_waitlistEnabled (ps_event priced)) (ce_seatingMode (ps_event priced))
              (tt_status (ps_tier priced)) of
         Some refusal \<Rightarrow> (Inl (refusalFor refusal), d)
       | None \<Rightarrow> withFreshReference refs (\<lambda>reference. in_tx (joinWaitlist (join_input i priced now reference))) d) d"

section \<open>An organizer's entry\<close>

record registration_entry =
  re_org :: ident
  re_event :: ident
  re_type :: ident
  re_quantity :: int
  re_attendee :: buyer
  re_sendConfirmation :: "bool option"
  re_createdBy :: ident
  re_key :: string

definition add_registration ::
  "(ident \<Rightarrow> org_rates) \<Rightarrow> int \<Rightarrow> (nat \<Rightarrow> nat \<Rightarrow> nat) \<Rightarrow> (nat \<Rightarrow> nat \<Rightarrow> nat) \<Rightarrow> registration_entry \<Rightarrow> instant
    \<Rightarrow> db \<Rightarrow> order_placed svc" where
  "add_registration rates ttl refs tokens i now d =
     bindS (checkout_hold ttl \<lparr>qi_event = re_event i, qi_type = re_type i, qi_quantity = Some (re_quantity i),
              qi_seatIds = None, qi_code = None, qi_buyerEmail = None, qi_holdIds = None, qi_actorOrg = Some (re_org i)\<rparr>
            now d) (\<lambda>h d.
     confirm_order rates refs tokens \<lparr>co_event = re_event i, co_type = re_type i, co_quantity = Some (re_quantity i),
         co_seatIds = None, co_holdIds = hd_holdIds h, co_code = None, co_buyer = re_attendee i, co_key = re_key i\<rparr>
       (Some \<lparr>en_org = re_org i, en_createdBy = re_createdBy i, en_notify = or_else (re_sendConfirmation i) True\<rparr>) now d)"

end
