(* ===== verification/Decisions.thy ===== *)
theory Decisions
  imports TicketingService RefundsService
begin

text \<open>
  \<^verbatim>\<open>registrations/registration-decisions.service.ts\<close>: an organizer approves, rejects or offers. The rules are applied to
  a fresh read first, then the transaction behind the port checks them again under its lock. \<open>mayRefund\<close> is whether
  \<^verbatim>\<open>PermissionsService.getFor\<close> grants the user \<^verbatim>\<open>fin.refund\<close>; \<open>ports\<close> is what a refund needs of the provider.
\<close>

definition UNAVAILABLE :: string where "UNAVAILABLE = ''This registration can no longer be approved.''"
definition NO_SEAT_FREE :: string where
  "NO_SEAT_FREE = ''No seat is free on this ticket - raise its capacity, or wait for one to free up.''"
definition NEEDS_CONFIRMATION :: string where
  "NEEDS_CONFIRMATION = ''Rejecting a registration is permanent. Send `confirm=true` to go ahead.''"
definition REFUND_DID_NOT_GO_THROUGH :: string where
  "REFUND_DID_NOT_GO_THROUGH = ''The registration was rejected, but its refund did not go through:''"
definition FINISH_FROM_PAYMENTS :: string where "FINISH_FROM_PAYMENTS = ''Issue the refund from Payments.''"
definition REFUND_INTERRUPTED :: string where
  "REFUND_INTERRUPTED = ''it was interrupted before it could be confirmed. Reject it again to retry the refund, or issue it from Payments.''"

definition mustFind :: "ident \<Rightarrow> ident \<Rightarrow> db \<Rightarrow> error + order_row" where
  "mustFind org orderId d =
     (case findDecidable org orderId d of None \<Rightarrow> Inl (NotFound GONE) | Some ord \<Rightarrow> Inr ord)"

definition assertDecidable :: "order_row \<Rightarrow> order_status \<Rightarrow> (order_row \<Rightarrow> verdict) \<Rightarrow> error + unit" where
  "assertDecidable order aim rule =
     (if o_status order = aim then Inr ()
      else case rule order of Allowed \<Rightarrow> Inr () | Refused reason \<Rightarrow> Inl (Conflict reason []))"

text \<open>What each decision answers; \<open>None\<close> for the reference of an order that has gone meanwhile.\<close>

record decision_outcome =
  dn_outcome :: string
  dn_reference :: "string option"
  dn_ticketCount :: int

definition approval_name :: "approval_outcome \<Rightarrow> string" where
  "approval_name o' = (case o' of Approved \<Rightarrow> ''approved'' | AlreadyApproved \<Rightarrow> ''already_approved''
     | ApprovalUnavailable \<Rightarrow> ''unavailable'')"

definition decide_approve ::
  "(ident \<Rightarrow> nat \<Rightarrow> string) \<Rightarrow> ident \<Rightarrow> ident \<Rightarrow> ident \<Rightarrow> instant \<Rightarrow> db \<Rightarrow> decision_outcome svc" where
  "decide_approve mint org user orderId now d =
     loaded (bindE (mustFind org orderId d) (\<lambda>order. assertDecidable order OConfirmed canApprove)) (\<lambda>_ d.
       bindS (approve mint org orderId (Some user) now d) (\<lambda>r d.
       if ap_outcome r = ApprovalUnavailable
       then (Inl (Conflict (case ap_reason r of None \<Rightarrow> UNAVAILABLE | Some why \<Rightarrow> why) []), d)
       else (Inr \<lparr>dn_outcome = approval_name (ap_outcome r), dn_reference = ap_reference r,
               dn_ticketCount = ap_ticketCount r\<rparr>, d))) d"

text \<open>A refusal keeps its code and its words; anything else is said to have been interrupted.\<close>

definition with_words :: "string \<Rightarrow> string" where
  "with_words m = REFUND_DID_NOT_GO_THROUGH @ '' '' @ m @ '' '' @ FINISH_FROM_PAYMENTS"

definition rejectedButNotRefunded :: "error \<Rightarrow> error" where
  "rejectedButNotRefunded e =
     (case e of
        Validation m as \<Rightarrow> Validation (with_words m) as
      | Conflict m as \<Rightarrow> Conflict (with_words m) as
      | NotFound m \<Rightarrow> NotFound (with_words m)
      | Forbidden m \<Rightarrow> Forbidden (with_words m)
      | Unauthorized m \<Rightarrow> Unauthorized (with_words m)
      | BadGateway m \<Rightarrow> BadGateway (with_words m)
      | InvalidField f m \<Rightarrow> InvalidField f (with_words m)
      | _ \<Rightarrow> BadGateway (REFUND_DID_NOT_GO_THROUGH @ '' '' @ REFUND_INTERRUPTED))"

definition refundRejection ::
  "refund_ports \<Rightarrow> ident \<Rightarrow> ident \<Rightarrow> ident \<Rightarrow> instant \<Rightarrow> db \<Rightarrow> unit svc" where
  "refundRejection ports org user orderId now d =
     (case refundRejected ports org user orderId now d of
        (Inl e, d') \<Rightarrow> (Inl (rejectedButNotRefunded e), d')
      | (Inr _, d') \<Rightarrow> (Inr (), d'))"

definition decide_reject ::
  "refund_ports \<Rightarrow> bool \<Rightarrow> ident \<Rightarrow> ident \<Rightarrow> ident \<Rightarrow> bool \<Rightarrow> string option \<Rightarrow> instant \<Rightarrow> db \<Rightarrow> decision_outcome svc" where
  "decide_reject ports mayRefund org user orderId confirmed reason now d =
     (if \<not> confirmed then (Inl (Validation NEEDS_CONFIRMATION []), d)
      else loaded (bindE (mustFind org orderId d) (\<lambda>order.
             if rejectionRefunds order \<and> \<not> mayRefund then Inl (Forbidden REJECT_NEEDS_REFUND_PERMISSION)
             else assertDecidable order ORejected (\<lambda>ord. canReject ord mayRefund))) (\<lambda>_ d.
        bindS (reject org orderId \<lparr>ri_decidedBy = user, ri_reason = reason, ri_mayRefund = mayRefund\<rparr> now d)
          (\<lambda>(reference, refundDue) d.
        bindS (if refundDue then refundRejection ports org user orderId now d else (Inr (), d)) (\<lambda>_ d.
        (Inr \<lparr>dn_outcome = ''rejected'', dn_reference = Some reference, dn_ticketCount = 0\<rparr>, d)))) d)"

record offer_answer =
  oa_outcome :: string
  oa_reference :: "string option"
  oa_expiresAt :: "instant option"
  oa_ticketCount :: int

definition decide_confirmFree ::
  "(ident \<Rightarrow> nat \<Rightarrow> string) \<Rightarrow> ident \<Rightarrow> ident \<Rightarrow> order_row \<Rightarrow> instant \<Rightarrow> db \<Rightarrow> offer_answer svc" where
  "decide_confirmFree mint org user order now d =
     loaded (assertDecidable order OConfirmed canOffer) (\<lambda>_ d.
       bindS (approve mint org (o_id order) (Some user) now d) (\<lambda>r d.
       if ap_outcome r = ApprovalUnavailable then (Inl (Conflict NO_SEAT_FREE []), d)
       else (Inr \<lparr>oa_outcome = ''confirmed'', oa_reference = ap_reference r, oa_expiresAt = None,
               oa_ticketCount = ap_ticketCount r\<rparr>, d))) d"

definition decide_offer ::
  "int \<Rightarrow> (ident \<Rightarrow> nat \<Rightarrow> string) \<Rightarrow> ident \<Rightarrow> ident \<Rightarrow> ident \<Rightarrow> instant \<Rightarrow> db \<Rightarrow> offer_answer svc" where
  "decide_offer win mint org user orderId now d =
     loaded (mustFind org orderId d) (\<lambda>order d.
       if o_total order = 0 then decide_confirmFree mint org user order now d
       else loaded (assertDecidable order OPending canOffer) (\<lambda>_ d.
         bindS (offer win org orderId (Some user) now d) (\<lambda>r d.
         if or_outcome r = NoSeat then (Inl (Conflict NO_SEAT_FREE []), d)
         else (Inr \<lparr>oa_outcome = (if or_outcome r = Offered then ''offered'' else ''already_offered''),
                 oa_reference = Some (or_reference r), oa_expiresAt = or_expires r, oa_ticketCount = 0\<rparr>, d))) d) d"

end
