(* ===== verification/CheckoutRuns.thy ===== *)
theory CheckoutRuns
  imports Workspace CheckoutService Decisions PaymentsService Invoices
begin

text \<open>
  Every service call of a booking is a run of the workspace: the transactions it commits are steps of the relation of
  theory Workspace, whose premises the service discharges. So what holds in every reachable state of the workspace
  holds whatever buyers and organizers call.
\<close>

section \<open>Pricing reads the catalogue\<close>

lemma tierById_Some:
  "tierById org ev tid now d = Some t \<Longrightarrow> \<exists>t0. findTicket org ev tid d = Some t0 \<and> t = toTier now t0"
  by (auto simp: tierById_def)

lemma toTier_fields [simp]:
  "tt_id (toTier now t) = tt_id t" "tt_price (toTier now t) = tt_price t" "tt_name (toTier now t) = tt_name t"
  "tt_minPerOrder (toTier now t) = tt_minPerOrder t" "tt_maxPerOrder (toTier now t) = tt_maxPerOrder t"
  "tt_sold (toTier now t) = tt_sold t" "tt_total (toTier now t) = tt_total t" "tt_org (toTier now t) = tt_org t"
  by (simp_all add: toTier_def)

lemma length_dedupe_iff: "length (dedupe xs) = length xs \<longleftrightarrow> distinct xs"
proof
  assume "length (dedupe xs) = length xs"
  then have "card (set xs) = length xs" using distinct_card [OF distinct_dedupe, of xs] by simp
  then show "distinct xs" by (rule card_distinct)
qed simp

lemma selection_size:
  assumes "resolveSelection mode inp = Inr s"
  shows "1 \<le> selectionSize s \<and> selectionSize s \<le> 8"
  using assms
  by (auto simp: resolveSelection_def resolveReserved_def resolveGeneralAdmission_def policy_assertBookingSize_def
      SeatHolds.MAX_SEATS_PER_BOOKING_def bindE_Inr_iff Let_def split: if_splits)

lemma resolve_selection_D:
  assumes "resolve_selection i now d = Inr (e, t, s)"
  shows "loadEvent i now d = Inr e" "\<exists>t0. findTicket (ce_org e) (ce_id e) (qi_type i) d = Some t0 \<and> t = toTier now t0"
    "tt_id t = qi_type i" "tt_org t = ce_org e" "1 \<le> selectionSize s" "selectionSize s \<le> 8"
    "tt_minPerOrder t \<le> selectionSize s" "selectionSize s \<le> tt_maxPerOrder t"
    "(\<exists>ids. s = ReservedSelection (qi_type i) ids) \<or> (\<exists>n. s = GaSelection (qi_type i) n)"
proof -
  from assms have e: "loadEvent i now d = Inr e" and t: "tierById (ce_org e) (ce_id e) (qi_type i) now d = Some t"
    and s: "resolveSelection (ce_seatingMode e)
        \<lparr>si_ticketTypeId = qi_type i, si_quantity = qi_quantity i, si_seatIds = qi_seatIds i\<rparr> = Inr s"
    and b: "assertWithinTierBounds (tt_minPerOrder t) (tt_maxPerOrder t) (selectionSize s) = Inr ()"
    by (auto simp: resolve_selection_def bindE_Inr_iff requireTier_def split: option.splits)
  show "loadEvent i now d = Inr e" by (rule e)
  show t0: "\<exists>t0. findTicket (ce_org e) (ce_id e) (qi_type i) d = Some t0 \<and> t = toTier now t0" by (rule tierById_Some [OF t])
  then show "tt_id t = qi_type i" "tt_org t = ce_org e" by (auto dest: findTicket_Some)
  show "1 \<le> selectionSize s" "selectionSize s \<le> 8" using selection_size [OF s] by simp_all
  show "tt_minPerOrder t \<le> selectionSize s" "selectionSize s \<le> tt_maxPerOrder t"
    using b by (auto simp: assertWithinTierBounds_def split: if_splits)
  show "(\<exists>ids. s = ReservedSelection (qi_type i) ids) \<or> (\<exists>n. s = GaSelection (qi_type i) n)"
    using s by (auto simp: resolveSelection_def resolveReserved_def resolveGeneralAdmission_def bindE_Inr_iff Let_def split: if_splits)
qed

lemma priceSelection_D:
  assumes "priceSelection rates i now d = Inr p"
  obtains t discount code where "resolve_selection i now d = Inr (ps_event p, ps_tier p, ps_selection p)"
    "findTicket (ce_org (ps_event p)) (ce_id (ps_event p)) (qi_type i) d = Some t" "ps_tier p = toTier now t"
    "discountFor rates i (tt_price t * ors_quantity (ps_summary p)) now d = Inr (discount, code)"
    "ors_quantity (ps_summary p) = selectionSize (ps_selection p)" "1 \<le> ors_quantity (ps_summary p)"
    "ors_type (ps_summary p) = tt_id t" "ors_unitPrice (ps_summary p) = tt_price t" "ps_discountCode p = map_option dc_id code"
    "ors_totals (ps_summary p) = priceOrder \<lparr>pi_subtotal = tt_price t * ors_quantity (ps_summary p), pi_discount = discount,
       pi_serviceFeeRate = rt_serviceFee (rates (ce_org (ps_event p))), pi_vatRate = rt_vat (rates (ce_org (ps_event p)))\<rparr>"
    "ors_paymentRequired (ps_summary p) = (0 < totalSatang (ors_totals (ps_summary p)))"
proof -
  from assms obtain e t s discount code where r: "resolve_selection i now d = Inr (e, t, s)"
    and q: "discountFor rates i (tt_price t * selectionSize s) now d = Inr (discount, code)"
    and p: "ps_event p = e" "ps_tier p = t" "ps_selection p = s" "ps_discountCode p = map_option dc_id code"
      "ors_quantity (ps_summary p) = selectionSize s" "ors_type (ps_summary p) = tt_id t" "ors_unitPrice (ps_summary p) = tt_price t"
      "ors_totals (ps_summary p) = priceOrder \<lparr>pi_subtotal = tt_price t * selectionSize s, pi_discount = discount,
         pi_serviceFeeRate = rt_serviceFee (rates (ce_org e)), pi_vatRate = rt_vat (rates (ce_org e))\<rparr>"
      "ors_paymentRequired (ps_summary p) = (0 < totalSatang (ors_totals (ps_summary p)))"
    by (auto simp: priceSelection_def Let_def bindE_Inr_iff)
  note R = resolve_selection_D [OF r]
  from R(2) obtain t0 where t0: "findTicket (ce_org e) (ce_id e) (qi_type i) d = Some t0" "t = toTier now t0" by blast
  show thesis by (rule that [of t0 discount code]) (use r q p t0 R(5) in simp_all)
qed

section \<open>Runs of transactions\<close>

abbreviation runs :: "db \<Rightarrow> db \<Rightarrow> bool" where "runs \<equiv> workspace_step\<^sup>*\<^sup>*"

lemma book: "inventory_step d d' \<Longrightarrow> runs d d'"
  by (rule r_into_rtranclp) (rule workspace_step.booking)

lemma runs_inv: "runs d d' \<Longrightarrow> checkout_inv d \<Longrightarrow> checkout_inv d'"
  by (rule workspace.inv_run)

text \<open>A transaction run as a step of a service leaves what it committed, or nothing.\<close>

lemma in_tx_runs: "in_tx t d = (r, d') \<Longrightarrow> (\<And>x. t d = Inr (x, d') \<Longrightarrow> runs d d') \<Longrightarrow> runs d d'"
  by (cases "t d") (auto simp: in_tx_def)

lemma bindS_runs:
  assumes "bindS m f = (r, d'')" and "\<And>r1 d'. m = (r1, d') \<Longrightarrow> runs d d'"
    and "\<And>x d'. m = (Inr x, d') \<Longrightarrow> runs d d' \<Longrightarrow> f x d' = (r, d'') \<Longrightarrow> runs d' d''"
  shows "runs d d''"
proof (cases m)
  case (Pair r1 d')
  with assms(2) have one: "runs d d'" by blast
  show ?thesis
  proof (cases r1)
    case (Inl e)
    then show ?thesis using assms(1) Pair one by simp
  next
    case (Inr x)
    then show ?thesis using assms(1,3) Pair one by (auto intro: rtranclp_trans)
  qed
qed

lemma loaded_runs: "loaded r f d = (x, d') \<Longrightarrow> (\<And>y. r = Inr y \<Longrightarrow> f y d = (x, d') \<Longrightarrow> runs d d') \<Longrightarrow> runs d d'"
  by (cases r) (auto simp: loaded_def)

lemma from_attempt_runs:
  assumes "\<And>ref r d'. go ref d = (r, d') \<Longrightarrow> runs d d' \<and> ((\<exists>e. r = Inl e) \<longrightarrow> d' = d)"
  shows "from_attempt n draws go d = (r, d') \<Longrightarrow> runs d d'"
  using assms
proof (induction n draws go d arbitrary: r d' rule: from_attempt.induct)
  case (1 attempt draws go d)
  obtain r1 d1 where one: "go (generateOrderReference (draws attempt)) d = (r1, d1)" by (cases "go (generateOrderReference (draws attempt)) d")
  note P = "1.prems"(2) [OF one]
  show ?case
  proof (cases r1)
    case (Inr x)
    then show ?thesis using "1.prems"(1) one P by (simp add: from_attempt.simps)
  next
    case (Inl e)
    show ?thesis
    proof (cases "\<not> isReferenceCollision e \<or> attempt \<ge> REFERENCE_ATTEMPTS")
      case True
      then show ?thesis using "1.prems"(1) one Inl P by (auto simp: from_attempt.simps)
    next
      case False
      have same: "d1 = d" using P Inl by blast
      have next_try: "from_attempt (attempt + 1) draws go d1 = (r, d')"
        using "1.prems"(1) one Inl False by (subst (asm) from_attempt.simps) simp
      have "runs d1 d'"
        by (rule "1.IH" [OF one [symmetric] Inl False next_try]) (use "1.prems"(2) same in blast)
      then show ?thesis using same by simp
    qed
  qed
qed

lemma fresh_reference_runs:
  assumes "withFreshReference draws (\<lambda>ref. in_tx (tx ref)) d = (r, d')"
    and "\<And>ref x d'. tx ref d = Inr (x, d') \<Longrightarrow> runs d d'"
  shows "runs d d'"
proof (rule from_attempt_runs [OF _ assms(1) [unfolded withFreshReference_def]])
  fix ref r1 d1 assume "in_tx (tx ref) d = (r1, d1)"
  then show "runs d d1 \<and> ((\<exists>e. r1 = Inl e) \<longrightarrow> d1 = d)"
    using assms(2) by (cases "tx ref d") (auto simp: in_tx_def)
qed

section \<open>The buyer\<close>

lemma checked_runs: "bindS (r, d) f = (x, d') \<Longrightarrow> (\<And>y. f y d = (x, d') \<Longrightarrow> runs d d') \<Longrightarrow> runs d d'"
  by (cases r) auto

lemma svc_holdSeats_runs: "svc_holdSeats ttl org ev tier ids oid now d = (r, d') \<Longrightarrow> runs d d'"
  unfolding svc_holdSeats_def Let_def
  apply (erule checked_runs)
  apply (erule checked_runs)
  apply (erule bindS_runs)
   apply (erule in_tx_runs, rule book, erule inventory_step.seats_held)
  apply (auto split: hold_seats_result.splits)
  done

lemma svc_holdQuantity_runs: "svc_holdQuantity ttl org ev tier n oid now d = (r, d') \<Longrightarrow> runs d d'"
  unfolding svc_holdQuantity_def
  apply (erule checked_runs)
  apply (simp split: option.splits)
  apply (erule checked_runs)
  apply (erule bindS_runs)
   apply (erule in_tx_runs, rule book, erule inventory_step.quantity_held)
  apply (auto split: hold_quantity_result.splits)
  done

lemma checkout_hold_runs: "checkout_hold ttl i now d = (r, d') \<Longrightarrow> runs d d'"
  unfolding checkout_hold_def
proof (erule loaded_runs, clarsimp, erule bindS_runs, goal_cases)
  case (1 e t s r1 d1)
  then show ?case
  proof (cases s)
    case (ReservedSelection ty ids)
    with 1 show ?thesis by (auto dest: svc_holdSeats_runs)
  next
    case (GaSelection ty n)
    with 1 have "bindS (svc_holdQuantity ttl (ce_org e) (ce_id e) ty n None now d) (\<lambda>h d. (Inr [h], d)) = (r1, d1)" by simp
    then show ?thesis by (rule bindS_runs) (auto dest: svc_holdQuantity_runs)
  qed
qed (auto split: list.splits)

lemma checkout_release_runs: "checkout_release ev hs now d = (r, d') \<Longrightarrow> runs d d'"
  unfolding checkout_release_def svc_releaseUnattached_def
  by (auto split: if_splits elim!: loaded_runs intro: book inventory_step.hold_dropped)

text \<open>The order the service places is one the invariant was proved for.\<close>

lemma confirm_places:
  assumes "checkout_inv d" and "priceSelection rates (confirm_quote i entry) now d = Inr p"
  shows "placed_for d (place_input tokens i p entry now ref)"
proof -
  obtain t discount code where t: "findTicket (ce_org (ps_event p)) (ce_id (ps_event p)) (qi_type (confirm_quote i entry)) d = Some t"
      "ors_type (ps_summary p) = tt_id t" "1 \<le> ors_quantity (ps_summary p)"
    by (rule priceSelection_D [OF assms(2)])
  have "distinct (map tt_id (d_tiers d))" using assms(1) by (simp add: checkout_inv_def stock_defs)
  then have "tt_org x = ce_org (ps_event p)" if "x \<in> set (d_tiers d)" "tt_id x = tt_id t" for x
    using that findTicket_Some [OF t(1)] by (metis distinct_map inj_onD)
  with t show ?thesis by (auto simp: placed_for_def place_input_def Let_def)
qed

lemma confirm_runs:
  assumes "checkout_inv d" and "confirm_order rates refs tokens i entry now d = (r, d')"
  shows "runs d d'"
  using assms(2) unfolding confirm_order_def
proof (rule loaded_runs)
  fix p assume p: "priceSelection rates (confirm_quote i entry) now d = Inr p"
  assume "bindS (place refs tokens i p entry now d) (\<lambda>placed d. (Inr (toResponse (pr_order placed) (pr_tickets placed) p), d)) = (r, d')"
  then show "runs d d'"
  proof (rule bindS_runs)
    fix r1 d1 assume "place refs tokens i p entry now d = (r1, d1)"
    then show "runs d d1" unfolding place_def
      by (rule fresh_reference_runs) (blast intro: book inventory_step.placed confirm_places [OF assms(1) p])
  qed auto
qed

lemma join_runs:
  assumes "checkout_inv d" and "join_line rates refs i now d = (r, d')"
  shows "runs d d'"
  using assms(2) unfolding join_line_def
proof (rule loaded_runs)
  let ?q = "\<lparr>qi_event = jl_event i, qi_type = jl_type i, qi_quantity = Some (jl_quantity i), qi_seatIds = None,
    qi_code = None, qi_buyerEmail = Some (b_email (jl_buyer i)), qi_holdIds = None, qi_actorOrg = None\<rparr>"
  fix p assume p: "priceSelection rates ?q now d = Inr p"
  obtain t where t: "findTicket (ce_org (ps_event p)) (ce_id (ps_event p)) (qi_type ?q) d = Some t"
      "ors_type (ps_summary p) = tt_id t" by (rule priceSelection_D [OF p])
  have "distinct (map tt_id (d_tiers d))" using assms(1) by (simp add: checkout_inv_def stock_defs)
  then have tier: "\<forall>x\<in>set (d_tiers d). tt_id x = jw_type (join_input i p now ref) \<longrightarrow> tt_org x = jw_org (join_input i p now ref)" for ref
    using findTicket_Some [OF t(1)] t(2) by (auto simp: join_input_def Let_def) (metis distinct_map inj_onD)
  assume "(case waitlistRefusal (ce_waitlistEnabled (ps_event p)) (ce_seatingMode (ps_event p)) (tt_status (ps_tier p)) of
      None \<Rightarrow> withFreshReference refs (\<lambda>ref. in_tx (joinWaitlist (join_input i p now ref))) d
    | Some refusal \<Rightarrow> (Inl (refusalFor refusal), d)) = (r, d')"
  then show "runs d d'"
    by (auto split: option.splits elim!: fresh_reference_runs intro: book inventory_step.joined [OF tier])
qed

lemma add_registration_runs:
  assumes "checkout_inv d" and "add_registration rates ttl refs tokens i now d = (r, d')"
  shows "runs d d'"
  using assms(2) unfolding add_registration_def
  by (rule bindS_runs) (auto dest: checkout_hold_runs intro: confirm_runs runs_inv [OF _ assms(1)])

section \<open>The organizer\<close>

lemma ws_approve_runs:
  assumes "approve mint org oid by_user now d = (r, d')"
  shows "runs d d'"
proof (cases "orderById org oid d")
  case (Some ord)
  have hook: "tx_hook (so_recordPayment (approval_input mint org oid by_user now))"
    by (simp add: approval_input_def approval_hook.tx_hook_axioms)
  from assms show ?thesis unfolding approve_def Some option.case
  proof (rule bindS_runs)
    fix r1 d1 assume "in_tx (settleOrder (approval_input mint org oid by_user now)) d = (r1, d1)"
    then show "runs d d1" by (rule in_tx_runs) (rule book [OF inventory_step.settled [OF hook]])
  qed auto
qed (use assms in \<open>simp add: approve_def\<close>)

lemma ws_holdForOffer_runs: "holdForOffer org ev tier n oid expires now d = (r, d') \<Longrightarrow> runs d d'"
  unfolding holdForOffer_def
  by (erule checked_runs, erule bindS_runs) (auto elim!: in_tx_runs intro: book inventory_step.quantity_held)

lemma ws_release_runs: "runs d (svc_release org hs d)"
  unfolding svc_release_def by (rule book) (rule inventory_step.hold_released)

lemma ws_offer_runs:
  assumes "offer win org oid by_user now d = (r, d')"
  shows "runs d d'"
proof (cases "waitlistEntry org oid d")
  case (Some entry)
  let ?ord = "we_order entry"
  show ?thesis
  proof (cases "if o_status ?ord = OPending then o_offerExpiresAt ?ord else None")
    case None
    note call = assms [unfolded offer_def Some Let_def option.case None]
    from call show ?thesis
    proof (rule bindS_runs)
      fix r1 d1 assume "holdForOffer org (o_event ?ord) (we_type entry) (we_quantity entry) oid (now + win) now d = (r1, d1)"
      then show "runs d d1" by (rule ws_holdForOffer_runs)
    next
      fix hold d1 assume rest: "(case hold of None \<Rightarrow> (Inr \<lparr>or_outcome = NoSeat, or_reference = o_reference ?ord, or_expires = None\<rparr>, d1)
          | Some h \<Rightarrow> (case in_tx (markOffered org oid by_user (now + win) now
                (\<lambda>offered. WaitlistOffered org (o_id offered) (now + win))) d1 of
               (Inl e, d) \<Rightarrow> (Inl e, svc_release org [h_id h] d)
             | (Inr x, d) \<Rightarrow> (Inr \<lparr>or_outcome = Offered, or_reference = o_reference ?ord, or_expires = Some (now + win)\<rparr>, d)))
          = (r, d')"
      then show "runs d1 d'"
      proof (cases hold)
        case (Some h)
        then show ?thesis using rest ws_release_runs
          by (cases "markOffered org oid by_user (now + win) now (\<lambda>offered. WaitlistOffered org (o_id offered) (now + win)) d1")
            (auto simp: in_tx_def intro: book [OF inventory_step.offered])
      qed simp
    qed
  qed (use assms Some in \<open>auto simp: offer_def Let_def\<close>)
qed (use assms in \<open>simp add: offer_def\<close>)

lemma reject_runs: "reject org oid inp now d = (r, d') \<Longrightarrow> runs d d'"
  unfolding reject_def by (erule in_tx_runs) (rule book [OF inventory_step.rejected])

text \<open>What touches no table of the inventory.\<close>

lemma kept: "inventory d' = inventory d \<Longrightarrow> runs d d'"
proof -
  assume same: "inventory d' = inventory d"
  from inventory_eqD [OF this] show "runs d d'"
    by (intro r_into_rtranclp workspace_step.bookkeeping) (simp_all add: inventory_def)
qed

lemma numbered: "d' = e\<lparr>d_next := d_next d + k\<rparr> \<Longrightarrow> inventory e = inventory d \<Longrightarrow> runs d d'" for e :: db
proof -
  assume d': "d' = e\<lparr>d_next := d_next d + k\<rparr>" and same: "inventory e = inventory d"
  from inventory_eqD [OF same] have "inventory (d'\<lparr>d_next := d_next d\<rparr>) = inventory d"
    by (simp add: d' inventory_def)
  with d' show "runs d d'" by (intro r_into_rtranclp workspace_step.bookkeeping) simp_all
qed

lemma claimRefund_runs: "claimRefund inp d = (r, d') \<Longrightarrow> runs d d'"
proof (cases "find (\<lambda>r. r_org r = cr_org inp \<and> r_idempotencyKey r = cr_idempotencyKey inp) (d_refunds d)")
  case None
  assume "claimRefund inp d = (r, d')"
  with None have "d' = d\<lparr>d_refunds := d_refunds d @ [claim_row inp (d_next d)], d_next := d_next d + 1\<rparr>"
    by (simp add: claimRefund_def)
  then show ?thesis by (rule numbered) (simp add: inventory_def)
qed (simp add: claimRefund_def)

lemma refund_marks_run:
  "runs d (markRefundPending rid ref d)" "markRefundFailed rid why d = (b, d') \<Longrightarrow> runs d d'"
  "markRefundedIn inp d = (b, d') \<Longrightarrow> inventory d' = inventory d"
  by (auto simp: markRefundPending_def markRefundFailed_def markRefundedIn_def inventory_def split: if_splits intro!: kept)

text \<open>The ports of a refund, as the modules bind them.\<close>

lemma void_hook_frame: "pt_voidInvoice ports = voidInvoiceForRefundIn \<Longrightarrow> tx_hook (void_hook ports refund ledger)"
proof
  fix d d' assume "pt_voidInvoice ports = voidInvoiceForRefundIn" and "void_hook ports refund ledger d = Inr d'"
  then show "inventory d' = inventory d"
    using refund_marks_run(3) void_invoice.hook_frame by (fastforce simp: void_hook_def split: prod.splits bool.splits)
qed

lemma completeRefund_runs:
  assumes "pt_voidInvoice ports = voidInvoiceForRefundIn" and "completeRefund ports refund ref now d = (r, d')"
  shows "runs d d'"
proof -
  obtain s d1 where s: "settleDuplicateRefund (r_org refund) (r_order refund) (ledger_input refund ref now) d = (s, d1)"
    by (cases "settleDuplicateRefund (r_org refund) (r_order refund) (ledger_input refund ref now) d")
  then have "inventory d1 = inventory d"
    by (auto simp: settleDuplicateRefund_def Let_def split: if_splits prod.splits dest: refund_marks_run(3))
  then have one: "runs d d1" by (rule kept)
  have "runs d1 d'"
  proof (cases s)
    case SolePayment
    then have "voidOrder ports refund (ledger_input refund ref now) d1 = (r, d')"
      using assms(2) s by (simp add: completeRefund_def)
    then show ?thesis unfolding voidOrder_def
      by (cases "refundOrder (r_org refund) (r_order refund) (void_hook ports refund (ledger_input refund ref now)) (mr_now (ledger_input refund ref now)) d1")
        (auto simp: in_tx_def split: if_splits intro: book [OF inventory_step.refunded [OF void_hook_frame [OF assms(1)]]])
  qed (use assms(2) s in \<open>auto simp: completeRefund_def\<close>)
  with one show ?thesis by simp
qed

lemma settleRefund_runs:
  assumes "pt_voidInvoice ports = voidInvoiceForRefundIn" and "settleRefund ports payment ref refund now d = (r, d')"
  shows "runs d d'"
  using assms(2) unfolding settleRefund_def Let_def
proof (rule checked_runs)
  fix out assume call: "(case rf_status out of
        ProvPending \<Rightarrow> (Inr ((toResult refund)\<lparr>rr_status := RPending\<rparr>), markRefundPending (r_id refund) (rf_refundRef out) d)
      | ProvSucceeded \<Rightarrow> bindS (completeRefund ports refund (rf_refundRef out) now d) (\<lambda>done d.
           if \<not> done then (Inl FINISHED_ELSEWHERE, d) else (Inr ((toResult refund)\<lparr>rr_status := RSucceeded\<rparr>), d))
      | ProvFailed \<Rightarrow> (Inl (BadGateway (''The provider refused the refund: ''
             @ (case rf_failureReason out of None \<Rightarrow> ''no reason given'' | Some r \<Rightarrow> r) @ ''.'')),
          snd (markRefundFailed (r_id refund) (rf_failureReason out) d))) = (r, d')"
  then show "runs d d'"
  proof (cases "rf_status out")
    case ProvSucceeded
    then show ?thesis using call
      by (auto elim!: bindS_runs dest: completeRefund_runs [OF assms(1)] split: if_splits)
  next
    case ProvFailed
    obtain b d1 where f: "markRefundFailed (r_id refund) (rf_failureReason out) d = (b, d1)"
      by (cases "markRefundFailed (r_id refund) (rf_failureReason out) d")
    with ProvFailed call refund_marks_run(2) [OF f]
    show ?thesis by simp
  qed (use call refund_marks_run(1) in auto)
qed

lemma svc_refund_runs:
  assumes "pt_voidInvoice ports = voidInvoiceForRefundIn" and "svc_refund ports org user inp now d = (r, d')"
  shows "runs d d'"
  using assms(2) unfolding svc_refund_def
proof (rule checked_runs)
  fix pr
  let ?claim = "\<lambda>payment. \<lparr>cr_org = org, cr_payment = p_id payment, cr_order = p_order payment, cr_amount = p_amount payment,
      cr_issuedBy = user, cr_idempotencyKey = rq_idempotencyKey inp, cr_now = now\<rparr>"
  assume call: "(case pr of (payment, ref) \<Rightarrow> \<lambda>d. case claimRefund (?claim payment) d of ((row, fresh), d) \<Rightarrow>
        if \<not> fresh then replay ports payment ref row now d else settleRefund ports payment ref row now d) d = (r, d')"
  obtain payment ref row fresh d1 where pr: "pr = (payment, ref)" and c: "claimRefund (?claim payment) d = ((row, fresh), d1)"
    by (metis surj_pair)
  have "runs d1 d'" using call pr c
    by (auto simp: replay_def split: if_splits dest: settleRefund_runs [OF assms(1)])
  with claimRefund_runs [OF c] show "runs d d'" by simp
qed

lemma refund_each_runs:
  assumes "pt_voidInvoice ports = voidInvoiceForRefundIn"
  shows "refund_each ports org user oid now ps d = (r, d') \<Longrightarrow> runs d d'"
proof (induction ps arbitrary: d r d')
  case (Cons p ps)
  have one: "refundPayment ports org user oid p now d = (r1, d1) \<Longrightarrow> runs d d1" for r1 d1
    unfolding refundPayment_def
    by (auto split: if_splits elim!: bindS_runs dest: svc_refund_runs [OF assms])
  show ?case using Cons.prems unfolding refund_each.simps
    by (rule bindS_runs) (use one Cons.IH in \<open>auto elim!: bindS_runs\<close>)
qed simp

lemma refundRejected_runs:
  "pt_voidInvoice ports = voidInvoiceForRefundIn \<Longrightarrow> refundRejected ports org user oid now d = (r, d') \<Longrightarrow> runs d d'"
  by (auto simp: refundRejected_def Let_def split: if_splits elim!: bindS_runs dest: refund_each_runs)

lemma decide_approve_runs: "decide_approve mint org user oid now d = (r, d') \<Longrightarrow> runs d d'"
  unfolding decide_approve_def
  by (erule loaded_runs, erule bindS_runs) (auto dest: ws_approve_runs split: if_splits)

lemma decide_reject_runs:
  assumes "pt_voidInvoice ports = voidInvoiceForRefundIn"
    and "decide_reject ports mayRefund org user oid confirmed reason now d = (r, d')"
  shows "runs d d'"
proof (cases confirmed)
  case True
  have returned: "refundRejection ports org user oid now d1 = (r1, d2) \<Longrightarrow> runs d1 d2" for d1 r1 d2
    unfolding refundRejection_def
    by (auto split: prod.splits sum.splits dest: refundRejected_runs [OF assms(1)])
  from True assms(2) show ?thesis unfolding decide_reject_def
    by (auto elim!: loaded_runs bindS_runs dest: reject_runs returned split: if_splits)
qed (use assms(2) in \<open>simp add: decide_reject_def\<close>)

lemma decide_offer_runs: "decide_offer win mint org user oid now d = (r, d') \<Longrightarrow> runs d d'"
  unfolding decide_offer_def decide_confirmFree_def
  by (erule loaded_runs)
    (auto split: if_splits elim!: loaded_runs bindS_runs dest: ws_approve_runs ws_offer_runs)

section \<open>Payments\<close>

lemma payment_marks:
  "inventory (markWebhookProcessed ev o' st d) = inventory d" "inventory (markFailed pid d) = inventory d"
  "inventory (markPaidIn pid now d) = inventory d" "inventory (updateGatewayRef pid ref d) = inventory d"
  "inventory (snd (recordWebhook prov v d)) = inventory d" "inventory (snd (reconcileGatewayRef payment ref d)) = inventory d"
  by (auto simp: markWebhookProcessed_def markFailed_def markPaidIn_def updateGatewayRef_def recordWebhook_def
      reconcileGatewayRef_def inventory_def split: option.splits)

lemma recordPaid_frame: "pm_payInvoice ports = markInvoicePaidIn \<Longrightarrow> tx_hook (recordPaid ports payment now)"
proof
  fix d d' assume "pm_payInvoice ports = markInvoicePaidIn" and "recordPaid ports payment now d = Inr d'"
  then show "inventory d' = inventory d"
    using pay_invoice.hook_frame payment_marks(3) by (fastforce simp: recordPaid_def)
qed

lemma settle_runs:
  assumes "tx_hook hook" and "settle mint org oid hook now d = (r, d')"
  shows "runs d d'"
proof (cases "orderById org oid d")
  case (Some ord)
  with assms(2) have "in_tx (settleOrder (payment_settlement mint org oid hook now)) d = (r, d')" by (simp add: settle_def)
  then show ?thesis
    by (rule in_tx_runs) (rule book [OF inventory_step.settled], simp_all add: payment_settlement_def assms(1))
qed (use assms(2) in \<open>simp add: settle_def\<close>)

text \<open>The ports of payments, as the modules bind them.\<close>

definition bound :: "payment_ports \<Rightarrow> bool" where
  "bound ports = (pm_payInvoice ports = markInvoicePaidIn \<and> pt_voidInvoice (pm_refunds ports) = voidInvoiceForRefundIn)"

lemma upsertAttempt_runs:
  assumes "upsertAttempt a d = (p, d')"
  shows "runs d d'"
proof (cases "list_ex (\<lambda>p. p_org p = ra_org a \<and> (p_txn p = ra_gatewayRef a
            \<or> p_idempotencyKey p = ra_idempotencyKey a)) (d_payments d)")
  case False
  with assms have "d' = d\<lparr>d_payments := d_payments d @ [attempt_row a (d_next d)], d_next := d_next d + 1\<rparr>"
    unfolding upsertAttempt_def by simp
  then show ?thesis by (rule numbered) (simp add: inventory_def)
qed (use assms in \<open>auto simp: upsertAttempt_def\<close>)

lemma reconciled_runs: "reconcileGatewayRef payment ref d = (p, d') \<Longrightarrow> runs d d'"
  using payment_marks(6) [of payment ref d] by (auto intro: kept)

lemma pay_runs:
  assumes "pay ports inp d = (r, d')"
  shows "runs d d'"
  using assms unfolding pay_def
  by (auto elim!: checked_runs split: prod.splits option.splits
      dest!: upsertAttempt_runs reconciled_runs intro: rtranclp_trans)

lemma queueRefund_runs: "queueRefund org oid amount why d = (r, d') \<Longrightarrow> runs d d'"
  by (auto simp: queueRefund_def enqueueRefund_def enqueueIn_def inventory_def split: option.splits intro!: kept)

lemma marked_run: "runs d d1 \<Longrightarrow> runs d (markWebhookProcessed ev o' st d1)"
  by (rule rtranclp_trans, assumption, rule kept, rule payment_marks)

lemma onSucceeded_runs:
  assumes "bound ports" and "onSucceeded ports v payment now d = (r, d')"
  shows "runs d d'"
proof (cases "vw_amount v = p_amount payment")
  case True
  have dup: "refundIfDuplicate payment d1 = (r1, d2) \<Longrightarrow> runs d1 d2" for d1 r1 d2
    by (auto simp: refundIfDuplicate_def split: if_splits dest: queueRefund_runs)
  have hook: "tx_hook (recordPaid ports payment now)" using assms(1) recordPaid_frame by (simp add: bound_def)
  from True assms(2) show ?thesis unfolding onSucceeded_def
    by (auto split: if_splits elim!: bindS_runs dest: settle_runs [OF hook] dup intro: marked_run)
qed (use assms(2) in \<open>auto simp: onSucceeded_def intro: marked_run\<close>)

lemma dispatch_runs:
  assumes "bound ports" and "dispatch ports v payment now d = (r, d')"
  shows "runs d d'"
proof (cases "vw_type v = WSucceeded")
  case True
  with assms show ?thesis by (auto simp: dispatch_def dest: onSucceeded_runs)
next
  case False
  have "runs d (markFailed (p_id payment) d)" by (rule kept) (rule payment_marks)
  moreover have "runs d1 (releaseHolds (p_org payment) (p_order payment) d1)" for d1
    unfolding releaseHolds_def by (rule book) (rule inventory_step.lapsed)
  ultimately show ?thesis using False assms(2)
    by (auto simp: dispatch_def Let_def split: if_splits intro!: marked_run intro: rtranclp_trans)
qed

lemma completePending_runs:
  assumes "pt_voidInvoice ports = voidInvoiceForRefundIn" and "completePending ports rep now d = (r, d')"
  shows "runs d d'"
proof -
  have lost: "afterLostRace rep d1 = (r1, d2) \<Longrightarrow> runs d1 d2" for d1 r1 d2
    by (auto simp: afterLostRace_def split: option.splits)
  have failed: "onFailed refund rep d1 = (r1, d2) \<Longrightarrow> runs d1 d2" for refund d1 r1 d2
    by (auto simp: onFailed_def split: prod.splits if_splits dest!: refund_marks_run(2) lost intro: rtranclp_trans)
  have confirmed: "onConfirmed ports refund rep now d1 = (r1, d2) \<Longrightarrow> runs d1 d2" for refund d1 r1 d2
    by (auto simp: onConfirmed_def split: if_splits elim!: bindS_runs dest: completeRefund_runs [OF assms(1)] lost)
  show ?thesis using assms(2)
    by (auto simp: completePending_def split: option.splits if_splits dest: failed confirmed)
qed

lemma handle_verified_runs:
  assumes "bound ports" and "handle_verified ports org v now d = (r, d')"
  shows "runs d d'"
proof (cases "vw_type v = WIgnored")
  case False
  obtain fresh d1 where rec: "recordWebhook PROVIDER_NAME v d = (fresh, d1)" by (cases "recordWebhook PROVIDER_NAME v d")
  with payment_marks(5) [of PROVIDER_NAME v d] have one: "runs d d1" by (auto intro: kept)
  have reports: "onRefundReport ports org v now d1 = (r, d') \<Longrightarrow> runs d1 d'"
    using assms(1) unfolding onRefundReport_def bound_def
    by (auto elim!: bindS_runs dest: completePending_runs intro: marked_run)
  have "runs d1 d'"
    using assms(2) False rec reports
    by (auto simp: handle_verified_def split: if_splits option.splits prod.splits intro!: marked_run
        dest!: reconciled_runs dispatch_runs [OF assms(1)] intro: rtranclp_trans)
  with one show ?thesis by simp
qed (use assms(2) in \<open>simp add: handle_verified_def\<close>)

lemma handleWebhook_runs:
  "bound ports \<Longrightarrow> handleWebhook ports token body sig now d = (r, d') \<Longrightarrow> runs d d'"
  unfolding handleWebhook_def
  by (auto split: option.splits elim!: checked_runs dest: handle_verified_runs)

section \<open>All of them together\<close>

inductive service_step :: "payment_ports \<Rightarrow> db \<Rightarrow> db \<Rightarrow> bool" for ports where
  held: "checkout_hold ttl i now d = (rh, d') \<Longrightarrow> service_step ports d d'"
| released: "checkout_release ev hs now d = (rr, d') \<Longrightarrow> service_step ports d d'"
| confirmed: "confirm_order rates refs tokens ci entry now d = (rc, d') \<Longrightarrow> service_step ports d d'"
| joined: "join_line rates refs ji now d = (rj, d') \<Longrightarrow> service_step ports d d'"
| entered: "add_registration rates ttl refs tokens ri now d = (re, d') \<Longrightarrow> service_step ports d d'"
| approved: "decide_approve mint org user oid now d = (ra, d') \<Longrightarrow> service_step ports d d'"
| rejected: "decide_reject (pm_refunds ports) mayRefund org user oid yes reason now d = (rx, d') \<Longrightarrow> service_step ports d d'"
| offered: "decide_offer win mint org user oid now d = (ro, d') \<Longrightarrow> service_step ports d d'"
| paying: "pay ports pin d = (rp, d') \<Longrightarrow> service_step ports d d'"
| called_back: "handleWebhook ports token body sig now d = (rw, d') \<Longrightarrow> service_step ports d d'"
| refunded: "svc_refund (pm_refunds ports) org user rin now d = (rf, d') \<Longrightarrow> service_step ports d d'"
| elsewhere: "workspace_step d d' \<Longrightarrow> service_step ports d d'"

lemma service_step_runs:
  assumes "service_step ports d d'" and "bound ports" and "checkout_inv d"
  shows "runs d d'"
  using assms(1) assms(2)
proof cases
  case confirmed
  then show ?thesis by (rule confirm_runs [OF assms(3)])
next
  case joined
  then show ?thesis by (rule join_runs [OF assms(3)])
next
  case entered
  then show ?thesis by (rule add_registration_runs [OF assms(3)])
qed (use assms(2) in \<open>auto simp: bound_def dest: checkout_hold_runs checkout_release_runs decide_approve_runs decide_reject_runs
    decide_offer_runs pay_runs handleWebhook_runs [OF assms(2)] svc_refund_runs\<close>)

lemma services_run: "(service_step ports)\<^sup>*\<^sup>* d d' \<Longrightarrow> bound ports \<Longrightarrow> checkout_inv d \<Longrightarrow> runs d d'"
proof (induction rule: rtranclp_induct)
  case (step e f)
  then have "runs d e" by blast
  moreover have "runs e f" by (rule service_step_runs [OF step.hyps(2) step.prems(1)]) (rule runs_inv [OF \<open>runs d e\<close> step.prems(2)])
  ultimately show ?case by simp
qed simp

end
