(* ===== verification/CheckoutServiceProps.thy ===== *)
theory CheckoutServiceProps
  imports CheckoutRuns
begin

text \<open>
  What the services of a booking promise: they never leave the workspace's reachable states, the order placed is the one
  quoted, and an organizer whose rejection committed is told so whatever becomes of the refund.
\<close>

section \<open>The reference loop\<close>

lemma from_attempt_Inr:
  assumes "from_attempt n draws go d = (Inr x, d')" and "\<And>ref e d1. go ref d = (Inl e, d1) \<Longrightarrow> d1 = d"
  shows "\<exists>ref. go ref d = (Inr x, d')"
  using assms
proof (induction n draws go d rule: from_attempt.induct)
  case (1 attempt draws go d)
  obtain r1 d1 where one: "go (generateOrderReference (draws attempt)) d = (r1, d1)"
    by (cases "go (generateOrderReference (draws attempt)) d")
  show ?case
  proof (cases r1)
    case (Inr y)
    then show ?thesis using "1.prems"(1) one by (auto simp: from_attempt.simps)
  next
    case (Inl e)
    then have same: "d1 = d" using "1.prems"(2) one by blast
    show ?thesis
    proof (cases "\<not> isReferenceCollision e \<or> attempt \<ge> REFERENCE_ATTEMPTS")
      case True
      then show ?thesis using "1.prems"(1) one Inl by (auto simp: from_attempt.simps)
    next
      case False
      have next_try: "from_attempt (attempt + 1) draws go d1 = (Inr x, d')"
        using "1.prems"(1) one Inl False by (subst (asm) from_attempt.simps) simp
      have "\<exists>ref. go ref d1 = (Inr x, d')"
        by (rule "1.IH" [OF one [symmetric] Inl False next_try]) (use "1.prems"(2) same in blast)
      then show ?thesis using same by simp
    qed
  qed
qed

lemma fresh_reference_Inr:
  assumes "withFreshReference draws (\<lambda>ref. in_tx (tx ref)) d = (Inr x, d')"
  shows "\<exists>ref. tx ref d = Inr (x, d')"
proof -
  have "\<exists>ref. in_tx (tx ref) d = (Inr x, d')"
    by (rule from_attempt_Inr [OF assms [unfolded withFreshReference_def]]) (auto simp: in_tx_def split: sum.splits)
  then show ?thesis by (auto simp: in_tx_Inr_iff)
qed

section \<open>The order that was quoted\<close>

lemma confirm_order_D:
  assumes "confirm_order rates refs tokens i entry now d = (Inr r, d')"
  obtains p placed ref where "priceSelection rates (confirm_quote i entry) now d = Inr p"
    "placeOrder (place_input tokens i p entry now ref) d = Inr (placed, d')" "r = toResponse (pr_order placed) (pr_tickets placed) p"
proof -
  from assms obtain p where p: "priceSelection rates (confirm_quote i entry) now d = Inr p"
    and b: "bindS (place refs tokens i p entry now d) (\<lambda>placed d. (Inr (toResponse (pr_order placed) (pr_tickets placed) p), d)) = (Inr r, d')"
    by (auto simp: confirm_order_def loaded_def split: sum.splits)
  obtain m d1 where m: "place refs tokens i p entry now d = (m, d1)" by (cases "place refs tokens i p entry now d")
  with b obtain placed where placed: "m = Inr placed" "d1 = d'" "r = toResponse (pr_order placed) (pr_tickets placed) p"
    by (cases m) auto
  from m placed have "withFreshReference refs (\<lambda>ref. in_tx (placeOrder (place_input tokens i p entry now ref))) d = (Inr placed, d')"
    by (simp add: place_def)
  from fresh_reference_Inr [OF this] obtain ref where "placeOrder (place_input tokens i p entry now ref) d = Inr (placed, d')" ..
  with p placed show thesis using that by blast
qed

text \<open>
  C6. Confirming places exactly what is quoted at that moment: one new order, of the event and the workspace the request
  resolves to, for a quantity within the ticket type's own bounds, whose total is the catalogue's price times the
  quantity less the discount the code is worth, plus the fee; the request names no amount. The tickets come with it
  exactly when nothing is owed and nobody has to approve.
\<close>
theorem confirm_places_what_it_quotes:
  assumes "confirm_order rates refs tokens i entry now d = (Inr r, d')"
    and "\<forall>ord\<in>set (d_orders d). o_idempotencyKey ord \<noteq> Some (co_key i)"
  shows "\<exists>e t discount code q totals. loadEvent (confirm_quote i entry) now d = Inr e
     \<and> findTicket (ce_org e) (ce_id e) (co_type i) d = Some t
     \<and> tt_minPerOrder t \<le> q \<and> q \<le> tt_maxPerOrder t \<and> 1 \<le> q \<and> q \<le> 8
     \<and> discountFor rates (confirm_quote i entry) (tt_price t * q) now d = Inr (discount, code)
     \<and> totals = priceOrder \<lparr>pi_subtotal = tt_price t * q, pi_discount = discount,
         pi_serviceFeeRate = rt_serviceFee (rates (ce_org e)), pi_vatRate = rt_vat (rates (ce_org e))\<rparr>
     \<and> ors_totals (op_summary r) = totals \<and> o_total (op_order r) = totalSatang totals
     \<and> o_org (op_order r) = ce_org e \<and> o_event (op_order r) = ce_id e \<and> o_seats (op_order r) = q
     \<and> d_orders d' = d_orders d @ [op_order r]
     \<and> (\<exists>x. d_items d' = d_items d @ [x] \<and> oi_order x = o_id (op_order r) \<and> oi_type x = co_type i
          \<and> oi_quantity x = q \<and> oi_unitPrice x = tt_price t)
     \<and> int (length (op_tickets r)) = (if totalSatang totals \<le> 0 \<and> (ce_requiresApproval e \<longrightarrow> entry \<noteq> None) then q else 0)"
proof -
  obtain p placed ref where p: "priceSelection rates (confirm_quote i entry) now d = Inr p"
    and tx: "placeOrder (place_input tokens i p entry now ref) d = Inr (placed, d')"
    and r: "r = toResponse (pr_order placed) (pr_tickets placed) p" by (rule confirm_order_D [OF assms(1)])
  let ?inp = "place_input tokens i p entry now ref" and ?s = "ps_summary p" and ?e = "ps_event p"
  obtain t discount code where sel: "resolve_selection (confirm_quote i entry) now d = Inr (?e, ps_tier p, ps_selection p)"
    and t: "findTicket (ce_org ?e) (ce_id ?e) (co_type i) d = Some t" "ps_tier p = toTier now t"
    and q: "discountFor rates (confirm_quote i entry) (tt_price t * ors_quantity ?s) now d = Inr (discount, code)"
      "ors_quantity ?s = selectionSize (ps_selection p)"
    and s: "ors_type ?s = tt_id t" "ors_unitPrice ?s = tt_price t" "ors_paymentRequired ?s = (0 < totalSatang (ors_totals ?s))"
      "ors_totals ?s = priceOrder \<lparr>pi_subtotal = tt_price t * ors_quantity ?s, pi_discount = discount,
         pi_serviceFeeRate = rt_serviceFee (rates (ce_org ?e)), pi_vatRate = rt_vat (rates (ce_org ?e))\<rparr>"
    by (rule priceSelection_D [OF p]) (simp add: confirm_quote_def)
  note R = resolve_selection_D [OF sel]
  have "findByIdempotencyKey (po_org ?inp) (po_idempotencyKey ?inp) d = None"
    using assms(2) by (auto simp: findByIdempotencyKey_def find_None_iff place_input_def Let_def)
  then have fresh: "\<not> pr_replayed placed" using tx
    by (auto simp: placeOrder_def Let_def bindE_Inr_iff split: prod.splits)
  obtain d2 aid ord ks where P: "ord = new_order_row (place_insert ?inp) aid (initialState ?inp) d2" "pr_order placed = ord"
      "pr_tickets placed = sort_key t_id ks" "d_orders d' = d_orders d @ [ord]"
      "d_items d' = d_items d @ [place_item ?inp (o_id ord) (o_id ord + 1)]"
      "if po_issueTickets ?inp then
         ks = with_ids (o_id ord + 2) (map (place_ticket ?inp (o_id ord) (o_id ord + 1) aid) (po_qrTokens ?inp))
         \<and> distinct (map t_qrToken (d_tickets d @ ks)) else ks = []"
    by (rule placeOrder_shape [OF tx fresh])
  have inp: "po_org ?inp = ce_org ?e" "po_event ?inp = ce_id ?e" "po_quantity ?inp = ors_quantity ?s" "po_totals ?inp = ors_totals ?s"
      "po_type ?inp = tt_id t" "po_unitPrice ?inp = tt_price t"
    by (simp_all add: place_input_def Let_def s)
  have "int (length ks) = (if po_issueTickets ?inp then ors_quantity ?s else 0)"
    using P(6) R(5) q(2) by (auto simp: place_input_def Let_def with_ids_def)
  then have tickets: "int (length (op_tickets r)) =
      (if totalSatang (ors_totals ?s) \<le> 0 \<and> (ce_requiresApproval ?e \<longrightarrow> entry \<noteq> None) then ors_quantity ?s else 0)"
    by (auto simp: r toResponse_def P(3) place_input_def Let_def placementFor_def s(3))
  have row: "o_total ord = totalSatang (ors_totals ?s) \<and> o_org ord = ce_org ?e \<and> o_event ord = ce_id ?e
      \<and> o_seats ord = ors_quantity ?s"
    by (simp add: P(1) new_order_row_def place_insert_def inp)
  have item: "oi_order (place_item ?inp (o_id ord) (o_id ord + 1)) = o_id ord" "oi_type (place_item ?inp (o_id ord) (o_id ord + 1)) = co_type i"
      "oi_quantity (place_item ?inp (o_id ord) (o_id ord + 1)) = ors_quantity ?s"
      "oi_unitPrice (place_item ?inp (o_id ord) (o_id ord + 1)) = tt_price t"
    using findTicket_Some [OF t(1)] by (simp_all add: place_item_def inp)
  show ?thesis
    by (rule exI [of _ ?e], rule exI [of _ t], rule exI [of _ discount], rule exI [of _ code],
        rule exI [of _ "ors_quantity ?s"], rule exI [of _ "ors_totals ?s"])
      (use R t q s row item tickets P(2,4,5) in \<open>auto simp: r toResponse_def\<close>)
qed

section \<open>Nothing leaves the workspace\<close>


section \<open>A rejection that commits\<close>

text \<open>No order goes and a rejected one stays rejected.\<close>

definition stays_rejected :: "db \<Rightarrow> db \<Rightarrow> bool" where
  "stays_rejected d d' = (map o_id (d_orders d') = map o_id (d_orders d)
     \<and> (\<forall>ord\<in>set (d_orders d). o_status ord = ORejected \<longrightarrow>
         (\<exists>ord'\<in>set (d_orders d'). o_id ord' = o_id ord \<and> o_org ord' = o_org ord \<and> o_status ord' = ORejected)))"

abbreviation order_ids :: "db \<Rightarrow> bool" where "order_ids d \<equiv> distinct (map o_id (d_orders d))"

lemma stays_refl: "d_orders d' = d_orders d \<Longrightarrow> stays_rejected d d'"
  by (auto simp: stays_rejected_def)

lemma stays_trans: "stays_rejected d e \<Longrightarrow> stays_rejected e f \<Longrightarrow> stays_rejected d f"
  unfolding stays_rejected_def by metis

lemma stays_ids: "stays_rejected d e \<Longrightarrow> order_ids d \<Longrightarrow> order_ids e"
  by (simp add: stays_rejected_def)

lemma giveBackStock_orders: "giveBackStock org xs d = Inr d' \<Longrightarrow> d_orders d' = d_orders d"
  by (induction xs arbitrary: d) (auto simp: bindE_Inr_iff updateTiers_def split: if_splits)

lemma refundOrder_stays:
  assumes "tx_hook hook" and "refundOrder org oid hook now d = Inr (r, d')" and "order_ids d"
  shows "stays_rejected d d'"
proof -
  from assms(2) obtain order d1 d2 where lock: "lockOrder org oid d = Inr order"
    and one: "(if isAwaitingApproval order then bindE (givePlacesBack org oid d) (\<lambda>d. Inr (releaseActiveHolds org oid d)) else Inr d) = Inr d1"
    and stock: "returnStock org (filter (voidable org oid) (d_tickets d1)) (d1\<lparr>d_tickets := upd (voidable org oid) (\<lambda>t. t\<lparr>t_status := TRefunded\<rparr>) (d_tickets d1)\<rparr>) = Inr d2"
    and hook: "\<exists>as. hook (updateOrder oid (refunded_row order) (d2\<lparr>d_assignments := as\<rparr>)) = Inr d'"
    unfolding refundOrder_def bindE_Inr_iff Let_def by blast
  have "d_orders d1 = d_orders d"
    using one by (auto simp: givePlacesBack_def bindE_Inr_iff releaseActiveHolds_def updateHolds_def split: if_splits dest: giveBackStock_orders)
  moreover have "d_orders d2 = d_orders d1" using giveBackStock_orders [OF stock [unfolded returnStock_def]] by simp
  ultimately have orders: "d_orders d' = upd (\<lambda>x. o_id x = oid) (refunded_row order) (d_orders d)"
    using hook by (auto simp: updateOrder_def dest!: tx_hook.hook_orders [OF assms(1)])
  have locked: "order \<in> set (d_orders d) \<and> o_id order = oid"
    using lock by (auto simp: lockOrder_def dest: find_SomeD split: option.splits)
  have "\<exists>ord'\<in>set (d_orders d'). o_id ord' = o_id ord \<and> o_org ord' = o_org ord \<and> o_status ord' = ORejected"
    if o: "ord \<in> set (d_orders d)" "o_status ord = ORejected" for ord
  proof
    let ?o = "if o_id ord = oid then refunded_row order ord else ord"
    show "?o \<in> set (d_orders d')" using o(1) by (auto simp: orders in_set_upd)
    have "order = ord" if "o_id ord = oid" using that locked o(1) assms(3) by (metis distinct_map inj_onD)
    then show "o_id ?o = o_id ord \<and> o_org ?o = o_org ord \<and> o_status ?o = ORejected"
      using o(2) by (auto simp: refunded_row_def statusAfterRefund_def)
  qed
  moreover have "map o_id (d_orders d') = map o_id (d_orders d)"
    unfolding orders by (rule map_upd_key) (simp add: refunded_row_def)
  ultimately show ?thesis by (auto simp: stays_rejected_def)
qed

lemma completeRefund_stays:
  assumes "pt_voidInvoice ports = voidInvoiceForRefundIn" and "completeRefund ports refund ref now d = (r, d')" and "order_ids d"
  shows "stays_rejected d d'"
proof -
  obtain s d1 where s: "settleDuplicateRefund (r_org refund) (r_order refund) (ledger_input refund ref now) d = (s, d1)"
    by (cases "settleDuplicateRefund (r_org refund) (r_order refund) (ledger_input refund ref now) d")
  then have same: "d_orders d1 = d_orders d"
    by (auto simp: settleDuplicateRefund_def Let_def split: if_splits prod.splits dest!: refund_marks_run(3) inventory_eqD(1))
  show ?thesis
  proof (cases s)
    case SolePayment
    then have "voidOrder ports refund (ledger_input refund ref now) d1 = (r, d')"
      using assms(2) s by (simp add: completeRefund_def)
    then have "stays_rejected d1 d'" unfolding voidOrder_def
      by (cases "refundOrder (r_org refund) (r_order refund) (void_hook ports refund (ledger_input refund ref now)) (mr_now (ledger_input refund ref now)) d1")
        (use assms(3) same in \<open>auto simp: in_tx_def split: if_splits intro: stays_refl refundOrder_stays [OF void_hook_frame [OF assms(1)]]\<close>)
    with same show ?thesis by (simp add: stays_rejected_def)
  qed (use assms(2) s same in \<open>auto simp: completeRefund_def intro: stays_refl\<close>)
qed

lemma refundPayment_stays:
  assumes "pt_voidInvoice ports = voidInvoiceForRefundIn" and "refundPayment ports org user oid p now d = (r, d')" and "order_ids d"
  shows "stays_rejected d d'"
proof -
  have settle: "stays_rejected d1 d2" if "settleRefund ports payment ref row now d1 = (x, d2)" "order_ids d1" for payment ref row d1 x d2
  proof (cases "pt_refund ports \<lparr>rp_org = p_org payment, rp_gatewayRef = ref, rp_amount = p_amount payment,
              rp_idempotencyKey = r_idempotencyKey row\<rparr>")
    case (Inr out)
    show ?thesis
    proof (cases "rf_status out")
      case ProvSucceeded
      obtain m d3 where c: "completeRefund ports row (rf_refundRef out) now d1 = (m, d3)"
        by (cases "completeRefund ports row (rf_refundRef out) now d1")
      have "d2 = d3" using that(1) Inr ProvSucceeded c by (cases m) (auto simp: settleRefund_def split: if_splits)
      then show ?thesis using completeRefund_stays [OF assms(1) c that(2)] by simp
    qed (use that(1) Inr in \<open>auto simp: settleRefund_def markRefundFailed_def markRefundPending_def intro: stays_refl\<close>)
  qed (use that(1) in \<open>auto simp: settleRefund_def intro: stays_refl\<close>)
  have "stays_rejected d d2" if "svc_refund ports org user inp now d = (x, d2)" for inp x d2
  proof (cases "requireRefundable org (rq_payment inp) d")
    case (Inr pr)
    let ?claim = "\<lambda>payment. \<lparr>cr_org = org, cr_payment = p_id payment, cr_order = p_order payment, cr_amount = p_amount payment,
      cr_issuedBy = user, cr_idempotencyKey = rq_idempotencyKey inp, cr_now = now\<rparr>"
    obtain payment ref row fresh d1 where pr: "pr = (payment, ref)" and c: "claimRefund (?claim payment) d = ((row, fresh), d1)"
      by (metis surj_pair)
    then have same: "d_orders d1 = d_orders d" by (auto simp: claimRefund_def split: option.splits)
    have "stays_rejected d1 d2" using that Inr pr c same assms(3)
      by (auto simp: svc_refund_def replay_def split: if_splits intro: stays_refl settle)
    with same show ?thesis by (simp add: stays_rejected_def)
  qed (use that in \<open>auto simp: svc_refund_def intro: stays_refl\<close>)
  then show ?thesis using assms(2) unfolding refundPayment_def
    by (cases "p_status p = PRefunded"; cases "svc_refund ports org user \<lparr>rq_payment = p_id p,
          rq_idempotencyKey = rejectionRefundKey oid (p_id p)\<rparr> now d"; cases "fst (svc_refund ports org user \<lparr>rq_payment = p_id p,
          rq_idempotencyKey = rejectionRefundKey oid (p_id p)\<rparr> now d)")
      (auto split: if_splits intro: stays_refl)
qed

lemma refund_each_stays:
  assumes "pt_voidInvoice ports = voidInvoiceForRefundIn"
  shows "refund_each ports org user oid now ps d = (r, d') \<Longrightarrow> order_ids d \<Longrightarrow> stays_rejected d d'"
proof (induction ps arbitrary: d r d')
  case (Cons p ps)
  obtain r1 d1 where one: "refundPayment ports org user oid p now d = (r1, d1)" by (cases "refundPayment ports org user oid p now d")
  note first = refundPayment_stays [OF assms one Cons.prems(2)]
  show ?case
  proof (cases r1)
    case (Inr x)
    obtain r2 d2 where two: "refund_each ports org user oid now ps d1 = (r2, d2)" by (cases "refund_each ports org user oid now ps d1")
    have "d' = d2" using Cons.prems(1) one Inr two by (cases r2) auto
    with first Cons.IH [OF two stays_ids [OF first Cons.prems(2)]] show ?thesis by (auto intro: stays_trans)
  qed (use Cons.prems(1) one first in auto)
qed (auto intro: stays_refl)

definition is_rejected :: "ident \<Rightarrow> ident \<Rightarrow> db \<Rightarrow> bool" where
  "is_rejected org oid d = (\<exists>ord\<in>set (d_orders d). o_id ord = oid \<and> o_org ord = org \<and> o_status ord = ORejected)"

lemma stays_is_rejected: "stays_rejected d d' \<Longrightarrow> is_rejected org oid d \<Longrightarrow> is_rejected org oid d'"
  unfolding stays_rejected_def is_rejected_def by metis

lemma rejectOrder_rejects:
  assumes "rejectOrder inp d = Inr (res, d')" and "order_ids d"
  shows "is_rejected (rj_org inp) (rj_order inp) d' \<and> order_ids d'"
proof -
  from assms(1) obtain order where lock: "lockOrder (rj_org inp) (rj_order inp) d = Inr order"
    by (auto simp: rejectOrder_def bindE_Inr_iff)
  then have o: "order \<in> set (d_orders d)" "o_id order = rj_order inp" "o_org order = rj_org inp"
    by (auto simp: lockOrder_def dest: find_SomeD split: option.splits)
  show ?thesis
  proof (cases "o_status order = ORejected")
    case True
    then show ?thesis using assms lock o by (auto simp: rejectOrder_def is_rejected_def)
  next
    case False
    let ?row = "rejected_row (rj_decidedBy inp) (rj_reason inp) (rj_now inp)"
    from assms(1) lock False have orders: "d_orders d' = upd (\<lambda>x. o_id x = o_id order) ?row (d_orders d)"
      by (auto simp: rejectOrder_def bindE_Inr_iff Let_def givePlacesBack_def updateOrder_def releaseActiveHolds_def
          updateHolds_def enqueueIn_def split: if_splits dest!: giveBackStock_orders)
    have "?row order \<in> set (d_orders d')" using o(1) by (auto simp: orders in_set_upd)
    moreover have "map o_id (d_orders d') = map o_id (d_orders d)"
      unfolding orders by (rule map_upd_key) (simp add: rejected_row_def)
    ultimately show ?thesis using assms(2) o by (auto simp: is_rejected_def rejected_row_def intro!: bexI [of _ "?row order"])
  qed
qed

text \<open>
  C8. When an organizer rejects, either nothing happened and the answer says why, or the registration is rejected for
  good; and if giving the money back fails after that, whatever the provider or the ledger throws, the answer
  says that the registration was rejected and its refund did not go through, never something that reads as if nothing
  happened.
\<close>
theorem rejection_error_is_told:
  assumes "pt_voidInvoice ports = voidInvoiceForRefundIn" and "distinct (map o_id (d_orders d))"
    and "decide_reject ports mayRefund org user oid confirmed reason now d = (r, d')"
  shows "(case r of
      Inr _ \<Rightarrow> is_rejected org oid d'
    | Inl e \<Rightarrow> d' = d \<or> is_rejected org oid d' \<and> (\<exists>cause. e = rejectedButNotRefunded cause))"
proof -
  let ?inp = "\<lparr>rj_org = org, rj_order = oid, rj_decidedBy = user, rj_reason = reason, rj_mayRefund = mayRefund,
      rj_buildRejectedEvent = (\<lambda>order. RegistrationRejected org (o_id order) reason), rj_now = now\<rparr>"
  let ?check = "bindE (mustFind org oid d) (\<lambda>order. if rejectionRefunds order \<and> \<not> mayRefund
      then Inl (Forbidden REJECT_NEEDS_REFUND_PERMISSION) else assertDecidable order ORejected (\<lambda>ord. canReject ord mayRefund))"
  show ?thesis
  proof (cases "confirmed \<and> \<not> isl ?check \<and> \<not> isl (rejectOrder ?inp d)")
    case False
    then show ?thesis using assms(3)
      by (cases ?check; cases "rejectOrder ?inp d") (auto simp: decide_reject_def loaded_def reject_def in_tx_def split: if_splits)
  next
    case True
    from True obtain u where ok: "confirmed" "?check = Inr u" by (cases ?check) simp_all
    from True obtain res d1 where "rejectOrder ?inp d = Inr (res, d1)" by (cases "rejectOrder ?inp d") auto
    then obtain ref due where rj: "rejectOrder ?inp d = Inr ((ref, due), d1)" by (cases res) simp
    have R: "is_rejected org oid d1" "order_ids d1" using rejectOrder_rejects [OF rj assms(2)] by simp_all
    show ?thesis
    proof (cases due)
      case False
      then show ?thesis using assms(3) ok rj R(1) by (auto simp: decide_reject_def loaded_def reject_def in_tx_def)
    next
      case True
      obtain m d2 where m: "refundRejected ports org user oid now d1 = (m, d2)" by (cases "refundRejected ports org user oid now d1")
      have "stays_rejected d1 d2"
        using m R(2)
        by (cases "refund_each ports org user oid now (findSettledPaymentsForOrder org oid d1) d1";
            cases "fst (refund_each ports org user oid now (findSettledPaymentsForOrder org oid d1) d1)")
          (auto simp: refundRejected_def Let_def split: if_splits intro: stays_refl refund_each_stays [OF assms(1)])
      then have "is_rejected org oid d2" by (rule stays_is_rejected) (rule R(1))
      then show ?thesis using assms(3) ok rj True m
        by (cases m) (auto simp: decide_reject_def loaded_def reject_def in_tx_def refundRejection_def)
    qed
  qed
qed

end
