(* ===== verification/CheckoutServiceWitnesses.thy ===== *)
theory CheckoutServiceWitnesses
  imports CheckoutServiceProps EventWitnesses PaymentProps
begin

text \<open>
  The services at work on one public event: a buyer confirms a free place they hold, and a registration paid
  for while it waited is rejected with a provider that refuses the refund.
\<close>

definition book_event :: event_row where
  "book_event = (draft_row demo_actor (demo_create\<lparr>cr_name := ''J'', cr_description := None\<rparr>) ''j'' ''O'' None 7)
     \<lparr>evt_timezone := ''T'', evt_status := Upcoming, evt_visibility := Public, evt_publishedAt := Some 1\<rparr>"

definition book_base :: db where
  "book_base = empty_db\<lparr>d_next := 20, d_tiers := [(demo_tier 2 0)\<lparr>tt_name := ''S''\<rparr>], d_events := [book_event]\<rparr>"

definition book_rates :: "ident \<Rightarrow> org_rates" where "book_rates org = \<lparr>rt_vat = 0, rt_serviceFee = 0\<rparr>"

definition book_refs :: "nat \<Rightarrow> nat \<Rightarrow> nat" where "book_refs attempt i = attempt"
definition book_tokens :: "nat \<Rightarrow> nat \<Rightarrow> nat" where "book_tokens k i = k"

definition book_pick :: "ident \<Rightarrow> int \<Rightarrow> quote_input" where
  "book_pick tier n = \<lparr>qi_event = 7, qi_type = tier, qi_quantity = Some n, qi_seatIds = None, qi_code = None,
     qi_buyerEmail = None, qi_holdIds = None, qi_actorOrg = None\<rparr>"

definition book_held :: db where "book_held = snd (checkout_hold 600 (book_pick 2 1) 50 book_base)"

definition book_request :: "ident \<Rightarrow> int \<Rightarrow> ident list \<Rightarrow> confirm_request" where
  "book_request tier n hs = \<lparr>co_event = 7, co_type = tier, co_quantity = Some n, co_seatIds = None, co_holdIds = hs,
     co_code = None, co_buyer = \<lparr>b_name = ''A'', b_email = ''a'', b_phone = None\<rparr>, co_key = ''k''\<rparr>"

definition book_confirm :: "confirm_request \<Rightarrow> db \<Rightarrow> order_placed svc" where
  "book_confirm i d = confirm_order book_rates book_refs book_tokens i None 60 d"

definition book_sold :: db where "book_sold = snd (book_confirm (book_request 2 1 [20]) book_held)"

text \<open>What is looked at of an answer and its database.\<close>

definition summary_of :: "(error + 'a) \<times> db \<Rightarrow> bool \<times> int list \<times> satang list \<times> issued_ticket_status list \<times> int list" where
  "summary_of m = (case m of (r, d) \<Rightarrow> (isl r, map o_seats (d_orders d), map o_total (d_orders d), map t_status (d_tickets d), map tt_sold (d_tiers d)))"

text \<open>With no fee and no tax a free selection is priced without rounding anything; its labels play no part in the order.\<close>

type_synonym labels = "string \<times> string option \<times> string \<times> string"

definition free_priced :: "labels \<Rightarrow> checkout_event \<Rightarrow> tier_row \<Rightarrow> checkout_selection \<Rightarrow> priced_selection" where
  "free_priced ls e t s = \<lparr>ps_summary = \<lparr>ors_event = ce_id e, ors_type = tt_id t, ors_typeName = tt_name t, ors_quantity = selectionSize s,
       ors_seatIds = (case s of ReservedSelection _ ids \<Rightarrow> Some ids | GaSelection _ _ \<Rightarrow> None), ors_unitPrice = 0,
       ors_totals = demo_totals 0, ors_code = None, ors_labels = ls, ors_paymentRequired = False\<rparr>,
     ps_event = e, ps_tier = t, ps_selection = s, ps_discountCode = None\<rparr>"

definition free_confirm :: "labels \<Rightarrow> confirm_request \<Rightarrow> db \<Rightarrow> satang \<times> (error + order_placed) \<times> db" where
  "free_confirm ls i d = (case resolve_selection (confirm_quote i None) 60 d of
      Inl e \<Rightarrow> (1, Inl e, d)
    | Inr (e, t, s) \<Rightarrow> (tt_price t, bindS (place book_refs book_tokens i (free_priced ls e t s) None 60 d)
        (\<lambda>placed d. (Inr (toResponse (pr_order placed) (pr_tickets placed) (free_priced ls e t s)), d))))"

lemma free_totals: "priceOrder \<lparr>pi_subtotal = 0, pi_discount = 0, pi_serviceFeeRate = 0, pi_vatRate = 0\<rparr> = demo_totals 0"
  by (simp add: priceOrder_def demo_totals_def clamp_def vatInclusiveBreakdown_def js_mul_def js_div_def math_floor_def math_round_def Let_def floor_eq_iff)

lemma free_confirm:
  assumes "free_confirm (summary_labels (demo_totals 0)) i d = (0, m)" and "co_code i = None"
  shows "book_confirm i d = m"
  using assms by (auto simp: book_confirm_def free_confirm_def confirm_order_def priceSelection_def loaded_def discountFor_def
      confirm_quote_def book_rates_def free_totals free_priced_def demo_totals_def Let_def split: sum.splits prod.splits)

lemma book_free:
  "(case free_confirm ls (book_request 2 1 [20]) book_held of (p, m) \<Rightarrow> (p, summary_of m)) = (0, False, [1], [0], [TIssued], [1])"
  by code_simp

lemma book_summary: "summary_of (book_confirm (book_request 2 1 [20]) book_held) = (False, [1], [0], [TIssued], [1])"
proof -
  let ?ls = "summary_labels (demo_totals 0)"
  obtain m where m: "free_confirm ?ls (book_request 2 1 [20]) book_held = (0, m)" and s: "summary_of m = (False, [1], [0], [TIssued], [1])"
    using book_free [of ?ls] by (cases "free_confirm ?ls (book_request 2 1 [20]) book_held") simp
  from free_confirm [OF m] s show ?thesis by (simp add: book_request_def)
qed

lemma book_unordered: "d_orders book_held = []"
  by code_simp

lemma book_values: "\<not> isl (fst (book_confirm (book_request 2 1 [20]) book_held))" "d_orders book_held = []"
  "map o_seats (d_orders book_sold) = [1]" "map o_total (d_orders book_sold) = [0]" "map tt_sold (d_tiers book_sold) = [1]"
  using book_summary book_unordered by (simp_all add: summary_of_def book_sold_def split_beta)

theorem confirm_places_what_it_quotes_witness:
  "\<exists>r. book_confirm (book_request 2 1 [20]) book_held = (Inr r, book_sold) \<and> d_orders book_sold = [op_order r]
     \<and> o_seats (op_order r) = 1 \<and> o_total (op_order r) = 0"
proof -
  obtain r where r: "book_confirm (book_request 2 1 [20]) book_held = (Inr r, book_sold)"
    using book_values unfolding book_sold_def by (metis prod.collapse sum.collapse(2))
  have none: "\<forall>ord\<in>set (d_orders book_held). o_idempotencyKey ord \<noteq> Some (co_key (book_request 2 1 [20]))"
    by (simp add: book_values)
  from confirm_places_what_it_quotes [OF r [unfolded book_confirm_def] none] have "d_orders book_sold = [op_order r]"
    by (auto simp: book_values)
  with r book_values show ?thesis by auto
qed


text \<open>A paid registration that waits, and a provider that refuses to give the money back.\<close>

definition wait_order :: order_row where
  "wait_order = \<lparr>o_id = 21, o_org = 1, o_reference = ''REF-21'', o_event = 7, o_attendee = None, o_buyerName = ''Ann'',
     o_buyerEmail = ''ann@example.com'', o_buyerPhone = None, o_status = OPending, o_paymentStatus = PPaid,
     o_idempotencyKey = Some ''key-1'', o_seats = 1, o_subtotal = 1000, o_discountCode = None, o_discountAmount = 0,
     o_vatAmount = 0, o_total = 1000, o_registeredAt = 60, o_confirmedAt = None, o_approvedAt = None, o_rejectedAt = None,
     o_decidedBy = None, o_rejectionReason = None, o_offeredAt = None, o_offeredBy = None, o_offerExpiresAt = None,
     o_offerSkipped = None, o_requiresApproval = True, o_approvalRequestedAt = Some 60, o_cancelledAt = None,
     o_createdBy = None, o_version = 2\<rparr>"

definition wait_payment :: payment_row where
  "wait_payment = \<lparr>p_id = 23, p_org = 1, p_txn = ''TXN-23'', p_payerName = ''Ann'', p_order = 21, p_event = 7,
     p_method = ''card'', p_amount = 1000, p_status = PPaid, p_paidAt = Some 70, p_gatewayRef = Some ''pi_1'',
     p_gatewayAccount = None, p_idempotencyKey = ''pay-1''\<rparr>"

definition wait_paid :: db where
  "wait_paid = demo_db\<lparr>d_orders := [wait_order], d_payments := [wait_payment], d_next := 30,
     d_tiers := [(demo_tier 3 1000)\<lparr>tt_sold := 1\<rparr>],
     d_items := [\<lparr>oi_id = 22, oi_org = 1, oi_order = 21, oi_type = 3, oi_quantity = 1, oi_unitPrice = 1000, oi_lineSubtotal = 1000\<rparr>]\<rparr>"

definition wait_ports :: refund_ports where
  "wait_ports = \<lparr>pt_refund = (\<lambda>_. Inl (BadGateway ''The card network is down.'')), pt_voidInvoice = voidInvoiceForRefundIn\<rparr>"

definition wait_reject :: "decision_outcome svc" where
  "wait_reject = decide_reject wait_ports True 1 9 21 True None 80 wait_paid"

lemma wait_values:
  "map o_id (d_orders wait_paid) = [21] \<and> map o_status (d_orders wait_paid) = [OPending]
   \<and> fst wait_reject = Inl (BadGateway (with_words ''The card network is down.''))
   \<and> map o_status (d_orders (snd wait_reject)) = [ORejected]"
  by code_simp

theorem rejection_error_is_told_witness:
  "is_rejected 1 21 (snd wait_reject) \<and> fst wait_reject = Inl (rejectedButNotRefunded (BadGateway ''The card network is down.''))"
proof -
  have d: "distinct (map o_id (d_orders wait_paid))" by (simp add: wait_values)
  have call: "decide_reject wait_ports True 1 9 21 True None 80 wait_paid = (fst wait_reject, snd wait_reject)"
    by (simp add: wait_reject_def)
  have "snd wait_reject \<noteq> wait_paid"
  proof
    assume "snd wait_reject = wait_paid"
    then have "map o_status (d_orders (snd wait_reject)) = map o_status (d_orders wait_paid)" by simp
    then show False by (simp add: wait_values)
  qed
  with rejection_error_is_told [OF _ d call] show ?thesis
    by (simp add: wait_values wait_ports_def rejectedButNotRefunded_def)
qed

end
