(* ===== verification/Access.thy ===== *)
theory Access
  imports Listing JsText TextOutput
begin

text \<open>
  Who may do what in a workspace: \<^verbatim>\<open>access/access.repository.ts\<close>, \<^verbatim>\<open>access/access.service.ts\<close>,
  \<^verbatim>\<open>access/roles.service.ts\<close>, \<^verbatim>\<open>access/role-grants.ts\<close>, \<^verbatim>\<open>access/permission-change.audit.ts\<close>, the acceptance of an
  invitation in \<^verbatim>\<open>auth/\<close> and the bootstrap of a workspace in \<^verbatim>\<open>auth-signup/auth-signup.repository.ts\<close>. The tables
  these modules share are the record \<open>people\<close>; a statement that a constraint refuses is an error, and a service that
  commits more than one transaction returns the database beside its result. Signed tokens are an argument.
\<close>

section \<open>Tables\<close>

datatype permission =
    evCreate | evPublish | evSpeakers | evProgramView | regView | regCheckin | regExport | regManage
  | finView | finRefund | finDiscount | finManage | setUsers | setSettings | setIntegrations

datatype perm_group = GEvents | GRegistrations | GFinance | GSettings

datatype member_status = MActive | MInvited | MUnconfirmed | MSuspended

datatype persona = PAdmin | PAttendee

record user_row =
  us_id :: ident
  us_org :: ident
  us_name :: string
  us_email :: string
  us_persona :: persona
  us_status :: member_status
  us_password :: "string option"
  us_twoFactor :: bool
  us_lastActiveAt :: "instant option"
  us_createdAt :: instant
  us_deletedAt :: "instant option"

record role_row =
  ro_id :: ident
  ro_org :: ident
  ro_name :: string
  ro_description :: string
  ro_isSystem :: bool

record catalog_row =
  ca_key :: permission
  ca_group :: perm_group
  ca_label :: string

record grant_row =
  gr_role :: ident
  gr_key :: permission
  gr_granted :: bool

record membership_row =
  mb_id :: ident
  mb_org :: ident
  mb_user :: ident
  mb_role :: ident
  mb_roleName :: string
  mb_status :: member_status
  mb_invitedAt :: "instant option"
  mb_joinedAt :: "instant option"
  mb_deletedAt :: "instant option"

record session_row =
  se_id :: ident
  se_org :: ident
  se_user :: ident
  se_device :: string
  se_ip :: "string option"
  se_createdAt :: instant
  se_expiresAt :: instant
  se_revokedAt :: "instant option"

record org_row =
  og_id :: ident
  og_name :: string
  og_slug :: string
  og_deletedAt :: "instant option"

text \<open>A permission-change entry of the audit trail: \<^verbatim>\<open>type\<close> is always \<^verbatim>\<open>perm\<close>.\<close>

record perm_audit_text =
  at_title :: string
  at_meta :: "string option"

record perm_audit_row =
  pa_org :: ident
  pa_text :: perm_audit_text
  pa_actor :: ident
  pa_ip :: "string option"

record member_invited =
  mi_org :: ident
  mi_user :: ident
  mi_name :: string
  mi_email :: string
  mi_organizationName :: string
  mi_acceptUrl :: string

datatype provider = Google | Apple | LinkedIn

record social_row =
  so_org :: ident
  so_user :: ident
  so_provider :: provider
  so_subject :: string
  so_email :: string
  so_lastUsedAt :: instant

record twofa_row =
  tf_id :: ident
  tf_org :: ident
  tf_user :: ident
  tf_secret :: string
  tf_uri :: string
  tf_confirmedAt :: "instant option"

record code_row =
  rc_id :: ident
  rc_twoFactor :: ident
  rc_hash :: string
  rc_usedAt :: "instant option"

text \<open>An audit entry of the sign-in flows: a sign-out, or a refused sign-in.\<close>

datatype auth_audit_type = ARevoke | AFail

record auth_audit_row =
  aa_org :: ident
  aa_type :: auth_audit_type
  aa_title :: string
  aa_actor :: "ident option"
  aa_ip :: "string option"

text \<open>The events the identity modules hand to the worker.\<close>

datatype identity_event =
    EmailVerificationRequested ident ident string string string
  | SignedIn ident ident string "string option"
  | PasswordResetRequested ident ident string string "string option" string
  | PasswordChanged ident ident string string nat
  | TwoFactorDisabled ident ident string string
  | AccountDeletionRequested ident ident string string
  | BookingAccountLinkRequested ident ident string string string

record people =
  pp_next :: ident
  pp_orgs :: "org_row list"
  pp_users :: "user_row list"
  pp_roles :: "role_row list"
  pp_catalog :: "catalog_row list"
  pp_grants :: "grant_row list"
  pp_members :: "membership_row list"
  pp_sessions :: "session_row list"
  pp_audits :: "perm_audit_row list"
  pp_outbox :: "member_invited list"
  pp_social :: "social_row list"
  pp_twofa :: "twofa_row list"
  pp_codes :: "code_row list"
  pp_authAudits :: "auth_audit_row list"
  pp_events :: "identity_event list"

type_synonym 'r people_svc = "(error + 'r) \<times> people"

definition ADMIN_ROLE :: string where "ADMIN_ROLE = ''Admin''"
definition MANAGE_USERS :: permission where "MANAGE_USERS = setUsers"
definition SENSITIVE_PERMISSIONS :: "permission list" where "SENSITIVE_PERMISSIONS = [regExport, finRefund]"
definition SENSITIVE_FLAG :: string where "SENSITIVE_FLAG = '' - sensitive access granted''"

definition PERMISSION_CATALOG :: "catalog_row list" where
  "PERMISSION_CATALOG = map (\<lambda>(k, g, l). \<lparr>ca_key = k, ca_group = g, ca_label = l\<rparr>)
    [(evCreate, GEvents, ''Create & edit events''), (evPublish, GEvents, ''Publish & cancel events''),
     (evSpeakers, GEvents, ''Manage speakers & agenda''), (evProgramView, GEvents, ''View agenda & speakers''),
     (regView, GRegistrations, ''View registrations & attendees''), (regCheckin, GRegistrations, ''Check attendees in''),
     (regExport, GRegistrations, ''Export attendee data''),
     (regManage, GRegistrations, ''Approve, add & invite registrations''),
     (finView, GFinance, ''View payments & payouts''), (finRefund, GFinance, ''Issue refunds''),
     (finDiscount, GFinance, ''Manage discounts & pricing''),
     (finManage, GFinance, ''Void invoices, payouts & VAT filing''),
     (setUsers, GSettings, ''Manage users & roles''), (setSettings, GSettings, ''Edit workspace settings''),
     (setIntegrations, GSettings, ''Manage integrations'')]"

text \<open>The order of the enum in the schema, which \<^verbatim>\<open>ORDER BY\<close> follows; and a key as text.\<close>

definition all_permissions :: "permission list" where
  "all_permissions = [evCreate, evPublish, evSpeakers, evProgramView, regView, regCheckin, regExport, regManage,
     finView, finRefund, finDiscount, finManage, setUsers, setSettings, setIntegrations]"

fun index_in :: "'a list \<Rightarrow> 'a \<Rightarrow> nat" where
  "index_in [] x = 0"
| "index_in (y # ys) x = (if x = y then 0 else Suc (index_in ys x))"

definition group_order :: "perm_group \<Rightarrow> nat" where
  "group_order = index_in [GEvents, GRegistrations, GFinance, GSettings]"

definition permission_name :: "permission \<Rightarrow> string" where
  "permission_name k = [''evCreate'', ''evPublish'', ''evSpeakers'', ''evProgramView'', ''regView'', ''regCheckin'',
     ''regExport'', ''regManage'', ''finView'', ''finRefund'', ''finDiscount'', ''finManage'', ''setUsers'',
     ''setSettings'', ''setIntegrations''] ! index_in all_permissions k"

text \<open>\<^verbatim>\<open>citext\<close> compares without regard to case (here of the ASCII letters).\<close>

definition same_email :: "string \<Rightarrow> string \<Rightarrow> bool" where
  "same_email a b = (map fold_case a = map fold_case b)"

definition users_unique :: "user_row list \<Rightarrow> bool" where
  "users_unique = uniq (\<lambda>u. us_deletedAt u = None) (\<lambda>u. (us_org u, map fold_case (us_email u), us_persona u))"

definition role_names_unique :: "role_row list \<Rightarrow> bool" where
  "role_names_unique rs = distinct (map (\<lambda>r. (ro_org r, ro_name r)) rs)"

section \<open>What a role grants\<close>

text \<open>\<open>role-grants.ts\<close>: held, turned off, or never asked about.\<close>

record role_grant_states =
  gs_granted :: "permission list"
  gs_neverOffered :: "permission list"

definition roleGrantStates :: "permission list \<Rightarrow> grant_row list \<Rightarrow> role_grant_states" where
  "roleGrantStates catalogKeys rows =
     \<lparr>gs_granted = map gr_key (filter gr_granted rows),
      gs_neverOffered = filter (\<lambda>k. k \<notin> set (map gr_key rows)) catalogKeys\<rparr>"

record role_view =
  rv_id :: ident
  rv_name :: string
  rv_description :: string
  rv_permissions :: "permission list"
  rv_neverOffered :: "permission list"
  rv_memberCount :: nat
  rv_isSystem :: bool

definition listPermissions :: "people \<Rightarrow> catalog_row list" where
  "listPermissions d = sort_key (\<lambda>c. group_order (ca_group c)) (sort_key (\<lambda>c. index_in all_permissions (ca_key c)) (pp_catalog d))"

definition catalogKeys :: "people \<Rightarrow> permission list" where
  "catalogKeys d = map ca_key (listPermissions d)"

definition decisionsByRole :: "ident \<Rightarrow> people \<Rightarrow> grant_row list" where
  "decisionsByRole role d = filter (\<lambda>g. gr_role g = role) (pp_grants d)"

definition memberCountByRole :: "ident \<Rightarrow> ident \<Rightarrow> people \<Rightarrow> nat" where
  "memberCountByRole org role d =
     length (filter (\<lambda>m. mb_org m = org \<and> mb_deletedAt m = None \<and> mb_role m = role) (pp_members d))"

definition toRoleView :: "ident \<Rightarrow> people \<Rightarrow> role_row \<Rightarrow> role_view" where
  "toRoleView org d r =
     (let states = roleGrantStates (catalogKeys d) (decisionsByRole (ro_id r) d) in
      \<lparr>rv_id = ro_id r, rv_name = ro_name r, rv_description = ro_description r, rv_permissions = gs_granted states,
       rv_neverOffered = gs_neverOffered states, rv_memberCount = memberCountByRole org (ro_id r) d, rv_isSystem = ro_isSystem r\<rparr>)"

definition rolesWithGrants :: "ident \<Rightarrow> ident option \<Rightarrow> string option \<Rightarrow> people \<Rightarrow> role_view list" where
  "rolesWithGrants org roleId search d =
     map (toRoleView org d) (sort_key ro_id (filter (\<lambda>r. ro_org r = org
       \<and> (case roleId of None \<Rightarrow> True | Some i \<Rightarrow> ro_id r = i)
       \<and> (case search of None \<Rightarrow> True | Some s \<Rightarrow> s = [] \<or> ilike (ro_name r) (contains_term s))) (pp_roles d)))"

definition listRoles :: "ident \<Rightarrow> string option \<Rightarrow> people \<Rightarrow> role_view list" where
  "listRoles org search d = rolesWithGrants org None search d"

text \<open>The first of one role's rows; a caller that reads a field of none throws.\<close>

definition getRole :: "ident \<Rightarrow> ident \<Rightarrow> people \<Rightarrow> role_view option" where
  "getRole org roleId d = (case rolesWithGrants org (Some roleId) None d of [] \<Rightarrow> None | r # _ \<Rightarrow> Some r)"

definition needRole :: "ident \<Rightarrow> ident \<Rightarrow> people \<Rightarrow> error + role_view" where
  "needRole org roleId d = (case getRole org roleId d of None \<Rightarrow> Inl Uncaught | Some r \<Rightarrow> Inr r)"

definition roleExists :: "ident \<Rightarrow> ident \<Rightarrow> people \<Rightarrow> bool" where
  "roleExists org roleId d = (\<exists>r\<in>set (pp_roles d). ro_id r = roleId \<and> ro_org r = org)"

definition roleNameTaken :: "ident \<Rightarrow> string \<Rightarrow> people \<Rightarrow> bool" where
  "roleNameTaken org name d = (\<exists>r\<in>set (pp_roles d). ro_org r = org \<and> ro_name r = name)"

definition createRole_row :: "ident \<Rightarrow> string \<Rightarrow> string \<Rightarrow> people \<Rightarrow> error + (ident \<times> people)" where
  "createRole_row org name description d =
     (let rs = pp_roles d @ [\<lparr>ro_id = pp_next d, ro_org = org, ro_name = name, ro_description = description, ro_isSystem = False\<rparr>]
      in if role_names_unique rs then Inr (pp_next d, d\<lparr>pp_roles := rs, pp_next := pp_next d + 1\<rparr>)
         else Inl (DbViolation uq_roles_org_name))"

text \<open>\<^verbatim>\<open>INSERT ... ON CONFLICT (role_id, permission_key) DO UPDATE SET granted\<close>.\<close>

definition put_grant :: "ident \<Rightarrow> bool \<Rightarrow> permission \<Rightarrow> grant_row list \<Rightarrow> grant_row list" where
  "put_grant role b k rows =
     (if \<exists>g\<in>set rows. gr_role g = role \<and> gr_key g = k
      then upd (\<lambda>g. gr_role g = role \<and> gr_key g = k) (\<lambda>g. g\<lparr>gr_granted := b\<rparr>) rows
      else rows @ [\<lparr>gr_role = role, gr_key = k, gr_granted = b\<rparr>])"

definition put_grants :: "ident \<Rightarrow> bool \<Rightarrow> permission list \<Rightarrow> grant_row list \<Rightarrow> grant_row list" where
  "put_grants role b ks rows = fold (put_grant role b) ks rows"

definition setRolePermissions_tx ::
  "ident \<Rightarrow> ident \<Rightarrow> permission list \<Rightarrow> perm_audit_row option \<Rightarrow> people \<Rightarrow> error + people" where
  "setRolePermissions_tx org role keys audit d =
     (if \<not> set keys \<subseteq> ca_key ` set (pp_catalog d) then Inl (DbViolation fk_role_permissions_key)
      else let granted = put_grants role True keys (pp_grants d);
               refused = put_grants role False (filter (\<lambda>k. k \<notin> set keys) (map ca_key (pp_catalog d))) granted
           in Inr (d\<lparr>pp_grants := refused,
                pp_audits := pp_audits d @ (case audit of None \<Rightarrow> [] | Some a \<Rightarrow> [a])\<rparr>))"

definition role_grants :: "ident \<Rightarrow> ident \<Rightarrow> permission \<Rightarrow> people \<Rightarrow> bool" where
  "role_grants org role k d = (\<exists>g\<in>set (pp_grants d). \<exists>r\<in>set (pp_roles d).
     ro_id r = gr_role g \<and> ro_org r = org \<and> gr_role g = role \<and> gr_key g = k \<and> gr_granted g)"

definition countRolesGranting :: "ident \<Rightarrow> permission \<Rightarrow> people \<Rightarrow> nat" where
  "countRolesGranting org k d = card (set (map gr_role (filter (\<lambda>g. gr_key g = k \<and> gr_granted g
     \<and> (\<exists>r\<in>set (pp_roles d). ro_id r = gr_role g \<and> ro_org r = org)) (pp_grants d))))"

section \<open>Members\<close>

record member_view =
  mv_id :: ident
  mv_user :: ident
  mv_name :: string
  mv_email :: string
  mv_roleId :: ident
  mv_role :: string
  mv_status :: member_status

text \<open>\<open>memberships\<close> joined with \<open>users\<close> and \<open>roles\<close>.\<close>

definition member_rows :: "(membership_row \<Rightarrow> user_row \<Rightarrow> bool) \<Rightarrow> people \<Rightarrow> member_view list" where
  "member_rows p d = concat (map (\<lambda>m. concat (map (\<lambda>u. concat (map (\<lambda>r.
       if mb_user m = us_id u \<and> mb_role m = ro_id r \<and> p m u
       then [\<lparr>mv_id = mb_id m, mv_user = us_id u, mv_name = us_name u, mv_email = us_email u, mv_roleId = mb_role m,
              mv_role = ro_name r, mv_status = mb_status m\<rparr>] else [])
     (pp_roles d))) (pp_users d))) (pp_members d))"

record list_members =
  lm_page :: "int option"
  lm_limit :: "int option"
  lm_search :: "string option"
  lm_status :: "member_status option"
  lm_roleId :: "ident option"

definition memberFilter ::
  "ident \<Rightarrow> string option \<Rightarrow> member_status option \<Rightarrow> ident option \<Rightarrow> membership_row \<Rightarrow> user_row \<Rightarrow> bool" where
  "memberFilter org search status roleId m u =
     (mb_org m = org \<and> mb_deletedAt m = None
      \<and> (case status of None \<Rightarrow> True | Some s \<Rightarrow> mb_status m = s)
      \<and> (case roleId of None \<Rightarrow> True | Some r \<Rightarrow> mb_role m = r)
      \<and> (case search of None \<Rightarrow> True
         | Some s \<Rightarrow> ilike (us_name u) (contains_term s) \<or> ilike (us_email u) (contains_term s)))"

definition search_text :: "string option \<Rightarrow> string option" where
  "search_text s = (case s of None \<Rightarrow> None | Some t \<Rightarrow> if js_trim t = [] then None else Some (js_trim t))"

definition DEFAULT_MEMBERS :: int where "DEFAULT_MEMBERS = 20"
definition MAX_MEMBERS :: int where "MAX_MEMBERS = 100"

definition listMembers :: "ident \<Rightarrow> list_members \<Rightarrow> people \<Rightarrow> member_view list \<times> page_meta" where
  "listMembers org q d =
     (let page = clamp_page (lm_page q); limit = clamp_limit DEFAULT_MEMBERS MAX_MEMBERS (lm_limit q);
          rows = member_rows (memberFilter org (search_text (lm_search q)) (lm_status q) (lm_roleId q)) d
      in paginated (page_of page limit (sort_key mv_id rows)) (int (length rows)) page limit)"

record status_counts =
  ct_all :: nat
  ct_active :: nat
  ct_invited :: nat
  ct_suspended :: nat

definition countMembers :: "ident \<Rightarrow> list_members \<Rightarrow> people \<Rightarrow> status_counts" where
  "countMembers org q d =
     (let rows = member_rows (memberFilter org (search_text (lm_search q)) None (lm_roleId q)) d;
          at = (\<lambda>s. length (filter (\<lambda>m. mv_status m = s) rows))
      in \<lparr>ct_all = length rows, ct_active = at MActive, ct_invited = at MInvited, ct_suspended = at MSuspended\<rparr>)"

definition memberExists :: "ident \<Rightarrow> ident \<Rightarrow> people \<Rightarrow> bool" where
  "memberExists org i d = (\<exists>m\<in>set (pp_members d). mb_id m = i \<and> mb_org m = org \<and> mb_deletedAt m = None)"

definition getMember :: "ident \<Rightarrow> ident \<Rightarrow> people \<Rightarrow> error + member_view" where
  "getMember org i d =
     (case member_rows (\<lambda>m u. mb_id m = i \<and> mb_org m = org) d of [] \<Rightarrow> Inl Uncaught | m # _ \<Rightarrow> Inr m)"

definition findMemberByEmail :: "ident \<Rightarrow> string \<Rightarrow> people \<Rightarrow> membership_row option" where
  "findMemberByEmail org email d =
     (case concat (map (\<lambda>u. filter (\<lambda>m. mb_user m = us_id u \<and> mb_org m = org) (pp_members d))
             (filter (\<lambda>u. us_org u = org \<and> same_email (us_email u) email \<and> us_persona u = PAdmin \<and> us_deletedAt u = None)
                (pp_users d))) of
        [] \<Rightarrow> None | m # _ \<Rightarrow> Some m)"

record invite_member =
  im_name :: string
  im_email :: string
  im_role :: ident

definition ROLE_NOT_FOUND :: error where "ROLE_NOT_FOUND = NotFound ''Role not found.''"

definition createInvitedMember :: "ident \<Rightarrow> invite_member \<Rightarrow> instant \<Rightarrow> people \<Rightarrow> error + (membership_row \<times> people)" where
  "createInvitedMember org inp now d =
     (case find (\<lambda>r. ro_id r = im_role inp \<and> ro_org r = org) (pp_roles d) of
        None \<Rightarrow> Inl ROLE_NOT_FOUND
      | Some role \<Rightarrow>
          let u = \<lparr>us_id = pp_next d, us_org = org, us_name = im_name inp, us_email = im_email inp, us_persona = PAdmin,
                us_status = MInvited, us_password = None, us_twoFactor = False, us_lastActiveAt = None, us_createdAt = now, us_deletedAt = None\<rparr>;
              m = \<lparr>mb_id = pp_next d + 1, mb_org = org, mb_user = pp_next d, mb_role = im_role inp, mb_roleName = ro_name role,
                mb_status = MInvited, mb_invitedAt = Some now, mb_joinedAt = None, mb_deletedAt = None\<rparr>
          in if users_unique (pp_users d @ [u])
             then Inr (m, d\<lparr>pp_users := pp_users d @ [u], pp_members := pp_members d @ [m], pp_next := pp_next d + 2\<rparr>)
             else Inl (DbViolation uq_users_org_email_persona))"

definition updateMember :: "ident \<Rightarrow> ident \<Rightarrow> (membership_row \<Rightarrow> membership_row) \<Rightarrow> people \<Rightarrow> people" where
  "updateMember org i f d = d\<lparr>pp_members := upd (\<lambda>m. mb_id m = i \<and> mb_org m = org) f (pp_members d)\<rparr>"

definition updateMemberRole :: "ident \<Rightarrow> ident \<Rightarrow> ident \<Rightarrow> perm_audit_row \<Rightarrow> people \<Rightarrow> people" where
  "updateMemberRole org i role audit d =
     (case find (\<lambda>r. ro_id r = role \<and> ro_org r = org) (pp_roles d) of
        None \<Rightarrow> d
      | Some r \<Rightarrow> (updateMember org i (\<lambda>m. m\<lparr>mb_role := role, mb_roleName := ro_name r\<rparr>) d)\<lparr>pp_audits := pp_audits d @ [audit]\<rparr>)"

text \<open>Revoking every live session of a user.\<close>

definition revokeSessions :: "ident \<Rightarrow> instant \<Rightarrow> people \<Rightarrow> people" where
  "revokeSessions user now d = d\<lparr>pp_sessions := upd (\<lambda>s. se_user s = user \<and> se_revokedAt s = None)
     (\<lambda>s. s\<lparr>se_revokedAt := Some now\<rparr>) (pp_sessions d)\<rparr>"

definition setMemberStatus :: "ident \<Rightarrow> ident \<Rightarrow> member_status \<Rightarrow> instant \<Rightarrow> people \<Rightarrow> people" where
  "setMemberStatus org i status now d =
     (case find (\<lambda>m. mb_id m = i \<and> mb_org m = org) (pp_members d) of
        None \<Rightarrow> d
      | Some row \<Rightarrow>
          let d = updateMember org i (\<lambda>m. m\<lparr>mb_status := status\<rparr>) d;
              d = d\<lparr>pp_users := upd (\<lambda>u. us_id u = mb_user row) (\<lambda>u. u\<lparr>us_status := status\<rparr>) (pp_users d)\<rparr>
          in if status = MSuspended then revokeSessions (mb_user row) now d else d)"

definition removeMember_tx :: "ident \<Rightarrow> ident \<Rightarrow> instant \<Rightarrow> people \<Rightarrow> people" where
  "removeMember_tx org i now d =
     (case find (\<lambda>m. mb_id m = i \<and> mb_org m = org) (pp_members d) of
        None \<Rightarrow> d
      | Some row \<Rightarrow>
          let d = updateMember org i (\<lambda>m. m\<lparr>mb_status := MSuspended, mb_deletedAt := Some now\<rparr>) d;
              d = d\<lparr>pp_users := upd (\<lambda>u. us_id u = mb_user row) (\<lambda>u. u\<lparr>us_status := MSuspended, us_deletedAt := Some now\<rparr>) (pp_users d)\<rparr>
          in revokeSessions (mb_user row) now d)"

section \<open>Who is an Admin, and what a user may do\<close>

definition is_admin_role :: "people \<Rightarrow> ident \<Rightarrow> bool" where
  "is_admin_role d role = (\<exists>r\<in>set (pp_roles d). ro_id r = role \<and> ro_name r = ADMIN_ROLE)"

text \<open>The rows of the join of \<open>memberships\<close> and \<open>roles\<close> that the count takes.\<close>

definition countActiveAdmins :: "ident \<Rightarrow> people \<Rightarrow> nat" where
  "countActiveAdmins org d = length (concat (map (\<lambda>m. filter (\<lambda>r. ro_id r = mb_role m \<and> mb_org m = org \<and> mb_status m = MActive
     \<and> ro_name r = ADMIN_ROLE \<and> mb_deletedAt m = None) (pp_roles d)) (pp_members d)))"

definition isActiveAdmin :: "ident \<Rightarrow> ident \<Rightarrow> people \<Rightarrow> bool" where
  "isActiveAdmin org i d = (\<exists>m\<in>set (pp_members d). mb_id m = i \<and> mb_org m = org \<and> mb_status m = MActive \<and> is_admin_role d (mb_role m))"

definition isActiveAdminUser :: "ident \<Rightarrow> ident \<Rightarrow> people \<Rightarrow> bool" where
  "isActiveAdminUser org user d = (\<exists>m\<in>set (pp_members d). mb_user m = user \<and> mb_org m = org \<and> mb_status m = MActive
     \<and> is_admin_role d (mb_role m) \<and> mb_deletedAt m = None)"

definition getPermissions :: "ident \<Rightarrow> ident \<Rightarrow> people \<Rightarrow> permission list" where
  "getPermissions org user d = concat (map (\<lambda>m. map gr_key (filter (\<lambda>g. gr_role g = mb_role m \<and> gr_granted g) (pp_grants d)))
     (filter (\<lambda>m. mb_org m = org \<and> mb_user m = user \<and> mb_status m = MActive) (pp_members d)))"

section \<open>The audit trail of permission changes\<close>

definition label :: "permission \<Rightarrow> string" where
  "label k = (case find (\<lambda>c. ca_key c = k) PERMISSION_CATALOG of None \<Rightarrow> permission_name k | Some c \<Rightarrow> ca_label c)"

definition sensitive :: "permission list \<Rightarrow> permission list" where
  "sensitive keys = filter (\<lambda>k. k \<in> set SENSITIVE_PERMISSIONS) keys"

definition without :: "permission list \<Rightarrow> permission list \<Rightarrow> permission list" where
  "without keys gone = filter (\<lambda>k. k \<notin> set gone) keys"

definition flagged :: "string \<Rightarrow> permission list \<Rightarrow> string" where
  "flagged title sensitiveGrants = (if sensitiveGrants \<noteq> [] then title @ SENSITIVE_FLAG else title)"

definition grantLabel :: "permission \<Rightarrow> string" where
  "grantLabel k = (if k \<in> set SENSITIVE_PERMISSIONS then label k @ '' (sensitive)'' else label k)"

definition detail :: "permission list \<Rightarrow> permission list \<Rightarrow> string option" where
  "detail granted revoked =
     (let parts = (if granted \<noteq> [] then [''Granted: '' @ join '', '' (map grantLabel granted)] else [])
                @ (if revoked \<noteq> [] then [''Revoked: '' @ join '', '' (map label revoked)] else [])
      in if parts \<noteq> [] then Some (join '' - '' parts) else None)"

definition memberRoleChangeAudit :: "string \<Rightarrow> role_view \<Rightarrow> role_view \<Rightarrow> perm_audit_text" where
  "memberRoleChangeAudit member from to =
     (let gained = sensitive (without (rv_permissions to) (rv_permissions from)) in
      \<lparr>at_title = flagged (''Changed '' @ member @ [CHR 0x27] @ ''s role from '' @ rv_name from @ '' to '' @ rv_name to) gained,
       at_meta = (if gained \<noteq> [] then Some (''Sensitive: '' @ join '', '' (map label gained)) else None)\<rparr>)"

definition rolePermissionsAudit :: "string \<Rightarrow> permission list \<Rightarrow> permission list \<Rightarrow> perm_audit_text option" where
  "rolePermissionsAudit role before after =
     (let granted = without after before; revoked = without before after in
      if granted = [] \<and> revoked = [] then None
      else Some \<lparr>at_title = flagged (''Changed the permissions of the '' @ role @ '' role'') (sensitive granted),
                 at_meta = detail granted revoked\<rparr>)"

definition roleCreatedAudit :: "string \<Rightarrow> permission list \<Rightarrow> perm_audit_text" where
  "roleCreatedAudit role granted =
     \<lparr>at_title = flagged (''Created the '' @ role @ '' role'') (sensitive granted), at_meta = detail granted []\<rparr>"

record actor =
  ac_user :: ident
  ac_ip :: "string option"

definition permAuditRecord :: "ident \<Rightarrow> perm_audit_text \<Rightarrow> actor \<Rightarrow> perm_audit_row" where
  "permAuditRecord org txt actor = \<lparr>pa_org = org, pa_text = txt, pa_actor = ac_user actor, pa_ip = ac_ip actor\<rparr>"

end
