(* ===== verification/AccessService.thy ===== *)
theory AccessService
  imports Access
begin

text \<open>
  The services of \<^verbatim>\<open>access/access.service.ts\<close>, \<^verbatim>\<open>access/roles.service.ts\<close>, the acceptance of an invitation
  (\<^verbatim>\<open>auth/auth.service.ts\<close>) and the bootstrap of a workspace, over the tables of theory Access. Each reads and then
  commits its transactions in the order of the code.
\<close>

section \<open>Guards\<close>

definition LAST_ADMIN :: error where
  "LAST_ADMIN = Conflict ''This is the last Admin - promote someone else first.'' []"

definition NO_SUCH_ROLE :: "ident \<Rightarrow> error" where
  "NO_SUCH_ROLE role = NotFound ''Role {} not found in this workspace.''"

definition NO_SUCH_MEMBER :: "ident \<Rightarrow> error" where
  "NO_SUCH_MEMBER i = NotFound ''Member {} not found in this workspace.''"

definition assertNotLastAdmin :: "ident \<Rightarrow> ident \<Rightarrow> people \<Rightarrow> error + unit" where
  "assertNotLastAdmin org i d =
     (if \<not> isActiveAdmin org i d then Inr ()
      else if countActiveAdmins org d > 1 then Inr ()
      else Inl LAST_ADMIN)"

definition assertMemberExists :: "ident \<Rightarrow> ident \<Rightarrow> people \<Rightarrow> error + unit" where
  "assertMemberExists org i d = check (memberExists org i d) (NO_SUCH_MEMBER i)"

definition assertNoEscalation :: "ident \<Rightarrow> ident \<Rightarrow> permission list \<Rightarrow> people \<Rightarrow> error + unit" where
  "assertNoEscalation org actor granting d =
     (if isActiveAdminUser org actor d then Inr ()
      else let held = getPermissions org actor d; beyond = filter (\<lambda>k. k \<notin> set held) granting in
        if beyond \<noteq> []
        then Inl (Forbidden (''You cannot grant access you do not have: '' @ join '', '' (map permission_name beyond) @ ''.''))
        else Inr ())"

definition existingRole :: "ident \<Rightarrow> ident \<Rightarrow> people \<Rightarrow> error + role_view" where
  "existingRole org role d = (if roleExists org role d then needRole org role d else Inl (NO_SUCH_ROLE role))"

text \<open>A service that only reads before its one transaction.\<close>

definition people_tx :: "error + ('r \<times> people) \<Rightarrow> people \<Rightarrow> 'r people_svc" where
  "people_tx m d = (case m of Inl e \<Rightarrow> (Inl e, d) | Inr (r, d') \<Rightarrow> (Inr r, d'))"

section \<open>Members\<close>

definition inviteMember ::
  "(ident \<Rightarrow> ident \<Rightarrow> ident \<Rightarrow> string) \<Rightarrow> string \<Rightarrow> ident \<Rightarrow> invite_member \<Rightarrow> instant \<Rightarrow> people \<Rightarrow> (member_view \<times> string) people_svc" where
  "inviteMember sign webUrl org inp now d =
     (if \<not> roleExists org (im_role inp) d then (Inl (NO_SUCH_ROLE (im_role inp)), d)
      else
        let existing = findMemberByEmail org (im_email inp) d in
        if (case existing of None \<Rightarrow> False | Some m \<Rightarrow> mb_status m \<noteq> MInvited)
        then (Inl (Conflict ''A member with this email already exists in the workspace.'' []), d)
        else
          case (case existing of Some m \<Rightarrow> Inr (m, d) | None \<Rightarrow> createInvitedMember org inp now d) of
            Inl e \<Rightarrow> (Inl e, d)
          | Inr (m, d) \<Rightarrow>
              let inviteToken = sign (mb_user m) org (mb_id m) in
              case getMember org (mb_id m) d of
                Inl e \<Rightarrow> (Inl e, d)
              | Inr member \<Rightarrow>
                  (Inr (member, inviteToken), d\<lparr>pp_outbox := pp_outbox d @
                     [\<lparr>mi_org = org, mi_user = mb_user m, mi_name = mv_name member, mi_email = mv_email member,
                       mi_organizationName = (case find (\<lambda>g. og_id g = org) (pp_orgs d) of None \<Rightarrow> [] | Some g \<Rightarrow> og_name g),
                       mi_acceptUrl = webUrl @ ''/accept-invite?token='' @ inviteToken\<rparr>]\<rparr>))"

definition moveToRole :: "ident \<Rightarrow> member_view \<Rightarrow> ident \<Rightarrow> role_view \<Rightarrow> actor \<Rightarrow> people \<Rightarrow> error + people" where
  "moveToRole org member roleId target actor d =
     bindE (needRole org (mv_roleId member) d) (\<lambda>from.
     Inr (updateMemberRole org (mv_id member) roleId
            (permAuditRecord org (memberRoleChangeAudit (mv_name member) from target) actor) d))"

definition changeMemberRole :: "ident \<Rightarrow> ident \<Rightarrow> ident \<Rightarrow> actor \<Rightarrow> people \<Rightarrow> member_view people_svc" where
  "changeMemberRole org i roleId actor d =
     people_tx (
       bindE (assertMemberExists org i d) (\<lambda>_.
       bindE (existingRole org roleId d) (\<lambda>target.
       bindE (assertNoEscalation org (ac_user actor) (rv_permissions target) d) (\<lambda>_.
       bindE (if rv_name target \<noteq> ADMIN_ROLE then assertNotLastAdmin org i d else Inr ()) (\<lambda>_.
       bindE (getMember org i d) (\<lambda>member.
       if mv_roleId member = roleId then Inr (member, d)
       else bindE (moveToRole org member roleId target actor d) (\<lambda>d'.
            bindE (getMember org i d') (\<lambda>after. Inr (after, d'))))))))) d"

definition suspendMember :: "ident \<Rightarrow> ident \<Rightarrow> instant \<Rightarrow> people \<Rightarrow> member_view people_svc" where
  "suspendMember org i now d =
     people_tx (
       bindE (assertMemberExists org i d) (\<lambda>_.
       bindE (assertNotLastAdmin org i d) (\<lambda>_.
       let d' = setMemberStatus org i MSuspended now d in
       bindE (getMember org i d') (\<lambda>after. Inr (after, d'))))) d"

definition reactivateMember :: "ident \<Rightarrow> ident \<Rightarrow> instant \<Rightarrow> people \<Rightarrow> member_view people_svc" where
  "reactivateMember org i now d =
     people_tx (
       bindE (assertMemberExists org i d) (\<lambda>_.
       let d' = setMemberStatus org i MActive now d in
       bindE (getMember org i d') (\<lambda>after. Inr (after, d')))) d"

definition removeMember :: "ident \<Rightarrow> ident \<Rightarrow> instant \<Rightarrow> people \<Rightarrow> unit people_svc" where
  "removeMember org i now d =
     people_tx (
       bindE (assertMemberExists org i d) (\<lambda>_.
       bindE (assertNotLastAdmin org i d) (\<lambda>_.
       Inr ((), removeMember_tx org i now d)))) d"

section \<open>Accepting an invitation\<close>

definition findInvitedMembership :: "ident \<Rightarrow> people \<Rightarrow> (ident \<times> ident \<times> string) option" where
  "findInvitedMembership i d =
     (case concat (map (\<lambda>m. map (\<lambda>u. (mb_user m, mb_org m, us_email u)) (filter (\<lambda>u. us_id u = mb_user m) (pp_users d)))
             (filter (\<lambda>m. mb_id m = i \<and> mb_status m = MInvited) (pp_members d))) of
        [] \<Rightarrow> None | x # _ \<Rightarrow> Some x)"

definition activateInvite :: "ident \<Rightarrow> ident \<Rightarrow> string \<Rightarrow> instant \<Rightarrow> people \<Rightarrow> people" where
  "activateInvite user i passwordHash now d =
     d\<lparr>pp_users := upd (\<lambda>u. us_id u = user) (\<lambda>u. u\<lparr>us_password := Some passwordHash, us_status := MActive\<rparr>) (pp_users d),
       pp_members := upd (\<lambda>m. mb_id m = i) (\<lambda>m. m\<lparr>mb_status := MActive, mb_joinedAt := Some now\<rparr>) (pp_members d)\<rparr>"

text \<open>The membership the verified token names is an argument; \<open>None\<close> is a token that does not verify.\<close>

definition INVALID_TOKEN :: error where "INVALID_TOKEN = Unauthorized ''Invalid or expired token''"

definition acceptInvite :: "ident option \<Rightarrow> string \<Rightarrow> instant \<Rightarrow> people \<Rightarrow> (ident \<times> string) people_svc" where
  "acceptInvite claims passwordHash now d =
     (case claims of
        None \<Rightarrow> (Inl INVALID_TOKEN, d)
      | Some mid \<Rightarrow>
          (case findInvitedMembership mid d of
             None \<Rightarrow> (Inl INVALID_TOKEN, d)
           | Some (user, _, email) \<Rightarrow> (Inr (user, email), activateInvite user mid passwordHash now d)))"

section \<open>Roles\<close>

record new_role =
  nr_name :: string
  nr_description :: string
  nr_permissions :: "permission list"

definition createRole :: "ident \<Rightarrow> actor \<Rightarrow> new_role \<Rightarrow> people \<Rightarrow> role_view people_svc" where
  "createRole org actor inp d =
     (let name = js_trim (nr_name inp) in
      case assertNoEscalation org (ac_user actor) (nr_permissions inp) d of
        Inl e \<Rightarrow> (Inl e, d)
      | Inr _ \<Rightarrow>
          if roleNameTaken org name d
          then (Inl (Conflict ''A role called {} already exists - choose a unique name.'' [Txt name]), d)
          else
            case createRole_row org name (nr_description inp) d of
              Inl e \<Rightarrow> (Inl e, d)
            | Inr (roleId, d) \<Rightarrow>
                let keys = dedupe (nr_permissions inp) in
                people_tx (bindE (setRolePermissions_tx org roleId keys (Some (permAuditRecord org (roleCreatedAudit name keys) actor)) d)
                  (\<lambda>d'. bindE (needRole org roleId d') (\<lambda>r. Inr (r, d')))) d)"

definition permissionChange :: "ident \<Rightarrow> ident \<Rightarrow> permission list \<Rightarrow> actor \<Rightarrow> people \<Rightarrow> error + perm_audit_row option" where
  "permissionChange org role keys actor d =
     bindE (needRole org role d) (\<lambda>before.
     Inr (map_option (\<lambda>t. permAuditRecord org t actor) (rolePermissionsAudit (rv_name before) (rv_permissions before) keys)))"

definition ONLY_MANAGING_ROLE :: error where
  "ONLY_MANAGING_ROLE = Conflict ''This is the only role that can manage users and roles - grant it to another role first.'' []"

definition assertUserManagementSurvives :: "ident \<Rightarrow> ident \<Rightarrow> permission list \<Rightarrow> people \<Rightarrow> error + unit" where
  "assertUserManagementSurvives org role keys d =
     (if MANAGE_USERS \<in> set keys then Inr ()
      else if \<not> role_grants org role MANAGE_USERS d then Inr ()
      else if countRolesGranting org MANAGE_USERS d > 1 then Inr ()
      else Inl ONLY_MANAGING_ROLE)"

definition setRolePermissions :: "ident \<Rightarrow> actor \<Rightarrow> ident \<Rightarrow> permission list \<Rightarrow> people \<Rightarrow> role_view people_svc" where
  "setRolePermissions org actor role keys d =
     people_tx (
       bindE (assertNoEscalation org (ac_user actor) keys d) (\<lambda>_.
       bindE (assertUserManagementSurvives org role keys d) (\<lambda>_.
       bindE (check (roleExists org role d) (NO_SUCH_ROLE role)) (\<lambda>_.
       let unique = dedupe keys in
       bindE (permissionChange org role unique actor d) (\<lambda>audit.
       bindE (setRolePermissions_tx org role unique audit d) (\<lambda>d'.
       bindE (needRole org role d') (\<lambda>r. Inr (r, d')))))))) d"

section \<open>A new workspace\<close>

definition DEFAULT_ROLES :: "(string \<times> string \<times> permission list) list" where
  "DEFAULT_ROLES =
    [(''Admin'', ''Full access'', map ca_key PERMISSION_CATALOG),
     (''Organizer'', ''Events, program & registrations'',
        [evCreate, evPublish, evSpeakers, regView, regCheckin, regExport, regManage, finView, finDiscount, evProgramView]),
     (''Staff'', ''Check-in & registration view'', [regView, regCheckin, evProgramView])]"

definition OWNER_ROLE :: string where "OWNER_ROLE = ''Admin''"

text \<open>A role and its grants; the ids by name, the last one of a name first.\<close>

fun insertDefaultRoles ::
  "ident \<Rightarrow> (string \<times> string \<times> permission list) list \<Rightarrow> people \<Rightarrow> error + ((string \<times> ident) list \<times> people)" where
  "insertDefaultRoles org [] d = Inr ([], d)"
| "insertDefaultRoles org ((name, description, grants) # rs) d =
     (let i = pp_next d;
          rows = pp_roles d @ [\<lparr>ro_id = i, ro_org = org, ro_name = name, ro_description = description, ro_isSystem = True\<rparr>]
      in if \<not> role_names_unique rows then Inl (DbViolation uq_roles_org_name)
         else bindE (insertDefaultRoles org rs (d\<lparr>pp_roles := rows, pp_next := i + 1,
                pp_grants := pp_grants d @ map (\<lambda>k. \<lparr>gr_role = i, gr_key = k, gr_granted = True\<rparr>) grants\<rparr>))
              (\<lambda>(ids, d'). Inr (ids @ [(name, i)], d')))"

definition ensureCatalog :: "people \<Rightarrow> people" where
  "ensureCatalog d = d\<lparr>pp_catalog :=
     map (\<lambda>c. case find (\<lambda>p. ca_key p = ca_key c) PERMISSION_CATALOG of None \<Rightarrow> c | Some p \<Rightarrow> p) (pp_catalog d)
     @ filter (\<lambda>p. ca_key p \<notin> ca_key ` set (pp_catalog d)) PERMISSION_CATALOG\<rparr>"

record bootstrap =
  bo_organizationName :: string
  bo_slug :: string
  bo_name :: string
  bo_email :: string
  bo_passwordHash :: "string option"

text \<open>\<^verbatim>\<open>lower(btrim(name))\<close>, by which two live workspaces have the same name.\<close>

definition org_name_key :: "string \<Rightarrow> string" where
  "org_name_key name = map fold_case (rev (dropWhile (\<lambda>c. c = CHR '' '') (rev (dropWhile (\<lambda>c. c = CHR '' '') name))))"

definition org_names_unique :: "org_row list \<Rightarrow> bool" where
  "org_names_unique = uniq (\<lambda>g. og_deletedAt g = None) (\<lambda>g. org_name_key (og_name g))"

definition bootstrapWorkspace :: "bootstrap \<Rightarrow> instant \<Rightarrow> people \<Rightarrow> error + ((ident \<times> ident \<times> string) \<times> people)" where
  "bootstrapWorkspace inp now d =
     (let org = pp_next d; owner = org + 1;
          orgs = pp_orgs d @ [\<lparr>og_id = org, og_name = bo_organizationName inp, og_slug = bo_slug inp, og_deletedAt = None\<rparr>];
          us = pp_users d @ [\<lparr>us_id = owner, us_org = org, us_name = bo_name inp, us_email = bo_email inp,
                 us_persona = PAdmin, us_status = MUnconfirmed, us_password = bo_passwordHash inp,
                 us_twoFactor = False, us_lastActiveAt = None, us_createdAt = now, us_deletedAt = None\<rparr>]
      in if \<not> distinct (map og_slug orgs) then Inl (DbViolation uq_organizations_slug)
         else if \<not> org_names_unique orgs then Inl (DbViolation uq_organizations_name)
         else if \<not> users_unique us then Inl (DbViolation uq_users_org_email_persona)
         else bindE (insertDefaultRoles org DEFAULT_ROLES (ensureCatalog (d\<lparr>pp_orgs := orgs, pp_users := us, pp_next := owner + 1\<rparr>)))
              (\<lambda>(ids, d'). case map_of ids OWNER_ROLE of
                  None \<Rightarrow> Inl Uncaught
                | Some role \<Rightarrow> Inr ((org, owner, bo_slug inp),
                    d'\<lparr>pp_members := pp_members d' @ [\<lparr>mb_id = pp_next d', mb_org = org, mb_user = owner, mb_role = role,
                         mb_roleName = OWNER_ROLE, mb_status = MActive, mb_invitedAt = None, mb_joinedAt = Some now, mb_deletedAt = None\<rparr>],
                       pp_next := pp_next d' + 1\<rparr>)))"

section \<open>Everything that happens to a workspace's people\<close>

text \<open>One call of a service, whatever it answers.\<close>

inductive people_step :: "people \<Rightarrow> people \<Rightarrow> bool" where
  founded: "bootstrapWorkspace inp now d = Inr (r, d') \<Longrightarrow> people_step d d'"
| invited: "inviteMember sign url org inp now d = (r, d') \<Longrightarrow> people_step d d'"
| accepted: "acceptInvite claims hash now d = (r, d') \<Longrightarrow> people_step d d'"
| moved: "changeMemberRole org i role actor d = (r, d') \<Longrightarrow> people_step d d'"
| suspended: "suspendMember org i now d = (r, d') \<Longrightarrow> people_step d d'"
| reactivated: "reactivateMember org i now d = (r, d') \<Longrightarrow> people_step d d'"
| removed: "removeMember org i now d = (r, d') \<Longrightarrow> people_step d d'"
| role_made: "createRole org actor inp d = (r, d') \<Longrightarrow> people_step d d'"
| role_saved: "setRolePermissions org actor role keys d = (r, d') \<Longrightarrow> people_step d d'"

inductive_cases people_stepE: "people_step d d'"

end
