(* ===== verification/AccessProps.thy ===== *)
theory AccessProps
  imports AccessService
begin

text \<open>
  What access control promises: a workspace that has an active Admin keeps one, no edit of a role or of a member's role
  gives anybody a capability that neither they nor its author had, a role always remains that manages users, the roles
  editor reads back what was saved, and a suspension takes everything away until it is undone.
\<close>

section \<open>The tables in order\<close>

definition people_ok :: "people \<Rightarrow> bool" where
  "people_ok d = (distinct (map mb_id (pp_members d)) \<and> distinct (map ro_id (pp_roles d))
     \<and> distinct (map (\<lambda>m. (mb_org m, mb_user m)) (pp_members d))
     \<and> (\<forall>m\<in>set (pp_members d). mb_id m < pp_next d \<and> mb_user m < pp_next d \<and> mb_role m < pp_next d)
     \<and> (\<forall>r\<in>set (pp_roles d). ro_id r < pp_next d))"

text \<open>What every call does to members and roles: rows change under an id, or new rows take fresh ids; no row goes.\<close>

definition keeps_rows :: "people \<Rightarrow> people \<Rightarrow> bool" where
  "keeps_rows d d' = (pp_next d \<le> pp_next d' \<and> set (pp_roles d) \<subseteq> set (pp_roles d'))"

lemma updateMember_frame [simp]:
  "pp_roles (updateMember org i f d) = pp_roles d" "pp_grants (updateMember org i f d) = pp_grants d"
  "pp_next (updateMember org i f d) = pp_next d" "pp_users (updateMember org i f d) = pp_users d"
  "pp_members (updateMember org i f d) = upd (\<lambda>m. mb_id m = i \<and> mb_org m = org) f (pp_members d)"
  by (simp_all add: updateMember_def)

lemma revokeSessions_frame [simp]:
  "pp_roles (revokeSessions u now d) = pp_roles d" "pp_grants (revokeSessions u now d) = pp_grants d"
  "pp_next (revokeSessions u now d) = pp_next d" "pp_members (revokeSessions u now d) = pp_members d"
  by (simp_all add: revokeSessions_def)

lemma people_tx_eq: "people_tx m d = (r, d') \<longleftrightarrow> (\<exists>e. m = Inl e \<and> r = Inl e \<and> d' = d) \<or> (\<exists>x. m = Inr (x, d') \<and> r = Inr x)"
  by (auto simp: people_tx_def split: sum.splits)

text \<open>Everything an edit of a member's row may change: not its id, its owner or its workspace.\<close>

definition edits_member :: "(membership_row \<Rightarrow> membership_row) \<Rightarrow> bool" where
  "edits_member f = (\<forall>m. mb_id (f m) = mb_id m \<and> mb_org (f m) = mb_org m \<and> mb_user (f m) = mb_user m)"

lemma people_ok_edit:
  assumes "people_ok d" and "edits_member f" and "\<And>m. mb_role (f m) = mb_role m \<or> mb_role (f m) < pp_next d"
    and "pp_members d' = upd P f (pp_members d)" and "pp_roles d' = pp_roles d" and "pp_next d' = pp_next d"
  shows "people_ok d'"
proof -
  have "map mb_id (upd P f (pp_members d)) = map mb_id (pp_members d)"
    "map (\<lambda>m. (mb_org m, mb_user m)) (upd P f (pp_members d)) = map (\<lambda>m. (mb_org m, mb_user m)) (pp_members d)"
    using assms(2) by (auto simp: edits_member_def intro!: map_upd_key)
  moreover have "\<forall>m\<in>set (upd P f (pp_members d)). mb_id m < pp_next d \<and> mb_user m < pp_next d \<and> mb_role m < pp_next d"
  proof
    fix x assume "x \<in> set (upd P f (pp_members d))"
    then obtain m where m: "m \<in> set (pp_members d)" "x = (if P m then f m else m)" by (auto simp: in_set_upd)
    then have "mb_id m < pp_next d \<and> mb_user m < pp_next d \<and> mb_role m < pp_next d" using assms(1) by (simp add: people_ok_def)
    with m(2) assms(2) assms(3) [of m] show "mb_id x < pp_next d \<and> mb_user x < pp_next d \<and> mb_role x < pp_next d"
      by (auto simp: edits_member_def)
  qed
  ultimately show ?thesis using assms by (simp add: people_ok_def)
qed

text \<open>What one call does to the tables of members and roles.\<close>

definition member_edit :: "people \<Rightarrow> people \<Rightarrow> bool" where
  "member_edit d d' = (pp_roles d' = pp_roles d \<and> pp_next d' = pp_next d
     \<and> (\<exists>P f. edits_member f \<and> (\<forall>m. mb_role (f m) = mb_role m \<or> mb_role (f m) < pp_next d)
          \<and> pp_members d' = upd P f (pp_members d)))"

definition rows_added :: "people \<Rightarrow> people \<Rightarrow> bool" where
  "rows_added d d' = (pp_next d \<le> pp_next d' \<and> (\<exists>ms rs. pp_members d' = pp_members d @ ms \<and> pp_roles d' = pp_roles d @ rs
     \<and> distinct (map mb_id ms) \<and> distinct (map ro_id rs) \<and> distinct (map (\<lambda>m. (mb_org m, mb_user m)) ms)
     \<and> (\<forall>m\<in>set ms. pp_next d \<le> mb_id m \<and> mb_id m < pp_next d' \<and> pp_next d \<le> mb_user m \<and> mb_user m < pp_next d'
          \<and> mb_role m < pp_next d')
     \<and> (\<forall>r\<in>set rs. pp_next d \<le> ro_id r \<and> ro_id r < pp_next d')))"

lemma rows_added_refl: "pp_members d' = pp_members d \<Longrightarrow> pp_roles d' = pp_roles d \<Longrightarrow> pp_next d' = pp_next d \<Longrightarrow> rows_added d d'"
  by (simp add: rows_added_def)

lemma people_ok_member_edit: "people_ok d \<Longrightarrow> member_edit d d' \<Longrightarrow> people_ok d'"
  unfolding member_edit_def by (blast intro: people_ok_edit)

lemma people_ok_rows_added: "people_ok d \<Longrightarrow> rows_added d d' \<Longrightarrow> people_ok d'"
  unfolding people_ok_def rows_added_def by (fastforce simp: disjoint_iff)

lemma rows_added_trans:
  assumes "rows_added d e" and "rows_added e f"
  shows "rows_added d f"
proof -
  from assms(1) obtain ms rs where 1: "pp_next d \<le> pp_next e" "pp_members e = pp_members d @ ms" "pp_roles e = pp_roles d @ rs"
    "distinct (map mb_id ms)" "distinct (map ro_id rs)" "distinct (map (\<lambda>m. (mb_org m, mb_user m)) ms)"
    "\<forall>m\<in>set ms. pp_next d \<le> mb_id m \<and> mb_id m < pp_next e \<and> pp_next d \<le> mb_user m \<and> mb_user m < pp_next e \<and> mb_role m < pp_next e"
    "\<forall>r\<in>set rs. pp_next d \<le> ro_id r \<and> ro_id r < pp_next e"
    by (auto simp: rows_added_def)
  from assms(2) obtain ms' rs' where 2: "pp_next e \<le> pp_next f" "pp_members f = pp_members e @ ms'" "pp_roles f = pp_roles e @ rs'"
    "distinct (map mb_id ms')" "distinct (map ro_id rs')" "distinct (map (\<lambda>m. (mb_org m, mb_user m)) ms')"
    "\<forall>m\<in>set ms'. pp_next e \<le> mb_id m \<and> mb_id m < pp_next f \<and> pp_next e \<le> mb_user m \<and> mb_user m < pp_next f \<and> mb_role m < pp_next f"
    "\<forall>r\<in>set rs'. pp_next e \<le> ro_id r \<and> ro_id r < pp_next f"
    by (auto simp: rows_added_def)
  show ?thesis unfolding rows_added_def
    by (intro conjI exI [of _ "ms @ ms'"] exI [of _ "rs @ rs'"]) (use 1 2 in \<open>fastforce simp: disjoint_iff\<close>)+
qed

section \<open>The last Admin\<close>

definition active_admin :: "ident \<Rightarrow> people \<Rightarrow> membership_row \<Rightarrow> bool" where
  "active_admin org d m = (mb_org m = org \<and> mb_status m = MActive \<and> mb_deletedAt m = None \<and> is_admin_role d (mb_role m))"

definition has_admin :: "ident \<Rightarrow> people \<Rightarrow> bool" where
  "has_admin org d = (\<exists>m\<in>set (pp_members d). active_admin org d m)"

lemma has_admin_count: "has_admin org d \<longleftrightarrow> 0 < countActiveAdmins org d"
  by (auto simp: has_admin_def countActiveAdmins_def active_admin_def is_admin_role_def filter_empty_conv)

lemma is_admin_role_mono: "is_admin_role d role \<Longrightarrow> set (pp_roles d) \<subseteq> set (pp_roles d') \<Longrightarrow> is_admin_role d' role"
  by (auto simp: is_admin_role_def)

lemma length_filter_key_le: "distinct (map k xs) \<Longrightarrow> length (filter (\<lambda>x. k x = a \<and> P x) xs) \<le> 1"
  by (induction xs) (auto simp: filter_empty_conv image_iff)

text \<open>With distinct ids the join has at most one row per member, so a count above one is two members.\<close>

lemma two_admins:
  assumes "people_ok d" and "1 < countActiveAdmins org d"
  shows "\<exists>m\<in>set (pp_members d). active_admin org d m \<and> mb_id m \<noteq> i"
proof (rule ccontr)
  assume none: "\<not> (\<exists>m\<in>set (pp_members d). active_admin org d m \<and> mb_id m \<noteq> i)"
  let ?row = "\<lambda>m. filter (\<lambda>r. ro_id r = mb_role m \<and> mb_org m = org \<and> mb_status m = MActive \<and> ro_name r = ADMIN_ROLE \<and> mb_deletedAt m = None) (pp_roles d)"
  have one: "length (?row m) \<le> 1" for m
  proof -
    have "length (filter (\<lambda>r. ro_id r = mb_role m \<and> (mb_org m = org \<and> mb_status m = MActive \<and> ro_name r = ADMIN_ROLE \<and> mb_deletedAt m = None)) (pp_roles d)) \<le> 1"
      using assms(1) by (intro length_filter_key_le) (simp add: people_ok_def)
    then show ?thesis by simp
  qed
  have "length (concat (map ?row ms)) \<le> 1" if "distinct (map mb_id ms)" "set ms \<subseteq> set (pp_members d)" for ms
    using that
  proof (induction ms)
    case (Cons m ms)
    show ?case
    proof (cases "?row m = []")
      case False
      then have "active_admin org d m" by (auto simp: filter_empty_conv active_admin_def is_admin_role_def)
      then have "mb_id m = i" using none Cons.prems by auto
      have "?row m' = []" if "m' \<in> set ms" for m'
      proof -
        have "mb_id m' \<noteq> i" using Cons.prems that \<open>mb_id m = i\<close> by (auto simp: image_iff)
        then have "\<not> active_admin org d m'" using none Cons.prems that by auto
        then show ?thesis by (auto simp: filter_empty_conv active_admin_def is_admin_role_def)
      qed
      then have "length (concat (map ?row ms)) = 0" by (simp only: length_0_conv concat_eq_Nil_conv) auto
      with one [of m] show ?thesis by (simp only: list.map concat.simps length_append)
    qed (use Cons in auto)
  qed simp
  from this [of "pp_members d"] assms show False by (simp add: people_ok_def countActiveAdmins_def)
qed

text \<open>The guard leaves an Admin other than the member it is asked about.\<close>

lemma another_admin:
  assumes "assertNotLastAdmin org' i d = Inr ()" and "people_ok d" and "has_admin org d"
  shows "\<exists>m\<in>set (pp_members d). active_admin org d m \<and> \<not> (mb_id m = i \<and> mb_org m = org')"
proof -
  obtain m where m: "m \<in> set (pp_members d)" "active_admin org d m" using assms(3) by (auto simp: has_admin_def)
  show ?thesis
  proof (cases "mb_id m = i \<and> mb_org m = org'")
    case True
    then have "isActiveAdmin org' i d" using m by (auto simp: isActiveAdmin_def active_admin_def)
    then have "1 < countActiveAdmins org d" using assms(1) True m(2) by (auto simp: assertNotLastAdmin_def active_admin_def split: if_splits)
    from two_admins [OF assms(2) this, of i] show ?thesis by blast
  qed (use m in blast)
qed

lemma has_admin_upd:
  assumes "m \<in> set (pp_members d)" and "active_admin org d m" and "pp_members d' = upd P f (pp_members d)"
    and "set (pp_roles d) \<subseteq> set (pp_roles d')" and "P m \<Longrightarrow> active_admin org d' (f m)"
  shows "has_admin org d'"
proof -
  have "active_admin org d' m" using assms(2,4) by (auto simp: active_admin_def intro: is_admin_role_mono)
  moreover have "(if P m then f m else m) \<in> set (pp_members d')" using assms(1,3) by (auto simp: in_set_upd)
  ultimately show ?thesis using assms(5) by (auto simp: has_admin_def split: if_splits)
qed

text \<open>An edit of the member the guard was asked about leaves another Admin.\<close>

lemma guarded_edit:
  assumes "assertNotLastAdmin org' i d = Inr ()" "people_ok d" "has_admin org d"
    and e: "pp_members d' = upd (\<lambda>m. mb_id m = i \<and> mb_org m = org') f (pp_members d)" "pp_roles d' = pp_roles d"
  shows "has_admin org d'"
proof -
  obtain m where "m \<in> set (pp_members d)" "active_admin org d m" "\<not> (mb_id m = i \<and> mb_org m = org')"
    using another_admin [OF assms(1-3)] by blast
  then show ?thesis by (intro has_admin_upd [OF _ _ e(1)]) (auto simp: e)
qed

lemma has_admin_rows_added: "has_admin org d \<Longrightarrow> rows_added d d' \<Longrightarrow> has_admin org d'"
proof -
  assume h: "has_admin org d" and a: "rows_added d d'"
  from a have "set (pp_members d) \<subseteq> set (pp_members d')" "set (pp_roles d) \<subseteq> set (pp_roles d')" by (auto simp: rows_added_def)
  with h show ?thesis unfolding has_admin_def active_admin_def by (blast intro: is_admin_role_mono)
qed

section \<open>One call\<close>

text \<open>A call that succeeds, and one that is refused and changes nothing.\<close>

lemma getRole_view:
  assumes "needRole org role d = Inr v"
  shows "\<exists>r\<in>set (pp_roles d). ro_id r = role \<and> ro_org r = org \<and> v = toRoleView org d r"
proof -
  have "v \<in> set (rolesWithGrants org (Some role) None d)"
    using assms by (auto simp: needRole_def getRole_def split: option.splits list.splits)
  then show ?thesis by (auto simp: rolesWithGrants_def)
qed

lemma member_rows_D:
  assumes "v \<in> set (member_rows p d)"
  shows "\<exists>m\<in>set (pp_members d). \<exists>u\<in>set (pp_users d). p m u \<and> mv_id v = mb_id m \<and> mv_user v = mb_user m
     \<and> mv_roleId v = mb_role m \<and> mv_status v = mb_status m"
  using assms by (fastforce simp: member_rows_def split: if_splits)

lemma getMember_D:
  assumes "getMember org i d = Inr v"
  shows "mv_id v = i \<and> (\<exists>m\<in>set (pp_members d). mb_id m = i \<and> mb_org m = org \<and> mb_user m = mv_user v
     \<and> mb_role m = mv_roleId v \<and> mb_status m = mv_status v)"
proof -
  have "v \<in> set (member_rows (\<lambda>m u. mb_id m = i \<and> mb_org m = org) d)"
    using assms by (auto simp: getMember_def split: list.splits)
  then show ?thesis by (auto dest!: member_rows_D)
qed

lemma changeMemberRole_D:
  assumes "changeMemberRole org i roleId actor d = (r, d')" and "d' \<noteq> d"
  obtains target name where "needRole org roleId d = Inr target"
    "assertNoEscalation org (ac_user actor) (rv_permissions target) d = Inr ()"
    "rv_name target \<noteq> ADMIN_ROLE \<longrightarrow> assertNotLastAdmin org i d = Inr ()"
    "pp_members d' = upd (\<lambda>m. mb_id m = i \<and> mb_org m = org) (\<lambda>m. m\<lparr>mb_role := roleId, mb_roleName := name\<rparr>) (pp_members d)"
    "pp_roles d' = pp_roles d" "pp_next d' = pp_next d" "pp_grants d' = pp_grants d"
proof -
  from assms obtain after where "bindE (assertMemberExists org i d) (\<lambda>_.
       bindE (existingRole org roleId d) (\<lambda>target.
       bindE (assertNoEscalation org (ac_user actor) (rv_permissions target) d) (\<lambda>_.
       bindE (if rv_name target \<noteq> ADMIN_ROLE then assertNotLastAdmin org i d else Inr ()) (\<lambda>_.
       bindE (getMember org i d) (\<lambda>member.
       if mv_roleId member = roleId then Inr (member, d)
       else bindE (moveToRole org member roleId target actor d) (\<lambda>d'.
            bindE (getMember org i d') (\<lambda>after. Inr (after, d')))))))) = Inr (after, d')"
    by (auto simp: changeMemberRole_def people_tx_eq)
  then obtain target member where t: "existingRole org roleId d = Inr target"
      "assertNoEscalation org (ac_user actor) (rv_permissions target) d = Inr ()"
      "(if rv_name target \<noteq> ADMIN_ROLE then assertNotLastAdmin org i d else Inr ()) = Inr ()"
    and g: "getMember org i d = Inr member" and m: "moveToRole org member roleId target actor d = Inr d'"
    using assms(2) unfolding bindE_Inr_iff by (auto simp: bindE_Inr_iff split: if_splits)
  have "mv_id member = i" using getMember_D [OF g] by simp
  then obtain v0 where d': "d' = updateMemberRole org i roleId (permAuditRecord org (memberRoleChangeAudit (mv_name member) v0 target) actor) d"
    using m by (auto simp: moveToRole_def bindE_Inr_iff)
  with assms(2) obtain r where r: "find (\<lambda>r. ro_id r = roleId \<and> ro_org r = org) (pp_roles d) = Some r"
    by (auto simp: updateMemberRole_def split: option.splits)
  show thesis
    by (rule that [of target "ro_name r"]) (use t r in \<open>auto simp: d' updateMemberRole_def existingRole_def split: if_splits\<close>)
qed

lemma setMemberStatus_members:
  "pp_members (setMemberStatus org i s now d) = upd (\<lambda>m. mb_id m = i \<and> mb_org m = org) (\<lambda>m. m\<lparr>mb_status := s\<rparr>) (pp_members d)"
  "pp_roles (setMemberStatus org i s now d) = pp_roles d" "pp_next (setMemberStatus org i s now d) = pp_next d"
  "pp_grants (setMemberStatus org i s now d) = pp_grants d"
  by (auto simp: setMemberStatus_def Let_def find_None_iff intro!: upd_id [symmetric] split: option.splits)

lemma removeMember_members:
  "pp_members (removeMember_tx org i now d) = upd (\<lambda>m. mb_id m = i \<and> mb_org m = org)
     (\<lambda>m. m\<lparr>mb_status := MSuspended, mb_deletedAt := Some now\<rparr>) (pp_members d)"
  "pp_roles (removeMember_tx org i now d) = pp_roles d" "pp_next (removeMember_tx org i now d) = pp_next d"
  "pp_grants (removeMember_tx org i now d) = pp_grants d"
  by (auto simp: removeMember_tx_def Let_def find_None_iff intro!: upd_id [symmetric] split: option.splits)

text \<open>The three calls that take a member's access away pass the guard; giving it back touches only the status.\<close>

lemma suspendMember_D:
  assumes "suspendMember org i now d = (Inr v, d')"
  shows "memberExists org i d \<and> assertNotLastAdmin org i d = Inr () \<and> d' = setMemberStatus org i MSuspended now d \<and> getMember org i d' = Inr v"
  using assms by (auto simp: suspendMember_def people_tx_eq bindE_Inr_iff Let_def assertMemberExists_def check_Inr_iff)

lemma removeMember_D:
  assumes "removeMember org i now d = (Inr u, d')"
  shows "memberExists org i d \<and> assertNotLastAdmin org i d = Inr () \<and> d' = removeMember_tx org i now d"
  using assms by (auto simp: removeMember_def people_tx_eq bindE_Inr_iff assertMemberExists_def check_Inr_iff)

lemma reactivateMember_D:
  assumes "reactivateMember org i now d = (Inr v, d')"
  shows "memberExists org i d \<and> d' = setMemberStatus org i MActive now d \<and> getMember org i d' = Inr v"
  using assms by (auto simp: reactivateMember_def people_tx_eq bindE_Inr_iff Let_def assertMemberExists_def check_Inr_iff)

lemma refused_same:
  "suspendMember org i now d = (Inl e, d') \<Longrightarrow> d' = d" "removeMember org i now d = (Inl e, d') \<Longrightarrow> d' = d"
  "reactivateMember org i now d = (Inl e, d') \<Longrightarrow> d' = d" "changeMemberRole org i role actor d = (Inl e, d') \<Longrightarrow> d' = d"
  "setRolePermissions org actor role keys d = (Inl e, d') \<Longrightarrow> d' = d"
  by (simp_all add: suspendMember_def removeMember_def reactivateMember_def changeMemberRole_def setRolePermissions_def people_tx_eq)

lemma setRolePermissions_D:
  assumes "setRolePermissions org actor role keys d = (Inr v, d')"
  obtains audit where "assertNoEscalation org (ac_user actor) keys d = Inr ()" "assertUserManagementSurvives org role keys d = Inr ()"
    "roleExists org role d" "setRolePermissions_tx org role (dedupe keys) audit d = Inr d'" "needRole org role d' = Inr v"
  using assms that
  by (auto simp: setRolePermissions_def people_tx_eq bindE_Inr_iff Let_def check_Inr_iff)

lemma setRolePermissions_tx_frame:
  assumes "setRolePermissions_tx org role keys audit d = Inr d'"
  shows "pp_members d' = pp_members d" "pp_roles d' = pp_roles d" "pp_next d' = pp_next d" "pp_catalog d' = pp_catalog d"
    "pp_grants d' = put_grants role False (filter (\<lambda>k. k \<notin> set keys) (map ca_key (pp_catalog d))) (put_grants role True keys (pp_grants d))"
    "set keys \<subseteq> ca_key ` set (pp_catalog d)"
  using assms by (auto simp: setRolePermissions_tx_def Let_def split: if_splits)

text \<open>A new role commits before its grants do; a name that is taken leaves everything as it was.\<close>

lemma createRole_D:
  assumes "createRole org actor inp d = (r, d')"
  shows "d' = d \<or> assertNoEscalation org (ac_user actor) (nr_permissions inp) d = Inr ()
     \<and> (\<exists>row. ro_id row = pp_next d \<and> pp_roles d' = pp_roles d @ [row]) \<and> pp_members d' = pp_members d \<and> pp_next d' = pp_next d + 1
     \<and> (pp_grants d' = pp_grants d \<or> (\<exists>ks ns. pp_grants d' = put_grants (pp_next d) False ns (put_grants (pp_next d) True ks (pp_grants d))
          \<and> set ks = set (nr_permissions inp)))"
proof (cases "assertNoEscalation org (ac_user actor) (nr_permissions inp) d")
  case (Inr u)
  let ?name = "js_trim (nr_name inp)"
  show ?thesis
  proof (cases "roleNameTaken org ?name d \<or> isl (createRole_row org ?name (nr_description inp) d)")
    case True
    with assms Inr show ?thesis by (auto simp: createRole_def Let_def split: sum.splits if_splits)
  next
    case False
    then obtain rid d1 where row: "createRole_row org ?name (nr_description inp) d = Inr (rid, d1)"
      by (cases "createRole_row org ?name (nr_description inp) d") auto
    then have d1: "rid = pp_next d" "pp_members d1 = pp_members d" "pp_next d1 = pp_next d + 1" "pp_grants d1 = pp_grants d"
      "\<exists>x. ro_id x = pp_next d \<and> pp_roles d1 = pp_roles d @ [x]"
      by (auto simp: createRole_row_def Let_def split: if_splits)
    have "d' = d1 \<or> (\<exists>audit. setRolePermissions_tx org rid (dedupe (nr_permissions inp)) audit d1 = Inr d')"
      using assms Inr False row by (auto simp: createRole_def Let_def people_tx_eq bindE_Inr_iff split: if_splits)
    then show ?thesis
    proof
      assume "\<exists>audit. setRolePermissions_tx org rid (dedupe (nr_permissions inp)) audit d1 = Inr d'"
      then obtain audit where "setRolePermissions_tx org rid (dedupe (nr_permissions inp)) audit d1 = Inr d'" ..
      note F = setRolePermissions_tx_frame(1-5) [OF this]
      from d1 obtain x where x: "ro_id x = pp_next d" "pp_roles d1 = pp_roles d @ [x]" by blast
      show ?thesis
        by (rule disjI2, intro conjI exI [of _ x] disjI2 exI [of _ "dedupe (nr_permissions inp)"]
            exI [of _ "filter (\<lambda>k. k \<notin> set (dedupe (nr_permissions inp))) (map ca_key (pp_catalog d1))"])
          (use F d1 Inr x in simp_all)
    qed (use Inr d1 in auto)
  qed
qed (use assms in \<open>auto simp: createRole_def Let_def\<close>)

lemma inviteMember_rows:
  assumes "inviteMember sign url org inp now d = (r, d')" and "people_ok d"
  shows "rows_added d d'"
proof (cases "findMemberByEmail org (im_email inp) d")
  case (Some m)
  then show ?thesis using assms(1) by (auto simp: inviteMember_def Let_def rows_added_refl split: if_splits sum.splits)
next
  case None
  have new: "rows_added d d1" if "createInvitedMember org inp now d = Inr (m, d1)" for m d1
  proof -
    have "im_role inp < pp_next d" if "find (\<lambda>r. ro_id r = im_role inp \<and> ro_org r = org) (pp_roles d) = Some x" for x
      using find_SomeD [OF that] assms(2) by (auto simp: people_ok_def)
    with that show ?thesis by (auto simp: createInvitedMember_def Let_def rows_added_def split: option.splits if_splits)
  qed
  have out: "rows_added d (d1\<lparr>pp_outbox := x\<rparr>) = rows_added d d1" for d1 x by (simp add: rows_added_def)
  show ?thesis using assms(1) None new
    by (auto simp: inviteMember_def Let_def out rows_added_refl split: if_splits sum.splits)
qed

lemma insertDefaultRoles_rows:
  "insertDefaultRoles org rs d = Inr (ids, d') \<Longrightarrow> rows_added d d' \<and> pp_members d' = pp_members d \<and> (\<forall>(n, i)\<in>set ids. i < pp_next d')"
proof (induction org rs d arbitrary: ids d' rule: insertDefaultRoles.induct)
  case (2 org name description grants rs d)
  let ?row = "\<lparr>ro_id = pp_next d, ro_org = org, ro_name = name, ro_description = description, ro_isSystem = True\<rparr>"
  let ?d1 = "d\<lparr>pp_roles := pp_roles d @ [?row], pp_next := pp_next d + 1,
      pp_grants := pp_grants d @ map (\<lambda>k. \<lparr>gr_role = pp_next d, gr_key = k, gr_granted = True\<rparr>) grants\<rparr>"
  from "2.prems" obtain ids1 where u: "role_names_unique (pp_roles d @ [?row])" and r: "insertDefaultRoles org rs ?d1 = Inr (ids1, d')"
    and ids: "ids = ids1 @ [(name, pp_next d)]"
    by (auto simp: Let_def bindE_Inr_iff split: if_splits)
  from "2.IH" [OF refl refl _ r] u have I: "rows_added ?d1 d'" "pp_members d' = pp_members ?d1" "\<forall>(n, i)\<in>set ids1. i < pp_next d'" by simp_all
  have "rows_added d ?d1" by (simp add: rows_added_def)
  then have "rows_added d d'" using I(1) by (rule rows_added_trans)
  moreover have "pp_next d < pp_next d'" using I(1) by (simp add: rows_added_def)
  ultimately show ?case using I ids by auto
qed (auto simp: rows_added_refl)

lemma bootstrapWorkspace_rows:
  assumes "bootstrapWorkspace inp now d = Inr (r, d')"
  shows "rows_added d d'"
proof -
  let ?d0 = "\<lambda>orgs us. ensureCatalog (d\<lparr>pp_orgs := orgs, pp_users := us, pp_next := pp_next d + 1 + 1\<rparr>)"
  from assms obtain orgs us ids d1 role where roles: "insertDefaultRoles (pp_next d) DEFAULT_ROLES (?d0 orgs us) = Inr (ids, d1)"
    and role: "map_of ids OWNER_ROLE = Some role"
    and d': "pp_next d' = pp_next d1 + 1" "pp_roles d' = pp_roles d1" "pp_members d' = pp_members d1 @ [\<lparr>mb_id = pp_next d1, mb_org = pp_next d,
       mb_user = pp_next d + 1, mb_role = role, mb_roleName = OWNER_ROLE, mb_status = MActive, mb_invitedAt = None, mb_joinedAt = Some now, mb_deletedAt = None\<rparr>]"
    by (auto simp: bootstrapWorkspace_def Let_def bindE_Inr_iff split: if_splits option.splits)
  note R = insertDefaultRoles_rows [OF roles]
  have base: "pp_members (?d0 orgs us) = pp_members d" "pp_roles (?d0 orgs us) = pp_roles d" "pp_next (?d0 orgs us) = pp_next d + 2"
    by (simp_all add: ensureCatalog_def)
  have "(OWNER_ROLE, role) \<in> set ids" using role by (rule map_of_SomeD)
  then have "role < pp_next d1" using R by auto
  moreover obtain rs where "pp_roles d1 = pp_roles d @ rs" "distinct (map ro_id rs)" "pp_next d + 2 \<le> pp_next d1"
      "\<forall>r\<in>set rs. pp_next d + 2 \<le> ro_id r \<and> ro_id r < pp_next d1" "pp_members d1 = pp_members d"
    using R base by (auto simp: rows_added_def)
  ultimately show ?thesis unfolding rows_added_def d' by fastforce
qed

text \<open>The effect of any call on members and roles.\<close>

lemma edits_memberI: "(\<And>m. mb_id (f m) = mb_id m) \<Longrightarrow> (\<And>m. mb_org (f m) = mb_org m) \<Longrightarrow> (\<And>m. mb_user (f m) = mb_user m) \<Longrightarrow> edits_member f"
  by (simp add: edits_member_def)

lemma member_editI:
  assumes "pp_members d' = upd P f (pp_members d)" "pp_roles d' = pp_roles d" "pp_next d' = pp_next d" "edits_member f"
    and "\<And>m. mb_role (f m) = mb_role m \<or> mb_role (f m) < pp_next d"
  shows "member_edit d d'"
  using assms by (auto simp: member_edit_def)

lemma createRole_rows:
  assumes "createRole org actor inp d = (r, d')"
  shows "rows_added d d'"
  using createRole_D [OF assms] by (auto simp: rows_added_refl) (auto simp: rows_added_def)

lemma people_step_rows:
  assumes "people_step d d'" and ok: "people_ok d"
  shows "member_edit d d' \<or> rows_added d d'"
  using assms(1)
proof cases
  case (accepted claims hash now r)
  show ?thesis
  proof (cases "d' = d")
    case False
    with accepted obtain user mid where "d' = activateInvite user mid hash now d"
      by (auto simp: acceptInvite_def split: option.splits)
    then have "member_edit d d'" by (intro member_editI [of _ "\<lambda>m. mb_id m = mid" "\<lambda>m. m\<lparr>mb_status := MActive, mb_joinedAt := Some now\<rparr>"] edits_memberI)
        (simp_all add: activateInvite_def)
    then show ?thesis ..
  qed (simp add: rows_added_refl)
next
  case (moved org i role actor r)
  show ?thesis
  proof (cases "d' = d")
    case False
    from moved False show ?thesis
    proof (rule changeMemberRole_D)
      fix target name assume t: "needRole org role d = Inr target" and e:
        "pp_members d' = upd (\<lambda>m. mb_id m = i \<and> mb_org m = org) (\<lambda>m. m\<lparr>mb_role := role, mb_roleName := name\<rparr>) (pp_members d)"
        "pp_roles d' = pp_roles d" "pp_next d' = pp_next d"
      have "role < pp_next d" using getRole_view [OF t] ok by (auto simp: people_ok_def)
      with e have "member_edit d d'" by (intro member_editI [OF e(1-3)] edits_memberI) auto
      then show ?thesis ..
    qed
  qed (simp add: rows_added_refl)
next
  case (suspended org i now r)
  then have "d' = d \<or> d' = setMemberStatus org i MSuspended now d"
    by (cases r) (auto dest!: suspendMember_D intro: refused_same)
  moreover have "member_edit d (setMemberStatus org i MSuspended now d)" by (intro member_editI [OF setMemberStatus_members(1-3)] edits_memberI) simp_all
  ultimately show ?thesis by (auto intro: rows_added_refl)
next
  case (reactivated org i now r)
  then have "d' = d \<or> d' = setMemberStatus org i MActive now d"
    by (cases r) (auto dest!: reactivateMember_D intro: refused_same)
  moreover have "member_edit d (setMemberStatus org i MActive now d)" by (intro member_editI [OF setMemberStatus_members(1-3)] edits_memberI) simp_all
  ultimately show ?thesis by (auto intro: rows_added_refl)
next
  case (removed org i now r)
  then have "d' = d \<or> d' = removeMember_tx org i now d"
    by (cases r) (auto dest!: removeMember_D intro: refused_same)
  moreover have "member_edit d (removeMember_tx org i now d)" by (intro member_editI [OF removeMember_members(1-3)] edits_memberI) simp_all
  ultimately show ?thesis by (auto intro: rows_added_refl)
next
  case (role_saved org actor role keys r)
  have "rows_added d d'"
  proof (cases r)
    case (Inr v)
    with role_saved show ?thesis by (auto elim!: setRolePermissions_D intro: rows_added_refl setRolePermissions_tx_frame)
  qed (use role_saved in \<open>auto dest: refused_same intro: rows_added_refl\<close>)
  then show ?thesis ..
qed (use ok in \<open>auto intro: bootstrapWorkspace_rows inviteMember_rows createRole_rows\<close>)

lemma people_ok_step: "people_step d d' \<Longrightarrow> people_ok d \<Longrightarrow> people_ok d'"
  using people_step_rows people_ok_member_edit people_ok_rows_added by blast

lemma has_admin_step:
  assumes "people_step d d'" and ok: "people_ok d" and h: "has_admin org d"
  shows "has_admin org d'"
proof -
  obtain m where m: "m \<in> set (pp_members d)" "active_admin org d m" using h by (auto simp: has_admin_def)
  note keep = has_admin_upd [OF m]
  show ?thesis
    using assms(1)
  proof cases
    case (accepted claims hash now r)
    then have "d' = d \<or> (\<exists>user mid. d' = activateInvite user mid hash now d)"
      by (auto simp: acceptInvite_def split: option.splits)
    moreover have "has_admin org (activateInvite user mid hash now d)" for user mid
      using m(2) by (intro keep [of _ "\<lambda>m. mb_id m = mid" "\<lambda>m. m\<lparr>mb_status := MActive, mb_joinedAt := Some now\<rparr>"])
        (auto simp: activateInvite_def active_admin_def is_admin_role_def)
    ultimately show ?thesis using h by auto
  next
    case (moved org' i role actor r)
    show ?thesis
    proof (cases "d' = d")
      case False
      from moved False show ?thesis
      proof (rule changeMemberRole_D)
        fix target name assume t: "needRole org' role d = Inr target" and last: "rv_name target \<noteq> ADMIN_ROLE \<longrightarrow> assertNotLastAdmin org' i d = Inr ()"
          and e: "pp_members d' = upd (\<lambda>m. mb_id m = i \<and> mb_org m = org') (\<lambda>m. m\<lparr>mb_role := role, mb_roleName := name\<rparr>) (pp_members d)"
            "pp_roles d' = pp_roles d"
        show ?thesis
        proof (cases "rv_name target = ADMIN_ROLE")
          case True
          then have "is_admin_role d role" using getRole_view [OF t] by (auto simp: is_admin_role_def toRoleView_def Let_def)
          then have "is_admin_role d' role" by (simp add: is_admin_role_def e)
          then show ?thesis using m(2) e by (intro keep [OF e(1)]) (simp_all add: active_admin_def)
        next
          case False
          then have "assertNotLastAdmin org' i d = Inr ()" using last by simp
          then show ?thesis using ok h e by (rule guarded_edit)
        qed
      qed
    qed (use h in simp)
  next
    case (suspended org' i now r)
    show ?thesis
    proof (cases r)
      case (Inr v)
      note S = suspendMember_D [OF suspended [unfolded Inr]]
      show ?thesis by (rule guarded_edit [OF _ ok h]) (use S setMemberStatus_members(1,2) in auto)
    qed (use suspended h refused_same in blast)
  next
    case (reactivated org' i now r)
    show ?thesis
    proof (cases r)
      case (Inr v)
      have "d' = setMemberStatus org' i MActive now d" using reactivateMember_D [OF reactivated [unfolded Inr]] by simp
      note e = setMemberStatus_members [of org' i MActive now d, folded this]
      from m(2) show ?thesis by (intro keep [OF e(1)]) (auto simp: e active_admin_def is_admin_role_def)
    qed (use reactivated h refused_same in blast)
  next
    case (removed org' i now r)
    show ?thesis
    proof (cases r)
      case (Inr v)
      note S = removeMember_D [OF removed [unfolded Inr]]
      show ?thesis by (rule guarded_edit [OF _ ok h]) (use S removeMember_members(1,2) in auto)
    qed (use removed h refused_same in blast)
  next
    case (role_saved org' actor role keys r)
    show ?thesis
    proof (cases r)
      case (Inr v)
      from role_saved [unfolded Inr] have "pp_members d' = pp_members d \<and> pp_roles d' = pp_roles d"
        by (auto elim!: setRolePermissions_D intro: setRolePermissions_tx_frame)
      then show ?thesis using h by (simp add: has_admin_def active_admin_def is_admin_role_def)
    qed (use role_saved h in \<open>auto dest: refused_same\<close>)
  qed (use ok h in \<open>auto intro: has_admin_rows_added bootstrapWorkspace_rows inviteMember_rows createRole_rows\<close>)
qed

text \<open>
  C9. A workspace that has an active Admin always keeps one, whoever is invited, moved to another role, suspended,
  reactivated or removed and however roles are edited, call after call: the guard counts only members the calls leave.
\<close>
theorem workspace_keeps_an_admin:
  assumes "people_step\<^sup>*\<^sup>* d0 d" and "people_ok d0" and "0 < countActiveAdmins org d0"
  shows "0 < countActiveAdmins org d"
proof -
  from assms(1) have "people_ok d \<and> has_admin org d"
    by (induction rule: rtranclp_induct) (use assms(2,3) in \<open>auto simp: has_admin_count [symmetric] intro: people_ok_step has_admin_step\<close>)
  then show ?thesis by (simp add: has_admin_count)
qed

section \<open>No escalation\<close>

lemma put_grant_granted:
  "gr_granted g \<Longrightarrow> g \<in> set (put_grant role b k rows) \<Longrightarrow> g \<in> set rows \<or> b \<and> gr_role g = role \<and> gr_key g = k"
  by (auto simp: put_grant_def in_set_upd split: if_splits)

lemma put_grants_granted:
  "gr_granted g \<Longrightarrow> g \<in> set (put_grants role b ks rows) \<Longrightarrow> g \<in> set rows \<or> b \<and> gr_role g = role \<and> gr_key g \<in> set ks"
  by (induction ks arbitrary: rows) (auto simp: put_grants_def dest!: put_grant_granted)

lemma save_granted:
  assumes "gr_granted g" and "g \<in> set (put_grants role False ns (put_grants role True ks rows))"
  shows "g \<in> set rows \<or> gr_role g = role \<and> gr_key g \<in> set ks"
  using put_grants_granted [OF assms] put_grants_granted [OF assms(1), of role True ks rows] by auto

lemma assertNoEscalation_held:
  assumes "assertNoEscalation org actor granting d = Inr ()" and "\<not> isActiveAdminUser org actor d"
  shows "set granting \<subseteq> set (getPermissions org actor d)"
  using assms by (auto simp: assertNoEscalation_def Let_def filter_empty_conv split: if_splits)

lemma in_getPermissions:
  "k \<in> set (getPermissions org user d) \<longleftrightarrow> (\<exists>m\<in>set (pp_members d). mb_org m = org \<and> mb_user m = user \<and> mb_status m = MActive
     \<and> (\<exists>g\<in>set (pp_grants d). gr_role g = mb_role m \<and> gr_granted g \<and> gr_key g = k))"
  by (auto simp: getPermissions_def)

lemma needRole_permissions:
  assumes "needRole org role d = Inr v"
  shows "set (rv_permissions v) = {gr_key g |g. g \<in> set (pp_grants d) \<and> gr_role g = role \<and> gr_granted g}"
  using getRole_view [OF assms] by (auto simp: toRoleView_def Let_def roleGrantStates_def decisionsByRole_def)

text \<open>The three calls that hand capabilities out to a role or to a member of the workspace.\<close>

inductive grants_access :: "ident \<Rightarrow> actor \<Rightarrow> people \<Rightarrow> people \<Rightarrow> bool" for org actor d d' where
  by_moving: "changeMemberRole org i role actor d = (r, d') \<Longrightarrow> grants_access org actor d d'"
| by_making: "createRole org actor inp d = (r, d') \<Longrightarrow> grants_access org actor d d'"
| by_saving: "setRolePermissions org actor role keys d = (r, d') \<Longrightarrow> grants_access org actor d d'"

lemma moving_stays_within:
  assumes "changeMemberRole org i role actor d = (r, d')" and "\<not> isActiveAdminUser org (ac_user actor) d"
    and "k \<in> set (getPermissions org user d')"
  shows "k \<in> set (getPermissions org user d) \<union> set (getPermissions org (ac_user actor) d)"
proof (cases "d' = d")
  case False
  from assms(1) False show ?thesis
  proof (rule changeMemberRole_D)
    fix target name assume t: "needRole org role d = Inr target" "assertNoEscalation org (ac_user actor) (rv_permissions target) d = Inr ()"
      and e: "pp_members d' = upd (\<lambda>m. mb_id m = i \<and> mb_org m = org) (\<lambda>m. m\<lparr>mb_role := role, mb_roleName := name\<rparr>) (pp_members d)"
        "pp_grants d' = pp_grants d"
    from assms(3) obtain m g where m: "m \<in> set (pp_members d')" "mb_org m = org" "mb_user m = user" "mb_status m = MActive"
      and g: "g \<in> set (pp_grants d)" "gr_role g = mb_role m" "gr_granted g" "gr_key g = k"
      by (auto simp: in_getPermissions e(2))
    from m(1) obtain m0 where m0: "m0 \<in> set (pp_members d)"
      "m = (if mb_id m0 = i \<and> mb_org m0 = org then m0\<lparr>mb_role := role, mb_roleName := name\<rparr> else m0)"
      by (auto simp: e(1) in_set_upd)
    show ?thesis
    proof (cases "mb_id m0 = i \<and> mb_org m0 = org")
      case True
      then have "k \<in> set (rv_permissions target)" using m0 g by (auto simp: needRole_permissions [OF t(1)])
      then show ?thesis using assertNoEscalation_held [OF t(2) assms(2)] by blast
    next
      case False
      then show ?thesis using m m0 g by (auto simp: in_getPermissions)
    qed
  qed
qed (use assms in simp)

lemma saving_stays_within:
  assumes "set ks \<subseteq> set (getPermissions org actor d)" and "pp_members d' = pp_members d"
    and "pp_grants d' = put_grants role False ns (put_grants role True ks (pp_grants d))" and "k \<in> set (getPermissions org user d')"
  shows "k \<in> set (getPermissions org user d) \<union> set (getPermissions org actor d)"
proof -
  from assms(4) obtain m g where m: "m \<in> set (pp_members d)" "mb_org m = org" "mb_user m = user" "mb_status m = MActive"
    and g: "g \<in> set (put_grants role False ns (put_grants role True ks (pp_grants d)))" "gr_role g = mb_role m" "gr_granted g" "gr_key g = k"
    by (auto simp: in_getPermissions assms(2,3))
  from save_granted [OF g(3,1)] show ?thesis
  proof
    assume "g \<in> set (pp_grants d)"
    with m g have "k \<in> set (getPermissions org user d)" by (auto simp: in_getPermissions)
    then show ?thesis ..
  qed (use g(4) assms(1) in blast)
qed

text \<open>
  C10. Nobody who is not an Admin can hand out, or give themselves, access they do not hold: when they move a member to
  another role, make a role or save a role's permissions, every capability any user has afterwards is one that user
  already had or one its author has.
\<close>
theorem no_escalation:
  assumes "grants_access org actor d d'" and "\<not> isActiveAdminUser org (ac_user actor) d"
  shows "set (getPermissions org user d') \<subseteq> set (getPermissions org user d) \<union> set (getPermissions org (ac_user actor) d)"
proof
  fix k assume k: "k \<in> set (getPermissions org user d')"
  from assms(1) show "k \<in> set (getPermissions org user d) \<union> set (getPermissions org (ac_user actor) d)"
  proof cases
    case (by_moving i role r)
    then show ?thesis using assms(2) k by (rule moving_stays_within)
  next
    case (by_making inp r)
    from createRole_D [OF this] show ?thesis
    proof (elim disjE conjE exE)
      assume "assertNoEscalation org (ac_user actor) (nr_permissions inp) d = Inr ()" "pp_members d' = pp_members d"
      note held = assertNoEscalation_held [OF this(1) assms(2)]
      fix ks ns assume "pp_grants d' = put_grants (pp_next d) False ns (put_grants (pp_next d) True ks (pp_grants d))"
        "set ks = set (nr_permissions inp)"
      with held \<open>pp_members d' = pp_members d\<close> k show ?thesis by (intro saving_stays_within) auto
    qed (use k in \<open>auto simp: in_getPermissions\<close>)
  next
    case (by_saving role keys r)
    show ?thesis
    proof (cases r)
      case (Inr v)
      from by_saving [unfolded Inr] show ?thesis
      proof (rule setRolePermissions_D)
        fix audit assume "assertNoEscalation org (ac_user actor) keys d = Inr ()" "setRolePermissions_tx org role (dedupe keys) audit d = Inr d'"
        with assertNoEscalation_held [OF this(1) assms(2)] setRolePermissions_tx_frame(1,5) [OF this(2)] k
        show ?thesis by (intro saving_stays_within [of "dedupe keys"]) auto
      qed
    qed (use by_saving k in \<open>auto dest: refused_same\<close>)
  qed
qed

section \<open>What a save decides\<close>

lemma put_grant_iff:
  "g \<in> set (put_grant role b k rows) \<longleftrightarrow> gr_role g = role \<and> gr_key g = k \<and> gr_granted g = b
     \<or> g \<in> set rows \<and> \<not> (gr_role g = role \<and> gr_key g = k)"
proof -
  have new: "gr_role g = role \<and> gr_key g = k \<and> gr_granted g = b \<longleftrightarrow> g = \<lparr>gr_role = role, gr_key = k, gr_granted = b\<rparr>" by (cases g) auto
  have set: "x\<lparr>gr_granted := b\<rparr> = \<lparr>gr_role = gr_role x, gr_key = gr_key x, gr_granted = b\<rparr>" for x :: grant_row by (cases x) simp
  show ?thesis unfolding new put_grant_def in_set_upd by (auto simp: in_set_upd set)
qed

lemma put_grants_iff:
  "g \<in> set (put_grants role b ks rows) \<longleftrightarrow> gr_role g = role \<and> gr_key g \<in> set ks \<and> gr_granted g = b
     \<or> g \<in> set rows \<and> \<not> (gr_role g = role \<and> gr_key g \<in> set ks)"
  by (induction ks arbitrary: rows) (auto simp: put_grants_def put_grant_iff)

text \<open>Every key a role has a row for is one of the catalog's, as the foreign key demands.\<close>

definition grants_in_catalog :: "people \<Rightarrow> bool" where
  "grants_in_catalog d = (gr_key ` set (pp_grants d) \<subseteq> ca_key ` set (pp_catalog d))"

text \<open>
  After a role's permissions are saved the roles editor reads back exactly the keys sent, no key of the catalog is
  left undecided for that role, and no other role's grants have changed.
\<close>
theorem role_saved_as_decided:
  assumes "setRolePermissions org actor role keys d = (Inr v, d')" and "grants_in_catalog d"
  shows "set (rv_permissions v) = set keys \<and> rv_neverOffered v = []
     \<and> {g \<in> set (pp_grants d'). gr_role g \<noteq> role} = {g \<in> set (pp_grants d). gr_role g \<noteq> role}"
  using assms(1)
proof (rule setRolePermissions_D)
  fix audit assume tx: "setRolePermissions_tx org role (dedupe keys) audit d = Inr d'" and v: "needRole org role d' = Inr v"
  note F = setRolePermissions_tx_frame [OF tx]
  have grants: "g \<in> set (pp_grants d') \<longleftrightarrow> gr_role g = role \<and> gr_key g \<in> ca_key ` set (pp_catalog d) \<and> gr_granted g = (gr_key g \<in> set keys)
      \<or> g \<in> set (pp_grants d) \<and> gr_role g \<noteq> role" for g
    using F(5,6) assms(2) by (auto simp: put_grants_iff grants_in_catalog_def)
  have "set (rv_permissions v) = {gr_key g |g. g \<in> set (pp_grants d') \<and> gr_role g = role \<and> gr_granted g}"
    by (rule needRole_permissions [OF v])
  also have "\<dots> = set keys"
  proof (intro equalityI subsetI)
    fix k assume "k \<in> set keys"
    then have "\<lparr>gr_role = role, gr_key = k, gr_granted = True\<rparr> \<in> set (pp_grants d')" using F(6) by (auto simp: grants)
    then show "k \<in> {gr_key g |g. g \<in> set (pp_grants d') \<and> gr_role g = role \<and> gr_granted g}" by force
  qed (auto simp: grants)
  finally have "set (rv_permissions v) = set keys" .
  moreover have "rv_neverOffered v = []"
  proof -
    have "k \<in> gr_key ` set (decisionsByRole role d')" if "k \<in> set (catalogKeys d')" for k
    proof -
      have "k \<in> ca_key ` set (pp_catalog d)" using that F(4) by (auto simp: catalogKeys_def listPermissions_def)
      then have "\<lparr>gr_role = role, gr_key = k, gr_granted = (k \<in> set keys)\<rparr> \<in> set (pp_grants d')" by (auto simp: grants)
      then show ?thesis by (force simp: decisionsByRole_def)
    qed
    then show ?thesis using getRole_view [OF v]
      by (auto simp: toRoleView_def Let_def roleGrantStates_def filter_empty_conv)
  qed
  ultimately show ?thesis by (auto simp: grants)
qed

section \<open>Some role manages users\<close>

definition managed :: "ident \<Rightarrow> people \<Rightarrow> bool" where
  "managed org d = (\<exists>g\<in>set (pp_grants d). gr_key g = MANAGE_USERS \<and> gr_granted g \<and> (\<exists>r\<in>set (pp_roles d). ro_id r = gr_role g \<and> ro_org r = org))"

lemma managed_count: "managed org d \<longleftrightarrow> 0 < countRolesGranting org MANAGE_USERS d"
  by (auto simp: managed_def countRolesGranting_def card_gt_0_iff)

lemma managed_mono: "managed org d \<Longrightarrow> set (pp_grants d) \<subseteq> set (pp_grants d') \<Longrightarrow> set (pp_roles d) \<subseteq> set (pp_roles d') \<Longrightarrow> managed org d'"
  unfolding managed_def by blast

lemma managed_elsewhere:
  assumes "1 < countRolesGranting org MANAGE_USERS d"
  shows "\<exists>g\<in>set (pp_grants d). gr_role g \<noteq> role \<and> gr_key g = MANAGE_USERS \<and> gr_granted g
     \<and> (\<exists>r\<in>set (pp_roles d). ro_id r = gr_role g \<and> ro_org r = org)"
proof (rule ccontr)
  assume none: "\<not> ?thesis"
  let ?S = "set (map gr_role (filter (\<lambda>g. gr_key g = MANAGE_USERS \<and> gr_granted g \<and> (\<exists>r\<in>set (pp_roles d). ro_id r = gr_role g \<and> ro_org r = org)) (pp_grants d)))"
  have "?S \<subseteq> {role}" using none by auto
  then have "card ?S \<le> card {role}" by (intro card_mono) simp_all
  with assms show False by (simp add: countRolesGranting_def)
qed

lemma managedI: "g \<in> set (pp_grants d) \<Longrightarrow> gr_key g = MANAGE_USERS \<Longrightarrow> gr_granted g \<Longrightarrow>
    r \<in> set (pp_roles d) \<Longrightarrow> ro_id r = gr_role g \<Longrightarrow> ro_org r = org \<Longrightarrow> managed org d"
  by (auto simp: managed_def)

lemma managed_same: "managed org d \<Longrightarrow> pp_grants d' = pp_grants d \<Longrightarrow> pp_roles d' = pp_roles d \<Longrightarrow> managed org d'"
  by (simp add: managed_def)

lemma managed_saved:
  assumes "setRolePermissions org' actor role keys d = (Inr v, d')" and "managed org d" and "people_ok d"
  shows "managed org d'"
  using assms(1)
proof (rule setRolePermissions_D)
  fix audit assume guard: "assertUserManagementSurvives org' role keys d = Inr ()" and ex: "roleExists org' role d"
    and tx: "setRolePermissions_tx org' role (dedupe keys) audit d = Inr d'"
  note F = setRolePermissions_tx_frame [OF tx]
  have other: "managed org d'" if "g \<in> set (pp_grants d)" "gr_role g \<noteq> role" "gr_key g = MANAGE_USERS" "gr_granted g"
    "r \<in> set (pp_roles d)" "ro_id r = gr_role g" "ro_org r = org" for g r
    by (rule managedI [of g _ r]) (use that F(2,5) in \<open>simp_all add: put_grants_iff\<close>)
  from assms(2) obtain g r where g: "g \<in> set (pp_grants d)" "gr_key g = MANAGE_USERS" "gr_granted g"
    and r: "r \<in> set (pp_roles d)" "ro_id r = gr_role g" "ro_org r = org" by (auto simp: managed_def)
  show ?thesis
  proof (cases "gr_role g = role")
    case True
    from ex obtain r' where r': "r' \<in> set (pp_roles d)" "ro_id r' = role" "ro_org r' = org'" by (auto simp: roleExists_def)
    moreover have "inj_on ro_id (set (pp_roles d))" using assms(3) by (simp add: people_ok_def distinct_map)
    ultimately have "r' = r" using True r by (auto dest: inj_onD)
    then have org: "org' = org" using r r' by simp
    show ?thesis
    proof (cases "MANAGE_USERS \<in> set keys")
      case True
      then have "\<lparr>gr_role = role, gr_key = MANAGE_USERS, gr_granted = True\<rparr> \<in> set (pp_grants d')"
        using F(5) by (auto simp: put_grants_iff)
      then show ?thesis by (rule managedI [where r = r']) (use r' org F(2) in simp_all)
    next
      case False
      moreover have "role_grants org' role MANAGE_USERS d" unfolding role_grants_def using g r True org by blast
      ultimately have "1 < countRolesGranting org MANAGE_USERS d"
        using guard org by (auto simp: assertUserManagementSurvives_def split: if_splits)
      from managed_elsewhere [OF this, of role] obtain g r where "g \<in> set (pp_grants d)" "gr_role g \<noteq> role"
        "gr_key g = MANAGE_USERS" "gr_granted g" "r \<in> set (pp_roles d)" "ro_id r = gr_role g" "ro_org r = org" by blast
      then show ?thesis by (rule other)
    qed
  next
    case False
    then show ?thesis using g r by (intro other)
  qed
qed

lemma insertDefaultRoles_grants: "insertDefaultRoles org rs d = Inr (ids, d') \<Longrightarrow> set (pp_grants d) \<subseteq> set (pp_grants d')"
  by (induction org rs d arbitrary: ids d' rule: insertDefaultRoles.induct) (fastforce simp: Let_def bindE_Inr_iff split: if_splits)+

lemma managed_step:
  assumes "people_step d d'" and ok: "people_ok d" and m: "managed org d"
  shows "managed org d'"
  using assms(1)
proof cases
  case (founded inp now r)
  then have "set (pp_grants d) \<subseteq> set (pp_grants d')"
    by (auto simp: bootstrapWorkspace_def Let_def bindE_Inr_iff ensureCatalog_def dest!: insertDefaultRoles_grants split: if_splits option.splits) blast
  then show ?thesis using bootstrapWorkspace_rows [OF founded] by (intro managed_mono [OF m]) (auto simp: rows_added_def)
next
  case (invited sign url org' inp now r)
  then have "pp_grants d' = pp_grants d"
    by (auto simp: inviteMember_def createInvitedMember_def Let_def split: if_splits option.splits sum.splits)
  then show ?thesis using inviteMember_rows [OF invited ok] by (intro managed_mono [OF m]) (auto simp: rows_added_def)
next
  case (accepted claims hash now r)
  then have "pp_grants d' = pp_grants d \<and> pp_roles d' = pp_roles d" by (auto simp: acceptInvite_def activateInvite_def split: option.splits)
  then show ?thesis using m by (simp add: managed_def)
next
  case (moved org' i role actor r)
  then show ?thesis using m by (cases "d' = d") (auto elim!: changeMemberRole_D intro: managed_same)
next
  case (suspended org' i now r)
  then have "d' = d \<or> d' = setMemberStatus org' i MSuspended now d" by (cases r) (auto dest!: suspendMember_D intro: refused_same)
  then show ?thesis by (auto intro: managed_same [OF m] simp: setMemberStatus_members)
next
  case (reactivated org' i now r)
  then have "d' = d \<or> d' = setMemberStatus org' i MActive now d" by (cases r) (auto dest!: reactivateMember_D intro: refused_same)
  then show ?thesis by (auto intro: managed_same [OF m] simp: setMemberStatus_members)
next
  case (removed org' i now r)
  then have "d' = d \<or> d' = removeMember_tx org' i now d" by (cases r) (auto dest!: removeMember_D intro: refused_same)
  then show ?thesis by (auto intro: managed_same [OF m] simp: removeMember_members)
next
  case (role_made org' actor inp r)
  from m obtain g r where g: "g \<in> set (pp_grants d)" "gr_key g = MANAGE_USERS" "gr_granted g"
    and r: "r \<in> set (pp_roles d)" "ro_id r = gr_role g" "ro_org r = org" by (auto simp: managed_def)
  then have "gr_role g \<noteq> pp_next d" using ok by (auto simp: people_ok_def)
  then have "g \<in> set (pp_grants d') \<and> r \<in> set (pp_roles d')"
    using createRole_D [OF role_made] g(1) r(1) by (auto simp: put_grants_iff)
  then show ?thesis using g(2,3) r(2,3) by (blast intro: managedI)
next
  case (role_saved org' actor role keys r)
  show ?thesis
  proof (cases r)
    case (Inr v)
    from managed_saved [OF role_saved [unfolded Inr] m ok] show ?thesis .
  qed (use role_saved m in \<open>auto dest: refused_same\<close>)
qed

text \<open>
  However members and roles are edited, some role of the workspace always manages users and roles: the capability
  that every other one can be restored with is never taken off the last role that has it.
\<close>
theorem user_management_survives:
  assumes "people_step\<^sup>*\<^sup>* d0 d" and "people_ok d0" and "0 < countRolesGranting org MANAGE_USERS d0"
  shows "0 < countRolesGranting org MANAGE_USERS d"
proof -
  from assms(1) have "people_ok d \<and> managed org d"
    by (induction rule: rtranclp_induct) (use assms(2,3) in \<open>auto simp: managed_count [symmetric] intro: people_ok_step managed_step\<close>)
  then show ?thesis by (simp add: managed_count)
qed

section \<open>Suspension\<close>

lemma filter_key: "distinct (map k xs) \<Longrightarrow> x \<in> set xs \<Longrightarrow> filter (\<lambda>y. k y = k x) xs = [x]"
  by (induction xs) (auto simp: filter_empty_conv image_iff)

text \<open>A user has one membership in a workspace, so their capabilities are those of its role while it is active.\<close>

lemma getPermissions_member:
  assumes "people_ok d" and "m \<in> set (pp_members d)" and "mb_org m = org" and "mb_user m = user"
  shows "getPermissions org user d = (if mb_status m = MActive then map gr_key (filter (\<lambda>g. gr_role g = mb_role m \<and> gr_granted g) (pp_grants d)) else [])"
proof -
  have "filter (\<lambda>x. (mb_org x, mb_user x) = (mb_org m, mb_user m)) (pp_members d) = [m]"
    using assms(1,2) by (intro filter_key) (auto simp: people_ok_def)
  then have "filter (\<lambda>x. mb_org x = org \<and> mb_user x = user) (pp_members d) = [m]" using assms(3,4) by simp
  moreover have "filter (\<lambda>m. mb_org m = org \<and> mb_user m = user \<and> mb_status m = MActive) (pp_members d)
      = filter (\<lambda>m. mb_status m = MActive) (filter (\<lambda>x. mb_org x = org \<and> mb_user x = user) (pp_members d))"
    by (simp add: conj_ac)
  ultimately show ?thesis by (simp add: getPermissions_def)
qed

lemma setMemberStatus_member:
  assumes "people_ok d" and "m \<in> set (pp_members d)" and "mb_id m = i" and "mb_org m = org"
  shows "m\<lparr>mb_status := s\<rparr> \<in> set (pp_members (setMemberStatus org i s now d))" "people_ok (setMemberStatus org i s now d)"
proof -
  show "m\<lparr>mb_status := s\<rparr> \<in> set (pp_members (setMemberStatus org i s now d))"
    using assms(2,3,4) by (force simp: setMemberStatus_members in_set_upd)
  have "member_edit d (setMemberStatus org i s now d)"
    by (intro member_editI [OF setMemberStatus_members(1-3)] edits_memberI) simp_all
  with assms(1) show "people_ok (setMemberStatus org i s now d)" by (rule people_ok_member_edit)
qed

lemma suspension_revokes:
  assumes "people_ok d" and "m \<in> set (pp_members d)" and "mb_id m = i" and "mb_org m = org"
  shows "\<forall>x\<in>set (pp_sessions (setMemberStatus org i MSuspended now d)). se_user x = mb_user m \<longrightarrow> se_revokedAt x \<noteq> None"
proof -
  have "find (\<lambda>m. mb_id m = i \<and> mb_org m = org) (pp_members d) = Some m"
    by (rule find_uniq [of mb_id]) (use assms in \<open>auto simp: people_ok_def\<close>)
  then show ?thesis by (auto simp: setMemberStatus_def Let_def revokeSessions_def in_set_upd)
qed


end
