(* ===== verification/AccessWitnesses.thy ===== *)
theory AccessWitnesses
  imports AccessProps
begin

text \<open>
  A workspace with two Admins, a role that manages users and little else, a viewer and an invitation still open: the
  calls whose results the properties of theory AccessProps describe, evaluated on it, and the calls the guards miss.
\<close>

section \<open>The workspace\<close>

definition crew_user :: "ident \<Rightarrow> string \<Rightarrow> member_status \<Rightarrow> user_row" where
  "crew_user i name s = \<lparr>us_id = i, us_org = 1, us_name = name, us_email = name @ ''@x.co'', us_persona = PAdmin,
     us_status = s, us_password = None, us_twoFactor = False, us_lastActiveAt = None, us_createdAt = 0, us_deletedAt = None\<rparr>"

definition crew_member :: "ident \<Rightarrow> ident \<Rightarrow> ident \<Rightarrow> string \<Rightarrow> member_status \<Rightarrow> membership_row" where
  "crew_member i user role name s = \<lparr>mb_id = i, mb_org = 1, mb_user = user, mb_role = role, mb_roleName = name,
     mb_status = s, mb_invitedAt = None, mb_joinedAt = None, mb_deletedAt = None\<rparr>"

definition crew_grant :: "ident \<Rightarrow> permission \<Rightarrow> grant_row" where
  "crew_grant r k = \<lparr>gr_role = r, gr_key = k, gr_granted = True\<rparr>"

definition crew :: people where
  "crew = \<lparr>pp_next = 40, pp_orgs = [\<lparr>og_id = 1, og_name = ''Org'', og_slug = ''org'', og_deletedAt = None\<rparr>],
     pp_users = [crew_user 2 ''ann'' MActive, crew_user 3 ''bo'' MActive, crew_user 4 ''cy'' MActive,
       crew_user 5 ''di'' MActive, crew_user 6 ''ed'' MInvited],
     pp_roles = [\<lparr>ro_id = 10, ro_org = 1, ro_name = ''Admin'', ro_description = [], ro_isSystem = True\<rparr>,
       \<lparr>ro_id = 11, ro_org = 1, ro_name = ''People'', ro_description = [], ro_isSystem = False\<rparr>,
       \<lparr>ro_id = 12, ro_org = 1, ro_name = ''Viewer'', ro_description = [], ro_isSystem = False\<rparr>],
     pp_catalog = PERMISSION_CATALOG,
     pp_grants = [crew_grant 10 setUsers, crew_grant 10 finRefund, crew_grant 10 regView,
       crew_grant 11 setUsers, crew_grant 11 regView, crew_grant 12 regView],
     pp_members = [crew_member 21 2 10 ''Admin'' MActive, crew_member 22 3 10 ''Admin'' MActive,
       crew_member 23 4 11 ''People'' MActive, crew_member 24 5 12 ''Viewer'' MActive, crew_member 25 6 10 ''Admin'' MInvited],
     pp_sessions = [\<lparr>se_id = 31, se_org = 1, se_user = 5, se_device = ''d'', se_ip = None, se_createdAt = 0, se_expiresAt = 99, se_revokedAt = None\<rparr>],
     pp_audits = [], pp_outbox = [], pp_social = [], pp_twofa = [], pp_codes = [], pp_authAudits = [], pp_events = []\<rparr>"

definition cy :: actor where "cy = \<lparr>ac_user = 4, ac_ip = None\<rparr>"
definition ann :: actor where "ann = \<lparr>ac_user = 2, ac_ip = None\<rparr>"

definition open_invite :: invite_member where
  "open_invite = \<lparr>im_name = ''Flo'', im_email = ''flo@x.co'', im_role = 10\<rparr>"

definition no_sign :: "ident \<Rightarrow> ident \<Rightarrow> ident \<Rightarrow> string" where "no_sign u o' m = ''t''"

lemma crew_ok: "people_ok crew" by code_simp

lemma crew_catalog: "grants_in_catalog crew" by code_simp

lemma crew_admins: "countActiveAdmins 1 crew = 2" by code_simp

section \<open>Witnesses\<close>

definition one_removed :: people where "one_removed = snd (removeMember 1 21 7 crew)"

lemma one_removed_step: "people_step crew one_removed"
  unfolding one_removed_def by (rule people_step.removed [where r = "fst (removeMember 1 21 7 crew)"]) simp

lemma last_one_stays: "fst (removeMember 1 22 8 one_removed) = Inl LAST_ADMIN" by code_simp

theorem workspace_keeps_an_admin_witness:
  "people_step\<^sup>*\<^sup>* crew (snd (removeMember 1 22 8 one_removed)) \<and> 0 < countActiveAdmins 1 (snd (removeMember 1 22 8 one_removed))"
proof -
  have "people_step one_removed (snd (removeMember 1 22 8 one_removed))"
    by (rule people_step.removed [where r = "fst (removeMember 1 22 8 one_removed)"]) simp
  then have steps: "people_step\<^sup>*\<^sup>* crew (snd (removeMember 1 22 8 one_removed))" using one_removed_step by simp
  moreover have "0 < countActiveAdmins 1 crew" unfolding crew_admins by simp
  from workspace_keeps_an_admin [OF steps crew_ok this] have "0 < countActiveAdmins 1 (snd (removeMember 1 22 8 one_removed))" .
  ultimately show ?thesis by blast
qed

lemma cy_is_no_admin: "\<not> isActiveAdminUser 1 (ac_user cy) crew" by code_simp

definition viewer_kept :: people where "viewer_kept = snd (setRolePermissions 1 cy 12 [regView, setUsers] crew)"

lemma viewer_keeps: "set (getPermissions 1 5 viewer_kept) = {regView, setUsers}" by code_simp

theorem no_escalation_witness:
  "set (getPermissions 1 5 viewer_kept) \<subseteq> set (getPermissions 1 5 crew) \<union> set (getPermissions 1 (ac_user cy) crew)"
proof -
  have "setRolePermissions 1 cy 12 [regView, setUsers] crew = (fst (setRolePermissions 1 cy 12 [regView, setUsers] crew), viewer_kept)"
    by (simp add: viewer_kept_def)
  from grants_access.by_saving [OF this] cy_is_no_admin show ?thesis by (rule no_escalation)
qed

lemma cy_cannot_grant: "isl (fst (setRolePermissions 1 cy 12 [finRefund] crew)) \<and> isl (fst (changeMemberRole 1 24 10 cy crew))"
  by code_simp

definition viewer_saved :: role_view where "viewer_saved = projr (fst (setRolePermissions 1 cy 12 [regView, setUsers] crew))"

lemma viewer_call: "setRolePermissions 1 cy 12 [regView, setUsers] crew = (Inr viewer_saved, viewer_kept)"
proof -
  have "\<not> isl (fst (setRolePermissions 1 cy 12 [regView, setUsers] crew))" by code_simp
  then show ?thesis by (simp add: viewer_saved_def viewer_kept_def prod_eq_iff)
qed

theorem role_saved_as_decided_witness:
  "set (rv_permissions viewer_saved) = set [regView, setUsers] \<and> rv_neverOffered viewer_saved = []
   \<and> {g \<in> set (pp_grants viewer_kept). gr_role g \<noteq> 12} = {g \<in> set (pp_grants crew). gr_role g \<noteq> 12}"
  by (rule role_saved_as_decided [OF viewer_call crew_catalog])

definition admin_narrowed :: people where "admin_narrowed = snd (setRolePermissions 1 ann 10 [regView] crew)"

lemma admin_narrowed_step: "people_step crew admin_narrowed"
  unfolding admin_narrowed_def by (rule people_step.role_saved [where r = "fst (setRolePermissions 1 ann 10 [regView] crew)"]) simp

theorem user_management_survives_witness:
  "people_step\<^sup>*\<^sup>* crew admin_narrowed \<and> 0 < countRolesGranting 1 MANAGE_USERS admin_narrowed"
proof -
  have "0 < countRolesGranting 1 MANAGE_USERS crew" by code_simp
  from user_management_survives [OF r_into_rtranclp [of people_step, OF admin_narrowed_step] crew_ok this] admin_narrowed_step
  show ?thesis by blast
qed

definition paused :: people where "paused = snd (suspendMember 1 24 9 crew)"
definition resumed :: people where "resumed = snd (reactivateMember 1 24 11 paused)"
definition di :: member_view where "di = projr (getMember 1 24 crew)"

lemma pausing: "suspendMember 1 24 9 crew = (Inr (projr (fst (suspendMember 1 24 9 crew))), paused)"
proof -
  have "\<not> isl (fst (suspendMember 1 24 9 crew))" by code_simp
  then show ?thesis by (simp add: paused_def prod_eq_iff)
qed

lemma resuming: "reactivateMember 1 24 11 paused = (Inr (projr (fst (reactivateMember 1 24 11 paused))), resumed)"
proof -
  have "\<not> isl (fst (reactivateMember 1 24 11 paused))" by code_simp
  then show ?thesis by (simp add: resumed_def prod_eq_iff)
qed

lemma di_found: "getMember 1 24 crew = Inr di" "mv_status di = MActive" "mv_user di = 5" "getPermissions 1 5 crew = [regView]"
  by code_simp+


section \<open>What the guards miss\<close>

text \<open>
  An invitation is not checked against what its author holds: the invited person becomes an Admin by accepting, with
  capabilities a member who may only manage users was never given.
\<close>

definition flo_invited :: people where "flo_invited = snd (inviteMember no_sign [] 1 open_invite 5 crew)"
definition flo_joined :: people where "flo_joined = snd (acceptInvite (Some 41) ''h'' 6 flo_invited)"

lemma invitation_escalates:
  "(getPermissions 1 40 flo_joined, isActiveAdminUser 1 40 flo_joined, finRefund \<in> set (getPermissions 1 (ac_user cy) crew))
   = ([setUsers, finRefund, regView], True, False)"
  by code_simp

text \<open>The guard reads before the transaction that removes: two removals that both read first leave no Admin.\<close>

lemma removals_race:
  "(assertNotLastAdmin 1 21 crew, assertNotLastAdmin 1 22 crew, countActiveAdmins 1 (removeMember_tx 1 22 8 (removeMember_tx 1 21 7 crew)))
   = (Inr (), Inr (), 0)"
  by code_simp

text \<open>Reactivating somebody whose invitation is still open makes them active without a password; their link is dead.\<close>

definition ed_active :: people where "ed_active = snd (reactivateMember 1 25 9 crew)"

lemma invited_reactivated:
  "(isActiveAdmin 1 25 ed_active, map us_password (filter (\<lambda>u. us_id u = 6) (pp_users ed_active)), findInvitedMembership 25 ed_active)
   = (True, [None], None)"
  by code_simp

text \<open>What survives is a role that manages users, not a member who has it.\<close>

definition nobody_left :: people where "nobody_left = snd (removeMember 1 23 9 admin_narrowed)"

lemma managing_role_unheld:
  "(countRolesGranting 1 MANAGE_USERS nobody_left, map (\<lambda>u. setUsers \<in> set (getPermissions 1 (us_id u) nobody_left)) (pp_users nobody_left))
   = (1, [False, False, False, False, False])"
  by code_simp

text \<open>A workspace starts with an active Admin, its three roles and every capability of the catalog.\<close>

definition blank :: people where
  "blank = \<lparr>pp_next = 1, pp_orgs = [], pp_users = [], pp_roles = [], pp_catalog = [], pp_grants = [], pp_members = [],
     pp_sessions = [], pp_audits = [], pp_outbox = [], pp_social = [], pp_twofa = [], pp_codes = [], pp_authAudits = [], pp_events = []\<rparr>"

definition new_space :: bootstrap where
  "new_space = \<lparr>bo_organizationName = ''Org'', bo_slug = ''org'', bo_name = ''Ann'', bo_email = ''a@x.co'', bo_passwordHash = None\<rparr>"

lemma bootstrapped:
  "(case bootstrapWorkspace new_space 3 blank of Inl _ \<Rightarrow> None | Inr ((org, owner, slug), d) \<Rightarrow>
      Some (countActiveAdmins org d, length (getPermissions org owner d), map rv_name (listRoles org None d))) =
   Some (1, 15, [''Admin'', ''Organizer'', ''Staff''])"
  by code_simp

end
