(* ===== verification/Identity.thy ===== *)
theory Identity
  imports AccessService SlugSearch
begin

text \<open>
  The data access of the identity modules: \<^verbatim>\<open>users/users.repository.ts\<close>, \<^verbatim>\<open>auth/auth.repository.ts\<close>,
  \<^verbatim>\<open>auth-sessions/\<close>, \<^verbatim>\<open>auth-signup/\<close>, \<^verbatim>\<open>auth-password/\<close>, \<^verbatim>\<open>auth-two-factor/\<close>, \<^verbatim>\<open>auth-social/\<close> and
  \<^verbatim>\<open>account-deletion/\<close>, over the tables of theory Access. Where a read takes one row of an unordered result, the model
  takes the first of the table.
\<close>

section \<open>Accounts\<close>

text \<open>\<open>users\<close> joined with their organization, and the first row of a result.\<close>

type_synonym login_user = "user_row \<times> org_row"

definition accounts :: "(user_row \<Rightarrow> org_row \<Rightarrow> bool) \<Rightarrow> people \<Rightarrow> login_user list" where
  "accounts p d = concat (map (\<lambda>u. map (Pair u) (filter (\<lambda>g. og_id g = us_org u \<and> p u g) (pp_orgs d))) (pp_users d))"

fun first_row :: "'r list \<Rightarrow> 'r option" where
  "first_row [] = None"
| "first_row (x # xs) = Some x"

definition findLoginUser :: "string \<Rightarrow> string \<Rightarrow> persona \<Rightarrow> people \<Rightarrow> login_user option" where
  "findLoginUser slug email persona d = first_row (accounts (\<lambda>u g. og_slug g = slug \<and> same_email (us_email u) email
     \<and> us_persona u = persona \<and> us_deletedAt u = None) d)"

definition findLoginCandidates :: "string \<Rightarrow> persona \<Rightarrow> nat \<Rightarrow> people \<Rightarrow> login_user list" where
  "findLoginCandidates email persona limit d = take limit (accounts (\<lambda>u g. same_email (us_email u) email
     \<and> us_persona u = persona \<and> us_deletedAt u = None \<and> og_deletedAt g = None) d)"

definition findProfile :: "ident \<Rightarrow> people \<Rightarrow> login_user option" where
  "findProfile user d = first_row (accounts (\<lambda>u g. us_id u = user \<and> us_deletedAt u = None) d)"

definition update_user :: "(user_row \<Rightarrow> bool) \<Rightarrow> (user_row \<Rightarrow> user_row) \<Rightarrow> people \<Rightarrow> people" where
  "update_user p f d = d\<lparr>pp_users := upd p f (pp_users d)\<rparr>"

definition touchLastActive :: "ident \<Rightarrow> instant \<Rightarrow> people \<Rightarrow> people" where
  "touchLastActive user now d = update_user (\<lambda>u. us_id u = user) (\<lambda>u. u\<lparr>us_lastActiveAt := Some now\<rparr>) d"

definition enqueue_identity :: "identity_event \<Rightarrow> people \<Rightarrow> people" where
  "enqueue_identity e d = d\<lparr>pp_events := pp_events d @ [e]\<rparr>"

section \<open>Sessions\<close>

definition live_session :: "instant \<Rightarrow> session_row \<Rightarrow> bool" where
  "live_session now s = (se_revokedAt s = None \<and> now < se_expiresAt s)"

definition findValidSession :: "ident \<Rightarrow> instant \<Rightarrow> people \<Rightarrow> (ident \<times> ident) option" where
  "findValidSession sid now d =
     map_option (\<lambda>s. (se_user s, se_org s)) (first_row (filter (\<lambda>s. se_id s = sid \<and> live_session now s) (pp_sessions d)))"

definition isSessionLive :: "ident \<Rightarrow> ident \<Rightarrow> instant \<Rightarrow> people \<Rightarrow> bool" where
  "isSessionLive org sid now d = (\<exists>s\<in>set (pp_sessions d). se_id s = sid \<and> se_org s = org \<and> live_session now s)"

record create_session =
  cs_org :: ident
  cs_user :: ident
  cs_device :: string
  cs_ip :: "string option"
  cs_expiresAt :: instant

definition createSession :: "create_session \<Rightarrow> instant \<Rightarrow> people \<Rightarrow> ident \<times> people" where
  "createSession inp now d =
     (pp_next d, d\<lparr>pp_sessions := pp_sessions d @ [\<lparr>se_id = pp_next d, se_org = cs_org inp, se_user = cs_user inp,
        se_device = cs_device inp, se_ip = cs_ip inp, se_createdAt = now, se_expiresAt = cs_expiresAt inp, se_revokedAt = None\<rparr>],
        pp_next := pp_next d + 1\<rparr>)"

text \<open>Every revocation is this statement under a condition of its own; it answers how many rows it changed.\<close>

definition revoke_where :: "(session_row \<Rightarrow> bool) \<Rightarrow> instant \<Rightarrow> people \<Rightarrow> nat \<times> people" where
  "revoke_where p now d =
     (let hit = (\<lambda>s. p s \<and> se_revokedAt s = None) in
      (length (filter hit (pp_sessions d)),
       d\<lparr>pp_sessions := upd hit (\<lambda>s. s\<lparr>se_revokedAt := Some now\<rparr>) (pp_sessions d)\<rparr>))"

definition revokeSession :: "ident \<Rightarrow> instant \<Rightarrow> people \<Rightarrow> people" where
  "revokeSession sid now d = snd (revoke_where (\<lambda>s. se_id s = sid) now d)"

definition listLive :: "ident \<Rightarrow> ident \<Rightarrow> instant \<Rightarrow> people \<Rightarrow> session_row list" where
  "listLive org user now d = sort_key (\<lambda>s. - se_createdAt s)
     (filter (\<lambda>s. se_org s = org \<and> se_user s = user \<and> live_session now s) (pp_sessions d))"

definition revokeOwn :: "ident \<Rightarrow> ident \<Rightarrow> ident \<Rightarrow> instant \<Rightarrow> people \<Rightarrow> bool \<times> people" where
  "revokeOwn org user sid now d =
     (case revoke_where (\<lambda>s. se_id s = sid \<and> se_org s = org \<and> se_user s = user) now d of (n, d) \<Rightarrow> (0 < n, d))"

definition revokeOthers_tx :: "ident \<Rightarrow> ident \<Rightarrow> ident \<Rightarrow> instant \<Rightarrow> people \<Rightarrow> nat \<times> people" where
  "revokeOthers_tx org user keep now d = revoke_where (\<lambda>s. se_org s = org \<and> se_user s = user \<and> se_id s \<noteq> keep) now d"

definition recordAudit :: "auth_audit_row \<Rightarrow> people \<Rightarrow> people" where
  "recordAudit a d = d\<lparr>pp_authAudits := pp_authAudits d @ [a]\<rparr>"

section \<open>Sign-up\<close>

definition PLATFORM_ORG_SLUG :: string where "PLATFORM_ORG_SLUG = ''eventa''"

record pending_verification =
  pv_org :: ident
  pv_user :: ident
  pv_name :: string
  pv_email :: string

definition pendingVerification :: "string \<Rightarrow> persona \<Rightarrow> people \<Rightarrow> pending_verification option" where
  "pendingVerification email persona d =
     map_option (\<lambda>u. \<lparr>pv_org = us_org u, pv_user = us_id u, pv_name = us_name u, pv_email = us_email u\<rparr>)
       (find (\<lambda>u. same_email (us_email u) email \<and> us_persona u = persona \<and> us_status u = MUnconfirmed \<and> us_deletedAt u = None)
          (pp_users d))"

definition nameTaken :: "string \<Rightarrow> ident option \<Rightarrow> people \<Rightarrow> bool" where
  "nameTaken name except d = (\<exists>g\<in>set (pp_orgs d). org_name_key (og_name g) = org_name_key name \<and> og_deletedAt g = None
     \<and> (case except of None \<Rightarrow> True | Some i \<Rightarrow> og_id g \<noteq> i))"

definition organizerEmailExists :: "string \<Rightarrow> people \<Rightarrow> bool" where
  "organizerEmailExists email d =
     (\<exists>u\<in>set (pp_users d). same_email (us_email u) email \<and> us_persona u = PAdmin \<and> us_deletedAt u = None)"

definition attendeeEmailExists :: "string \<Rightarrow> people \<Rightarrow> bool" where
  "attendeeEmailExists email d =
     (\<exists>u\<in>set (pp_users d). same_email (us_email u) email \<and> us_persona u = PAttendee \<and> us_deletedAt u = None)"

record platform_attendee =
  pt_user :: ident
  pt_confirmed :: bool

definition findPlatformAttendee :: "string \<Rightarrow> people \<Rightarrow> platform_attendee option" where
  "findPlatformAttendee email d =
     map_option (\<lambda>(u, g). \<lparr>pt_user = us_id u, pt_confirmed = (us_status u \<noteq> MUnconfirmed)\<rparr>)
       (first_row (accounts (\<lambda>u g. same_email (us_email u) email \<and> us_persona u = PAttendee \<and> us_deletedAt u = None
          \<and> og_slug g = PLATFORM_ORG_SLUG) d))"

definition findPlatformOrganizationId :: "people \<Rightarrow> ident option" where
  "findPlatformOrganizationId d = map_option og_id (find (\<lambda>g. og_slug g = PLATFORM_ORG_SLUG \<and> og_deletedAt g = None) (pp_orgs d))"

record supersede_input =
  su_user :: ident
  su_name :: string
  su_passwordHash :: string

definition supersedeUnconfirmedAttendee :: "supersede_input \<Rightarrow> instant \<Rightarrow> people \<Rightarrow> bool \<times> people" where
  "supersedeUnconfirmedAttendee inp now d =
     (case findPlatformOrganizationId d of
        None \<Rightarrow> (False, d)
      | Some org \<Rightarrow>
          let hit = (\<lambda>u. us_id u = su_user inp \<and> us_org u = org \<and> us_persona u = PAttendee \<and> us_status u = MUnconfirmed
                      \<and> us_deletedAt u = None)
          in if \<not> (\<exists>u\<in>set (pp_users d). hit u) then (False, d)
             else (True, snd (revoke_where (\<lambda>s. se_user s = su_user inp \<and> se_org s = org) now
                     (update_user hit (\<lambda>u. u\<lparr>us_name := su_name inp, us_password := Some (su_passwordHash inp),
                        us_status := MActive\<rparr>) d))))"

record attendee_input =
  ai_name :: string
  ai_email :: string
  ai_passwordHash :: string
  ai_confirmed :: bool

definition insert_user :: "user_row \<Rightarrow> people \<Rightarrow> error + people" where
  "insert_user u d =
     (if users_unique (pp_users d @ [u]) then Inr (d\<lparr>pp_users := pp_users d @ [u], pp_next := pp_next d + 1\<rparr>)
      else Inl (DbViolation uq_users_org_email_persona))"

definition createAttendeeAccount :: "attendee_input \<Rightarrow> instant \<Rightarrow> people \<Rightarrow> error + ((ident \<times> ident) option \<times> people)" where
  "createAttendeeAccount inp now d =
     (case findPlatformOrganizationId d of
        None \<Rightarrow> Inr (None, d)
      | Some org \<Rightarrow>
          bindE (insert_user \<lparr>us_id = pp_next d, us_org = org, us_name = ai_name inp, us_email = ai_email inp, us_persona = PAttendee,
             us_status = (if ai_confirmed inp then MActive else MUnconfirmed), us_password = Some (ai_passwordHash inp),
             us_twoFactor = False, us_lastActiveAt = None, us_createdAt = now, us_deletedAt = None\<rparr> d)
           (\<lambda>d'. Inr (Some (org, pp_next d), d')))"

definition uniqueSlug_org :: "string \<Rightarrow> people \<Rightarrow> string option" where
  "uniqueSlug_org base d = unique_slug (filter (\<lambda>s. like s (base @ ''%'')) (map og_slug (pp_orgs d))) base"

definition activateEmail :: "ident \<Rightarrow> ident \<Rightarrow> people \<Rightarrow> (string \<times> persona) option \<times> people" where
  "activateEmail user org d =
     (case find (\<lambda>u. us_id u = user \<and> us_org u = org \<and> us_deletedAt u = None) (pp_users d) of
        None \<Rightarrow> (None, d)
      | Some u \<Rightarrow>
          let d = (if us_status u = MUnconfirmed then update_user (\<lambda>u. us_id u = user) (\<lambda>u. u\<lparr>us_status := MActive\<rparr>) d else d)
          in (map_option (\<lambda>g. (og_slug g, us_persona u)) (find (\<lambda>g. og_id g = org) (pp_orgs d)), d))"

section \<open>Passwords\<close>

record reset_account =
  ra_id :: ident
  ra_org :: ident
  ra_workspaceName :: string
  ra_name :: string
  ra_status :: member_status
  ra_passwordHash :: "string option"
  ra_providers :: "provider list"

definition linkedProviders :: "ident \<Rightarrow> people \<Rightarrow> provider list" where
  "linkedProviders user d = map so_provider (filter (\<lambda>l. so_user l = user) (pp_social d))"

definition findResetAccounts :: "string \<Rightarrow> persona \<Rightarrow> nat \<Rightarrow> people \<Rightarrow> reset_account list" where
  "findResetAccounts email persona limit d =
     map (\<lambda>(u, g). \<lparr>ra_id = us_id u, ra_org = us_org u, ra_workspaceName = og_name g, ra_name = us_name u, ra_status = us_status u,
            ra_passwordHash = us_password u, ra_providers = linkedProviders (us_id u) d\<rparr>)
       (take limit (sort_key (\<lambda>(u, g). us_createdAt u) (sort_key (\<lambda>(u, g). us_id u)
          (accounts (\<lambda>u g. same_email (us_email u) email \<and> us_persona u = persona \<and> us_deletedAt u = None \<and> og_deletedAt g = None) d))))"

record reset_link_account =
  rl_id :: ident
  rl_org :: ident
  rl_persona :: persona
  rl_workspaceName :: string
  rl_passwordHash :: "string option"

definition findResetLinkAccount :: "ident \<Rightarrow> ident \<Rightarrow> people \<Rightarrow> reset_link_account option" where
  "findResetLinkAccount org user d =
     map_option (\<lambda>(u, g). \<lparr>rl_id = us_id u, rl_org = us_org u, rl_persona = us_persona u, rl_workspaceName = og_name g,
                   rl_passwordHash = us_password u\<rparr>)
       (first_row (accounts (\<lambda>u g. us_id u = user \<and> us_org u = org \<and> us_deletedAt u = None) d))"

text \<open>The signed-in account, as a password change and the other own-account flows read it.\<close>

definition findChangeAccount :: "ident \<Rightarrow> ident \<Rightarrow> people \<Rightarrow> user_row option" where
  "findChangeAccount org user d = find (\<lambda>u. us_id u = user \<and> us_org u = org \<and> us_deletedAt u = None) (pp_users d)"

definition setPassword ::
  "ident \<Rightarrow> ident \<Rightarrow> string \<Rightarrow> ident option \<Rightarrow> (nat \<Rightarrow> identity_event) option \<Rightarrow> instant \<Rightarrow> people \<Rightarrow> people" where
  "setPassword org user passwordHash keep notice now d =
     (let d = update_user (\<lambda>u. us_id u = user \<and> us_org u = org) (\<lambda>u. u\<lparr>us_password := Some passwordHash\<rparr>) d in
      case revoke_where (\<lambda>s. se_user s = user \<and> se_org s = org \<and> now < se_expiresAt s
             \<and> (case keep of None \<Rightarrow> True | Some k \<Rightarrow> se_id s \<noteq> k)) now d of
        (n, d) \<Rightarrow> (case notice of None \<Rightarrow> d | Some f \<Rightarrow> enqueue_identity (f n) d))"

section \<open>Two-factor enrolment\<close>

definition find_twofa :: "ident \<Rightarrow> people \<Rightarrow> twofa_row option" where
  "find_twofa user d = find (\<lambda>t. tf_user t = user) (pp_twofa d)"

definition upsertPending :: "ident \<Rightarrow> ident \<Rightarrow> string \<Rightarrow> string \<Rightarrow> people \<Rightarrow> people" where
  "upsertPending org user secretEncrypted uri d =
     (if \<exists>t\<in>set (pp_twofa d). tf_user t = user
      then d\<lparr>pp_twofa := upd (\<lambda>t. tf_user t = user) (\<lambda>t. t\<lparr>tf_secret := secretEncrypted, tf_uri := uri, tf_confirmedAt := None\<rparr>) (pp_twofa d)\<rparr>
      else d\<lparr>pp_twofa := pp_twofa d @ [\<lparr>tf_id = pp_next d, tf_org = org, tf_user = user, tf_secret = secretEncrypted, tf_uri = uri,
              tf_confirmedAt = None\<rparr>], pp_next := pp_next d + 1\<rparr>)"

text \<open>All of an enrolment's codes go, and these take their place.\<close>

definition replaceRecoveryCodes :: "ident \<Rightarrow> string list \<Rightarrow> people \<Rightarrow> error + people" where
  "replaceRecoveryCodes tf hashes d =
     (if distinct hashes
      then Inr (d\<lparr>pp_codes := filter (\<lambda>c. rc_twoFactor c \<noteq> tf) (pp_codes d)
                  @ map (\<lambda>(i, h). \<lparr>rc_id = pp_next d + i, rc_twoFactor = tf, rc_hash = h, rc_usedAt = None\<rparr>)
                      (zip [0..<length hashes] hashes),
               pp_next := pp_next d + length hashes\<rparr>)
      else Inl (DbViolation uq_recovery_codes))"

definition confirm_twofa :: "ident \<Rightarrow> ident \<Rightarrow> string list \<Rightarrow> instant \<Rightarrow> people \<Rightarrow> error + people" where
  "confirm_twofa user tf hashes now d =
     (let d = d\<lparr>pp_twofa := upd (\<lambda>t. tf_id t = tf) (\<lambda>t. t\<lparr>tf_confirmedAt := Some now\<rparr>) (pp_twofa d)\<rparr>;
          d = update_user (\<lambda>u. us_id u = user) (\<lambda>u. u\<lparr>us_twoFactor := True\<rparr>) d
      in replaceRecoveryCodes tf hashes d)"

definition disable_twofa :: "ident \<Rightarrow> ident \<Rightarrow> people \<Rightarrow> people" where
  "disable_twofa user tf d =
     update_user (\<lambda>u. us_id u = user) (\<lambda>u. u\<lparr>us_twoFactor := False\<rparr>)
       (d\<lparr>pp_codes := filter (\<lambda>c. rc_twoFactor c \<noteq> tf) (pp_codes d), pp_twofa := filter (\<lambda>t. tf_id t \<noteq> tf) (pp_twofa d)\<rparr>)"

definition consumeRecoveryCode :: "ident \<Rightarrow> string \<Rightarrow> instant \<Rightarrow> people \<Rightarrow> bool \<times> people" where
  "consumeRecoveryCode tf hash now d =
     (let hit = (\<lambda>c. rc_twoFactor c = tf \<and> rc_hash c = hash \<and> rc_usedAt c = None) in
      (\<exists>c\<in>set (pp_codes d). hit c, d\<lparr>pp_codes := upd hit (\<lambda>c. c\<lparr>rc_usedAt := Some now\<rparr>) (pp_codes d)\<rparr>))"

definition countUnusedCodes :: "ident \<Rightarrow> people \<Rightarrow> nat" where
  "countUnusedCodes tf d = length (filter (\<lambda>c. rc_twoFactor c = tf \<and> rc_usedAt c = None) (pp_codes d))"

section \<open>Social links\<close>

definition findBySubject :: "provider \<Rightarrow> string \<Rightarrow> people \<Rightarrow> (ident \<times> ident) option" where
  "findBySubject provider subject d =
     map_option (\<lambda>l. (so_user l, so_org l)) (find (\<lambda>l. so_provider l = provider \<and> so_subject l = subject) (pp_social d))"

text \<open>An empty slug narrows nothing.\<close>

definition findUserByEmail :: "string \<Rightarrow> persona \<Rightarrow> string option \<Rightarrow> people \<Rightarrow> (ident \<times> ident) option" where
  "findUserByEmail email persona slug d =
     map_option (\<lambda>(u, g). (us_id u, us_org u))
       (first_row (accounts (\<lambda>u g. same_email (us_email u) email \<and> us_persona u = persona \<and> us_deletedAt u = None
          \<and> (case slug of None \<Rightarrow> True | Some s \<Rightarrow> s = [] \<or> og_slug g = s)) d))"

definition social_unique :: "social_row list \<Rightarrow> bool" where
  "social_unique ls = distinct (map (\<lambda>l. (so_provider l, so_subject l)) ls)"

definition link_social :: "ident \<Rightarrow> ident \<Rightarrow> provider \<Rightarrow> string \<Rightarrow> string \<Rightarrow> instant \<Rightarrow> people \<Rightarrow> error + people" where
  "link_social org user provider subject email now d =
     (let rows = (if \<exists>l\<in>set (pp_social d). so_user l = user \<and> so_provider l = provider
                  then upd (\<lambda>l. so_user l = user \<and> so_provider l = provider)
                         (\<lambda>l. l\<lparr>so_subject := subject, so_email := email, so_lastUsedAt := now\<rparr>) (pp_social d)
                  else pp_social d @ [\<lparr>so_org = org, so_user = user, so_provider = provider, so_subject = subject, so_email = email,
                         so_lastUsedAt = now\<rparr>])
      in if social_unique rows then Inr (d\<lparr>pp_social := rows\<rparr>) else Inl (DbViolation uq_social_identities_subject))"

definition touchLastUsed :: "provider \<Rightarrow> string \<Rightarrow> instant \<Rightarrow> people \<Rightarrow> people" where
  "touchLastUsed provider subject now d =
     d\<lparr>pp_social := upd (\<lambda>l. so_provider l = provider \<and> so_subject l = subject) (\<lambda>l. l\<lparr>so_lastUsedAt := now\<rparr>) (pp_social d)\<rparr>"

definition createAttendee :: "string \<Rightarrow> string \<Rightarrow> string \<Rightarrow> instant \<Rightarrow> people \<Rightarrow> error + ((ident \<times> ident) option \<times> people)" where
  "createAttendee slug name email now d =
     (case find (\<lambda>g. og_slug g = slug \<and> og_deletedAt g = None) (pp_orgs d) of
        None \<Rightarrow> Inr (None, d)
      | Some g \<Rightarrow>
          bindE (insert_user \<lparr>us_id = pp_next d, us_org = og_id g, us_name = name, us_email = email, us_persona = PAttendee,
             us_status = MActive, us_password = None, us_twoFactor = False, us_lastActiveAt = None, us_createdAt = now,
             us_deletedAt = None\<rparr> d)
           (\<lambda>d'. Inr (Some (pp_next d, og_id g), d')))"

section \<open>Deleting an account\<close>

definition scheduleDeletion :: "ident \<Rightarrow> ident \<Rightarrow> identity_event \<Rightarrow> instant \<Rightarrow> people \<Rightarrow> bool \<times> people" where
  "scheduleDeletion org user event now d =
     (let hit = (\<lambda>u. us_id u = user \<and> us_org u = org \<and> us_deletedAt u = None) in
      if \<not> (\<exists>u\<in>set (pp_users d). hit u) then (False, d)
      else (True, enqueue_identity event (snd (revoke_where (\<lambda>s. se_user s = user) now
              (update_user hit (\<lambda>u. u\<lparr>us_deletedAt := Some now\<rparr>) d)))))"

end
