(* ===== verification/IdentityService.thy ===== *)
theory IdentityService
  imports Identity
begin

text \<open>
  The services that prove who somebody is: \<^verbatim>\<open>auth/auth.service.ts\<close>, \<^verbatim>\<open>auth-sessions/\<close>, \<^verbatim>\<open>auth-signup/\<close>,
  \<^verbatim>\<open>auth-password/\<close>, \<^verbatim>\<open>auth-two-factor/\<close>, \<^verbatim>\<open>auth-social/\<close>, \<^verbatim>\<open>auth-booking-signup/\<close> and \<^verbatim>\<open>account-deletion/\<close>.

  A token is the claims it was signed with, and reading one is an optional argument: \<open>None\<close> is a token that does not
  verify. \<open>verify\<close> compares a password with a stored hash, \<open>fingerprint\<close> is the digest of a hash, \<open>totp\<close> checks a code
  against a stored secret and \<open>hashCode\<close> is the digest of a recovery code; a freshly computed hash, secret or code is
  an argument. The throttles keep their counters outside the database: whether one refuses is an argument as well, and
  their bookkeeping calls are left out.
\<close>

section \<open>Sequencing\<close>

text \<open>Two calls that may each commit and then fail.\<close>

fun then_do :: "'a people_svc \<Rightarrow> ('a \<Rightarrow> people \<Rightarrow> 'b people_svc) \<Rightarrow> 'b people_svc" where
  "then_do (Inl e, d) f = (Inl e, d)"
| "then_do (Inr x, d) f = f x d"

definition pure_step :: "error + 'a \<Rightarrow> people \<Rightarrow> 'a people_svc" where
  "pure_step r d = (r, d)"

section \<open>Tokens and results\<close>

record token_subject =
  sj_user :: ident
  sj_org :: ident
  sj_session :: ident
  sj_persona :: persona

record me_response =
  me_id :: ident
  me_name :: string
  me_email :: string
  me_persona :: persona
  me_status :: member_status
  me_twoFactorEnabled :: bool
  me_org :: ident
  me_orgName :: string
  me_orgSlug :: string
  me_permissions :: "permission list"

definition toMeResponse :: "user_row \<Rightarrow> org_row \<Rightarrow> permission list \<Rightarrow> me_response" where
  "toMeResponse u g ps = \<lparr>me_id = us_id u, me_name = us_name u, me_email = us_email u, me_persona = us_persona u,
     me_status = us_status u, me_twoFactorEnabled = us_twoFactor u, me_org = og_id g, me_orgName = og_name g,
     me_orgSlug = og_slug g, me_permissions = ps\<rparr>"

record login_result =
  lr_accessToken :: token_subject
  lr_refreshToken :: "token_subject \<times> int"
  lr_expiresIn :: int
  lr_user :: me_response

record twofa_claims =
  tc_user :: ident
  tc_org :: ident
  tc_persona :: persona
  tc_rememberMe :: bool

datatype login_outcome =
    LoggedIn login_result
  | TwoFactorChallenge twofa_claims int
  | WorkspaceChoice "(string \<times> string) list"

record token_config =
  tk_accessTtl :: int
  tk_refreshTtl :: int
  tk_refreshTtlShort :: int
  tk_challengeTtl :: int

record auth_context =
  ax_user :: ident
  ax_org :: ident
  ax_session :: ident
  ax_persona :: persona

section \<open>Opening a session\<close>

record session_input =
  si_device :: string
  si_ip :: "string option"
  si_rememberMe :: bool

definition openSession :: "login_user \<Rightarrow> session_input \<Rightarrow> int \<Rightarrow> instant \<Rightarrow> people \<Rightarrow> ident \<times> people" where
  "openSession found inp refreshTtl now d =
     createSession \<lparr>cs_org = og_id (snd found), cs_user = us_id (fst found), cs_device = si_device inp, cs_ip = si_ip inp,
       cs_expiresAt = now + refreshTtl * 1000\<rparr> now d"

definition recordSignIn :: "login_user \<Rightarrow> session_input \<Rightarrow> instant \<Rightarrow> people \<Rightarrow> people" where
  "recordSignIn found inp now d =
     enqueue_identity (SignedIn (og_id (snd found)) (us_id (fst found)) (si_device inp) (si_ip inp))
       (touchLastActive (us_id (fst found)) now d)"

definition issueTokens :: "login_user \<Rightarrow> ident \<Rightarrow> int \<Rightarrow> token_subject \<times> (token_subject \<times> int)" where
  "issueTokens found sid refreshTtl =
     (let subject = \<lparr>sj_user = us_id (fst found), sj_org = og_id (snd found), sj_session = sid, sj_persona = us_persona (fst found)\<rparr>
      in (subject, (subject, refreshTtl)))"

definition startSession :: "token_config \<Rightarrow> login_user \<Rightarrow> session_input \<Rightarrow> instant \<Rightarrow> people \<Rightarrow> login_result \<times> people" where
  "startSession cfg found inp now d =
     (let refreshTtl = (if si_rememberMe inp then tk_refreshTtl cfg else tk_refreshTtlShort cfg) in
      case openSession found inp refreshTtl now d of (sid, d) \<Rightarrow>
        let d = recordSignIn found inp now d;
            permissions = getPermissions (og_id (snd found)) (us_id (fst found)) d
        in case issueTokens found sid refreshTtl of (acc, ref) \<Rightarrow>
             (\<lparr>lr_accessToken = acc, lr_refreshToken = ref, lr_expiresIn = tk_accessTtl cfg,
               lr_user = toMeResponse (fst found) (snd found) permissions\<rparr>, d))"

section \<open>Signing in\<close>

record login_input =
  li_email :: string
  li_password :: string
  li_orgSlug :: "string option"
  li_persona :: "persona option"
  li_session :: session_input

definition MAX_LOGIN_CANDIDATES :: nat where "MAX_LOGIN_CANDIDATES = 10"

definition invalidCredentials :: error where "invalidCredentials = Unauthorized ''Invalid email or password''"

definition login_persona :: "login_input \<Rightarrow> persona" where
  "login_persona inp = (case li_persona inp of None \<Rightarrow> PAdmin | Some p \<Rightarrow> p)"

definition resolveRealm :: "login_input \<Rightarrow> error + string option" where
  "resolveRealm inp =
     (if login_persona inp = PAttendee
      then (if (case li_orgSlug inp of None \<Rightarrow> False | Some s \<Rightarrow> s \<noteq> [])
            then Inl (Validation ''Attendee sign-in doesn't take a workspace - leave orgSlug out.'' [])
            else Inr (Some PLATFORM_ORG_SLUG))
      else Inr (li_orgSlug inp))"

definition auditFail :: "login_input \<Rightarrow> login_user \<Rightarrow> people \<Rightarrow> people" where
  "auditFail inp found d =
     recordAudit \<lparr>aa_org = og_id (snd found), aa_type = AFail, aa_title = ''Failed sign-in for '' @ li_email inp,
       aa_actor = Some (us_id (fst found)), aa_ip = si_ip (li_session inp)\<rparr> d"

text \<open>A stored hash that the password fits; an account without one has no password to fit.\<close>

definition password_fits :: "(string \<Rightarrow> string \<Rightarrow> bool) \<Rightarrow> string \<Rightarrow> user_row \<Rightarrow> bool" where
  "password_fits verify pw u = (case us_password u of None \<Rightarrow> False | Some h \<Rightarrow> h \<noteq> [] \<and> verify h pw)"

definition resolveByPassword ::
  "(string \<Rightarrow> string \<Rightarrow> bool) \<Rightarrow> login_input \<Rightarrow> people \<Rightarrow> ((string \<times> string) list + login_user) people_svc" where
  "resolveByPassword verify inp d =
     (let candidates = findLoginCandidates (li_email inp) (login_persona inp) MAX_LOGIN_CANDIDATES d;
          matched = filter (\<lambda>c. password_fits verify (li_password inp) (fst c)) candidates
      in case matched of
           [] \<Rightarrow> (Inl invalidCredentials, fold (auditFail inp) candidates d)
         | [c] \<Rightarrow> (Inr (Inr c), d)
         | _ \<Rightarrow> (Inr (Inl (map (\<lambda>(u, g). (og_slug g, og_name g)) matched)), d))"

definition authenticate ::
  "(string \<Rightarrow> string \<Rightarrow> bool) \<Rightarrow> string \<Rightarrow> login_input \<Rightarrow> people \<Rightarrow> login_user people_svc" where
  "authenticate verify slug inp d =
     (case findLoginUser slug (li_email inp) (login_persona inp) d of
        None \<Rightarrow> (Inl invalidCredentials, d)
      | Some found \<Rightarrow>
          if password_fits verify (li_password inp) (fst found) then (Inr found, d)
          else (Inl invalidCredentials, auditFail inp found d))"

definition resendVerification :: "(ident \<Rightarrow> ident \<Rightarrow> string) \<Rightarrow> string \<Rightarrow> pending_verification \<Rightarrow> people \<Rightarrow> people" where
  "resendVerification sign webUrl p d =
     enqueue_identity (EmailVerificationRequested (pv_org p) (pv_user p) (pv_name p) (pv_email p)
       (webUrl @ ''/verify-email?token='' @ sign (pv_user p) (pv_org p))) d"

definition assertEligible :: "(ident \<Rightarrow> ident \<Rightarrow> string) \<Rightarrow> string \<Rightarrow> login_user \<Rightarrow> people \<Rightarrow> unit people_svc" where
  "assertEligible sign webUrl found d =
     (case us_status (fst found) of
        MActive \<Rightarrow> (Inr (), d)
      | MUnconfirmed \<Rightarrow> (Inl (EmailNotConfirmed ''Please confirm your email - we've sent you a fresh link.''),
          resendVerification sign webUrl \<lparr>pv_org = og_id (snd found), pv_user = us_id (fst found), pv_name = us_name (fst found),
            pv_email = us_email (fst found)\<rparr> d)
      | MInvited \<Rightarrow> (Inl (EmailNotConfirmed ''Open the invitation we emailed you to finish setting up your account.''), d)
      | MSuspended \<Rightarrow> (Inl (AccountSuspended ''Your access has been suspended.''), d))"

definition login ::
  "(string \<Rightarrow> string \<Rightarrow> bool) \<Rightarrow> (ident \<Rightarrow> ident \<Rightarrow> string) \<Rightarrow> string \<Rightarrow> token_config \<Rightarrow> error + unit \<Rightarrow> login_input \<Rightarrow> instant
    \<Rightarrow> people \<Rightarrow> login_outcome people_svc" where
  "login verify sign webUrl cfg locked inp now d =
     then_do (pure_step (resolveRealm inp) d) (\<lambda>realm d.
     then_do (pure_step locked d) (\<lambda>_ d.
     then_do (case realm of
         None \<Rightarrow> resolveByPassword verify inp d
       | Some slug \<Rightarrow> then_do (authenticate verify slug inp d) (\<lambda>found d. (Inr (Inr found), d))) (\<lambda>resolved d.
     case resolved of
       Inl workspaces \<Rightarrow> (Inr (WorkspaceChoice workspaces), d)
     | Inr found \<Rightarrow>
         then_do (assertEligible sign webUrl found d) (\<lambda>_ d.
         if us_twoFactor (fst found)
         then (Inr (TwoFactorChallenge \<lparr>tc_user = us_id (fst found), tc_org = og_id (snd found), tc_persona = us_persona (fst found),
                 tc_rememberMe = si_rememberMe (li_session inp)\<rparr> (tk_challengeTtl cfg)), d)
         else (case startSession cfg found (li_session inp) now d of (r, d) \<Rightarrow> (Inr (LoggedIn r), d))))))"

section \<open>Using and ending a session\<close>

definition SESSION_GONE :: error where "SESSION_GONE = Unauthorized ''Session expired or revoked''"

definition assertSessionLive :: "ident \<Rightarrow> instant \<Rightarrow> people \<Rightarrow> error + unit" where
  "assertSessionLive sid now d = check (findValidSession sid now d \<noteq> None) SESSION_GONE"

definition refresh_token :: "token_config \<Rightarrow> token_subject option \<Rightarrow> instant \<Rightarrow> people \<Rightarrow> error + (token_subject \<times> int)" where
  "refresh_token cfg claims now d =
     (case claims of
        None \<Rightarrow> Inl INVALID_TOKEN
      | Some c \<Rightarrow> bindE (assertSessionLive (sj_session c) now d) (\<lambda>_. Inr (c, tk_accessTtl cfg)))"

definition loadProfile :: "ident \<Rightarrow> people \<Rightarrow> error + login_user" where
  "loadProfile user d = (case findProfile user d of None \<Rightarrow> Inl (Unauthorized ''User no longer exists'') | Some p \<Rightarrow> Inr p)"

definition me_profile :: "auth_context \<Rightarrow> people \<Rightarrow> error + me_response" where
  "me_profile auth d = bindE (loadProfile (ax_user auth) d)
     (\<lambda>(u, g). Inr (toMeResponse u g (getPermissions (ax_org auth) (ax_user auth) d)))"

definition logout :: "auth_context \<Rightarrow> instant \<Rightarrow> people \<Rightarrow> people" where
  "logout auth now d =
     recordAudit \<lparr>aa_org = ax_org auth, aa_type = ARevoke, aa_title = ''Signed out'', aa_actor = Some (ax_user auth), aa_ip = None\<rparr>
       (revokeSession (ax_session auth) now d)"

definition revoke_device :: "auth_context \<Rightarrow> ident \<Rightarrow> instant \<Rightarrow> people \<Rightarrow> unit people_svc" where
  "revoke_device auth sid now d =
     (if sid = ax_session auth then (Inl (Validation ''This is the device you are using - sign out instead.'' []), d)
      else case revokeOwn (ax_org auth) (ax_user auth) sid now d of (hit, d') \<Rightarrow>
        (if hit then Inr () else Inl (NotFound ''That session is no longer active.''), d'))"

definition revokeOthers :: "auth_context \<Rightarrow> instant \<Rightarrow> people \<Rightarrow> nat \<times> people" where
  "revokeOthers auth now d = revokeOthers_tx (ax_org auth) (ax_user auth) (ax_session auth) now d"

section \<open>Signing up\<close>

record register_input =
  re_name :: string
  re_email :: string
  re_passwordHash :: string
  re_organizationName :: "string option"
  re_persona :: "persona option"

definition NAME_TAKEN :: error where "NAME_TAKEN = Conflict ''That workspace name is already taken. Try another.'' []"
definition ATTENDEE_ACCOUNTS_UNAVAILABLE :: error where
  "ATTENDEE_ACCOUNTS_UNAVAILABLE = InternalError ''Attendee accounts are unavailable right now. Please try again later.''"
definition NO_ATTENDEE_WORKSPACE :: error where
  "NO_ATTENDEE_WORKSPACE = Validation ''An attendee account doesn't have a workspace - leave organizationName out.'' []"
definition INVALID_CONFIRM_LINK :: error where
  "INVALID_CONFIRM_LINK = Validation ''This confirmation link is invalid or has expired. Request a new one.'' []"

definition given :: "string option \<Rightarrow> bool" where
  "given s = (case s of None \<Rightarrow> False | Some t \<Rightarrow> t \<noteq> [])"

definition bootstrapOrRefuse :: "bootstrap \<Rightarrow> instant \<Rightarrow> people \<Rightarrow> (ident \<times> ident \<times> string) people_svc" where
  "bootstrapOrRefuse inp now d =
     (case bootstrapWorkspace inp now d of
        Inr (r, d') \<Rightarrow> (Inr r, d')
      | Inl e \<Rightarrow> (Inl (if e = DbViolation uq_organizations_name then NAME_TAKEN else e), d))"

definition registerAttendee :: "(ident \<Rightarrow> ident \<Rightarrow> string) \<Rightarrow> string \<Rightarrow> register_input \<Rightarrow> instant \<Rightarrow> people \<Rightarrow> unit people_svc" where
  "registerAttendee sign webUrl inp now d =
     (if given (re_organizationName inp) then (Inl NO_ATTENDEE_WORKSPACE, d)
      else if attendeeEmailExists (re_email inp) d then (Inr (), d)
      else case createAttendeeAccount \<lparr>ai_name = re_name inp, ai_email = re_email inp, ai_passwordHash = re_passwordHash inp,
               ai_confirmed = False\<rparr> now d of
          Inl e \<Rightarrow> (Inl e, d)
        | Inr (None, d') \<Rightarrow> (Inl ATTENDEE_ACCOUNTS_UNAVAILABLE, d')
        | Inr (Some (org, user), d') \<Rightarrow> (Inr (), resendVerification sign webUrl
              \<lparr>pv_org = org, pv_user = user, pv_name = re_name inp, pv_email = re_email inp\<rparr> d'))"

definition register ::
  "(string \<Rightarrow> string) \<Rightarrow> (ident \<Rightarrow> ident \<Rightarrow> string) \<Rightarrow> string \<Rightarrow> register_input \<Rightarrow> instant \<Rightarrow> people \<Rightarrow> unit people_svc" where
  "register nfkd sign webUrl inp now d =
     (if (case re_persona inp of None \<Rightarrow> PAdmin | Some p \<Rightarrow> p) = PAttendee then registerAttendee sign webUrl inp now d
      else if organizerEmailExists (re_email inp) d then (Inr (), d)
      else if (case re_organizationName inp of None \<Rightarrow> False | Some n \<Rightarrow> n \<noteq> [] \<and> nameTaken n None d) then (Inl NAME_TAKEN, d)
      else
        let organizationName = (case re_organizationName inp of None \<Rightarrow> re_name inp @ [CHR 0x27] @ ''s Workspace'' | Some n \<Rightarrow> n) in
        case uniqueSlug_org (slugify nfkd organizationName ''workspace'') d of
          None \<Rightarrow> (Inl Uncaught, d)
        | Some slug \<Rightarrow>
            then_do (bootstrapOrRefuse \<lparr>bo_organizationName = organizationName, bo_slug = slug, bo_name = re_name inp,
                       bo_email = re_email inp, bo_passwordHash = Some (re_passwordHash inp)\<rparr> now d)
              (\<lambda>(org, user, _) d. (Inr (), resendVerification sign webUrl
                 \<lparr>pv_org = org, pv_user = user, pv_name = re_name inp, pv_email = re_email inp\<rparr> d)))"

definition verifyEmail :: "(ident \<times> ident) option \<Rightarrow> people \<Rightarrow> (string \<times> persona) people_svc" where
  "verifyEmail claims d =
     (case claims of
        None \<Rightarrow> (Inl INVALID_CONFIRM_LINK, d)
      | Some (user, org) \<Rightarrow>
          (case activateEmail user org d of
             (None, d') \<Rightarrow> (Inl INVALID_CONFIRM_LINK, d')
           | (Some r, d') \<Rightarrow> (Inr r, d')))"

definition requestResend ::
  "(ident \<Rightarrow> ident \<Rightarrow> string) \<Rightarrow> string \<Rightarrow> error + unit \<Rightarrow> string \<Rightarrow> persona option \<Rightarrow> people \<Rightarrow> unit people_svc" where
  "requestResend sign webUrl allowed email persona d =
     then_do (pure_step allowed d) (\<lambda>_ d.
       case pendingVerification email (case persona of None \<Rightarrow> PAdmin | Some p \<Rightarrow> p) d of
         None \<Rightarrow> (Inr (), d)
       | Some p \<Rightarrow> (Inr (), resendVerification sign webUrl p d))"

end
