(* ===== verification/AccountService.thy ===== *)
theory AccountService
  imports IdentityService
begin

text \<open>
  The services with which somebody changes how they prove who they are: resetting and changing a password, two-factor
  enrolment and the second step of a sign-in, social sign-in, the account made from a booking, and deleting an account;
  and everything that can happen to the identity tables, as steps.
\<close>

section \<open>Forgotten passwords\<close>

datatype blocker = SocialOnly | Blocked member_status

definition MAX_RESET_ACCOUNTS :: nat where "MAX_RESET_ACCOUNTS = 10"

definition blockerOf :: "reset_account \<Rightarrow> blocker option" where
  "blockerOf a =
     (if ra_status a \<noteq> MActive then Some (Blocked (ra_status a))
      else if ra_passwordHash a = None then Some SocialOnly else None)"

definition isResettable :: "reset_account \<Rightarrow> bool" where
  "isResettable a = (blockerOf a = None)"

definition BLOCKERS_BY_USEFULNESS :: "blocker list" where
  "BLOCKERS_BY_USEFULNESS = [SocialOnly, Blocked MUnconfirmed, Blocked MInvited, Blocked MSuspended]"

definition providersOfSocialOnly :: "reset_account list \<Rightarrow> provider list" where
  "providersOfSocialOnly as =
     (let linked = set (concat (map ra_providers (filter (\<lambda>a. blockerOf a = Some SocialOnly) as)))
      in filter (\<lambda>p. p \<in> linked) [Google, Apple, LinkedIn])"

definition PROVIDER_LABEL :: "provider \<Rightarrow> string" where
  "PROVIDER_LABEL p = (case p of Google \<Rightarrow> ''Google'' | Apple \<Rightarrow> ''Apple'' | LinkedIn \<Rightarrow> ''LinkedIn'')"

definition orList :: "string list \<Rightarrow> string" where
  "orList items = (if length items < 2 then concat items else join '', '' (butlast items) @ '' or '' @ last items)"

definition CANNOT_RESET :: "member_status \<Rightarrow> string" where
  "CANNOT_RESET s = (case s of
     MUnconfirmed \<Rightarrow> ''That account has not been confirmed yet, so there is no sign-in for a password to unlock. Open the confirmation link emailed when it was created - signing in sends a fresh one.''
   | MInvited \<Rightarrow> ''That invitation has not been accepted yet. Open the invitation email to finish setting the account up, and choose a password there.''
   | _ \<Rightarrow> ''That account is suspended, so resetting its password would not let it back in. Ask a workspace admin to reactivate it.'')"

definition socialOnlyRefusal :: "provider list \<Rightarrow> string" where
  "socialOnlyRefusal ps =
     (if ps = [] then ''That account has no password to reset - it signs in through a social provider. Use that sign-in instead.''
      else let names = map PROVIDER_LABEL ps; buttons = map (\<lambda>n. [CHR 0x22] @ ''Continue with '' @ n @ [CHR 0x22]) names
        in ''That account signs in with '' @ orList names @ '', so it has no password to reset. Use '' @ orList buttons @ '' instead.'')"

text \<open>The most useful refusal; of no account at all there is none to give.\<close>

definition refusalFor :: "reset_account list \<Rightarrow> string" where
  "refusalFor as =
     (case sort_key (index_in BLOCKERS_BY_USEFULNESS) (List.map_filter blockerOf as) of
        SocialOnly # _ \<Rightarrow> socialOnlyRefusal (providersOfSocialOnly as)
      | Blocked s # _ \<Rightarrow> CANNOT_RESET s
      | [] \<Rightarrow> [])"

definition decideReset :: "reset_account list \<Rightarrow> string + reset_account list" where
  "decideReset as = (let usable = filter isResettable as in if usable \<noteq> [] then Inr usable else Inl (refusalFor as))"

record reset_claims =
  rs_user :: ident
  rs_org :: ident
  rs_pv :: string

definition workspaceNamed :: "string \<Rightarrow> persona \<Rightarrow> string option" where
  "workspaceNamed name p = (if p = PAdmin then Some name else None)"

definition noSuchAccount :: "persona \<Rightarrow> error" where
  "noSuchAccount p = NotFound (case p of
     PAdmin \<Rightarrow> ''No organizer account uses that email address. Check the spelling, try your attendee account, or create one.''
   | PAttendee \<Rightarrow> ''No attendee account uses that email address. Check the spelling, try your organizer account, or create one.'')"

definition sendResetLink ::
  "(reset_claims \<Rightarrow> string) \<Rightarrow> (string \<Rightarrow> string) \<Rightarrow> string \<Rightarrow> string \<Rightarrow> persona \<Rightarrow> reset_account \<Rightarrow> people \<Rightarrow> people" where
  "sendResetLink sign fingerprint webUrl email audience a d =
     enqueue_identity (PasswordResetRequested (ra_org a) (ra_id a) (ra_name a) email (workspaceNamed (ra_workspaceName a) audience)
       (webUrl @ ''/reset-password?token='' @ sign \<lparr>rs_user = ra_id a, rs_org = ra_org a,
          rs_pv = fingerprint (the (ra_passwordHash a))\<rparr>)) d"

definition forgot ::
  "(reset_claims \<Rightarrow> string) \<Rightarrow> (string \<Rightarrow> string) \<Rightarrow> string \<Rightarrow> error + unit \<Rightarrow> string \<Rightarrow> persona option \<Rightarrow> people \<Rightarrow> unit people_svc" where
  "forgot sign fingerprint webUrl locked email persona d =
     (let audience = (case persona of None \<Rightarrow> PAdmin | Some p \<Rightarrow> p) in
      then_do (pure_step locked d) (\<lambda>_ d.
        let accs = findResetAccounts email audience MAX_RESET_ACCOUNTS d in
        if accs = [] then (Inl (noSuchAccount audience), d)
        else case decideReset accs of
            Inl refusal \<Rightarrow> (Inl (Validation refusal []), d)
          | Inr usable \<Rightarrow> (Inr (), fold (sendResetLink sign fingerprint webUrl email audience) usable d)))"

definition INVALID_LINK :: error where
  "INVALID_LINK = Validation ''This reset link is invalid or has expired. Request a new one.'' []"
definition REUSED_PASSWORD :: error where
  "REUSED_PASSWORD = Validation ''Please choose a password different from your current one.'' []"

text \<open>The account and the hash that the link still fingerprints.\<close>

definition accountOfGoodLink ::
  "(string \<Rightarrow> string) \<Rightarrow> reset_claims option \<Rightarrow> people \<Rightarrow> error + (reset_link_account \<times> string)" where
  "accountOfGoodLink fingerprint claims d =
     (case claims of
        None \<Rightarrow> Inl INVALID_LINK
      | Some c \<Rightarrow>
          (case findResetLinkAccount (rs_org c) (rs_user c) d of
             None \<Rightarrow> Inl INVALID_LINK
           | Some a \<Rightarrow>
               (case rl_passwordHash a of
                  None \<Rightarrow> Inl INVALID_LINK
                | Some h \<Rightarrow> if h \<noteq> [] \<and> fingerprint h = rs_pv c then Inr (a, h) else Inl INVALID_LINK)))"

definition resetPassword ::
  "(string \<Rightarrow> string \<Rightarrow> bool) \<Rightarrow> (string \<Rightarrow> string) \<Rightarrow> reset_claims option \<Rightarrow> string \<Rightarrow> string \<Rightarrow> instant \<Rightarrow> people \<Rightarrow> unit people_svc" where
  "resetPassword verify fingerprint claims newPassword newHash now d =
     then_do (pure_step (accountOfGoodLink fingerprint claims d) d) (\<lambda>(a, h) d.
       if verify h newPassword then (Inl REUSED_PASSWORD, d)
       else (Inr (), setPassword (rl_org a) (rl_id a) newHash None None now d))"

definition checkResetLink :: "(string \<Rightarrow> string) \<Rightarrow> reset_claims option \<Rightarrow> people \<Rightarrow> error + (persona \<times> string option)" where
  "checkResetLink fingerprint claims d =
     bindE (accountOfGoodLink fingerprint claims d) (\<lambda>(a, _). Inr (rl_persona a, workspaceNamed (rl_workspaceName a) (rl_persona a)))"

section \<open>Changing a password\<close>

definition WRONG_CURRENT :: error where "WRONG_CURRENT = Forbidden ''Your current password is incorrect.''"

definition verified_change :: "(string \<Rightarrow> string \<Rightarrow> bool) \<Rightarrow> auth_context \<Rightarrow> string \<Rightarrow> string \<Rightarrow> people \<Rightarrow> error + user_row" where
  "verified_change verify actor current new d =
     (case findChangeAccount (ax_org actor) (ax_user actor) d of
        None \<Rightarrow> Inl WRONG_CURRENT
      | Some u \<Rightarrow>
          if \<not> password_fits verify current u then Inl WRONG_CURRENT
          else if password_fits verify new u then Inl REUSED_PASSWORD
          else Inr u)"

definition changePassword ::
  "(string \<Rightarrow> string \<Rightarrow> bool) \<Rightarrow> auth_context \<Rightarrow> string \<Rightarrow> string \<Rightarrow> string \<Rightarrow> instant \<Rightarrow> people \<Rightarrow> unit people_svc" where
  "changePassword verify actor current new newHash now d =
     then_do (pure_step (verified_change verify actor current new d) d) (\<lambda>u d.
       (Inr (), setPassword (ax_org actor) (ax_user actor) newHash (Some (ax_session actor))
          (Some (PasswordChanged (ax_org actor) (ax_user actor) (us_name u) (us_email u))) now d))"

section \<open>Two-factor sign-in\<close>

record twofa_status =
  ts_enabled :: bool
  ts_pending :: bool
  ts_recoveryCodesRemaining :: nat

definition twofa_status_of :: "auth_context \<Rightarrow> people \<Rightarrow> twofa_status" where
  "twofa_status_of auth d =
     (case find_twofa (ax_user auth) d of
        None \<Rightarrow> \<lparr>ts_enabled = False, ts_pending = False, ts_recoveryCodesRemaining = 0\<rparr>
      | Some t \<Rightarrow> \<lparr>ts_enabled = (tf_confirmedAt t \<noteq> None), ts_pending = (tf_confirmedAt t = None),
          ts_recoveryCodesRemaining = (if tf_confirmedAt t = None then 0 else countUnusedCodes (tf_id t) d)\<rparr>)"

definition BAD_CODE :: error where "BAD_CODE = Validation ''That code is wrong or has expired - try the current one.'' []"
definition PROFILE_NOT_FOUND :: error where "PROFILE_NOT_FOUND = NotFound ''Profile not found.''"

definition load_own_profile :: "auth_context \<Rightarrow> people \<Rightarrow> error + user_row" where
  "load_own_profile auth d =
     (case findChangeAccount (ax_org auth) (ax_user auth) d of None \<Rightarrow> Inl PROFILE_NOT_FOUND | Some u \<Rightarrow> Inr u)"

definition requireEnrolment :: "auth_context \<Rightarrow> people \<Rightarrow> error + twofa_row" where
  "requireEnrolment auth d =
     (case find_twofa (ax_user auth) d of None \<Rightarrow> Inl (NotFound ''Start two-factor setup first.'') | Some t \<Rightarrow> Inr t)"

text \<open>The secret drawn for the caller arrives encrypted, with the address an authenticator app reads.\<close>

definition startTwoFactor :: "auth_context \<Rightarrow> string \<Rightarrow> (string \<Rightarrow> string) \<Rightarrow> people \<Rightarrow> string people_svc" where
  "startTwoFactor auth secretEncrypted uriFor d =
     (if (case find_twofa (ax_user auth) d of None \<Rightarrow> False | Some t \<Rightarrow> tf_confirmedAt t \<noteq> None)
      then (Inl (Conflict ''Two-factor is already on. Turn it off first to re-enrol.'' []), d)
      else then_do (pure_step (load_own_profile auth d) d) (\<lambda>u d.
        (Inr (uriFor (us_email u)), upsertPending (ax_org auth) (ax_user auth) secretEncrypted (uriFor (us_email u)) d)))"

definition confirmTwoFactor ::
  "(string \<Rightarrow> string \<Rightarrow> bool) \<Rightarrow> (string \<Rightarrow> string) \<Rightarrow> auth_context \<Rightarrow> string \<Rightarrow> string list \<Rightarrow> instant \<Rightarrow> people \<Rightarrow> string list people_svc" where
  "confirmTwoFactor totp hashCode auth code codes now d =
     (case requireEnrolment auth d of
        Inl e \<Rightarrow> (Inl e, d)
      | Inr t \<Rightarrow>
          if tf_confirmedAt t \<noteq> None then (Inl (Conflict ''Two-factor is already on.'' []), d)
          else if \<not> totp (tf_secret t) code then (Inl BAD_CODE, d)
          else (case confirm_twofa (ax_user auth) (tf_id t) (map hashCode codes) now d of
                  Inl e \<Rightarrow> (Inl e, d) | Inr d' \<Rightarrow> (Inr codes, d')))"

definition assertCodeOrRecovery ::
  "(string \<Rightarrow> string \<Rightarrow> bool) \<Rightarrow> (string \<Rightarrow> string) \<Rightarrow> twofa_row \<Rightarrow> string \<Rightarrow> instant \<Rightarrow> people \<Rightarrow> unit people_svc" where
  "assertCodeOrRecovery totp hashCode t code now d =
     (if totp (tf_secret t) code then (Inr (), d)
      else case consumeRecoveryCode (tf_id t) (hashCode code) now d of (spent, d') \<Rightarrow> (if spent then Inr () else Inl BAD_CODE, d'))"

definition disableTwoFactor ::
  "(string \<Rightarrow> string \<Rightarrow> bool) \<Rightarrow> (string \<Rightarrow> string) \<Rightarrow> auth_context \<Rightarrow> string \<Rightarrow> instant \<Rightarrow> people \<Rightarrow> unit people_svc" where
  "disableTwoFactor totp hashCode auth code now d =
     (case requireEnrolment auth d of
        Inl e \<Rightarrow> (Inl e, d)
      | Inr t \<Rightarrow>
          if tf_confirmedAt t = None then (Inl (Validation ''Two-factor is not on.'' []), d)
          else then_do (assertCodeOrRecovery totp hashCode t code now d) (\<lambda>_ d.
            let d = disable_twofa (ax_user auth) (tf_id t) d in
            then_do (pure_step (load_own_profile auth d) d) (\<lambda>u d.
              (Inr (), enqueue_identity (TwoFactorDisabled (ax_org auth) (ax_user auth) (us_name u) (us_email u)) d))))"

definition regenerateRecoveryCodes ::
  "(string \<Rightarrow> string \<Rightarrow> bool) \<Rightarrow> (string \<Rightarrow> string) \<Rightarrow> auth_context \<Rightarrow> string \<Rightarrow> string list \<Rightarrow> people \<Rightarrow> string list people_svc" where
  "regenerateRecoveryCodes totp hashCode auth code codes d =
     (case requireEnrolment auth d of
        Inl e \<Rightarrow> (Inl e, d)
      | Inr t \<Rightarrow>
          if tf_confirmedAt t = None then (Inl (Validation ''Turn two-factor on first.'' []), d)
          else if \<not> totp (tf_secret t) code then (Inl BAD_CODE, d)
          else (case replaceRecoveryCodes (tf_id t) (map hashCode codes) d of Inl e \<Rightarrow> (Inl e, d) | Inr d' \<Rightarrow> (Inr codes, d')))"

definition verifyTwoFactor ::
  "(string \<Rightarrow> string \<Rightarrow> bool) \<Rightarrow> (string \<Rightarrow> string) \<Rightarrow> ident \<Rightarrow> string \<Rightarrow> instant \<Rightarrow> people \<Rightarrow> bool \<times> people" where
  "verifyTwoFactor totp hashCode user code now d =
     (case find_twofa user d of
        None \<Rightarrow> (False, d)
      | Some t \<Rightarrow>
          if tf_confirmedAt t = None then (False, d)
          else if totp (tf_secret t) code then (True, d)
          else consumeRecoveryCode (tf_id t) (hashCode code) now d)"

definition CHALLENGE_EXPIRED :: error where
  "CHALLENGE_EXPIRED = Unauthorized ''Your sign-in challenge expired - please sign in again.''"

definition requireChallenged :: "twofa_claims \<Rightarrow> people \<Rightarrow> error + login_user" where
  "requireChallenged c d =
     (case findProfile (tc_user c) d of
        None \<Rightarrow> Inl CHALLENGE_EXPIRED
      | Some found \<Rightarrow>
          if us_org (fst found) \<noteq> tc_org c \<or> us_persona (fst found) \<noteq> tc_persona c then Inl CHALLENGE_EXPIRED
          else if us_status (fst found) \<noteq> MActive then Inl (Forbidden ''This account cannot sign in.'')
          else Inr found)"

definition completeTwoFactor ::
  "(string \<Rightarrow> string \<Rightarrow> bool) \<Rightarrow> (string \<Rightarrow> string) \<Rightarrow> token_config \<Rightarrow> error + unit \<Rightarrow> twofa_claims option \<Rightarrow> string \<Rightarrow> session_input \<Rightarrow> instant
    \<Rightarrow> people \<Rightarrow> login_result people_svc" where
  "completeTwoFactor totp hashCode cfg locked claims code inp now d =
     (case claims of
        None \<Rightarrow> (Inl CHALLENGE_EXPIRED, d)
      | Some c \<Rightarrow>
          then_do (pure_step locked d) (\<lambda>_ d.
          then_do (pure_step (requireChallenged c d) d) (\<lambda>found d.
          case verifyTwoFactor totp hashCode (tc_user c) code now d of (ok, d) \<Rightarrow>
            if \<not> ok then (Inl (Unauthorized ''That code didn't work. Try the next one, or a recovery code.''), d)
            else case startSession cfg found (inp\<lparr>si_rememberMe := tc_rememberMe c\<rparr>) now d of (r, d) \<Rightarrow> (Inr r, d))))"

section \<open>Social sign-in\<close>

definition PROVIDERS_BY_AUDIENCE :: "persona \<Rightarrow> provider list" where
  "PROVIDERS_BY_AUDIENCE p = (case p of PAdmin \<Rightarrow> [Google, LinkedIn] | PAttendee \<Rightarrow> [Google, Apple])"

record verified_identity =
  vi_subject :: string
  vi_email :: string
  vi_name :: "string option"
  vi_emailVerified :: bool

record social_input =
  sc_provider :: provider
  sc_idToken :: string
  sc_audience :: persona
  sc_orgSlug :: "string option"
  sc_error :: "string option"
  sc_session :: session_input

definition assertNotCancelled :: "social_input \<Rightarrow> error + unit" where
  "assertNotCancelled inp =
     (if given (sc_error inp) then Inl (Unauthorized ''Sign-in was cancelled.'')
      else if sc_idToken inp = [] then Inl (Unauthorized ''No sign-in token was supplied.'')
      else Inr ())"

definition verify_identity :: "verified_identity option \<Rightarrow> error + verified_identity" where
  "verify_identity v =
     (case v of
        None \<Rightarrow> Inl (Unauthorized ''We could not verify that sign-in. Please try again.'')
      | Some i \<Rightarrow> if vi_emailVerified i then Inr i else Inl (Validation ''{} has not confirmed that email address.'' []))"

definition createSocialAccount ::
  "(string \<Rightarrow> string) \<Rightarrow> verified_identity \<Rightarrow> social_input \<Rightarrow> instant \<Rightarrow> people \<Rightarrow> (ident \<times> ident) people_svc" where
  "createSocialAccount nfkd i inp now d =
     (let name = (case vi_name i of None \<Rightarrow> takeWhile (\<lambda>c. c \<noteq> CHR ''@'') (vi_email i) | Some n \<Rightarrow> n) in
      if sc_audience inp = PAttendee
      then (case createAttendee (case sc_orgSlug inp of None \<Rightarrow> [] | Some s \<Rightarrow> s) name (vi_email i) now d of
              Inl e \<Rightarrow> (Inl e, d)
            | Inr (None, d') \<Rightarrow> (Inl (NotFound ''That workspace does not exist.''), d')
            | Inr (Some a, d') \<Rightarrow> (Inr a, d'))
      else
        let organizationName = name @ [CHR 0x27] @ ''s Workspace'' in
        case uniqueSlug_org (slugify nfkd organizationName ''workspace'') d of
          None \<Rightarrow> (Inl Uncaught, d)
        | Some slug \<Rightarrow>
            (case bootstrapWorkspace \<lparr>bo_organizationName = organizationName, bo_slug = slug, bo_name = name, bo_email = vi_email i,
                    bo_passwordHash = None\<rparr> now d of
               Inl e \<Rightarrow> (Inl e, d)
             | Inr ((org, user, _), d') \<Rightarrow> (Inr (user, org), snd (activateEmail user org d'))))"

definition resolveAccount ::
  "(string \<Rightarrow> string) \<Rightarrow> verified_identity \<Rightarrow> social_input \<Rightarrow> instant \<Rightarrow> people \<Rightarrow> ident people_svc" where
  "resolveAccount nfkd i inp now d =
     (case findBySubject (sc_provider inp) (vi_subject i) d of
        Some (user, _) \<Rightarrow> (Inr user, touchLastUsed (sc_provider inp) (vi_subject i) now d)
      | None \<Rightarrow>
          then_do (case findUserByEmail (vi_email i) (sc_audience inp) (sc_orgSlug inp) d of
                     Some a \<Rightarrow> (Inr a, d) | None \<Rightarrow> createSocialAccount nfkd i inp now d) (\<lambda>(user, org) d.
            case link_social org user (sc_provider inp) (vi_subject i) (vi_email i) now d of
              Inl e \<Rightarrow> (Inl e, d) | Inr d' \<Rightarrow> (Inr user, d')))"

definition loadEligible :: "ident \<Rightarrow> persona \<Rightarrow> people \<Rightarrow> error + login_user" where
  "loadEligible user audience d =
     (case findProfile user d of
        None \<Rightarrow> Inl (Unauthorized ''That account cannot sign in here.'')
      | Some found \<Rightarrow>
          if us_persona (fst found) \<noteq> audience then Inl (Unauthorized ''That account cannot sign in here.'')
          else if us_status (fst found) = MSuspended then Inl (AccountSuspended ''Your access has been suspended.'')
          else Inr found)"

definition socialSignIn ::
  "(string \<Rightarrow> string) \<Rightarrow> token_config \<Rightarrow> verified_identity option \<Rightarrow> social_input \<Rightarrow> instant \<Rightarrow> people \<Rightarrow> login_result people_svc" where
  "socialSignIn nfkd cfg proof inp now d =
     then_do (pure_step (assertNotCancelled inp) d) (\<lambda>_ d.
     if sc_provider inp \<notin> set (PROVIDERS_BY_AUDIENCE (sc_audience inp))
     then (Inl (Validation ''{} sign-in is not available here.'' []), d)
     else if sc_audience inp = PAttendee \<and> \<not> given (sc_orgSlug inp)
     then (Inl (Validation ''An attendee sign-in must say which workspace it is for.'' []), d)
     else then_do (pure_step (verify_identity proof) d) (\<lambda>i d.
       then_do (resolveAccount nfkd i inp now d) (\<lambda>user d.
       then_do (pure_step (loadEligible user (sc_audience inp) d) d) (\<lambda>found d.
         case startSession cfg found (sc_session inp) now d of (r, d) \<Rightarrow> (Inr r, d)))))"

end
