(* ===== verification/BookingClaim.thy ===== *)
theory BookingClaim
  imports AccountService
begin

text \<open>
  The account a booking's buyer may make (\<^verbatim>\<open>auth-booking-signup/\<close>), deleting an account (\<^verbatim>\<open>account-deletion/\<close>), and the
  steps of the identity tables. The booking an order id finds is an argument, as the order port gives it; the ledger of
  used links is the argument \<open>spent\<close>, which is \<open>False\<close> when it cannot be reached.
\<close>

section \<open>Offering the account\<close>

record claimable_booking =
  cb_orderId :: ident
  cb_buyerName :: string
  cb_buyerEmail :: string
  cb_eventName :: string
  cb_confirmed :: bool

definition SIGN_IN_INSTEAD :: error where
  "SIGN_IN_INSTEAD = Conflict ''An account already uses this email. Sign in instead.'' []"
definition INVALID_CLAIM_LINK :: error where
  "INVALID_CLAIM_LINK = ClaimLinkInvalid ''This link has expired or is no longer valid. Ask for a new one from your booking confirmation.''"
definition CLAIM_ORDER_NOT_FOUND :: error where "CLAIM_ORDER_NOT_FOUND = NotFound ''That order could not be found.''"
definition BOOKING_NOT_CONFIRMED :: error where
  "BOOKING_NOT_CONFIRMED = Conflict ''This booking isn't confirmed, so there are no tickets to keep in an account yet.'' []"

definition hasAccount :: "string \<Rightarrow> people \<Rightarrow> bool" where
  "hasAccount email d = (case findPlatformAttendee email d of None \<Rightarrow> False | Some a \<Rightarrow> pt_confirmed a)"

definition bookingOrNotFound :: "claimable_booking option \<Rightarrow> error + claimable_booking" where
  "bookingOrNotFound b = (case b of None \<Rightarrow> Inl CLAIM_ORDER_NOT_FOUND | Some x \<Rightarrow> Inr x)"

definition assertConfirmed :: "claimable_booking \<Rightarrow> error + unit" where
  "assertConfirmed b = check (cb_confirmed b) BOOKING_NOT_CONFIRMED"

definition accountFor :: "claimable_booking option \<Rightarrow> people \<Rightarrow> error + bool" where
  "accountFor booking d =
     bindE (bookingOrNotFound booking) (\<lambda>b. bindE (assertConfirmed b) (\<lambda>_. Inr (hasAccount (cb_buyerEmail b) d)))"

record claim_claims =
  cl_orderId :: ident
  cl_email :: string

definition send_claim_link :: "(claim_claims \<Rightarrow> string) \<Rightarrow> string \<Rightarrow> claimable_booking \<Rightarrow> ident \<Rightarrow> people \<Rightarrow> people" where
  "send_claim_link sign webUrl b platform d =
     enqueue_identity (BookingAccountLinkRequested platform (cb_orderId b) (cb_buyerName b) (cb_buyerEmail b)
       (webUrl @ ''/portal/register?claim='' @ sign \<lparr>cl_orderId = cb_orderId b, cl_email = cb_buyerEmail b\<rparr>)) d"

definition requestLink ::
  "(claim_claims \<Rightarrow> string) \<Rightarrow> string \<Rightarrow> error + unit \<Rightarrow> claimable_booking option \<Rightarrow> people \<Rightarrow> string people_svc" where
  "requestLink sign webUrl allowed booking d =
     then_do (pure_step (bookingOrNotFound booking) d) (\<lambda>b d.
     then_do (pure_step (assertConfirmed b) d) (\<lambda>_ d.
     if hasAccount (cb_buyerEmail b) d then (Inl SIGN_IN_INSTEAD, d)
     else case findPlatformOrganizationId d of
         None \<Rightarrow> (Inl ATTENDEE_ACCOUNTS_UNAVAILABLE, d)
       | Some platform \<Rightarrow>
           then_do (pure_step allowed d) (\<lambda>_ d. (Inr (cb_buyerEmail b), send_claim_link sign webUrl b platform d))))"

section \<open>Claiming it\<close>

record link_standing =
  ls_name :: string
  ls_email :: string
  ls_existing :: "platform_attendee option"

definition confirmed_existing :: "platform_attendee option \<Rightarrow> bool" where
  "confirmed_existing a = (case a of None \<Rightarrow> False | Some x \<Rightarrow> pt_confirmed x)"

definition standingOf ::
  "(ident \<Rightarrow> claimable_booking option) \<Rightarrow> claim_claims option \<Rightarrow> bool \<Rightarrow> people \<Rightarrow> error + link_standing" where
  "standingOf bookings claims spent d =
     (case claims of
        None \<Rightarrow> Inl INVALID_CLAIM_LINK
      | Some c \<Rightarrow>
          (case bookings (cl_orderId c) of
             None \<Rightarrow> Inl INVALID_CLAIM_LINK
           | Some b \<Rightarrow>
               if \<not> same_email (cb_buyerEmail b) (cl_email c) then Inl INVALID_CLAIM_LINK
               else let existing = findPlatformAttendee (cl_email c) d in
                 if spent \<and> \<not> confirmed_existing existing then Inl INVALID_CLAIM_LINK
                 else Inr \<lparr>ls_name = cb_buyerName b, ls_email = cl_email c, ls_existing = existing\<rparr>))"

definition inspectClaim ::
  "(ident \<Rightarrow> claimable_booking option) \<Rightarrow> claim_claims option \<Rightarrow> bool \<Rightarrow> people \<Rightarrow> error + (string \<times> string \<times> bool)" where
  "inspectClaim bookings claims spent d =
     bindE (standingOf bookings claims spent d) (\<lambda>s. Inr (ls_name s, ls_email s, confirmed_existing (ls_existing s)))"

definition createAccount_claim :: "link_standing \<Rightarrow> string \<Rightarrow> instant \<Rightarrow> people \<Rightarrow> ident people_svc" where
  "createAccount_claim s passwordHash now d =
     (case createAttendeeAccount \<lparr>ai_name = ls_name s, ai_email = ls_email s, ai_passwordHash = passwordHash, ai_confirmed = True\<rparr> now d of
        Inl e \<Rightarrow> (Inl (if e = DbViolation uq_users_org_email_persona then SIGN_IN_INSTEAD else e), d)
      | Inr (None, d') \<Rightarrow> (Inl ATTENDEE_ACCOUNTS_UNAVAILABLE, d')
      | Inr (Some (_, user), d') \<Rightarrow> (Inr user, d'))"

definition supersede_claim :: "platform_attendee \<Rightarrow> link_standing \<Rightarrow> string \<Rightarrow> instant \<Rightarrow> people \<Rightarrow> ident people_svc" where
  "supersede_claim a s passwordHash now d =
     (case supersedeUnconfirmedAttendee \<lparr>su_user = pt_user a, su_name = ls_name s, su_passwordHash = passwordHash\<rparr> now d of
        (taken, d') \<Rightarrow> (if taken then Inr (pt_user a) else Inl SIGN_IN_INSTEAD, d'))"

definition claim ::
  "(ident \<Rightarrow> claimable_booking option) \<Rightarrow> token_config \<Rightarrow> claim_claims option \<Rightarrow> bool \<Rightarrow> string \<Rightarrow> session_input \<Rightarrow> instant
    \<Rightarrow> people \<Rightarrow> login_result people_svc" where
  "claim bookings cfg claims spent passwordHash inp now d =
     then_do (pure_step (standingOf bookings claims spent d) d) (\<lambda>s d.
     if confirmed_existing (ls_existing s) then (Inl SIGN_IN_INSTEAD, d)
     else then_do (case ls_existing s of
                     Some a \<Rightarrow> supersede_claim a s passwordHash now d
                   | None \<Rightarrow> createAccount_claim s passwordHash now d) (\<lambda>user d.
       case findProfile user d of
         None \<Rightarrow> (Inl ATTENDEE_ACCOUNTS_UNAVAILABLE, d)
       | Some found \<Rightarrow> (case startSession cfg found (inp\<lparr>si_rememberMe := False\<rparr>) now d of (r, d) \<Rightarrow> (Inr r, d))))"

section \<open>Deleting an account\<close>

definition ACCOUNT_GONE :: error where "ACCOUNT_GONE = Unauthorized ''Your session is no longer valid. Please sign in again.''"
definition NOT_AN_ATTENDEE :: error where
  "NOT_AN_ATTENDEE = Forbidden ''Only attendee accounts can be deleted here - workspace members are managed by their organization.''"
definition NO_PASSWORD_SET :: error where
  "NO_PASSWORD_SET = Forbidden ''Your account signs in with a social provider. Please set a password first (via password reset) to re-verify your identity.''"
definition WRONG_PASSWORD :: error where
  "WRONG_PASSWORD = Forbidden ''That password didn't match - your account is unchanged.''"
definition CODE_REQUIRED :: error where
  "CODE_REQUIRED = Validation ''Your authenticator code is required to delete this account.'' []"
definition WRONG_CODE :: error where "WRONG_CODE = Forbidden ''That code didn't match - your account is unchanged.''"

record delete_input =
  dl_password :: string
  dl_code :: "string option"

definition requireAttendee :: "auth_context \<Rightarrow> people \<Rightarrow> error + user_row" where
  "requireAttendee auth d =
     (case findChangeAccount (ax_org auth) (ax_user auth) d of
        None \<Rightarrow> Inl ACCOUNT_GONE
      | Some u \<Rightarrow> if us_persona u \<noteq> PAttendee then Inl NOT_AN_ATTENDEE else Inr u)"

definition reverifyIdentity ::
  "(string \<Rightarrow> string \<Rightarrow> bool) \<Rightarrow> (string \<Rightarrow> string \<Rightarrow> bool) \<Rightarrow> (string \<Rightarrow> string) \<Rightarrow> auth_context \<Rightarrow> user_row \<Rightarrow> delete_input \<Rightarrow> instant
    \<Rightarrow> people \<Rightarrow> unit people_svc" where
  "reverifyIdentity verify totp hashCode auth u inp now d =
     (if (case us_password u of None \<Rightarrow> True | Some h \<Rightarrow> h = []) then (Inl NO_PASSWORD_SET, d)
      else if \<not> password_fits verify (dl_password inp) u then (Inl WRONG_PASSWORD, d)
      else if \<not> ts_enabled (twofa_status_of auth d) then (Inr (), d)
      else case dl_code inp of
          None \<Rightarrow> (Inl CODE_REQUIRED, d)
        | Some code \<Rightarrow>
            if code = [] then (Inl CODE_REQUIRED, d)
            else case verifyTwoFactor totp hashCode (ax_user auth) code now d of (ok, d') \<Rightarrow> (if ok then Inr () else Inl WRONG_CODE, d'))"

definition deleteAccount ::
  "(string \<Rightarrow> string \<Rightarrow> bool) \<Rightarrow> (string \<Rightarrow> string \<Rightarrow> bool) \<Rightarrow> (string \<Rightarrow> string) \<Rightarrow> error + unit \<Rightarrow> auth_context \<Rightarrow> delete_input \<Rightarrow> instant
    \<Rightarrow> people \<Rightarrow> unit people_svc" where
  "deleteAccount verify totp hashCode locked auth inp now d =
     then_do (pure_step (requireAttendee auth d) d) (\<lambda>u d.
     then_do (pure_step locked d) (\<lambda>_ d.
     then_do (reverifyIdentity verify totp hashCode auth u inp now d) (\<lambda>_ d.
       case scheduleDeletion (ax_org auth) (ax_user auth) (AccountDeletionRequested (us_org u) (us_id u) (us_name u) (us_email u)) now d of
         (scheduled, d) \<Rightarrow> (if scheduled then Inr () else Inl ACCOUNT_GONE, d))))"

section \<open>Everything that happens to the identity tables\<close>

text \<open>One call of a service of the identity modules or of the workspace's members and roles, whatever it answers.\<close>

inductive identity_step :: "people \<Rightarrow> people \<Rightarrow> bool" where
  people: "people_step d d' \<Longrightarrow> identity_step d d'"
| login: "login verify sign url cfg locked inp now d = (r, d') \<Longrightarrow> identity_step d d'"
| logout: "identity_step d (logout auth now d)"
| revoke: "revoke_device auth sid now d = (r, d') \<Longrightarrow> identity_step d d'"
| revoke_others: "revokeOthers auth now d = (n, d') \<Longrightarrow> identity_step d d'"
| register: "register nfkd sign url rinp now d = (r, d') \<Longrightarrow> identity_step d d'"
| verify_email: "verifyEmail claims d = (r, d') \<Longrightarrow> identity_step d d'"
| resend: "requestResend sign url allowed email persona d = (r, d') \<Longrightarrow> identity_step d d'"
| forgot: "forgot signr fingerprint url locked email persona d = (r, d') \<Longrightarrow> identity_step d d'"
| reset: "resetPassword verify fingerprint rclaims pw hash now d = (r, d') \<Longrightarrow> identity_step d d'"
| change: "changePassword verify auth pw pw' hash now d = (r, d') \<Longrightarrow> identity_step d d'"
| enrol: "startTwoFactor auth secret uriFor d = (r, d') \<Longrightarrow> identity_step d d'"
| confirm: "confirmTwoFactor totp hashCode auth code codes now d = (r, d') \<Longrightarrow> identity_step d d'"
| disable: "disableTwoFactor totp hashCode auth code now d = (r, d') \<Longrightarrow> identity_step d d'"
| regenerate: "regenerateRecoveryCodes totp hashCode auth code codes d = (r, d') \<Longrightarrow> identity_step d d'"
| second_factor: "completeTwoFactor totp hashCode cfg locked tclaims code sinp now d = (r, d') \<Longrightarrow> identity_step d d'"
| social: "socialSignIn nfkd cfg proof soinp now d = (r, d') \<Longrightarrow> identity_step d d'"
| request_link: "requestLink signc url allowed booking d = (r, d') \<Longrightarrow> identity_step d d'"
| claimed: "claim bookings cfg cclaims spent hash sinp now d = (r, d') \<Longrightarrow> identity_step d d'"
| deleted: "deleteAccount verify totp hashCode locked auth dinp now d = (r, d') \<Longrightarrow> identity_step d d'"

end
