(* ===== verification/IdentityProps.thy ===== *)
theory IdentityProps
  imports BookingClaim AccessProps
begin

text \<open>
  What the identity modules promise: a session that was ended never works again, a sign-in opens a session only for an
  account it has proven, and an account claimed from a booking belongs to the inbox that received the link.
\<close>

section \<open>Sequences\<close>

lemma then_do_Inr: "then_do m f = (Inr y, d') \<longleftrightarrow> (\<exists>x d1. m = (Inr x, d1) \<and> f x d1 = (Inr y, d'))"
  by (cases m; cases "fst m") auto

lemma then_do_eq: "then_do m f = (r, d') \<longleftrightarrow> (\<exists>e. m = (Inl e, d') \<and> r = Inl e) \<or> (\<exists>x d1. m = (Inr x, d1) \<and> f x d1 = (r, d'))"
  by (cases m; cases "fst m") auto

lemma pure_step_Inr [simp]: "pure_step m d = (Inr x, d1) \<longleftrightarrow> m = Inr x \<and> d1 = d"
  by (auto simp: pure_step_def)

lemma snd_pure_step [simp]: "snd (pure_step m d) = d"
  by (simp add: pure_step_def)

section \<open>Sessions only end\<close>

text \<open>
  What every call does to the sessions: rows keep their id and the time they expire, a revoked one stays revoked, and a
  new row takes an id that was never used.
\<close>

definition sess_le :: "people \<Rightarrow> people \<Rightarrow> bool" where
  "sess_le d d' = (pp_next d \<le> pp_next d' \<and> (\<forall>s'\<in>set (pp_sessions d'). pp_next d \<le> se_id s'
     \<or> (\<exists>s\<in>set (pp_sessions d). se_id s = se_id s' \<and> se_expiresAt s = se_expiresAt s' \<and> (se_revokedAt s \<noteq> None \<longrightarrow> se_revokedAt s' \<noteq> None))))"

lemma sess_le_refl [simp]: "sess_le d d"
  by (auto simp: sess_le_def)

lemma sess_leI:
  assumes "pp_next d \<le> pp_next d'" and "\<And>s'. s' \<in> set (pp_sessions d') \<Longrightarrow> se_id s' < pp_next d \<Longrightarrow>
    \<exists>s\<in>set (pp_sessions d). se_id s = se_id s' \<and> se_expiresAt s = se_expiresAt s' \<and> (se_revokedAt s \<noteq> None \<longrightarrow> se_revokedAt s' \<noteq> None)"
  shows "sess_le d d'"
  using assms by (meson not_less sess_le_def)

lemma sess_leD:
  assumes "sess_le d d'" and "s' \<in> set (pp_sessions d')" and "se_id s' < pp_next d"
  obtains s where "s \<in> set (pp_sessions d)" "se_id s = se_id s'" "se_expiresAt s = se_expiresAt s'" "se_revokedAt s \<noteq> None \<longrightarrow> se_revokedAt s' \<noteq> None"
  using assms unfolding sess_le_def by (meson not_less)

lemma sess_le_next: "sess_le d d' \<Longrightarrow> pp_next d \<le> pp_next d'"
  by (simp add: sess_le_def)

lemma sess_le_trans [trans]:
  assumes "sess_le d1 d2" and "sess_le d2 d3"
  shows "sess_le d1 d3"
proof (rule sess_leI)
  show "pp_next d1 \<le> pp_next d3" using sess_le_next [OF assms(1)] sess_le_next [OF assms(2)] by simp
  fix s3 assume s3: "s3 \<in> set (pp_sessions d3)" "se_id s3 < pp_next d1"
  then have "se_id s3 < pp_next d2" using sess_le_next [OF assms(1)] by simp
  then obtain s2 where s2: "s2 \<in> set (pp_sessions d2)" "se_id s2 = se_id s3" "se_expiresAt s2 = se_expiresAt s3"
    "se_revokedAt s2 \<noteq> None \<longrightarrow> se_revokedAt s3 \<noteq> None" using sess_leD [OF assms(2) s3(1)] by metis
  moreover obtain s1 where "s1 \<in> set (pp_sessions d1)" "se_id s1 = se_id s2" "se_expiresAt s1 = se_expiresAt s2"
    "se_revokedAt s1 \<noteq> None \<longrightarrow> se_revokedAt s2 \<noteq> None" using sess_leD [OF assms(1) s2(1)] s2(2) s3(2) by metis
  ultimately show "\<exists>s\<in>set (pp_sessions d1). se_id s = se_id s3 \<and> se_expiresAt s = se_expiresAt s3 \<and> (se_revokedAt s \<noteq> None \<longrightarrow> se_revokedAt s3 \<noteq> None)"
    by (intro bexI [of _ s1]) simp_all
qed

lemma sess_le_same: "pp_sessions d' = pp_sessions d \<Longrightarrow> pp_next d \<le> pp_next d' \<Longrightarrow> sess_le d d'"
  by (auto simp: sess_le_def)

text \<open>A session that can no longer be used from \<open>t\<close> on, and an id that no later session can take.\<close>

definition ended :: "instant \<Rightarrow> ident \<Rightarrow> people \<Rightarrow> bool" where
  "ended t sid d = (sid < pp_next d \<and> (\<forall>s\<in>set (pp_sessions d). se_id s = sid \<longrightarrow> se_revokedAt s \<noteq> None \<or> se_expiresAt s \<le> t))"

lemma ended_sess_le:
  assumes "ended t sid d" and "sess_le d d'"
  shows "ended t sid d'"
proof -
  have "se_revokedAt s' \<noteq> None \<or> se_expiresAt s' \<le> t" if s': "s' \<in> set (pp_sessions d')" "se_id s' = sid" for s'
  proof -
    from s'(2) assms(1) have "se_id s' < pp_next d" by (simp add: ended_def)
    then obtain s where "s \<in> set (pp_sessions d)" "se_id s = se_id s'" "se_expiresAt s = se_expiresAt s'"
      "se_revokedAt s \<noteq> None \<longrightarrow> se_revokedAt s' \<noteq> None" by (rule sess_leD [OF assms(2) s'(1)])
    with assms(1) s'(2) show ?thesis unfolding ended_def by (metis (no_types))
  qed
  then show ?thesis using assms(1) sess_le_next [OF assms(2)] by (simp add: ended_def)
qed

lemma first_row_None [simp]: "first_row xs = None \<longleftrightarrow> xs = []"
  by (cases xs) auto

lemma first_row_Some: "first_row xs = Some x \<Longrightarrow> x \<in> set xs"
  by (cases xs) auto

lemma ended_refused:
  assumes "ended t sid d" and "t \<le> now"
  shows "findValidSession sid now d = None" "\<not> isSessionLive org sid now d"
  using assms by (auto simp: ended_def findValidSession_def isSessionLive_def live_session_def filter_empty_conv)

section \<open>Every call\<close>

named_theorems sess_intros

lemma revoke_where_sess [sess_intros]: "sess_le d (snd (revoke_where p now d))"
proof (rule sess_leI)
  fix s' assume "s' \<in> set (pp_sessions (snd (revoke_where p now d)))"
  then obtain s where "s \<in> set (pp_sessions d)" "s' = s \<or> s' = s\<lparr>se_revokedAt := Some now\<rparr>"
    by (auto simp: revoke_where_def Let_def in_set_upd)
  then show "\<exists>s\<in>set (pp_sessions d). se_id s = se_id s' \<and> se_expiresAt s = se_expiresAt s' \<and> (se_revokedAt s \<noteq> None \<longrightarrow> se_revokedAt s' \<noteq> None)"
    by (intro bexI [of _ s]) auto
qed (simp add: revoke_where_def Let_def)

lemma then_do_sess:
  "sess_le d (snd m) \<Longrightarrow> (\<And>x d1. m = (Inr x, d1) \<Longrightarrow> sess_le d1 (snd (f x d1))) \<Longrightarrow> sess_le d (snd (then_do m f))"
  by (cases m; cases "fst m") (auto intro: sess_le_trans)

lemma update_user_sess [sess_intros, simp]: "sess_le d (update_user p f d)"
  by (auto intro!: sess_le_same simp: update_user_def)

lemma enqueue_identity_sess [sess_intros, simp]: "sess_le d (enqueue_identity e d)"
  by (auto intro!: sess_le_same simp: enqueue_identity_def)

lemma recordAudit_sess [sess_intros, simp]: "sess_le d (recordAudit a d)"
  by (auto intro!: sess_le_same simp: recordAudit_def)

lemma createSession_sess [sess_intros]: "sess_le d (snd (createSession inp now d))"
  by (auto simp: sess_le_def createSession_def)

lemma openSession_sess: "sess_le d (snd (openSession found inp ttl now d))"
  by (simp add: openSession_def createSession_sess)

lemma recordSignIn_sess [simp]: "sess_le d (recordSignIn found inp now d)"
  unfolding recordSignIn_def touchLastActive_def by (blast intro: sess_le_trans sess_intros)

lemma startSession_sess: "sess_le d (snd (startSession cfg found inp now d))"
proof -
  have "sess_le d (recordSignIn found inp now (snd (openSession found inp ttl now d)))" for ttl
    by (blast intro: sess_le_trans openSession_sess recordSignIn_sess)
  then show ?thesis by (simp add: startSession_def Let_def split_def)
qed

lemma fold_sess: "(\<And>x d. sess_le d (f x d)) \<Longrightarrow> sess_le d (fold f xs d)"
  by (induction xs arbitrary: d) (auto intro: sess_le_trans)

lemma resendVerification_sess [simp]: "sess_le d (resendVerification sign url p d)"
  by (simp add: resendVerification_def)

lemma login_sess: "sess_le d (snd (login verify sign url cfg locked inp now d))"
proof -
  have audits: "sess_le d (fold (auditFail inp) cs d)" for cs d by (rule fold_sess) (simp add: auditFail_def)
  have by_password: "sess_le d (snd (resolveByPassword verify inp d))" for d
    by (auto simp: resolveByPassword_def Let_def audits split: list.splits)
  have named: "sess_le d (snd (authenticate verify slug inp d))" for slug d
    by (auto simp: authenticate_def auditFail_def split: option.splits)
  have eligible: "sess_le d (snd (assertEligible sign url found d))" for found d
    by (auto simp: assertEligible_def split: member_status.splits)
  have start: "sess_le d (snd (case startSession cfg found i now d of (r, d) \<Rightarrow> (Inr (LoggedIn r), d)))" for found i d
    using startSession_sess [of d cfg found i now] by (simp add: split_def)
  show ?thesis unfolding login_def
    by (intro then_do_sess) (auto intro!: then_do_sess simp: by_password named eligible start split: option.splits sum.splits)
qed

lemma revoke_device_sess: "sess_le d (snd (revoke_device auth sid now d))"
  by (simp add: revoke_device_def revokeOwn_def split_def revoke_where_sess)

lemma setPassword_sess: "sess_le d (setPassword org user hash keep notice now d)"
proof -
  have step: "sess_le d (snd (revoke_where p now (update_user q f d)))" for p q f
    by (blast intro: sess_le_trans sess_intros)
  show ?thesis unfolding setPassword_def Let_def split_def
    by (cases notice) (simp_all add: step sess_le_trans [OF step enqueue_identity_sess])
qed

lemma insert_user_sess: "insert_user u d = Inr d' \<Longrightarrow> sess_le d d'"
  by (auto simp: insert_user_def intro!: sess_le_same split: if_splits)

lemma createAttendeeAccount_sess: "createAttendeeAccount inp now d = Inr (x, d') \<Longrightarrow> sess_le d d'"
  by (auto simp: createAttendeeAccount_def bindE_Inr_iff intro: insert_user_sess split: option.splits)

lemma insertDefaultRoles_sess: "insertDefaultRoles org rs d = Inr (ids, d') \<Longrightarrow> sess_le d d'"
proof (induction org rs d arbitrary: ids d' rule: insertDefaultRoles.induct)
  case (2 org name description grants rs d)
  let ?d = "d\<lparr>pp_roles := pp_roles d @ [\<lparr>ro_id = pp_next d, ro_org = org, ro_name = name, ro_description = description, ro_isSystem = True\<rparr>],
    pp_next := pp_next d + 1, pp_grants := pp_grants d @ map (\<lambda>k. \<lparr>gr_role = pp_next d, gr_key = k, gr_granted = True\<rparr>) grants\<rparr>"
  from "2.prems" obtain ids' where "insertDefaultRoles org rs ?d = Inr (ids', d')"
    by (auto simp: Let_def bindE_Inr_iff split: if_splits)
  with "2.prems" have "sess_le ?d d'" by (intro "2.IH" [of _ _ ids']) (auto simp: Let_def split: if_splits)
  then show ?case by (rule sess_le_trans [rotated]) (simp add: sess_le_same)
qed simp

lemma bootstrapWorkspace_sess:
  assumes "bootstrapWorkspace inp now d = Inr (x, d')"
  shows "sess_le d d'"
proof -
  let ?d0 = "\<lambda>orgs us. ensureCatalog (d\<lparr>pp_orgs := orgs, pp_users := us, pp_next := pp_next d + 1 + 1\<rparr>)"
  from assms obtain orgs us ids d1 where roles: "insertDefaultRoles (pp_next d) DEFAULT_ROLES (?d0 orgs us) = Inr (ids, d1)"
    and d': "pp_sessions d' = pp_sessions d1" "pp_next d' = pp_next d1 + 1"
    by (auto simp: bootstrapWorkspace_def Let_def bindE_Inr_iff split: if_splits option.splits)
  have "sess_le d (?d0 orgs us)" by (rule sess_le_same) (simp_all add: ensureCatalog_def)
  also note insertDefaultRoles_sess [OF roles]
  also have "sess_le d1 d'" by (rule sess_le_same) (simp_all add: d')
  finally show ?thesis .
qed

lemma bootstrapOrRefuse_sess: "sess_le d (snd (bootstrapOrRefuse inp now d))"
  by (auto simp: bootstrapOrRefuse_def intro: bootstrapWorkspace_sess split: sum.splits)

lemma register_sess: "sess_le d (snd (register nfkd sign url inp now d))"
proof -
  have attendee: "sess_le d (snd (registerAttendee sign url inp now d))"
    by (auto simp: registerAttendee_def intro: sess_le_trans createAttendeeAccount_sess resendVerification_sess split: sum.splits option.splits)
  show ?thesis
    by (auto simp: register_def Let_def attendee split_def intro!: then_do_sess bootstrapOrRefuse_sess split: option.splits)
qed

lemma activateEmail_sess: "sess_le d (snd (activateEmail user org d))"
  by (auto simp: activateEmail_def Let_def split: option.splits)

lemma verifyEmail_sess: "sess_le d (snd (verifyEmail claims d))"
proof -
  have "snd (verifyEmail claims d) = (case claims of None \<Rightarrow> d | Some (user, org) \<Rightarrow> snd (activateEmail user org d))"
    by (auto simp: verifyEmail_def split: option.splits prod.splits)
  then show ?thesis by (auto simp: activateEmail_sess split: option.splits)
qed

lemma requestResend_sess: "sess_le d (snd (requestResend sign url allowed email persona d))"
  by (auto simp: requestResend_def intro!: then_do_sess split: option.splits)

lemma forgot_sess: "sess_le d (snd (forgot sign fingerprint url locked email persona d))"
  by (auto simp: forgot_def Let_def sendResetLink_def intro!: then_do_sess fold_sess split: sum.splits)

lemma resetPassword_sess: "sess_le d (snd (resetPassword verify fingerprint claims pw hash now d))"
  by (auto simp: resetPassword_def intro!: then_do_sess setPassword_sess)

lemma changePassword_sess: "sess_le d (snd (changePassword verify auth pw pw' hash now d))"
  by (auto simp: changePassword_def intro!: then_do_sess setPassword_sess)

lemma startTwoFactor_sess: "sess_le d (snd (startTwoFactor auth secret uriFor d))"
proof -
  have put: "sess_le d (upsertPending org user secret uri d)" for org user uri d
    by (auto simp: upsertPending_def intro!: sess_le_same)
  show ?thesis by (auto simp: startTwoFactor_def put intro!: then_do_sess)
qed

lemma replaceRecoveryCodes_sess: "replaceRecoveryCodes tf hashes d = Inr d' \<Longrightarrow> sess_le d d'"
  by (auto simp: replaceRecoveryCodes_def intro!: sess_le_same split: if_splits)

lemma confirmTwoFactor_sess: "sess_le d (snd (confirmTwoFactor totp hashCode auth code codes now d))"
proof -
  have "sess_le d d'" if "confirm_twofa user tf hashes now d = Inr d'" for user tf hashes d'
    using that by (auto simp: confirm_twofa_def Let_def update_user_def replaceRecoveryCodes_def intro!: sess_le_same split: if_splits)
  then show ?thesis by (auto simp: confirmTwoFactor_def split: sum.splits)
qed

lemma consumeRecoveryCode_sess: "sess_le d (snd (consumeRecoveryCode tf hash now d))"
  by (auto simp: consumeRecoveryCode_def Let_def intro!: sess_le_same)

lemma disableTwoFactor_sess: "sess_le d (snd (disableTwoFactor totp hashCode auth code now d))"
proof -
  have code: "sess_le d (snd (assertCodeOrRecovery totp hashCode t code now d))" for t
    using consumeRecoveryCode_sess by (simp add: assertCodeOrRecovery_def split_def)
  have off: "sess_le d (disable_twofa user tf d)" for user tf d
    by (auto simp: disable_twofa_def update_user_def intro!: sess_le_same)
  have rest: "sess_le d (snd (then_do (pure_step (load_own_profile auth (disable_twofa user tf d)) (disable_twofa user tf d)) (\<lambda>u d. (Inr (), enqueue_identity (e u) d))))"
    for user tf d e by (rule sess_le_trans [OF off [of d user tf]]) (auto intro!: then_do_sess)
  show ?thesis unfolding disableTwoFactor_def Let_def
    by (auto intro!: then_do_sess code rest split: sum.splits)
qed

lemma regenerateRecoveryCodes_sess: "sess_le d (snd (regenerateRecoveryCodes totp hashCode auth code codes d))"
  by (auto simp: regenerateRecoveryCodes_def intro: replaceRecoveryCodes_sess split: sum.splits)

lemma verifyTwoFactor_sess: "sess_le d (snd (verifyTwoFactor totp hashCode user code now d))"
  by (auto simp: verifyTwoFactor_def consumeRecoveryCode_sess split: option.splits)

lemma completeTwoFactor_sess: "sess_le d (snd (completeTwoFactor totp hashCode cfg locked claims code inp now d))"
  by (auto simp: completeTwoFactor_def split_def intro!: then_do_sess verifyTwoFactor_sess sess_le_trans [OF verifyTwoFactor_sess startSession_sess]
      split: option.splits)

lemma createSocialAccount_sess: "sess_le d (snd (createSocialAccount nfkd i inp now d))"
proof -
  have attendee: "sess_le d d'" if "createAttendee slug name email now d = Inr (x, d')" for slug name email x d'
    using that by (auto simp: createAttendee_def bindE_Inr_iff intro: insert_user_sess split: option.splits)
  show ?thesis
    by (auto simp: createSocialAccount_def Let_def intro: attendee sess_le_trans [OF bootstrapWorkspace_sess activateEmail_sess]
        split: sum.splits option.splits)
qed

lemma resolveAccount_sess: "sess_le d (snd (resolveAccount nfkd i inp now d))"
proof -
  have link: "sess_le d d'" if "link_social org user p subject email now d = Inr d'" for org user p subject email d d'
    using that by (auto simp: link_social_def Let_def intro!: sess_le_same split: if_splits)
  have touch: "sess_le d (touchLastUsed p subject now d)" for p subject
    by (auto simp: touchLastUsed_def intro!: sess_le_same)
  show ?thesis
    by (auto simp: resolveAccount_def touch createSocialAccount_sess intro!: then_do_sess intro: link split: option.splits sum.splits)
qed

lemma socialSignIn_sess: "sess_le d (snd (socialSignIn nfkd cfg proof inp now d))"
  by (auto simp: socialSignIn_def split_def intro!: then_do_sess resolveAccount_sess startSession_sess)

lemma requestLink_sess: "sess_le d (snd (requestLink sign url allowed booking d))"
  by (auto simp: requestLink_def send_claim_link_def intro!: then_do_sess split: option.splits)

lemma supersede_sess: "sess_le d (snd (supersedeUnconfirmedAttendee inp now d))"
  by (auto simp: supersedeUnconfirmedAttendee_def Let_def intro: sess_le_trans [OF update_user_sess revoke_where_sess] split: option.splits)

lemma claim_sess: "sess_le d (snd (claim bookings cfg claims spent hash inp now d))"
proof -
  have create: "sess_le d (snd (createAccount_claim s hash now d))" for s
    by (auto simp: createAccount_claim_def intro: createAttendeeAccount_sess split: sum.splits option.splits)
  have take: "sess_le d (snd (supersede_claim a s hash now d))" for a s
    using supersede_sess by (simp add: supersede_claim_def split_def)
  show ?thesis
    by (auto simp: claim_def split_def create take intro!: then_do_sess startSession_sess split: option.splits)
qed

lemma deleteAccount_sess: "sess_le d (snd (deleteAccount verify totp hashCode locked auth inp now d))"
proof -
  have proven: "sess_le d (snd (reverifyIdentity verify totp hashCode auth u inp now d))" for u d
    using verifyTwoFactor_sess by (auto simp: reverifyIdentity_def split_def split: option.splits)
  have gone: "sess_le d (snd (scheduleDeletion org user e now d))" for org user e d
    by (auto simp: scheduleDeletion_def Let_def intro: sess_le_trans [OF sess_le_trans [OF update_user_sess revoke_where_sess] enqueue_identity_sess])
  show ?thesis
    by (auto simp: deleteAccount_def split_def proven gone intro!: then_do_sess)
qed

section \<open>The calls on members and roles\<close>

lemma member_revokes_sess: "sess_le d (setMemberStatus org i st now d)" "sess_le d (removeMember_tx org i now d)"
proof -
  have revoke: "sess_le d (revokeSessions user now d')" if "pp_sessions d' = pp_sessions d" "pp_next d' = pp_next d" for user d'
  proof -
    have "revokeSessions user now d' = snd (revoke_where (\<lambda>s. se_user s = user) now d')"
      by (simp add: revokeSessions_def revoke_where_def Let_def)
    with that show ?thesis using sess_le_trans [OF sess_le_same revoke_where_sess] by simp
  qed
  show "sess_le d (setMemberStatus org i st now d)"
    by (auto simp: setMemberStatus_def updateMember_def Let_def intro: revoke sess_le_same split: option.splits)
  show "sess_le d (removeMember_tx org i now d)"
    by (auto simp: removeMember_tx_def updateMember_def Let_def intro: revoke split: option.splits)
qed

lemma people_tx_sess: "(\<And>x d'. m = Inr (x, d') \<Longrightarrow> sess_le d d') \<Longrightarrow> sess_le d (snd (people_tx m d))"
  by (auto simp: people_tx_def split: sum.splits)

lemma setRolePermissions_tx_sess: "setRolePermissions_tx org role keys audit d = Inr d' \<Longrightarrow> sess_le d d'"
  by (auto simp: setRolePermissions_tx_def Let_def intro!: sess_le_same split: if_splits)

lemma people_step_sess:
  assumes "people_step d d'"
  shows "sess_le d d'"
  using assms
proof cases
  case (founded inp now r)
  then show ?thesis by (rule bootstrapWorkspace_sess)
next
  case (invited sign url org inp now r)
  then show ?thesis
    by (auto simp: inviteMember_def createInvitedMember_def Let_def intro!: sess_le_same split: if_splits option.splits sum.splits)
next
  case (accepted claims hash now r)
  then show ?thesis by (auto simp: acceptInvite_def activateInvite_def intro!: sess_le_same split: option.splits)
next
  case (moved org i role actor r)
  then have d': "d' = snd (changeMemberRole org i role actor d)" by simp
  have "sess_le d d'" if "moveToRole org m role t actor d = Inr d'" for m t d'
    using that by (auto simp: moveToRole_def bindE_Inr_iff updateMemberRole_def updateMember_def intro!: sess_le_same split: option.splits)
  then show ?thesis unfolding d' changeMemberRole_def by (intro people_tx_sess) (auto simp: bindE_Inr_iff split: if_splits)
next
  case (suspended org i now r)
  then have "d' = snd (suspendMember org i now d)" by simp
  then show ?thesis by (auto simp: suspendMember_def Let_def bindE_Inr_iff intro!: people_tx_sess member_revokes_sess)
next
  case (reactivated org i now r)
  then have "d' = snd (reactivateMember org i now d)" by simp
  then show ?thesis by (auto simp: reactivateMember_def Let_def bindE_Inr_iff intro!: people_tx_sess member_revokes_sess)
next
  case (removed org i now r)
  then have "d' = snd (removeMember org i now d)" by simp
  then show ?thesis by (auto simp: removeMember_def Let_def bindE_Inr_iff intro!: people_tx_sess member_revokes_sess)
next
  case (role_made org actor inp r)
  then have d': "d' = snd (createRole org actor inp d)" by simp
  have row: "sess_le d d1" if "createRole_row org n ds d = Inr (i, d1)" for n ds i d1
    using that by (auto simp: createRole_row_def Let_def intro!: sess_le_same split: if_splits)
  have rest: "sess_le d (snd (people_tx m d1))"
    if "createRole_row org n ds d = Inr (i, d1)" and "\<And>x d'. m = Inr (x, d') \<Longrightarrow> sess_le d1 d'"
    for n ds i d1 and m :: "error + (role_view \<times> people)"
    by (rule sess_le_trans [OF row [OF that(1)]], rule people_tx_sess, rule that(2))
  have tx: "sess_le d (snd (people_tx (bindE (setRolePermissions_tx org i ks a d1) (\<lambda>d'. bindE (needRole org i d') (\<lambda>r. Inr (r, d')))) d1))"
    if "createRole_row org n ds d = Inr (i, d1)" for n ds i d1 ks a
    by (rule rest [OF that]) (auto simp: bindE_Inr_iff intro: setRolePermissions_tx_sess)
  show ?thesis unfolding d' createRole_def Let_def by (auto split: sum.splits intro: tx)
next
  case (role_saved org actor role keys r)
  then show ?thesis
    by (cases r) (auto dest!: refused_same elim!: setRolePermissions_D intro: setRolePermissions_tx_sess)
qed

lemma identity_step_sess: "identity_step d d' \<Longrightarrow> sess_le d d'"
proof (induction rule: identity_step.induct)
  case (logout d auth now)
  show ?case unfolding logout_def revokeSession_def by (rule sess_le_trans [OF revoke_where_sess recordAudit_sess])
next
  case (revoke_others auth now d n d')
  then have "d' = snd (revokeOthers auth now d)" by simp
  then show ?case by (simp add: revokeOthers_def revokeOthers_tx_def revoke_where_sess)
qed (metis snd_conv people_step_sess login_sess revoke_device_sess register_sess verifyEmail_sess requestResend_sess forgot_sess
      resetPassword_sess changePassword_sess startTwoFactor_sess confirmTwoFactor_sess disableTwoFactor_sess
      regenerateRecoveryCodes_sess completeTwoFactor_sess socialSignIn_sess requestLink_sess claim_sess deleteAccount_sess)+

lemma identity_run_sess: "identity_step\<^sup>*\<^sup>* d d' \<Longrightarrow> sess_le d d'"
  by (induction rule: rtranclp_induct) (auto intro: sess_le_trans identity_step_sess)

section \<open>Signing out is final\<close>

text \<open>The calls that end a session \<open>sid\<close> at \<open>t\<close>, from the table's point of view.\<close>

definition session_of :: "ident \<Rightarrow> ident \<Rightarrow> ident \<Rightarrow> people \<Rightarrow> bool" where
  "session_of sid org user d = (\<exists>s\<in>set (pp_sessions d). se_id s = sid \<and> se_org s = org \<and> se_user s = user)"

inductive signs_out :: "instant \<Rightarrow> ident \<Rightarrow> people \<Rightarrow> people \<Rightarrow> bool" for t sid d where
  logged_out: "signs_out t sid d d'" if "d' = logout auth t d" "ax_session auth = sid"
| device: "signs_out t sid d d'" if "revoke_device auth sid t d = (Inr (), d')"
| elsewhere: "signs_out t sid d d'" if "revokeOthers auth t d = (n, d')" "session_of sid (ax_org auth) (ax_user auth) d" "sid \<noteq> ax_session auth"
| reset: "signs_out t sid d d'" if "resetPassword verify fingerprint (Some c) pw hash t d = (Inr (), d')" "session_of sid (rs_org c) (rs_user c) d"
| changed: "signs_out t sid d d'"
    if "changePassword verify auth pw pw' hash t d = (Inr (), d')" "session_of sid (ax_org auth) (ax_user auth) d" "sid \<noteq> ax_session auth"
| suspended: "signs_out t sid d d'" if "suspendMember org i t d = (Inr v, d')" "getMember org i d = Inr m" "session_of sid so (mv_user m) d"
| removed: "signs_out t sid d d'" if "removeMember org i t d = (Inr (), d')" "getMember org i d = Inr m" "session_of sid so (mv_user m) d"
| deleted: "signs_out t sid d d'"
    if "deleteAccount verify totp hashCode locked auth dinp t d = (Inr (), d')" "session_of sid so (ax_user auth) d"

text \<open>Session ids are keys, and none is in the future.\<close>

definition sessions_ok :: "people \<Rightarrow> bool" where
  "sessions_ok d = (distinct (map se_id (pp_sessions d)) \<and> (\<forall>s\<in>set (pp_sessions d). se_id s < pp_next d))"

lemma revoke_where_ends:
  assumes "sessions_ok d" and "s \<in> set (pp_sessions d)" and "se_id s = sid" and "p s \<or> se_expiresAt s \<le> t"
  shows "ended t sid (snd (revoke_where p t d))"
proof -
  have only: "x = s" if "x \<in> set (pp_sessions d)" "se_id x = sid" for x
    using that assms(1-3) by (auto simp: sessions_ok_def distinct_map dest: inj_onD)
  have "sid < pp_next d" using assms(1-3) by (auto simp: sessions_ok_def)
  then show ?thesis using only assms(4) by (auto simp: ended_def revoke_where_def Let_def in_set_upd)
qed

lemma ended_after: "ended t sid d \<Longrightarrow> sess_le d d' \<Longrightarrow> ended t sid d'" by (rule ended_sess_le)

lemma sessions_ok_same: "pp_sessions d' = pp_sessions d \<Longrightarrow> pp_next d' = pp_next d \<Longrightarrow> sessions_ok d \<Longrightarrow> sessions_ok d'"
  by (simp add: sessions_ok_def)

text \<open>A new password ends every session of the account that is not the one kept.\<close>

lemma setPassword_ends:
  assumes ok: "sessions_ok d" and s: "session_of sid org user d" and keep: "keep \<noteq> Some sid"
  shows "ended t sid (setPassword org user hash keep notice t d)"
proof -
  from s obtain row where row: "row \<in> set (pp_sessions d)" "se_id row = sid" "se_org row = org" "se_user row = user"
    by (auto simp: session_of_def)
  let ?d = "update_user (\<lambda>u. us_id u = user \<and> us_org u = org) (\<lambda>u. u\<lparr>us_password := Some hash\<rparr>) d"
  let ?p = "\<lambda>s. se_user s = user \<and> se_org s = org \<and> t < se_expiresAt s \<and> (case keep of None \<Rightarrow> True | Some k \<Rightarrow> se_id s \<noteq> k)"
  have "sessions_ok ?d" using ok by (rule sessions_ok_same [rotated 2]) (simp_all add: update_user_def)
  then have "ended t sid (snd (revoke_where ?p t ?d))"
    by (rule revoke_where_ends) (use row keep in \<open>auto simp: update_user_def not_less split: option.splits\<close>)
  then show ?thesis
    unfolding setPassword_def Let_def split_def by (cases notice) (simp_all add: ended_after [OF _ enqueue_identity_sess])
qed

lemma member_revokes_end:
  assumes ok: "sessions_ok d" and ids: "distinct (map mb_id (pp_members d))"
    and m: "getMember org i d = Inr m" and s: "session_of sid so (mv_user m) d"
  shows "ended t sid (setMemberStatus org i MSuspended t d)" "ended t sid (removeMember_tx org i t d)"
proof -
  from getMember_D [OF m] obtain row where row: "row \<in> set (pp_members d)" "mb_id row = i" "mb_org row = org" "mb_user row = mv_user m"
    by auto
  have found: "find (\<lambda>m. mb_id m = i \<and> mb_org m = org) (pp_members d) = Some row"
    by (rule find_uniq [of mb_id]) (use ids row in auto)
  from s obtain x where x: "x \<in> set (pp_sessions d)" "se_id x = sid" "se_user x = mv_user m" by (auto simp: session_of_def)
  have revoke: "ended t sid (revokeSessions (mb_user row) t d')" if "pp_sessions d' = pp_sessions d" "pp_next d' = pp_next d" for d'
  proof -
    have "revokeSessions (mb_user row) t d' = snd (revoke_where (\<lambda>s. se_user s = mb_user row) t d')"
      by (simp add: revokeSessions_def revoke_where_def Let_def)
    with revoke_where_ends [OF sessions_ok_same [OF that ok], of x sid "\<lambda>s. se_user s = mb_user row"] x row(4) that show ?thesis by simp
  qed
  show "ended t sid (setMemberStatus org i MSuspended t d)" "ended t sid (removeMember_tx org i t d)"
    by (auto simp: setMemberStatus_def removeMember_tx_def found updateMember_def Let_def intro: revoke)
qed

lemma deleteAccount_D:
  assumes "deleteAccount verify totp hashCode locked auth dinp t d = (Inr (), d')"
  obtains u d1 where "reverifyIdentity verify totp hashCode auth u dinp t d = (Inr (), d1)"
    "scheduleDeletion (ax_org auth) (ax_user auth) (AccountDeletionRequested (us_org u) (us_id u) (us_name u) (us_email u)) t d1 = (True, d')"
proof -
  from assms obtain u x d1 where r: "reverifyIdentity verify totp hashCode auth u dinp t d = (Inr x, d1)"
    and s: "(case scheduleDeletion (ax_org auth) (ax_user auth) (AccountDeletionRequested (us_org u) (us_id u) (us_name u) (us_email u)) t d1 of
         (scheduled, d) \<Rightarrow> (if scheduled then Inr () else Inl ACCOUNT_GONE, d)) = (Inr (), d')"
    unfolding deleteAccount_def then_do_Inr pure_step_Inr by blast
  show thesis
  proof (rule that)
    show "reverifyIdentity verify totp hashCode auth u dinp t d = (Inr (), d1)" using r by simp
    show "scheduleDeletion (ax_org auth) (ax_user auth) (AccountDeletionRequested (us_org u) (us_id u) (us_name u) (us_email u)) t d1 = (True, d')"
      using s by (cases "scheduleDeletion (ax_org auth) (ax_user auth) (AccountDeletionRequested (us_org u) (us_id u) (us_name u) (us_email u)) t d1") (simp split: if_splits)
  qed
qed

lemma deleteAccount_ends:
  assumes "deleteAccount verify totp hashCode locked auth dinp t d = (Inr (), d')"
    and ok: "sessions_ok d" and s: "session_of sid so (ax_user auth) d"
  shows "ended t sid d'"
proof -
  have code: "pp_sessions (snd (reverifyIdentity verify totp hashCode auth u dinp t d)) = pp_sessions d
      \<and> pp_next (snd (reverifyIdentity verify totp hashCode auth u dinp t d)) = pp_next d" for u
    by (auto simp: reverifyIdentity_def verifyTwoFactor_def consumeRecoveryCode_def Let_def split_def split: option.splits)
  from assms(1) obtain u d1 where "reverifyIdentity verify totp hashCode auth u dinp t d = (Inr (), d1)"
    and sched: "scheduleDeletion (ax_org auth) (ax_user auth) (AccountDeletionRequested (us_org u) (us_id u) (us_name u) (us_email u)) t d1 = (True, d')"
    by (rule deleteAccount_D)
  then have d1: "pp_sessions d1 = pp_sessions d" "pp_next d1 = pp_next d" using code [of u] by simp_all
  from s obtain row where row: "row \<in> set (pp_sessions d)" "se_id row = sid" "se_user row = ax_user auth" by (auto simp: session_of_def)
  have "ended t sid (snd (revoke_where (\<lambda>s. se_user s = ax_user auth) t (update_user p f d1)))" for p f
    by (rule revoke_where_ends [OF sessions_ok_same [OF _ _ ok]]) (use d1 row in \<open>auto simp: update_user_def\<close>)
  then have "ended t sid (enqueue_identity e (snd (revoke_where (\<lambda>s. se_user s = ax_user auth) t (update_user p f d1))))" for p f e
    by (rule ended_after [OF _ enqueue_identity_sess])
  then show ?thesis using sched by (auto simp: scheduleDeletion_def Let_def split: if_splits)
qed

lemma signs_out_ends:
  assumes "signs_out t sid d d'" and ok: "sessions_ok d" and ids: "distinct (map mb_id (pp_members d))" and s: "session_of sid so su d"
  shows "ended t sid d'"
proof -
  from s obtain row where row: "row \<in> set (pp_sessions d)" "se_id row = sid" by (auto simp: session_of_def)
  from assms(1) show ?thesis
  proof cases
    case (logged_out auth)
    have "ended t sid (snd (revoke_where (\<lambda>s. se_id s = ax_session auth) t d))"
      by (rule revoke_where_ends [OF ok]) (use row logged_out in auto)
    then show ?thesis using logged_out by (auto simp: logout_def revokeSession_def intro: ended_after)
  next
    case (device auth)
    then have "0 < fst (revoke_where (\<lambda>s. se_id s = sid \<and> se_org s = ax_org auth \<and> se_user s = ax_user auth) t d)"
      and d': "d' = snd (revoke_where (\<lambda>s. se_id s = sid \<and> se_org s = ax_org auth \<and> se_user s = ax_user auth) t d)"
      by (auto simp: revoke_device_def revokeOwn_def split_def split: if_splits)
    then obtain x where "x \<in> set (pp_sessions d)" "se_id x = sid" "se_org x = ax_org auth" "se_user x = ax_user auth"
      by (auto simp: revoke_where_def Let_def filter_empty_conv)
    then show ?thesis unfolding d' by (intro revoke_where_ends [OF ok]) auto
  next
    case (elsewhere auth n)
    then obtain x where x: "x \<in> set (pp_sessions d)" "se_id x = sid" "se_org x = ax_org auth" "se_user x = ax_user auth"
      by (auto simp: session_of_def)
    have "ended t sid (snd (revoke_where (\<lambda>s. se_org s = ax_org auth \<and> se_user s = ax_user auth \<and> se_id s \<noteq> ax_session auth) t d))"
      by (rule revoke_where_ends [OF ok x(1,2)]) (use x elsewhere(3) in auto)
    then show ?thesis using elsewhere(1) by (simp add: revokeOthers_def revokeOthers_tx_def)
  next
    case (reset verify fingerprint c pw hash)
    then have "d' = setPassword (rs_org c) (rs_user c) hash None None t d"
      by (auto simp: resetPassword_def then_do_Inr accountOfGoodLink_def findResetLinkAccount_def accounts_def
          split: option.splits if_splits dest!: first_row_Some)
    then show ?thesis using setPassword_ends [OF ok reset(2)] by simp
  next
    case (changed verify auth pw pw' hash)
    then show ?thesis using setPassword_ends [OF ok changed(2)] by (auto simp: changePassword_def then_do_Inr)
  next
    case (suspended org i v m so)
    then show ?thesis using suspendMember_D [OF suspended(1)] member_revokes_end(1) [OF ok ids suspended(2,3)] by simp
  next
    case (removed org i m so)
    then show ?thesis using removeMember_D [OF removed(1)] member_revokes_end(2) [OF ok ids removed(2,3)] by simp
  next
    case (deleted verify totp hashCode locked auth dinp so)
    then show ?thesis by (intro deleteAccount_ends [OF deleted(1) ok])
  qed
qed

text \<open>
  C12. A session that was signed out is over for good: after a sign-out, the sign-out of a device or of all others, a
  password reset or change, a suspension, a removal or the deletion of the account, neither the refresh token nor an
  access token of that session is accepted again, whatever anybody calls afterwards.
\<close>
theorem signed_out_for_good:
  assumes "signs_out t sid d d1" and "sessions_ok d" and "people_ok d" and "session_of sid so su d"
    and "identity_step\<^sup>*\<^sup>* d1 d2" and "t \<le> now" and "sj_session c = sid"
  shows "refresh_token cfg (Some c) now d2 = Inl SESSION_GONE \<and> \<not> isSessionLive org sid now d2"
proof -
  have "ended t sid d1" using signs_out_ends [OF assms(1,2) _ assms(4)] assms(3) by (simp add: people_ok_def)
  then have "ended t sid d2" using identity_run_sess [OF assms(5)] by (rule ended_sess_le)
  from ended_refused [OF this assms(6)] show ?thesis
    using assms(7) by (simp add: refresh_token_def assertSessionLive_def check_def)
qed

section \<open>Signing in\<close>

lemma first_account:
  assumes "first_row (accounts p d) = Some (u, g)"
  shows "u \<in> set (pp_users d) \<and> g \<in> set (pp_orgs d) \<and> og_id g = us_org u \<and> p u g"
  using first_row_Some [OF assms] by (auto simp: accounts_def)

lemma startSession_result:
  assumes "startSession cfg found inp now d = (r, d')"
  shows "sj_session (lr_accessToken r) = pp_next d \<and> sj_user (lr_accessToken r) = us_id (fst found) \<and> fst (lr_refreshToken r) = lr_accessToken r
     \<and> (\<exists>s. pp_sessions d' = pp_sessions d @ [s] \<and> se_id s = pp_next d \<and> se_user s = us_id (fst found) \<and> se_revokedAt s = None)
     \<and> pp_users d' = upd (\<lambda>u. us_id u = us_id (fst found)) (\<lambda>u. u\<lparr>us_lastActiveAt := Some now\<rparr>) (pp_users d)
     \<and> pp_orgs d' = pp_orgs d"
  using assms by (auto simp: startSession_def openSession_def createSession_def issueTokens_def recordSignIn_def touchLastActive_def
      update_user_def enqueue_identity_def Let_def)

lemma resolveByPassword_D:
  assumes "resolveByPassword verify inp d = (Inr (Inr (u, g)), d1)"
  shows "d1 = d \<and> u \<in> set (pp_users d) \<and> us_deletedAt u = None \<and> same_email (us_email u) (li_email inp)
     \<and> us_persona u = login_persona inp \<and> password_fits verify (li_password inp) u"
proof -
  from assms have "d1 = d" and one: "filter (\<lambda>c. password_fits verify (li_password inp) (fst c))
      (findLoginCandidates (li_email inp) (login_persona inp) MAX_LOGIN_CANDIDATES d) = [(u, g)]"
    by (auto simp: resolveByPassword_def Let_def split: list.splits)
  from one have "(u, g) \<in> set (filter (\<lambda>c. password_fits verify (li_password inp) (fst c))
      (findLoginCandidates (li_email inp) (login_persona inp) MAX_LOGIN_CANDIDATES d))" by simp
  then have "(u, g) \<in> set (findLoginCandidates (li_email inp) (login_persona inp) MAX_LOGIN_CANDIDATES d)" "password_fits verify (li_password inp) u"
    by simp_all
  then show ?thesis using \<open>d1 = d\<close> by (auto simp: findLoginCandidates_def accounts_def dest: in_set_takeD)
qed

lemma authenticate_D:
  assumes "authenticate verify slug inp d = (Inr (u, g), d1)"
  shows "d1 = d \<and> u \<in> set (pp_users d) \<and> us_deletedAt u = None \<and> same_email (us_email u) (li_email inp)
     \<and> us_persona u = login_persona inp \<and> password_fits verify (li_password inp) u"
  using assms
  by (auto simp: authenticate_def findLoginUser_def dest: first_account split: option.splits if_splits)

lemma login_D:
  assumes "login verify sign url cfg locked inp now d = (Inr (LoggedIn r), d')"
  obtains u g where "locked = Inr ()" "u \<in> set (pp_users d)" "us_deletedAt u = None" "same_email (us_email u) (li_email inp)"
    "us_persona u = login_persona inp" "password_fits verify (li_password inp) u" "us_status u = MActive" "\<not> us_twoFactor u"
    "startSession cfg (u, g) (li_session inp) now d = (r, d')"
proof -
  from assms obtain realm resolved d1 where "locked = Inr ()"
    and who: "(case realm of None \<Rightarrow> resolveByPassword verify inp d
       | Some slug \<Rightarrow> then_do (authenticate verify slug inp d) (\<lambda>found d. (Inr (Inr found), d))) = (Inr resolved, d1)"
    and rest: "(case resolved of Inl workspaces \<Rightarrow> (Inr (WorkspaceChoice workspaces), d1)
       | Inr found \<Rightarrow> then_do (assertEligible sign url found d1) (\<lambda>_ d.
           if us_twoFactor (fst found)
           then (Inr (TwoFactorChallenge \<lparr>tc_user = us_id (fst found), tc_org = og_id (snd found), tc_persona = us_persona (fst found),
                 tc_rememberMe = si_rememberMe (li_session inp)\<rparr> (tk_challengeTtl cfg)), d)
           else (case startSession cfg found (li_session inp) now d of (r, d) \<Rightarrow> (Inr (LoggedIn r), d)))) = (Inr (LoggedIn r), d')"
    unfolding login_def then_do_Inr pure_step_Inr by auto
  from rest obtain u g where found: "resolved = Inr (u, g)" by (cases resolved) auto
  have proven: "d1 = d \<and> u \<in> set (pp_users d) \<and> us_deletedAt u = None \<and> same_email (us_email u) (li_email inp)
     \<and> us_persona u = login_persona inp \<and> password_fits verify (li_password inp) u"
    using who unfolding found
    by (cases realm) (auto simp: then_do_Inr dest: resolveByPassword_D authenticate_D)
  have "us_status u = MActive \<and> \<not> us_twoFactor u \<and> startSession cfg (u, g) (li_session inp) now d1 = (r, d')"
    using rest unfolding found
    by (auto simp: then_do_Inr assertEligible_def split: member_status.splits if_splits prod.splits)
  with proven \<open>locked = Inr ()\<close> show thesis by (intro that) auto
qed

text \<open>
  C13. A password sign-in opens a session only for an account it has proven: not deleted, on that address in that audience,
  active, with a password that the one given fits, and without a second factor; it opens exactly one session, that
  account's, and of the other accounts nothing changes.
\<close>
theorem sign_in_proves_the_account:
  assumes "login verify sign url cfg locked inp now d = (Inr (LoggedIn r), d')"
  shows "locked = Inr () \<and> (\<exists>u\<in>set (pp_users d). us_deletedAt u = None \<and> same_email (us_email u) (li_email inp)
     \<and> us_persona u = login_persona inp \<and> password_fits verify (li_password inp) u \<and> us_status u = MActive \<and> \<not> us_twoFactor u
     \<and> sj_user (lr_accessToken r) = us_id u
     \<and> (\<exists>s. pp_sessions d' = pp_sessions d @ [s] \<and> se_user s = us_id u \<and> se_id s = sj_session (lr_accessToken r))
     \<and> filter (\<lambda>x. us_id x \<noteq> us_id u) (pp_users d') = filter (\<lambda>x. us_id x \<noteq> us_id u) (pp_users d))"
proof -
  have others: "filter (\<lambda>x. us_id x \<noteq> i) (upd (\<lambda>x. us_id x = i) (\<lambda>x. x\<lparr>us_lastActiveAt := Some now\<rparr>) us) = filter (\<lambda>x. us_id x \<noteq> i) us" for i us
    by (induction us) (auto simp: upd_def)
  from assms show ?thesis
  proof (rule login_D)
    fix u g assume u: "locked = Inr ()" "u \<in> set (pp_users d)" "us_deletedAt u = None" "same_email (us_email u) (li_email inp)"
      "us_persona u = login_persona inp" "password_fits verify (li_password inp) u" "us_status u = MActive" "\<not> us_twoFactor u"
      and r: "startSession cfg (u, g) (li_session inp) now d = (r, d')"
    from startSession_result [OF r] u show ?thesis by (intro conjI bexI [of _ u]) (auto simp: others)
  qed
qed

section \<open>The account a booking makes\<close>

text \<open>Keys are keys: one live account per address and audience, one organization per slug, no id in the future.\<close>

definition identity_wf :: "people \<Rightarrow> bool" where
  "identity_wf d = (users_unique (pp_users d) \<and> distinct (map us_id (pp_users d)) \<and> distinct (map og_slug (pp_orgs d))
     \<and> distinct (map og_id (pp_orgs d)) \<and> (\<forall>u\<in>set (pp_users d). us_id u < pp_next d) \<and> (\<forall>s\<in>set (pp_sessions d). se_user s < pp_next d))"

text \<open>The rows attendee sign-in resolves an address to.\<close>

definition platform_account :: "string \<Rightarrow> people \<Rightarrow> user_row \<Rightarrow> bool" where
  "platform_account email d u = (u \<in> set (pp_users d) \<and> same_email (us_email u) email \<and> us_persona u = PAttendee \<and> us_deletedAt u = None
     \<and> (\<exists>g\<in>set (pp_orgs d). og_id g = us_org u \<and> og_slug g = PLATFORM_ORG_SLUG))"

lemma findPlatformAttendee_None: "findPlatformAttendee email d = None \<longleftrightarrow> (\<forall>u. \<not> platform_account email d u)"
  by (auto simp: findPlatformAttendee_def platform_account_def accounts_def filter_empty_conv)

lemma findPlatformAttendee_D:
  assumes "findPlatformAttendee email d = Some a"
  obtains u where "platform_account email d u" "pt_user a = us_id u" "pt_confirmed a = (us_status u \<noteq> MUnconfirmed)"
proof -
  from assms obtain u g where "first_row (accounts (\<lambda>u g. same_email (us_email u) email \<and> us_persona u = PAttendee \<and> us_deletedAt u = None
      \<and> og_slug g = PLATFORM_ORG_SLUG) d) = Some (u, g)" and "a = \<lparr>pt_user = us_id u, pt_confirmed = (us_status u \<noteq> MUnconfirmed)\<rparr>"
    by (auto simp: findPlatformAttendee_def)
  with first_account [OF this(1)] show thesis by (intro that [of u]) (auto simp: platform_account_def)
qed

lemma platform_account_unique:
  assumes "identity_wf d" and "platform_account email d u" and "platform_account email d v"
  shows "u = v"
proof -
  from assms(2,3) obtain g h where g: "g \<in> set (pp_orgs d)" "og_id g = us_org u" "og_slug g = PLATFORM_ORG_SLUG"
    and h: "h \<in> set (pp_orgs d)" "og_id h = us_org v" "og_slug h = PLATFORM_ORG_SLUG" by (auto simp: platform_account_def)
  have "inj_on og_slug (set (pp_orgs d))" using assms(1) by (simp add: identity_wf_def distinct_map)
  then have "g = h" by (rule inj_onD) (simp_all add: g h)
  with g h have "us_org u = us_org v" by simp
  moreover have "uniq (\<lambda>u. us_deletedAt u = None) (\<lambda>u. (us_org u, map fold_case (us_email u), us_persona u)) (pp_users d)"
    using assms(1) by (simp add: identity_wf_def users_unique_def)
  ultimately show ?thesis using assms(2,3)
    by (intro uniqD [where A = "\<lambda>u. us_deletedAt u = None" and k = "\<lambda>u. (us_org u, map fold_case (us_email u), us_persona u)"])
       (auto simp: platform_account_def same_email_def)
qed

text \<open>If every account an address has on the platform is active, and there is one, it is confirmed.\<close>

lemma hasAccount_if:
  assumes "platform_account email d u" and "\<And>v. platform_account email d v \<Longrightarrow> us_status v = MActive"
  shows "hasAccount email d" "confirmed_existing (findPlatformAttendee email d)"
proof -
  obtain a where a: "findPlatformAttendee email d = Some a" using assms(1) findPlatformAttendee_None [of email d] by (cases "findPlatformAttendee email d") auto
  then have "pt_confirmed a" by (rule findPlatformAttendee_D) (auto dest: assms(2))
  with a show "hasAccount email d" "confirmed_existing (findPlatformAttendee email d)" by (simp_all add: hasAccount_def confirmed_existing_def)
qed

text \<open>What both ways of getting the account have in common: \<open>d1\<close> is the database before the session is opened.\<close>

definition account_taken :: "string \<Rightarrow> string \<Rightarrow> ident \<Rightarrow> people \<Rightarrow> people \<Rightarrow> bool" where
  "account_taken email hash i d d1 = (pp_orgs d1 = pp_orgs d
     \<and> (\<exists>u. platform_account email d1 u \<and> us_id u = i \<and> us_status u = MActive \<and> us_password u = Some hash)
     \<and> (\<forall>v. platform_account email d1 v \<longrightarrow> us_status v = MActive)
     \<and> (\<forall>u\<in>set (pp_users d). us_status u \<noteq> MUnconfirmed \<longrightarrow> u \<in> set (pp_users d1) \<and> us_id u \<noteq> i)
     \<and> (\<forall>u\<in>set (pp_users d1). us_id u = i \<longrightarrow> us_password u = Some hash)
     \<and> (\<forall>s\<in>set (pp_sessions d1). se_user s = i \<and> (\<exists>u\<in>set (pp_users d1). us_id u = i \<and> se_org s = us_org u) \<longrightarrow> se_revokedAt s \<noteq> None))"

lemma findPlatformOrganizationId_D:
  assumes "findPlatformOrganizationId d = Some i"
  obtains g where "g \<in> set (pp_orgs d)" "og_slug g = PLATFORM_ORG_SLUG" "i = og_id g"
proof -
  from assms obtain g where "find (\<lambda>g. og_slug g = PLATFORM_ORG_SLUG \<and> og_deletedAt g = None) (pp_orgs d) = Some g" "i = og_id g"
    by (auto simp: findPlatformOrganizationId_def)
  then show thesis by (intro that [of g]) (auto dest: find_SomeD)
qed

lemma claim_created:
  assumes wf: "identity_wf d" and none: "findPlatformAttendee (ls_email s) d = None"
    and made: "createAccount_claim s hash now d = (Inr i, d1)"
  shows "account_taken (ls_email s) hash i d d1"
proof -
  from made obtain org where "findPlatformOrganizationId d = Some org" and i: "i = pp_next d" and d1': "d1 = d\<lparr>pp_users := pp_users d @
      [\<lparr>us_id = pp_next d, us_org = org, us_name = ls_name s, us_email = ls_email s, us_persona = PAttendee, us_status = MActive,
        us_password = Some hash, us_twoFactor = False, us_lastActiveAt = None, us_createdAt = now, us_deletedAt = None\<rparr>], pp_next := pp_next d + 1\<rparr>"
    by (auto simp: createAccount_claim_def createAttendeeAccount_def insert_user_def split: sum.splits option.splits if_splits)
  then obtain g where org: "g \<in> set (pp_orgs d)" "og_slug g = PLATFORM_ORG_SLUG" "org = og_id g" by (auto elim: findPlatformOrganizationId_D)
  note d1 = d1' [unfolded org(3)]
  have fresh: "us_id u \<noteq> pp_next d" if "u \<in> set (pp_users d)" for u using wf that by (auto simp: identity_wf_def)
  have old: "\<not> platform_account (ls_email s) d u" for u using none findPlatformAttendee_None by blast
  show ?thesis unfolding account_taken_def
  proof (intro conjI)
    show "\<exists>u. platform_account (ls_email s) d1 u \<and> us_id u = i \<and> us_status u = MActive \<and> us_password u = Some hash"
      by (rule exI [of _ "last (pp_users d1)"]) (use org in \<open>auto simp: d1 i platform_account_def same_email_def\<close>)
    show "\<forall>v. platform_account (ls_email s) d1 v \<longrightarrow> us_status v = MActive"
    proof (intro allI impI)
      fix v assume v: "platform_account (ls_email s) d1 v"
      moreover have "v \<notin> set (pp_users d)"
      proof
        assume "v \<in> set (pp_users d)"
        with v have "platform_account (ls_email s) d v" by (auto simp: platform_account_def d1)
        with old show False by blast
      qed
      ultimately show "us_status v = MActive" by (auto simp: platform_account_def d1)
    qed
    show "\<forall>x\<in>set (pp_sessions d1). se_user x = i \<and> (\<exists>u\<in>set (pp_users d1). us_id u = i \<and> se_org x = us_org u) \<longrightarrow> se_revokedAt x \<noteq> None"
      using wf by (auto simp: d1 i identity_wf_def)
  qed (use fresh in \<open>auto simp: d1 i\<close>)
qed

lemma claim_superseded:
  assumes wf: "identity_wf d" and found: "findPlatformAttendee (ls_email s) d = Some a" and un: "\<not> pt_confirmed a"
    and took: "supersede_claim a s hash now d = (Inr i, d1)"
  shows "account_taken (ls_email s) hash i d d1"
proof -
  from found obtain u where u: "platform_account (ls_email s) d u" "pt_user a = us_id u" "pt_confirmed a = (us_status u \<noteq> MUnconfirmed)"
    by (rule findPlatformAttendee_D)
  define hit :: "ident \<Rightarrow> user_row \<Rightarrow> bool" where "hit = (\<lambda>org u. us_id u = pt_user a \<and> us_org u = org \<and> us_persona u = PAttendee \<and> us_status u = MUnconfirmed \<and> us_deletedAt u = None)"
  define new :: "user_row \<Rightarrow> user_row" where "new = (\<lambda>u. u\<lparr>us_name := ls_name s, us_password := Some hash, us_status := MActive\<rparr>)"
  from took obtain org where i: "i = us_id u" and some: "\<exists>x\<in>set (pp_users d). hit org x"
    and d1: "d1 = snd (revoke_where (\<lambda>x. se_user x = us_id u \<and> se_org x = org) now (update_user (hit org) new d))"
    by (auto simp: supersede_claim_def supersedeUnconfirmedAttendee_def hit_def new_def u(2) Let_def split: option.splits if_splits prod.splits)
  have ids: "x = u" if "x \<in> set (pp_users d)" "us_id x = us_id u" for x
    using wf u(1) that by (auto simp: identity_wf_def distinct_map platform_account_def dest: inj_onD)
  with some have hit: "hit org x \<longleftrightarrow> x = u" if "x \<in> set (pp_users d)" for x
    using that by (auto simp: hit_def u(2))
  then have org: "us_org u = org" using u(1) by (auto simp: hit_def platform_account_def)
  have users: "x \<in> set (pp_users d1) \<longleftrightarrow> x = new u \<or> x \<in> set (pp_users d) \<and> x \<noteq> u" for x
    using hit u(1) by (auto simp: d1 revoke_where_def Let_def update_user_def in_set_upd platform_account_def)
  have orgs: "pp_orgs d1 = pp_orgs d" by (simp add: d1 revoke_where_def Let_def update_user_def)
  have mine: "platform_account (ls_email s) d1 (new u)" using u(1) users orgs by (auto simp: platform_account_def new_def)
  show ?thesis unfolding account_taken_def
  proof (intro conjI)
    show "\<exists>v. platform_account (ls_email s) d1 v \<and> us_id v = i \<and> us_status v = MActive \<and> us_password v = Some hash"
      by (rule exI [of _ "new u"]) (use mine in \<open>simp add: new_def i\<close>)
    show "\<forall>v. platform_account (ls_email s) d1 v \<longrightarrow> us_status v = MActive"
    proof (intro allI impI)
      fix v assume v: "platform_account (ls_email s) d1 v"
      show "us_status v = MActive"
      proof (cases "v = new u")
        case False
        then have "v \<in> set (pp_users d)" "v \<noteq> u" using v users by (auto simp: platform_account_def)
        moreover from this v orgs have "platform_account (ls_email s) d v" by (auto simp: platform_account_def)
        ultimately show ?thesis using platform_account_unique [OF wf _ u(1)] by blast
      qed (simp add: new_def)
    qed
    show "\<forall>x\<in>set (pp_sessions d1). se_user x = i \<and> (\<exists>v\<in>set (pp_users d1). us_id v = i \<and> se_org x = us_org v) \<longrightarrow> se_revokedAt x \<noteq> None"
    proof (intro ballI impI)
      fix x assume x: "x \<in> set (pp_sessions d1)" "se_user x = i \<and> (\<exists>v\<in>set (pp_users d1). us_id v = i \<and> se_org x = us_org v)"
      then have "se_org x = org" using users ids org i by (auto simp: new_def)
      with x show "se_revokedAt x \<noteq> None" by (auto simp: d1 i revoke_where_def Let_def update_user_def in_set_upd)
    qed
    show "\<forall>x\<in>set (pp_users d). us_status x \<noteq> MUnconfirmed \<longrightarrow> x \<in> set (pp_users d1) \<and> us_id x \<noteq> i"
      using users ids u(3) un i by auto
    show "\<forall>x\<in>set (pp_users d1). us_id x = i \<longrightarrow> us_password x = Some hash"
      using users ids i by (auto simp: new_def)
  qed (rule orgs)
qed

lemma claim_D:
  assumes "claim bookings cfg (Some c) spent hash inp now d = (Inr r, d')"
  obtains b s u g d1 inp' where "bookings (cl_orderId c) = Some b" "same_email (cb_buyerEmail b) (cl_email c)"
    "ls_email s = cl_email c" "ls_existing s = findPlatformAttendee (cl_email c) d" "\<not> confirmed_existing (ls_existing s)"
    "(case ls_existing s of Some a \<Rightarrow> supersede_claim a s hash now d | None \<Rightarrow> createAccount_claim s hash now d) = (Inr (us_id u), d1)"
    "findProfile (us_id u) d1 = Some (u, g)" "startSession cfg (u, g) inp' now d1 = (r, d')"
proof -
  from assms obtain s i d1 where s: "standingOf bookings (Some c) spent d = Inr s" "\<not> confirmed_existing (ls_existing s)"
    and made: "(case ls_existing s of Some a \<Rightarrow> supersede_claim a s hash now d | None \<Rightarrow> createAccount_claim s hash now d) = (Inr i, d1)"
    and rest: "(case findProfile i d1 of None \<Rightarrow> (Inl ATTENDEE_ACCOUNTS_UNAVAILABLE, d1)
       | Some found \<Rightarrow> (case startSession cfg found (inp\<lparr>si_rememberMe := False\<rparr>) now d1 of (r, d) \<Rightarrow> (Inr r, d))) = (Inr r, d')"
    by (auto simp: claim_def then_do_Inr split: if_splits)
  from s(1) obtain b where b: "bookings (cl_orderId c) = Some b" "same_email (cb_buyerEmail b) (cl_email c)"
    "ls_email s = cl_email c" "ls_existing s = findPlatformAttendee (cl_email c) d"
    by (auto simp: standingOf_def Let_def split: option.splits if_splits)
  from rest obtain u g where p: "findProfile i d1 = Some (u, g)" and start: "startSession cfg (u, g) (inp\<lparr>si_rememberMe := False\<rparr>) now d1 = (r, d')"
    by (auto split: option.splits prod.splits)
  from p have "us_id u = i" by (auto simp: findProfile_def dest: first_account)
  with made p start b s(2) show thesis by (intro that) auto
qed

text \<open>
  C14. Claiming the account of a booking takes the link's own booking and address, touches no account that anybody had
  confirmed, and leaves the address with an active account whose password is the claimant's; whatever session somebody
  else had on it is revoked, and the link works only once: claiming again, even with the ledger of used links
  unreachable, is told to sign in.
\<close>
theorem claim_belongs_to_the_inbox:
  assumes "claim bookings cfg (Some c) spent hash inp now d = (Inr r, d')" and "identity_wf d"
  shows "(\<exists>b. bookings (cl_orderId c) = Some b \<and> same_email (cb_buyerEmail b) (cl_email c))
     \<and> \<not> hasAccount (cl_email c) d \<and> hasAccount (cl_email c) d'
     \<and> (\<forall>u\<in>set (pp_users d). us_status u \<noteq> MUnconfirmed \<longrightarrow> u \<in> set (pp_users d'))
     \<and> (\<forall>u\<in>set (pp_users d'). us_id u = sj_user (lr_accessToken r) \<longrightarrow> us_password u = Some hash)
     \<and> (\<forall>s\<in>set (pp_sessions d'). se_user s = sj_user (lr_accessToken r) \<and> se_org s = sj_org (lr_accessToken r)
          \<and> se_id s \<noteq> sj_session (lr_accessToken r) \<longrightarrow> se_revokedAt s \<noteq> None)
     \<and> claim bookings cfg' (Some c) spent' hash' inp' later d' = (Inl SIGN_IN_INSTEAD, d')"
  using assms(1)
proof (rule claim_D)
  fix b s u g d1 inp0
  assume b: "bookings (cl_orderId c) = Some b" "same_email (cb_buyerEmail b) (cl_email c)"
    and s: "ls_email s = cl_email c" "ls_existing s = findPlatformAttendee (cl_email c) d" "\<not> confirmed_existing (ls_existing s)"
    and made: "(case ls_existing s of Some a \<Rightarrow> supersede_claim a s hash now d | None \<Rightarrow> createAccount_claim s hash now d) = (Inr (us_id u), d1)"
    and p: "findProfile (us_id u) d1 = Some (u, g)" and start: "startSession cfg (u, g) inp0 now d1 = (r, d')"
  have taken: "account_taken (cl_email c) hash (us_id u) d d1"
  proof (cases "ls_existing s")
    case None
    then show ?thesis using claim_created [OF assms(2), of s hash now "us_id u" d1] made s by simp
  next
    case (Some a)
    then show ?thesis using claim_superseded [OF assms(2), of s a hash now "us_id u" d1] made s by (simp add: confirmed_existing_def)
  qed
  from p have ug: "u \<in> set (pp_users d1)" "g \<in> set (pp_orgs d1)" "og_id g = us_org u"
    by (auto simp: findProfile_def dest: first_account)
  have subj: "sj_user (lr_accessToken r) = us_id u" "sj_org (lr_accessToken r) = us_org u"
    using start ug(3) by (auto simp: startSession_def issueTokens_def Let_def split: prod.splits)
  note R = startSession_result [OF start, simplified]
  define f :: "user_row \<Rightarrow> user_row" where "f = (\<lambda>y. if us_id y = us_id u then y\<lparr>us_lastActiveAt := Some now\<rparr> else y)"
  have f [simp]: "us_id (f y) = us_id y" "us_org (f y) = us_org y" "us_email (f y) = us_email y" "us_persona (f y) = us_persona y"
    "us_status (f y) = us_status y" "us_password (f y) = us_password y" "us_deletedAt (f y) = us_deletedAt y" for y
    by (simp_all add: f_def)
  have users: "x \<in> set (pp_users d') \<longleftrightarrow> x \<in> f ` set (pp_users d1)" for x
    using R by (auto simp: in_set_upd f_def)
  have orgs: "pp_orgs d' = pp_orgs d1" using R by simp
  have accounts: "platform_account (cl_email c) d' x \<longleftrightarrow> (\<exists>y. platform_account (cl_email c) d1 y \<and> x = f y)" for x
  proof
    assume x: "platform_account (cl_email c) d' x"
    then obtain y where "y \<in> set (pp_users d1)" "x = f y" unfolding platform_account_def users by auto
    with x show "\<exists>y. platform_account (cl_email c) d1 y \<and> x = f y" unfolding platform_account_def orgs by (intro exI [of _ y]) auto
  next
    assume "\<exists>y. platform_account (cl_email c) d1 y \<and> x = f y"
    then show "platform_account (cl_email c) d' x" unfolding platform_account_def users orgs by auto
  qed
  from taken obtain w where w: "platform_account (cl_email c) d1 w" and act: "platform_account (cl_email c) d1 v \<Longrightarrow> us_status v = MActive" for v
    by (auto simp: account_taken_def)
  have "hasAccount (cl_email c) d'" and conf: "confirmed_existing (findPlatformAttendee (cl_email c) d')"
    by (rule hasAccount_if [of _ _ "f w"]; use w act accounts in auto)+
  moreover have "\<not> hasAccount (cl_email c) d" using s by (simp add: hasAccount_def confirmed_existing_def split: option.splits)
  moreover have "\<forall>x\<in>set (pp_users d). us_status x \<noteq> MUnconfirmed \<longrightarrow> x \<in> set (pp_users d')"
    using taken unfolding account_taken_def users f_def by (auto simp: image_iff)
  moreover have "\<forall>x\<in>set (pp_users d'). us_id x = sj_user (lr_accessToken r) \<longrightarrow> us_password x = Some hash"
    using taken by (auto simp: account_taken_def users subj)
  moreover have "\<forall>x\<in>set (pp_sessions d'). se_user x = sj_user (lr_accessToken r) \<and> se_org x = sj_org (lr_accessToken r)
      \<and> se_id x \<noteq> sj_session (lr_accessToken r) \<longrightarrow> se_revokedAt x \<noteq> None"
    using taken R ug(1) by (auto simp: account_taken_def subj)
  moreover have "claim bookings cfg' (Some c) spent' hash' inp' later d' = (Inl SIGN_IN_INSTEAD, d')"
    using b conf by (simp add: claim_def standingOf_def pure_step_def Let_def)
  ultimately show ?thesis using b by blast
qed

end
