(* ===== verification/IdentityWitnesses.thy ===== *)
theory IdentityWitnesses
  imports IdentityProps
begin

text \<open>
  The shared attendee workspace, where somebody registered an address that is not theirs, and a workspace with an
  organizer signed in twice: the calls the properties of theory IdentityProps describe, evaluated on it, and what social
  sign-in and sign-up let through.
\<close>

section \<open>The accounts\<close>

definition plain_user :: "ident \<Rightarrow> ident \<Rightarrow> string \<Rightarrow> persona \<Rightarrow> member_status \<Rightarrow> string option \<Rightarrow> user_row" where
  "plain_user i org name p s h = \<lparr>us_id = i, us_org = org, us_name = name, us_email = name @ ''@x.co'', us_persona = p,
     us_status = s, us_password = h, us_twoFactor = False, us_lastActiveAt = None, us_createdAt = 0, us_deletedAt = None\<rparr>"

definition open_session :: "ident \<Rightarrow> ident \<Rightarrow> ident \<Rightarrow> session_row" where
  "open_session i org user = \<lparr>se_id = i, se_org = org, se_user = user, se_device = ''d'', se_ip = None, se_createdAt = 0,
     se_expiresAt = 90000, se_revokedAt = None\<rparr>"

definition town :: people where
  "town = \<lparr>pp_next = 40,
     pp_orgs = [\<lparr>og_id = 1, og_name = ''Eventa'', og_slug = PLATFORM_ORG_SLUG, og_deletedAt = None\<rparr>,
       \<lparr>og_id = 2, og_name = ''Kai'' @ [CHR 0x27] @ ''s Workspace'', og_slug = ''kai'', og_deletedAt = None\<rparr>],
     pp_users = [plain_user 3 1 ''mia'' PAttendee MUnconfirmed (Some ''stranger''), plain_user 4 1 ''noa'' PAttendee MActive (Some ''pw''),
       plain_user 5 2 ''kai'' PAdmin MActive (Some ''old''), plain_user 6 1 ''pia'' PAttendee MActive None,
       plain_user 7 2 ''lu'' PAdmin MInvited None],
     pp_roles = [], pp_catalog = [], pp_grants = [], pp_members = [],
     pp_sessions = [open_session 21 1 3, open_session 22 2 5, open_session 23 2 5], pp_audits = [], pp_outbox = [],
     pp_social = [], pp_twofa = [], pp_codes = [], pp_authAudits = [], pp_events = []\<rparr>"

definition clear_text :: "string \<Rightarrow> string \<Rightarrow> bool" where "clear_text h pw = (h = pw)"
definition no_link :: "ident \<Rightarrow> ident \<Rightarrow> string" where "no_link user org = []"
definition tokens :: token_config where
  "tokens = \<lparr>tk_accessTtl = 9, tk_refreshTtl = 60, tk_refreshTtlShort = 30, tk_challengeTtl = 5\<rparr>"
definition browser :: session_input where "browser = \<lparr>si_device = ''b'', si_ip = None, si_rememberMe = False\<rparr>"
definition sign_in :: "string \<Rightarrow> string \<Rightarrow> login_input" where
  "sign_in email pw = \<lparr>li_email = email, li_password = pw, li_orgSlug = None, li_persona = None, li_session = browser\<rparr>"
definition as_subject :: "ident \<Rightarrow> ident \<Rightarrow> ident \<Rightarrow> token_subject" where
  "as_subject user org sid = \<lparr>sj_user = user, sj_org = org, sj_session = sid, sj_persona = PAdmin\<rparr>"

lemma town_ok: "sessions_ok town \<and> people_ok town \<and> identity_wf town" by code_simp

section \<open>Witnesses\<close>

definition kai_link :: reset_claims where "kai_link = \<lparr>rs_user = 5, rs_org = 2, rs_pv = ''old''\<rparr>"
definition after_reset :: people where "after_reset = snd (resetPassword clear_text (\<lambda>h. h) (Some kai_link) ''new'' ''new'' 7 town)"
definition after_sign_in :: people where
  "after_sign_in = snd (login clear_text no_link [] tokens (Inr ()) (sign_in ''kai@x.co'' ''new'') 8 after_reset)"

lemma reset_call: "resetPassword clear_text (\<lambda>h. h) (Some kai_link) ''new'' ''new'' 7 town = (Inr (), after_reset)"
proof -
  have "fst (resetPassword clear_text (\<lambda>h. h) (Some kai_link) ''new'' ''new'' 7 town) = Inr ()" by code_simp
  then show ?thesis by (simp add: after_reset_def prod_eq_iff)
qed

theorem signed_out_for_good_witness:
  "map se_id (pp_sessions after_sign_in) = [21, 22, 23, 40] \<and> refresh_token tokens (Some (as_subject 5 2 22)) 9 after_sign_in = Inl SESSION_GONE
   \<and> \<not> isSessionLive 2 22 9 after_sign_in"
proof -
  have "session_of 22 (rs_org kai_link) (rs_user kai_link) town" by code_simp
  from signs_out.reset [OF reset_call this] have "signs_out 7 22 town after_reset" .
  moreover have "session_of 22 2 5 town" by code_simp
  moreover have "identity_step after_reset after_sign_in"
    unfolding after_sign_in_def by (rule identity_step.login [OF surjective_pairing])
  moreover have "sj_session (as_subject 5 2 22) = 22" by (simp add: as_subject_def)
  ultimately have "refresh_token tokens (Some (as_subject 5 2 22)) 9 after_sign_in = Inl SESSION_GONE \<and> \<not> isSessionLive 2 22 9 after_sign_in"
    using town_ok by (intro signed_out_for_good [where t = 7]) auto
  moreover have "map se_id (pp_sessions after_sign_in) = [21, 22, 23, 40]" by code_simp
  ultimately show ?thesis by blast
qed

definition kai_in :: login_result where
  "kai_in = (case fst (login clear_text no_link [] tokens (Inr ()) (sign_in ''kai@x.co'' ''old'') 8 town) of Inr (LoggedIn r) \<Rightarrow> r)"
definition kai_after :: people where
  "kai_after = snd (login clear_text no_link [] tokens (Inr ()) (sign_in ''kai@x.co'' ''old'') 8 town)"

lemma kai_call: "login clear_text no_link [] tokens (Inr ()) (sign_in ''kai@x.co'' ''old'') 8 town = (Inr (LoggedIn kai_in), kai_after)"
proof -
  have "(case fst (login clear_text no_link [] tokens (Inr ()) (sign_in ''kai@x.co'' ''old'') 8 town) of Inr (LoggedIn r) \<Rightarrow> True | _ \<Rightarrow> False)"
    by code_simp
  then show ?thesis by (simp add: kai_in_def kai_after_def prod_eq_iff split: sum.splits login_outcome.splits)
qed

theorem sign_in_proves_the_account_witness:
  "\<exists>u\<in>set (pp_users town). us_status u = MActive \<and> password_fits clear_text ''old'' u \<and> sj_user (lr_accessToken kai_in) = us_id u"
proof -
  have "li_password (sign_in ''kai@x.co'' ''old'') = ''old''" by (simp add: sign_in_def)
  with sign_in_proves_the_account [OF kai_call] show ?thesis by metis
qed

definition mia_booking :: "ident \<Rightarrow> claimable_booking option" where
  "mia_booking i = (if i = 9 then Some \<lparr>cb_orderId = 9, cb_buyerName = ''Mia'', cb_buyerEmail = ''mia@x.co'', cb_eventName = ''E'',
     cb_confirmed = True\<rparr> else None)"
definition mia_link :: claim_claims where "mia_link = \<lparr>cl_orderId = 9, cl_email = ''mia@x.co''\<rparr>"
definition mia_in :: login_result where "mia_in = projr (fst (claim mia_booking tokens (Some mia_link) False ''mine'' browser 8 town))"
definition mia_after :: people where "mia_after = snd (claim mia_booking tokens (Some mia_link) False ''mine'' browser 8 town)"

lemma mia_call: "claim mia_booking tokens (Some mia_link) False ''mine'' browser 8 town = (Inr mia_in, mia_after)"
proof -
  have "\<not> isl (fst (claim mia_booking tokens (Some mia_link) False ''mine'' browser 8 town))" by code_simp
  then show ?thesis by (simp add: mia_in_def mia_after_def prod_eq_iff)
qed

theorem claim_belongs_to_the_inbox_witness:
  "\<not> hasAccount ''mia@x.co'' town \<and> hasAccount ''mia@x.co'' mia_after
   \<and> claim mia_booking tokens (Some mia_link) False ''other'' browser 9 mia_after = (Inl SIGN_IN_INSTEAD, mia_after)
   \<and> map us_password (filter (\<lambda>u. us_id u = 3) (pp_users mia_after)) = [Some ''mine'']
   \<and> map (\<lambda>s. (se_id s, se_revokedAt s)) (filter (\<lambda>s. se_user s = 3) (pp_sessions mia_after)) = [(21, Some 8), (40, None)]"
proof -
  have "cl_email mia_link = ''mia@x.co''" by (simp add: mia_link_def)
  moreover have "map us_password (filter (\<lambda>u. us_id u = 3) (pp_users mia_after)) = [Some ''mine'']" by code_simp
  moreover have "map (\<lambda>s. (se_id s, se_revokedAt s)) (filter (\<lambda>s. se_user s = 3) (pp_sessions mia_after)) = [(21, Some 8), (40, None)]"
    by code_simp
  ultimately show ?thesis using claim_belongs_to_the_inbox [OF mia_call] town_ok by metis
qed

section \<open>What is let through\<close>

definition proof_of :: "string \<Rightarrow> verified_identity option" where
  "proof_of email = Some \<lparr>vi_subject = ''g'', vi_email = email, vi_name = None, vi_emailVerified = True\<rparr>"
definition by_google :: "persona \<Rightarrow> string option \<Rightarrow> social_input" where
  "by_google p slug = \<lparr>sc_provider = Google, sc_idToken = ''t'', sc_audience = p, sc_orgSlug = slug, sc_error = None, sc_session = browser\<rparr>"

text \<open>
  Social sign-in opens a session for an account that was invited and never accepted, and for one that a stranger
  registered with a password of their own: the stranger's password and session stay good beside the owner's.
\<close>

lemma social_lets_the_invited_in:
  "(case socialSignIn (\<lambda>s. s) tokens (proof_of ''lu@x.co'') (by_google PAdmin None) 8 town of (r, d) \<Rightarrow>
      (map_option us_status (find (\<lambda>u. us_id u = 7) (pp_users d)), case r of Inl _ \<Rightarrow> False | Inr x \<Rightarrow> isSessionLive 2 (sj_session (lr_accessToken x)) 9 d))
   = (Some MInvited, True)"
  by code_simp

lemma social_keeps_a_strangers_password:
  "(case socialSignIn (\<lambda>s. s) tokens (proof_of ''mia@x.co'') (by_google PAttendee (Some ''eventa'')) 8 town of (r, d) \<Rightarrow>
      (isl r, map_option (\<lambda>u. (us_status u, us_password u)) (find (\<lambda>u. us_id u = 3) (pp_users d)), isSessionLive 1 21 9 d))
   = (False, Some (MUnconfirmed, Some ''stranger''), True)"
  by code_simp

text \<open>Social sign-in does not ask for the second factor a password sign-in would ask for.\<close>

definition kai_two_factor :: people where
  "kai_two_factor = snd (confirmTwoFactor (\<lambda>_ _. True) (\<lambda>s. s) \<lparr>ax_user = 5, ax_org = 2, ax_session = 22, ax_persona = PAdmin\<rparr> ''c'' [''r'']
     8 (snd (startTwoFactor \<lparr>ax_user = 5, ax_org = 2, ax_session = 22, ax_persona = PAdmin\<rparr> ''k'' (\<lambda>e. e) town)))"

lemma social_skips_the_second_factor:
  "(case fst (login clear_text no_link [] tokens (Inr ()) (sign_in ''kai@x.co'' ''old'') 9 kai_two_factor) of
      Inr (TwoFactorChallenge _ _) \<Rightarrow> True | _ \<Rightarrow> False,
    isl (fst (socialSignIn (\<lambda>s. s) tokens (proof_of ''kai@x.co'') (by_google PAdmin None) 9 kai_two_factor)))
   = (True, False)"
  by code_simp

text \<open>A second sign-up under the same name, with no workspace name of its own, is refused for a name it never gave.\<close>

lemma fallback_name_collides:
  "fst (register (\<lambda>s. s) no_link [] \<lparr>re_name = ''Kai'', re_email = ''kai@y.co'', re_passwordHash = ''h'', re_organizationName = None,
      re_persona = None\<rparr> 8 town) = Inl NAME_TAKEN"
  by code_simp

text \<open>A social-only account cannot be deleted: it is told to reset its password first, and has none to reset.\<close>

lemma social_only_cannot_delete:
  "(fst (deleteAccount clear_text (\<lambda>_ _. False) (\<lambda>s. s) (Inr ()) \<lparr>ax_user = 6, ax_org = 1, ax_session = 24, ax_persona = PAttendee\<rparr>
       \<lparr>dl_password = ''x'', dl_code = None\<rparr> 8 town),
    isl (fst (forgot (\<lambda>_. []) (\<lambda>h. h) [] (Inr ()) ''pia@x.co'' (Some PAttendee) town)),
    fst (changePassword clear_text \<lparr>ax_user = 6, ax_org = 1, ax_session = 24, ax_persona = PAttendee\<rparr> [] ''n'' ''n'' 8 town))
   = (Inl NO_PASSWORD_SET, True, Inl WRONG_CURRENT)"
  by code_simp

end
