(* ===== verification/TaxPeriods.thy ===== *)
theory TaxPeriods
  imports InvoiceLedger
begin

text \<open>
  The monthly VAT ledger, \<^verbatim>\<open>tax-periods/\<close>, with Payments' side of it
  (\<^verbatim>\<open>payments/taxable-sales.adapter.ts\<close>). Payments and refunds are those of theory Schema; filed periods and the
  rates of the workspaces, the column of \<^verbatim>\<open>organizations\<close>, are the record \<open>tax_books\<close>. A date is the number of its
  day, as in theory Calendar.
\<close>

section \<open>Tables\<close>

datatype tax_status = TaxUpcoming | TaxDue | TaxFiled

record tax_row =
  tx_org :: ident
  tx_period :: string
  tx_year :: nat
  tx_dueAt :: date
  tx_sales :: satang
  tx_vat :: satang
  tx_wht :: satang
  tx_remitted :: satang
  tx_status :: tax_status
  tx_filedAt :: "instant option"

record tax_books =
  bk_vatRates :: "(ident \<times> rat option) list"
  bk_taxPeriods :: "tax_row list"

section \<open>Periods\<close>

definition VAT_FILING_DAY :: nat where "VAT_FILING_DAY = 15"
definition MONTHS_IN_YEAR :: nat where "MONTHS_IN_YEAR = 12"
definition MONTH_LABELS :: "string list" where
  "MONTH_LABELS = [''Jan'', ''Feb'', ''Mar'', ''Apr'', ''May'', ''Jun'', ''Jul'', ''Aug'', ''Sep'', ''Oct'', ''Nov'', ''Dec'']"

definition NOT_DUE :: error where "NOT_DUE = Conflict ''Only a period that has ended can be filed - this one is still running.'' []"
definition ALREADY_FILED :: error where "ALREADY_FILED = Conflict ''This period has already been filed.'' []"
definition BAD_MONTH :: error where "BAD_MONTH = Validation ''Month must be between 1 and 12.'' []"
definition NO_PERIODS_TO_EXPORT :: error where
  "NO_PERIODS_TO_EXPORT = Conflict ''There is nothing to export - no periods match these filters.'' []"

definition monthLabel :: "nat \<Rightarrow> string" where
  "monthLabel month = MONTH_LABELS ! (month - 1)"

text \<open>\<^verbatim>\<open>Date.UTC(year, month, day)\<close> with the 1-based month: a day of the month after.\<close>

definition day_of_next_month :: "nat \<Rightarrow> nat \<Rightarrow> nat \<Rightarrow> date" where
  "day_of_next_month year month day =
     (if month < 12 then day_of \<lparr>c_year = year, c_month = month + 1, c_day = day\<rparr>
      else day_of \<lparr>c_year = year + 1, c_month = 1, c_day = day\<rparr>)"

definition periodDueDate :: "nat \<Rightarrow> nat \<Rightarrow> date" where
  "periodDueDate year month = day_of_next_month year month VAT_FILING_DAY"

definition periodEnd :: "nat \<Rightarrow> nat \<Rightarrow> date" where
  "periodEnd year month = day_of_next_month year month 1"

definition periodStatus :: "nat \<Rightarrow> nat \<Rightarrow> date \<Rightarrow> bool \<Rightarrow> tax_status" where
  "periodStatus year month today filed =
     (if filed then TaxFiled else if today \<ge> periodEnd year month then TaxDue else TaxUpcoming)"

definition isLateFiling :: "date \<Rightarrow> nat \<Rightarrow> nat \<Rightarrow> bool" where
  "isLateFiling filedOn year month = (filedOn > periodDueDate year month)"

definition vatOnSales :: "satang \<Rightarrow> rat \<Rightarrow> satang \<times> satang" where
  "vatOnSales gross rate = (vb_net (vatInclusiveBreakdown gross rate), vb_vat (vatInclusiveBreakdown gross rate))"

section \<open>What was collected\<close>

definition bangkok_month :: "instant \<Rightarrow> nat \<times> nat" where
  "bangkok_month t = (c_year (civil_of (bangkokDay t)), c_month (civil_of (bangkokDay t)))"

text \<open>The movements of a workspace: a payment when it was paid, a refund when it settled, each with its signed amount.\<close>

definition movements :: "ident \<Rightarrow> db \<Rightarrow> (instant \<times> satang) list" where
  "movements org d =
     List.map_filter (\<lambda>p. case p_paidAt p of None \<Rightarrow> None | Some paid \<Rightarrow>
         if p_org p = org \<and> p_status p \<in> {PPaid, PRefunded} then Some (paid, p_amount p) else None) (d_payments d)
     @ map (\<lambda>r. (case r_settledAt r of None \<Rightarrow> r_issuedAt r | Some settledAt \<Rightarrow> settledAt, - r_amount r))
         (filter (\<lambda>r. r_org r = org \<and> r_status r = RSucceeded) (d_refunds d))"

record monthly_takings =
  mt_month :: nat
  mt_gross :: satang

text \<open>\<^verbatim>\<open>GROUP BY month\<close>: a row per month that has a movement.\<close>

definition takingsByMonth :: "ident \<Rightarrow> nat \<Rightarrow> db \<Rightarrow> monthly_takings list" where
  "takingsByMonth org year d =
     (let ms = filter (\<lambda>m. fst (bangkok_month (fst m)) = year) (movements org d);
          months = dedupe (map (\<lambda>m. snd (bangkok_month (fst m))) ms)
      in map (\<lambda>k. \<lparr>mt_month = k, mt_gross = sum_of snd (filter (\<lambda>m. snd (bangkok_month (fst m)) = k) ms)\<rparr>) months)"

definition totalsByMonth :: "ident \<Rightarrow> nat \<Rightarrow> db \<Rightarrow> monthly_takings list" where
  "totalsByMonth = takingsByMonth"

section \<open>Filed periods\<close>

record filed_period =
  fp_year :: nat
  fp_month :: nat
  fp_sales :: satang
  fp_vat :: satang
  fp_wht :: satang
  fp_remitted :: satang
  fp_filedAt :: instant

text \<open>The rate is a numeric column, read as text, so a rate of 0 is a rate.\<close>

definition tax_vatRate :: "ident \<Rightarrow> tax_books \<Rightarrow> rat" where
  "tax_vatRate org b = (case map_of (bk_vatRates b) org of Some (Some r) \<Rightarrow> r | _ \<Rightarrow> DEFAULT_VAT_RATE)"

definition monthOf :: "string \<Rightarrow> nat option" where
  "monthOf label = find (\<lambda>m. monthLabel m = label) [1..<MONTHS_IN_YEAR + 1]"

definition filedPeriods :: "ident \<Rightarrow> nat \<Rightarrow> tax_books \<Rightarrow> filed_period list" where
  "filedPeriods org year b =
     List.map_filter (\<lambda>r. case (monthOf (tx_period r), tx_filedAt r) of
         (Some month, Some filedAt) \<Rightarrow> Some \<lparr>fp_year = year, fp_month = month, fp_sales = tx_sales r, fp_vat = tx_vat r,
            fp_wht = tx_wht r, fp_remitted = tx_remitted r, fp_filedAt = filedAt\<rparr>
       | _ \<Rightarrow> None)
       (filter (\<lambda>r. tx_org r = org \<and> tx_year r = year \<and> tx_status r = TaxFiled) (bk_taxPeriods b))"

definition recordFiling :: "ident \<Rightarrow> filed_period \<Rightarrow> tax_books \<Rightarrow> tax_books" where
  "recordFiling org f b =
     (if \<exists>r\<in>set (bk_taxPeriods b). tx_org r = org \<and> tx_period r = monthLabel (fp_month f) \<and> tx_year r = fp_year f then b
      else b\<lparr>bk_taxPeriods := bk_taxPeriods b @ [\<lparr>tx_org = org, tx_period = monthLabel (fp_month f), tx_year = fp_year f,
         tx_dueAt = periodDueDate (fp_year f) (fp_month f), tx_sales = fp_sales f, tx_vat = fp_vat f, tx_wht = fp_wht f,
         tx_remitted = fp_remitted f, tx_status = TaxFiled, tx_filedAt = Some (fp_filedAt f)\<rparr>]\<rparr>)"

section \<open>The VAT ledger\<close>

record tax_period_row =
  tp_year :: nat
  tp_month :: nat
  tp_period :: string
  tp_dueAt :: date
  tp_sales :: satang
  tp_vat :: satang
  tp_wht :: satang
  tp_remitted :: satang
  tp_status :: tax_status
  tp_filedAt :: "instant option"
  tp_late :: bool

record vat_headlines =
  vh_collected :: satang
  vh_remitted :: satang
  vh_payable :: satang
  vh_withholding :: satang

definition tax_toRow :: "nat \<Rightarrow> nat \<Rightarrow> filed_period \<Rightarrow> date \<Rightarrow> tax_period_row" where
  "tax_toRow year month f today = \<lparr>tp_year = year, tp_month = month, tp_period = monthLabel month,
     tp_dueAt = periodDueDate year month, tp_sales = fp_sales f, tp_vat = fp_vat f, tp_wht = fp_wht f,
     tp_remitted = fp_remitted f, tp_status = periodStatus year month today True, tp_filedAt = Some (fp_filedAt f),
     tp_late = isLateFiling (bangkokToday (fp_filedAt f)) year month\<rparr>"

text \<open>A JavaScript map keeps the last entry of a key.\<close>

definition js_map :: "('k \<times> 'v) list \<Rightarrow> 'k \<Rightarrow> 'v option" where
  "js_map entries = map_of (rev entries)"

definition yearRows :: "ident \<Rightarrow> nat \<Rightarrow> instant \<Rightarrow> db \<Rightarrow> tax_books \<Rightarrow> tax_period_row list" where
  "yearRows org year now d b =
     (let today = bangkokToday now; rate = tax_vatRate org b;
          filedByMonth = js_map (map (\<lambda>f. (fp_month f, f)) (filedPeriods org year b));
          grossByMonth = js_map (map (\<lambda>t. (mt_month t, mt_gross t)) (totalsByMonth org year d))
      in map (\<lambda>i. let month = i + 1 in
           case filedByMonth month of
             Some frozen \<Rightarrow> tax_toRow year month frozen today
           | None \<Rightarrow>
               (case vatOnSales (case grossByMonth month of None \<Rightarrow> 0 | Some g \<Rightarrow> g) rate of (sales, vat) \<Rightarrow>
                  \<lparr>tp_year = year, tp_month = month, tp_period = monthLabel month, tp_dueAt = periodDueDate year month,
                   tp_sales = sales, tp_vat = vat, tp_wht = 0, tp_remitted = 0,
                   tp_status = periodStatus year month today False, tp_filedAt = None, tp_late = False\<rparr>))
         [0..<MONTHS_IN_YEAR])"

definition headlinesOf :: "tax_period_row list \<Rightarrow> vat_headlines" where
  "headlinesOf rows =
     (let collected = sum_of tp_vat rows; remitted = sum_of tp_remitted rows in
      \<lparr>vh_collected = collected, vh_remitted = remitted, vh_payable = collected - remitted, vh_withholding = sum_of tp_wht rows\<rparr>)"

record list_periods_query =
  lp_year :: nat
  lp_status :: "tax_status option"

definition list_periods :: "ident \<Rightarrow> list_periods_query \<Rightarrow> instant \<Rightarrow> db \<Rightarrow> tax_books \<Rightarrow> tax_period_row list \<times> vat_headlines" where
  "list_periods org q now d b =
     (let rows = yearRows org (lp_year q) now d b in
      (case lp_status q of None \<Rightarrow> rows | Some s \<Rightarrow> filter (\<lambda>r. tp_status r = s) rows, headlinesOf rows))"

record file_period_input =
  fi_year :: nat
  fi_month :: int
  fi_wht :: "satang option"

definition file_period :: "ident \<Rightarrow> file_period_input \<Rightarrow> instant \<Rightarrow> db \<Rightarrow> tax_books \<Rightarrow> (error + tax_period_row) \<times> tax_books" where
  "file_period org inp now d b =
     (if fi_month inp < 1 \<or> fi_month inp > int MONTHS_IN_YEAR then (Inl BAD_MONTH, b)
      else
        let month = nat (fi_month inp); period = yearRows org (fi_year inp) now d b ! (month - 1) in
        if tp_status period = TaxFiled then (Inl ALREADY_FILED, b)
        else if tp_status period \<noteq> TaxDue then (Inl NOT_DUE, b)
        else
          let filed = \<lparr>fp_year = fi_year inp, fp_month = month, fp_sales = tp_sales period, fp_vat = tp_vat period,
                fp_wht = (case fi_wht inp of None \<Rightarrow> 0 | Some w \<Rightarrow> w), fp_remitted = tp_vat period, fp_filedAt = now\<rparr>
          in (Inr (tax_toRow (fi_year inp) month filed (bangkokToday now)), recordFiling org filed b))"

definition TAX_EXPORT_HEADER :: "string list" where
  "TAX_EXPORT_HEADER = [''period'', ''year'', ''due_at'', ''taxable_sales_baht'', ''vat_collected_baht'', ''vat_remitted_baht'',
     ''vat_payable_baht'', ''withholding_baht'', ''status'', ''filed_at'', ''late'']"

definition tax_status_text :: "tax_status \<Rightarrow> string" where
  "tax_status_text s = (case s of TaxUpcoming \<Rightarrow> ''upcoming'' | TaxDue \<Rightarrow> ''due'' | TaxFiled \<Rightarrow> ''filed'')"

text \<open>\<open>stamp\<close> writes an instant as \<^verbatim>\<open>toISOString\<close> does.\<close>

definition tax_toCsvRow :: "(instant \<Rightarrow> string) \<Rightarrow> tax_period_row \<Rightarrow> csv_value list" where
  "tax_toCsvRow stamp r =
     [CsvText (tp_period r), CsvNumber (100 * int (tp_year r)), CsvText (iso_date (tp_dueAt r)),
      CsvNumber (satangToBaht (tp_sales r)), CsvNumber (satangToBaht (tp_vat r)), CsvNumber (satangToBaht (tp_remitted r)),
      CsvNumber (satangToBaht (tp_vat r - tp_remitted r)), CsvNumber (satangToBaht (tp_wht r)),
      CsvText (tax_status_text (tp_status r)), (case tp_filedAt r of None \<Rightarrow> CsvNull | Some t \<Rightarrow> CsvText (stamp t)),
      CsvText (if tp_late r then ''yes'' else ''no'')]"

definition tax_exportCsv :: "(instant \<Rightarrow> string) \<Rightarrow> ident \<Rightarrow> list_periods_query \<Rightarrow> instant \<Rightarrow> db \<Rightarrow> tax_books \<Rightarrow> error + string" where
  "tax_exportCsv stamp org q now d b =
     (let rows = fst (list_periods org q now d b) in
      if rows = [] then Inl NO_PERIODS_TO_EXPORT else Inr (toCsv TAX_EXPORT_HEADER (map (tax_toCsvRow stamp) rows)))"

record tax_period_dto =
  td_row :: tax_period_row
  td_salesLabel :: string
  td_vatLabel :: string
  td_canFile :: bool

definition toTaxPeriod :: "tax_period_row \<Rightarrow> tax_period_dto" where
  "toTaxPeriod r = \<lparr>td_row = r, td_salesLabel = formatBaht (tp_sales r), td_vatLabel = formatBaht (tp_vat r),
     td_canFile = (tp_status r = TaxDue)\<rparr>"

end
