(* ===== verification/TaxProps.thy ===== *)
theory TaxProps
  imports TaxPeriods
begin

text \<open>
  A month that was filed stays as it was filed, and the open months of a year add up to what moved in it; each at a
  concrete workspace.
\<close>

section \<open>Maps and months\<close>

lemma js_map_distinct:
  assumes "distinct (map fst entries)"
  shows "js_map entries k = map_of entries k"
proof (cases "map_of entries k")
  case None
  then have "map_of (rev entries) k = None" by (simp add: map_of_eq_None_iff)
  with None show ?thesis by (simp add: js_map_def)
next
  case (Some v)
  then have "(k, v) \<in> set (rev entries)" by (auto dest: map_of_SomeD)
  with assms Some show ?thesis unfolding js_map_def by (intro trans [OF map_of_is_SomeI]) (simp_all add: rev_map [symmetric])
qed

lemma monthOf_labels: "\<forall>m\<in>set [1..<MONTHS_IN_YEAR + 1]. monthOf (monthLabel m) = Some m" by code_simp

lemma monthOf_monthLabel: "1 \<le> m \<Longrightarrow> m \<le> 12 \<Longrightarrow> monthOf (monthLabel m) = Some m"
  using monthOf_labels by (auto simp: MONTHS_IN_YEAR_def)

lemma monthOf_Some: "monthOf label = Some m \<Longrightarrow> label = monthLabel m \<and> 1 \<le> m \<and> m \<le> 12"
  unfolding monthOf_def MONTHS_IN_YEAR_def by (auto dest!: find_SomeD simp del: upt_Suc)

lemma bangkok_month_bound: "1 \<le> snd (bangkok_month t) \<and> snd (bangkok_month t) \<le> 12"
proof -
  obtain y n where y: "year_from 1970 (nat (bangkokDay t)) = (y, n)" by force
  obtain m k where m: "month_from y 1 n = (m, k)" by force
  from month_from_sum [OF m] y m show ?thesis by (simp add: bangkok_month_def civil_of_def)
qed

section \<open>The port of takings\<close>

text \<open>
  What the VAT ledger relies on of \<^verbatim>\<open>TaxableSalesPort\<close>: a row per month that had a movement, none twice, each with the
  month's sum. Reading it through a map, a month without a row reads 0, which is its sum.
\<close>

locale taxable_sales =
  fixes totals :: "db \<Rightarrow> monthly_takings list" and moved :: "db \<Rightarrow> (nat \<times> satang) list"
  assumes one_row: "distinct (map mt_month (totals d))"
    and row_sum: "t \<in> set (totals d) \<Longrightarrow> mt_gross t = sum_of snd (filter (\<lambda>m. fst m = mt_month t) (moved d))"
    and no_month_missing: "m \<in> set (moved d) \<Longrightarrow> fst m \<in> mt_month ` set (totals d)"
begin

lemma month_reads:
  "(case js_map (map (\<lambda>t. (mt_month t, mt_gross t)) (totals d)) k of None \<Rightarrow> 0 | Some g \<Rightarrow> g)
   = sum_of snd (filter (\<lambda>m. fst m = k) (moved d))"
proof -
  have map: "js_map (map (\<lambda>t. (mt_month t, mt_gross t)) (totals d)) k = map_of (map (\<lambda>t. (mt_month t, mt_gross t)) (totals d)) k"
    using one_row by (intro js_map_distinct) (simp add: comp_def)
  show ?thesis
  proof (cases "map_of (map (\<lambda>t. (mt_month t, mt_gross t)) (totals d)) k")
    case None
    then have "k \<notin> mt_month ` set (totals d)" by (simp add: map_of_eq_None_iff image_comp comp_def)
    then have "filter (\<lambda>m. fst m = k) (moved d) = []" using no_month_missing by (auto simp: filter_empty_conv)
    with None map show ?thesis by simp
  next
    case (Some g)
    then have "g = sum_of snd (filter (\<lambda>m. fst m = k) (moved d))" using row_sum by (auto dest!: map_of_SomeD)
    with Some map show ?thesis by simp
  qed
qed

end

definition moved_in :: "ident \<Rightarrow> nat \<Rightarrow> db \<Rightarrow> (nat \<times> satang) list" where
  "moved_in org year d = map (\<lambda>m. (snd (bangkok_month (fst m)), snd m))
     (filter (\<lambda>m. fst (bangkok_month (fst m)) = year) (movements org d))"

lemma sum_of_map: "sum_of g (map h xs) = sum_of (\<lambda>x. g (h x)) xs" by (induction xs) simp_all

interpretation sales: taxable_sales "totalsByMonth org year" "moved_in org year" for org year
proof
  show "distinct (map mt_month (totalsByMonth org year d))" for d
    by (simp add: totalsByMonth_def takingsByMonth_def Let_def comp_def)
  show "mt_gross t = sum_of snd (filter (\<lambda>m. fst m = mt_month t) (moved_in org year d))" if "t \<in> set (totalsByMonth org year d)" for t d
    using that by (auto simp: totalsByMonth_def takingsByMonth_def moved_in_def Let_def filter_map sum_of_map comp_def)
  show "fst m \<in> mt_month ` set (totalsByMonth org year d)" if "m \<in> set (moved_in org year d)" for m d
    using that by (force simp: totalsByMonth_def takingsByMonth_def moved_in_def Let_def image_iff)
qed

section \<open>What is filed\<close>

text \<open>Only filed rows are stored, each with its date and a month of the year, one per month.\<close>

definition tax_ok :: "tax_books \<Rightarrow> bool" where
  "tax_ok b = (distinct (map (\<lambda>r. (tx_org r, tx_period r, tx_year r)) (bk_taxPeriods b))
     \<and> (\<forall>r\<in>set (bk_taxPeriods b). tx_status r = TaxFiled \<and> tx_filedAt r \<noteq> None \<and> monthOf (tx_period r) \<noteq> None))"

text \<open>
  What happens to the ledger: a filing is written, by a service call that may have read before another one wrote, and
  the workspace's rate changes.
\<close>

inductive tax_step :: "tax_books \<Rightarrow> tax_books \<Rightarrow> bool" where
  filing: "1 \<le> fp_month f \<Longrightarrow> fp_month f \<le> 12 \<Longrightarrow> tax_step b (recordFiling org f b)"
| rates: "tax_step b (b\<lparr>bk_vatRates := rs\<rparr>)"

lemma recordFiling_ok:
  assumes "tax_ok b" and "1 \<le> fp_month f" and "fp_month f \<le> 12"
  shows "tax_ok (recordFiling org f b)" and "set (bk_taxPeriods b) \<subseteq> set (bk_taxPeriods (recordFiling org f b))"
  using assms by (auto simp: recordFiling_def tax_ok_def monthOf_monthLabel)

lemma tax_run:
  assumes "tax_step\<^sup>*\<^sup>* b b'" and "tax_ok b"
  shows "tax_ok b' \<and> set (bk_taxPeriods b) \<subseteq> set (bk_taxPeriods b')"
  using assms
proof (induction rule: rtranclp_induct)
  case (step y z)
  from step(2) step.IH [OF step.prems] show ?case
    by cases (use recordFiling_ok in \<open>blast\<close>, simp add: tax_ok_def)
qed simp

definition filed_of :: "nat \<Rightarrow> nat \<Rightarrow> tax_row \<Rightarrow> filed_period" where
  "filed_of year month r = \<lparr>fp_year = year, fp_month = month, fp_sales = tx_sales r, fp_vat = tx_vat r, fp_wht = tx_wht r,
     fp_remitted = tx_remitted r, fp_filedAt = the (tx_filedAt r)\<rparr>"

lemma tax_okD:
  "tax_ok b \<Longrightarrow> r \<in> set (bk_taxPeriods b) \<Longrightarrow> tx_status r = TaxFiled \<and> (\<exists>t. tx_filedAt r = Some t) \<and> (\<exists>m. monthOf (tx_period r) = Some m)"
  by (auto simp: tax_ok_def)

lemma map_filter_total: "(\<And>x. x \<in> set xs \<Longrightarrow> g x = Some (h x)) \<Longrightarrow> List.map_filter g xs = map h xs"
  by (induction xs) simp_all

lemma filedPeriods_ok:
  assumes "tax_ok b"
  shows "filedPeriods org year b = map (\<lambda>r. filed_of year (the (monthOf (tx_period r))) r)
     (filter (\<lambda>r. tx_org r = org \<and> tx_year r = year) (bk_taxPeriods b))"
proof -
  have "filter (\<lambda>r. tx_org r = org \<and> tx_year r = year \<and> tx_status r = TaxFiled) (bk_taxPeriods b)
      = filter (\<lambda>r. tx_org r = org \<and> tx_year r = year) (bk_taxPeriods b)"
    using assms by (intro filter_cong) (auto simp: tax_ok_def)
  moreover have "List.map_filter (\<lambda>r. case (monthOf (tx_period r), tx_filedAt r) of
         (Some month, Some filedAt) \<Rightarrow> Some \<lparr>fp_year = year, fp_month = month, fp_sales = tx_sales r, fp_vat = tx_vat r,
            fp_wht = tx_wht r, fp_remitted = tx_remitted r, fp_filedAt = filedAt\<rparr>
       | _ \<Rightarrow> None) (filter (\<lambda>r. tx_org r = org \<and> tx_year r = year) (bk_taxPeriods b))
     = map (\<lambda>r. filed_of year (the (monthOf (tx_period r))) r) (filter (\<lambda>r. tx_org r = org \<and> tx_year r = year) (bk_taxPeriods b))"
    by (rule map_filter_total) (auto simp: filed_of_def dest: tax_okD [OF assms])
  ultimately show ?thesis unfolding filedPeriods_def by simp
qed

lemma filed_months_distinct:
  assumes "tax_ok b"
  shows "distinct (map fp_month (filedPeriods org year b))"
proof -
  let ?rs = "filter (\<lambda>r. tx_org r = org \<and> tx_year r = year) (bk_taxPeriods b)"
  have "inj_on (\<lambda>r. the (monthOf (tx_period r))) (set ?rs)"
  proof (rule inj_onI)
    fix r s assume rs: "r \<in> set ?rs" "s \<in> set ?rs" and eq: "the (monthOf (tx_period r)) = the (monthOf (tx_period s))"
    from rs assms obtain i j where "monthOf (tx_period r) = Some i" "monthOf (tx_period s) = Some j"
      using tax_okD [OF assms, of r] tax_okD [OF assms, of s] by auto
    with eq have "tx_period r = tx_period s" by (auto dest!: monthOf_Some)
    with rs assms show "r = s" by (auto simp: tax_ok_def distinct_map inj_on_def)
  qed
  moreover have "distinct ?rs" using assms by (simp add: tax_ok_def distinct_map)
  ultimately show ?thesis by (simp add: filedPeriods_ok [OF assms] distinct_map comp_def filed_of_def)
qed

lemma filed_month_of:
  assumes "tax_ok b" and "r \<in> set (bk_taxPeriods b)" and "tx_org r = org" and "tx_year r = year" and "monthOf (tx_period r) = Some m"
  shows "js_map (map (\<lambda>f. (fp_month f, f)) (filedPeriods org year b)) m = Some (filed_of year m r)"
proof -
  have "filed_of year m r \<in> set (filedPeriods org year b)" using assms by (force simp: filedPeriods_ok)
  moreover have "fp_month (filed_of year m r) = m" by (simp add: filed_of_def)
  ultimately have "(m, filed_of year m r) \<in> set (map (\<lambda>f. (fp_month f, f)) (filedPeriods org year b))" by force
  then show ?thesis using filed_months_distinct [OF assms(1), of org year]
    by (subst js_map_distinct) (auto simp: comp_def intro!: map_of_is_SomeI)
qed

lemma open_month_of:
  assumes "tax_ok b" and "\<forall>r\<in>set (bk_taxPeriods b). \<not> (tx_org r = org \<and> tx_period r = monthLabel m \<and> tx_year r = year)"
  shows "js_map (map (\<lambda>f. (fp_month f, f)) (filedPeriods org year b)) m = None"
proof -
  have "m \<notin> fp_month ` set (filedPeriods org year b)"
    using assms by (fastforce simp: filedPeriods_ok filed_of_def tax_ok_def dest: monthOf_Some)
  then show ?thesis by (simp add: js_map_def map_of_eq_None_iff image_comp comp_def)
qed

section \<open>A month of the year\<close>

definition open_row :: "ident \<Rightarrow> nat \<Rightarrow> nat \<Rightarrow> instant \<Rightarrow> db \<Rightarrow> tax_books \<Rightarrow> tax_period_row" where
  "open_row org year m now d b =
     (let g = sum_of snd (filter (\<lambda>x. fst x = m) (moved_in org year d)); (sales, vat) = vatOnSales g (tax_vatRate org b) in
      \<lparr>tp_year = year, tp_month = m, tp_period = monthLabel m, tp_dueAt = periodDueDate year m, tp_sales = sales, tp_vat = vat,
       tp_wht = 0, tp_remitted = 0, tp_status = periodStatus year m (bangkokToday now) False, tp_filedAt = None, tp_late = False\<rparr>)"

definition month_row :: "ident \<Rightarrow> nat \<Rightarrow> nat \<Rightarrow> instant \<Rightarrow> db \<Rightarrow> tax_books \<Rightarrow> tax_period_row" where
  "month_row org year m now d b =
     (case js_map (map (\<lambda>f. (fp_month f, f)) (filedPeriods org year b)) m of
        Some f \<Rightarrow> tax_toRow year m f (bangkokToday now)
      | None \<Rightarrow> open_row org year m now d b)"

lemma yearRows_months: "yearRows org year now d b = map (\<lambda>i. month_row org year (i + 1) now d b) [0..<12]"
  unfolding yearRows_def Let_def sales.month_reads MONTHS_IN_YEAR_def month_row_def open_row_def
  by (intro map_cong refl)

lemma nth_yearRows: "1 \<le> m \<Longrightarrow> m \<le> 12 \<Longrightarrow> yearRows org year now d b ! (m - 1) = month_row org year m now d b"
  by (simp add: yearRows_months del: upt_Suc)

lemma toRow_today: "tax_toRow year m f today = tax_toRow year m f today'"
  by (simp add: tax_toRow_def periodStatus_def)

lemma file_period_D:
  assumes "file_period org inp now d b = (Inr row, b')"
  shows "1 \<le> nat (fi_month inp) \<and> nat (fi_month inp) \<le> 12
     \<and> tp_status (month_row org (fi_year inp) (nat (fi_month inp)) now d b) = TaxDue
     \<and> (\<exists>f. b' = recordFiling org f b \<and> row = tax_toRow (fi_year inp) (nat (fi_month inp)) f (bangkokToday now)
          \<and> fp_year f = fi_year inp \<and> fp_month f = nat (fi_month inp) \<and> fp_filedAt f = now \<and> fp_remitted f = fp_vat f
          \<and> fp_vat f = tp_vat (month_row org (fi_year inp) (nat (fi_month inp)) now d b))"
proof -
  have m: "1 \<le> nat (fi_month inp)" "nat (fi_month inp) \<le> 12"
    using assms by (auto simp: file_period_def MONTHS_IN_YEAR_def split: if_splits)
  have due: "tp_status (month_row org (fi_year inp) (nat (fi_month inp)) now d b) = TaxDue"
    using assms unfolding file_period_def Let_def nth_yearRows [OF m] by (auto split: if_splits)
  with assms m show ?thesis unfolding file_period_def Let_def nth_yearRows [OF m]
    by (intro conjI exI) (auto split: if_splits)
qed

lemma recordFiling_in:
  assumes "\<forall>r\<in>set (bk_taxPeriods b). \<not> (tx_org r = org \<and> tx_period r = monthLabel (fp_month f) \<and> tx_year r = fp_year f)"
  shows "\<exists>r\<in>set (bk_taxPeriods (recordFiling org f b)). tx_org r = org \<and> tx_year r = fp_year f
     \<and> tx_period r = monthLabel (fp_month f) \<and> filed_of (fp_year f) (fp_month f) r = f"
  using assms by (auto simp: recordFiling_def filed_of_def)

lemma filed_row_reads:
  assumes "tax_ok b" and "r \<in> set (bk_taxPeriods b)" and "tx_org r = org" and "tx_year r = year" and "tx_period r = monthLabel m"
    and "1 \<le> m" and "m \<le> 12"
  shows "month_row org year m now d b = tax_toRow year m (filed_of year m r) (bangkokToday now)"
  using filed_month_of [OF assms(1-4), of m] assms(5-7) by (simp add: month_row_def monthOf_monthLabel)

lemma due_is_open:
  assumes "tax_ok b" and "tp_status (month_row org year m now d b) = TaxDue" and "1 \<le> m" and "m \<le> 12"
  shows "\<forall>r\<in>set (bk_taxPeriods b). \<not> (tx_org r = org \<and> tx_period r = monthLabel m \<and> tx_year r = year)"
  using filed_row_reads [OF assms(1) _ _ _ _ assms(3,4)] assms(2) by (fastforce simp: tax_toRow_def periodStatus_def)

section \<open>Properties\<close>

text \<open>
  C36. A month that was filed is frozen: whatever is filed afterwards, whatever payments and refunds come and go, and
  whatever the rate becomes, the ledger of that year shows the month exactly as the filing answered, filed and with its
  whole VAT remitted, and filing it again is refused.
\<close>
theorem filed_month_frozen:
  assumes "file_period org inp now d b = (Inr row, b1)" and "tax_ok b" and "tax_step\<^sup>*\<^sup>* b1 b2"
  shows "yearRows org (fi_year inp) later d' b2 ! (nat (fi_month inp) - 1) = row
     \<and> tp_status row = TaxFiled \<and> tp_remitted row = tp_vat row \<and> tp_filedAt row = Some now
     \<and> file_period org (inp\<lparr>fi_wht := wht\<rparr>) later d' b2 = (Inl ALREADY_FILED, b2)"
proof -
  let ?m = "nat (fi_month inp)" and ?y = "fi_year inp"
  obtain f where m: "1 \<le> ?m" "?m \<le> 12" and due: "tp_status (month_row org ?y ?m now d b) = TaxDue"
    and f: "fp_year f = ?y" "fp_month f = ?m" "fp_remitted f = fp_vat f" "fp_filedAt f = now"
    and row: "row = tax_toRow ?y ?m f (bangkokToday now)" and b1: "b1 = recordFiling org f b"
    using file_period_D [OF assms(1)] by blast
  obtain r where r: "r \<in> set (bk_taxPeriods b1)" "tx_org r = org" "tx_year r = ?y" "tx_period r = monthLabel ?m" "filed_of ?y ?m r = f"
    using recordFiling_in [of b org f] due_is_open [OF assms(2) due m] f b1 by auto
  have "tax_ok b1" using recordFiling_ok [OF assms(2), of f org] m f b1 by simp
  from tax_run [OF assms(3) this] r(1) have "tax_ok b2" "r \<in> set (bk_taxPeriods b2)" by auto
  from filed_row_reads [OF this r(2-4) m] r(5) have reads: "month_row org ?y ?m later d' b2 = row"
    using row toRow_today by metis
  have status: "tp_status row = TaxFiled" by (simp add: row tax_toRow_def periodStatus_def)
  have "file_period org (inp\<lparr>fi_wht := wht\<rparr>) later d' b2 = (Inl ALREADY_FILED, b2)"
    using m status nth_yearRows [OF m, of org ?y later d' b2, unfolded reads One_nat_def]
    by (auto simp: file_period_def Let_def MONTHS_IN_YEAR_def)
  moreover have "tp_remitted row = tp_vat row" "tp_filedAt row = Some now" using f by (simp_all add: row tax_toRow_def)
  ultimately show ?thesis using status reads nth_yearRows [OF m] by simp
qed

lemma open_iff: "js_map (map (\<lambda>f. (fp_month f, f)) (filedPeriods org year b)) m = None \<longleftrightarrow> m \<notin> fp_month ` set (filedPeriods org year b)"
  by (simp add: js_map_def map_of_eq_None_iff image_comp comp_def)

lemma open_status: "(tp_status (month_row org year m now d b) \<noteq> TaxFiled) = (m \<notin> fp_month ` set (filedPeriods org year b))"
  unfolding open_iff [symmetric]
  by (auto simp: month_row_def open_row_def tax_toRow_def periodStatus_def Let_def split: option.split prod.split)

lemma vatOnSales_sum: "fst (vatOnSales g r) + snd (vatOnSales g r) = g"
  by (simp add: vatOnSales_def vat_net_sum)

lemma sum_by_month:
  assumes "distinct ks" and "\<And>x. x \<in> set xs \<Longrightarrow> fst x \<in> set ks"
  shows "sum_of (\<lambda>k. if P k then sum_of snd (filter (\<lambda>x. fst x = k) xs) else 0) ks = sum_of snd (filter (\<lambda>x. P (fst x)) xs)"
  using assms(2)
proof (induction xs)
  case Nil
  then show ?case by (simp add: sum_of_zero)
next
  case (Cons x xs)
  have "sum_of (\<lambda>k. if P k then sum_of snd (filter (\<lambda>x. fst x = k) (x # xs)) else 0) ks
      = sum_of (\<lambda>k. if k = fst x then (if P (fst x) then snd x else 0) else 0) ks
        + sum_of (\<lambda>k. if P k then sum_of snd (filter (\<lambda>x. fst x = k) xs) else 0) ks"
    unfolding sum_of_add by (intro sum_of_cong) auto
  also have "sum_of (\<lambda>k. if k = fst x then (if P (fst x) then snd x else 0) else 0) ks = (if P (fst x) then snd x else 0)"
    using sum_of_single [where k = "\<lambda>k. k" and x = "fst x" and xs = ks and g = "\<lambda>k. if P (fst x) then snd x else 0"] assms(1) Cons.prems by simp
  finally show ?case using Cons by simp
qed

text \<open>
  C37. The open months of a year add up to what moved in it: their sales and VAT together are the payments of the year
  less the refunds that settled in it, each counted in the Bangkok month the money moved and none lost or counted twice,
  apart from what moved in months already filed.
\<close>
theorem open_months_add_up:
  "sum_of (\<lambda>r. tp_sales r + tp_vat r) (filter (\<lambda>r. tp_status r \<noteq> TaxFiled) (yearRows org year now d b))
   = sum_of snd (filter (\<lambda>x. fst (bangkok_month (fst x)) = year
        \<and> snd (bangkok_month (fst x)) \<notin> fp_month ` set (filedPeriods org year b)) (movements org d))"
proof -
  let ?open = "\<lambda>m. m \<notin> fp_month ` set (filedPeriods org year b)"
  have month: "tp_sales (month_row org year m now d b) + tp_vat (month_row org year m now d b)
      = sum_of snd (filter (\<lambda>x. fst x = m) (moved_in org year d))" if "?open m" for m
  proof -
    have "month_row org year m now d b = open_row org year m now d b"
      using that by (simp add: month_row_def open_iff [symmetric])
    then show ?thesis using vatOnSales_sum by (simp add: open_row_def Let_def split: prod.split) (metis fst_conv snd_conv)
  qed
  have "sum_of (\<lambda>r. tp_sales r + tp_vat r) (filter (\<lambda>r. tp_status r \<noteq> TaxFiled) (yearRows org year now d b))
      = sum_of (\<lambda>m. if ?open m then sum_of snd (filter (\<lambda>x. fst x = m) (moved_in org year d)) else 0) [1..<13]"
  proof -
    have "yearRows org year now d b = map (\<lambda>m. month_row org year m now d b) [1..<13]"
      unfolding yearRows_months by (rule nth_equalityI) (simp_all del: upt_Suc)
    then show ?thesis
      by (simp add: filter_map sum_of_map sum_of_filter comp_def open_status del: upt_Suc cong: if_cong)
         (intro sum_of_cong, simp add: month sum_of_filter)
  qed
  also have "\<dots> = sum_of snd (filter (\<lambda>x. ?open (fst x)) (moved_in org year d))"
  proof (rule sum_by_month)
    show "distinct [1..<13]" by simp
    fix x assume "x \<in> set (moved_in org year d)"
    then obtain t where "fst x = snd (bangkok_month t)" by (auto simp: moved_in_def)
    with bangkok_month_bound [of t] show "fst x \<in> set [1..<13]" by simp
  qed
  also have "\<dots> = sum_of snd (filter (\<lambda>x. fst (bangkok_month (fst x)) = year \<and> ?open (snd (bangkok_month (fst x)))) (movements org d))"
    by (simp add: moved_in_def filter_map sum_of_map comp_def conj_commute)
  finally show ?thesis .
qed

section \<open>A year\<close>

text \<open>A payment of January, a refund of it that settles in February; January filed on 2 February, and a new rate.\<close>

definition jan_payment :: payment_row where
  "jan_payment = \<lparr>p_id = 3, p_org = 1, p_txn = ''T'', p_payerName = ''A'', p_order = 4, p_event = 7, p_method = ''card'', p_amount = 10700,
     p_status = PRefunded, p_paidAt = Some 0, p_gatewayRef = None, p_gatewayAccount = None, p_idempotencyKey = ''k''\<rparr>"

definition feb_refund :: refund_row where
  "feb_refund = \<lparr>r_id = 5, r_org = 1, r_payment = 3, r_order = 4, r_amount = 700, r_reason = None, r_status = RSucceeded, r_issuedBy = 2,
     r_issuedAt = 0, r_settledAt = Some 2764800000, r_gatewayRef = None, r_idempotencyKey = ''r''\<rparr>"

definition takings_db :: db where "takings_db = empty_db\<lparr>d_payments := [jan_payment]\<rparr>"
definition later_db :: db where "later_db = empty_db\<lparr>d_payments := [jan_payment\<lparr>p_amount := 500\<rparr>], d_refunds := [feb_refund]\<rparr>"
definition no_filings :: tax_books where "no_filings = \<lparr>bk_vatRates = [(1, Some 0)], bk_taxPeriods = []\<rparr>"
definition file_jan :: file_period_input where "file_jan = \<lparr>fi_year = 1970, fi_month = 1, fi_wht = None\<rparr>"
definition jan_row :: tax_period_row where "jan_row = projr (fst (file_period 1 file_jan 2764800000 takings_db no_filings))"
definition jan_filed :: tax_books where "jan_filed = snd (file_period 1 file_jan 2764800000 takings_db no_filings)"

lemma jan_moved: "sum_of snd (filter (\<lambda>x. fst x = 1) (moved_in 1 1970 takings_db)) = 10700" by code_simp

lemma no_vat: "vatOnSales g 0 = (g, 0)"
  by (simp add: vatOnSales_def vatInclusiveBreakdown_def js_mul_def js_div_def math_round_def Let_def floor_eq_iff)

lemma jan_open: "month_row 1 1970 1 2764800000 takings_db no_filings = \<lparr>tp_year = 1970, tp_month = 1, tp_period = ''Jan'',
    tp_dueAt = 45, tp_sales = 10700, tp_vat = 0, tp_wht = 0, tp_remitted = 0, tp_status = TaxDue, tp_filedAt = None, tp_late = False\<rparr>"
proof -
  have "js_map (map (\<lambda>f. (fp_month f, f)) (filedPeriods 1 1970 no_filings)) 1 = None" by (simp add: js_map_def filedPeriods_def no_filings_def)
  moreover have "tax_vatRate 1 no_filings = 0" by (simp add: tax_vatRate_def no_filings_def)
  moreover have "monthLabel 1 = ''Jan''" "periodDueDate 1970 1 = 45" "periodStatus 1970 1 (bangkokToday 2764800000) False = TaxDue" by code_simp+
  ultimately show ?thesis by (simp add: month_row_def open_row_def Let_def jan_moved no_vat del: One_nat_def)
qed

lemma jan_call: "file_period 1 file_jan 2764800000 takings_db no_filings = (Inr jan_row, jan_filed)"
  and jan_sales: "tp_sales jan_row = 10700"
proof -
  have "yearRows 1 1970 2764800000 takings_db no_filings ! 0 = month_row 1 1970 1 2764800000 takings_db no_filings"
    using nth_yearRows [of 1 1 1970 2764800000 takings_db no_filings] by simp
  then have "\<not> isl (fst (file_period 1 file_jan 2764800000 takings_db no_filings))
     \<and> tp_sales (projr (fst (file_period 1 file_jan 2764800000 takings_db no_filings))) = 10700"
    by (simp add: file_period_def file_jan_def MONTHS_IN_YEAR_def Let_def jan_open [unfolded One_nat_def] tax_toRow_def)
  then show "file_period 1 file_jan 2764800000 takings_db no_filings = (Inr jan_row, jan_filed)" "tp_sales jan_row = 10700"
    by (simp_all add: jan_row_def jan_filed_def prod_eq_iff)
qed

lemma no_filings_ok: "tax_ok no_filings" by code_simp

theorem filed_month_frozen_witness:
  "yearRows 1 1970 3000000000 later_db (jan_filed\<lparr>bk_vatRates := []\<rparr>) ! 0 = jan_row \<and> tp_sales jan_row = 10700
   \<and> file_period 1 (file_jan\<lparr>fi_wht := Some 9\<rparr>) 3000000000 later_db (jan_filed\<lparr>bk_vatRates := []\<rparr>) = (Inl ALREADY_FILED, jan_filed\<lparr>bk_vatRates := []\<rparr>)"
proof -
  have "fi_year file_jan = 1970" "nat (fi_month file_jan) - 1 = 0" by (simp_all add: file_jan_def)
  moreover note jan_sales
  ultimately show ?thesis
    using filed_month_frozen [OF jan_call no_filings_ok r_into_rtranclp [of tax_step, OF tax_step.rates [of jan_filed "[]"]], of 3000000000 later_db "Some 9"]
    by simp
qed

end
