(* ===== verification/Payouts.thy ===== *)
theory Payouts
  imports PaymentsRepo StripeAdapter Listing TextOutput
begin

text \<open>
  The transfers of a workspace's money to its bank, \<^verbatim>\<open>payouts/\<close>, with Payments' and PaymentSettings' side of them
  (\<^verbatim>\<open>payments/settled-funds.adapter.ts\<close>, \<^verbatim>\<open>payment-settings/payout-account.adapter.ts\<close>). What is collected is read
  from theory Schema's payments and refunds; the transfers themselves are the record \<open>payout_books\<close>.
\<close>

section \<open>Tables\<close>

datatype payout_status = PoScheduled | PoProcessing | PoPaid | PoFailed

record payout_row =
  po_id :: ident
  po_org :: ident
  po_reference :: string
  po_amount :: satang
  po_currency :: string
  po_bankAccount :: string
  po_status :: payout_status
  po_failureReason :: "string option"
  po_gatewayRef :: "string option"
  po_periodCovered :: "string option"
  po_requestedAt :: instant
  po_completedAt :: "instant option"

record payout_item_row =
  pm_org :: ident
  pm_payout :: ident
  pm_payment :: ident
  pm_net :: satang

record payout_audit =
  qa_org :: ident
  qa_title :: string
  qa_actor :: ident
  qa_meta :: "string option"

record payout_books =
  bk_payouts :: "payout_row list"
  bk_payoutItems :: "payout_item_row list"
  bk_payoutAudits :: "payout_audit list"

section \<open>Data access\<close>

definition findByReference :: "ident \<Rightarrow> string \<Rightarrow> payout_books \<Rightarrow> payout_row option" where
  "findByReference org reference b = find (\<lambda>p. po_org p = org \<and> po_reference p = reference) (bk_payouts b)"

definition allocatedSatang :: "ident \<Rightarrow> payout_books \<Rightarrow> satang" where
  "allocatedSatang org b = sum_of pm_net (filter (\<lambda>i. pm_org i = org) (bk_payoutItems b))"

definition totalsByStatus :: "ident \<Rightarrow> payout_books \<Rightarrow> satang \<times> satang" where
  "totalsByStatus org b =
     (sum_of po_amount (filter (\<lambda>p. po_org p = org \<and> po_status p \<in> {PoScheduled, PoProcessing}) (bk_payouts b)),
      sum_of po_amount (filter (\<lambda>p. po_org p = org \<and> po_status p = PoPaid) (bk_payouts b)))"

record payout_filters =
  pf_page :: int
  pf_limit :: int
  pf_status :: "payout_status option"

definition historyWhere :: "ident \<Rightarrow> payout_filters \<Rightarrow> payout_row \<Rightarrow> bool" where
  "historyWhere org f p = (po_org p = org \<and> (case pf_status f of None \<Rightarrow> True | Some s \<Rightarrow> po_status p = s))"

definition payout_page :: "ident \<Rightarrow> payout_filters \<Rightarrow> payout_books \<Rightarrow> payout_row list \<times> int" where
  "payout_page org f b =
     (let rows = filter (historyWhere org f) (bk_payouts b) in
      (page_of (pf_page f) (pf_limit f) (sort_key (\<lambda>p. - po_requestedAt p) (sort_key (\<lambda>p. - int (po_id p)) rows)), int (length rows)))"

record retry_outcome =
  ro_status :: payout_status
  ro_gatewayRef :: "string option"
  ro_failureReason :: "string option"
  ro_retriedBy :: ident
  ro_now :: instant

definition retried_row :: "retry_outcome \<Rightarrow> payout_row \<Rightarrow> payout_row" where
  "retried_row o' p = p\<lparr>po_status := ro_status o', po_gatewayRef := ro_gatewayRef o', po_failureReason := ro_failureReason o',
     po_requestedAt := ro_now o'\<rparr>"

text \<open>A row that is gone meanwhile makes \<^verbatim>\<open>toRow\<close> read a field of \<^verbatim>\<open>undefined\<close>; the audit row goes with the rollback.\<close>

definition markRetried :: "ident \<Rightarrow> string \<Rightarrow> retry_outcome \<Rightarrow> payout_books \<Rightarrow> error + (payout_row \<times> payout_books)" where
  "markRetried org reference o' b =
     (case findByReference org reference b of
        None \<Rightarrow> Inl Uncaught
      | Some p \<Rightarrow> Inr (retried_row o' p,
          b\<lparr>bk_payouts := upd (\<lambda>p. po_org p = org \<and> po_reference p = reference) (retried_row o') (bk_payouts b),
            bk_payoutAudits := bk_payoutAudits b @ [\<lparr>qa_org = org, qa_title = ''Retried payout '' @ reference, qa_actor = ro_retriedBy o',
              qa_meta = ro_failureReason o'\<rparr>]\<rparr>))"

section \<open>What the organizer sees\<close>

datatype timeline_step = StepRequested | StepProcessing | StepPaid

record timeline_entry =
  te_step :: timeline_step
  te_done :: bool
  te_note :: "string option"

definition PAYOUT_MASK :: string where "PAYOUT_MASK = ''****''"
definition VISIBLE_DIGITS :: nat where "VISIBLE_DIGITS = 4"
definition NO_ACCOUNT :: string where "NO_ACCOUNT = ''No bank account''"
definition ARRIVAL_NOTE :: string where "ARRIVAL_NOTE = ''Funds usually arrive within 1-3 business days.''"
definition FAILED_NOTE :: string where "FAILED_NOTE = ''The transfer could not be completed - check the bank details and retry.''"
definition REQUESTED_NOTE :: string where "REQUESTED_NOTE = ''Eventa has scheduled this payout to your bank.''"
definition PAID_NOTE :: string where "PAID_NOTE = ''The money has landed in your account.''"
definition NOT_FAILED :: error where "NOT_FAILED = Conflict ''Only a failed payout can be retried - this one has not failed.'' []"
definition NOT_CONNECTED :: error where "NOT_CONNECTED = Conflict ''Connect a payout account before moving money to your bank.'' []"
definition PAYOUT_MAX_LIMIT :: int where "PAYOUT_MAX_LIMIT = 100"
definition PAYOUT_DEFAULT_LIMIT :: int where "PAYOUT_DEFAULT_LIMIT = 20"

definition ascii_digit :: "char \<Rightarrow> bool" where
  "ascii_digit c = (48 \<le> (of_char c :: nat) \<and> (of_char c :: nat) \<le> 57)"

definition maskAccount :: "string option \<Rightarrow> string" where
  "maskAccount descriptor =
     (case descriptor of
        None \<Rightarrow> NO_ACCOUNT
      | Some s \<Rightarrow>
          if s = [] then NO_ACCOUNT
          else let ds = filter ascii_digit s in
            if length ds < VISIBLE_DIGITS then PAYOUT_MASK @ '' '' @ PAYOUT_MASK
            else PAYOUT_MASK @ '' '' @ drop (length ds - VISIBLE_DIGITS) ds)"

definition noteForProcessing :: "bool \<Rightarrow> bool \<Rightarrow> string option" where
  "noteForProcessing processing failed = (if failed then Some FAILED_NOTE else if processing then Some ARRIVAL_NOTE else None)"

definition payoutTimeline :: "payout_status \<Rightarrow> timeline_entry list" where
  "payoutTimeline status =
     (let processing = (status = PoProcessing); failed = (status = PoFailed); paid = (status = PoPaid) in
      [\<lparr>te_step = StepRequested, te_done = True, te_note = Some REQUESTED_NOTE\<rparr>,
       \<lparr>te_step = StepProcessing, te_done = (processing \<or> paid \<or> failed), te_note = noteForProcessing processing failed\<rparr>,
       \<lparr>te_step = StepPaid, te_done = paid, te_note = (if paid then Some PAID_NOTE else None)\<rparr>])"

record payout_entry =
  pe_reference :: string
  pe_amount :: satang
  pe_amountLabel :: string
  pe_currency :: string
  pe_bankAccount :: string
  pe_status :: payout_status
  pe_periodCovered :: "string option"
  pe_requestedAt :: instant
  pe_completedAt :: "instant option"
  pe_failureReason :: "string option"
  pe_canRetry :: bool

definition toPayoutEntry :: "payout_row \<Rightarrow> payout_entry" where
  "toPayoutEntry p = \<lparr>pe_reference = po_reference p, pe_amount = po_amount p, pe_amountLabel = formatBaht (po_amount p),
     pe_currency = po_currency p, pe_bankAccount = maskAccount (Some (po_bankAccount p)), pe_status = po_status p,
     pe_periodCovered = po_periodCovered p, pe_requestedAt = po_requestedAt p, pe_completedAt = po_completedAt p,
     pe_failureReason = po_failureReason p, pe_canRetry = (po_status p = PoFailed)\<rparr>"

record payout_detail =
  pd_entry :: payout_entry
  pd_timeline :: "timeline_entry list"
  pd_canDownloadReceipt :: bool

definition toPayoutDetail :: "payout_row \<Rightarrow> payout_detail" where
  "toPayoutDetail p = \<lparr>pd_entry = toPayoutEntry p, pd_timeline = payoutTimeline (po_status p),
     pd_canDownloadReceipt = (po_status p = PoPaid \<and> po_completedAt p \<noteq> None)\<rparr>"

section \<open>The service\<close>

record payout_account =
  pc_connected :: bool
  pc_accountId :: "string option"

text \<open>The settings row of the workspace, \<^verbatim>\<open>payment-settings/payout-account.adapter.ts\<close>: is it connected, and to which account.\<close>

definition findAccount :: "bool \<times> string option \<Rightarrow> payout_account" where
  "findAccount settings = \<lparr>pc_connected = (fst settings \<and> (case snd settings of None \<Rightarrow> False | Some a \<Rightarrow> a \<noteq> [])),
     pc_accountId = snd settings\<rparr>"

record balances =
  ba_available :: "satang option"
  ba_pending :: "satang option"
  ba_paidOut :: "satang option"
  ba_connected :: bool

definition lifetimeNetSatang :: "ident \<Rightarrow> db \<Rightarrow> satang" where
  "lifetimeNetSatang = lifetimeNetTakings"

definition payout_balances :: "ident \<Rightarrow> payout_account \<Rightarrow> db \<Rightarrow> payout_books \<Rightarrow> balances" where
  "payout_balances org account d b =
     (if \<not> pc_connected account
      then \<lparr>ba_available = None, ba_pending = None, ba_paidOut = None, ba_connected = False\<rparr>
      else \<lparr>ba_available = Some (max 0 (lifetimeNetSatang org d - allocatedSatang org b)), ba_pending = Some (fst (totalsByStatus org b)),
             ba_paidOut = Some (snd (totalsByStatus org b)), ba_connected = True\<rparr>)"

definition list_payouts ::
  "ident \<Rightarrow> int option \<Rightarrow> int option \<Rightarrow> payout_status option \<Rightarrow> payout_books \<Rightarrow> payout_entry list \<times> page_meta" where
  "list_payouts org page limit status b =
     (let page = clamp_page page; limit = clamp_limit PAYOUT_DEFAULT_LIMIT PAYOUT_MAX_LIMIT limit in
      case payout_page org \<lparr>pf_page = page, pf_limit = limit, pf_status = status\<rparr> b of
        (items, n) \<Rightarrow> paginated (map toPayoutEntry items) n page limit)"

definition require_payout :: "ident \<Rightarrow> string \<Rightarrow> payout_books \<Rightarrow> error + payout_row" where
  "require_payout org reference b =
     (case findByReference org reference b of None \<Rightarrow> Inl (NotFound ''Payout not found.'') | Some p \<Rightarrow> Inr p)"

definition payout_detail_of :: "ident \<Rightarrow> string \<Rightarrow> payout_books \<Rightarrow> error + payout_detail" where
  "payout_detail_of org reference b = bindE (require_payout org reference b) (\<lambda>p. Inr (toPayoutDetail p))"

definition PROVIDER_REFUSED :: "string option \<Rightarrow> error" where
  "PROVIDER_REFUSED reason =
     InternalError (''The provider refused the payout: '' @ (case reason of None \<Rightarrow> ''no reason given'' | Some r \<Rightarrow> r) @ ''.'')"

text \<open>\<open>provider\<close> is \<^verbatim>\<open>retryPayout\<close> of the workspace's provider, theory StripeAdapter.\<close>

definition retry_payout ::
  "(retry_payout_input \<Rightarrow> retried_payout) \<Rightarrow> payout_account \<Rightarrow> ident \<Rightarrow> ident \<Rightarrow> string \<Rightarrow> instant \<Rightarrow> payout_books
    \<Rightarrow> (error + payout_detail) \<times> payout_books" where
  "retry_payout provider account org user reference now b =
     (case require_payout org reference b of
        Inl e \<Rightarrow> (Inl e, b)
      | Inr p \<Rightarrow>
          if po_status p \<noteq> PoFailed then (Inl NOT_FAILED, b)
          else if \<not> pc_connected account then (Inl NOT_CONNECTED, b)
          else
            let res = provider \<lparr>rt_org = org, rt_reference = po_reference p, rt_amount = po_amount p, rt_currency = po_currency p\<rparr> in
            (case markRetried org reference \<lparr>ro_status = (case rd_status res of RetryProcessing \<Rightarrow> PoProcessing | RetryFailed \<Rightarrow> PoFailed),
                    ro_gatewayRef = (if rd_payoutRef res = [] then None else Some (rd_payoutRef res)),
                    ro_failureReason = rd_failureReason res, ro_retriedBy = user, ro_now = now\<rparr> b of
               Inl e \<Rightarrow> (Inl e, b)
             | Inr (updated, b') \<Rightarrow>
                 (if rd_status res = RetryFailed then Inl (PROVIDER_REFUSED (rd_failureReason res)) else Inr (toPayoutDetail updated), b')))"

definition settingsLink ::
  "(ident \<Rightarrow> string option \<Rightarrow> error + string option) \<Rightarrow> payout_account \<Rightarrow> ident \<Rightarrow> error + (bool \<times> string option)" where
  "settingsLink link account org =
     (if \<not> pc_connected account then Inr (False, None)
      else bindE (link org (pc_accountId account)) (\<lambda>url. Inr (True, url)))"

end
