(* ===== verification/PayoutProps.thy ===== *)
theory PayoutProps
  imports Payouts
begin

text \<open>
  A failed transfer is sent again at most once, on its own row and for its own amount; what an organizer sees of the
  bank account; and the balance that counts a failed transfer's money as gone.
\<close>

section \<open>Rows\<close>

definition payouts_unique :: "payout_books \<Rightarrow> bool" where
  "payouts_unique b = distinct (map (\<lambda>p. (po_org p, po_reference p)) (bk_payouts b))"

lemma findByReference_Some:
  "findByReference org reference b = Some p \<Longrightarrow> p \<in> set (bk_payouts b) \<and> po_org p = org \<and> po_reference p = reference"
  by (auto simp: findByReference_def dest: find_SomeD)

lemma retried_row_key [simp]:
  "po_id (retried_row r p) = po_id p" "po_org (retried_row r p) = po_org p" "po_reference (retried_row r p) = po_reference p"
  "po_amount (retried_row r p) = po_amount p" "po_bankAccount (retried_row r p) = po_bankAccount p"
  "po_completedAt (retried_row r p) = po_completedAt p" "po_status (retried_row r p) = ro_status r"
  by (simp_all add: retried_row_def)

text \<open>What a retry writes of the provider's answer.\<close>

definition written_outcome :: "retried_payout \<Rightarrow> ident \<Rightarrow> instant \<Rightarrow> retry_outcome" where
  "written_outcome res user now = \<lparr>ro_status = (case rd_status res of RetryProcessing \<Rightarrow> PoProcessing | RetryFailed \<Rightarrow> PoFailed),
     ro_gatewayRef = (if rd_payoutRef res = [] then None else Some (rd_payoutRef res)), ro_failureReason = rd_failureReason res,
     ro_retriedBy = user, ro_now = now\<rparr>"

lemma retry_payout_D:
  assumes "retry_payout provider account org user reference now b = (Inr v, b')"
  shows "\<exists>p res. findByReference org reference b = Some p \<and> po_status p = PoFailed \<and> pc_connected account
    \<and> res = provider \<lparr>rt_org = org, rt_reference = po_reference p, rt_amount = po_amount p, rt_currency = po_currency p\<rparr>
    \<and> rd_status res = RetryProcessing
    \<and> markRetried org reference (written_outcome res user now) b = Inr (retried_row (written_outcome res user now) p, b')"
proof (cases "findByReference org reference b")
  case None
  with assms show ?thesis by (simp add: retry_payout_def require_payout_def)
next
  case (Some p)
  let ?res = "provider \<lparr>rt_org = org, rt_reference = po_reference p, rt_amount = po_amount p, rt_currency = po_currency p\<rparr>"
  from assms Some have "po_status p = PoFailed" "pc_connected account"
    by (simp_all add: retry_payout_def require_payout_def split: if_splits)
  moreover from this assms Some have "rd_status ?res = RetryProcessing"
      "markRetried org reference (written_outcome ?res user now) b = Inr (retried_row (written_outcome ?res user now) p, b')"
    unfolding written_outcome_def
    by (auto simp: retry_payout_def require_payout_def markRetried_def Let_def split: if_splits retried_status.splits)
  ultimately show ?thesis using Some by blast
qed

lemma upd_key: "map k (upd P f xs) = map k xs" if "\<And>x. k (f x) = k x"
  using that by (simp add: upd_def)

lemma one_row_sum:
  assumes "distinct (map k xs)" and "x \<in> set xs" and "\<And>y. P y \<longleftrightarrow> k y = k x"
  shows "sum_of g (upd P f xs) = sum_of g xs - g x + g (f x)"
proof -
  have "sum_of g (upd P f xs) - sum_of g xs = sum_of (\<lambda>y. if k y = k x then g (f y) - g y else 0) xs"
    unfolding sum_of_upd sum_of_diff by (intro sum_of_cong) (simp add: assms(3))
  also have "\<dots> = g (f x) - g x" using sum_of_single [OF assms(1,2), of "\<lambda>y. g (f y) - g y"] .
  finally show ?thesis by simp
qed

lemma pending_of:
  "fst (totalsByStatus org b) = sum_of (\<lambda>p. if po_org p = org \<and> po_status p \<in> {PoScheduled, PoProcessing} then po_amount p else 0) (bk_payouts b)"
  by (simp add: totalsByStatus_def sum_of_filter)

text \<open>
  C38. A retry that is accepted sends exactly the failed transfer again: the provider was asked for its amount, its own
  row is marked as being processed and stays the only row of its reference, no amount changes and every other row is as
  it was, what is pending grows by that amount, the attempt is on the record with who made it, and until the transfer
  fails again another retry is refused without asking the provider.
\<close>
theorem failed_transfer_sent_once:
  assumes "retry_payout provider account org user reference now b = (Inr v, b')" and "payouts_unique b"
  shows "\<exists>p p'. findByReference org reference b = Some p \<and> po_status p = PoFailed
     \<and> rd_status (provider \<lparr>rt_org = org, rt_reference = reference, rt_amount = po_amount p, rt_currency = po_currency p\<rparr>) = RetryProcessing
     \<and> findByReference org reference b' = Some p' \<and> po_status p' = PoProcessing
     \<and> map (\<lambda>p. (po_org p, po_reference p, po_amount p)) (bk_payouts b') = map (\<lambda>p. (po_org p, po_reference p, po_amount p)) (bk_payouts b)
     \<and> filter (\<lambda>q. (po_org q, po_reference q) \<noteq> (org, reference)) (bk_payouts b') = filter (\<lambda>q. (po_org q, po_reference q) \<noteq> (org, reference)) (bk_payouts b)
     \<and> fst (totalsByStatus org b') = fst (totalsByStatus org b) + po_amount p
     \<and> snd (totalsByStatus org b') = snd (totalsByStatus org b) \<and> allocatedSatang org b' = allocatedSatang org b
     \<and> (\<exists>a. bk_payoutAudits b' = bk_payoutAudits b @ [a] \<and> qa_actor a = user)
     \<and> retry_payout provider' account' org user' reference later b' = (Inl NOT_FAILED, b')"
proof -
  from retry_payout_D [OF assms(1)] obtain p res where p: "findByReference org reference b = Some p" "po_status p = PoFailed"
    and asked: "res = provider \<lparr>rt_org = org, rt_reference = po_reference p, rt_amount = po_amount p, rt_currency = po_currency p\<rparr>"
      "rd_status res = RetryProcessing"
    and marked: "markRetried org reference (written_outcome res user now) b = Inr (retried_row (written_outcome res user now) p, b')"
    by blast
  define r where "r = written_outcome res user now"
  have r: "ro_status r = PoProcessing" using asked(2) by (simp add: r_def written_outcome_def)
  have rows: "bk_payouts b' = upd (\<lambda>p. po_org p = org \<and> po_reference p = reference) (retried_row r) (bk_payouts b)"
    and items: "bk_payoutItems b' = bk_payoutItems b"
    and audit: "\<exists>a. bk_payoutAudits b' = bk_payoutAudits b @ [a] \<and> qa_actor a = user"
    using marked p(1) by (auto simp: markRetried_def r_def written_outcome_def)
  note row = findByReference_Some [OF p(1)]
  let ?k = "\<lambda>p. (po_org p, po_reference p)"
  have keys: "distinct (map ?k (bk_payouts b))" using assms(2) by (simp add: payouts_unique_def)
  have found: "findByReference org reference b' = Some (retried_row r p)"
    unfolding findByReference_def rows
    by (rule find_uniq [of ?k]) (use row keys in \<open>auto simp: upd_key in_set_upd\<close>)
  have "map (\<lambda>p. (po_org p, po_reference p, po_amount p)) (bk_payouts b') = map (\<lambda>p. (po_org p, po_reference p, po_amount p)) (bk_payouts b)"
    unfolding rows by (rule upd_key) simp
  moreover have "filter (\<lambda>q. ?k q \<noteq> (org, reference)) (bk_payouts b') = filter (\<lambda>q. ?k q \<noteq> (org, reference)) (bk_payouts b)"
    unfolding rows by (rule filter_upd_outside) auto
  moreover have "fst (totalsByStatus org b') = fst (totalsByStatus org b) + po_amount p"
    unfolding pending_of rows by (subst one_row_sum [where k = ?k and x = p]) (use row keys p(2) r in auto)
  moreover have "snd (totalsByStatus org b') = snd (totalsByStatus org b)"
    unfolding totalsByStatus_def snd_conv sum_of_filter rows
    by (subst one_row_sum [where k = ?k and x = p]) (use row keys p(2) r in auto)
  moreover have "allocatedSatang org b' = allocatedSatang org b" by (simp add: allocatedSatang_def items)
  moreover have "retry_payout provider' account' org user' reference later b' = (Inl NOT_FAILED, b')"
    by (simp add: retry_payout_def require_payout_def found r)
  ultimately show ?thesis using p asked row found r audit by (intro exI [of _ p] exI [of _ "retried_row r p"]) auto
qed

section \<open>What is shown of an account\<close>

text \<open>Of whatever text a descriptor holds, at most its last four digits are shown.\<close>

lemma mask_shows_four: "length (filter ascii_digit (maskAccount (Some s))) \<le> 4"
proof -
  have mask: "filter ascii_digit PAYOUT_MASK = []" "filter ascii_digit NO_ACCOUNT = []" "\<not> ascii_digit CHR '' ''" by code_simp+
  have "length (filter ascii_digit (drop (length ds - 4) ds)) \<le> 4" for ds
    by (rule order_trans [OF length_filter_le]) simp
  then show ?thesis using mask by (simp add: maskAccount_def VISIBLE_DIGITS_def Let_def)
qed

section \<open>A transfer\<close>

definition sent :: "ident \<Rightarrow> string \<Rightarrow> payout_status \<Rightarrow> payout_row" where
  "sent i reference s = \<lparr>po_id = i, po_org = 1, po_reference = reference, po_amount = 900, po_currency = ''THB'', po_bankAccount = ''12345678'',
     po_status = s, po_failureReason = None, po_gatewayRef = None, po_periodCovered = None, po_requestedAt = 0, po_completedAt = None\<rparr>"

definition transfers :: payout_books where
  "transfers = \<lparr>bk_payouts = [sent 1 ''A'' PoFailed, sent 2 ''B'' PoPaid],
     bk_payoutItems = [\<lparr>pm_org = 1, pm_payout = 1, pm_payment = 7, pm_net = 900\<rparr>], bk_payoutAudits = []\<rparr>"

definition willing :: "retry_payout_input \<Rightarrow> retried_payout" where
  "willing i = \<lparr>rd_payoutRef = ''po'', rd_status = RetryProcessing, rd_failureReason = None\<rparr>"

definition bank_account :: payout_account where "bank_account = findAccount (True, Some ''acct'')"
definition resent :: payout_books where "resent = snd (retry_payout willing bank_account 1 4 ''A'' 9 transfers)"

lemma resend_call: "retry_payout willing bank_account 1 4 ''A'' 9 transfers = (Inr (projr (fst (retry_payout willing bank_account 1 4 ''A'' 9 transfers))), resent)"
proof -
  have "\<not> isl (fst (retry_payout willing bank_account 1 4 ''A'' 9 transfers))" by code_simp
  then show ?thesis by (simp add: resent_def prod_eq_iff)
qed

theorem failed_transfer_sent_once_witness:
  "map po_status (bk_payouts resent) = [PoProcessing, PoPaid] \<and> fst (totalsByStatus 1 resent) = fst (totalsByStatus 1 transfers) + 900
   \<and> retry_payout willing bank_account 1 5 ''A'' 10 resent = (Inl NOT_FAILED, resent)"
proof -
  have "payouts_unique transfers" "findByReference 1 ''A'' transfers = Some (sent 1 ''A'' PoFailed)" "po_amount (sent 1 ''A'' PoFailed) = 900"
    "map po_status (bk_payouts resent) = [PoProcessing, PoPaid]"
    by code_simp+
  with failed_transfer_sent_once [OF resend_call, of willing bank_account 5 10] show ?thesis by auto
qed

text \<open>The money of a failed transfer is subtracted from what is available, though it never left.\<close>

lemma failed_transfer_not_available: "(allocatedSatang 1 transfers, totalsByStatus 1 transfers) = (900, 0, 900)" by code_simp

end
