(* ===== verification/Meetings.thy ===== *)
theory Meetings
  imports EventsRepo Calendar TextOutput JsText
begin

text \<open>
  The coordination meetings of a workspace: \<^verbatim>\<open>meetings/\<close>, with Events' side of them
  (\<^verbatim>\<open>events/meeting-event.adapter.ts\<close>). A date is the number of its day and a wall-clock time, \<^verbatim>\<open>HH:MM\<close> in the code,
  the minutes since midnight. The calendar is a worker outside this code: it reads the outbox and writes the four sync
  columns of a row.
\<close>

section \<open>Rows\<close>

datatype meeting_type = VenueMeeting | SponsorMeeting | VendorMeeting | SpeakerMeeting | InternalMeeting
datatype meeting_mode = Video | InPerson | Phone
datatype meeting_status = Scheduled | CalledOff
datatype sync_status = SyncPending | Synced | SyncFailed | NotConnected
datatype sync_intent = SyncCreate | SyncUpdate | SyncCancel

record meeting_row =
  mg_id :: ident
  mg_org :: ident
  mg_title :: string
  mg_date :: date
  mg_start :: nat
  mg_end :: nat
  mg_type :: meeting_type
  mg_mode :: meeting_mode
  mg_status :: meeting_status
  mg_person :: string
  mg_role :: "string option"
  mg_guestEmail :: string
  mg_event :: "ident option"
  mg_link :: "string option"
  mg_location :: "string option"
  mg_notes :: "string option"
  mg_reason :: "string option"
  mg_cancelledAt :: "instant option"
  mg_sync :: sync_status
  mg_external :: "string option"
  mg_syncError :: "string option"
  mg_key :: string
  mg_createdBy :: ident
  mg_updatedAt :: instant
  mg_deletedAt :: "instant option"
  mg_version :: nat

record meeting_sync =
  ms_org :: ident
  ms_meeting :: ident
  ms_intent :: sync_intent
  ms_title :: string
  ms_startsAt :: instant
  ms_endsAt :: instant
  ms_guestEmail :: string
  ms_person :: string
  ms_mode :: meeting_mode
  ms_needsLink :: bool
  ms_location :: "string option"
  ms_notes :: "string option"
  ms_external :: "string option"
  ms_reason :: "string option"
  ms_occurredAt :: instant

record diary =
  dy_next :: ident
  dy_meetings :: "meeting_row list"
  dy_outbox :: "meeting_sync list"

type_synonym 'r diary_svc = "(error + 'r) \<times> diary"

section \<open>Events' side\<close>

record meeting_event =
  me_event :: ident
  me_eventName :: string
  me_venueName :: "string option"

definition findForMeeting :: "ident \<Rightarrow> ident \<Rightarrow> db \<Rightarrow> meeting_event option" where
  "findForMeeting org ev d =
     map_option (\<lambda>e. \<lparr>me_event = evt_id e, me_eventName = evt_name e, me_venueName = evt_venueName e\<rparr>)
       (find (\<lambda>e. evt_id e = ev \<and> evt_org e = org \<and> evt_deletedAt e = None) (d_events d))"

definition namesByIds :: "ident \<Rightarrow> ident list \<Rightarrow> db \<Rightarrow> (ident \<times> string) list" where
  "namesByIds org ids d = map (\<lambda>e. (evt_id e, evt_name e)) (filter (\<lambda>e. evt_org e = org \<and> evt_id e \<in> set ids) (d_events d))"

definition idsMatchingName :: "ident \<Rightarrow> string \<Rightarrow> db \<Rightarrow> ident list" where
  "idsMatchingName org search d = map evt_id
     (filter (\<lambda>e. evt_org e = org \<and> ilike (evt_name e) (contains_term search) \<and> evt_deletedAt e = None) (d_events d))"

section \<open>Buckets\<close>

datatype meeting_bucket = TodayBucket | UpcomingBucket | PastBucket

definition bucketFor :: "date \<Rightarrow> instant \<Rightarrow> meeting_bucket" where
  "bucketFor day now = (if day = bangkokDay now then TodayBucket else if day > bangkokDay now then UpcomingBucket else PastBucket)"

definition startsAt :: "date \<Rightarrow> nat \<Rightarrow> instant" where
  "startsAt day minutes = (let midnight = day * DAY_MS - BANGKOK_OFFSET_MS in midnight + int minutes * 60 * 1000)"

definition isJoinable :: "meeting_mode \<Rightarrow> string option \<Rightarrow> date \<Rightarrow> instant \<Rightarrow> bool" where
  "isJoinable mode link day now =
     (if mode \<noteq> Video \<or> (case link of None \<Rightarrow> True | Some l \<Rightarrow> l = []) then False else bucketFor day now \<noteq> PastBucket)"

section \<open>Scheduling rules\<close>

definition MIN_TITLE :: nat where "MIN_TITLE = 3"
definition PHONE_LOCATION :: string where "PHONE_LOCATION = ''Phone call''"
definition TITLE_REQUIRED :: error where "TITLE_REQUIRED = Validation ''Give the meeting a title of at least 3 characters.'' []"
definition DATE_PAST :: error where "DATE_PAST = Validation ''That date has already passed - choose today or later.'' []"
definition END_BEFORE_START :: error where "END_BEFORE_START = Validation ''The end time must be after the start time.'' []"
definition MEETING_GONE :: error where "MEETING_GONE = NotFound ''That meeting isn't available.''"
definition ALREADY_CANCELLED :: error where
  "ALREADY_CANCELLED = Conflict ''This meeting was cancelled and can no longer be edited.'' []"
definition CHANGED_UNDERNEATH :: error where
  "CHANGED_UNDERNEATH = Conflict ''Someone else changed this meeting - reload it and try again.'' []"
definition NO_SUCH_EVENT :: error where "NO_SUCH_EVENT = Validation ''That event isn't in this workspace.'' []"

definition assertSchedulable :: "string \<Rightarrow> date \<Rightarrow> nat \<Rightarrow> nat \<Rightarrow> instant \<Rightarrow> error + unit" where
  "assertSchedulable title day start fin now =
     (if length (js_trim title) < MIN_TITLE then Inl TITLE_REQUIRED
      else if day < bangkokDay now then Inl DATE_PAST
      else if fin \<le> start then Inl END_BEFORE_START
      else Inr ())"

record meeting_place =
  pl_location :: "string option"
  pl_needsLink :: bool

definition placeOf :: "meeting_mode \<Rightarrow> string option \<Rightarrow> meeting_place" where
  "placeOf mode eventVenue =
     (case mode of
        Video \<Rightarrow> \<lparr>pl_location = None, pl_needsLink = True\<rparr>
      | Phone \<Rightarrow> \<lparr>pl_location = Some PHONE_LOCATION, pl_needsLink = False\<rparr>
      | InPerson \<Rightarrow> \<lparr>pl_location = eventVenue, pl_needsLink = False\<rparr>)"

section \<open>Data access\<close>

definition enqueue_sync :: "meeting_sync \<Rightarrow> diary \<Rightarrow> diary" where
  "enqueue_sync e b = b\<lparr>dy_outbox := dy_outbox b @ [e]\<rparr>"

text \<open>A write to the rows a condition selects; \<^verbatim>\<open>ck_meetings_times\<close> may refuse it.\<close>

definition update_meetings :: "(meeting_row \<Rightarrow> bool) \<Rightarrow> (meeting_row \<Rightarrow> meeting_row) \<Rightarrow> diary \<Rightarrow> error + (meeting_row list \<times> diary)" where
  "update_meetings p f b =
     (let rows = upd p f (dy_meetings b) in
      if list_all (\<lambda>m. mg_start m < mg_end m) rows
      then Inr (map f (filter p (dy_meetings b)), b\<lparr>dy_meetings := rows\<rparr>)
      else Inl (DbViolation ck_meetings_times))"

definition byIdempotencyKey :: "ident \<Rightarrow> string \<Rightarrow> diary \<Rightarrow> meeting_row option" where
  "byIdempotencyKey org key b = find (\<lambda>m. mg_org m = org \<and> mg_key m = key) (dy_meetings b)"

text \<open>The row as it is inserted, without its id.\<close>

definition schedule_tx :: "meeting_row \<Rightarrow> (meeting_row \<Rightarrow> meeting_sync) \<Rightarrow> diary \<Rightarrow> error + ((meeting_row \<times> bool) \<times> diary)" where
  "schedule_tx m buildSync b =
     (case byIdempotencyKey (mg_org m) (mg_key m) b of
        Some existing \<Rightarrow> Inr ((existing, False), b)
      | None \<Rightarrow>
          let row = m\<lparr>mg_id := dy_next b\<rparr> in
          if mg_start row < mg_end row
          then Inr ((row, True), enqueue_sync (buildSync row) (b\<lparr>dy_meetings := dy_meetings b @ [row], dy_next := dy_next b + 1\<rparr>))
          else Inl (DbViolation ck_meetings_times))"

definition reschedule_tx ::
  "ident \<Rightarrow> ident \<Rightarrow> nat \<Rightarrow> (meeting_row \<Rightarrow> meeting_row) \<Rightarrow> (meeting_row \<Rightarrow> meeting_sync) \<Rightarrow> instant \<Rightarrow> diary
    \<Rightarrow> error + (meeting_row option \<times> diary)" where
  "reschedule_tx org i expected patch buildSync now b =
     bindE (update_meetings (\<lambda>m. mg_id m = i \<and> mg_org m = org \<and> mg_version m = expected \<and> mg_status m = Scheduled \<and> mg_deletedAt m = None)
              (\<lambda>m. (patch m)\<lparr>mg_sync := SyncPending, mg_syncError := None, mg_updatedAt := now, mg_version := expected + 1\<rparr>) b)
       (\<lambda>(rows, b'). Inr (case rows of [] \<Rightarrow> (None, b') | m # _ \<Rightarrow> (Some m, enqueue_sync (buildSync m) b')))"

definition cancel_tx ::
  "ident \<Rightarrow> ident \<Rightarrow> string option \<Rightarrow> (meeting_row \<Rightarrow> meeting_sync) \<Rightarrow> instant \<Rightarrow> diary \<Rightarrow> error + (meeting_row option \<times> diary)" where
  "cancel_tx org i reason buildSync now b =
     bindE (update_meetings (\<lambda>m. mg_id m = i \<and> mg_org m = org \<and> mg_status m = Scheduled \<and> mg_deletedAt m = None)
              (\<lambda>m. m\<lparr>mg_status := CalledOff, mg_reason := reason, mg_cancelledAt := Some now, mg_sync := SyncPending, mg_updatedAt := now\<rparr>) b)
       (\<lambda>(rows, b'). Inr (case rows of [] \<Rightarrow> (None, b') | m # _ \<Rightarrow> (Some m, enqueue_sync (buildSync m) b')))"

definition retrySync_tx ::
  "ident \<Rightarrow> ident \<Rightarrow> (meeting_row \<Rightarrow> meeting_sync) \<Rightarrow> instant \<Rightarrow> diary \<Rightarrow> error + (meeting_row option \<times> diary)" where
  "retrySync_tx org i buildSync now b =
     bindE (update_meetings (\<lambda>m. mg_id m = i \<and> mg_org m = org \<and> mg_deletedAt m = None)
              (\<lambda>m. m\<lparr>mg_sync := SyncPending, mg_syncError := None, mg_updatedAt := now\<rparr>) b)
       (\<lambda>(rows, b'). Inr (case rows of [] \<Rightarrow> (None, b') | m # _ \<Rightarrow> (Some m, enqueue_sync (buildSync m) b')))"

definition resyncUnsynced_tx :: "ident \<Rightarrow> (meeting_row \<Rightarrow> meeting_sync) \<Rightarrow> instant \<Rightarrow> diary \<Rightarrow> error + (nat \<times> diary)" where
  "resyncUnsynced_tx org buildSync now b =
     bindE (update_meetings (\<lambda>m. mg_org m = org \<and> mg_deletedAt m = None \<and> mg_sync m \<noteq> Synced \<and> mg_date m \<ge> bangkokDay now
                \<and> (mg_status m = Scheduled \<or> mg_external m \<noteq> None))
              (\<lambda>m. m\<lparr>mg_sync := SyncPending, mg_syncError := None, mg_updatedAt := now\<rparr>) b)
       (\<lambda>(rows, b'). Inr (length rows, fold (\<lambda>m. enqueue_sync (buildSync m)) rows b'))"

definition findMeeting :: "ident \<Rightarrow> ident \<Rightarrow> diary \<Rightarrow> meeting_row option" where
  "findMeeting org i b = find (\<lambda>m. mg_id m = i \<and> mg_org m = org \<and> mg_deletedAt m = None) (dy_meetings b)"

record meeting_filters =
  mf_page :: int
  mf_limit :: int
  mf_bucket :: "meeting_bucket option"
  mf_type :: "meeting_type option"
  mf_event :: "ident option"
  mf_search :: "string option"
  mf_eventIds :: "ident list option"

definition meeting_type_text :: "meeting_type \<Rightarrow> string" where
  "meeting_type_text t = (case t of VenueMeeting \<Rightarrow> ''Venue'' | SponsorMeeting \<Rightarrow> ''Sponsor'' | VendorMeeting \<Rightarrow> ''Vendor''
     | SpeakerMeeting \<Rightarrow> ''Speaker'' | InternalMeeting \<Rightarrow> ''Internal'')"

definition bucketWhere :: "meeting_bucket \<Rightarrow> instant \<Rightarrow> meeting_row \<Rightarrow> bool" where
  "bucketWhere bucket now m =
     (case bucket of
        TodayBucket \<Rightarrow> mg_date m = bangkokDay now \<and> mg_status m \<noteq> CalledOff
      | UpcomingBucket \<Rightarrow> mg_date m > bangkokDay now \<and> mg_status m \<noteq> CalledOff
      | PastBucket \<Rightarrow> mg_date m < bangkokDay now)"

definition meeting_search :: "string \<Rightarrow> ident list option \<Rightarrow> meeting_row \<Rightarrow> bool" where
  "meeting_search s eventIds m =
     (let pattern = contains_term s in
      ilike (mg_title m) pattern \<or> ilike (mg_person m) pattern
      \<or> (case mg_role m of None \<Rightarrow> False | Some r \<Rightarrow> ilike r pattern)
      \<or> ilike (meeting_type_text (mg_type m)) pattern
      \<or> (case (eventIds, mg_event m) of (Some ids, Some e) \<Rightarrow> e \<in> set ids | _ \<Rightarrow> False))"

definition meeting_listWhere :: "ident \<Rightarrow> meeting_filters \<Rightarrow> instant \<Rightarrow> meeting_row \<Rightarrow> bool" where
  "meeting_listWhere org f now m =
     (mg_org m = org \<and> mg_deletedAt m = None
      \<and> (case mf_bucket f of None \<Rightarrow> True | Some k \<Rightarrow> bucketWhere k now m)
      \<and> (case mf_type f of None \<Rightarrow> True | Some t \<Rightarrow> mg_type m = t)
      \<and> (case mf_event f of None \<Rightarrow> True | Some e \<Rightarrow> mg_event m = Some e)
      \<and> (case mf_search f of None \<Rightarrow> True | Some s \<Rightarrow> s = [] \<or> meeting_search s (mf_eventIds f) m))"

definition meeting_page :: "ident \<Rightarrow> meeting_filters \<Rightarrow> instant \<Rightarrow> diary \<Rightarrow> meeting_row list \<times> int" where
  "meeting_page org f now b =
     (let rows = filter (meeting_listWhere org f now) (dy_meetings b) in
      (page_of (mf_page f) (mf_limit f) (sort_key mg_date (sort_key mg_start rows)), int (length rows)))"

record meeting_counts =
  mc_all :: int
  mc_today :: int
  mc_upcoming :: int
  mc_past :: int

definition countByBucket :: "ident \<Rightarrow> meeting_filters \<Rightarrow> instant \<Rightarrow> diary \<Rightarrow> meeting_counts" where
  "countByBucket org f now b =
     (let rows = filter (meeting_listWhere org (f\<lparr>mf_bucket := None\<rparr>) now) (dy_meetings b) in
      \<lparr>mc_all = int (length rows),
       mc_today = int (length (filter (\<lambda>m. mg_date m = bangkokDay now \<and> mg_status m \<noteq> CalledOff) rows)),
       mc_upcoming = int (length (filter (\<lambda>m. mg_date m > bangkokDay now \<and> mg_status m \<noteq> CalledOff) rows)),
       mc_past = int (length (filter (\<lambda>m. mg_date m < bangkokDay now) rows))\<rparr>)"

section \<open>Booking and changing\<close>

record schedule_command =
  sk_title :: string
  sk_date :: date
  sk_start :: nat
  sk_end :: nat
  sk_type :: meeting_type
  sk_mode :: meeting_mode
  sk_person :: string
  sk_role :: "string option"
  sk_guestEmail :: string
  sk_event :: "ident option"
  sk_notes :: "string option"
  sk_key :: "string option"

text \<open>An edit sends the fields it changes and the version it was made from.\<close>

record reschedule_command =
  rk_title :: "string option"
  rk_date :: "date option"
  rk_start :: "nat option"
  rk_end :: "nat option"
  rk_type :: "meeting_type option"
  rk_mode :: "meeting_mode option"
  rk_person :: "string option"
  rk_role :: "string option"
  rk_guestEmail :: "string option"
  rk_event :: "ident option"
  rk_notes :: "string option"
  rk_version :: nat

definition venueFor :: "ident \<Rightarrow> ident option \<Rightarrow> db \<Rightarrow> error + string option" where
  "venueFor org ev d =
     (case ev of
        None \<Rightarrow> Inr None
      | Some e \<Rightarrow> (case findForMeeting org e d of None \<Rightarrow> Inl NO_SUCH_EVENT | Some x \<Rightarrow> Inr (me_venueName x)))"

definition syncEvent :: "sync_intent \<Rightarrow> bool \<Rightarrow> instant \<Rightarrow> meeting_row \<Rightarrow> meeting_sync" where
  "syncEvent intent needsLink now m = \<lparr>ms_org = mg_org m, ms_meeting = mg_id m, ms_intent = intent, ms_title = mg_title m,
     ms_startsAt = startsAt (mg_date m) (mg_start m), ms_endsAt = startsAt (mg_date m) (mg_end m), ms_guestEmail = mg_guestEmail m,
     ms_person = mg_person m, ms_mode = mg_mode m, ms_needsLink = needsLink, ms_location = mg_location m, ms_notes = mg_notes m,
     ms_external = mg_external m, ms_reason = mg_reason m, ms_occurredAt = now\<rparr>"

definition intentFor :: "meeting_row \<Rightarrow> sync_intent" where
  "intentFor m = (case mg_external m of None \<Rightarrow> SyncCreate | Some e \<Rightarrow> if e = [] then SyncCreate else SyncUpdate)"

definition toCommand :: "meeting_row \<Rightarrow> schedule_command" where
  "toCommand m = \<lparr>sk_title = mg_title m, sk_date = mg_date m, sk_start = mg_start m, sk_end = mg_end m, sk_type = mg_type m,
     sk_mode = mg_mode m, sk_person = mg_person m, sk_role = mg_role m, sk_guestEmail = mg_guestEmail m, sk_event = mg_event m,
     sk_notes = mg_notes m, sk_key = None\<rparr>"

definition or_kept :: "'a option \<Rightarrow> 'a \<Rightarrow> 'a" where
  "or_kept new old = (case new of None \<Rightarrow> old | Some x \<Rightarrow> x)"

definition merge_command :: "schedule_command \<Rightarrow> reschedule_command \<Rightarrow> schedule_command" where
  "merge_command c k = \<lparr>sk_title = or_kept (rk_title k) (sk_title c), sk_date = or_kept (rk_date k) (sk_date c),
     sk_start = or_kept (rk_start k) (sk_start c), sk_end = or_kept (rk_end k) (sk_end c), sk_type = or_kept (rk_type k) (sk_type c),
     sk_mode = or_kept (rk_mode k) (sk_mode c), sk_person = or_kept (rk_person k) (sk_person c),
     sk_role = (case rk_role k of None \<Rightarrow> sk_role c | r \<Rightarrow> r), sk_guestEmail = or_kept (rk_guestEmail k) (sk_guestEmail c),
     sk_event = (case rk_event k of None \<Rightarrow> sk_event c | e \<Rightarrow> e), sk_notes = (case rk_notes k of None \<Rightarrow> sk_notes c | n \<Rightarrow> n),
     sk_key = None\<rparr>"

definition new_meeting :: "ident \<Rightarrow> ident \<Rightarrow> schedule_command \<Rightarrow> string \<Rightarrow> meeting_place \<Rightarrow> instant \<Rightarrow> meeting_row" where
  "new_meeting org user c freshKey p now = \<lparr>mg_id = 0, mg_org = org, mg_title = js_trim (sk_title c), mg_date = sk_date c,
     mg_start = sk_start c, mg_end = sk_end c, mg_type = sk_type c, mg_mode = sk_mode c, mg_status = Scheduled,
     mg_person = js_trim (sk_person c), mg_role = sk_role c, mg_guestEmail = sk_guestEmail c, mg_event = sk_event c, mg_link = None,
     mg_location = pl_location p, mg_notes = sk_notes c, mg_reason = None, mg_cancelledAt = None, mg_sync = SyncPending,
     mg_external = None, mg_syncError = None, mg_key = or_kept (sk_key c) freshKey, mg_createdBy = user, mg_updatedAt = now,
     mg_deletedAt = None, mg_version = 1\<rparr>"

definition schedule_meeting ::
  "ident \<Rightarrow> ident \<Rightarrow> schedule_command \<Rightarrow> string \<Rightarrow> instant \<Rightarrow> db \<Rightarrow> diary \<Rightarrow> (meeting_row \<times> bool) diary_svc" where
  "schedule_meeting org user c freshKey now d b =
     (case bindE (assertSchedulable (sk_title c) (sk_date c) (sk_start c) (sk_end c) now) (\<lambda>_.
           bindE (venueFor org (sk_event c) d) (\<lambda>venue.
             let p = placeOf (sk_mode c) venue in
             schedule_tx (new_meeting org user c freshKey p now) (syncEvent SyncCreate (pl_needsLink p) now) b)) of
        Inl e \<Rightarrow> (Inl e, b)
      | Inr (r, b') \<Rightarrow> (Inr r, b'))"

definition mustFindMeeting :: "ident \<Rightarrow> ident \<Rightarrow> diary \<Rightarrow> error + meeting_row" where
  "mustFindMeeting org i b = (case findMeeting org i b of None \<Rightarrow> Inl MEETING_GONE | Some m \<Rightarrow> Inr m)"

text \<open>A meeting that is not a video call loses its link; one that stays a video call keeps whatever the worker wrote.\<close>

definition meeting_patch :: "schedule_command \<Rightarrow> meeting_place \<Rightarrow> meeting_row \<Rightarrow> meeting_row" where
  "meeting_patch c p m = m\<lparr>mg_title := js_trim (sk_title c), mg_date := sk_date c, mg_start := sk_start c, mg_end := sk_end c,
     mg_type := sk_type c, mg_mode := sk_mode c, mg_person := js_trim (sk_person c), mg_role := sk_role c,
     mg_guestEmail := sk_guestEmail c, mg_event := sk_event c, mg_location := pl_location p, mg_notes := sk_notes c,
     mg_link := (if pl_needsLink p then mg_link m else None)\<rparr>"

definition reschedule_meeting :: "ident \<Rightarrow> ident \<Rightarrow> reschedule_command \<Rightarrow> instant \<Rightarrow> db \<Rightarrow> diary \<Rightarrow> meeting_row diary_svc" where
  "reschedule_meeting org i k now d b =
     (case bindE (mustFindMeeting org i b) (\<lambda>current.
           bindE (check (mg_status current \<noteq> CalledOff) ALREADY_CANCELLED) (\<lambda>_.
             let c = merge_command (toCommand current) k in
             bindE (assertSchedulable (sk_title c) (sk_date c) (sk_start c) (sk_end c) now) (\<lambda>_.
             bindE (venueFor org (sk_event c) d) (\<lambda>venue.
               let p = placeOf (sk_mode c) venue in
               reschedule_tx org i (rk_version k) (meeting_patch c p) (syncEvent SyncUpdate (pl_needsLink p) now) now b)))) of
        Inl e \<Rightarrow> (Inl e, b)
      | Inr (None, b') \<Rightarrow> (Inl CHANGED_UNDERNEATH, b')
      | Inr (Some m, b') \<Rightarrow> (Inr m, b'))"

definition cancel_meeting :: "ident \<Rightarrow> ident \<Rightarrow> string option \<Rightarrow> instant \<Rightarrow> diary \<Rightarrow> meeting_row diary_svc" where
  "cancel_meeting org i reason now b =
     (case cancel_tx org i reason (syncEvent SyncCancel False now) now b of
        Inl e \<Rightarrow> (Inl e, b)
      | Inr (None, b') \<Rightarrow> (Inl ALREADY_CANCELLED, b')
      | Inr (Some m, b') \<Rightarrow> (Inr m, b'))"

definition retry_intent :: "meeting_row \<Rightarrow> meeting_row \<Rightarrow> sync_intent" where
  "retry_intent seen m = (if mg_status seen = CalledOff then SyncCancel else intentFor m)"

definition retrySync :: "ident \<Rightarrow> ident \<Rightarrow> instant \<Rightarrow> diary \<Rightarrow> meeting_row diary_svc" where
  "retrySync org i now b =
     (case bindE (mustFindMeeting org i b) (\<lambda>meeting.
           retrySync_tx org i (\<lambda>m. syncEvent (retry_intent meeting m) (mg_mode m = Video) now m) now b) of
        Inl e \<Rightarrow> (Inl e, b)
      | Inr (None, b') \<Rightarrow> (Inl MEETING_GONE, b')
      | Inr (Some m, b') \<Rightarrow> (Inr m, b'))"

definition resync_event :: "instant \<Rightarrow> meeting_row \<Rightarrow> meeting_sync" where
  "resync_event now m =
     (if mg_status m = CalledOff then syncEvent SyncCancel False now m else syncEvent (intentFor m) (mg_mode m = Video) now m)"

definition resyncUnsynced :: "ident \<Rightarrow> instant \<Rightarrow> diary \<Rightarrow> nat diary_svc" where
  "resyncUnsynced org now b =
     (case resyncUnsynced_tx org (resync_event now) now b of Inl e \<Rightarrow> (Inl e, b) | Inr (n, b') \<Rightarrow> (Inr n, b'))"

section \<open>Reading\<close>

definition MEETING_DEFAULT_LIMIT :: int where "MEETING_DEFAULT_LIMIT = 20"
definition MEETING_MAX_LIMIT :: int where "MEETING_MAX_LIMIT = 100"
definition NO_MATCHES :: string where "NO_MATCHES = ''No meetings match your filters.''"
definition TODAY_PREFIX :: string where "TODAY_PREFIX = ''Today''"

text \<open>A stored time as the console shows it.\<close>

definition trimSeconds :: "nat \<Rightarrow> string" where
  "trimSeconds minutes = two_digits (minutes div 60) @ CHR '':'' # two_digits (minutes mod 60)"

definition meeting_place_text :: "meeting_row \<Rightarrow> string option" where
  "meeting_place_text m = (case mg_mode m of Video \<Rightarrow> mg_link m | Phone \<Rightarrow> Some PHONE_LOCATION | InPerson \<Rightarrow> mg_location m)"

definition timeLabel :: "meeting_row \<Rightarrow> meeting_bucket \<Rightarrow> string" where
  "timeLabel m bucket =
     (let span = trimSeconds (mg_start m) @ '' - '' @ trimSeconds (mg_end m)
      in if bucket = TodayBucket then TODAY_PREFIX @ '' . '' @ span else span)"

record meeting_entry =
  mn_row :: meeting_row
  mn_startsAt :: instant
  mn_timeLabel :: string
  mn_bucket :: meeting_bucket
  mn_isToday :: bool
  mn_eventName :: "string option"
  mn_place :: "string option"
  mn_canJoin :: bool
  mn_canEdit :: bool

definition toMeetingEntry :: "meeting_row \<Rightarrow> string option \<Rightarrow> instant \<Rightarrow> meeting_entry" where
  "toMeetingEntry m eventName now =
     (let bucket = bucketFor (mg_date m) now in
      \<lparr>mn_row = m, mn_startsAt = startsAt (mg_date m) (mg_start m), mn_timeLabel = timeLabel m bucket, mn_bucket = bucket,
       mn_isToday = (bucket = TodayBucket), mn_eventName = eventName, mn_place = meeting_place_text m,
       mn_canJoin = (mg_status m = Scheduled \<and> isJoinable (mg_mode m) (mg_link m) (mg_date m) now),
       mn_canEdit = (mg_status m = Scheduled)\<rparr>)"

record list_meetings_query =
  lm_page :: "int option"
  lm_limit :: "int option"
  lm_bucket :: "meeting_bucket option"
  lm_type :: "meeting_type option"
  lm_event :: "ident option"
  lm_search :: "string option"

definition list_meetings ::
  "ident \<Rightarrow> list_meetings_query \<Rightarrow> instant \<Rightarrow> db \<Rightarrow> diary \<Rightarrow> (meeting_entry list \<times> page_meta) \<times> meeting_counts \<times> string option" where
  "list_meetings org q now d b =
     (let page = clamp_page (lm_page q); limit = clamp_limit MEETING_DEFAULT_LIMIT MEETING_MAX_LIMIT (lm_limit q);
          eventIds = (case lm_search q of None \<Rightarrow> None | Some s \<Rightarrow> if s = [] then None else Some (idsMatchingName org s d));
          f = \<lparr>mf_page = page, mf_limit = limit, mf_bucket = lm_bucket q, mf_type = lm_type q, mf_event = lm_event q,
                mf_search = lm_search q, mf_eventIds = eventIds\<rparr>
      in case meeting_page org f now b of (items, n) \<Rightarrow>
           let names = namesByIds org (dedupe (List.map_filter mg_event items)) d in
           (paginated (map (\<lambda>m. toMeetingEntry m (case mg_event m of None \<Rightarrow> None | Some e \<Rightarrow> map_of names e) now) items) n page limit,
            countByBucket org f now b,
            if n = 0 then Some NO_MATCHES else None))"

section \<open>Everything that happens to a diary\<close>

text \<open>
  The calendar's worker writes the sync columns of one row, whatever it decides; everything else is a call of the
  service. \<open>schedule_tx\<close> and the other transactions check again what a call read before them, so a call whose read is
  stale is one of these steps as well: it is the transaction alone.
\<close>

definition worker_write :: "sync_status \<Rightarrow> string option \<Rightarrow> string option \<Rightarrow> string option \<Rightarrow> meeting_row \<Rightarrow> meeting_row" where
  "worker_write st err ext link m = m\<lparr>mg_sync := st, mg_syncError := err, mg_external := ext, mg_link := link\<rparr>"

inductive diary_step :: "diary \<Rightarrow> diary \<Rightarrow> bool" where
  booked: "schedule_meeting org user c freshKey now d b = (r, b') \<Longrightarrow> diary_step b b'"
| moved: "reschedule_tx org i v (meeting_patch c p) buildSync now b = Inr (r, b') \<Longrightarrow> diary_step b b'"
| called_off: "cancel_meeting org i reason now b = (r, b') \<Longrightarrow> diary_step b b'"
| retried: "retrySync_tx org i buildSync now b = Inr (r, b') \<Longrightarrow> diary_step b b'"
| resynced: "resyncUnsynced org now b = (n, b') \<Longrightarrow> diary_step b b'"
| worked: "diary_step b (b\<lparr>dy_meetings := upd (\<lambda>m. mg_id m = i) (worker_write st err ext link) (dy_meetings b)\<rparr>)"

end
