(* ===== verification/MeetingProps.thy ===== *)
theory MeetingProps
  imports Meetings
begin

text \<open>
  A meeting is booked once however often its panel is submitted, stays called off once it is, and is counted under the
  tab that lists it.
\<close>

section \<open>What a step keeps\<close>

text \<open>A meeting without the columns the calendar's worker writes.\<close>

definition details :: "meeting_row \<Rightarrow> meeting_row" where
  "details m = m\<lparr>mg_sync := SyncPending, mg_external := None, mg_syncError := None, mg_link := None, mg_updatedAt := 0\<rparr>"

definition kept :: "meeting_row \<Rightarrow> meeting_row \<Rightarrow> bool" where
  "kept m m' = (mg_id m' = mg_id m \<and> mg_org m' = mg_org m \<and> mg_key m' = mg_key m
     \<and> (mg_status m = CalledOff \<longrightarrow> details m' = details m))"

lemma details_fields [simp]:
  "mg_status (details m) = mg_status m" "mg_deletedAt (details m) = mg_deletedAt m" "mg_reason (details m) = mg_reason m"
  by (simp_all add: details_def)

lemma details_status: "details m = details m' \<Longrightarrow> mg_status m = mg_status m' \<and> mg_deletedAt m = mg_deletedAt m' \<and> mg_reason m = mg_reason m'"
  by (metis details_fields)

lemma kept_refl [simp]: "kept m m" by (simp add: kept_def)

lemma kept_trans: "kept a b \<Longrightarrow> kept b c \<Longrightarrow> kept a c"
  unfolding kept_def by (metis details_status)

definition diary_le :: "diary \<Rightarrow> diary \<Rightarrow> bool" where
  "diary_le b b' = (\<forall>m\<in>set (dy_meetings b). \<exists>m'\<in>set (dy_meetings b'). kept m m')"

definition diary_ok :: "diary \<Rightarrow> bool" where
  "diary_ok b = (distinct (map mg_id (dy_meetings b)) \<and> distinct (map (\<lambda>m. (mg_org m, mg_key m)) (dy_meetings b))
     \<and> (\<forall>m\<in>set (dy_meetings b). mg_id m < dy_next b \<and> mg_start m < mg_end m))"

definition good_step :: "diary \<Rightarrow> diary \<Rightarrow> bool" where
  "good_step b b' = (diary_ok b \<longrightarrow> diary_ok b' \<and> diary_le b b')"

lemma good_step_refl [simp]: "good_step b b" by (force simp: good_step_def diary_le_def)

lemma enqueue_sync_rows [simp]: "dy_meetings (enqueue_sync e b) = dy_meetings b" "dy_next (enqueue_sync e b) = dy_next b"
  by (simp_all add: enqueue_sync_def)

lemma good_step_rows: "dy_meetings b1 = dy_meetings b2 \<Longrightarrow> dy_next b1 = dy_next b2 \<Longrightarrow> good_step b b1 = good_step b b2"
  by (simp add: good_step_def diary_ok_def diary_le_def)

lemma good_step_fold: "good_step b (fold (\<lambda>m. enqueue_sync (g m)) ms b1) = good_step b b1"
  by (induction ms arbitrary: b1) (simp_all add: good_step_rows [of "enqueue_sync e x" x for e x])

text \<open>Rows that are updated in place, keeping what must be kept.\<close>

lemma good_update:
  assumes "\<And>m. m \<in> set (dy_meetings b) \<Longrightarrow> p m \<Longrightarrow> kept m (f m)" and "dy_next b' = dy_next b" and "dy_meetings b' = upd p f (dy_meetings b)"
    and "diary_ok b \<Longrightarrow> list_all (\<lambda>m. mg_start m < mg_end m) (upd p f (dy_meetings b))"
  shows "good_step b b'"
proof -
  have same: "map k (upd p f (dy_meetings b)) = map k (dy_meetings b)"
    if "\<And>m m'. kept m m' \<Longrightarrow> k m' = k m" for k :: "meeting_row \<Rightarrow> 'a"
    using assms(1) that by (auto simp: upd_def)
  have ids: "map mg_id (upd p f (dy_meetings b)) = map mg_id (dy_meetings b)" by (rule same) (simp add: kept_def)
  have keys: "map (\<lambda>m. (mg_org m, mg_key m)) (upd p f (dy_meetings b)) = map (\<lambda>m. (mg_org m, mg_key m)) (dy_meetings b)"
    by (rule same) (simp add: kept_def)
  have "\<forall>m\<in>set (upd p f (dy_meetings b)). mg_id m < dy_next b" if "diary_ok b"
    using that assms(1) by (auto simp: in_set_upd diary_ok_def kept_def)
  moreover have "diary_le b b'"
    unfolding diary_le_def assms(3)
  proof
    fix m assume "m \<in> set (dy_meetings b)"
    then show "\<exists>m'\<in>set (upd p f (dy_meetings b)). kept m m'"
      using assms(1) by (intro bexI [of _ "if p m then f m else m"]) (auto simp: in_set_upd)
  qed
  moreover have "diary_ok b'" if "diary_ok b" and "\<forall>m\<in>set (upd p f (dy_meetings b)). mg_id m < dy_next b"
    using that assms(4) unfolding diary_ok_def assms(2,3) ids keys by (simp add: list_all_iff)
  ultimately show ?thesis unfolding good_step_def by blast
qed

lemma update_meetings_D:
  "update_meetings p f b = Inr (rows, b') \<Longrightarrow> rows = map f (filter p (dy_meetings b)) \<and> b' = b\<lparr>dy_meetings := upd p f (dy_meetings b)\<rparr>
     \<and> list_all (\<lambda>m. mg_start m < mg_end m) (upd p f (dy_meetings b))"
  by (auto simp: update_meetings_def Let_def split: if_splits)

lemma good_update_meetings:
  assumes "update_meetings p f b = Inr (rows, b')" and "\<And>m. p m \<Longrightarrow> kept m (f m)"
  shows "good_step b b'"
  using update_meetings_D [OF assms(1)] assms(2) by (intro good_update [of b p f]) auto

lemma one_update:
  assumes "bindE (update_meetings p f b) (\<lambda>(rows, b'). Inr (case rows of [] \<Rightarrow> (None, b') | m # _ \<Rightarrow> (Some m, enqueue_sync (g m) b'))) = Inr (r, b2)"
  shows "\<exists>rows b1. update_meetings p f b = Inr (rows, b1) \<and> dy_meetings b2 = dy_meetings b1 \<and> dy_next b2 = dy_next b1
     \<and> r = (case rows of [] \<Rightarrow> None | m # _ \<Rightarrow> Some m) \<and> (r = None \<longrightarrow> b2 = b1)"
proof -
  from assms obtain rows b1 where u: "update_meetings p f b = Inr (rows, b1)"
    and r: "(case rows of [] \<Rightarrow> (None, b1) | m # _ \<Rightarrow> (Some m, enqueue_sync (g m) b1)) = (r, b2)"
    by (auto simp: bindE_Inr_iff)
  show ?thesis by (intro exI [of _ rows] exI [of _ b1]) (use u r in \<open>cases rows; auto\<close>)
qed

lemma good_one_update:
  assumes "bindE (update_meetings p f b) (\<lambda>(rows, b'). Inr (case rows of [] \<Rightarrow> (None, b') | m # _ \<Rightarrow> (Some m, enqueue_sync (g m) b'))) = Inr (r, b2)"
    and "\<And>m. p m \<Longrightarrow> kept m (f m)"
  shows "good_step b b2"
  using one_update [OF assms(1)] good_update_meetings [OF _ assms(2)] good_step_rows by metis

lemma schedule_tx_good: "schedule_tx m g b = Inr ((row, fresh), b') \<Longrightarrow> good_step b b'"
proof (cases "byIdempotencyKey (mg_org m) (mg_key m) b")
  case None
  assume s: "schedule_tx m g b = Inr ((row, fresh), b')"
  from None have "\<forall>x\<in>set (dy_meetings b). (mg_org x, mg_key x) \<noteq> (mg_org m, mg_key m)"
    by (auto simp: byIdempotencyKey_def dest: find_NoneD)
  moreover have "dy_meetings b' = dy_meetings b @ [m\<lparr>mg_id := dy_next b\<rparr>]" "dy_next b' = dy_next b + 1" "mg_start m < mg_end m"
    using s None by (auto simp: schedule_tx_def Let_def split: if_splits)
  ultimately show ?thesis unfolding good_step_def diary_ok_def diary_le_def by (fastforce intro: kept_refl)
qed (auto simp: schedule_tx_def)

lemma schedule_meeting_D:
  assumes "schedule_meeting org user c freshKey now d b = (r, b')"
  shows "(\<exists>e. r = Inl e \<and> b' = b) \<or> (\<exists>m g row fresh. mg_org m = org \<and> mg_key m = or_kept (sk_key c) freshKey
     \<and> g = syncEvent SyncCreate (sk_mode c = Video) now \<and> schedule_tx m g b = Inr ((row, fresh), b') \<and> r = Inr (row, fresh))"
proof (cases r)
  case (Inl e)
  with assms show ?thesis by (auto simp: schedule_meeting_def split: sum.splits)
next
  case (Inr x)
  with assms obtain venue where "schedule_tx (new_meeting org user c freshKey (placeOf (sk_mode c) venue) now)
      (syncEvent SyncCreate (pl_needsLink (placeOf (sk_mode c) venue)) now) b = Inr (x, b')"
    by (auto simp: schedule_meeting_def bindE_Inr_iff Let_def split: sum.splits)
  moreover have "pl_needsLink (placeOf (sk_mode c) venue) = (sk_mode c = Video)" by (simp add: placeOf_def split: meeting_mode.split)
  ultimately show ?thesis using Inr by (cases x) (force simp: new_meeting_def)
qed

lemma cancel_meeting_good: "cancel_meeting org i reason now b = (r, b') \<Longrightarrow> good_step b b'"
  by (auto simp: cancel_meeting_def split: sum.splits option.splits)
     (auto simp: cancel_tx_def kept_def elim!: good_one_update)

lemma diary_step_good: "diary_step b b' \<Longrightarrow> good_step b b'"
proof (induction rule: diary_step.induct)
  case (booked org user c freshKey now d b r b')
  from schedule_meeting_D [OF this] show ?case by (auto dest: schedule_tx_good)
next
  case (moved org i v c p buildSync now b r b')
  then show ?case unfolding reschedule_tx_def
    by (rule good_one_update) (auto simp: kept_def meeting_patch_def)
next
  case (called_off org i reason now b r b')
  then show ?case by (rule cancel_meeting_good)
next
  case (retried org i buildSync now b r b')
  then show ?case unfolding retrySync_tx_def
    by (rule good_one_update) (auto simp: kept_def details_def)
next
  case (resynced org now b n b')
  then show ?case
    by (auto simp: resyncUnsynced_def resyncUnsynced_tx_def bindE_Inr_iff good_step_fold kept_def details_def
        elim!: good_update_meetings split: sum.splits)
next
  case (worked b i st err ext link)
  show ?case by (rule good_update) (auto simp: kept_def details_def worker_write_def diary_ok_def list_all_iff in_set_upd)
qed

lemma diary_run:
  assumes "diary_step\<^sup>*\<^sup>* b b'" and "diary_ok b"
  shows "diary_ok b' \<and> diary_le b b'"
  using assms
proof (induction rule: rtranclp_induct)
  case (step y z)
  with diary_step_good [OF step(2)] show ?case unfolding good_step_def diary_le_def by (meson kept_trans)
qed (force simp: diary_le_def)

section \<open>Called off\<close>

lemma findMeeting_Some: "findMeeting org i b = Some m \<Longrightarrow> m \<in> set (dy_meetings b) \<and> mg_id m = i \<and> mg_org m = org \<and> mg_deletedAt m = None"
  by (auto simp: findMeeting_def dest: find_SomeD)

lemma meeting_row_unique: "diary_ok b \<Longrightarrow> m \<in> set (dy_meetings b) \<Longrightarrow> m' \<in> set (dy_meetings b) \<Longrightarrow> mg_id m = mg_id m' \<Longrightarrow> m = m'"
  by (auto simp: diary_ok_def distinct_map dest: inj_onD)

lemma findMeeting_row:
  "diary_ok b \<Longrightarrow> m \<in> set (dy_meetings b) \<Longrightarrow> mg_org m = org \<Longrightarrow> mg_deletedAt m = None \<Longrightarrow> findMeeting org (mg_id m) b = Some m"
  unfolding findMeeting_def by (rule find_uniq [of mg_id]) (auto simp: diary_ok_def)

lemma update_none:
  assumes "diary_ok b" and "\<And>m. m \<in> set (dy_meetings b) \<Longrightarrow> \<not> p m"
  shows "update_meetings p f b = Inr ([], b)"
  using assms by (auto simp: update_meetings_def upd_id Let_def list_all_iff diary_ok_def filter_empty_conv)

lemma in_updated: "x \<in> set (map f (filter p xs)) \<Longrightarrow> x \<in> set (upd p f xs) \<and> (\<exists>y\<in>set xs. p y \<and> x = f y)"
  by (force simp: in_set_upd)

lemma cancelled_row:
  assumes "cancel_meeting org i reason now b = (Inr m, b1)"
  shows "m \<in> set (dy_meetings b1) \<and> mg_id m = i \<and> mg_org m = org \<and> mg_status m = CalledOff \<and> mg_reason m = reason \<and> mg_deletedAt m = None"
proof -
  let ?p = "\<lambda>m. mg_id m = i \<and> mg_org m = org \<and> mg_status m = Scheduled \<and> mg_deletedAt m = None"
  let ?f = "\<lambda>m. m\<lparr>mg_status := CalledOff, mg_reason := reason, mg_cancelledAt := Some now, mg_sync := SyncPending, mg_updatedAt := now\<rparr>"
  from assms have "cancel_tx org i reason (syncEvent SyncCancel False now) now b = Inr (Some m, b1)"
    by (auto simp: cancel_meeting_def split: sum.splits option.splits)
  from one_update [OF this [unfolded cancel_tx_def]] obtain rows b0 where u: "update_meetings ?p ?f b = Inr (rows, b0)"
    and "dy_meetings b1 = dy_meetings b0" "Some m = (case rows of [] \<Rightarrow> None | m # _ \<Rightarrow> Some m)" by blast
  then have "m \<in> set rows" by (cases rows) auto
  with update_meetings_D [OF u] have "m \<in> set (map ?f (filter ?p (dy_meetings b)))" by simp
  from in_updated [OF this] obtain y where "m \<in> set (upd ?p ?f (dy_meetings b))" "?p y" "m = ?f y" by blast
  moreover have "dy_meetings b1 = upd ?p ?f (dy_meetings b)" using update_meetings_D [OF u] \<open>dy_meetings b1 = dy_meetings b0\<close> by simp
  ultimately show ?thesis by simp
qed


section \<open>Booked\<close>

lemma schedule_tx_fresh:
  assumes "schedule_tx m g b = Inr ((row, True), b')"
  shows "row \<in> set (dy_meetings b') \<and> mg_id row = dy_next b \<and> mg_org row = mg_org m \<and> mg_key row = mg_key m \<and> dy_outbox b' = dy_outbox b @ [g row]"
  using assms by (auto simp: schedule_tx_def enqueue_sync_def Let_def split: option.splits if_splits)

lemma schedule_tx_again:
  assumes "diary_ok b" and "x \<in> set (dy_meetings b)" and "mg_org x = mg_org m" and "mg_key x = mg_key m"
  shows "schedule_tx m g b = Inr ((x, False), b)"
proof -
  have "byIdempotencyKey (mg_org m) (mg_key m) b = Some x"
    unfolding byIdempotencyKey_def by (rule find_uniq [of "\<lambda>m. (mg_org m, mg_key m)"]) (use assms in \<open>auto simp: diary_ok_def\<close>)
  then show ?thesis by (simp add: schedule_tx_def)
qed


section \<open>Tabs\<close>

lemma bucketWhere_bucket: "bucketWhere k now m \<Longrightarrow> bucketFor (mg_date m) now = k"
  by (auto simp: bucketWhere_def bucketFor_def split: meeting_bucket.splits)

lemma listWhere_bucket:
  "meeting_listWhere org (f\<lparr>mf_bucket := Some k\<rparr>) now m \<longleftrightarrow> meeting_listWhere org (f\<lparr>mf_bucket := None\<rparr>) now m \<and> bucketWhere k now m"
  by (cases "mf_search f") (auto simp: meeting_listWhere_def)

definition tab_count :: "meeting_bucket \<Rightarrow> meeting_counts \<Rightarrow> int" where
  "tab_count k c = (case k of TodayBucket \<Rightarrow> mc_today c | UpcomingBucket \<Rightarrow> mc_upcoming c | PastBucket \<Rightarrow> mc_past c)"

lemma tab_of: "tab_count k (countByBucket org f now b)
    = int (length (filter (bucketWhere k now) (filter (meeting_listWhere org (f\<lparr>mf_bucket := None\<rparr>) now) (dy_meetings b))))"
  by (cases k) (simp_all add: tab_count_def countByBucket_def bucketWhere_def Let_def)

lemma filter_listWhere_bucket:
  "filter (meeting_listWhere org (f\<lparr>mf_bucket := Some k\<rparr>) now) ms
   = filter (bucketWhere k now) (filter (meeting_listWhere org (f\<lparr>mf_bucket := None\<rparr>) now) ms)"
  unfolding filter_filter by (rule filter_cong) (auto simp: listWhere_bucket)

lemma length_partition:
  "(\<And>x. x \<in> set xs \<Longrightarrow> (if P x then 1 else 0) + (if Q x then 1 else 0) + (if R x then 1 else 0) + (if S x then 1 else 0) = (1::nat))
   \<Longrightarrow> length (filter P xs) + length (filter Q xs) + length (filter R xs) + length (filter S xs) = length xs"
proof (induction xs)
  case (Cons x xs)
  have "(if P x then 1 else 0) + (if Q x then 1 else 0) + (if R x then 1 else 0) + (if S x then 1 else 0) = (1::nat)"
    using Cons.prems by simp
  moreover have "length (filter P xs) + length (filter Q xs) + length (filter R xs) + length (filter S xs) = length xs"
    using Cons by simp
  ultimately show ?case by (cases "P x"; cases "Q x"; cases "R x"; cases "S x"; simp)
qed simp

text \<open>
  The tabs describe the list: each tab's number is the number of meetings its list has under the same filters, every
  meeting listed under a tab is labelled with it, and the tabs together are all meetings but the called-off ones whose
  day has not passed.
\<close>
theorem tabs_describe_the_list:
  "snd (meeting_page org (f\<lparr>mf_bucket := Some k\<rparr>) now b) = tab_count k (countByBucket org f now b)
   \<and> filter (\<lambda>m. mn_bucket (toMeetingEntry m name now) \<noteq> k) (fst (meeting_page org (f\<lparr>mf_bucket := Some k\<rparr>) now b)) = []
   \<and> mc_today (countByBucket org f now b) + mc_upcoming (countByBucket org f now b) + mc_past (countByBucket org f now b)
       + int (length (filter (\<lambda>m. mg_status m = CalledOff \<and> bangkokDay now \<le> mg_date m)
           (filter (meeting_listWhere org (f\<lparr>mf_bucket := None\<rparr>) now) (dy_meetings b))))
     = mc_all (countByBucket org f now b)"
proof (intro conjI)
  show "snd (meeting_page org (f\<lparr>mf_bucket := Some k\<rparr>) now b) = tab_count k (countByBucket org f now b)"
    unfolding tab_of meeting_page_def Let_def snd_conv filter_listWhere_bucket ..
  show "filter (\<lambda>m. mn_bucket (toMeetingEntry m name now) \<noteq> k) (fst (meeting_page org (f\<lparr>mf_bucket := Some k\<rparr>) now b)) = []"
    by (auto simp: filter_empty_conv meeting_page_def page_of_def toMeetingEntry_def Let_def listWhere_bucket
        dest!: in_set_takeD in_set_dropD bucketWhere_bucket)
  let ?rows = "filter (meeting_listWhere org (f\<lparr>mf_bucket := None\<rparr>) now) (dy_meetings b)"
  have "length (filter (\<lambda>m. mg_date m = bangkokDay now \<and> mg_status m \<noteq> CalledOff) ?rows)
      + length (filter (\<lambda>m. mg_date m > bangkokDay now \<and> mg_status m \<noteq> CalledOff) ?rows)
      + length (filter (\<lambda>m. mg_date m < bangkokDay now) ?rows)
      + length (filter (\<lambda>m. mg_status m = CalledOff \<and> bangkokDay now \<le> mg_date m) ?rows) = length ?rows"
    by (rule length_partition) auto
  then show "mc_today (countByBucket org f now b) + mc_upcoming (countByBucket org f now b) + mc_past (countByBucket org f now b)
       + int (length (filter (\<lambda>m. mg_status m = CalledOff \<and> bangkokDay now \<le> mg_date m) ?rows)) = mc_all (countByBucket org f now b)"
    unfolding countByBucket_def Let_def by simp
qed

section \<open>Edits\<close>

text \<open>Two edits made from the same version: the second is refused and changes nothing.\<close>

lemma edit_advances:
  assumes "reschedule_tx org i v patch g now b = Inr (Some m, b1)" and "diary_ok b" and "\<And>x. mg_id (patch x) = mg_id x \<and> mg_org (patch x) = mg_org x"
    and "x \<in> set (dy_meetings b1)" and "mg_id x = i"
  shows "mg_version x = v + 1"
proof -
  let ?p = "\<lambda>m. mg_id m = i \<and> mg_org m = org \<and> mg_version m = v \<and> mg_status m = Scheduled \<and> mg_deletedAt m = None"
  let ?f = "\<lambda>m. (patch m)\<lparr>mg_sync := SyncPending, mg_syncError := None, mg_updatedAt := now, mg_version := v + 1\<rparr>"
  from one_update [OF assms(1) [unfolded reschedule_tx_def]] obtain rows b0 where u: "update_meetings ?p ?f b = Inr (rows, b0)"
    and b1: "dy_meetings b1 = dy_meetings b0" "Some m = (case rows of [] \<Rightarrow> None | m # _ \<Rightarrow> Some m)" by blast
  from b1 have "rows \<noteq> []" by auto
  with update_meetings_D [OF u] have "filter ?p (dy_meetings b) \<noteq> []" by auto
  then obtain y where y: "y \<in> set (dy_meetings b)" "?p y" by (auto simp: filter_empty_conv)
  from assms(4) update_meetings_D [OF u] b1 obtain z where z: "z \<in> set (dy_meetings b)" "x = (if ?p z then ?f z else z)" by (auto simp: in_set_upd)
  have "mg_id z = i" using z assms(3,5) by (auto split: if_splits)
  then have "z = y" using meeting_row_unique [OF assms(2) z(1) y(1)] y(2) by simp
  with z(2) y(2) show ?thesis by simp
qed

lemma reschedule_D:
  assumes "reschedule_meeting org i k now d b = (Inr m, b1)"
  shows "\<exists>c p. reschedule_tx org i (rk_version k) (meeting_patch c p) (syncEvent SyncUpdate (pl_needsLink p) now) now b = Inr (Some m, b1)"
  using assms by (auto simp: reschedule_meeting_def bindE_Inr_iff Let_def split: sum.splits option.splits) blast

lemma reschedule_refused:
  assumes "reschedule_meeting org i k now d b = (Inl e, b1)"
  shows "b1 = b \<or> (\<exists>c p. reschedule_tx org i (rk_version k) (meeting_patch c p) (syncEvent SyncUpdate (pl_needsLink p) now) now b = Inr (None, b1))"
  using assms by (auto simp: reschedule_meeting_def bindE_Inr_iff Let_def split: sum.splits option.splits)

lemma stale_edit_refused:
  assumes "reschedule_meeting org i k now d b = (Inr m, b1)" and "diary_ok b" and "rk_version k' = rk_version k"
  shows "\<exists>e. reschedule_meeting org i k' later d' b1 = (Inl e, b1)"
proof -
  from reschedule_D [OF assms(1)] obtain c p where
    tx: "reschedule_tx org i (rk_version k) (meeting_patch c p) (syncEvent SyncUpdate (pl_needsLink p) now) now b = Inr (Some m, b1)" by blast
  have ok: "diary_ok b1" using diary_step_good [OF diary_step.moved [OF tx]] assms(2) by (simp add: good_step_def)
  have "mg_version x = rk_version k + 1" if "x \<in> set (dy_meetings b1)" "mg_id x = i" for x
    using edit_advances [OF tx assms(2) _ that] by (simp add: meeting_patch_def)
  then have "\<not> (mg_id x = i \<and> mg_org x = org \<and> mg_version x = rk_version k' \<and> mg_status x = Scheduled \<and> mg_deletedAt x = None)"
    if "x \<in> set (dy_meetings b1)" for x using that assms(3) by force
  from update_none [OF ok this] have none: "reschedule_tx org i (rk_version k') patch g later b1 = Inr (None, b1)" for patch g
    by (simp add: reschedule_tx_def)
  obtain r b2 where r: "reschedule_meeting org i k' later d' b1 = (r, b2)" by force
  show ?thesis
  proof (cases r)
    case (Inl e)
    with r have "b2 = b1" using reschedule_refused [of org i k' later d' b1 e b2] none by auto
    with r Inl show ?thesis by blast
  next
    case (Inr m')
    with r reschedule_D [of org i k' later d' b1 m' b2] none show ?thesis by auto
  qed
qed

section \<open>A diary\<close>

definition call_of :: "string option \<Rightarrow> nat \<Rightarrow> schedule_command" where
  "call_of key start = \<lparr>sk_title = ''Walkthrough'', sk_date = 100, sk_start = start, sk_end = 600, sk_type = VenueMeeting, sk_mode = Video,
     sk_person = ''Bo'', sk_role = None, sk_guestEmail = ''bo@x.co'', sk_event = None, sk_notes = None, sk_key = key\<rparr>"

definition empty_diary :: diary where "empty_diary = \<lparr>dy_next = 1, dy_meetings = [], dy_outbox = []\<rparr>"
definition booking1 :: "meeting_row \<times> bool" where "booking1 = projr (fst (schedule_meeting 1 4 (call_of (Some ''k'') 540) [] 0 empty_db empty_diary))"
definition diary1 :: diary where "diary1 = snd (schedule_meeting 1 4 (call_of (Some ''k'') 540) [] 0 empty_db empty_diary)"

lemma book_call: "schedule_meeting 1 4 (call_of (Some ''k'') 540) [] 0 empty_db empty_diary = (Inr (fst booking1, True), diary1)"
proof -
  have "\<not> isl (fst (schedule_meeting 1 4 (call_of (Some ''k'') 540) [] 0 empty_db empty_diary))" and fresh: "snd booking1" by code_simp+
  then have "schedule_meeting 1 4 (call_of (Some ''k'') 540) [] 0 empty_db empty_diary = (Inr booking1, diary1)"
    by (simp add: booking1_def diary1_def prod_eq_iff)
  moreover have "booking1 = (fst booking1, True)" using fresh by (simp add: prod_eq_iff)
  ultimately show ?thesis by metis
qed

definition called_off1 :: meeting_row where "called_off1 = projr (fst (cancel_meeting 1 1 (Some ''ill'') 5 diary1))"
definition diary2 :: diary where "diary2 = snd (cancel_meeting 1 1 (Some ''ill'') 5 diary1)"

lemma call_off_call: "cancel_meeting 1 1 (Some ''ill'') 5 diary1 = (Inr called_off1, diary2)"
proof -
  have "\<not> isl (fst (cancel_meeting 1 1 (Some ''ill'') 5 diary1))" by code_simp
  then show ?thesis by (simp add: called_off1_def diary2_def prod_eq_iff)
qed

lemma empty_ok: "diary_ok empty_diary \<and> diary_ok diary1" by code_simp

definition diary3 :: diary where
  "diary3 = diary2\<lparr>dy_meetings := upd (\<lambda>m. mg_id m = 1) (worker_write Synced None (Some ''g'') None) (dy_meetings diary2)\<rparr>"

lemma to_diary3: "diary_step\<^sup>*\<^sup>* diary1 diary3" "diary_step\<^sup>*\<^sup>* diary2 diary3"
proof -
  have "diary_step diary2 diary3" unfolding diary3_def by (rule diary_step.worked)
  moreover have "diary_step diary1 diary2" using call_off_call by (rule diary_step.called_off)
  ultimately show "diary_step\<^sup>*\<^sup>* diary1 diary3" "diary_step\<^sup>*\<^sup>* diary2 diary3" by auto
qed


definition again :: "(error + meeting_row \<times> bool) \<times> diary" where
  "again = schedule_meeting 1 6 (call_of (Some ''k'') 570) [] 7 empty_db diary3"


text \<open>
  A retry reads the meeting before its transaction: one that was called off in between is sent to the calendar as a new
  invite, though the row it reads back says it is called off.
\<close>

lemma retry_invites_called_off:
  "(case retrySync_tx 1 1 (\<lambda>m. syncEvent (retry_intent (fst booking1) m) (mg_mode m = Video) 6 m) 6 diary2 of
      Inr (Some m, b) \<Rightarrow> (mg_status m, ms_intent (last (dy_outbox b))) | _ \<Rightarrow> (Scheduled, SyncCancel)) = (CalledOff, SyncCreate)"
  by code_simp

end
