(* ===== verification/Spec2Isabelle.thy ===== *)
theory Spec2Isabelle
  imports Witnesses OfferWitnesses InvoiceProps PaymentProps SeatMapWitnesses EventWitnesses WorkspaceWitnesses DiscountWitnesses CheckoutServiceWitnesses AccessWitnesses IdentityWitnesses TaxProps PayoutProps MeetingProps
begin

text \<open>
  A verification library for the booking core of the Eventa API (\<^verbatim>\<open>src/src\<close>): an
  event-ticketing backend in TypeScript (NestJS, Drizzle, PostgreSQL). Paths below are
  relative to \<^verbatim>\<open>src/src/modules\<close> unless they start with \<^verbatim>\<open>common\<close> or \<^verbatim>\<open>db\<close>.

  \<^bold>\<open>The program.\<close> A workspace (organization) lists events; an event sells ticket types from
  an allocation, either counted places or numbered seats. An attendee holds places, places an
  order, pays through Stripe, or waits in line; an organizer approves, rejects, refunds or
  offers places to the line; tax invoices are numbered as orders settle; at the door tickets
  are admitted once. Every request is a service that reads, decides and runs repository
  transactions. Services of other modules are reached through ports and their adapters.

  \<^bold>\<open>How the model corresponds to the code.\<close> The tables of \<^verbatim>\<open>db/schema\<close> are the record \<open>db\<close>
  of theory Schema: a field per table, a list of row records in the order of insertion. A
  transaction of a repository is a function from the database (and the row ids and instants
  the caller generates) to \<open>error + result \<times> db\<close>: \<open>Inl\<close> is an exception, which rolls the
  transaction back, so no database is returned. A \<^verbatim>\<open>DomainException\<close> is a value of
  \<open>error\<close> in theory Prelude, as is a unique, check or foreign-key violation of the schema. The code
  takes row locks before it reads, so transactions on one row are serial; the model orders whole
  transactions, as the step relations of CheckoutReach and Workspace do. A service that spans several
  transactions is modelled as their sequence, with the ports it calls instantiated by the
  adapters' models. Money is an \<open>int\<close> of satang; where the code multiplies by a rate the product
  is rounded as an IEEE 754 double is (theory JsNumber). Instants are milliseconds as \<open>int\<close>.
  Generated ids, the clock, digests and the provider's answers are arguments. A message keeps its wording; its
  characters outside ASCII (dashes, curly quotes) are written with their ASCII counterparts.

  \<^bold>\<open>Theories.\<close>
  \<^item> Prelude, Schema, JsNumber, JsText, Listing, Calendar, TextOutput: errors, tables and their
    lemmas, the schema, double rounding, \<^verbatim>\<open>common/util/slugify.ts\<close>, pages
    (\<^verbatim>\<open>common/http/paginated.ts\<close>), \<^verbatim>\<open>common/time/bangkok.ts\<close>, \<^verbatim>\<open>common/csv\<close>, \<^verbatim>\<open>common/xml\<close>,
    \<^verbatim>\<open>common/money\<close>.
  \<^item> Pricing, Redemptions: the VAT split, the order summary, the discount quote and the redemption
    ledger (\<^verbatim>\<open>common/money/vat.ts\<close>, \<^verbatim>\<open>checkout\<close>, \<^verbatim>\<open>discounts\<close>). The lemmas show that amounts
    add up in spite of rounding and that a limited code is never redeemed past its limit.
  \<^item> SeatHolds, HoldService: \<^verbatim>\<open>registration/seat-hold.repository.ts\<close> and the sale rules around
    it. A successful hold fits what is left; a held seat is held by one attendee.
  \<^item> CheckoutRules, CheckoutRepo: \<^verbatim>\<open>checkout/checkout.repository.ts\<close> with its pure rules: placing,
    joining the waitlist, offering, settling, rejecting, releasing, refunding.
  \<^item> CheckoutInv, CheckoutSteps, SettleSteps, RefundSteps: the invariant of the inventory (a ticket
    type's counter is the places its orders hold; a seat has at most one live assignment), kept by each
    transaction. CheckoutReach composes the transactions into one step relation, interprets the
    locale of invariants on it, and Scenario computes a small workspace for the witnesses.
  \<^item> CheckoutProps, DecisionProps, WaitlistProps: what the transactions promise, over the above.
  \<^item> Offers, OfferProps, OfferStock: the decision ports and \<open>serveInOrder\<close>
    (\<^verbatim>\<open>checkout/registration-approval.adapter.ts\<close>). The code's loop ends when a round offers
    nobody a place; the model gives it fuel, and any fuel above the number of people in line is enough,
    because each round that goes on takes one person out of the line.
  \<^item> CheckIn: \<^verbatim>\<open>check-in\<close>, the window, admission, refusal and undo.
  \<^item> PaymentsRepo, StripeAdapter, PaymentsService, RefundsService, PaymentProps: \<^verbatim>\<open>payments\<close>; Stripe's
    answers are arguments. A callback acts once, a refund is booked whole and is final.
  \<^item> Invoices, InvoiceLedger, InvoiceProps: \<^verbatim>\<open>invoices\<close>; numbers run without a gap, contents freeze.
  \<^item> Cascades, EventsRepo, Ticketing, SeatMap, SeatMapProps, SeatMapWitnesses: what the
    foreign keys do on a delete; \<^verbatim>\<open>events/events.repository.ts\<close>; \<^verbatim>\<open>ticketing\<close>; \<^verbatim>\<open>event-seating\<close>.
    A save of a seat map makes the seats exactly the grid asked for, without moving a booked seat.
  \<^item> SlugSearch, EventsService, Versioned, EventProps: \<^verbatim>\<open>events/events.service.ts\<close>. Drafts are always created
    (the search for a free address ends), only what is ready is published, edits of an event serialize by
    its version (the locale of Versioned), a deletion spares whatever refers to money or people.
  \<^item> TicketingService, TicketProps: \<^verbatim>\<open>ticketing.service.ts\<close> and the adapters it offers to checkout and the
    dashboard; an edit keeps what was sold, a removal takes nothing from a buyer.
  \<^item> Discounts, DiscountProps: \<^verbatim>\<open>discounts\<close>; used codes are frozen, counters are the redemptions, a quote is
    given only for a usable code. The generator of codes ends at the first free draw, if one comes.
  \<^item> Workspace, WorkspaceProps: one step relation over everything above; the invariant of the inventory holds in
    every state it reaches, whatever organizers edit while people book.
  \<^item> CheckoutService, Decisions: the services in front of the transactions (\<^verbatim>\<open>checkout.service.ts\<close>,
    \<^verbatim>\<open>checkout-order.service.ts\<close>, \<^verbatim>\<open>checkout-view.service.ts\<close>, \<^verbatim>\<open>checkout-waitlist.service.ts\<close>,
    \<^verbatim>\<open>registrations/registration-decisions.service.ts\<close>). CheckoutRuns shows that each of their calls, those of the
    payment services included, is a run of the workspace's transactions that meets their assumptions, so
    CheckoutServiceProps transfers the invariants to whatever is called over HTTP. A reference that is taken is drawn
    again, at most \<open>REFERENCE_ATTEMPTS\<close> times, which is the measure of that loop.
  \<^item> Access, AccessService, AccessProps, AccessWitnesses: \<^verbatim>\<open>access\<close>, members, roles and capabilities, on tables of
    their own (record \<open>people\<close>). A workspace keeps an Admin and a role that manages users, nobody hands out what they
    do not hold, a suspension is undone exactly; the last theory also shows what the guards let through.
  \<^item> Identity, IdentityService, AccountService, BookingClaim: the identity modules (\<^verbatim>\<open>auth\<close>, \<^verbatim>\<open>auth-sessions\<close>,
    \<^verbatim>\<open>auth-signup\<close>, \<^verbatim>\<open>auth-password\<close>, \<^verbatim>\<open>auth-two-factor\<close>, \<^verbatim>\<open>auth-social\<close>, \<^verbatim>\<open>auth-booking-signup\<close>,
    \<^verbatim>\<open>account-deletion\<close>) on the same tables; a token is the claims it signs, and the throttles' counters, kept in
    Redis, are an argument. IdentityProps composes all of it into one step relation: a session that ended is refused
    ever after, a password sign-in proves its account, a booking's account goes to the address of the booking.
  \<^item> TaxPeriods, TaxProps, Payouts, PayoutProps: \<^verbatim>\<open>tax-periods\<close> and \<^verbatim>\<open>payouts\<close>, on tables of their own beside the
    payments. The takings port is a locale, interpreted on Payments' statement: months add up to what moved, and a
    filed month is frozen. A failed transfer is sent once more on its own row.
  \<^item> Meetings, MeetingProps: \<^verbatim>\<open>meetings\<close>, a workspace's diary of coordination meetings and the invites it owes the
    calendar; the calendar's worker is a step that writes the sync columns of a row as it likes. A submit that is
    repeated books once, what was called off stays so, and the tabs count what they list.
  \<^item> Witnesses, OfferWitnesses, SeatMapWitnesses, EventWitnesses, WorkspaceWitnesses, DiscountWitnesses, CheckoutServiceWitnesses: each property at a concrete input.

  \<^bold>\<open>Not modelled.\<close> NestJS wiring, configuration, guards and the HTTP layer (validation of
  request bodies included, so a function's input is any value of its type); the tenant scoping of a
  transaction; logging; content around an event (page, programme, sharing), messaging, surveys and
  reports; SQL's concurrency below whole transactions, as the code's locks
  and unique indexes make the transactions on one row serial. The manifest lists every component with its status.
\<close>

end
